(* ===== verification/Prelude.thy ===== *)
theory Prelude
  imports Main "HOL-Library.Word" "HOL-Library.Char_ord" "HOL-Library.List_Lexorder"
begin

text \<open>
  The shared ground of the development: Go's error values, the state-and-error
  computations every stateful Go function becomes, the rules that carry invariants and
  frame conditions through such computations, and the string and decimal helpers of the
  standard library the sources use. Go strings are byte strings, that is HOL's
  \<open>string\<close>, and Go's \<open><\<close> on them is the byte-wise lexicographic order
  of the list and character orders of the library.
\<close>

named_theorems go_simps \<open>unfolding rules of the state-and-error combinators\<close>
named_theorems keeps_intros \<open>rules that carry an invariant through a computation\<close>

section \<open>Machine types\<close>

type_synonym uint32 = "32 word"
type_synonym uint64 = "64 word"
type_synonym int32 = "32 word"
type_synonym int64 = "64 word"
type_synonym byte = "8 word"

section \<open>Decimal text\<close>

text \<open>\<open>strconv\<close>'s decimal form of an unsigned number and its inverse.\<close>

definition digit_char :: "nat \<Rightarrow> char" where
  "digit_char d = char_of (48 + d)"

definition is_digit :: "char \<Rightarrow> bool" where
  "is_digit c \<longleftrightarrow> 48 \<le> (of_char c :: nat) \<and> (of_char c :: nat) \<le> 57"

definition digit_val :: "char \<Rightarrow> nat" where
  "digit_val c = of_char c - 48"

fun show_nat :: "nat \<Rightarrow> string" where
  "show_nat n = (if n < 10 then [digit_char n] else show_nat (n div 10) @ [digit_char (n mod 10)])"

declare show_nat.simps [simp del]

definition show_int :: "int \<Rightarrow> string" where
  "show_int i = (if i < 0 then CHR ''-'' # show_nat (nat (- i)) else show_nat (nat i))"

definition read_digits :: "nat \<Rightarrow> string \<Rightarrow> nat" where
  "read_digits = foldl (\<lambda>acc c. acc * 10 + digit_val c)"

definition parse_nat :: "string \<Rightarrow> nat option" where
  "parse_nat s = (if s \<noteq> [] \<and> list_all is_digit s then Some (read_digits 0 s) else None)"

lemma is_digit_digit_char [simp]: "d < 10 \<Longrightarrow> is_digit (digit_char d)"
  by (simp add: is_digit_def digit_char_def)

lemma digit_val_digit_char [simp]: "d < 10 \<Longrightarrow> digit_val (digit_char d) = d"
  by (simp add: digit_val_def digit_char_def)

lemma read_digits_append [simp]: "read_digits a (s @ t) = read_digits (read_digits a s) t"
  by (simp add: read_digits_def)

lemma read_digits_Cons [simp]: "read_digits a (c # t) = read_digits (a * 10 + digit_val c) t"
  by (simp add: read_digits_def)

lemma read_digits_Nil [simp]: "read_digits a [] = a"
  by (simp add: read_digits_def)

lemma show_nat_digits: "show_nat n \<noteq> [] \<and> list_all is_digit (show_nat n) \<and> read_digits 0 (show_nat n) = n"
proof (induction n rule: show_nat.induct)
  case (1 n)
  then show ?case
    by (subst (1 2 3) show_nat.simps) simp
qed

lemma parse_show_nat [simp]: "parse_nat (show_nat n) = Some n"
  by (simp add: parse_nat_def show_nat_digits)

lemma show_nat_nonempty [simp]: "show_nat n \<noteq> []"
  using show_nat_digits by blast

lemma show_nat_inject: "show_nat m = show_nat n \<longleftrightarrow> m = n"
  by (metis option.inject parse_show_nat)

section \<open>String helpers\<close>

definition HasPrefix :: "string \<Rightarrow> string \<Rightarrow> bool" where
  "HasPrefix s p \<longleftrightarrow> take (length p) s = p"

definition HasSuffix :: "string \<Rightarrow> string \<Rightarrow> bool" where
  "HasSuffix s p \<longleftrightarrow> length p \<le> length s \<and> drop (length s - length p) s = p"

definition TrimSuffix :: "string \<Rightarrow> string \<Rightarrow> string" where
  "TrimSuffix s p = (if HasSuffix s p then take (length s - length p) s else s)"

text \<open>\<open>strings.ContainsAny(s, chars)\<close>: some byte of \<open>s\<close> is in \<open>chars\<close>.\<close>

definition ContainsAny :: "string \<Rightarrow> string \<Rightarrow> bool" where
  "ContainsAny s cs \<longleftrightarrow> list_ex (\<lambda>c. c \<in> set cs) s"

text \<open>\<open>strings.Contains(s, sub)\<close>: \<open>sub\<close> starts at some position of \<open>s\<close>.\<close>

fun Contains :: "string \<Rightarrow> string \<Rightarrow> bool" where
  "Contains [] p = (p = [])"
| "Contains (c # s) p = (HasPrefix (c # s) p \<or> Contains s p)"

definition lower_char :: "char \<Rightarrow> char" where
  "lower_char c =
     (if 65 \<le> (of_char c :: nat) \<and> (of_char c :: nat) \<le> 90 then char_of (of_char c + 32 :: nat) else c)"

text \<open>\<open>strings.ToLower\<close>, on ASCII.\<close>

definition ToLower :: "string \<Rightarrow> string" where
  "ToLower = map lower_char"

definition is_space :: "char \<Rightarrow> bool" where
  "is_space c \<longleftrightarrow> c = CHR 0x09 \<or> c = CHR 0x0A \<or> c = CHR 0x0B \<or> c = CHR 0x0C \<or> c = CHR 0x0D \<or> c = CHR 0x20"

text \<open>\<open>strings.TrimSpace\<close>, on ASCII.\<close>

definition TrimSpace :: "string \<Rightarrow> string" where
  "TrimSpace s = rev (dropWhile is_space (rev (dropWhile is_space s)))"

fun join_with :: "string \<Rightarrow> string list \<Rightarrow> string" where
  "join_with sep [] = []"
| "join_with sep [x] = x"
| "join_with sep (x # y # xs) = x @ sep @ join_with sep (y # xs)"

text \<open>\<open>strings.ReplaceAll\<close> for a one-byte pattern.\<close>

definition replace_char :: "char \<Rightarrow> string \<Rightarrow> string \<Rightarrow> string" where
  "replace_char c r s = concat (map (\<lambda>x. if x = c then r else [x]) s)"

definition hex_char :: "nat \<Rightarrow> char" where
  "hex_char d = (if d < 10 then char_of (48 + d) else char_of (87 + d))"

text \<open>The \<open>%02x\<close> form of a byte.\<close>

definition hex_byte :: "byte \<Rightarrow> string" where
  "hex_byte b = [hex_char (unat b div 16), hex_char (unat b mod 16)]"

definition hex_string :: "byte list \<Rightarrow> string" where
  "hex_string bs = concat (map hex_byte bs)"

text \<open>The \<open>%q\<close> form of a string, on ASCII.\<close>

definition quote_char :: "char \<Rightarrow> string" where
  "quote_char c =
    (if c = CHR 0x22 then [CHR 0x5C, CHR 0x22]
     else if c = CHR 0x5C then [CHR 0x5C, CHR 0x5C]
     else if c = CHR 0x07 then [CHR 0x5C, CHR ''a'']
     else if c = CHR 0x08 then [CHR 0x5C, CHR ''b'']
     else if c = CHR 0x0C then [CHR 0x5C, CHR ''f'']
     else if c = CHR 0x0A then [CHR 0x5C, CHR ''n'']
     else if c = CHR 0x0D then [CHR 0x5C, CHR ''r'']
     else if c = CHR 0x09 then [CHR 0x5C, CHR ''t'']
     else if c = CHR 0x0B then [CHR 0x5C, CHR ''v'']
     else if 32 \<le> (of_char c :: nat) \<and> (of_char c :: nat) < 127 then [c]
     else [CHR 0x5C, CHR ''x'', hex_char (of_char c div 16), hex_char (of_char c mod 16)])"

definition Quote :: "string \<Rightarrow> string" where
  "Quote s = [CHR 0x22] @ concat (map quote_char s) @ [CHR 0x22]"

lemma HasPrefix_append [simp]: "HasPrefix (p @ s) p"
  by (simp add: HasPrefix_def)

lemma HasPrefix_iff: "HasPrefix s p \<longleftrightarrow> (\<exists>t. s = p @ t)"
  by (metis HasPrefix_append HasPrefix_def append_take_drop_id)

lemma HasSuffix_append [simp]: "HasSuffix (s @ p) p"
  by (simp add: HasSuffix_def)

lemma TrimSuffix_append [simp]: "TrimSuffix (s @ p) p = s"
  by (simp add: TrimSuffix_def)

lemma ContainsAny_iff: "ContainsAny s cs \<longleftrightarrow> set s \<inter> set cs \<noteq> {}"
  by (auto simp: ContainsAny_def list_ex_iff)

lemma replace_char_append [simp]: "replace_char c r (s @ t) = replace_char c r s @ replace_char c r t"
  by (simp add: replace_char_def)

lemma replace_char_Cons [simp]:
  "replace_char c r (x # s) = (if x = c then r else [x]) @ replace_char c r s"
  by (simp add: replace_char_def)

lemma replace_char_Nil [simp]: "replace_char c r [] = []"
  by (simp add: replace_char_def)

lemma set_replace_char: "set (replace_char c r s) \<subseteq> set s \<union> set r"
  by (induction s) auto

section \<open>Go errors\<close>

text \<open>
  An error of the program is the sentinel (or typed value) at the bottom of its wrapping
  chain, which is all \<open>errors.Is\<close> and \<open>errors.As\<close> can see, and the text
  \<open>Error()\<close> returns. \<open>fmt.Errorf\<close> with \<open>%w\<close> keeps the
  sentinel and adds text; with \<open>%v\<close> only the text survives.
\<close>

datatype rpc_code =
    RpcInvalidArgument | RpcFailedPrecondition | RpcNotFound | RpcAborted | RpcUnavailable | RpcInternal
  | RpcUnauthenticated | RpcPermissionDenied | RpcUnknown

datatype api_reason = ReasonNotFound | ReasonAlreadyExists | ReasonConflict | ReasonInvalid | ReasonUnknown

datatype sentinel =
    ErrInvalidRequest | ErrConflict | ErrNotFound | ErrUnauthorized | ErrUnavailable | ErrProtocol
  | NetNotFound | NetAlreadyExists | NetInvalidParams | NetConflict | NetInternal
  | SqlErrNoRows | ErrIdempotencyConflict | ErrOperationNotFound
  | ErrInvalidUnit | ErrInvalidInstallationID
  | StatusError int string
  | RpcStatus rpc_code
  | ApiStatus api_reason
  | ContextCanceled | ContextDeadlineExceeded
  | VmNotFound
  | OsErrNotExist
  | QemuImgInfoParse
  | PlainError
  | NilDereference

datatype goerr = GoErr (err_kind: sentinel) (err_text: string)

text \<open>The text of a sentinel: the argument of its \<open>errors.New\<close>.\<close>

fun sentinel_text :: "sentinel \<Rightarrow> string" where
  "sentinel_text ErrInvalidRequest = ''invalid host-agent request''"
| "sentinel_text ErrConflict = ''host-agent operation conflict''"
| "sentinel_text ErrNotFound = ''host-agent resource not found''"
| "sentinel_text ErrUnauthorized = ''host-agent request unauthorized''"
| "sentinel_text ErrUnavailable = ''host-agent unavailable''"
| "sentinel_text ErrProtocol = ''host-agent protocol mismatch''"
| "sentinel_text NetNotFound = ''not_found''"
| "sentinel_text NetAlreadyExists = ''already_exists''"
| "sentinel_text NetInvalidParams = ''invalid_params''"
| "sentinel_text NetConflict = ''conflict''"
| "sentinel_text NetInternal = ''internal''"
| "sentinel_text SqlErrNoRows = ''sql: no rows in result set''"
| "sentinel_text ErrIdempotencyConflict = ''inventory idempotency conflict''"
| "sentinel_text ErrOperationNotFound = ''inventory operation not found''"
| "sentinel_text ErrInvalidUnit = ''invalid persistent unit''"
| "sentinel_text ErrInvalidInstallationID = ''invalid installation ID''"
| "sentinel_text (StatusError code body) =
     ''cloud-hypervisor API returned status '' @ show_int code @
     (if TrimSpace body \<noteq> [] then '': '' @ TrimSpace body else [])"
| "sentinel_text (RpcStatus code) = ''rpc error''"
| "sentinel_text (ApiStatus reason) = ''api error''"
| "sentinel_text ContextCanceled = ''context canceled''"
| "sentinel_text ContextDeadlineExceeded = ''context deadline exceeded''"
| "sentinel_text VmNotFound = ''vm not found''"
| "sentinel_text OsErrNotExist = ''file does not exist''"
| "sentinel_text QemuImgInfoParse = ''parse qemu-img info''"
| "sentinel_text PlainError = []"
| "sentinel_text NilDereference = ''runtime error: invalid memory address or nil pointer dereference''"

definition sentinel_err :: "sentinel \<Rightarrow> goerr" where
  "sentinel_err k = GoErr k (sentinel_text k)"

text \<open>\<open>errors.New(text)\<close> and \<open>fmt.Errorf\<close> without \<open>%w\<close>.\<close>

definition plain_err :: "string \<Rightarrow> goerr" where
  "plain_err t = GoErr PlainError t"

text \<open>\<open>fmt.Errorf("%w: detail", sentinel)\<close>.\<close>

definition detail_err :: "sentinel \<Rightarrow> string \<Rightarrow> goerr" where
  "detail_err k d = GoErr k (sentinel_text k @ '': '' @ d)"

text \<open>\<open>fmt.Errorf("prefix: %w", err)\<close>.\<close>

definition wrap_err :: "string \<Rightarrow> goerr \<Rightarrow> goerr" where
  "wrap_err p e = GoErr (err_kind e) (p @ '': '' @ err_text e)"

definition errors_Is :: "goerr \<Rightarrow> sentinel \<Rightarrow> bool" where
  "errors_Is e k \<longleftrightarrow> err_kind e = k"

lemma err_kind_simps [simp]:
  "err_kind (sentinel_err k) = k"
  "err_kind (plain_err t) = PlainError"
  "err_kind (detail_err k d) = k"
  "err_kind (wrap_err p e) = err_kind e"
  by (simp_all add: sentinel_err_def plain_err_def detail_err_def wrap_err_def)

lemma errors_Is_simps [simp]:
  "errors_Is (sentinel_err k) k' \<longleftrightarrow> k = k'"
  "errors_Is (plain_err t) k' \<longleftrightarrow> k' = PlainError"
  "errors_Is (detail_err k d) k' \<longleftrightarrow> k = k'"
  "errors_Is (wrap_err p e) k' \<longleftrightarrow> errors_Is e k'"
  by (auto simp: errors_Is_def)

section \<open>Stateful computations that may fail\<close>

text \<open>
  A Go function that reads and writes state and returns \<open>(x, err)\<close> is a function
  from the state to either the error or the value, with the new state: state changes made
  before an early error return stay, as in Go. The combinators are plain functions:
  \<open>bindG\<close> is \<open>x, err := f(); if err != nil { return err }\<close>, and
  \<open>catchG\<close> is a call whose error the caller inspects itself.
\<close>

type_synonym ('s, 'a) go = "'s \<Rightarrow> (goerr + 'a) \<times> 's"

definition returnG :: "'a \<Rightarrow> ('s, 'a) go" where
  "returnG x = (\<lambda>s. (Inr x, s))"

definition failG :: "goerr \<Rightarrow> ('s, 'a) go" where
  "failG e = (\<lambda>s. (Inl e, s))"

definition catchG :: "('s, 'a) go \<Rightarrow> (goerr + 'a \<Rightarrow> ('s, 'b) go) \<Rightarrow> ('s, 'b) go" where
  "catchG m h = (\<lambda>s. case m s of (r, s') \<Rightarrow> h r s')"

definition bindG :: "('s, 'a) go \<Rightarrow> ('a \<Rightarrow> ('s, 'b) go) \<Rightarrow> ('s, 'b) go" where
  "bindG m k = catchG m (\<lambda>r. case r of Inl e \<Rightarrow> failG e | Inr x \<Rightarrow> k x)"

text \<open>A value or error computed without touching the state.\<close>

definition liftG :: "goerr + 'a \<Rightarrow> ('s, 'a) go" where
  "liftG r = (\<lambda>s. (r, s))"

text \<open>A Go \<open>error\<close> result: \<open>None\<close> is \<open>nil\<close>.\<close>

definition checkG :: "goerr option \<Rightarrow> ('s, unit) go" where
  "checkG r = (case r of None \<Rightarrow> returnG () | Some e \<Rightarrow> failG e)"

definition readG :: "('s \<Rightarrow> 'a) \<Rightarrow> ('s, 'a) go" where
  "readG f = (\<lambda>s. (Inr (f s), s))"

text \<open>Run a computation of a component of the state.\<close>

definition onG :: "('w \<Rightarrow> 's) \<Rightarrow> ('s \<Rightarrow> 'w \<Rightarrow> 'w) \<Rightarrow> ('s, 'a) go \<Rightarrow> ('w, 'a) go" where
  "onG get put m = (\<lambda>w. case m (get w) of (r, s') \<Rightarrow> (r, put s' w))"

text \<open>\<open>if err != nil { return fmt.Errorf("p: %w", err) }\<close>.\<close>

definition wrapG :: "string \<Rightarrow> ('s, 'a) go \<Rightarrow> ('s, 'a) go" where
  "wrapG p m = catchG m (\<lambda>r. case r of Inl e \<Rightarrow> failG (wrap_err p e) | Inr x \<Rightarrow> returnG x)"

text \<open>A loop over a slice whose body may return early with an error.\<close>

fun eachG :: "('a \<Rightarrow> ('s, unit) go) \<Rightarrow> 'a list \<Rightarrow> ('s, unit) go" where
  "eachG f [] = returnG ()"
| "eachG f (x # xs) = bindG (f x) (\<lambda>_. eachG f xs)"

text \<open>A loop that collects a result per element.\<close>

fun collectG :: "('a \<Rightarrow> ('s, 'b) go) \<Rightarrow> 'a list \<Rightarrow> ('s, 'b list) go" where
  "collectG f [] = returnG []"
| "collectG f (x # xs) = bindG (f x) (\<lambda>y. bindG (collectG f xs) (\<lambda>ys. returnG (y # ys)))"

lemmas go_defs [go_simps] =
  returnG_def failG_def catchG_def bindG_def liftG_def checkG_def readG_def onG_def

lemma return_bind [simp]: "bindG (returnG x) k = k x"
  by (simp add: go_simps)

lemma fail_bind [simp]: "bindG (failG e) k = failG e"
  by (simp add: go_simps fun_eq_iff)

lemma bind_assoc: "bindG (bindG m k) h = bindG m (\<lambda>x. bindG (k x) h)"
  by (auto simp: go_simps fun_eq_iff split: prod.splits sum.splits)

lemma check_None [simp]: "checkG None = returnG ()"
  by (simp add: checkG_def)

lemma check_Some [simp]: "checkG (Some e) = failG e"
  by (simp add: checkG_def)

lemma run_return [simp]: "returnG x s = (Inr x, s)"
  by (simp add: returnG_def)

lemma run_fail [simp]: "failG e s = (Inl e, s)"
  by (simp add: failG_def)

lemma run_bind: "bindG m k s = (case m s of (Inl e, u) \<Rightarrow> (Inl e, u) | (Inr x, u) \<Rightarrow> k x u)"
  by (simp add: go_simps split: prod.split sum.split)

lemma bindG_eq_Inr:
  "bindG m k s = (Inr y, t) \<longleftrightarrow> (\<exists>x u. m s = (Inr x, u) \<and> k x u = (Inr y, t))"
  by (auto simp: run_bind split: prod.split sum.split)

lemma catchG_eq: "catchG m h s = (r, t) \<longleftrightarrow> (\<exists>x u. m s = (x, u) \<and> h x u = (r, t))"
  by (auto simp: catchG_def split: prod.splits)

lemma catchG_case_eq:
  "catchG m (\<lambda>r. case r of Inl e \<Rightarrow> f e | Inr x \<Rightarrow> g x) s = (y, t) \<longleftrightarrow>
     (\<exists>e u. m s = (Inl e, u) \<and> f e u = (y, t)) \<or> (\<exists>x u. m s = (Inr x, u) \<and> g x u = (y, t))"
proof (cases "m s")
  case (Pair r u)
  then show ?thesis by (cases r) (auto simp: catchG_def)
qed

lemma checkG_eq_Inr [simp]: "checkG r s = (Inr y, t) \<longleftrightarrow> r = None \<and> t = s"
  by (auto simp: checkG_def split: option.splits)

lemma run_wrap:
  "wrapG p m s = (case m s of (Inl e, t) \<Rightarrow> (Inl (wrap_err p e), t) | (Inr x, t) \<Rightarrow> (Inr x, t))"
  by (simp add: wrapG_def go_simps split: prod.split sum.split)

lemma wrapG_Inr [simp]: "wrapG p m s = (Inr x, t) \<longleftrightarrow> m s = (Inr x, t)"
  by (auto simp: run_wrap split: prod.splits sum.splits)

lemma wrapG_Inl: "wrapG p m s = (Inl e, t) \<longleftrightarrow> (\<exists>e'. e = wrap_err p e' \<and> m s = (Inl e', t))"
  by (auto simp: run_wrap split: prod.splits sum.splits)

section \<open>Invariants and frame conditions\<close>

text \<open>
  \<open>steps R m\<close>: every run of \<open>m\<close>, whether it succeeds or fails, takes the
  state along \<open>R\<close>. For a reflexive and transitive \<open>R\<close> the combinators
  pass it on, so a handler is checked call by call. An invariant \<open>I\<close> is the instance
  \<open>\<lambda>s t. I s \<longrightarrow> I t\<close>; a frame condition is the instance that says which
  part of the state is equal before and after.
\<close>

definition steps :: "('s \<Rightarrow> 's \<Rightarrow> bool) \<Rightarrow> ('s, 'a) go \<Rightarrow> bool" where
  "steps R m \<longleftrightarrow> (\<forall>s. R s (snd (m s)))"

lemma stepsI: "(\<And>s r t. m s = (r, t) \<Longrightarrow> R s t) \<Longrightarrow> steps R m"
  unfolding steps_def by (metis surjective_pairing)

lemma stepsD: "steps R m \<Longrightarrow> m s = (r, t) \<Longrightarrow> R s t"
  by (metis snd_conv steps_def)

locale go_preorder =
  fixes R :: "'s \<Rightarrow> 's \<Rightarrow> bool"
  assumes R_refl: "R s s"
    and R_trans: "R s t \<Longrightarrow> R t u \<Longrightarrow> R s u"
begin

lemma steps_return [intro!, simp]: "steps R (returnG x)"
  by (simp add: steps_def R_refl)

lemma steps_fail [intro!, simp]: "steps R (failG e)"
  by (simp add: steps_def R_refl)

lemma steps_lift [intro!, simp]: "steps R (liftG r)"
  by (simp add: steps_def liftG_def R_refl)

lemma steps_check [intro!, simp]: "steps R (checkG r)"
  by (cases r) (simp_all)

lemma steps_read [intro!, simp]: "steps R (readG f)"
  by (simp add: steps_def readG_def R_refl)

lemma steps_catch [intro!]:
  assumes "steps R m" and "\<And>r. steps R (h r)"
  shows "steps R (catchG m h)"
proof (rule stepsI)
  fix s r t
  assume run: "catchG m h s = (r, t)"
  obtain r' u where u: "m s = (r', u)" by fastforce
  with run have "h r' u = (r, t)" by (simp add: catchG_def)
  then have "R u t" by (rule stepsD [OF assms(2)])
  with stepsD [OF assms(1) u] show "R s t" by (rule R_trans)
qed

lemma steps_bind [intro!]:
  assumes "steps R m" and "\<And>x. steps R (k x)"
  shows "steps R (bindG m k)"
  unfolding bindG_def using assms by (auto split: sum.split)

lemma steps_each [intro!]: "(\<And>x. x \<in> set xs \<Longrightarrow> steps R (f x)) \<Longrightarrow> steps R (eachG f xs)"
  by (induction xs) auto

lemma steps_collect [intro!]: "(\<And>x. x \<in> set xs \<Longrightarrow> steps R (f x)) \<Longrightarrow> steps R (collectG f xs)"
  by (induction xs) auto

lemma steps_if [intro!]: "(b \<Longrightarrow> steps R m) \<Longrightarrow> (\<not> b \<Longrightarrow> steps R n) \<Longrightarrow> steps R (if b then m else n)"
  by simp

lemma steps_case_sum [intro!]:
  "(\<And>e. r = Inl e \<Longrightarrow> steps R (f e)) \<Longrightarrow> (\<And>x. r = Inr x \<Longrightarrow> steps R (g x)) \<Longrightarrow>
   steps R (case r of Inl e \<Rightarrow> f e | Inr x \<Rightarrow> g x)"
  by (cases r) auto

lemma steps_case_option [intro!]:
  "(x = None \<Longrightarrow> steps R m) \<Longrightarrow> (\<And>y. x = Some y \<Longrightarrow> steps R (f y)) \<Longrightarrow>
   steps R (case x of None \<Rightarrow> m | Some y \<Rightarrow> f y)"
  by (cases x) auto

lemma steps_wrap [intro!]: "steps R m \<Longrightarrow> steps R (wrapG p m)"
  unfolding wrapG_def by auto

end

lemma steps_on:
  assumes "steps R m" and "\<And>w s'. R (get w) s' \<Longrightarrow> Q w (put s' w)"
  shows "steps Q (onG get put m)"
proof (rule stepsI)
  fix w r w'
  assume "onG get put m w = (r, w')"
  then obtain s' where "m (get w) = (r, s')" and "w' = put s' w"
    by (auto simp: onG_def split: prod.splits)
  with assms show "Q w w'" by (blast dest: stepsD)
qed

end
