(* ===== verification/GoPath.thy ===== *)
theory GoPath
  imports Prelude "HOL-Library.Sublist"
begin

text \<open>
  The part of Go's \<open>path/filepath\<close> (Unix) the agent relies on to keep its files under
  its own roots, and \<open>within\<close> of \<open>internal/agent/artifact/artifact.go\<close>. The last
  section shows that, for absolute paths, \<open>within\<close> is exactly "the cleaned root is a
  component-wise prefix of the cleaned path".
\<close>

abbreviation slash :: char where
  "slash \<equiv> CHR ''/''"

abbreviation dotdot :: string where
  "dotdot \<equiv> ''..''"

fun split_slash :: "string \<Rightarrow> string list" where
  "split_slash [] = [[]]"
| "split_slash (c # s) =
     (if c = slash then [] # split_slash s
      else case split_slash s of [] \<Rightarrow> [[c]] | x # xs \<Rightarrow> (c # x) # xs)"

definition IsAbs :: "string \<Rightarrow> bool" where
  "IsAbs p \<longleftrightarrow> p \<noteq> [] \<and> hd p = slash"

text \<open>One path element of \<open>filepath.Clean\<close>; the output so far is the reversed stack.\<close>

definition clean_step :: "bool \<Rightarrow> string list \<Rightarrow> string \<Rightarrow> string list" where
  "clean_step rooted stack x =
     (if x = [] \<or> x = ''.'' then stack
      else if x = dotdot then
        (case stack of
           [] \<Rightarrow> if rooted then [] else [dotdot]
         | y # ys \<Rightarrow> if y = dotdot then dotdot # stack else ys)
      else x # stack)"

definition clean_elems :: "string \<Rightarrow> string list" where
  "clean_elems p = rev (foldl (clean_step (IsAbs p)) [] (split_slash p))"

definition Clean :: "string \<Rightarrow> string" where
  "Clean p =
     (if IsAbs p then slash # join_with [slash] (clean_elems p)
      else if clean_elems p = [] then ''.''
      else join_with [slash] (clean_elems p))"

definition Join :: "string \<Rightarrow> string \<Rightarrow> string" where
  "Join a b = (if a \<noteq> [] then Clean (a @ [slash] @ b) else if b \<noteq> [] then Clean b else [])"

text \<open>\<open>filepath.Dir\<close>: everything up to the last separator, cleaned.\<close>

definition Dir :: "string \<Rightarrow> string" where
  "Dir p = Clean (rev (dropWhile (\<lambda>c. c \<noteq> slash) (rev p)))"

definition Base :: "string \<Rightarrow> string" where
  "Base p =
     (if p = [] then ''.''
      else let q = rev (dropWhile (\<lambda>c. c = slash) (rev p)) in
           if q = [] then [slash] else rev (takeWhile (\<lambda>c. c \<noteq> slash) (rev q)))"

text \<open>The separator-delimited elements of a cleaned path, as \<open>filepath.Rel\<close> scans them.\<close>

definition path_parts :: "string \<Rightarrow> string list" where
  "path_parts p =
     (if IsAbs p then (if tl p = [] then [] else split_slash (tl p)) else split_slash p)"

fun drop_common :: "string list \<Rightarrow> string list \<Rightarrow> string list \<times> string list" where
  "drop_common (x # xs) (y # ys) = (if x = y then drop_common xs ys else (x # xs, y # ys))"
| "drop_common xs ys = (xs, ys)"

text \<open>\<open>filepath.Rel\<close>: \<open>None\<close> is its error.\<close>

definition Rel :: "string \<Rightarrow> string \<Rightarrow> string option" where
  "Rel basepath targpath =
     (let base = Clean basepath; targ = Clean targpath in
      if targ = base then Some ''.''
      else if IsAbs base \<noteq> IsAbs targ then None
      else
        let (b, t) = drop_common (if base = ''.'' then [] else path_parts base) (path_parts targ) in
        if b \<noteq> [] \<and> t \<noteq> [] \<and> hd b = dotdot then None
        else Some (join_with [slash] (replicate (length b) dotdot @ t)))"

definition within :: "string \<Rightarrow> string \<Rightarrow> bool" where
  "within root path =
     (case Rel root path of
        None \<Rightarrow> False
      | Some relative \<Rightarrow> relative \<noteq> dotdot \<and> \<not> HasPrefix relative (dotdot @ [slash]))"

section \<open>Cleaned absolute paths\<close>

definition plain_elem :: "string \<Rightarrow> bool" where
  "plain_elem x \<longleftrightarrow> x \<noteq> [] \<and> x \<noteq> ''.'' \<and> x \<noteq> dotdot \<and> slash \<notin> set x"

lemma split_slash_nonempty [simp]: "split_slash s \<noteq> []"
  by (induction s) (auto split: list.split)

lemma split_slash_free: "x \<in> set (split_slash s) \<Longrightarrow> slash \<notin> set x"
proof (induction s arbitrary: x)
  case (Cons c s)
  then show ?case by (cases "split_slash s") (auto split: if_splits)
qed simp

lemma clean_step_plain:
  "list_all plain_elem stack \<Longrightarrow> slash \<notin> set x \<Longrightarrow> list_all plain_elem (clean_step True stack x)"
  by (cases stack) (auto simp: clean_step_def plain_elem_def)

lemma foldl_clean_plain:
  "list_all plain_elem stack \<Longrightarrow> \<forall>x\<in>set xs. slash \<notin> set x \<Longrightarrow>
   list_all plain_elem (foldl (clean_step True) stack xs)"
  by (induction xs arbitrary: stack) (auto intro: clean_step_plain)

lemma clean_elems_plain: "IsAbs p \<Longrightarrow> list_all plain_elem (clean_elems p)"
  using foldl_clean_plain [of "[]" "split_slash p"] split_slash_free [of _ p]
  by (auto simp: clean_elems_def)

lemma split_slash_append: "slash \<notin> set x \<Longrightarrow> split_slash (x @ slash # s) = x # split_slash s"
  by (induction x) auto

lemma split_slash_id: "slash \<notin> set x \<Longrightarrow> split_slash x = [x]"
  by (induction x) auto

lemma split_join: "xs \<noteq> [] \<Longrightarrow> list_all (\<lambda>x. slash \<notin> set x) xs \<Longrightarrow> split_slash (join_with [slash] xs) = xs"
  by (induction "[slash]" xs rule: join_with.induct) (auto simp: split_slash_id split_slash_append)

lemma join_empty_iff: "list_all plain_elem xs \<Longrightarrow> join_with [slash] xs = [] \<longleftrightarrow> xs = []"
  by (induction "[slash]" xs rule: join_with.induct) (auto simp: plain_elem_def)

lemma IsAbs_Clean: "IsAbs p \<Longrightarrow> IsAbs (Clean p)"
  by (simp add: Clean_def IsAbs_def)

lemma path_parts_Clean:
  assumes "IsAbs p"
  shows "path_parts (Clean p) = clean_elems p"
proof -
  have plain: "list_all plain_elem (clean_elems p)" using assms by (rule clean_elems_plain)
  have free: "list_all (\<lambda>x. slash \<notin> set x) (clean_elems p)"
    using plain by (auto simp: list_all_iff plain_elem_def)
  show ?thesis
    using assms join_empty_iff [OF plain] split_join [OF _ free]
    by (auto simp: path_parts_def Clean_def IsAbs_def)
qed

lemma Clean_eq_iff: "IsAbs p \<Longrightarrow> IsAbs q \<Longrightarrow> Clean p = Clean q \<longleftrightarrow> clean_elems p = clean_elems q"
  by (metis Clean_def path_parts_Clean)

lemma drop_common_prefix:
  "fst (drop_common xs ys) = [] \<longleftrightarrow> prefix xs ys"
  by (induction xs ys rule: drop_common.induct) auto

lemma drop_common_split:
  "\<exists>zs. xs = zs @ fst (drop_common xs ys) \<and> ys = zs @ snd (drop_common xs ys)"
proof (induction xs ys rule: drop_common.induct)
  case (1 x xs y ys)
  then show ?case by (cases "x = y") (auto intro: exI [where x = "x # _"])
qed auto

lemma join_first: "join_with [slash] (x # xs) = x \<or> (\<exists>r. join_with [slash] (x # xs) = x @ slash # r)"
  by (cases xs) auto

lemma plain_no_escape:
  assumes "plain_elem x"
  shows "join_with [slash] (x # xs) \<noteq> dotdot \<and> \<not> HasPrefix (join_with [slash] (x # xs)) (dotdot @ [slash])"
proof -
  have "x = dotdot" if "x @ slash # r = dotdot @ slash # t" for r t
  proof -
    from assms have "slash \<notin> set x" by (simp add: plain_elem_def)
    then have "split_slash (x @ slash # r) = x # split_slash r" by (rule split_slash_append)
    moreover have "split_slash (dotdot @ slash # t) = dotdot # split_slash t"
      by (rule split_slash_append) simp
    ultimately show ?thesis using that by (metis list.inject)
  qed
  with assms join_first [of x xs] show ?thesis
    by (auto simp: plain_elem_def HasPrefix_iff append_eq_Cons_conv Cons_eq_append_conv)
qed

lemma join_dotdot_escapes:
  "join_with [slash] (dotdot # xs) = dotdot \<or> HasPrefix (join_with [slash] (dotdot # xs)) (dotdot @ [slash])"
  by (cases xs) (auto simp: HasPrefix_def)

lemma within_prefix:
  assumes "IsAbs root" and "IsAbs path"
  shows "within root path \<longleftrightarrow> prefix (clean_elems root) (clean_elems path)"
proof (cases "clean_elems path = clean_elems root")
  case True
  then have "Rel root path = Some ''.''"
    using assms by (simp add: Rel_def Clean_eq_iff)
  with True show ?thesis by (simp add: within_def HasPrefix_def)
next
  case False
  obtain b t where bt: "drop_common (clean_elems root) (clean_elems path) = (b, t)" by fastforce
  then obtain zs where zs: "clean_elems root = zs @ b" "clean_elems path = zs @ t"
    using drop_common_split [of "clean_elems root" "clean_elems path"] by auto
  with assms clean_elems_plain have plain: "list_all plain_elem b" "list_all plain_elem t"
    by (metis list_all_append)+
  have "Clean root \<noteq> ''.''" using IsAbs_Clean [OF assms(1)] by (auto simp: IsAbs_def)
  moreover have "\<not> (b \<noteq> [] \<and> hd b = dotdot)" using plain(1) by (cases b) (auto simp: plain_elem_def)
  ultimately have rel: "Rel root path = Some (join_with [slash] (replicate (length b) dotdot @ t))"
    using False assms bt by (auto simp: Rel_def Clean_eq_iff IsAbs_Clean path_parts_Clean Let_def)
  show ?thesis
  proof (cases b)
    case Nil
    with zs False obtain x xs where "t = x # xs" by (cases t) auto
    with plain plain_no_escape [of x xs] rel Nil bt drop_common_prefix [of "clean_elems root" "clean_elems path"]
    show ?thesis by (simp add: within_def)
  next
    case (Cons y ys)
    with rel join_dotdot_escapes bt drop_common_prefix [of "clean_elems root" "clean_elems path"]
    show ?thesis by (auto simp: within_def)
  qed
qed

lemma clean_elems_slash_join:
  assumes "list_all plain_elem cs"
  shows "clean_elems (slash # join_with [slash] cs) = cs"
proof -
  have free: "list_all (\<lambda>x. slash \<notin> set x) cs" using assms by (auto simp: list_all_iff plain_elem_def)
  have fold: "foldl (clean_step True) st cs = rev cs @ st" for st
    using assms by (induction cs arbitrary: st) (auto simp: clean_step_def plain_elem_def)
  show ?thesis
    using split_join [OF _ free] fold [of "[]"]
    by (cases "cs = []") (simp_all add: clean_elems_def IsAbs_def clean_step_def)
qed

lemma clean_elems_Clean: "IsAbs p \<Longrightarrow> clean_elems (Clean p) = clean_elems p"
  using clean_elems_slash_join [OF clean_elems_plain] by (simp add: Clean_def)

lemma split_slash_slash: "split_slash (x @ slash # s) = split_slash x @ split_slash s"
proof (induction x)
  case (Cons c x)
  then show ?case by (cases "split_slash x") auto
qed simp

lemma clean_elems_Join:
  assumes "IsAbs a" and "plain_elem b"
  shows "clean_elems (Join a b) = clean_elems a @ [b]" and "IsAbs (Join a b)"
proof -
  have abs: "IsAbs (a @ slash # b)" and ne: "a \<noteq> []" using assms(1) by (auto simp: IsAbs_def)
  have "split_slash (a @ slash # b) = split_slash a @ [b]"
    using assms(2) by (simp add: split_slash_slash split_slash_id plain_elem_def)
  then have "clean_elems (a @ slash # b) = clean_elems a @ [b]"
    using abs assms by (simp add: clean_elems_def clean_step_def plain_elem_def)
  then show "clean_elems (Join a b) = clean_elems a @ [b]" "IsAbs (Join a b)"
    using ne abs clean_elems_Clean [OF abs] IsAbs_Clean [OF abs] by (simp_all add: Join_def)
qed

lemma within_Join: "IsAbs a \<Longrightarrow> plain_elem b \<Longrightarrow> within a (Join a b)"
  by (simp add: within_prefix clean_elems_Join)

lemma plain_elem_append:
  assumes "slash \<notin> set x" and "slash \<notin> set y" and "length y > 2"
  shows "plain_elem (x @ y)"
proof -
  have "length (x @ y) > 2" using assms(3) by simp
  then have "x @ y \<noteq> []" "x @ y \<noteq> ''.''" "x @ y \<noteq> dotdot" by (metis length_0_conv less_zeroE list.size(3) length_Cons Suc_lessD less_irrefl numeral_2_eq_2 One_nat_def)+
  with assms show ?thesis by (simp add: plain_elem_def)
qed

lemma clean_step_free:
  "\<forall>y\<in>set stack. y \<noteq> [] \<and> slash \<notin> set y \<Longrightarrow> slash \<notin> set x \<Longrightarrow>
   \<forall>y\<in>set (clean_step rooted stack x). y \<noteq> [] \<and> slash \<notin> set y"
  by (cases stack) (auto simp: clean_step_def)

lemma foldl_clean_free:
  assumes "\<forall>y\<in>set stack. y \<noteq> [] \<and> slash \<notin> set y" and "\<forall>x\<in>set xs. slash \<notin> set x"
  shows "\<forall>y\<in>set (foldl (clean_step rooted) stack xs). y \<noteq> [] \<and> slash \<notin> set y"
  using assms
proof (induction xs arbitrary: stack)
  case (Cons x xs)
  have "\<forall>y\<in>set (clean_step rooted stack x). y \<noteq> [] \<and> slash \<notin> set y"
    by (rule clean_step_free) (use Cons.prems in simp_all)
  from Cons.IH [OF this] Cons.prems(2) show ?case by simp
qed simp

lemma Clean_relative:
  assumes "\<not> IsAbs p"
  shows "\<not> IsAbs (Clean p)"
proof (cases "clean_elems p")
  case Nil
  with assms show ?thesis by (simp add: Clean_def IsAbs_def)
next
  case (Cons y ys)
  have "\<forall>y\<in>set (foldl (clean_step (IsAbs p)) [] (split_slash p)). y \<noteq> [] \<and> slash \<notin> set y"
    by (rule foldl_clean_free) (simp_all add: split_slash_free)
  then have "\<forall>y\<in>set (clean_elems p). y \<noteq> [] \<and> slash \<notin> set y" unfolding clean_elems_def by simp
  with Cons have y: "y \<noteq> []" "hd y \<noteq> slash" by (auto simp: neq_Nil_conv)
  have "Clean p = join_with [slash] (y # ys)" using assms Cons by (simp add: Clean_def)
  with y show ?thesis using join_first [of y ys] by (auto simp: IsAbs_def)
qed

lemma IsAbs_Clean_iff [simp]: "IsAbs (Clean p) = IsAbs p"
  using IsAbs_Clean Clean_relative by blast

lemma within_IsAbs:
  assumes "within root path"
  shows "IsAbs root = IsAbs path"
proof (rule ccontr)
  assume ne: "IsAbs root \<noteq> IsAbs path"
  then have "Clean path \<noteq> Clean root" using IsAbs_Clean_iff by metis
  with ne have "Rel root path = None" by (simp add: Rel_def)
  with assms show False by (simp add: within_def)
qed

text \<open>
  Containment is exact. For absolute paths, \<open>within\<close> accepts a path if and only if
  the elements of the cleaned root are a prefix of the elements of the cleaned path: no
  \<open>..\<close> element and no sibling whose name merely starts with the root's name gets in.
\<close>

theorem within_iff_prefix:
  assumes "IsAbs root" and "IsAbs path"
  shows "within root path \<longleftrightarrow> prefix (clean_elems root) (clean_elems path)"
  using assms by (rule within_prefix)

theorem within_iff_prefix_witness:
  "within ''/host-state/vms'' ''/host-state/vms/a/../cp-root.qcow2'' \<and>
   \<not> within ''/host-state/vms'' ''/host-state/vms/../images/x'' \<and> \<not> within ''/host-state/vms'' ''/host-state/vms2/x''"
  using within_iff_prefix [of "''/host-state/vms''" "''/host-state/vms/a/../cp-root.qcow2''"]
    within_iff_prefix [of "''/host-state/vms''" "''/host-state/vms/../images/x''"]
    within_iff_prefix [of "''/host-state/vms''" "''/host-state/vms2/x''"]
  by (simp add: IsAbs_def clean_elems_def clean_step_def)

end
