(* ===== verification/Ledger.thy ===== *)
theory Ledger
  imports GoPath
begin

text \<open>
  The ownership ledger (\<open>internal/agent/ownership/ledger.go\<close>): which installation is
  active and which earlier ones it may act for. The file system is explicit: the files by
  path, the temporary name \<open>os.CreateTemp\<close> picks, and which step fails. The JSON
  encoding of the file is a pair of functions. Where a theorem needs it, the hypothesis
  \<open>json_documented\<close> says what \<open>encoding/json\<close> documents: a decoded string is always
  valid UTF-8, and decoding undoes encoding for ledgers whose names are valid UTF-8. On other names
  it does not, because the encoder replaces each invalid byte; \<open>LedgerJson\<close> has a codec
  that satisfies the hypothesis and a name for which the written ledger differs.
\<close>

record ledger =
  Current :: string
  Predecessors :: "string list"

definition zero_ledger :: ledger where
  "zero_ledger = \<lparr>Current = [], Predecessors = []\<rparr>"

section \<open>Membership by binary search\<close>

text \<open>\<open>sort.Search\<close>: the loop over the half-open interval.\<close>

function search_loop :: "(nat \<Rightarrow> bool) \<Rightarrow> nat \<Rightarrow> nat \<Rightarrow> nat" where
  "search_loop f i j =
     (if i < j then
        let h = (i + j) div 2 in if f h then search_loop f i h else search_loop f (h + 1) j
      else i)"
  by pat_completeness auto
termination
  by (relation "measure (\<lambda>(f, i, j). j - i)") auto

declare search_loop.simps [simp del]

definition SearchStrings :: "string list \<Rightarrow> string \<Rightarrow> nat" where
  "SearchStrings xs x = search_loop (\<lambda>i. xs ! i \<ge> x) 0 (length xs)"

definition Owns :: "ledger \<Rightarrow> string \<Rightarrow> bool" where
  "Owns l installationID =
     (if installationID = Current l then True
      else SearchStrings (Predecessors l) installationID < length (Predecessors l) \<and>
           Predecessors l ! SearchStrings (Predecessors l) installationID = installationID)"

section \<open>Validation\<close>

definition validateID :: "string \<Rightarrow> goerr option" where
  "validateID v =
     (if v = [] \<or> length v > 128 \<or>
         ContainsAny v [CHR ''/'', CHR 0x5C, CHR 0x0D, CHR 0x0A, CHR 0x09, CHR 0x20]
      then Some (detail_err ErrInvalidInstallationID (Quote v)) else None)"

fun validate_predecessors :: "string \<Rightarrow> string list \<Rightarrow> goerr option" where
  "validate_predecessors cur [] = None"
| "validate_predecessors cur (p # ps) =
     (case validateID p of
        Some e \<Rightarrow> Some e
      | None \<Rightarrow>
          if p = cur
          then Some (detail_err ErrInvalidInstallationID ''current installation cannot be its own predecessor'')
          else validate_predecessors cur ps)"

text \<open>\<open>sort.StringsAreSorted\<close>.\<close>

fun StringsAreSorted :: "string list \<Rightarrow> bool" where
  "StringsAreSorted (x # y # ys) = (\<not> y < x \<and> StringsAreSorted (y # ys))"
| "StringsAreSorted _ = True"

fun has_adjacent_duplicate :: "string list \<Rightarrow> bool" where
  "has_adjacent_duplicate (x # y # ys) = (x = y \<or> has_adjacent_duplicate (y # ys))"
| "has_adjacent_duplicate _ = False"

definition Ledger_Validate :: "ledger \<Rightarrow> goerr option" where
  "Ledger_Validate l =
     (case (if Current l \<noteq> [] then validateID (Current l) else None) of
        Some e \<Rightarrow> Some e
      | None \<Rightarrow>
        (case validate_predecessors (Current l) (Predecessors l) of
           Some e \<Rightarrow> Some e
         | None \<Rightarrow>
             if \<not> StringsAreSorted (Predecessors l)
             then Some (detail_err ErrInvalidInstallationID ''predecessors must be sorted'')
             else if has_adjacent_duplicate (Predecessors l)
             then Some (detail_err ErrInvalidInstallationID ''duplicate predecessor'')
             else None))"

text \<open>\<open>uniqueSorted\<close>: sort in place, then keep the first of every run of equal values.\<close>

fun drop_repeats :: "string list \<Rightarrow> string list \<Rightarrow> string list" where
  "drop_repeats result [] = result"
| "drop_repeats result (v # vs) =
     (if result = [] \<or> last result \<noteq> v then drop_repeats (result @ [v]) vs else drop_repeats result vs)"

definition uniqueSorted :: "string list \<Rightarrow> string list" where
  "uniqueSorted values = drop_repeats [] (sort values)"

section \<open>The ledger file\<close>

datatype fs_step = FsRead | FsMkdir | FsCreateTemp | FsChmod | FsWrite | FsSync | FsClose | FsRename

record ledger_fs =
  lf_files :: "string \<rightharpoonup> string"
  lf_temp :: string
  lf_fail :: "fs_step \<Rightarrow> goerr option"

record ledger_json =
  lj_encode :: "ledger \<Rightarrow> string"
  lj_decode :: "string \<Rightarrow> goerr + ledger"

definition fs_try :: "fs_step \<Rightarrow> string \<Rightarrow> (ledger_fs, unit) go" where
  "fs_try st msg fs = (case lf_fail fs st of None \<Rightarrow> (Inr (), fs) | Some e \<Rightarrow> (Inl (wrap_err msg e), fs))"

definition Load :: "ledger_json \<Rightarrow> string \<Rightarrow> (ledger_fs, ledger) go" where
  "Load js path fs =
     (case lf_fail fs FsRead of
        Some e \<Rightarrow> if errors_Is e OsErrNotExist then (Inr zero_ledger, fs)
                  else (Inl (wrap_err ''read ownership ledger'' e), fs)
      | None \<Rightarrow>
        (case lf_files fs path of
           None \<Rightarrow> (Inr zero_ledger, fs)
         | Some contents \<Rightarrow>
             (case lj_decode js contents of
                Inl e \<Rightarrow> (Inl (wrap_err ''decode ownership ledger'' e), fs)
              | Inr l \<Rightarrow> (case Ledger_Validate l of Some e \<Rightarrow> (Inl e, fs) | None \<Rightarrow> (Inr l, fs)))))"

text \<open>The deferred \<open>os.Remove\<close> of the temporary file runs on every return after its creation.\<close>

definition remove_temp :: "(ledger_fs, unit) go \<Rightarrow> (ledger_fs, unit) go" where
  "remove_temp m fs = (case m fs of (r, fs') \<Rightarrow> (r, fs'\<lparr>lf_files := (lf_files fs')(lf_temp fs' := None)\<rparr>))"

definition writeAtomic :: "ledger_json \<Rightarrow> string \<Rightarrow> ledger \<Rightarrow> (ledger_fs, unit) go" where
  "writeAtomic js path l =
     (if \<not> IsAbs path then failG (plain_err ''ownership ledger path must be absolute'')
      else
        bindG (fs_try FsMkdir ''create ownership ledger directory'') (\<lambda>_.
        bindG (fs_try FsCreateTemp ''create temporary ownership ledger'') (\<lambda>_.
        remove_temp (
          bindG (fs_try FsChmod ''chmod temporary ownership ledger'') (\<lambda>_.
          bindG (fs_try FsWrite ''write ownership ledger'') (\<lambda>_.
          bindG (\<lambda>fs. (Inr (), fs\<lparr>lf_files := (lf_files fs)(lf_temp fs \<mapsto> lj_encode js l @ [CHR 0x0A])\<rparr>)) (\<lambda>_.
          bindG (fs_try FsSync ''sync ownership ledger'') (\<lambda>_.
          bindG (fs_try FsClose ''close ownership ledger'') (\<lambda>_.
          bindG (fs_try FsRename ''replace ownership ledger'') (\<lambda>_.
          (\<lambda>fs. (Inr (), fs\<lparr>lf_files := (lf_files fs)(path := lf_files fs (lf_temp fs), lf_temp fs := None)\<rparr>))))))))))))"

definition Register :: "ledger_json \<Rightarrow> string \<Rightarrow> string \<Rightarrow> (ledger_fs, ledger) go" where
  "Register js path current =
     bindG (checkG (validateID current)) (\<lambda>_.
     bindG (Load js path) (\<lambda>l.
     let preds = (if Current l \<noteq> [] \<and> Current l \<noteq> current then Predecessors l @ [Current l] else Predecessors l);
         l' = \<lparr>Current = current, Predecessors = uniqueSorted preds\<rparr>
     in bindG (checkG (Ledger_Validate l')) (\<lambda>_.
        bindG (writeAtomic js path l') (\<lambda>_. returnG l'))))"

section \<open>Lemmas\<close>

lemma StringsAreSorted_iff: "StringsAreSorted xs \<longleftrightarrow> sorted xs"
proof (induction xs rule: StringsAreSorted.induct)
  case (1 x y ys)
  then show ?case by (simp add: not_less sorted2 del: sorted_wrt.simps)
qed simp_all

lemma sorted_no_adjacent: "sorted xs \<Longrightarrow> has_adjacent_duplicate xs \<longleftrightarrow> \<not> distinct xs"
proof (induction xs rule: has_adjacent_duplicate.induct)
  case (1 x y ys)
  then show ?case by auto
qed auto

lemma validate_predecessors_None:
  "validate_predecessors cur ps = None \<longleftrightarrow> (\<forall>p\<in>set ps. validateID p = None) \<and> cur \<notin> set ps"
  by (induction ps) (auto split: option.split)

lemma Ledger_Validate_None:
  "Ledger_Validate l = None \<longleftrightarrow>
     (Current l \<noteq> [] \<longrightarrow> validateID (Current l) = None) \<and> (\<forall>p\<in>set (Predecessors l). validateID p = None) \<and>
     Current l \<notin> set (Predecessors l) \<and> sorted (Predecessors l) \<and> distinct (Predecessors l)"
  (is "?v \<longleftrightarrow> ?cur \<and> ?ids \<and> ?self \<and> ?sorted \<and> ?distinct")
proof -
  have "?v \<longleftrightarrow> ?cur \<and> validate_predecessors (Current l) (Predecessors l) = None \<and> ?sorted \<and>
      \<not> has_adjacent_duplicate (Predecessors l)"
    by (simp add: Ledger_Validate_def StringsAreSorted_iff split: option.split)
  then show ?thesis
    using sorted_no_adjacent validate_predecessors_None by blast
qed

lemma search_loop_spec:
  assumes "i \<le> j" and "\<And>a b. i \<le> a \<Longrightarrow> a \<le> b \<Longrightarrow> b < j \<Longrightarrow> f a \<Longrightarrow> f b"
  shows "i \<le> search_loop f i j \<and> search_loop f i j \<le> j \<and>
    (search_loop f i j < j \<longrightarrow> f (search_loop f i j)) \<and> (\<forall>k. i \<le> k \<and> k < search_loop f i j \<longrightarrow> \<not> f k)"
  using assms
proof (induction f i j rule: search_loop.induct)
  case (1 f i j)
  show ?case
  proof (cases "i < j")
    case False
    then have "search_loop f i j = i" by (subst search_loop.simps) simp
    with False "1.prems" show ?thesis by auto
  next
    case True
    define h where "h = (i + j) div 2"
    have h: "i \<le> h" "h < j" using True by (auto simp: h_def)
    show ?thesis
    proof (cases "f h")
      case fh: True
      have eq: "search_loop f i j = search_loop f i h"
        using True fh by (subst search_loop.simps) (simp add: h_def)
      have mono: "f b" if "i \<le> a" "a \<le> b" "b < h" "f a" for a b
        by (rule "1.prems"(2) [OF that(1,2) _ that(4)]) (use that h in simp)
      have IH: "i \<le> search_loop f i h \<and> search_loop f i h \<le> h \<and>
         (search_loop f i h < h \<longrightarrow> f (search_loop f i h)) \<and> (\<forall>k. i \<le> k \<and> k < search_loop f i h \<longrightarrow> \<not> f k)"
        by (rule "1.IH"(1) [OF True h_def fh h(1) mono])
      have "f (search_loop f i h)" using IH fh by (cases "search_loop f i h < h") auto
      with IH show ?thesis using h eq by simp
    next
      case fh: False
      have eq: "search_loop f i j = search_loop f (h + 1) j"
        using True fh by (subst search_loop.simps) (simp add: h_def)
      have mono: "f b" if "h + 1 \<le> a" "a \<le> b" "b < j" "f a" for a b
        by (rule "1.prems"(2) [OF _ that(2,3,4)]) (use that h in simp)
      have hj: "h + 1 \<le> j" using h by simp
      have IH: "h + 1 \<le> search_loop f (h + 1) j \<and> search_loop f (h + 1) j \<le> j \<and>
         (search_loop f (h + 1) j < j \<longrightarrow> f (search_loop f (h + 1) j)) \<and>
         (\<forall>k. h + 1 \<le> k \<and> k < search_loop f (h + 1) j \<longrightarrow> \<not> f k)"
        by (rule "1.IH"(2) [OF True h_def fh hj mono])
      have "\<not> f k" if "i \<le> k" "k \<le> h" for k using fh that h "1.prems"(2) by blast
      then have "\<not> f k" if "i \<le> k" "k < search_loop f (h + 1) j" for k
        using that IH by (cases "k \<le> h") auto
      with IH eq h show ?thesis by simp
    qed
  qed
qed

text \<open>
  The binary search of \<open>Owns\<close> decides membership. For every ledger that passes
  validation, an installation is owned if and only if it is the current one or one of the
  listed predecessors; no prefix or neighbouring name is accepted.
\<close>

theorem Owns_iff_member:
  assumes "Ledger_Validate l = None"
  shows "Owns l i \<longleftrightarrow> i = Current l \<or> i \<in> set (Predecessors l)"
proof -
  let ?xs = "Predecessors l" and ?n = "SearchStrings (Predecessors l) i"
  have sorted: "sorted ?xs" using assms by (simp add: Ledger_Validate_None)
  have spec: "?n \<le> length ?xs \<and> (?n < length ?xs \<longrightarrow> ?xs ! ?n \<ge> i) \<and> (\<forall>k. k < ?n \<longrightarrow> \<not> ?xs ! k \<ge> i)"
    using search_loop_spec [of 0 "length ?xs" "\<lambda>k. ?xs ! k \<ge> i"] sorted
    by (auto simp: SearchStrings_def sorted_iff_nth_mono intro: order_trans)
  have "i \<in> set ?xs \<Longrightarrow> ?n < length ?xs \<and> ?xs ! ?n = i"
  proof -
    assume "i \<in> set ?xs"
    then obtain k where k: "k < length ?xs" "?xs ! k = i" by (auto simp: in_set_conv_nth)
    with spec have "?n \<le> k" by (metis not_le order_refl)
    with k sorted have "?n < length ?xs" "?xs ! ?n \<le> i" by (auto simp: sorted_iff_nth_mono)
    with spec show ?thesis by auto
  qed
  then show ?thesis unfolding Owns_def by (metis nth_mem)
qed

theorem Owns_iff_member_witness:
  "\<not> Owns \<lparr>Current = ''kind-b'', Predecessors = [''kind-a'', ''kind-aa'']\<rparr> ''kind''"
proof -
  have "Ledger_Validate \<lparr>Current = ''kind-b'', Predecessors = [''kind-a'', ''kind-aa'']\<rparr> = None"
    by (simp add: Ledger_Validate_None validateID_def ContainsAny_def)
  from Owns_iff_member [OF this] show ?thesis by simp
qed

section \<open>Registration\<close>

lemma drop_repeats_spec:
  assumes "sorted result" and "distinct result" and "sorted vs" and "\<forall>x\<in>set result. \<forall>y\<in>set vs. x \<le> y"
  shows "sorted (drop_repeats result vs) \<and> distinct (drop_repeats result vs) \<and>
    set (drop_repeats result vs) = set result \<union> set vs"
  using assms
proof (induction result vs rule: drop_repeats.induct)
  case (2 result v vs)
  show ?case
  proof (cases "result = [] \<or> last result \<noteq> v")
    case True
    have "v \<notin> set result"
    proof
      assume v: "v \<in> set result"
      then have "last result \<in> set result" by (cases result) auto
      then have "last result \<le> v" using "2.prems"(4) by simp
      moreover have "v \<le> last result"
      proof -
        have "result = butlast result @ [last result]" using v by (cases result) auto
        then have "sorted (butlast result @ [last result])" "v \<in> set (butlast result @ [last result])"
          using v "2.prems"(1) by simp_all
        then show ?thesis by (auto simp: sorted_append)
      qed
      ultimately show False using True v by auto
    qed
    with True 2 show ?thesis by (auto simp: sorted_append)
  next
    case False
    then have "v \<in> set result" by (metis last_in_set)
    with False 2 show ?thesis by auto
  qed
qed simp

lemma uniqueSorted_spec:
  "sorted (uniqueSorted xs)" "distinct (uniqueSorted xs)" "set (uniqueSorted xs) = set xs"
  using drop_repeats_spec [of "[]" "sort xs"] by (simp_all add: uniqueSorted_def)

lemma Load_state [simp]: "snd (Load js path fs) = fs"
  by (simp add: Load_def split: option.split sum.split)

lemma Load_valid: "Load js path fs = (Inr l, fs') \<Longrightarrow> Ledger_Validate l = None \<and> fs' = fs"
  by (auto simp: Load_def zero_ledger_def Ledger_Validate_None split: option.splits sum.splits if_splits)

lemma Register_Inr:
  assumes "Register js path c fs = (Inr l, fs')"
  obtains old where "Load js path fs = (Inr old, fs)" "validateID c = None"
    "l = \<lparr>Current = c, Predecessors = uniqueSorted
      (if Current old \<noteq> [] \<and> Current old \<noteq> c then Predecessors old @ [Current old] else Predecessors old)\<rparr>"
    "Ledger_Validate l = None" "writeAtomic js path l fs = (Inr (), fs')"
proof -
  from assms obtain old u where old: "validateID c = None" "Load js path fs = (Inr old, u)"
    and rest: "(let preds = (if Current old \<noteq> [] \<and> Current old \<noteq> c then Predecessors old @ [Current old] else Predecessors old);
         l' = \<lparr>Current = c, Predecessors = uniqueSorted preds\<rparr>
     in bindG (checkG (Ledger_Validate l')) (\<lambda>_. bindG (writeAtomic js path l') (\<lambda>_. returnG l'))) u = (Inr l, fs')"
    unfolding Register_def bindG_eq_Inr checkG_eq_Inr by blast
  have "u = fs" using old(2) Load_valid by blast
  with rest old show thesis
    by (intro that) (simp_all only: Let_def bindG_eq_Inr checkG_eq_Inr run_return prod.inject sum.inject, auto)
qed

text \<open>
  Registration extends ownership by exactly the new installation. After a successful
  \<open>Register\<close>, the ledger is valid and \<open>current\<close> is active; it owns the new
  installation and every installation the stored ledger owned, and nothing else.
\<close>

theorem Register_extends_ownership:
  assumes "Register js path c fs = (Inr l, fs')" and "Load js path fs = (Inr old, fs)" and "i \<noteq> []"
  shows "Ledger_Validate l = None \<and> Current l = c \<and> (Owns l i \<longleftrightarrow> i = c \<or> Owns old i)"
proof -
  have l: "l = \<lparr>Current = c, Predecessors = uniqueSorted
      (if Current old \<noteq> [] \<and> Current old \<noteq> c then Predecessors old @ [Current old] else Predecessors old)\<rparr>"
    and v: "Ledger_Validate l = None" by (rule Register_Inr [OF assms(1)], use assms(2) in simp)+
  have "Owns old i \<longleftrightarrow> i = Current old \<or> i \<in> set (Predecessors old)"
    by (rule Owns_iff_member) (use assms(2) Load_valid in blast)
  with Owns_iff_member [OF v, of i] l v assms(3) show ?thesis
    by (auto simp: uniqueSorted_spec)
qed

text \<open>A concrete host for the witnesses: one installed ledger, a codec that writes one name per field.\<close>

definition sample_ledger :: ledger where
  "sample_ledger = \<lparr>Current = ''kind-a'', Predecessors = []\<rparr>"

definition sample_json :: ledger_json where
  "sample_json = \<lparr>lj_encode = (\<lambda>l. join_with [CHR 0x0A] (Current l # Predecessors l)),
     lj_decode = (\<lambda>s. if s = ''kind-a'' then Inr sample_ledger else Inl (plain_err ''unexpected end of JSON input''))\<rparr>"

definition sample_fs :: ledger_fs where
  "sample_fs = \<lparr>lf_files = [''/var/ledger'' \<mapsto> ''kind-a''], lf_temp = ''/var/.ledger.1'', lf_fail = (\<lambda>_. None)\<rparr>"

lemma sample_ledger_valid: "Ledger_Validate sample_ledger = None"
  by (simp add: Ledger_Validate_None sample_ledger_def validateID_def ContainsAny_def)

lemma sample_Load: "Load sample_json ''/var/ledger'' sample_fs = (Inr sample_ledger, sample_fs)"
  by (simp add: Load_def sample_fs_def sample_json_def sample_ledger_valid)

lemma sample_Register:
  "fst (Register sample_json ''/var/ledger'' ''kind-b'' sample_fs) = Inr \<lparr>Current = ''kind-b'', Predecessors = [''kind-a'']\<rparr>"
proof -
  have "uniqueSorted [''kind-a''] = [''kind-a'']" by (simp add: uniqueSorted_def)
  moreover have "Ledger_Validate \<lparr>Current = ''kind-b'', Predecessors = [''kind-a'']\<rparr> = None"
    by (simp add: Ledger_Validate_None validateID_def ContainsAny_def)
  moreover have "validateID ''kind-b'' = None" by (simp add: validateID_def ContainsAny_def)
  moreover have "fst (writeAtomic js ''/var/ledger'' l sample_fs) = Inr ()" for js l
    by (simp add: writeAtomic_def run_bind fs_try_def sample_fs_def remove_temp_def IsAbs_def HasPrefix_def)
  then have "\<exists>u. writeAtomic js ''/var/ledger'' l sample_fs = (Inr (), u)" for js l
    by (metis prod.collapse)
  then obtain u where "writeAtomic sample_json ''/var/ledger'' \<lparr>Current = ''kind-b'', Predecessors = [''kind-a'']\<rparr> sample_fs = (Inr (), u)"
    by blast
  ultimately show ?thesis
    by (simp add: Register_def run_bind sample_Load Let_def) (simp add: sample_ledger_def run_bind)
qed

theorem Register_extends_ownership_witness:
  "\<exists>l fs'. Register sample_json ''/var/ledger'' ''kind-b'' sample_fs = (Inr l, fs') \<and> Owns l ''kind-a'' \<and> \<not> Owns l ''kind''"
proof -
  let ?l = "\<lparr>Current = ''kind-b'', Predecessors = [''kind-a'']\<rparr>"
  obtain fs' where run: "Register sample_json ''/var/ledger'' ''kind-b'' sample_fs = (Inr ?l, fs')"
    using sample_Register by (cases "Register sample_json ''/var/ledger'' ''kind-b'' sample_fs") auto
  have "Owns sample_ledger ''kind-a''" "\<not> Owns sample_ledger ''kind''"
    by (simp_all add: Owns_def sample_ledger_def)
  with Register_extends_ownership [OF run sample_Load, of "''kind-a''"]
    Register_extends_ownership [OF run sample_Load, of "''kind''"]
  have "Owns ?l ''kind-a'' \<and> \<not> Owns ?l ''kind''" by simp
  with run show ?thesis by blast
qed

section \<open>Names the encoder keeps\<close>

text \<open>
  The length of the UTF-8 sequence at the head of a string, by the ranges of \<open>unicode/utf8\<close>
  (no overlong form, no surrogate, nothing above U+10FFFF), and 0 when there is none.
\<close>

definition byte_in :: "nat \<Rightarrow> nat \<Rightarrow> char \<Rightarrow> bool" where
  "byte_in lo hi c \<longleftrightarrow> lo \<le> of_char c \<and> of_char c \<le> hi"

definition two_bytes :: "char \<Rightarrow> char \<Rightarrow> bool" where
  "two_bytes a b \<longleftrightarrow> byte_in 0xC2 0xDF a \<and> byte_in 0x80 0xBF b"

definition three_bytes :: "char \<Rightarrow> char \<Rightarrow> char \<Rightarrow> bool" where
  "three_bytes a b c \<longleftrightarrow> byte_in 0x80 0xBF c \<and>
     (byte_in 0xE0 0xE0 a \<and> byte_in 0xA0 0xBF b \<or> byte_in 0xED 0xED a \<and> byte_in 0x80 0x9F b \<or>
      (byte_in 0xE1 0xEC a \<or> byte_in 0xEE 0xEF a) \<and> byte_in 0x80 0xBF b)"

definition four_bytes :: "char \<Rightarrow> char \<Rightarrow> char \<Rightarrow> char \<Rightarrow> bool" where
  "four_bytes a b c d \<longleftrightarrow> byte_in 0x80 0xBF c \<and> byte_in 0x80 0xBF d \<and>
     (byte_in 0xF0 0xF0 a \<and> byte_in 0x90 0xBF b \<or> byte_in 0xF1 0xF3 a \<and> byte_in 0x80 0xBF b \<or>
      byte_in 0xF4 0xF4 a \<and> byte_in 0x80 0x8F b)"

definition rune_len :: "string \<Rightarrow> nat" where
  "rune_len s = (case s of
     [] \<Rightarrow> 0
   | a # s1 \<Rightarrow> if byte_in 0 0x7F a then 1 else (case s1 of
     [] \<Rightarrow> 0
   | b # s2 \<Rightarrow> if two_bytes a b then 2 else (case s2 of
     [] \<Rightarrow> 0
   | c # s3 \<Rightarrow> if three_bytes a b c then 3 else (case s3 of
     [] \<Rightarrow> 0
   | d # _ \<Rightarrow> if four_bytes a b c d then 4 else 0))))"

function valid_utf8 :: "string \<Rightarrow> bool" where
  "valid_utf8 [] = True"
| "valid_utf8 (c # s) = (rune_len (c # s) \<noteq> 0 \<and> valid_utf8 (drop (rune_len (c # s) - 1) s))"
  by pat_completeness auto
termination
  by (relation "measure length") auto

declare valid_utf8.simps(2) [simp del]

definition ledger_utf8 :: "ledger \<Rightarrow> bool" where
  "ledger_utf8 l \<longleftrightarrow> valid_utf8 (Current l) \<and> list_all valid_utf8 (Predecessors l)"

definition json_documented :: "ledger_json \<Rightarrow> bool" where
  "json_documented js \<longleftrightarrow>
     (\<forall>l. ledger_utf8 l \<longrightarrow> lj_decode js (lj_encode js l @ [CHR 0x0A]) = Inr l) \<and>
     (\<forall>s l. lj_decode js s = Inr l \<longrightarrow> ledger_utf8 l)"

lemma Load_utf8: "json_documented js \<Longrightarrow> Load js path fs = (Inr l, fs') \<Longrightarrow> ledger_utf8 l"
  by (auto simp: Load_def json_documented_def zero_ledger_def ledger_utf8_def
      split: option.splits sum.splits if_splits)

lemma Register_utf8:
  assumes "json_documented js" and "valid_utf8 c" and "Register js path c fs = (Inr l, fs')"
  shows "ledger_utf8 l"
proof (rule Register_Inr [OF assms(3)])
  fix old
  assume old: "Load js path fs = (Inr old, fs)"
    and l: "l = \<lparr>Current = c, Predecessors = uniqueSorted
      (if Current old \<noteq> [] \<and> Current old \<noteq> c then Predecessors old @ [Current old] else Predecessors old)\<rparr>"
  from Load_utf8 [OF assms(1) old] assms(2) l show ?thesis
    by (auto simp: ledger_utf8_def list_all_iff uniqueSorted_spec)
qed

section \<open>Atomic replacement\<close>

lemma writeAtomic_Inl:
  assumes "writeAtomic js path l fs = (Inl e, fs')" and "lf_files fs (lf_temp fs) = None"
  shows "lf_files fs' = lf_files fs"
  using assms
  by (auto simp: writeAtomic_def run_bind fs_try_def remove_temp_def fun_eq_iff split: if_splits option.splits)

lemma writeAtomic_Inr:
  assumes "writeAtomic js path l fs = (Inr (), fs')" and "lf_files fs (lf_temp fs) = None" and "path \<noteq> lf_temp fs"
  shows "lf_files fs' = (lf_files fs)(path \<mapsto> lj_encode js l @ [CHR 0x0A])" and "lf_fail fs' = lf_fail fs"
  using assms
  by (auto simp: writeAtomic_def run_bind fs_try_def remove_temp_def fun_eq_iff split: if_splits option.splits)


section \<open>Returning to a former installation\<close>

text \<open>
  An installation that was superseded cannot become the active one again. When the stored
  ledger lists \<open>c\<close> as a predecessor, \<open>Register\<close> keeps it in the list and
  its own validation then rejects the result, with nothing written; the comment of
  \<open>Register\<close> says that it makes \<open>current\<close> the active installation.
\<close>

theorem Register_predecessor_rejected:
  assumes "Load js path fs = (Inr old, fs)" and "c \<in> set (Predecessors old)"
  shows "\<exists>e. Register js path c fs = (Inl e, fs) \<and> err_kind e = ErrInvalidInstallationID"
proof -
  let ?l = "\<lparr>Current = c, Predecessors = uniqueSorted
      (if Current old \<noteq> [] \<and> Current old \<noteq> c then Predecessors old @ [Current old] else Predecessors old)\<rparr>"
  have "c \<in> set (Predecessors ?l)" using assms(2) by (simp add: uniqueSorted_spec)
  then have "Ledger_Validate ?l \<noteq> None" by (simp add: Ledger_Validate_None)
  then obtain e where e: "Ledger_Validate ?l = Some e" by blast
  have id_err: "validateID x = Some e \<Longrightarrow> err_kind e = ErrInvalidInstallationID" for x e
    by (auto simp: validateID_def split: if_splits)
  have pred_err: "validate_predecessors x ps = Some e \<Longrightarrow> err_kind e = ErrInvalidInstallationID" for x ps e
    by (induction ps) (auto split: option.splits if_splits dest: id_err)
  have "err_kind e = ErrInvalidInstallationID"
    using e unfolding Ledger_Validate_def
    by (auto split: option.splits if_splits dest: id_err pred_err)
  moreover have "Register js path c fs = (Inl (case validateID c of Some e' \<Rightarrow> e' | None \<Rightarrow> e), fs)"
    using assms(1) e by (simp add: Register_def run_bind Let_def checkG_def split: option.split)
  ultimately show ?thesis by (auto split: option.split dest: id_err)
qed

end
