(* ===== verification/Sha256.thy ===== *)
theory Sha256
  imports Prelude
begin

text \<open>
  \<open>crypto/sha256\<close> on byte lists, with the words of FIPS 180-4: artifact checksums, the
  request hash of the journal and the MAC derivation use it. The words wrap as Go's
  \<open>uint32\<close> does.
\<close>

unbundle bit_operations_syntax

definition sha_k :: "uint32 list" where
  "sha_k = [
     1116352408, 1899447441, 3049323471, 3921009573, 961987163, 1508970993, 2453635748, 2870763221,
     3624381080, 310598401, 607225278, 1426881987, 1925078388, 2162078206, 2614888103, 3248222580,
     3835390401, 4022224774, 264347078, 604807628, 770255983, 1249150122, 1555081692, 1996064986,
     2554220882, 2821834349, 2952996808, 3210313671, 3336571891, 3584528711, 113926993, 338241895,
     666307205, 773529912, 1294757372, 1396182291, 1695183700, 1986661051, 2177026350, 2456956037,
     2730485921, 2820302411, 3259730800, 3345764771, 3516065817, 3600352804, 4094571909, 275423344,
     430227734, 506948616, 659060556, 883997877, 958139571, 1322822218, 1537002063, 1747873779,
     1955562222, 2024104815, 2227730452, 2361852424, 2428436474, 2756734187, 3204031479, 3329325298]"

definition sha_h0 :: "uint32 list" where
  "sha_h0 = [
     1779033703, 3144134277, 1013904242, 2773480762, 1359893119, 2600822924, 528734635, 1541459225]"

definition be32 :: "byte list \<Rightarrow> uint32" where
  "be32 bs = foldl (\<lambda>acc b. push_bit 8 acc OR ucast b) 0 bs"

definition bytes32 :: "uint32 \<Rightarrow> byte list" where
  "bytes32 w = [ucast (drop_bit 24 w), ucast (drop_bit 16 w), ucast (drop_bit 8 w), ucast w]"

definition bytes64 :: "uint64 \<Rightarrow> byte list" where
  "bytes64 w = map (\<lambda>i. ucast (drop_bit (8 * i) w)) [7, 6, 5, 4, 3, 2, 1, 0]"

definition rotr32 :: "nat \<Rightarrow> uint32 \<Rightarrow> uint32" where
  "rotr32 n w = drop_bit n w OR push_bit (32 - n) w"

text \<open>The message padded to whole 64-byte blocks: a one bit, zeros, the length in bits.\<close>

definition sha_pad :: "byte list \<Rightarrow> byte list" where
  "sha_pad bs = bs @ [0x80] @ replicate ((119 - length bs mod 64) mod 64) 0 @ bytes64 (8 * of_nat (length bs))"

fun chunks :: "nat \<Rightarrow> 'a list \<Rightarrow> 'a list list" where
  "chunks n xs = (if n = 0 \<or> xs = [] then [] else take n xs # chunks n (drop n xs))"

declare chunks.simps [simp del]

text \<open>The message schedule, newest word first.\<close>

fun schedule :: "nat \<Rightarrow> uint32 list \<Rightarrow> uint32 list" where
  "schedule 0 ws = ws"
| "schedule (Suc n) ws =
     (let s0 = (let w = ws ! 14 in rotr32 7 w XOR rotr32 18 w XOR drop_bit 3 w);
          s1 = (let w = ws ! 1 in rotr32 17 w XOR rotr32 19 w XOR drop_bit 10 w)
      in schedule n ((ws ! 15 + s0 + ws ! 6 + s1) # ws))"

definition sha_round :: "uint32 list \<Rightarrow> uint32 \<times> uint32 \<Rightarrow> uint32 list" where
  "sha_round st kw =
     (case st of
        [a, b, c, d, e, f, g, h] \<Rightarrow>
          let t1 = h + (rotr32 6 e XOR rotr32 11 e XOR rotr32 25 e) + ((e AND f) XOR (NOT e AND g)) + fst kw + snd kw;
              t2 = (rotr32 2 a XOR rotr32 13 a XOR rotr32 22 a) + ((a AND b) XOR (a AND c) XOR (b AND c))
          in [t1 + t2, a, b, c, d + t1, e, f, g]
      | _ \<Rightarrow> st)"

definition sha_block :: "uint32 list \<Rightarrow> byte list \<Rightarrow> uint32 list" where
  "sha_block st block =
     (let ws = rev (schedule 48 (rev (map be32 (chunks 4 block))))
      in map2 (+) st (foldl sha_round st (zip sha_k ws)))"

definition sha256 :: "byte list \<Rightarrow> byte list" where
  "sha256 bs = concat (map bytes32 (foldl sha_block sha_h0 (chunks 64 (sha_pad bs))))"

definition string_bytes :: "string \<Rightarrow> byte list" where
  "string_bytes s = map of_char s"

definition bytes_string :: "byte list \<Rightarrow> string" where
  "bytes_string bs = map (\<lambda>b. char_of (unat b)) bs"

lemma bytes_string_bytes [simp]: "bytes_string (string_bytes s) = s"
proof -
  have "char_of (unat (of_char c :: byte)) = c" for c
  proof -
    have "unat (of_char c :: byte) = of_char c"
      using of_nat_of_char [of c, where ?'a = byte, symmetric] by (simp add: unat_of_nat)
    then show ?thesis by simp
  qed
  then show ?thesis by (induction s) (simp_all add: bytes_string_def string_bytes_def)
qed

lemma length_sha_round [simp]: "length (sha_round st kw) = length st"
  by (auto simp: sha_round_def Let_def split: list.split)

lemma length_foldl_sha_round: "length (foldl sha_round st kws) = length st"
  by (induction kws arbitrary: st) simp_all

lemma length_sha_block [simp]: "length (sha_block st b) = length st"
  by (simp add: sha_block_def Let_def length_foldl_sha_round)

lemma length_sha256 [simp]: "length (sha256 bs) = 32"
proof -
  have "length (foldl sha_block st bls) = length st" for st bls
    by (induction bls arbitrary: st) simp_all
  then have "length (foldl sha_block sha_h0 (chunks 64 (sha_pad bs))) = 8" by (simp add: sha_h0_def)
  moreover have "length (concat (map bytes32 ws)) = 4 * length ws" for ws
    by (induction ws) (simp_all add: bytes32_def)
  ultimately show ?thesis by (simp add: sha256_def)
qed

lemma length_hex_string [simp]: "length (hex_string bs) = 2 * length bs"
  by (induction bs) (simp_all add: hex_string_def hex_byte_def)

end
