(* ===== verification/Base64.thy ===== *)
theory Base64
  imports Sha256
begin

text \<open>
  \<open>base64.StdEncoding\<close> of Go's \<open>encoding/base64\<close>: encoding with padding, and
  decoding that skips line ends and is not strict about the unused bits of the last group. The position
  in the text of a decoding error is left out.
\<close>

definition b64_char :: "nat \<Rightarrow> char" where
  "b64_char n = char_of (if n < 26 then 65 + n else if n < 52 then 71 + n else if n < 62 then n - 4 else if n = 62 then 43 else 47)"

definition b64_val :: "char \<Rightarrow> nat option" where
  "b64_val c = (let n = (of_char c :: nat) in
     if 65 \<le> n \<and> n \<le> 90 then Some (n - 65) else if 97 \<le> n \<and> n \<le> 122 then Some (n - 71)
     else if 48 \<le> n \<and> n \<le> 57 then Some (n + 4) else if n = 43 then Some 62 else if n = 47 then Some 63 else None)"

abbreviation pad :: char where
  "pad \<equiv> CHR ''=''"

fun EncodeToString :: "byte list \<Rightarrow> string" where
  "EncodeToString [] = []"
| "EncodeToString [a] = [b64_char (unat a div 4), b64_char (unat a mod 4 * 16), pad, pad]"
| "EncodeToString [a, b] =
     [b64_char (unat a div 4), b64_char (unat a mod 4 * 16 + unat b div 16), b64_char (unat b mod 16 * 4), pad]"
| "EncodeToString (a # b # c # bs) =
     [b64_char (unat a div 4), b64_char (unat a mod 4 * 16 + unat b div 16),
      b64_char (unat b mod 16 * 4 + unat c div 64), b64_char (unat c mod 64)] @ EncodeToString bs"

fun decode_quads :: "string \<Rightarrow> byte list option" where
  "decode_quads [] = Some []"
| "decode_quads (a # b # c # d # rest) =
     (case (b64_val a, b64_val b) of
        (Some w, Some x) \<Rightarrow>
          if c = pad then (if d = pad \<and> rest = [] then Some [of_nat (w * 4 + x div 16)] else None)
          else (case b64_val c of
            None \<Rightarrow> None
          | Some y \<Rightarrow>
              if d = pad
              then (if rest = [] then Some [of_nat (w * 4 + x div 16), of_nat (x mod 16 * 16 + y div 4)] else None)
              else (case b64_val d of
                None \<Rightarrow> None
              | Some z \<Rightarrow> map_option ((@) [of_nat (w * 4 + x div 16), of_nat (x mod 16 * 16 + y div 4), of_nat (y mod 4 * 64 + z)])
                            (decode_quads rest)))
      | _ \<Rightarrow> None)"
| "decode_quads _ = None"

definition DecodeString :: "string \<Rightarrow> goerr + byte list" where
  "DecodeString s = (case decode_quads (filter (\<lambda>c. c \<noteq> CHR 0x0A \<and> c \<noteq> CHR 0x0D) s) of
     None \<Rightarrow> Inl (plain_err ''illegal base64 data'')
   | Some bs \<Rightarrow> Inr bs)"

section \<open>Round trip\<close>

lemma b64_val_char [simp]: "n < 64 \<Longrightarrow> b64_val (b64_char n) = Some n"
  by (auto simp: b64_val_def b64_char_def Let_def)

lemma b64_char_ne:
  assumes "n < 64"
  shows "b64_char n \<noteq> pad" "b64_char n \<noteq> CHR 0x0A" "b64_char n \<noteq> CHR 0x0D"
proof -
  have "b64_val pad = None" "b64_val (CHR 0x0A) = None" "b64_val (CHR 0x0D) = None" by (simp_all add: b64_val_def)
  with b64_val_char [OF assms] show "b64_char n \<noteq> pad" "b64_char n \<noteq> CHR 0x0A" "b64_char n \<noteq> CHR 0x0D" by auto
qed

lemma byte_range: "unat (a :: byte) < 256"
  using unsigned_less [of a] by simp

lemma byte_parts: "unat (a :: byte) div 4 < 64" "unat a div 16 < 16" "unat a div 64 < 4"
  using byte_range [of a] by (simp_all add: div_less_iff_less_mult)

lemma sextets:
  "unat (a :: byte) div 4 < 64" "unat a mod 4 * 16 < 64" "unat a mod 16 * 4 < 64" "unat a mod 64 < 64"
  "unat a mod 4 * 16 + unat (b :: byte) div 16 < 64" "unat a mod 16 * 4 + unat b div 64 < 64"
proof -
  have "unat a mod 4 < 4" "unat a mod 16 < 16" by simp_all
  with byte_parts [of a] byte_parts [of b]
  show "unat a div 4 < 64" "unat a mod 4 * 16 < 64" "unat a mod 16 * 4 < 64" "unat a mod 64 < 64"
    "unat a mod 4 * 16 + unat b div 16 < 64" "unat a mod 16 * 4 + unat b div 64 < 64" by linarith+
qed

lemma regroup:
  "(p * 16 + unat (b :: byte) div 16) div 16 = p" "(p * 16 + unat b div 16) mod 16 = unat b div 16"
  "(p * 4 + unat b div 64) div 4 = p" "(p * 4 + unat b div 64) mod 4 = unat b div 64"
  "unat b div 16 mod 16 = unat b div 16" "unat b div 64 mod 4 = unat b div 64"
  using byte_parts [of b] by simp_all

lemma whole_byte [simp]:
  "of_nat (unat a div 4 * 4 + unat a mod 4) = (a :: byte)" "of_nat (unat a div 16 * 16 + unat a mod 16) = a"
  "of_nat (unat a div 64 * 64 + unat a mod 64) = a"
  by (simp_all only: div_mult_mod_eq) simp_all

lemma decode_encode_quads: "decode_quads (EncodeToString bs) = Some bs"
proof (induction bs rule: EncodeToString.induct)
  case (2 a)
  show ?case by (simp add: sextets b64_char_ne del: of_nat_add of_nat_mult)
next
  case (3 a b)
  show ?case by (simp add: sextets b64_char_ne regroup del: of_nat_add of_nat_mult)
next
  case (4 a b c bs)
  then show ?case by (simp add: sextets b64_char_ne regroup del: of_nat_add of_nat_mult)
qed simp

lemma encode_no_line_end: "filter (\<lambda>c. c \<noteq> CHR 0x0A \<and> c \<noteq> CHR 0x0D) (EncodeToString bs) = EncodeToString bs"
  by (induction bs rule: EncodeToString.induct) (simp_all add: sextets b64_char_ne)

lemma Decode_Encode [simp]: "DecodeString (EncodeToString bs) = Inr bs"
  by (simp add: DecodeString_def encode_no_line_end decode_encode_quads)

end
