(* ===== verification/Json.thy ===== *)
theory Json
  imports Prelude
begin

text \<open>
  The output side of \<open>encoding/json\<close>: compact values, with the string escapes of
  \<open>json.Marshal\<close> (HTML characters included), for strings that are valid UTF-8 without
  the line separators U+2028 and U+2029. Printing is injective on strings: a reader for the string
  syntax gives the original back.
\<close>

datatype json = JNull | JBool bool | JInt int | JString string | JArray "json list" | JObject "(string \<times> json) list"

definition json_u00 :: "char \<Rightarrow> string" where
  "json_u00 c = [CHR 0x5C, CHR ''u'', CHR ''0'', CHR ''0'', hex_char (of_char c div 16), hex_char (of_char c mod 16)]"

definition json_char :: "char \<Rightarrow> string" where
  "json_char c =
     (if c = CHR 0x22 then [CHR 0x5C, CHR 0x22]
      else if c = CHR 0x5C then [CHR 0x5C, CHR 0x5C]
      else if c = CHR 0x08 then [CHR 0x5C, CHR ''b'']
      else if c = CHR 0x0C then [CHR 0x5C, CHR ''f'']
      else if c = CHR 0x0A then [CHR 0x5C, CHR ''n'']
      else if c = CHR 0x0D then [CHR 0x5C, CHR ''r'']
      else if c = CHR 0x09 then [CHR 0x5C, CHR ''t'']
      else if (of_char c :: nat) < 32 \<or> c = CHR ''<'' \<or> c = CHR ''>'' \<or> c = CHR ''&'' then json_u00 c
      else [c])"

definition json_string :: "string \<Rightarrow> string" where
  "json_string s = [CHR 0x22] @ concat (map json_char s) @ [CHR 0x22]"

fun Marshal :: "json \<Rightarrow> string" where
  "Marshal JNull = ''null''"
| "Marshal (JBool b) = (if b then ''true'' else ''false'')"
| "Marshal (JInt i) = show_int i"
| "Marshal (JString s) = json_string s"
| "Marshal (JArray vs) = ''['' @ join_with '','' (map Marshal vs) @ '']''"
| "Marshal (JObject fs) = ''{'' @ join_with '','' (map (\<lambda>(k, v). json_string k @ '':'' @ Marshal v) fs) @ ''}''"

section \<open>Reading a string back\<close>

definition unhex :: "char \<Rightarrow> nat" where
  "unhex c = (let n = (of_char c :: nat) in if n \<le> 57 then n - 48 else n - 87)"

fun read_string :: "string \<Rightarrow> (string \<times> string) option" where
  "read_string [] = None"
| "read_string (c # s) =
     (if c = CHR 0x22 then Some ([], s)
      else if c = CHR 0x5C then
        (case s of
           [] \<Rightarrow> None
         | e # s' \<Rightarrow>
             if e = CHR ''u'' then
               (case s' of
                  _ # _ # x # y # s'' \<Rightarrow>
                    map_option (\<lambda>(v, rest). (char_of (16 * unhex x + unhex y) # v, rest)) (read_string s'')
                | _ \<Rightarrow> None)
             else
               let d = (if e = CHR ''b'' then CHR 0x08 else if e = CHR ''f'' then CHR 0x0C
                        else if e = CHR ''n'' then CHR 0x0A else if e = CHR ''r'' then CHR 0x0D
                        else if e = CHR ''t'' then CHR 0x09 else e)
               in map_option (\<lambda>(v, rest). (d # v, rest)) (read_string s'))
      else map_option (\<lambda>(v, rest). (c # v, rest)) (read_string s))"

lemma unhex_hex_char: "d < 16 \<Longrightarrow> unhex (hex_char d) = d"
  by (auto simp: unhex_def hex_char_def Let_def)

lemma read_json_u00: "read_string (json_u00 c @ s) = map_option (\<lambda>(v, rest). (c # v, rest)) (read_string s)"
proof -
  have "(of_char c :: nat) < 256" by (metis of_char_mod_256 mod_less_divisor zero_less_numeral)
  then have "of_char c div 16 < (16 :: nat)" by (simp add: less_mult_imp_div_less)
  then have "unhex (hex_char (of_char c div 16)) = of_char c div 16" by (rule unhex_hex_char)
  moreover have "unhex (hex_char (of_char c mod 16)) = of_char c mod 16" by (rule unhex_hex_char) simp
  ultimately have "char_of (16 * unhex (hex_char (of_char c div 16)) + unhex (hex_char (of_char c mod 16))) = c" by simp
  then show ?thesis by (simp add: json_u00_def)
qed

lemma read_json_char: "read_string (json_char c @ s) = map_option (\<lambda>(v, rest). (c # v, rest)) (read_string s)"
  unfolding json_char_def using read_json_u00 [of c s] by (simp add: Let_def)

lemma read_json_string: "read_string (tl (json_string v) @ rest) = Some (v, rest)"
proof (induction v)
  case (Cons c v)
  have "tl (json_string (c # v)) @ rest = json_char c @ (tl (json_string v) @ rest)" by (simp add: json_string_def)
  then show ?case by (simp only: read_json_char Cons.IH) simp
qed (simp add: json_string_def)

lemma json_string_inject: "json_string v @ r = json_string w @ t \<longleftrightarrow> v = w \<and> r = t"
proof
  assume "json_string v @ r = json_string w @ t"
  then have "tl (json_string v) @ r = tl (json_string w) @ t" by (simp add: json_string_def)
  then have "read_string (tl (json_string w) @ t) = Some (v, r)" using read_json_string [of v r] by (rule subst)
  then have "Some (w, t) = Some (v, r)" unfolding read_json_string .
  then show "v = w \<and> r = t" by simp
qed simp

end
