(* ===== verification/KubeApi.thy ===== *)
theory KubeApi
  imports Prelude
begin

text \<open>
  The Kubernetes objects of the provider: its own API types (\<open>api/v1alpha1\<close>,
  \<open>api/controlplane/v1alpha1\<close>, \<open>api/bootstrap/v1alpha1\<close>) with every field of
  their specs and statuses, the fields the provider reads and writes of the Cluster API types it
  works with, and the two parameters of webhooks and controllers: \<open>kube\<close>, the client of the
  API server, and \<open>kube_lib\<close>, the functions and constants of the Go packages they call
  (\<open>golang.org/x/mod/semver\<close>, \<open>k8s.io/apimachinery\<close>,
  \<open>sigs.k8s.io/cluster-api\<close> and \<open>sigs.k8s.io/controller-runtime\<close>).
\<close>

section \<open>Metadata and shared types\<close>

record owner_reference =
  OR_APIVersion :: string
  OR_Kind :: string
  OR_Name :: string

record object_meta =
  M_Namespace :: string
  M_Name :: string
  M_UID :: string
  M_Generation :: int64
  M_OwnerReferences :: "owner_reference list"
  M_Labels :: "string \<rightharpoonup> string"
  M_Annotations :: "string \<rightharpoonup> string"
  M_Finalizers :: "string list"
  M_DeletionTimestamp :: "int option"
  M_ResourceVersion :: string

record condition =
  Cond_Type :: string
  Cond_Status :: string
  Cond_Reason :: string
  Cond_Message :: string

record contract_ref =
  Ref_APIGroup :: string
  Ref_Kind :: string
  Ref_Name :: string

record api_endpoint =
  Ep_Host :: string
  Ep_Port :: int32

record machine_address =
  Addr_Type :: string
  Addr_Address :: string

section \<open>HypervisorCluster\<close>

record image_ref =
  Im_Version :: string
  Im_Path :: string

record hc_network =
  HC_CIDR :: string
  HC_Gateway :: string
  HC_DNSIP :: string
  HC_BridgeName :: string
  HC_NATTable :: string

record hc_spec =
  HC_ClusterName :: string
  HC_Network :: hc_network
  HC_Endpoint :: api_endpoint
  HC_Images :: "image_ref list"

record hc_status =
  HCS_Ready :: bool
  HCS_Provisioned :: "bool option"
  HCS_Endpoint :: api_endpoint
  HCS_FailureReason :: string
  HCS_FailureMessage :: string
  HCS_Conditions :: "condition list"

record hypervisor_cluster =
  HC_Meta :: object_meta
  HC_Spec :: hc_spec
  HC_Status :: hc_status

section \<open>HypervisorMachine and its template\<close>

record hm_spec =
  HM_ClusterName :: string
  HM_CPU :: int32
  HM_RAM :: int32
  HM_Disk :: int32
  HM_MAC :: string
  HM_ProviderID :: "string option"
  HM_RetainDiskOnDelete :: bool

record machine_port =
  MPP_VMPort :: int32
  MPP_HostPort :: int32

record hm_status =
  HMS_Ready :: bool
  HMS_Version :: string
  HMS_Image :: string
  HMS_Provisioned :: "bool option"
  HMS_Addresses :: "machine_address list"
  HMS_PublishedPorts :: "machine_port list"
  HMS_ProviderID :: "string option"
  HMS_FailureReason :: string
  HMS_FailureMessage :: string
  HMS_Conditions :: "condition list"

record hypervisor_machine =
  HM_Meta :: object_meta
  HM_Spec :: hm_spec
  HM_Status :: hm_status

record hypervisor_machine_template =
  HMT_Meta :: object_meta
  HMT_TemplateMeta :: object_meta
  HMT_TemplateSpec :: hm_spec

section \<open>HypervisorControlPlane\<close>

record cp_spec =
  CP_Replicas :: int32
  CP_Version :: string
  CP_TemplateLabels :: "string \<rightharpoonup> string"
  CP_TemplateAnnotations :: "string \<rightharpoonup> string"
  CP_InfrastructureRef :: contract_ref

record cp_replacement =
  Rep_MachineName :: string
  Rep_TargetVersion :: string
  Rep_SnapshotPath :: string

record cp_status =
  CPS_Ready :: bool
  CPS_Initialized :: bool
  CPS_ControlPlaneInitialized :: "bool option"
  CPS_Selector :: string
  CPS_Version :: "string option"
  CPS_Replicas :: int32
  CPS_UpdatedReplicas :: int32
  CPS_ReadyReplicas :: int32
  CPS_UnavailableReplicas :: int32
  CPS_FailureReason :: string
  CPS_FailureMessage :: string
  CPS_Replacement :: "cp_replacement option"
  CPS_Conditions :: "condition list"

record hypervisor_control_plane =
  CP_Meta :: object_meta
  CP_Spec :: cp_spec
  CP_Status :: cp_status

section \<open>HypervisorConfig\<close>

record hcfg_spec =
  Cfg_ClusterName :: string
  Cfg_Role :: string
  Cfg_NodeName :: string
  Cfg_SSHPublicKey :: string
  Cfg_EtcdSnapshotHostPath :: string

record hcfg_initialization =
  CfgI_DataSecretCreated :: "bool option"
  CfgI_DataSecretName :: string

record hcfg_status =
  CfgS_Ready :: bool
  CfgS_DataSecretName :: "string option"
  CfgS_Initialization :: "hcfg_initialization option"
  CfgS_FailureReason :: string
  CfgS_FailureMessage :: string
  CfgS_Conditions :: "condition list"

record hypervisor_config =
  Cfg_Meta :: object_meta
  Cfg_Spec :: hcfg_spec
  Cfg_Status :: hcfg_status

section \<open>HypervisorUpgradePlan\<close>

text \<open>A phase is a string type in Go, so that an object may carry any value.\<close>

type_synonym plan_phase = string

definition UpgradePlanPhasePending :: plan_phase where
  "UpgradePlanPhasePending = ''Pending''"

definition UpgradePlanPhaseRollingControlPlane :: plan_phase where
  "UpgradePlanPhaseRollingControlPlane = ''RollingControlPlane''"

definition UpgradePlanPhaseRollingWorkers :: plan_phase where
  "UpgradePlanPhaseRollingWorkers = ''RollingWorkers''"

definition UpgradePlanPhaseCompleted :: plan_phase where
  "UpgradePlanPhaseCompleted = ''Completed''"

definition UpgradePlanPhaseFailed :: plan_phase where
  "UpgradePlanPhaseFailed = ''Failed''"

definition Terminal :: "plan_phase \<Rightarrow> bool" where
  "Terminal p \<longleftrightarrow> p = UpgradePlanPhaseCompleted \<or> p = UpgradePlanPhaseFailed"

lemmas phase_defs = UpgradePlanPhasePending_def UpgradePlanPhaseRollingControlPlane_def
  UpgradePlanPhaseRollingWorkers_def UpgradePlanPhaseCompleted_def UpgradePlanPhaseFailed_def

lemma phases_distinct [simp]:
  "UpgradePlanPhasePending \<noteq> []" "[] \<noteq> UpgradePlanPhasePending"
  "UpgradePlanPhaseRollingControlPlane \<noteq> []" "[] \<noteq> UpgradePlanPhaseRollingControlPlane"
  "UpgradePlanPhaseRollingWorkers \<noteq> []" "[] \<noteq> UpgradePlanPhaseRollingWorkers"
  "UpgradePlanPhaseCompleted \<noteq> []" "[] \<noteq> UpgradePlanPhaseCompleted"
  "UpgradePlanPhaseFailed \<noteq> []" "[] \<noteq> UpgradePlanPhaseFailed"
  "UpgradePlanPhasePending \<noteq> UpgradePlanPhaseRollingControlPlane" "UpgradePlanPhasePending \<noteq> UpgradePlanPhaseRollingWorkers" "UpgradePlanPhasePending \<noteq> UpgradePlanPhaseCompleted" "UpgradePlanPhasePending \<noteq> UpgradePlanPhaseFailed"
  "UpgradePlanPhaseRollingControlPlane \<noteq> UpgradePlanPhasePending" "UpgradePlanPhaseRollingControlPlane \<noteq> UpgradePlanPhaseRollingWorkers" "UpgradePlanPhaseRollingControlPlane \<noteq> UpgradePlanPhaseCompleted" "UpgradePlanPhaseRollingControlPlane \<noteq> UpgradePlanPhaseFailed"
  "UpgradePlanPhaseRollingWorkers \<noteq> UpgradePlanPhasePending" "UpgradePlanPhaseRollingWorkers \<noteq> UpgradePlanPhaseRollingControlPlane" "UpgradePlanPhaseRollingWorkers \<noteq> UpgradePlanPhaseCompleted" "UpgradePlanPhaseRollingWorkers \<noteq> UpgradePlanPhaseFailed"
  "UpgradePlanPhaseCompleted \<noteq> UpgradePlanPhasePending" "UpgradePlanPhaseCompleted \<noteq> UpgradePlanPhaseRollingControlPlane" "UpgradePlanPhaseCompleted \<noteq> UpgradePlanPhaseRollingWorkers" "UpgradePlanPhaseCompleted \<noteq> UpgradePlanPhaseFailed"
  "UpgradePlanPhaseFailed \<noteq> UpgradePlanPhasePending" "UpgradePlanPhaseFailed \<noteq> UpgradePlanPhaseRollingControlPlane" "UpgradePlanPhaseFailed \<noteq> UpgradePlanPhaseRollingWorkers" "UpgradePlanPhaseFailed \<noteq> UpgradePlanPhaseCompleted"
  by (simp_all add: phase_defs)

lemma Terminal_simps [simp]:
  "Terminal UpgradePlanPhaseCompleted" "Terminal UpgradePlanPhaseFailed" "\<not> Terminal []" "\<not> Terminal UpgradePlanPhasePending"
  "\<not> Terminal UpgradePlanPhaseRollingControlPlane" "\<not> Terminal UpgradePlanPhaseRollingWorkers"
  by (simp_all add: Terminal_def)

record step_status =
  St_Version :: string
  St_Phase :: plan_phase

record plan_spec =
  PS_ClusterName :: string
  PS_ToVersion :: string
  PS_Steps :: "string list"

record plan_status =
  PSt_Phase :: plan_phase
  PSt_FromVersion :: string
  PSt_CurrentStep :: int
  PSt_Steps :: "step_status list"
  PSt_FailureReason :: string
  PSt_FailureMessage :: string
  PSt_Conditions :: "condition list"

record plan =
  P_Meta :: object_meta
  P_Spec :: plan_spec
  P_Status :: plan_status

section \<open>Cluster API objects\<close>

record cluster =
  CL_Meta :: object_meta
  CL_TopologyVersion :: string
  CL_TopologyClass :: string
  CL_ControlPlaneRef :: contract_ref
  CL_InfrastructureRef :: contract_ref

record machine_deployment =
  MD_Meta :: object_meta
  MD_Version :: string
  MD_Replicas :: "int32 option"
  MD_UpToDateReplicas :: "int32 option"
  MD_ReadyReplicas :: "int32 option"

record machine =
  MC_Meta :: object_meta
  MC_Version :: string
  MC_ClusterName :: string
  MC_BootstrapRef :: contract_ref
  MC_InfrastructureRef :: contract_ref

text \<open>A core Secret: its labels are in its metadata.\<close>

record secret =
  Sec_Meta :: object_meta
  Sec_Data :: "string \<rightharpoonup> byte list"

section \<open>The libraries and the API client\<close>

text \<open>
  The functions the sources call in packages that are not part of the repository. Finalizer and
  condition helpers work on the one list of the object they change.
\<close>

record kube_lib =
  Lib_IsValid :: "string \<Rightarrow> bool"
  Lib_Compare :: "string \<Rightarrow> string \<Rightarrow> int"
  Lib_SetStatusCondition :: "condition list \<Rightarrow> condition \<Rightarrow> condition list"
  Lib_ContainsFinalizer :: "string list \<Rightarrow> string \<Rightarrow> bool"
  Lib_AddFinalizer :: "string list \<Rightarrow> string \<Rightarrow> string list"
  Lib_RemoveFinalizer :: "string list \<Rightarrow> string \<Rightarrow> string list"
  Lib_IsDefined :: "contract_ref \<Rightarrow> bool"
  Lib_PausedAnnotation :: string
  Lib_ClusterNameLabel :: string
  Lib_ControlPlaneLabel :: string

type_synonym object_key = "string \<times> string"

text \<open>
  The client of the API server: a call may fail and may change what the server holds, that is the
  state \<open>'s\<close>. A patch is given the object before and after the change it merges.
\<close>

record 's kube =
  K_GetPlan :: "object_key \<Rightarrow> ('s, plan) go"
  K_ListPlans :: "string \<Rightarrow> ('s, plan list) go"
  K_UpdatePlan :: "plan \<Rightarrow> ('s, unit) go"
  K_UpdatePlanStatus :: "plan \<Rightarrow> ('s, unit) go"
  K_GetCluster :: "object_key \<Rightarrow> ('s, cluster) go"
  K_PatchCluster :: "cluster \<Rightarrow> cluster \<Rightarrow> ('s, unit) go"
  K_GetHypervisorCluster :: "object_key \<Rightarrow> ('s, hypervisor_cluster) go"
  K_GetControlPlane :: "object_key \<Rightarrow> ('s, hypervisor_control_plane) go"
  K_ListMachines :: "string \<Rightarrow> (string \<times> string) list \<Rightarrow> ('s, machine list) go"
  K_ListMachineDeployments :: "string \<Rightarrow> (string \<times> string) list \<Rightarrow> ('s, machine_deployment list) go"
  K_PatchMachineDeployment :: "machine_deployment \<Rightarrow> machine_deployment \<Rightarrow> ('s, unit) go"
  K_Event :: "plan \<Rightarrow> string \<Rightarrow> string \<Rightarrow> string \<Rightarrow> 's \<Rightarrow> 's"

definition IsNotFound_api :: "goerr \<Rightarrow> bool" where
  "IsNotFound_api e \<longleftrightarrow> err_kind e = ApiStatus ReasonNotFound"

definition show_key :: "object_key \<Rightarrow> string" where
  "show_key k = Quote (fst k @ ''/'' @ snd k)"

text \<open>A get whose \<open>NotFound\<close> means that there is nothing: \<open>nil\<close>.\<close>

definition optionalG :: "string \<Rightarrow> ('s, 'a) go \<Rightarrow> ('s, 'a option) go" where
  "optionalG p m = catchG m (\<lambda>r. case r of
      Inl e \<Rightarrow> if IsNotFound_api e then returnG None else failG (wrap_err p e)
    | Inr x \<Rightarrow> returnG (Some x))"

lemma run_optional:
  "optionalG p m s = (case m s of
     (Inl e, t) \<Rightarrow> (if IsNotFound_api e then Inr None else Inl (wrap_err p e), t)
   | (Inr x, t) \<Rightarrow> (Inr (Some x), t))"
  by (simp add: optionalG_def catchG_def split: prod.split sum.split)

end
