(* ===== verification/TreeBlob.thy ===== *)
theory TreeBlob
  imports Base64 Json KubeApi "HOL-Library.AList"
begin

text \<open>
  The bootstrap data of a machine: the confext tree the config controller stores in a Secret
  (\<open>encodeTreeBlob\<close>) and the machine controller reads back (\<open>decodeConfextTree\<close>). It
  is a JSON object from paths to base64 text. Reading a \<open>map[string]string\<close> with
  \<open>encoding/json\<close> succeeds exactly on an object whose values are strings or \<open>null\<close>,
  and on \<open>null\<close>; what the error says is left out. A tree, a Go map, is the list of its entries.
  Strings are read exactly on valid UTF-8.
\<close>

type_synonym tree = "(string \<times> byte list) list"

section \<open>JSON strings\<close>

definition hex_digit :: "char \<Rightarrow> nat option" where
  "hex_digit c = (let n = (of_char c :: nat) in
     if 48 \<le> n \<and> n \<le> 57 then Some (n - 48) else if 97 \<le> n \<and> n \<le> 102 then Some (n - 87)
     else if 65 \<le> n \<and> n \<le> 70 then Some (n - 55) else None)"

fun four_hex :: "string \<Rightarrow> (nat \<times> string) option" where
  "four_hex (a # b # c # d # s) =
     (case (hex_digit a, hex_digit b, hex_digit c, hex_digit d) of
        (Some w, Some x, Some y, Some z) \<Rightarrow> Some (((w * 16 + x) * 16 + y) * 16 + z, s)
      | _ \<Rightarrow> None)"
| "four_hex _ = None"

text \<open>The UTF-8 form of a code point.\<close>

definition utf8 :: "nat \<Rightarrow> string" where
  "utf8 n = map char_of
     (if n < 0x80 then [n]
      else if n < 0x800 then [0xC0 + n div 64, 0x80 + n mod 64]
      else if n < 0x10000 then [0xE0 + n div 4096, 0x80 + n div 64 mod 64, 0x80 + n mod 64]
      else [0xF0 + n div 262144, 0x80 + n div 4096 mod 64, 0x80 + n div 64 mod 64, 0x80 + n mod 64])"

text \<open>A unit of UTF-16, the second half of a pair if it follows, and the replacement character otherwise.\<close>

definition utf16 :: "nat \<Rightarrow> string \<Rightarrow> string \<times> string" where
  "utf16 n s =
     (if n < 0xD800 \<or> 0xE000 \<le> n then (utf8 n, s)
      else case s of
        b # u # s' \<Rightarrow>
          if b = CHR 0x5C \<and> u = CHR ''u'' then
            (case four_hex s' of
               Some (m, s'') \<Rightarrow>
                 if n < 0xDC00 \<and> 0xDC00 \<le> m \<and> m < 0xE000
                 then (utf8 (0x10000 + (n - 0xD800) * 1024 + (m - 0xDC00)), s'') else (utf8 0xFFFD, s)
             | None \<Rightarrow> (utf8 0xFFFD, s))
          else (utf8 0xFFFD, s)
      | _ \<Rightarrow> (utf8 0xFFFD, s))"

lemma four_hex_length: "four_hex s = Some (n, r) \<Longrightarrow> length r < length s"
  by (induction s rule: four_hex.induct) (auto split: option.splits prod.splits)

lemma utf16_length: "length (snd (utf16 n s)) \<le> length s"
  by (auto simp: utf16_def split: list.split option.split dest!: four_hex_length)

definition plain_escape :: "char \<Rightarrow> char option" where
  "plain_escape e =
     (if e = CHR 0x22 \<or> e = CHR 0x5C \<or> e = CHR ''/'' then Some e
      else if e = CHR ''b'' then Some (CHR 0x08) else if e = CHR ''f'' then Some (CHR 0x0C)
      else if e = CHR ''n'' then Some (CHR 0x0A) else if e = CHR ''r'' then Some (CHR 0x0D)
      else if e = CHR ''t'' then Some (CHR 0x09) else None)"

text \<open>The rest of a string literal after its opening quote: the value and what follows.\<close>

function jstring :: "string \<Rightarrow> (string \<times> string) option" where
  "jstring [] = None"
| "jstring (c # s) =
     (if c = CHR 0x22 then Some ([], s)
      else if c = CHR 0x5C then
        (case s of
           [] \<Rightarrow> None
         | e # s' \<Rightarrow>
             if e = CHR ''u'' then
               (case four_hex s' of
                  None \<Rightarrow> None
                | Some (n, s'') \<Rightarrow> map_option (\<lambda>(v, rest). (fst (utf16 n s'') @ v, rest)) (jstring (snd (utf16 n s''))))
             else (case plain_escape e of
                 None \<Rightarrow> None
               | Some d \<Rightarrow> map_option (\<lambda>(v, rest). (d # v, rest)) (jstring s')))
      else if (of_char c :: nat) < 32 then None
      else map_option (\<lambda>(v, rest). (c # v, rest)) (jstring s))"
  by pat_completeness auto
termination
proof (relation "measure length")
  fix c :: char and s :: string and e :: char and s' :: string and x :: "nat \<times> string" and n :: nat and s'' :: string
  assume "s = e # s'" and "four_hex s' = Some x" and "(n, s'') = x"
  then have "length s'' < length s'" using four_hex_length by force
  with utf16_length [of n s''] \<open>s = e # s'\<close> show "(snd (utf16 n s''), c # s) \<in> measure length" by auto
qed auto

declare jstring.simps(2) [simp del]

lemma jstring_length: "jstring s = Some (v, rest) \<Longrightarrow> length rest < length s"
proof (induction s arbitrary: v rest rule: jstring.induct)
  case (2 c s)
  show ?case
  proof (cases "c = CHR 0x22")
    case True
    with "2.prems" show ?thesis by (simp add: jstring.simps(2))
  next
    case not_quote: False
    show ?thesis
    proof (cases "c = CHR 0x5C")
      case escape: True
      with "2.prems" obtain e s' where s: "s = e # s'" by (auto simp: jstring.simps(2) split: list.splits)
      show ?thesis
      proof (cases "e = CHR ''u''")
        case True
        with "2.prems" not_quote escape s obtain n s'' w where h: "four_hex s' = Some (n, s'')"
          and j: "jstring (snd (utf16 n s'')) = Some (w, rest)"
          by (auto simp: jstring.simps(2) split: option.splits prod.splits)
        have "length rest < length (snd (utf16 n s''))" using "2.IH"(1) [OF not_quote escape s True h _ j] by simp
        with four_hex_length [OF h] utf16_length [of n s''] s show ?thesis by simp
      next
        case False
        with "2.prems" not_quote escape s obtain d w where d: "plain_escape e = Some d" and j: "jstring s' = Some (w, rest)"
          by (auto simp: jstring.simps(2) split: option.splits)
        from "2.IH"(2) [OF not_quote escape s False d j] s show ?thesis by simp
      qed
    next
      case False
      with "2.prems" not_quote obtain w where "\<not> (of_char c :: nat) < 32" and "jstring s = Some (w, rest)"
        by (auto simp: jstring.simps(2) split: if_splits)
      with "2.IH"(3) [OF not_quote False] show ?thesis by fastforce
    qed
  qed
qed simp

section \<open>JSON objects of strings\<close>

datatype jtoken = TOpen | TClose | TColon | TComma | TNull | TString string

definition json_space :: "char \<Rightarrow> bool" where
  "json_space c \<longleftrightarrow> c = CHR 0x20 \<or> c = CHR 0x09 \<or> c = CHR 0x0D \<or> c = CHR 0x0A"

function jtokens :: "string \<Rightarrow> jtoken list option" where
  "jtokens [] = Some []"
| "jtokens (c # s) =
     (if json_space c then jtokens s
      else if c = CHR ''{'' then map_option (Cons TOpen) (jtokens s)
      else if c = CHR ''}'' then map_option (Cons TClose) (jtokens s)
      else if c = CHR '':'' then map_option (Cons TColon) (jtokens s)
      else if c = CHR '','' then map_option (Cons TComma) (jtokens s)
      else if c = CHR ''n'' then (if HasPrefix s ''ull'' then map_option (Cons TNull) (jtokens (drop 3 s)) else None)
      else if c = CHR 0x22 then
        (case jstring s of None \<Rightarrow> None | Some (v, rest) \<Rightarrow> map_option (Cons (TString v)) (jtokens rest))
      else None)"
  by pat_completeness auto
termination
  by (relation "measure length") (auto dest: jstring_length)

declare jtokens.simps(2) [simp del]

text \<open>A string value, or \<open>null\<close>, which leaves the zero value.\<close>

fun string_value :: "jtoken \<Rightarrow> string option" where
  "string_value (TString v) = Some v"
| "string_value TNull = Some []"
| "string_value _ = None"

fun jmembers :: "jtoken list \<Rightarrow> (string \<times> string) list option" where
  "jmembers (TString k # TColon # v # TComma # ts) =
     (case string_value v of None \<Rightarrow> None | Some x \<Rightarrow> map_option (Cons (k, x)) (jmembers ts))"
| "jmembers [TString k, TColon, v, TClose] = map_option (\<lambda>x. [(k, x)]) (string_value v)"
| "jmembers _ = None"

fun jobject :: "jtoken list \<Rightarrow> (string \<times> string) list option" where
  "jobject [TNull] = Some []"
| "jobject [TOpen, TClose] = Some []"
| "jobject (TOpen # ts) = jmembers ts"
| "jobject _ = None"

text \<open>\<open>json.Unmarshal\<close> into a \<open>map[string]string\<close>: the last of two equal keys counts.\<close>

definition unmarshal_map :: "string \<Rightarrow> (string \<times> string) list option" where
  "unmarshal_map s = map_option (foldl (\<lambda>acc (k, v). AList.update k v acc) []) (Option.bind (jtokens s) jobject)"

section \<open>The blob\<close>

definition confextTreeKey :: string where
  "confextTreeKey = ''tree.json''"

definition encodeTreeBlob :: "tree \<Rightarrow> byte list" where
  "encodeTreeBlob t = string_bytes (Marshal (JObject
     (map (\<lambda>(path, content). (path, JString (EncodeToString content))) (sort_key fst t))))"

fun decode_entries :: "(string \<times> string) list \<Rightarrow> goerr + tree" where
  "decode_entries [] = Inr []"
| "decode_entries ((path, content) # es) =
     (case DecodeString content of
        Inl e \<Rightarrow> Inl (wrap_err (''decode tree path '' @ Quote path) e)
      | Inr bs \<Rightarrow> (case decode_entries es of Inl e \<Rightarrow> Inl e | Inr t \<Rightarrow> Inr ((path, bs) # t)))"

definition decodeConfextTree :: "secret \<Rightarrow> goerr + tree" where
  "decodeConfextTree sec = (case Sec_Data sec confextTreeKey of
     None \<Rightarrow> Inr []
   | Some blob \<Rightarrow>
       (case unmarshal_map (bytes_string blob) of
          None \<Rightarrow> Inl (plain_err (''unmarshal '' @ confextTreeKey @ '': invalid JSON''))
        | Some encoded \<Rightarrow> decode_entries encoded))"

section \<open>Reading back what was written\<close>

lemma hex_digit_hex_char: "d < 16 \<Longrightarrow> hex_digit (hex_char d) = Some d"
  by (auto simp: hex_digit_def hex_char_def Let_def)

lemma jstring_json_char: "jstring (json_char c @ s) = map_option (\<lambda>(v, rest). (c # v, rest)) (jstring s)"
proof -
  let ?n = "of_char c :: nat"
  have range: "?n < 256" by (metis of_char_mod_256 mod_less_divisor zero_less_numeral)
  then have hex: "hex_digit (hex_char (?n div 16)) = Some (?n div 16)" "hex_digit (hex_char (?n mod 16)) = Some (?n mod 16)"
    by (auto intro!: hex_digit_hex_char simp: less_mult_imp_div_less)
  have zero: "hex_digit (CHR ''0'') = Some 0" by (simp add: hex_digit_def)
  have u00: "jstring (json_u00 c @ s) = map_option (\<lambda>(v, rest). (c # v, rest)) (jstring s)" if "?n < 0x80"
    using that by (simp add: json_u00_def jstring.simps(2) hex zero utf16_def utf8_def)
  show ?thesis
  proof (cases "?n < 32 \<or> c = CHR ''<'' \<or> c = CHR ''>'' \<or> c = CHR ''&''")
    case True
    then have "?n < 0x80" by auto
    with True u00 show ?thesis unfolding json_char_def by (simp add: jstring.simps(2) plain_escape_def)
  next
    case False
    then show ?thesis unfolding json_char_def by (simp add: jstring.simps(2) plain_escape_def)
  qed
qed

lemma jstring_json_string: "jstring (tl (json_string v) @ rest) = Some (v, rest)"
proof (induction v)
  case (Cons c v)
  have "tl (json_string (c # v)) @ rest = json_char c @ (tl (json_string v) @ rest)" by (simp add: json_string_def)
  then show ?case by (simp only: jstring_json_char Cons.IH) simp
qed (simp add: json_string_def jstring.simps(2))

lemma jtokens_string: "jtokens (json_string v @ rest) = map_option (Cons (TString v)) (jtokens rest)"
proof -
  have "json_string v @ rest = CHR 0x22 # (tl (json_string v) @ rest)" by (simp add: json_string_def)
  then show ?thesis by (simp only: jtokens.simps(2) jstring_json_string) (simp add: json_space_def)
qed

lemma jtokens_punct:
  "jtokens (CHR ''{'' # s) = map_option (Cons TOpen) (jtokens s)" "jtokens (CHR ''}'' # s) = map_option (Cons TClose) (jtokens s)"
  "jtokens (CHR '':'' # s) = map_option (Cons TColon) (jtokens s)" "jtokens (CHR '','' # s) = map_option (Cons TComma) (jtokens s)"
  by (simp_all add: jtokens.simps(2) json_space_def)

abbreviation member_text :: "string \<times> string \<Rightarrow> string" where
  "member_text \<equiv> \<lambda>(k, v). json_string k @ '':'' @ json_string v"

lemma jmembers_text:
  "kvs \<noteq> [] \<Longrightarrow> Option.bind (jtokens (join_with '','' (map member_text kvs) @ ''}'')) jmembers = Some kvs"
proof (induction kvs rule: induct_list012)
  case (2 kv)
  then show ?case by (cases kv) (simp add: jtokens_string jtokens_punct)
next
  case (3 kv kv' kvs)
  from "3.IH"(2) obtain ts where ts: "jtokens (join_with '','' (map member_text (kv' # kvs)) @ ''}'') = Some ts"
    and m: "jmembers ts = Some (kv' # kvs)"
    by (auto simp: bind_eq_Some_conv)
  from ts have "jtokens (join_with '','' (map member_text (kv # kv' # kvs)) @ ''}'') =
      Some (TString (fst kv) # TColon # TString (snd kv) # TComma # ts)"
    by (cases kv) (simp add: jtokens_string jtokens_punct)
  with m show ?case by (simp add: bind_eq_Some_conv)
qed simp

lemma jobject_text:
  "Option.bind (jtokens (''{'' @ join_with '','' (map member_text kvs) @ ''}'')) jobject = Some kvs"
proof (cases "kvs = []")
  case True
  then show ?thesis by (simp add: jtokens_punct)
next
  case False
  then obtain ts where ts: "jtokens (join_with '','' (map member_text kvs) @ ''}'') = Some ts" and m: "jmembers ts = Some kvs"
    using jmembers_text [OF False] by (auto simp: bind_eq_Some_conv)
  from m have "jobject (TOpen # ts) = Some kvs" by (induction ts rule: jmembers.induct) auto
  with ts show ?thesis by (simp add: jtokens_punct)
qed

lemma fold_update_distinct:
  "distinct (map fst (acc @ kvs)) \<Longrightarrow> foldl (\<lambda>acc (k, v). AList.update k v acc) acc kvs = acc @ kvs"
proof (induction kvs arbitrary: acc)
  case (Cons kv kvs)
  obtain k v where kv: "kv = (k, v)" by fastforce
  have "k \<notin> fst ` set acc" using Cons.prems kv by auto
  then have "AList.update k v acc = acc @ [(k, v)]" by (induction acc) auto
  with Cons.IH [of "acc @ [(k, v)]"] Cons.prems kv show ?case by simp
qed simp

lemma unmarshal_marshal:
  assumes "distinct (map fst kvs)"
  shows "unmarshal_map (Marshal (JObject (map (\<lambda>(k, v). (k, JString v)) kvs))) = Some kvs"
proof -
  have "Marshal (JObject (map (\<lambda>(k, v). (k, JString v)) kvs)) = ''{'' @ join_with '','' (map member_text kvs) @ ''}''"
    by (simp add: comp_def case_prod_beta')
  with jobject_text [of kvs] fold_update_distinct [of "[]" kvs] assms show ?thesis by (simp add: unmarshal_map_def)
qed

lemma decode_entries_encoded: "decode_entries (map (\<lambda>(p, c). (p, EncodeToString c)) t) = Inr t"
  by (induction t) auto

text \<open>
  The machine controller reads exactly the tree the config controller rendered: for a tree
  with pairwise different ASCII paths, decoding the Secret that holds the encoded blob gives every path
  the contents it had, whatever bytes they are, in the sorted order of the paths, and no others.
\<close>

theorem tree_blob_round_trip:
  assumes "distinct (map fst t)" and "\<forall>p\<in>set (map fst t). list_all (\<lambda>c. (of_char c :: nat) < 128) p"
    and "Sec_Data sec confextTreeKey = Some (encodeTreeBlob t)"
  shows "decodeConfextTree sec = Inr (sort_key fst t)"
proof -
  let ?kvs = "map (\<lambda>(p, c). (p, EncodeToString c)) (sort_key fst t)"
  have "map fst ?kvs = map fst (sort_key fst t)" by (simp add: comp_def case_prod_beta)
  then have "distinct (map fst ?kvs)"
    using assms(1) by (metis (no_types, lifting) distinct_map distinct_sort set_sort)
  from unmarshal_marshal [OF this] have "unmarshal_map (bytes_string (encodeTreeBlob t)) = Some ?kvs"
    by (simp add: encodeTreeBlob_def comp_def case_prod_beta)
  then show ?thesis by (simp add: decodeConfextTree_def assms(3) decode_entries_encoded)
qed

end

