(* ===== verification/LedgerJson.thy ===== *)
theory LedgerJson
  imports Ledger TreeBlob
begin

text \<open>
  A JSON codec for the ownership ledger, in the layout of \<open>json.MarshalIndent\<close> with
  two spaces. As \<open>encoding/json\<close> documents, each byte that is not part of a valid UTF-8
  sequence becomes U+FFFD on both sides. The reader accepts the documents \<open>Register\<close> writes,
  with any white space between tokens. It satisfies what \<open>Ledger\<close> assumes of the codec, and
  shows where a ledger that was written reads back differently.
\<close>

section \<open>Replacing invalid bytes\<close>

function to_utf8 :: "string \<Rightarrow> string" where
  "to_utf8 [] = []"
| "to_utf8 (c # s) =
     (if rune_len (c # s) = 0 then utf8 0xFFFD @ to_utf8 s
      else take (rune_len (c # s)) (c # s) @ to_utf8 (drop (rune_len (c # s) - 1) s))"
  by pat_completeness auto
termination
  by (relation "measure length") auto

declare to_utf8.simps(2) [simp del]

lemma take_rune: "rune_len (c # s) \<noteq> 0 \<Longrightarrow> take (rune_len (c # s)) (c # s) = c # take (rune_len (c # s) - 1) s"
  by (cases "rune_len (c # s)") simp_all

lemma to_utf8_valid: "valid_utf8 s \<Longrightarrow> to_utf8 s = s"
  by (induction s rule: valid_utf8.induct) (simp_all add: valid_utf8.simps(2) to_utf8.simps(2) take_rune)

lemma rune_len_cases:
  assumes "rune_len s \<noteq> 0"
  obtains a s1 where "s = a # s1" "byte_in 0 0x7F a"
  | a b s2 where "s = a # b # s2" "\<not> byte_in 0 0x7F a" "two_bytes a b"
  | a b c s3 where "s = a # b # c # s3" "\<not> byte_in 0 0x7F a" "\<not> two_bytes a b" "three_bytes a b c"
  | a b c d s4 where "s = a # b # c # d # s4" "\<not> byte_in 0 0x7F a" "\<not> two_bytes a b" "\<not> three_bytes a b c" "four_bytes a b c d"
  using assms unfolding rune_len_def by (simp split: list.split_asm if_split_asm)

lemma rune_len_prefix: "rune_len s \<noteq> 0 \<Longrightarrow> rune_len (take (rune_len s) s @ t) = rune_len s"
  by (erule rune_len_cases) (simp_all add: rune_len_def)

lemma rune_len_le: "rune_len s \<le> length s"
  by (auto simp: rune_len_def split: list.split)

lemma valid_utf8_append:
  assumes "rune_len (c # s) \<noteq> 0" and "valid_utf8 t"
  shows "valid_utf8 (take (rune_len (c # s)) (c # s) @ t)"
proof -
  let ?n = "rune_len (c # s)"
  have "rune_len (c # take (?n - 1) s @ t) = ?n"
    using rune_len_prefix [OF assms(1), of t] by (simp only: take_rune [OF assms(1)] append_Cons)
  moreover have "length (take (?n - 1) s) = ?n - 1" using rune_len_le [of "c # s"] by auto
  ultimately show ?thesis using assms by (simp add: take_rune valid_utf8.simps(2))
qed

lemma valid_to_utf8: "valid_utf8 (to_utf8 s)"
proof (induction s rule: to_utf8.induct)
  case (2 c s)
  have "rune_len (utf8 0xFFFD) = 3"
    by (simp add: utf8_def rune_len_def byte_in_def two_bytes_def three_bytes_def)
  then have "valid_utf8 (utf8 0xFFFD @ t)" if "valid_utf8 t" for t
    using that valid_utf8_append [of "char_of (0xEF :: nat)" "[char_of (0xBF :: nat), char_of (0xBD :: nat)]" t] by (simp add: utf8_def)
  with 2 show ?case
    by (subst to_utf8.simps(2)) (auto intro: valid_utf8_append)
qed simp

section \<open>The codec\<close>

definition name_text :: "string \<Rightarrow> string" where
  "name_text v = json_string (to_utf8 v)"

text \<open>No predecessors is \<open>null\<close>: \<open>uniqueSorted\<close> of the nil slice is the nil slice.\<close>

definition predecessors_text :: "string list \<Rightarrow> string" where
  "predecessors_text ps =
     (if ps = [] then ''null''
      else ''['' @ [CHR 0x0A] @ ''    '' @ join_with ('','' @ [CHR 0x0A] @ ''    '') (map name_text ps) @ [CHR 0x0A] @ ''  ]'')"

definition ledger_text :: "ledger \<Rightarrow> string" where
  "ledger_text l = ''{'' @ [CHR 0x0A] @
     ''  '' @ json_string ''current'' @ '': '' @ name_text (Current l) @ '','' @ [CHR 0x0A] @
     ''  '' @ json_string ''predecessors'' @ '': '' @ predecessors_text (Predecessors l) @ [CHR 0x0A] @ ''}''"

datatype ltoken = LPunct char | LNull | LName string

function ltokens :: "string \<Rightarrow> ltoken list option" where
  "ltokens [] = Some []"
| "ltokens (c # s) =
     (if json_space c then ltokens s
      else if c \<in> set ''{}[]:,'' then map_option (Cons (LPunct c)) (ltokens s)
      else if c = CHR ''n'' \<and> HasPrefix s ''ull'' then map_option (Cons LNull) (ltokens (drop 3 s))
      else if c = CHR 0x22 then
        (case jstring s of None \<Rightarrow> None | Some (v, rest) \<Rightarrow> map_option (Cons (LName (to_utf8 v))) (ltokens rest))
      else None)"
  by pat_completeness auto
termination
  by (relation "measure length") (auto dest: jstring_length)

declare ltokens.simps(2) [simp del]

fun read_names :: "ltoken list \<Rightarrow> string list option" where
  "read_names [LName v, LPunct c, LPunct d] = (if c = CHR '']'' \<and> d = CHR ''}'' then Some [v] else None)"
| "read_names (LName v # LPunct c # ts) = (if c = CHR '','' then map_option (Cons v) (read_names ts) else None)"
| "read_names _ = None"

fun read_predecessors :: "ltoken list \<Rightarrow> string list option" where
  "read_predecessors [LNull, LPunct d] = (if d = CHR ''}'' then Some [] else None)"
| "read_predecessors (LPunct c # ts) = (if c = CHR ''['' then read_names ts else None)"
| "read_predecessors _ = None"

definition read_ledger :: "string \<Rightarrow> ledger option" where
  "read_ledger s = Option.bind (ltokens s) (\<lambda>ts.
     if take 3 ts = [LPunct (CHR ''{''), LName ''current'', LPunct (CHR '':'')] \<and>
        take 3 (drop 4 ts) = [LPunct (CHR '',''), LName ''predecessors'', LPunct (CHR '':'')]
     then (case ts ! 3 of
         LName v \<Rightarrow> map_option (\<lambda>ps. \<lparr>Current = v, Predecessors = ps\<rparr>) (read_predecessors (drop 7 ts))
       | _ \<Rightarrow> None)
     else None)"

definition indent_json :: ledger_json where
  "indent_json = \<lparr>lj_encode = ledger_text,
     lj_decode = (\<lambda>s. case read_ledger s of None \<Rightarrow> Inl (plain_err ''invalid JSON'') | Some l \<Rightarrow> Inr l)\<rparr>"

section \<open>The codec is as documented\<close>

lemma ltokens_name: "ltokens (name_text v @ rest) = map_option (Cons (LName (to_utf8 v))) (ltokens rest)"
proof -
  have "name_text v @ rest = CHR 0x22 # (tl (json_string (to_utf8 v)) @ rest)" by (simp add: name_text_def json_string_def)
  then show ?thesis
    by (simp only: ltokens.simps(2) jstring_json_string) (simp add: json_space_def to_utf8_valid valid_to_utf8)
qed

lemma ltokens_layout:
  "json_space c \<Longrightarrow> ltokens (c # s) = ltokens s"
  "c \<in> set ''{}[]:,'' \<Longrightarrow> ltokens (c # s) = map_option (Cons (LPunct c)) (ltokens s)"
  "ltokens (CHR ''n'' # CHR ''u'' # CHR ''l'' # CHR ''l'' # s) = map_option (Cons LNull) (ltokens s)"
  by (auto simp: ltokens.simps(2) json_space_def HasPrefix_def)

lemma json_space_layout: "json_space (CHR 0x0A)" "json_space (CHR 0x20)"
  by (simp_all add: json_space_def)

lemmas layout = ltokens_layout json_space_layout

lemma ltokens_names:
  assumes "ps \<noteq> []" and "ltokens rest = Some [LPunct (CHR '']''), LPunct (CHR ''}'')]"
  shows "\<exists>ts. ltokens (join_with ('','' @ [CHR 0x0A] @ ''    '') (map name_text ps) @ rest) = Some ts \<and>
    read_names ts = Some (map to_utf8 ps)"
  using assms
proof (induction ps rule: induct_list012)
  case (2 p)
  then show ?case by (simp add: ltokens_name)
next
  case (3 p q ps)
  then obtain ts where ts: "ltokens (join_with ('','' @ [CHR 0x0A] @ ''    '') (map name_text (q # ps)) @ rest) = Some ts"
    and r: "read_names ts = Some (map to_utf8 (q # ps))" by blast
  from ts have "ltokens (join_with ('','' @ [CHR 0x0A] @ ''    '') (map name_text (p # q # ps)) @ rest) =
      Some (LName (to_utf8 p) # LPunct (CHR '','') # ts)"
    by (simp add: ltokens_name layout)
  moreover from r have "read_names (LName (to_utf8 p) # LPunct (CHR '','') # ts) = Some (map to_utf8 (p # q # ps))"
    by (cases ts rule: read_names.cases) simp_all
  ultimately show ?case by blast
qed simp

lemma ltokens_predecessors:
  "\<exists>ts. ltokens (predecessors_text ps @ [CHR 0x0A] @ ''}'' @ [CHR 0x0A]) = Some ts \<and> read_predecessors ts = Some (map to_utf8 ps)"
proof (cases "ps = []")
  case True
  then show ?thesis by (simp add: predecessors_text_def layout)
next
  case False
  have "ltokens ([CHR 0x0A] @ ''  ]'' @ [CHR 0x0A] @ ''}'' @ [CHR 0x0A]) = Some [LPunct (CHR '']''), LPunct (CHR ''}'')]"
    by (simp add: layout)
  from ltokens_names [OF False this] False show ?thesis by (auto simp: predecessors_text_def layout)
qed

lemma read_ledger_text:
  "read_ledger (ledger_text l @ [CHR 0x0A]) = Some \<lparr>Current = to_utf8 (Current l), Predecessors = map to_utf8 (Predecessors l)\<rparr>"
proof -
  have key: "json_string ''current'' = name_text ''current''" "json_string ''predecessors'' = name_text ''predecessors''"
    "to_utf8 ''current'' = ''current''" "to_utf8 ''predecessors'' = ''predecessors''"
    by (simp_all add: name_text_def to_utf8.simps(2) rune_len_def byte_in_def)
  obtain ts where "ltokens (predecessors_text (Predecessors l) @ [CHR 0x0A] @ ''}'' @ [CHR 0x0A]) = Some ts"
    and "read_predecessors ts = Some (map to_utf8 (Predecessors l))" using ltokens_predecessors by blast
  then show ?thesis
    by (simp add: read_ledger_def ledger_text_def key ltokens_name layout)
qed

lemma read_names_utf8: "read_names ts = Some ps \<Longrightarrow> \<forall>v. LName v \<in> set ts \<longrightarrow> valid_utf8 v \<Longrightarrow> list_all valid_utf8 ps"
  by (induction ts arbitrary: ps rule: read_names.induct) (auto split: if_splits)

lemma read_predecessors_utf8:
  "read_predecessors ts = Some ps \<Longrightarrow> \<forall>v. LName v \<in> set ts \<longrightarrow> valid_utf8 v \<Longrightarrow> list_all valid_utf8 ps"
  by (cases ts rule: read_predecessors.cases) (auto split: if_splits intro: read_names_utf8)

lemma ltokens_utf8: "ltokens s = Some ts \<Longrightarrow> LName v \<in> set ts \<Longrightarrow> valid_utf8 v"
proof (induction s arbitrary: ts rule: ltokens.induct)
  case (2 c s)
  have IH: "valid_utf8 v" if "c = CHR 0x22" "jstring s = Some (a, b)" "ltokens b = Some z" "LName v \<in> set z" for a b z
    using "2.IH"(4) [OF _ _ _ that(1,2) refl that(3,4)] that(1) by (simp add: json_space_def)
  from "2.prems" show ?case
    by (subst (asm) ltokens.simps(2))
      (auto split: if_splits option.splits intro: IH "2.IH"(1,2,3) simp: valid_to_utf8)
qed simp

lemma read_ledger_utf8:
  assumes "read_ledger s = Some l" shows "ledger_utf8 l"
proof -
  from assms obtain ts v ps where ts: "ltokens s = Some ts" "ts ! 3 = LName v" "read_predecessors (drop 7 ts) = Some ps"
    and l: "l = \<lparr>Current = v, Predecessors = ps\<rparr>"
    and key: "take 3 (drop 4 ts) = [LPunct (CHR '',''), LName ''predecessors'', LPunct (CHR '':'')]"
    by (auto simp: read_ledger_def bind_eq_Some_conv split: if_splits ltoken.splits)
  have "drop 4 ts \<noteq> []" using key by auto
  then have "3 < length ts" by simp
  with ts(2) have "LName v \<in> set ts" by (metis nth_mem)
  with ltokens_utf8 [OF ts(1)] have "valid_utf8 v" by blast
  moreover have "list_all valid_utf8 ps"
    using ltokens_utf8 [OF ts(1)] read_predecessors_utf8 [OF ts(3)] in_set_dropD by metis
  ultimately show ?thesis by (simp add: ledger_utf8_def l)
qed

lemma indent_json_documented: "json_documented indent_json"
proof -
  have "map to_utf8 ps = ps" if "list_all valid_utf8 ps" for ps
    using that by (induction ps) (simp_all add: to_utf8_valid)
  then show ?thesis
    by (auto simp: json_documented_def indent_json_def read_ledger_text to_utf8_valid ledger_utf8_def
        split: option.splits dest: read_ledger_utf8 [unfolded ledger_utf8_def])
qed

section \<open>Runs\<close>

text \<open>A host that stores the ledger of one installation, and the same host failing at the rename.\<close>

definition stored_ledger :: ledger_fs where
  "stored_ledger = \<lparr>lf_files = [''/var/ledger'' \<mapsto> ledger_text sample_ledger @ [CHR 0x0A]], lf_temp = ''/var/.ledger.1'',
     lf_fail = (\<lambda>_. None)\<rparr>"

definition rename_fails :: "ledger_fs \<Rightarrow> ledger_fs" where
  "rename_fails fs = fs\<lparr>lf_fail := (\<lambda>st. if st = FsRename then Some (plain_err ''EIO'') else None)\<rparr>"

lemma sample_utf8: "ledger_utf8 sample_ledger" "valid_utf8 ''kind-b''"
  by (simp_all add: ledger_utf8_def sample_ledger_def valid_utf8.simps(2) rune_len_def byte_in_def)

lemma Load_text:
  assumes "lf_fail fs FsRead = None" and "lf_files fs path = Some (ledger_text l @ [CHR 0x0A])"
    and "ledger_utf8 l" and "Ledger_Validate l = None"
  shows "Load indent_json path fs = (Inr l, fs)"
proof -
  have "lj_decode indent_json (lj_encode indent_json l @ [CHR 0x0A]) = Inr l"
    using indent_json_documented assms(3) unfolding json_documented_def by blast
  then show ?thesis using assms by (simp add: Load_def indent_json_def)
qed

lemma stored_Load: "lf_fail fs FsRead = None \<Longrightarrow> lf_files fs = lf_files stored_ledger \<Longrightarrow>
    Load indent_json ''/var/ledger'' fs = (Inr sample_ledger, fs)"
  by (rule Load_text) (simp_all add: stored_ledger_def sample_utf8 sample_ledger_valid)

lemma Register_stored:
  assumes "lf_fail fs FsRead = None" and "lf_files fs = lf_files stored_ledger"
  shows "Register indent_json ''/var/ledger'' ''kind-b'' fs =
    bindG (writeAtomic indent_json ''/var/ledger'' \<lparr>Current = ''kind-b'', Predecessors = [''kind-a'']\<rparr>)
      (\<lambda>_. returnG \<lparr>Current = ''kind-b'', Predecessors = [''kind-a'']\<rparr>) fs"
proof -
  have "uniqueSorted [''kind-a''] = [''kind-a'']" by (simp add: uniqueSorted_def)
  moreover have "Ledger_Validate \<lparr>Current = ''kind-b'', Predecessors = [''kind-a'']\<rparr> = None" "validateID ''kind-b'' = None"
    by (simp_all add: Ledger_Validate_None validateID_def ContainsAny_def)
  ultimately show ?thesis
    by (simp add: Register_def run_bind stored_Load [OF assms] Let_def) (simp add: sample_ledger_def run_bind)
qed


theorem Register_predecessor_rejected_witness:
  "\<exists>e fs. Load indent_json ''/l'' fs = (Inr \<lparr>Current = ''kind-b'', Predecessors = [''kind-a'']\<rparr>, fs) \<and>
     Register indent_json ''/l'' ''kind-a'' fs = (Inl e, fs) \<and> err_kind e = ErrInvalidInstallationID"
proof -
  let ?l = "\<lparr>Current = ''kind-b'', Predecessors = [''kind-a'']\<rparr>"
  define fs where "fs = \<lparr>lf_files = [''/l'' \<mapsto> ledger_text ?l @ [CHR 0x0A]], lf_temp = [], lf_fail = (\<lambda>_. None)\<rparr>"
  have "Ledger_Validate ?l = None"
    by (simp add: Ledger_Validate_None validateID_def ContainsAny_def)
  moreover have "ledger_utf8 ?l" using sample_utf8 by (simp add: ledger_utf8_def sample_ledger_def)
  ultimately have "Load indent_json ''/l'' fs = (Inr ?l, fs)" by (intro Load_text) (simp_all add: fs_def)
  with Register_predecessor_rejected [OF this, of "''kind-a''"] show ?thesis by (simp, blast)
qed

lemma replacement_bytes: "utf8 0xFFFD = [CHR 0xEF, CHR 0xBF, CHR 0xBD]"
  by (simp add: utf8_def char_of_eq_iff)

text \<open>
  A name that is not valid UTF-8 is admitted by \<open>validateID\<close> but not kept: the ledger a later
  \<open>Load\<close> returns names another installation than the one that was registered, which no longer
  owns anything.
\<close>

theorem Register_renames_invalid:
  assumes "lf_files fs = Map.empty" and "\<And>st. lf_fail fs st = None" and "lf_temp fs \<noteq> path" and "IsAbs path"
  shows "\<exists>l l' fs'. Register indent_json path [CHR 0xFF] fs = (Inr l, fs') \<and> Owns l [CHR 0xFF] \<and>
    Load indent_json path fs' = (Inr l', fs') \<and> \<not> Owns l' [CHR 0xFF]"
proof -
  let ?l = "\<lparr>Current = [CHR 0xFF], Predecessors = []\<rparr>" and ?l' = "\<lparr>Current = utf8 0xFFFD, Predecessors = []\<rparr>"
  have valid: "Ledger_Validate ?l = None" "Ledger_Validate ?l' = None" "validateID [CHR 0xFF] = None"
    by (simp_all add: Ledger_Validate_None validateID_def ContainsAny_def replacement_bytes)
  have "to_utf8 [CHR 0xFF] = utf8 0xFFFD"
    by (simp add: to_utf8.simps(2) rune_len_def byte_in_def)
  then have decoded: "lj_decode indent_json (lj_encode indent_json ?l @ [CHR 0x0A]) = Inr ?l'"
    using read_ledger_text [of ?l] by (simp add: indent_json_def)
  have load: "Load indent_json path fs = (Inr zero_ledger, fs)" using assms(1,2) by (simp add: Load_def)
  have "fst (writeAtomic indent_json path ?l fs) = Inr ()"
    using assms by (simp add: writeAtomic_def run_bind fs_try_def remove_temp_def)
  then obtain fs' where w: "writeAtomic indent_json path ?l fs = (Inr (), fs')" by (metis prod.collapse)
  have run: "Register indent_json path [CHR 0xFF] fs = (Inr ?l, fs')"
    using valid w by (simp add: Register_def run_bind load zero_ledger_def uniqueSorted_def Let_def)
  have "lf_files fs' path = Some (lj_encode indent_json ?l @ [CHR 0x0A])" "lf_fail fs' FsRead = None"
    using writeAtomic_Inr [OF w] assms by simp_all
  with decoded valid have "Load indent_json path fs' = (Inr ?l', fs')" by (simp add: Load_def)
  moreover have "Owns ?l [CHR 0xFF]" "\<not> Owns ?l' [CHR 0xFF]" by (simp_all add: Owns_def replacement_bytes)
  ultimately show ?thesis using run by blast
qed

end
