(* ===== verification/HostAgent.thy ===== *)
theory HostAgent
  imports Prelude
begin

text \<open>
  The contract package \<open>internal/hostagent\<close>: the identities and messages exchanged
  between the manager and the host agent, the validation of a mutation, the error classes, and
  the \<open>Fake\<close> agent. Every Go struct is a record with the struct's fields in order.
\<close>

definition ProtocolMajor :: uint32 where
  "ProtocolMajor = 1"

section \<open>Error classes\<close>

definition IsInvalid :: "goerr \<Rightarrow> bool" where
  "IsInvalid e = errors_Is e ErrInvalidRequest"

definition IsProtocol :: "goerr \<Rightarrow> bool" where
  "IsProtocol e = errors_Is e ErrProtocol"

definition IsNotFound :: "goerr \<Rightarrow> bool" where
  "IsNotFound e = errors_Is e ErrNotFound"

definition IsConflict :: "goerr \<Rightarrow> bool" where
  "IsConflict e = errors_Is e ErrConflict"

definition IsUnavailable :: "goerr \<Rightarrow> bool" where
  "IsUnavailable e = errors_Is e ErrUnavailable"

section \<open>Identities\<close>

record owner =
  Owner_InstallationID :: string
  Owner_NodeID :: string
  Owner_UID :: string

definition Owner_Validate :: "owner \<Rightarrow> goerr option" where
  "Owner_Validate o' =
     (if Owner_InstallationID o' = [] \<or> Owner_NodeID o' = [] \<or> Owner_UID o' = []
      then Some (detail_err ErrInvalidRequest ''owner installation_id, node_id, and uid are required'')
      else None)"

record mutation =
  Mut_ProtocolMajor :: uint32
  Mut_Owner :: owner
  Mut_Generation :: uint64
  Mut_IdempotencyKey :: string
  Mut_RetainDisk :: bool

definition show_word :: "'a::len word \<Rightarrow> string" where
  "show_word w = show_nat (unat w)"

definition Mutation_Validate :: "mutation \<Rightarrow> goerr option" where
  "Mutation_Validate m =
     (if Mut_ProtocolMajor m \<noteq> ProtocolMajor
      then Some (detail_err ErrProtocol
             (''got '' @ show_word (Mut_ProtocolMajor m) @ '', want '' @ show_word ProtocolMajor))
      else case Owner_Validate (Mut_Owner m) of
        Some e \<Rightarrow> Some e
      | None \<Rightarrow>
          if Mut_Generation m = 0 \<or> Mut_IdempotencyKey m = []
          then Some (detail_err ErrInvalidRequest ''generation and idempotency_key are required'')
          else None)"

section \<open>Messages\<close>

record capabilities =
  Cap_NodeID :: string
  Cap_CloudHypervisor :: string
  Cap_K8netdProtocolMajor :: uint32
  Cap_CanUseKVM :: bool
  Cap_CanUseUserDBus :: bool

record vm_desired =
  Des_UID :: string
  Des_Name :: string
  Des_Image :: string
  Des_Firmware :: string
  Des_FirmwareSHA256 :: string
  Des_APISocket :: string
  Des_VhostSocket :: string
  Des_Disk :: string
  Des_MAC :: string
  Des_IP :: string
  Des_CPUs :: uint32
  Des_MemoryMiB :: uint32
  Des_AdditionalDisks :: "string list"
  Des_DiskSHA256 :: string
  Des_AdditionalDiskSHA256s :: "string list"

record vm_observed =
  Obs_UID :: string
  Obs_Unit :: string
  Obs_PID :: int
  Obs_GuestUptime :: uint64
  Obs_Running :: bool
  Obs_APISocket :: string
  Obs_VhostSocket :: string
  Obs_IP :: string
  Obs_MAC :: string
  Obs_Generation :: uint64

record network_request =
  NetReq_Name :: string
  NetReq_CIDR :: string

record port_request =
  PortReq_Name :: string
  PortReq_Network :: string
  PortReq_MAC :: string

record port_observed =
  PortObs_Name :: string
  PortObs_Network :: string
  PortObs_MAC :: string
  PortObs_IP :: string
  PortObs_Published :: "uint32 \<rightharpoonup> uint32"

record artifact_file =
  File_Name :: string
  File_Content :: "byte list"

record root_disk_request =
  RootReq_Name :: string
  RootReq_SourceImage :: string

record artifact_result =
  Art_Paths :: "string list"
  Art_SHA256s :: "string list"

record diagnostics =
  Diag_OwnerUID :: string
  Diag_Messages :: "string list"

record probe_lease =
  Lease_UID :: string
  Lease_Network :: string
  Lease_Port :: string
  Lease_MAC :: string
  Lease_IP :: string
  Lease_ExpiresAt :: int

text \<open>The zero values Go returns beside an error or from the fake.\<close>

definition zero_capabilities :: capabilities where
  "zero_capabilities = \<lparr>Cap_NodeID = [], Cap_CloudHypervisor = [], Cap_K8netdProtocolMajor = 0,
     Cap_CanUseKVM = False, Cap_CanUseUserDBus = False\<rparr>"

definition zero_vm_observed :: vm_observed where
  "zero_vm_observed = \<lparr>Obs_UID = [], Obs_Unit = [], Obs_PID = 0, Obs_GuestUptime = 0,
     Obs_Running = False, Obs_APISocket = [], Obs_VhostSocket = [], Obs_IP = [], Obs_MAC = [],
     Obs_Generation = 0\<rparr>"

definition zero_port_observed :: port_observed where
  "zero_port_observed = \<lparr>PortObs_Name = [], PortObs_Network = [], PortObs_MAC = [], PortObs_IP = [],
     PortObs_Published = Map.empty\<rparr>"

definition zero_artifact_result :: artifact_result where
  "zero_artifact_result = \<lparr>Art_Paths = [], Art_SHA256s = []\<rparr>"

definition zero_diagnostics :: diagnostics where
  "zero_diagnostics = \<lparr>Diag_OwnerUID = [], Diag_Messages = []\<rparr>"

definition zero_probe_lease :: probe_lease where
  "zero_probe_lease = \<lparr>Lease_UID = [], Lease_Network = [], Lease_Port = [], Lease_MAC = [],
     Lease_IP = [], Lease_ExpiresAt = 0\<rparr>"

section \<open>The agent interface\<close>

text \<open>
  The Go interface \<open>HostAgent\<close>: one field per method, each a computation over the
  state \<open>'s\<close> of the implementation.
\<close>

record 's host_agent =
  HA_Health :: "('s, capabilities) go"
  HA_EnsureVM :: "mutation \<Rightarrow> vm_desired \<Rightarrow> ('s, vm_observed) go"
  HA_GetVM :: "owner \<Rightarrow> ('s, vm_observed) go"
  HA_StopVM :: "mutation \<Rightarrow> ('s, unit) go"
  HA_DeleteVM :: "mutation \<Rightarrow> ('s, unit) go"
  HA_EnsureNetwork :: "mutation \<Rightarrow> network_request \<Rightarrow> ('s, unit) go"
  HA_DeleteNetwork :: "mutation \<Rightarrow> ('s, unit) go"
  HA_EnsurePort :: "mutation \<Rightarrow> port_request \<Rightarrow> ('s, port_observed) go"
  HA_DeletePort :: "mutation \<Rightarrow> ('s, unit) go"
  HA_AllocateIP :: "mutation \<Rightarrow> ('s, string) go"
  HA_ReleaseIP :: "mutation \<Rightarrow> string \<Rightarrow> ('s, unit) go"
  HA_PublishPort :: "mutation \<Rightarrow> uint32 \<Rightarrow> uint32 \<Rightarrow> ('s, uint32) go"
  HA_ReleasePort :: "mutation \<Rightarrow> uint32 \<Rightarrow> uint32 \<Rightarrow> ('s, unit) go"
  HA_Diagnostics :: "owner \<Rightarrow> ('s, diagnostics) go"
  HA_AcquireProbe :: "mutation \<Rightarrow> string \<Rightarrow> ('s, probe_lease) go"
  HA_ReleaseProbe :: "mutation \<Rightarrow> string \<Rightarrow> ('s, unit) go"
  HA_PrepareRootDisk :: "mutation \<Rightarrow> root_disk_request \<Rightarrow> ('s, artifact_result) go"
  HA_PrepareCIDATA :: "mutation \<Rightarrow> string \<Rightarrow> artifact_file list \<Rightarrow> ('s, artifact_result) go"
  HA_PrepareConfext :: "mutation \<Rightarrow> string \<Rightarrow> artifact_file list \<Rightarrow> ('s, artifact_result) go"

definition Fake :: "'s host_agent" where
  "Fake = \<lparr>
     HA_Health = returnG zero_capabilities,
     HA_EnsureVM = (\<lambda>_ _. returnG zero_vm_observed),
     HA_GetVM = (\<lambda>_. failG (sentinel_err ErrNotFound)),
     HA_StopVM = (\<lambda>_. returnG ()),
     HA_DeleteVM = (\<lambda>_. returnG ()),
     HA_EnsureNetwork = (\<lambda>_ _. returnG ()),
     HA_DeleteNetwork = (\<lambda>_. returnG ()),
     HA_EnsurePort = (\<lambda>_ _. returnG zero_port_observed),
     HA_DeletePort = (\<lambda>_. returnG ()),
     HA_AllocateIP = (\<lambda>_. returnG []),
     HA_ReleaseIP = (\<lambda>_ _. returnG ()),
     HA_PublishPort = (\<lambda>_ _ _. returnG 0),
     HA_ReleasePort = (\<lambda>_ _ _. returnG ()),
     HA_Diagnostics = (\<lambda>_. returnG zero_diagnostics),
     HA_AcquireProbe = (\<lambda>_ _. returnG zero_probe_lease),
     HA_ReleaseProbe = (\<lambda>_ _. returnG ()),
     HA_PrepareRootDisk = (\<lambda>_ _. returnG zero_artifact_result),
     HA_PrepareCIDATA = (\<lambda>_ _ _. returnG zero_artifact_result),
     HA_PrepareConfext = (\<lambda>_ _ _. returnG zero_artifact_result)\<rparr>"

section \<open>What validation guarantees\<close>

lemma Owner_Validate_None:
  "Owner_Validate o' = None \<longleftrightarrow>
     Owner_InstallationID o' \<noteq> [] \<and> Owner_NodeID o' \<noteq> [] \<and> Owner_UID o' \<noteq> []"
  by (auto simp: Owner_Validate_def)

lemma Mutation_Validate_None:
  "Mutation_Validate m = None \<longleftrightarrow>
     Mut_ProtocolMajor m = ProtocolMajor \<and> Owner_Validate (Mut_Owner m) = None \<and>
     Mut_Generation m \<noteq> 0 \<and> Mut_IdempotencyKey m \<noteq> []"
  by (auto simp: Mutation_Validate_def split: option.split)

lemma Mutation_Validate_Some:
  assumes "Mutation_Validate m = Some e"
  shows "err_kind e = (if Mut_ProtocolMajor m = ProtocolMajor then ErrInvalidRequest else ErrProtocol)"
  using assms by (auto simp: Mutation_Validate_def Owner_Validate_def split: if_splits option.splits)

lemmas error_classes = IsInvalid_def IsProtocol_def IsNotFound_def IsConflict_def IsUnavailable_def

end
