(* ===== verification/Inventory.thy ===== *)
theory Inventory
  imports Prelude
begin

text \<open>
  The agent's SQLite inventory (\<open>internal/agent/inventory\<close>): the tables of
  \<open>queries/migrate.sql\<close> as row lists, every store method as the effect of its SQL
  statement on them, and the operation journal of \<open>journal.go\<close>. The SQLite engine is a
  parameter: which statement fails with which error, and whether the pooled connection that
  runs the \<open>n\<close>-th statement enforces foreign keys (the pragma of \<open>migrate\<close> is
  per connection). Columns the program never reads back (\<open>updated_at\<close> of the resource
  tables) are left out.
\<close>

section \<open>Rows\<close>

datatype operation_state = OperationUnset | OperationIntent | OperationCompleted | OperationFailed

record operation =
  Op_InstallationID :: string
  Op_OwnerUID :: string
  Op_NodeID :: string
  Op_Key :: string
  Op_Kind :: string
  Op_RequestHash :: string
  Op_Generation :: uint64
  Op_State :: operation_state
  Op_Result :: string
  Op_Failure :: string
  Op_CreatedAt :: int
  Op_UpdatedAt :: int

record vm =
  VM_InstallationID :: string
  VM_OwnerUID :: string
  VM_NodeID :: string
  VM_Unit :: string
  VM_Generation :: uint64
  VM_PID :: int
  VM_Disk :: string
  VM_APISocket :: string
  VM_VhostSocket :: string
  VM_Network :: string
  VM_Port :: string
  VM_MAC :: string
  VM_IP :: string

record network_resource =
  NR_InstallationID :: string
  NR_OwnerUID :: string
  NR_NodeID :: string
  NR_Network :: string
  NR_Port :: string
  NR_MAC :: string
  NR_IP :: string

record published_port =
  PP_InstallationID :: string
  PP_OwnerUID :: string
  PP_GuestPort :: uint32
  PP_HostPort :: uint32

record generation_row =
  GR_InstallationID :: string
  GR_OwnerUID :: string
  GR_Key :: string
  GR_Generation :: uint64

record tables =
  operations :: "generation_row list"
  operation_journal :: "operation list"
  network_resources :: "network_resource list"
  vms :: "vm list"
  published_ports :: "published_port list"

text \<open>Primary keys.\<close>

definition op_key :: "operation \<Rightarrow> string \<times> string \<times> string" where
  "op_key r = (Op_InstallationID r, Op_OwnerUID r, Op_Key r)"

definition gr_key :: "generation_row \<Rightarrow> string \<times> string \<times> string" where
  "gr_key r = (GR_InstallationID r, GR_OwnerUID r, GR_Key r)"

definition vm_key :: "vm \<Rightarrow> string \<times> string" where
  "vm_key r = (VM_InstallationID r, VM_OwnerUID r)"

definition nr_key :: "network_resource \<Rightarrow> string \<times> string" where
  "nr_key r = (NR_InstallationID r, NR_OwnerUID r)"

definition pp_key :: "published_port \<Rightarrow> string \<times> string \<times> uint32" where
  "pp_key r = (PP_InstallationID r, PP_OwnerUID r, PP_GuestPort r)"

section \<open>SQL statements over row lists\<close>

text \<open>\<open>SELECT ... WHERE key = ?\<close> on a primary or unique key.\<close>

definition select_row :: "('r \<Rightarrow> 'k) \<Rightarrow> 'k \<Rightarrow> 'r list \<Rightarrow> 'r option" where
  "select_row key k rows = find (\<lambda>r. key r = k) rows"

text \<open>\<open>INSERT OR IGNORE\<close>.\<close>

definition insert_or_ignore :: "('r \<Rightarrow> 'k) \<Rightarrow> 'r \<Rightarrow> 'r list \<Rightarrow> 'r list" where
  "insert_or_ignore key r rows = (if select_row key (key r) rows = None then rows @ [r] else rows)"

text \<open>\<open>INSERT ... ON CONFLICT(key) DO UPDATE SET\<close> of every other column.\<close>

fun upsert_row :: "('r \<Rightarrow> 'k) \<Rightarrow> 'r \<Rightarrow> 'r list \<Rightarrow> 'r list" where
  "upsert_row key r [] = [r]"
| "upsert_row key r (x # xs) = (if key x = key r then r # xs else x # upsert_row key r xs)"

definition delete_row :: "('r \<Rightarrow> 'k) \<Rightarrow> 'k \<Rightarrow> 'r list \<Rightarrow> 'r list" where
  "delete_row key k rows = filter (\<lambda>r. key r \<noteq> k) rows"

text \<open>A second unique column: no row under another key has the new row's value.\<close>

definition unique_for :: "('r \<Rightarrow> 'k) \<Rightarrow> ('r \<Rightarrow> 'u) \<Rightarrow> 'r \<Rightarrow> 'r list \<Rightarrow> bool" where
  "unique_for key u r rows \<longleftrightarrow> list_all (\<lambda>x. key x = key r \<or> u x \<noteq> u r) rows"

lemma select_row_Nil [simp]: "select_row key k [] = None"
  by (simp add: select_row_def)

lemma select_row_Cons [simp]:
  "select_row key k (x # xs) = (if key x = k then Some x else select_row key k xs)"
  by (simp add: select_row_def)

lemma select_row_append:
  "select_row key k (xs @ ys) = (case select_row key k xs of None \<Rightarrow> select_row key k ys | Some x \<Rightarrow> Some x)"
  by (induction xs) auto

lemma select_row_SomeD: "select_row key k rows = Some r \<Longrightarrow> r \<in> set rows \<and> key r = k"
  by (induction rows) (auto split: if_splits)

lemma select_row_None_iff: "select_row key k rows = None \<longleftrightarrow> k \<notin> key ` set rows"
  by (induction rows) auto

lemma select_row_mem:
  "distinct (map key rows) \<Longrightarrow> r \<in> set rows \<Longrightarrow> select_row key (key r) rows = Some r"
  by (induction rows) auto

lemma select_upsert_row:
  "select_row key k (upsert_row key r rows) = (if k = key r then Some r else select_row key k rows)"
  by (induction rows) auto

lemma select_delete_row:
  "select_row key k (delete_row key k' rows) = (if k = k' then None else select_row key k rows)"
  by (induction rows) (auto simp: delete_row_def)

lemma keys_upsert_row: "key ` set (upsert_row key r rows) = insert (key r) (key ` set rows)"
  by (induction rows) auto

lemma distinct_upsert_row: "distinct (map key rows) \<Longrightarrow> distinct (map key (upsert_row key r rows))"
proof (induction rows)
  case (Cons x rows)
  then show ?case
    using keys_upsert_row [of key r rows] by auto
qed simp

lemma set_upsert_row: "set (upsert_row key r rows) \<subseteq> insert r (set rows)"
  by (induction rows) auto

lemma set_upsert_row_distinct:
  "distinct (map key rows) \<Longrightarrow> set (upsert_row key r rows) = insert r {x \<in> set rows. key x \<noteq> key r}"
  by (induction rows) (auto simp: image_iff)

lemma set_delete_row: "set (delete_row key k rows) = {r \<in> set rows. key r \<noteq> k}"
  by (auto simp: delete_row_def)

lemma distinct_delete_row: "distinct (map key rows) \<Longrightarrow> distinct (map key (delete_row key k rows))"
  by (auto simp: delete_row_def distinct_map_filter)

lemma select_insert_or_ignore:
  "select_row key k (insert_or_ignore key r rows) =
     (case select_row key k rows of None \<Rightarrow> if k = key r then Some r else None | Some x \<Rightarrow> Some x)"
  by (auto simp: insert_or_ignore_def select_row_append split: option.split)

lemma distinct_insert_or_ignore:
  "distinct (map key rows) \<Longrightarrow> distinct (map key (insert_or_ignore key r rows))"
  by (auto simp: insert_or_ignore_def select_row_None_iff)

lemmas row_lookup_simps = select_upsert_row select_delete_row select_insert_or_ignore

section \<open>The store and its engine\<close>

datatype query =
    QRecordOperation | QOperationGeneration
  | QBeginTx | QBeginOperation | QLoadOperation | QCommitTx
  | QCompleteOperation | QRowsAffected | QPendingOperations
  | QUpsertNetworkResource | QGetNetworkResource | QGetNetworkResourceByPort | QDeleteNetworkResource
  | QUpsertPublishedPort | QGetPublishedPort | QListPublishedPorts | QDeletePublishedPort
  | QUpsertVM | QDeleteVM | QGetVM
  | QScanRow | QRowsErr

record sqlite =
  sql_fault :: "nat \<Rightarrow> query \<Rightarrow> goerr option"
  sql_constraint :: "query \<Rightarrow> goerr"
  sql_foreign_keys :: "nat \<Rightarrow> bool"

record store =
  st_tables :: tables
  st_engine :: sqlite
  st_calls :: nat

text \<open>One statement: the engine may fail it, or refuse it for a violated constraint.\<close>

definition sql_exec :: "query \<Rightarrow> (bool \<Rightarrow> tables \<Rightarrow> ('a \<times> tables) option) \<Rightarrow> (store, 'a) go" where
  "sql_exec q f s =
     (let s' = s\<lparr>st_calls := Suc (st_calls s)\<rparr> in
      case sql_fault (st_engine s) (st_calls s) q of
        Some e \<Rightarrow> (Inl e, s')
      | None \<Rightarrow>
          (case f (sql_foreign_keys (st_engine s) (st_calls s)) (st_tables s) of
             None \<Rightarrow> (Inl (sql_constraint (st_engine s) q), s')
           | Some (x, t) \<Rightarrow> (Inr x, s'\<lparr>st_tables := t\<rparr>)))"

definition sql_query :: "query \<Rightarrow> (tables \<Rightarrow> 'a) \<Rightarrow> (store, 'a) go" where
  "sql_query q f = sql_exec q (\<lambda>_ t. Some (f t, t))"

text \<open>\<open>QueryRow(...).Scan(...)\<close>: \<open>sql.ErrNoRows\<close> when nothing is selected.\<close>

definition sql_row :: "query \<Rightarrow> (tables \<Rightarrow> 'a option) \<Rightarrow> (store, 'a) go" where
  "sql_row q f = bindG (sql_query q f)
     (\<lambda>r. case r of None \<Rightarrow> failG (sentinel_err SqlErrNoRows) | Some x \<Rightarrow> returnG x)"

text \<open>A transaction whose deferred rollback undoes every statement of a failed body.\<close>

definition transactionG :: "(store, 'a) go \<Rightarrow> (store, 'a) go" where
  "transactionG m s =
     (case m s of
        (Inl e, t) \<Rightarrow> (Inl e, t\<lparr>st_tables := st_tables s\<rparr>)
      | (Inr x, t) \<Rightarrow> (Inr x, t))"

text \<open>A call to the engine that only reports whether it succeeded.\<close>

definition sql_ping :: "query \<Rightarrow> (store, unit) go" where
  "sql_ping q = sql_exec q (\<lambda>_ t. Some ((), t))"

text \<open>\<open>rows.Next\<close>, one \<open>Scan\<close> per row, then \<open>rows.Err\<close>.\<close>

definition sql_rows :: "string \<Rightarrow> string \<Rightarrow> string \<Rightarrow> query \<Rightarrow> (tables \<Rightarrow> 'a list) \<Rightarrow> (store, 'a list) go" where
  "sql_rows list_msg scan_msg iterate_msg q f =
     bindG (wrapG list_msg (sql_query q f)) (\<lambda>rows.
     bindG (eachG (\<lambda>_. wrapG scan_msg (sql_ping QScanRow)) rows) (\<lambda>_.
     bindG (wrapG iterate_msg (sql_ping QRowsErr)) (\<lambda>_. returnG rows)))"

definition healthy :: "store \<Rightarrow> bool" where
  "healthy s \<longleftrightarrow> (\<forall>n q. sql_fault (st_engine s) n q = None)"

section \<open>The operation journal (journal.go)\<close>

definition validateOperation :: "operation \<Rightarrow> goerr option" where
  "validateOperation op =
     (if Op_InstallationID op = [] \<or> Op_OwnerUID op = [] \<or> Op_NodeID op = [] \<or> Op_Key op = [] \<or>
         Op_Kind op = [] \<or> Op_RequestHash op = [] \<or> Op_Generation op = 0
      then Some (detail_err ErrIdempotencyConflict
             ''operation identity, kind, request hash, and generation are required'')
      else None)"

text \<open>\<open>operationFromRow\<close>: no row is its own sentinel, any other error is wrapped.\<close>

definition operationFromRow :: "(store, operation) go \<Rightarrow> (store, operation) go" where
  "operationFromRow row = catchG row
     (\<lambda>r. case r of
        Inr op \<Rightarrow> returnG op
      | Inl e \<Rightarrow> if errors_Is e SqlErrNoRows then failG (sentinel_err ErrOperationNotFound)
                 else failG (wrap_err ''load operation'' e))"

text \<open>The row \<open>begin_operation.sql\<close> inserts: state intent, empty result and failure.\<close>

definition intent_row :: "int \<Rightarrow> operation \<Rightarrow> operation" where
  "intent_row now op = op\<lparr>Op_State := OperationIntent, Op_Result := [], Op_Failure := [],
     Op_CreatedAt := now, Op_UpdatedAt := now\<rparr>"

definition same_request :: "operation \<Rightarrow> operation \<Rightarrow> bool" where
  "same_request stored op \<longleftrightarrow>
     Op_NodeID stored = Op_NodeID op \<and> Op_Kind stored = Op_Kind op \<and>
     Op_RequestHash stored = Op_RequestHash op \<and> Op_Generation stored = Op_Generation op"

definition BeginOperation :: "int \<Rightarrow> operation \<Rightarrow> (store, operation \<times> bool) go" where
  "BeginOperation now op =
     bindG (checkG (validateOperation op)) (\<lambda>_.
     bindG (wrapG ''begin operation intent'' (sql_ping QBeginTx)) (\<lambda>_.
     transactionG (
       bindG (wrapG ''record operation intent'' (sql_exec QBeginOperation
               (\<lambda>_ t. Some ((), t\<lparr>operation_journal :=
                  insert_or_ignore op_key (intent_row now op) (operation_journal t)\<rparr>)))) (\<lambda>_.
       bindG (operationFromRow (sql_row QLoadOperation
               (\<lambda>t. select_row op_key (op_key op) (operation_journal t)))) (\<lambda>stored.
       if \<not> same_request stored op then failG (sentinel_err ErrIdempotencyConflict)
       else bindG (wrapG ''commit operation intent'' (sql_ping QCommitTx)) (\<lambda>_.
       returnG (stored, Op_State stored = OperationCompleted \<or> Op_State stored = OperationFailed)))))))"

text \<open>\<open>complete_operation.sql\<close>: the update and the number of rows it changed.\<close>

definition complete_rows ::
  "int \<Rightarrow> operation \<Rightarrow> operation_state \<Rightarrow> string \<Rightarrow> string \<Rightarrow> operation list \<Rightarrow> nat \<times> operation list" where
  "complete_rows now op state result failure rows =
     (length (filter (\<lambda>r. op_key r = op_key op \<and> Op_State r = OperationIntent) rows),
      map (\<lambda>r. if op_key r = op_key op \<and> Op_State r = OperationIntent
               then r\<lparr>Op_State := state, Op_Result := result, Op_Failure := failure, Op_UpdatedAt := now\<rparr>
               else r) rows)"

definition CompleteOperation ::
  "int \<Rightarrow> operation \<Rightarrow> operation_state \<Rightarrow> string \<Rightarrow> string \<Rightarrow> (store, unit) go" where
  "CompleteOperation now op state result failure =
     (if state \<noteq> OperationCompleted \<and> state \<noteq> OperationFailed
      then failG (detail_err ErrIdempotencyConflict ''terminal operation state is required'')
      else
        bindG (BeginOperation now op) (\<lambda>(stored, _).
        if Op_State stored \<noteq> OperationIntent
        then (if Op_State stored = state \<and> Op_Result stored = result \<and> Op_Failure stored = failure
              then returnG () else failG (sentinel_err ErrIdempotencyConflict))
        else
          bindG (wrapG ''record observed operation'' (sql_exec QCompleteOperation
                  (\<lambda>_ t. let (n, rows) = complete_rows now op state result failure (operation_journal t)
                         in Some (n, t\<lparr>operation_journal := rows\<rparr>)))) (\<lambda>n.
          bindG (wrapG ''inspect observed operation'' (sql_ping QRowsAffected)) (\<lambda>_.
          if n \<noteq> 1 then failG (sentinel_err ErrIdempotencyConflict) else returnG ()))))"

text \<open>\<open>pending_operations.sql\<close> orders by \<open>created_at\<close> and then by the key columns.\<close>

definition pending_le :: "operation \<Rightarrow> operation \<Rightarrow> bool" where
  "pending_le a b =
     (if Op_CreatedAt a \<noteq> Op_CreatedAt b then Op_CreatedAt a < Op_CreatedAt b
      else if Op_InstallationID a \<noteq> Op_InstallationID b then Op_InstallationID a < Op_InstallationID b
      else if Op_OwnerUID a \<noteq> Op_OwnerUID b then Op_OwnerUID a < Op_OwnerUID b
      else Op_Key a \<le> Op_Key b)"

fun insert_by :: "('a \<Rightarrow> 'a \<Rightarrow> bool) \<Rightarrow> 'a \<Rightarrow> 'a list \<Rightarrow> 'a list" where
  "insert_by le x [] = [x]"
| "insert_by le x (y # ys) = (if le x y then x # y # ys else y # insert_by le x ys)"

text \<open>\<open>ORDER BY\<close>.\<close>

definition order_by :: "('a \<Rightarrow> 'a \<Rightarrow> bool) \<Rightarrow> 'a list \<Rightarrow> 'a list" where
  "order_by le xs = foldr (insert_by le) xs []"

definition PendingOperations :: "(store, operation list) go" where
  "PendingOperations =
     sql_rows ''list pending operations'' ''load pending operation'' ''iterate pending operations'' QPendingOperations
       (\<lambda>t. order_by pending_le (filter (\<lambda>r. Op_State r = OperationIntent) (operation_journal t)))"

section \<open>Resources (inventory.go)\<close>

definition RecordOperation :: "string \<Rightarrow> string \<Rightarrow> string \<Rightarrow> uint64 \<Rightarrow> (store, unit) go" where
  "RecordOperation inst uid key generation =
     bindG (wrapG ''record idempotency operation'' (sql_exec QRecordOperation
        (\<lambda>_ t. let r = \<lparr>GR_InstallationID = inst, GR_OwnerUID = uid, GR_Key = key, GR_Generation = generation\<rparr>
               in Some (select_row gr_key (gr_key r) (operations t) = None,
                        t\<lparr>operations := insert_or_ignore gr_key r (operations t)\<rparr>)))) (\<lambda>inserted.
     bindG (wrapG ''inspect idempotency operation'' (sql_ping QRowsAffected)) (\<lambda>_.
     if inserted then returnG ()
     else bindG (wrapG ''load idempotency operation'' (sql_row QOperationGeneration
              (\<lambda>t. select_row gr_key (inst, uid, key) (operations t)))) (\<lambda>existing.
          if GR_Generation existing \<noteq> generation then failG (sentinel_err ErrIdempotencyConflict)
          else returnG ())))"

definition UpsertNetworkResource :: "network_resource \<Rightarrow> (store, unit) go" where
  "UpsertNetworkResource r = wrapG ''upsert network resource'' (sql_exec QUpsertNetworkResource
     (\<lambda>_ t. if unique_for nr_key (\<lambda>x. (NR_InstallationID x, NR_Port x)) r (network_resources t)
            then Some ((), t\<lparr>network_resources := upsert_row nr_key r (network_resources t)\<rparr>) else None))"

definition GetNetworkResource :: "string \<Rightarrow> string \<Rightarrow> (store, network_resource) go" where
  "GetNetworkResource inst uid = sql_row QGetNetworkResource
     (\<lambda>t. select_row nr_key (inst, uid) (network_resources t))"

definition GetNetworkResourceByPort :: "string \<Rightarrow> string \<Rightarrow> (store, network_resource) go" where
  "GetNetworkResourceByPort inst port = sql_row QGetNetworkResourceByPort
     (\<lambda>t. select_row (\<lambda>r. (NR_InstallationID r, NR_Port r)) (inst, port) (network_resources t))"

text \<open>\<open>ON DELETE CASCADE\<close> removes the owner's published ports where the connection enforces it.\<close>

definition DeleteNetworkResource :: "string \<Rightarrow> string \<Rightarrow> (store, unit) go" where
  "DeleteNetworkResource inst uid = wrapG ''delete network resource'' (sql_exec QDeleteNetworkResource
     (\<lambda>fk t. Some ((), t\<lparr>network_resources := delete_row nr_key (inst, uid) (network_resources t),
         published_ports :=
           (if fk then filter (\<lambda>p. (PP_InstallationID p, PP_OwnerUID p) \<noteq> (inst, uid)) (published_ports t)
            else published_ports t)\<rparr>)))"

definition port_in_range :: "uint32 \<Rightarrow> bool" where
  "port_in_range p \<longleftrightarrow> 1 \<le> p \<and> p \<le> 65535"

definition UpsertPublishedPort :: "published_port \<Rightarrow> (store, unit) go" where
  "UpsertPublishedPort p = wrapG ''upsert published port'' (sql_exec QUpsertPublishedPort
     (\<lambda>fk t. if port_in_range (PP_GuestPort p) \<and> port_in_range (PP_HostPort p) \<and>
               unique_for pp_key PP_HostPort p (published_ports t) \<and>
               (fk \<longrightarrow> select_row nr_key (PP_InstallationID p, PP_OwnerUID p) (network_resources t) \<noteq> None)
            then Some ((), t\<lparr>published_ports := upsert_row pp_key p (published_ports t)\<rparr>) else None))"

definition GetPublishedPort :: "string \<Rightarrow> string \<Rightarrow> uint32 \<Rightarrow> (store, published_port) go" where
  "GetPublishedPort inst uid guest = sql_row QGetPublishedPort
     (\<lambda>t. select_row pp_key (inst, uid, guest) (published_ports t))"

definition ListPublishedPorts :: "string \<Rightarrow> string \<Rightarrow> (store, published_port list) go" where
  "ListPublishedPorts inst uid =
     sql_rows ''list published ports'' ''scan published port'' ''iterate published ports'' QListPublishedPorts
     (\<lambda>t. order_by (\<lambda>a b. PP_GuestPort a \<le> PP_GuestPort b)
            (filter (\<lambda>p. (PP_InstallationID p, PP_OwnerUID p) = (inst, uid)) (published_ports t)))"

definition DeletePublishedPort :: "string \<Rightarrow> string \<Rightarrow> uint32 \<Rightarrow> (store, unit) go" where
  "DeletePublishedPort inst uid guest = wrapG ''delete published port'' (sql_exec QDeletePublishedPort
     (\<lambda>_ t. Some ((), t\<lparr>published_ports := delete_row pp_key (inst, uid, guest) (published_ports t)\<rparr>)))"

definition UpsertVM :: "vm \<Rightarrow> (store, unit) go" where
  "UpsertVM r = wrapG ''upsert VM inventory'' (sql_exec QUpsertVM
     (\<lambda>_ t. if unique_for vm_key (\<lambda>x. (VM_InstallationID x, VM_Unit x)) r (vms t)
            then Some ((), t\<lparr>vms := upsert_row vm_key r (vms t)\<rparr>) else None))"

definition Store_DeleteVM :: "string \<Rightarrow> string \<Rightarrow> (store, unit) go" where
  "Store_DeleteVM inst uid = wrapG ''delete VM inventory'' (sql_exec QDeleteVM
     (\<lambda>_ t. Some ((), t\<lparr>vms := delete_row vm_key (inst, uid) (vms t)\<rparr>)))"

definition Store_GetVM :: "string \<Rightarrow> string \<Rightarrow> (store, vm) go" where
  "Store_GetVM inst uid = sql_row QGetVM (\<lambda>t. select_row vm_key (inst, uid) (vms t))"

section \<open>Relations every store method respects\<close>

text \<open>
  The contract between the store and its clients. A relation between the tables before and
  after that each single statement respects, for the owners in \<open>mine\<close>, is respected by
  every store method called for such an owner, whatever statement fails.
\<close>

definition on_tables :: "(tables \<Rightarrow> tables \<Rightarrow> bool) \<Rightarrow> store \<Rightarrow> store \<Rightarrow> bool" where
  "on_tables R s t = R (st_tables s) (st_tables t)"

locale inventory_relation =
  fixes R :: "tables \<Rightarrow> tables \<Rightarrow> bool" and mine :: "string \<times> string \<Rightarrow> bool"
  assumes T_refl: "R t t"
    and T_trans: "R t t1 \<Longrightarrow> R t1 t2 \<Longrightarrow> R t t2"
    and record_R: "mine (GR_InstallationID g, GR_OwnerUID g) \<Longrightarrow>
      R t (t\<lparr>operations := insert_or_ignore gr_key g (operations t)\<rparr>)"
    and begin_R: "mine (Op_InstallationID op, Op_OwnerUID op) \<Longrightarrow> validateOperation op = None \<Longrightarrow>
      R t (t\<lparr>operation_journal := insert_or_ignore op_key (intent_row now op) (operation_journal t)\<rparr>)"
    and complete_R: "mine (Op_InstallationID op, Op_OwnerUID op) \<Longrightarrow>
      state = OperationCompleted \<or> state = OperationFailed \<Longrightarrow>
      R t (t\<lparr>operation_journal := snd (complete_rows now op state result failure (operation_journal t))\<rparr>)"
    and upsert_nr_R: "mine (nr_key n) \<Longrightarrow>
      unique_for nr_key (\<lambda>x. (NR_InstallationID x, NR_Port x)) n (network_resources t) \<Longrightarrow>
      R t (t\<lparr>network_resources := upsert_row nr_key n (network_resources t)\<rparr>)"
    and delete_nr_R: "mine k \<Longrightarrow>
      R t (t\<lparr>network_resources := delete_row nr_key k (network_resources t),
        published_ports := (if fk then filter (\<lambda>p. (PP_InstallationID p, PP_OwnerUID p) \<noteq> k) (published_ports t)
          else published_ports t)\<rparr>)"
    and upsert_pp_R: "mine (PP_InstallationID p, PP_OwnerUID p) \<Longrightarrow>
      port_in_range (PP_GuestPort p) \<Longrightarrow> port_in_range (PP_HostPort p) \<Longrightarrow>
      unique_for pp_key PP_HostPort p (published_ports t) \<Longrightarrow>
      R t (t\<lparr>published_ports := upsert_row pp_key p (published_ports t)\<rparr>)"
    and delete_pp_R: "mine (inst, uid) \<Longrightarrow>
      R t (t\<lparr>published_ports := delete_row pp_key (inst, uid, guest) (published_ports t)\<rparr>)"
    and upsert_vm_R: "mine (vm_key v) \<Longrightarrow>
      unique_for vm_key (\<lambda>x. (VM_InstallationID x, VM_Unit x)) v (vms t) \<Longrightarrow>
      R t (t\<lparr>vms := upsert_row vm_key v (vms t)\<rparr>)"
    and delete_vm_R: "mine k \<Longrightarrow> R t (t\<lparr>vms := delete_row vm_key k (vms t)\<rparr>)"
begin

sublocale go_preorder "on_tables R"
  by unfold_locales (auto simp: on_tables_def intro: T_refl T_trans)

lemma steps_exec: "(\<And>fk t x t'. f fk t = Some (x, t') \<Longrightarrow> R t t') \<Longrightarrow> steps (on_tables R) (sql_exec q f)"
  by (auto simp: steps_def on_tables_def sql_exec_def Let_def T_refl split: option.split)

lemma steps_ping [intro!, simp]: "steps (on_tables R) (sql_ping q)"
  unfolding sql_ping_def by (rule steps_exec) (auto intro: T_refl)

lemma steps_query [intro!, simp]: "steps (on_tables R) (sql_query q f)"
  unfolding sql_query_def by (rule steps_exec) (auto intro: T_refl)

lemma steps_row [intro!, simp]: "steps (on_tables R) (sql_row q f)"
  unfolding sql_row_def by auto

lemma steps_rows [intro!, simp]: "steps (on_tables R) (sql_rows l c i q f)"
  unfolding sql_rows_def by auto

lemma steps_transaction [intro!]:
  assumes "steps (on_tables R) m"
  shows "steps (on_tables R) (transactionG m)"
proof (rule stepsI)
  fix s r t
  assume run: "transactionG m s = (r, t)"
  obtain r' u where u: "m s = (r', u)" by fastforce
  from assms u have "on_tables R s u" by (rule stepsD)
  with run u show "on_tables R s t"
    by (auto simp: transactionG_def on_tables_def T_refl split: sum.splits)
qed

lemma BeginOperation_steps:
  "mine (Op_InstallationID op, Op_OwnerUID op) \<Longrightarrow> steps (on_tables R) (BeginOperation now op)"
  unfolding BeginOperation_def operationFromRow_def
  by (cases "validateOperation op") (auto intro!: steps_exec dest: begin_R)

lemma CompleteOperation_steps:
  "mine (Op_InstallationID op, Op_OwnerUID op) \<Longrightarrow>
   steps (on_tables R) (CompleteOperation now op state result failure)"
  unfolding CompleteOperation_def
  by (auto intro!: steps_exec BeginOperation_steps complete_R simp: Let_def case_prod_beta)

lemma PendingOperations_steps: "steps (on_tables R) PendingOperations"
  unfolding PendingOperations_def by simp

lemma RecordOperation_steps: "mine (inst, uid) \<Longrightarrow> steps (on_tables R) (RecordOperation inst uid key generation)"
  unfolding RecordOperation_def by (auto simp: Let_def intro!: steps_exec record_R)

lemma UpsertNetworkResource_steps: "mine (nr_key n) \<Longrightarrow> steps (on_tables R) (UpsertNetworkResource n)"
  unfolding UpsertNetworkResource_def by (auto intro!: steps_exec upsert_nr_R split: if_splits)

lemma DeleteNetworkResource_steps: "mine (inst, uid) \<Longrightarrow> steps (on_tables R) (DeleteNetworkResource inst uid)"
  unfolding DeleteNetworkResource_def by (rule steps_wrap, rule steps_exec) (auto dest: delete_nr_R)

lemma UpsertPublishedPort_steps:
  "mine (PP_InstallationID p, PP_OwnerUID p) \<Longrightarrow> steps (on_tables R) (UpsertPublishedPort p)"
  unfolding UpsertPublishedPort_def by (auto intro!: steps_exec upsert_pp_R split: if_splits)

lemma DeletePublishedPort_steps: "mine (inst, uid) \<Longrightarrow> steps (on_tables R) (DeletePublishedPort inst uid guest)"
  unfolding DeletePublishedPort_def by (auto intro!: steps_exec delete_pp_R)

lemma UpsertVM_steps: "mine (vm_key v) \<Longrightarrow> steps (on_tables R) (UpsertVM v)"
  unfolding UpsertVM_def by (auto intro!: steps_exec upsert_vm_R split: if_splits)

lemma Store_DeleteVM_steps: "mine (inst, uid) \<Longrightarrow> steps (on_tables R) (Store_DeleteVM inst uid)"
  unfolding Store_DeleteVM_def by (auto intro!: steps_exec delete_vm_R)

lemma reads_steps:
  "steps (on_tables R) (GetNetworkResource inst uid)"
  "steps (on_tables R) (GetNetworkResourceByPort inst port)"
  "steps (on_tables R) (GetPublishedPort inst uid guest)"
  "steps (on_tables R) (ListPublishedPorts inst uid)"
  "steps (on_tables R) (Store_GetVM inst uid)"
  unfolding GetNetworkResource_def GetNetworkResourceByPort_def GetPublishedPort_def
    ListPublishedPorts_def Store_GetVM_def by simp_all

lemmas store_steps = BeginOperation_steps CompleteOperation_steps PendingOperations_steps
  RecordOperation_steps UpsertNetworkResource_steps DeleteNetworkResource_steps
  UpsertPublishedPort_steps DeletePublishedPort_steps UpsertVM_steps Store_DeleteVM_steps reads_steps

end

section \<open>Schema invariant\<close>

definition terminal :: "operation \<Rightarrow> bool" where
  "terminal r \<longleftrightarrow> Op_State r = OperationCompleted \<or> Op_State r = OperationFailed"

text \<open>A journal row: complete identity, a known state, and no outcome before a terminal state.\<close>

definition journal_row_ok :: "operation \<Rightarrow> bool" where
  "journal_row_ok r \<longleftrightarrow> validateOperation r = None \<and>
     (terminal r \<or> Op_State r = OperationIntent \<and> Op_Result r = [] \<and> Op_Failure r = [])"

definition journal_ok :: "operation list \<Rightarrow> bool" where
  "journal_ok rows \<longleftrightarrow> distinct (map op_key rows) \<and> list_all journal_row_ok rows"

definition network_resources_ok :: "network_resource list \<Rightarrow> bool" where
  "network_resources_ok rows \<longleftrightarrow>
     distinct (map nr_key rows) \<and> distinct (map (\<lambda>x. (NR_InstallationID x, NR_Port x)) rows)"

definition vms_ok :: "vm list \<Rightarrow> bool" where
  "vms_ok rows \<longleftrightarrow> distinct (map vm_key rows) \<and> distinct (map (\<lambda>x. (VM_InstallationID x, VM_Unit x)) rows)"

definition published_ports_ok :: "published_port list \<Rightarrow> bool" where
  "published_ports_ok rows \<longleftrightarrow> distinct (map pp_key rows) \<and> distinct (map PP_HostPort rows) \<and>
     list_all (\<lambda>p. port_in_range (PP_GuestPort p) \<and> port_in_range (PP_HostPort p)) rows"

definition tables_ok :: "tables \<Rightarrow> bool" where
  "tables_ok t \<longleftrightarrow> distinct (map gr_key (operations t)) \<and> journal_ok (operation_journal t) \<and>
     network_resources_ok (network_resources t) \<and> vms_ok (vms t) \<and> published_ports_ok (published_ports t)"

definition keeps_tables_ok :: "tables \<Rightarrow> tables \<Rightarrow> bool" where
  "keeps_tables_ok t u \<longleftrightarrow> (tables_ok t \<longrightarrow> tables_ok u)"

lemma distinct_second_upsert:
  assumes "unique_for key u r rows" and "distinct (map key rows)" and "distinct (map u rows)"
  shows "distinct (map u (upsert_row key r rows))"
  using assms
proof (induction rows)
  case (Cons x rows)
  have "u x \<notin> u ` set (upsert_row key r rows)" if "key x \<noteq> key r"
    using Cons.prems that set_upsert_row [of key r rows] by (auto simp: unique_for_def)
  moreover have "u r \<notin> u ` set rows" if "key x = key r"
  proof
    assume "u r \<in> u ` set rows"
    then obtain y where y: "y \<in> set rows" "u y = u r" by force
    with Cons.prems(1) have "key y = key r" by (auto simp: unique_for_def list_all_iff)
    with Cons.prems(2) that y show False by (auto simp: image_iff)
  qed
  ultimately show ?case using Cons by (auto simp: unique_for_def)
qed simp

lemma distinct_map_filterI: "distinct (map f xs) \<Longrightarrow> distinct (map f (filter P xs))"
  by (simp add: distinct_map_filter)

lemma complete_rows_key [simp]:
  "map op_key (snd (complete_rows now op state result failure rows)) = map op_key rows"
  by (auto simp: complete_rows_def op_key_def)

lemma validateOperation_cong:
  "validateOperation (r\<lparr>Op_State := a, Op_Result := b, Op_Failure := c, Op_UpdatedAt := d\<rparr>) = validateOperation r"
  by (simp add: validateOperation_def)

lemma journal_ok_complete:
  assumes "journal_ok rows" and "state = OperationCompleted \<or> state = OperationFailed"
  shows "journal_ok (snd (complete_rows now op state result failure rows))"
proof -
  have "list_all journal_row_ok (snd (complete_rows now op state result failure rows))"
    using assms by (auto simp: journal_ok_def list_all_iff complete_rows_def journal_row_ok_def
        validateOperation_cong terminal_def)
  with assms show ?thesis by (simp add: journal_ok_def)
qed

lemma journal_ok_begin:
  assumes "journal_ok rows" and "validateOperation op = None"
  shows "journal_ok (insert_or_ignore op_key (intent_row now op) rows)"
proof -
  have "journal_row_ok (intent_row now op)"
    using assms(2) by (auto simp: journal_row_ok_def intent_row_def validateOperation_def terminal_def split: if_splits)
  with assms distinct_insert_or_ignore [of op_key rows "intent_row now op"] show ?thesis
    by (auto simp: journal_ok_def insert_or_ignore_def)
qed

lemma list_all_upsert: "list_all P rows \<Longrightarrow> P r \<Longrightarrow> list_all P (upsert_row key r rows)"
  using set_upsert_row [of key r rows] by (auto simp: list_all_iff)

lemma list_all_filter: "list_all P xs \<Longrightarrow> list_all P (filter Q xs)"
  by (auto simp: list_all_iff)

interpretation schema: inventory_relation keeps_tables_ok "\<lambda>_. True"
proof
  show "keeps_tables_ok t t" for t by (simp add: keeps_tables_ok_def)
  show "keeps_tables_ok t t1 \<Longrightarrow> keeps_tables_ok t1 t2 \<Longrightarrow> keeps_tables_ok t t2" for t t1 t2
    by (simp add: keeps_tables_ok_def)
qed (auto simp: keeps_tables_ok_def tables_ok_def network_resources_ok_def vms_ok_def published_ports_ok_def
       delete_row_def journal_ok_begin journal_ok_complete
     intro!: distinct_insert_or_ignore distinct_upsert_row distinct_map_filterI list_all_upsert list_all_filter
       distinct_second_upsert)

section \<open>The journal only moves forward\<close>

text \<open>
  A recorded operation keeps its identity for ever, and once its outcome is recorded the row
  never changes again.
\<close>

definition row_forward :: "operation \<Rightarrow> operation \<Rightarrow> bool" where
  "row_forward r r' \<longleftrightarrow>
     same_request r' r \<and> Op_CreatedAt r' = Op_CreatedAt r \<and> (terminal r \<longrightarrow> r' = r)"

definition journal_forward :: "tables \<Rightarrow> tables \<Rightarrow> bool" where
  "journal_forward t u \<longleftrightarrow>
     (\<forall>k r. select_row op_key k (operation_journal t) = Some r \<longrightarrow>
        (\<exists>r'. select_row op_key k (operation_journal u) = Some r' \<and> row_forward r r'))"

lemma row_forward_refl [simp]: "row_forward r r"
  by (simp add: row_forward_def same_request_def)

lemma row_forward_trans: "row_forward r r' \<Longrightarrow> row_forward r' r'' \<Longrightarrow> row_forward r r''"
  by (auto simp: row_forward_def same_request_def)

lemma select_complete_rows:
  "select_row op_key k (snd (complete_rows now op state result failure rows)) =
     map_option (\<lambda>r. if op_key r = op_key op \<and> Op_State r = OperationIntent
       then r\<lparr>Op_State := state, Op_Result := result, Op_Failure := failure, Op_UpdatedAt := now\<rparr> else r)
       (select_row op_key k rows)"
  by (induction rows) (auto simp: complete_rows_def op_key_def)

interpretation forward: inventory_relation journal_forward "\<lambda>_. True"
proof
  show "journal_forward t t" for t by (simp add: journal_forward_def)
  show "journal_forward t t1 \<Longrightarrow> journal_forward t1 t2 \<Longrightarrow> journal_forward t t2" for t t1 t2
    unfolding journal_forward_def by (blast intro: row_forward_trans)
  show "journal_forward t (t\<lparr>operation_journal := insert_or_ignore op_key (intent_row now op) (operation_journal t)\<rparr>)"
    for t now op
    by (auto simp: journal_forward_def row_lookup_simps)
  show "journal_forward t
         (t\<lparr>operation_journal := snd (complete_rows now op state result failure (operation_journal t))\<rparr>)"
    for t now op state result failure
    by (auto simp: journal_forward_def select_complete_rows row_forward_def same_request_def terminal_def)
qed (auto simp: journal_forward_def)

section \<open>Other owners are untouched\<close>

definition same_others :: "string \<times> string \<Rightarrow> tables \<Rightarrow> tables \<Rightarrow> bool" where
  "same_others o' t u \<longleftrightarrow>
     filter (\<lambda>r. (Op_InstallationID r, Op_OwnerUID r) \<noteq> o') (operation_journal u) =
       filter (\<lambda>r. (Op_InstallationID r, Op_OwnerUID r) \<noteq> o') (operation_journal t) \<and>
     filter (\<lambda>r. nr_key r \<noteq> o') (network_resources u) = filter (\<lambda>r. nr_key r \<noteq> o') (network_resources t) \<and>
     filter (\<lambda>r. vm_key r \<noteq> o') (vms u) = filter (\<lambda>r. vm_key r \<noteq> o') (vms t) \<and>
     filter (\<lambda>r. (PP_InstallationID r, PP_OwnerUID r) \<noteq> o') (published_ports u) =
       filter (\<lambda>r. (PP_InstallationID r, PP_OwnerUID r) \<noteq> o') (published_ports t)"

lemma filter_upsert_other:
  "\<not> P r \<Longrightarrow> (\<And>x. key x = key r \<Longrightarrow> \<not> P x) \<Longrightarrow> filter P (upsert_row key r rows) = filter P rows"
  by (induction rows) auto

lemma filter_insert_other: "\<not> P r \<Longrightarrow> filter P (insert_or_ignore key r rows) = filter P rows"
  by (simp add: insert_or_ignore_def)

lemma filter_delete_other: "(\<And>x. key x = k \<Longrightarrow> \<not> P x) \<Longrightarrow> filter P (delete_row key k rows) = filter P rows"
  by (auto simp: delete_row_def intro: filter_cong)

lemma filter_complete_other:
  "(\<And>x. op_key x = op_key op \<Longrightarrow> \<not> P x) \<Longrightarrow>
   filter P (snd (complete_rows now op state result failure rows)) = filter P rows"
  by (induction rows) (auto simp: complete_rows_def op_key_def)

interpretation others: inventory_relation "same_others o'" "\<lambda>p. p = o'" for o'
  by unfold_locales
    (auto simp: same_others_def op_key_def nr_key_def vm_key_def pp_key_def intent_row_def
      intro!: filter_upsert_other filter_insert_other filter_delete_other filter_complete_other)

section \<open>What a lookup returns after a write\<close>

lemma sql_exec_Inr:
  "sql_exec q f s = (Inr x, t) \<Longrightarrow>
   \<exists>u. f (sql_foreign_keys (st_engine s) (st_calls s)) (st_tables s) = Some (x, u) \<and>
       t = s\<lparr>st_calls := Suc (st_calls s), st_tables := u\<rparr>"
  by (auto simp: sql_exec_def Let_def split: option.splits prod.splits)

lemma sql_exec_Inl:
  "sql_exec q f s = (Inl e, t) \<Longrightarrow> t = s\<lparr>st_calls := Suc (st_calls s)\<rparr>"
  by (auto simp: sql_exec_def Let_def split: option.splits prod.splits)

lemma sql_exec_healthy:
  "healthy s \<Longrightarrow> f (sql_foreign_keys (st_engine s) (st_calls s)) (st_tables s) = Some (x, u) \<Longrightarrow>
   sql_exec q f s = (Inr x, s\<lparr>st_calls := Suc (st_calls s), st_tables := u\<rparr>)"
  by (simp add: sql_exec_def healthy_def Let_def)

lemma sql_query_healthy [simp]:
  "healthy s \<Longrightarrow> sql_query q f s = (Inr (f (st_tables s)), s\<lparr>st_calls := Suc (st_calls s)\<rparr>)"
  by (simp add: sql_query_def sql_exec_healthy)

lemma sql_ping_healthy [simp]: "healthy s \<Longrightarrow> sql_ping q s = (Inr (), s\<lparr>st_calls := Suc (st_calls s)\<rparr>)"
  by (simp add: sql_ping_def sql_exec_healthy)

lemma healthy_update [simp]:
  "healthy (s\<lparr>st_calls := n\<rparr>) = healthy s"
  "healthy (s\<lparr>st_tables := t\<rparr>) = healthy s"
  by (simp_all add: healthy_def)

lemma sql_row_healthy:
  "healthy s \<Longrightarrow> sql_row q f s =
     ((case f (st_tables s) of None \<Rightarrow> Inl (sentinel_err SqlErrNoRows) | Some x \<Rightarrow> Inr x),
      s\<lparr>st_calls := Suc (st_calls s)\<rparr>)"
  by (auto simp: sql_row_def run_bind split: option.split)

lemma sql_row_cases:
  assumes "sql_row q f s = (r, t)"
  shows "t = s\<lparr>st_calls := Suc (st_calls s)\<rparr>" and "\<And>x. r = Inr x \<Longrightarrow> f (st_tables s) = Some x"
  using assms
  by (auto simp: sql_row_def run_bind sql_query_def sql_exec_def Let_def split: option.splits prod.splits sum.splits)

locale inventory_table =
  fixes key :: "'r \<Rightarrow> 'k" and get :: "'k \<Rightarrow> (store, 'r) go" and put :: "'r \<Rightarrow> (store, unit) go"
    and del :: "'k \<Rightarrow> (store, unit) go" and rows :: "tables \<Rightarrow> 'r list"
  assumes get_healthy: "healthy s \<Longrightarrow> get k s =
      ((case select_row key k (rows (st_tables s)) of None \<Rightarrow> Inl (sentinel_err SqlErrNoRows) | Some x \<Rightarrow> Inr x),
       s\<lparr>st_calls := Suc (st_calls s)\<rparr>)"
    and put_ok: "put r s = (Inr (), t) \<Longrightarrow>
      rows (st_tables t) = upsert_row key r (rows (st_tables s)) \<and> st_engine t = st_engine s"
    and del_ok: "del k s = (Inr (), t) \<Longrightarrow>
      rows (st_tables t) = delete_row key k (rows (st_tables s)) \<and> st_engine t = st_engine s"
begin

lemma get_after_put:
  assumes "healthy s" and "put r s = (Inr (), t)"
  shows "fst (get k t) = (if k = key r then Inr r else fst (get k s))"
proof -
  from assms have "healthy t" and "rows (st_tables t) = upsert_row key r (rows (st_tables s))"
    by (auto simp: healthy_def dest: put_ok)
  with assms(1) show ?thesis by (simp add: get_healthy select_upsert_row)
qed

lemma get_after_del:
  assumes "healthy s" and "del k' s = (Inr (), t)"
  shows "fst (get k t) = (if k = k' then Inl (sentinel_err SqlErrNoRows) else fst (get k s))"
proof -
  from assms have "healthy t" and "rows (st_tables t) = delete_row key k' (rows (st_tables s))"
    by (auto simp: healthy_def dest: del_ok)
  with assms(1) show ?thesis by (simp add: get_healthy select_delete_row)
qed

lemma put_twice:
  assumes "put r s = (Inr (), t)" and "put r t = (Inr (), u)"
  shows "rows (st_tables u) = rows (st_tables t)"
proof -
  have "upsert_row key r (upsert_row key r xs) = upsert_row key r xs" for xs
    by (induction xs) auto
  with assms show ?thesis by (metis put_ok)
qed

end

interpretation vm_table: inventory_table vm_key "\<lambda>(i, u). Store_GetVM i u" UpsertVM
    "\<lambda>(i, u). Store_DeleteVM i u" vms
  by unfold_locales
    (auto simp: Store_GetVM_def sql_row_healthy UpsertVM_def Store_DeleteVM_def
      dest!: sql_exec_Inr split: if_splits)

interpretation network_table: inventory_table nr_key "\<lambda>(i, u). GetNetworkResource i u" UpsertNetworkResource
    "\<lambda>(i, u). DeleteNetworkResource i u" network_resources
  by unfold_locales
    (auto simp: GetNetworkResource_def sql_row_healthy UpsertNetworkResource_def DeleteNetworkResource_def
      dest!: sql_exec_Inr split: if_splits)

interpretation port_table: inventory_table pp_key "\<lambda>(i, u, g). GetPublishedPort i u g" UpsertPublishedPort
    "\<lambda>(i, u, g). DeletePublishedPort i u g" published_ports
  by unfold_locales
    (auto simp: GetPublishedPort_def sql_row_healthy UpsertPublishedPort_def DeletePublishedPort_def
      dest!: sql_exec_Inr split: if_splits)

section \<open>Journal behaviour\<close>

text \<open>The exact result of recording an intent when the engine works.\<close>

lemma BeginOperation_healthy:
  assumes "healthy s" and "validateOperation op = None"
  shows "BeginOperation now op s =
    (case select_row op_key (op_key op) (operation_journal (st_tables s)) of
       None \<Rightarrow> (Inr (intent_row now op, False),
         s\<lparr>st_calls := st_calls s + 4,
           st_tables := (st_tables s)\<lparr>operation_journal := operation_journal (st_tables s) @ [intent_row now op]\<rparr>\<rparr>)
     | Some stored \<Rightarrow>
         (if same_request stored op then Inr (stored, terminal stored) else Inl (sentinel_err ErrIdempotencyConflict),
          s\<lparr>st_calls := (if same_request stored op then st_calls s + 4 else st_calls s + 3)\<rparr>))"
proof -
  let ?k = "op_key op" and ?rows = "operation_journal (st_tables s)"
  let ?rows' = "insert_or_ignore op_key (intent_row now op) ?rows"
  have key: "op_key (intent_row now op) = ?k" by (simp add: op_key_def intent_row_def)
  have same: "same_request (intent_row now op) op" by (simp add: same_request_def intent_row_def)
  have sel: "select_row op_key ?k ?rows' =
      (case select_row op_key ?k ?rows of None \<Rightarrow> Some (intent_row now op) | Some x \<Rightarrow> Some x)"
    by (simp add: row_lookup_simps key)
  have fresh: "\<not> terminal (intent_row now op)" by (simp add: terminal_def intent_row_def)
  show ?thesis
    using assms sel key same fresh
    by (auto simp: BeginOperation_def run_bind run_wrap transactionG_def operationFromRow_def catchG_def
        sql_exec_healthy sql_row_healthy insert_or_ignore_def terminal_def split: option.splits)
qed

lemma sql_ping_cases: "sql_ping q s = (r, t) \<Longrightarrow> t = s\<lparr>st_calls := Suc (st_calls s)\<rparr>"
  by (auto simp: sql_ping_def sql_exec_def Let_def split: option.splits)

lemma BeginOperation_failed: "BeginOperation now op s = (Inl e, t) \<Longrightarrow> st_tables t = st_tables s"
  by (auto simp: BeginOperation_def run_bind transactionG_def checkG_def wrapG_Inl
      split: prod.splits sum.splits option.splits dest!: sql_ping_cases)

lemma operationFromRow_Inr [simp]: "operationFromRow m s = (Inr op, t) \<longleftrightarrow> m s = (Inr op, t)"
  by (auto simp: operationFromRow_def go_simps split: prod.splits sum.splits if_splits)

lemma transactionG_Inr [simp]: "transactionG m s = (Inr x, t) \<longleftrightarrow> m s = (Inr x, t)"
  by (auto simp: transactionG_def split: prod.splits sum.splits)

lemma BeginOperation_stored:
  assumes "BeginOperation now op s = (Inr (stored, fin), t)"
  shows "select_row op_key (op_key op) (operation_journal (st_tables t)) = Some stored"
    and "same_request stored op" and "fin \<longleftrightarrow> terminal stored" and "validateOperation op = None"
proof -
  from assms obtain u v w where v: "validateOperation op = None"
    and row: "sql_row QLoadOperation (\<lambda>t. select_row op_key (op_key op) (operation_journal t)) u = (Inr stored, v)"
    and same: "same_request stored op" and ping: "sql_ping QCommitTx v = (Inr (), w)"
    and w: "w = t" "fin = (Op_State stored = OperationCompleted \<or> Op_State stored = OperationFailed)"
    by (auto simp: BeginOperation_def bindG_eq_Inr split: if_splits)
  from sql_row_cases [OF row] sql_ping_cases [OF ping] w
  show "select_row op_key (op_key op) (operation_journal (st_tables t)) = Some stored" by simp
  from same show "same_request stored op" .
  from w show "fin \<longleftrightarrow> terminal stored" by (simp add: terminal_def)
  from v show "validateOperation op = None" .
qed

lemma CompleteOperation_recorded:
  assumes "CompleteOperation now op state result failure s = (Inr (), t)"
  shows "\<exists>r. select_row op_key (op_key op) (operation_journal (st_tables t)) = Some r \<and>
    Op_State r = state \<and> Op_Result r = result \<and> Op_Failure r = failure \<and> same_request r op \<and> terminal r"
proof -
  from assms obtain stored fin u where st: "state = OperationCompleted \<or> state = OperationFailed"
    and beg: "BeginOperation now op s = (Inr (stored, fin), u)"
    and rest: "(if Op_State stored \<noteq> OperationIntent
        then (if Op_State stored = state \<and> Op_Result stored = result \<and> Op_Failure stored = failure
              then returnG () else failG (sentinel_err ErrIdempotencyConflict))
        else bindG (wrapG ''record observed operation'' (sql_exec QCompleteOperation
                  (\<lambda>_ t. let (n, rows) = complete_rows now op state result failure (operation_journal t)
                         in Some (n, t\<lparr>operation_journal := rows\<rparr>)))) (\<lambda>n.
             bindG (wrapG ''inspect observed operation'' (sql_ping QRowsAffected)) (\<lambda>_.
             if n \<noteq> 1 then failG (sentinel_err ErrIdempotencyConflict) else returnG ()))) u = (Inr (), t)"
    by (auto simp: CompleteOperation_def bindG_eq_Inr split: if_splits)
  note stored = BeginOperation_stored [OF beg]
  show ?thesis
  proof (cases "Op_State stored = OperationIntent")
    case False
    with rest stored st show ?thesis by (auto simp: terminal_def split: if_splits)
  next
    case True
    with rest have "operation_journal (st_tables t) =
        snd (complete_rows now op state result failure (operation_journal (st_tables u)))"
      by (auto simp: bindG_eq_Inr Let_def case_prod_beta split: if_splits dest!: sql_exec_Inr sql_ping_cases)
    with True stored st show ?thesis
      by (auto simp: select_complete_rows same_request_def terminal_def dest: select_row_SomeD)
  qed
qed

lemma select_same_key: "select_row op_key k rows = Some r \<Longrightarrow> op_key r = k"
  by (drule select_row_SomeD) simp

text \<open>
  C24: exactly-once replay of a recorded outcome. Once the outcome of an operation has been
  recorded, then after any further journal activity a request with the same identity is
  answered with that very outcome, reported as already completed, and nothing is written.
\<close>

theorem CompleteOperation_replay:
  assumes "CompleteOperation now op state result failure s = (Inr (), t)"
    and "journal_forward (st_tables t) (st_tables u)"
    and "healthy u"
  shows "\<exists>stored v. BeginOperation now' op u = (Inr (stored, True), v) \<and> Op_State stored = state \<and>
    Op_Result stored = result \<and> Op_Failure stored = failure \<and> st_tables v = st_tables u"
proof -
  from CompleteOperation_recorded [OF assms(1)] obtain r where
    r: "select_row op_key (op_key op) (operation_journal (st_tables t)) = Some r"
      "Op_State r = state" "Op_Result r = result" "Op_Failure r = failure" "same_request r op" "terminal r"
    by blast
  with assms(2) have sel: "select_row op_key (op_key op) (operation_journal (st_tables u)) = Some r"
    unfolding journal_forward_def row_forward_def by (metis (no_types))
  from assms(1) have "validateOperation op = None"
    by (auto simp: CompleteOperation_def bindG_eq_Inr split: if_splits dest: BeginOperation_stored(4))
  with BeginOperation_healthy [OF assms(3), of op now'] sel r show ?thesis by auto
qed

text \<open>
  A key identifies one request. A request that reuses the key of a recorded operation
  with another node, kind, request hash or generation is refused with the idempotency conflict,
  and the tables are as before.
\<close>

theorem BeginOperation_conflict:
  assumes "healthy s" and "validateOperation op = None"
    and "select_row op_key (op_key op) (operation_journal (st_tables s)) = Some stored"
    and "\<not> same_request stored op"
  shows "\<exists>t. BeginOperation now op s = (Inl (sentinel_err ErrIdempotencyConflict), t) \<and> st_tables t = st_tables s"
  using assms by (simp add: BeginOperation_healthy)

text \<open>\<open>ORDER BY\<close> only rearranges the selected rows.\<close>

lemma set_insert_by: "set (insert_by le x xs) = insert x (set xs)"
  by (induction xs) auto

lemma set_order_by [simp]: "set (order_by le xs) = set xs"
  by (induction xs) (auto simp: order_by_def set_insert_by)

lemma sorted_insert_by:
  assumes "transp le" and "totalp le" and "reflp le" and "sorted_wrt le xs"
  shows "sorted_wrt le (insert_by le x xs)"
  using assms(4)
proof (induction xs)
  have le_cases: "\<not> le a b \<Longrightarrow> le b a" for a b
    using assms(2,3) by (metis reflpD totalpD)
  case (Cons y ys)
  then show ?case
    using assms(1) le_cases by (auto simp: set_insert_by dest: transpD)
qed simp

lemma sorted_order_by:
  assumes "transp le" and "totalp le" and "reflp le"
  shows "sorted_wrt le (order_by le xs)"
  by (induction xs) (auto simp: order_by_def intro: sorted_insert_by assms)

section \<open>A concrete store\<close>

definition empty_tables :: tables where
  "empty_tables = \<lparr>operations = [], operation_journal = [], network_resources = [], vms = [], published_ports = []\<rparr>"

definition working_sqlite :: sqlite where
  "working_sqlite = \<lparr>sql_fault = (\<lambda>_ _. None), sql_constraint = (\<lambda>_. plain_err ''constraint failed''),
     sql_foreign_keys = (\<lambda>_. True)\<rparr>"

definition empty_store :: store where
  "empty_store = \<lparr>st_tables = empty_tables, st_engine = working_sqlite, st_calls = 0\<rparr>"

definition sample_operation :: operation where
  "sample_operation = \<lparr>Op_InstallationID = ''i'', Op_OwnerUID = ''u'', Op_NodeID = ''n'', Op_Key = ''k'',
     Op_Kind = ''stop_vm'', Op_RequestHash = ''h'', Op_Generation = 1, Op_State = OperationUnset,
     Op_Result = [], Op_Failure = [], Op_CreatedAt = 0, Op_UpdatedAt = 0\<rparr>"

lemma empty_store_healthy [simp]: "healthy empty_store"
  by (simp add: healthy_def empty_store_def working_sqlite_def)

lemma empty_tables_ok [simp]: "tables_ok empty_tables"
  by (simp add: tables_ok_def empty_tables_def journal_ok_def network_resources_ok_def vms_ok_def published_ports_ok_def)

lemma sample_operation_valid [simp]: "validateOperation sample_operation = None"
  by (simp add: validateOperation_def sample_operation_def)

lemma sample_CompleteOperation:
  "\<exists>t. CompleteOperation 5 sample_operation OperationCompleted ''ok'' [] empty_store = (Inr (), t) \<and> healthy t \<and>
     select_row op_key (''i'', ''u'', ''k'') (operation_journal (st_tables t)) \<noteq> None"
proof -
  have key: "op_key sample_operation = (''i'', ''u'', ''k'')" by (simp add: op_key_def sample_operation_def)
  have none: "operation_journal (st_tables empty_store) = []"
    by (simp add: empty_store_def empty_tables_def)
  define s1 where "s1 = empty_store\<lparr>st_calls := st_calls empty_store + 4,
     st_tables := (st_tables empty_store)\<lparr>operation_journal := [intent_row 5 sample_operation]\<rparr>\<rparr>"
  have beg: "BeginOperation 5 sample_operation empty_store = (Inr (intent_row 5 sample_operation, False), s1)"
    by (simp add: BeginOperation_healthy none s1_def)
  have h: "healthy s1" by (simp add: s1_def)
  have n: "complete_rows 5 sample_operation OperationCompleted ''ok'' [] (operation_journal (st_tables s1)) =
     (1, [(intent_row 5 sample_operation)\<lparr>Op_State := OperationCompleted, Op_Result := ''ok'', Op_Failure := [], Op_UpdatedAt := 5\<rparr>])"
    by (simp add: complete_rows_def s1_def op_key_def intent_row_def)
  show ?thesis
    unfolding CompleteOperation_def
    by (simp add: run_bind beg intent_row_def [of 5 sample_operation] run_wrap)
      (simp add: sql_exec_healthy h n key [unfolded op_key_def], simp add: op_key_def intent_row_def sample_operation_def run_bind run_wrap h)
qed

theorem CompleteOperation_replay_witness:
  "\<exists>t stored v. CompleteOperation 5 sample_operation OperationCompleted ''ok'' [] empty_store = (Inr (), t) \<and>
     BeginOperation 9 sample_operation t = (Inr (stored, True), v) \<and> Op_Result stored = ''ok''"
proof -
  obtain t where t: "CompleteOperation 5 sample_operation OperationCompleted ''ok'' [] empty_store = (Inr (), t)" "healthy t"
    using sample_CompleteOperation by blast
  from CompleteOperation_replay [OF t(1) forward.T_refl t(2), of 9] t(1) show ?thesis by blast
qed

theorem BeginOperation_conflict_witness:
  "\<exists>t u. CompleteOperation 5 sample_operation OperationCompleted ''ok'' [] empty_store = (Inr (), t) \<and>
     BeginOperation 9 (sample_operation\<lparr>Op_RequestHash := ''other''\<rparr>) t = (Inl (sentinel_err ErrIdempotencyConflict), u)"
proof -
  obtain t where t: "CompleteOperation 5 sample_operation OperationCompleted ''ok'' [] empty_store = (Inr (), t)" "healthy t"
    using sample_CompleteOperation by blast
  let ?op = "sample_operation\<lparr>Op_RequestHash := ''other''\<rparr>"
  from CompleteOperation_recorded [OF t(1)] obtain r where
    r: "select_row op_key (op_key sample_operation) (operation_journal (st_tables t)) = Some r" "same_request r sample_operation"
    by blast
  have "op_key ?op = op_key sample_operation" "validateOperation ?op = None"
    by (simp_all add: op_key_def validateOperation_def sample_operation_def)
  moreover from r(2) have "\<not> same_request r ?op" by (simp add: same_request_def sample_operation_def)
  ultimately show ?thesis using BeginOperation_conflict [OF t(2), of ?op r 9] r(1) t(1) by auto
qed

end
