(* ===== verification/Host.thy ===== *)
theory Host
  imports GoPath "HOL-Library.AList"
begin

text \<open>
  The operating system as the agent uses it through Go's \<open>os\<close> and
  \<open>path/filepath\<close>: a tree of nodes addressed by physical component lists, path
  resolution that follows symbolic links (with the bound of 255 links of
  \<open>filepath.EvalSymlinks\<close>), and one function per call. A fault oracle decides which call
  fails: a failing call has no effect. Everything else on the machine (processes, daemons) is the
  extra component \<open>'x\<close>, which only the clients of those daemons touch. The working directory of the agent is the root.
\<close>

datatype fnode = RegularFile "byte list" | Directory | SocketFile | DeviceFile | Symlink string

type_synonym nodes = "(string list \<times> fnode) list"

datatype os_call =
    OsStat | OsLstat | OsEvalSymlinks | OsReadFile | OsWriteFile | OsMkdirAll | OsRemove | OsRemoveAll
  | OsRename | OsReadDir | OsCreateTemp | OsChmod | OsWrite | OsSync | OsClose | OsOpen | OsTruncate

record 'x host =
  hs_nodes :: nodes
  hs_fault :: "nat \<Rightarrow> os_call \<Rightarrow> string \<Rightarrow> goerr option"
  hs_calls :: nat
  hs_random :: "nat \<Rightarrow> string"
  hs_ext :: 'x

section \<open>Path resolution\<close>

definition path_err :: "string \<Rightarrow> string \<Rightarrow> sentinel \<Rightarrow> string \<Rightarrow> goerr" where
  "path_err call path k text = GoErr k (call @ '' '' @ path @ '': '' @ text)"

datatype walk_error = NoEntry | NotDirectory | TooManyLinks

text \<open>
  Resolve the components \<open>todo\<close> from the resolved directory \<open>d\<close>. With
  \<open>create\<close>, the last component may be missing, as for \<open>O_CREATE\<close>.
\<close>

function walk :: "bool \<Rightarrow> nodes \<Rightarrow> nat \<Rightarrow> string list \<Rightarrow> string list \<Rightarrow> walk_error + string list" where
  "walk create ns n d [] = Inr d"
| "walk create ns n d (c # cs) =
     (if c = [] \<or> c = ''.'' then walk create ns n d cs
      else if c = ''..'' then walk create ns n (butlast d) cs
      else case map_of ns (d @ [c]) of
        None \<Rightarrow> if create \<and> cs = [] then Inr (d @ [c]) else Inl NoEntry
      | Some (Symlink t) \<Rightarrow>
          (case n of 0 \<Rightarrow> Inl TooManyLinks
           | Suc m \<Rightarrow> walk create ns m (if IsAbs t then [] else d) (split_slash t @ cs))
      | Some Directory \<Rightarrow> walk create ns n (d @ [c]) cs
      | Some _ \<Rightarrow> if cs = [] then Inr (d @ [c]) else Inl NotDirectory)"
  by pat_completeness auto
termination
  by (relation "measures [\<lambda>(create, ns, n, d, todo). n, \<lambda>(create, ns, n, d, todo). length todo]") auto

declare walk.simps [simp del]

definition resolve :: "nodes \<Rightarrow> string \<Rightarrow> walk_error + string list" where
  "resolve ns path = walk False ns 255 [] (split_slash path)"

text \<open>The parent is resolved, the last component is not followed (\<open>lstat\<close>, \<open>unlink\<close>, \<open>rename\<close>).\<close>

definition locate :: "nodes \<Rightarrow> string \<Rightarrow> walk_error + string list" where
  "locate ns path =
     (let cs = filter (\<lambda>c. c \<noteq> [] \<and> c \<noteq> ''.'') (split_slash path)
      in if cs = [] \<or> last cs = dotdot then resolve ns path
         else case walk False ns 255 [] (butlast cs @ [[]]) of
           Inl e \<Rightarrow> Inl e
         | Inr d \<Rightarrow> Inr (d @ [last cs]))"

definition slash_path :: "string list \<Rightarrow> string" where
  "slash_path cs = [slash] @ join_with [slash] cs"

definition walk_err :: "string \<Rightarrow> string \<Rightarrow> walk_error \<Rightarrow> goerr" where
  "walk_err call path e =
     (case e of
        NoEntry \<Rightarrow> path_err call path OsErrNotExist ''no such file or directory''
      | NotDirectory \<Rightarrow> path_err call path PlainError ''not a directory''
      | TooManyLinks \<Rightarrow> path_err call path PlainError ''too many links'')"

definition node_at :: "nodes \<Rightarrow> string list \<Rightarrow> fnode option" where
  "node_at ns cs = (if cs = [] then Some Directory else map_of ns cs)"

section \<open>Calls\<close>

definition sys :: "os_call \<Rightarrow> string \<Rightarrow> (nodes, 'a) go \<Rightarrow> ('x host, 'a) go" where
  "sys call path m h =
     (let h' = h\<lparr>hs_calls := Suc (hs_calls h)\<rparr> in
      case hs_fault h (hs_calls h) call path of
        Some e \<Rightarrow> (Inl e, h')
      | None \<Rightarrow> (case m (hs_nodes h) of (r, ns) \<Rightarrow> (r, h'\<lparr>hs_nodes := ns\<rparr>)))"

definition at_resolved :: "string \<Rightarrow> string \<Rightarrow> (string list \<Rightarrow> (nodes, 'a) go) \<Rightarrow> (nodes, 'a) go" where
  "at_resolved call path k ns =
     (case resolve ns path of Inl e \<Rightarrow> (Inl (walk_err call path e), ns) | Inr cs \<Rightarrow> k cs ns)"

definition at_located :: "string \<Rightarrow> string \<Rightarrow> (string list \<Rightarrow> (nodes, 'a) go) \<Rightarrow> (nodes, 'a) go" where
  "at_located call path k ns =
     (case locate ns path of Inl e \<Rightarrow> (Inl (walk_err call path e), ns) | Inr cs \<Rightarrow> k cs ns)"

definition node_of :: "string \<Rightarrow> string \<Rightarrow> string list \<Rightarrow> (nodes, fnode) go" where
  "node_of call path cs ns =
     (case node_at ns cs of None \<Rightarrow> (Inl (walk_err call path NoEntry), ns) | Some nd \<Rightarrow> (Inr nd, ns))"

definition os_Stat :: "string \<Rightarrow> ('x host, fnode) go" where
  "os_Stat path = sys OsStat path (at_resolved ''stat'' path (node_of ''stat'' path))"

definition os_Lstat :: "string \<Rightarrow> ('x host, fnode) go" where
  "os_Lstat path = sys OsLstat path (at_located ''lstat'' path (node_of ''lstat'' path))"

text \<open>A relative path that resolves is returned cleaned; its callers only compare it with absolute ones.\<close>

definition EvalSymlinks :: "string \<Rightarrow> ('x host, string) go" where
  "EvalSymlinks path = sys OsEvalSymlinks path (at_resolved ''lstat'' path
     (\<lambda>cs. returnG (if IsAbs path then slash_path cs else Clean path)))"

definition read_node :: "string \<Rightarrow> string list \<Rightarrow> (nodes, byte list) go" where
  "read_node path cs = bindG (node_of ''open'' path cs) (\<lambda>nd. case nd of
       RegularFile bs \<Rightarrow> returnG bs
     | Directory \<Rightarrow> failG (path_err ''read'' path PlainError ''is a directory'')
     | _ \<Rightarrow> failG (path_err ''open'' path PlainError ''no such device or address''))"

definition os_ReadFile :: "string \<Rightarrow> ('x host, byte list) go" where
  "os_ReadFile path = sys OsReadFile path (at_resolved ''open'' path (read_node path))"

text \<open>Open for writing with \<open>O_CREATE|O_TRUNC\<close> and write the bytes.\<close>

definition write_node :: "string \<Rightarrow> byte list \<Rightarrow> (nodes, unit) go" where
  "write_node path bs ns =
     (case walk True ns 255 [] (split_slash path) of
        Inl e \<Rightarrow> (Inl (walk_err ''open'' path e), ns)
      | Inr cs \<Rightarrow>
          if node_at ns cs = Some Directory then (Inl (path_err ''open'' path PlainError ''is a directory''), ns)
          else (Inr (), AList.update cs (RegularFile bs) ns))"

definition os_WriteFile :: "string \<Rightarrow> byte list \<Rightarrow> ('x host, unit) go" where
  "os_WriteFile path bs = sys OsWriteFile path (write_node path bs)"

text \<open>\<open>os.MkdirAll\<close>: existing directories and links to them are passed, missing ones are made.\<close>

fun mkdirs :: "string \<Rightarrow> string list \<Rightarrow> string list \<Rightarrow> (nodes, unit) go" where
  "mkdirs path d [] ns = (Inr (), ns)"
| "mkdirs path d (c # cs) ns =
     (case walk True ns 255 [] (d @ [c]) of
        Inl e \<Rightarrow> (Inl (walk_err ''mkdir'' path e), ns)
      | Inr p \<Rightarrow>
          (case node_at ns p of
             None \<Rightarrow> mkdirs path p cs (AList.update p Directory ns)
           | Some Directory \<Rightarrow> mkdirs path p cs ns
           | Some _ \<Rightarrow> (Inl (walk_err ''mkdir'' path NotDirectory), ns)))"

definition os_MkdirAll :: "string \<Rightarrow> ('x host, unit) go" where
  "os_MkdirAll path = sys OsMkdirAll path (mkdirs path [] (clean_elems path))"

definition below :: "string list \<Rightarrow> string list \<Rightarrow> bool" where
  "below root p \<longleftrightarrow> take (length root) p = root"

definition os_Remove :: "string \<Rightarrow> ('x host, unit) go" where
  "os_Remove path = sys OsRemove path (at_located ''remove'' path (\<lambda>cs.
     bindG (node_of ''remove'' path cs) (\<lambda>nd ns.
       if nd = Directory \<and> list_ex (\<lambda>(p, _). below cs p \<and> p \<noteq> cs) ns
       then (Inl (path_err ''remove'' path PlainError ''directory not empty''), ns)
       else (Inr (), AList.delete cs ns))))"

text \<open>\<open>os.RemoveAll\<close>: the node and everything below it; a missing path is no error.\<close>

definition os_RemoveAll :: "string \<Rightarrow> ('x host, unit) go" where
  "os_RemoveAll path = sys OsRemoveAll path (\<lambda>ns.
     case locate ns path of
       Inl NoEntry \<Rightarrow> (Inr (), ns)
     | Inl e \<Rightarrow> (Inl (walk_err ''unlinkat'' path e), ns)
     | Inr cs \<Rightarrow> (Inr (), filter (\<lambda>(p, _). \<not> below cs p) ns))"

text \<open>\<open>os.Rename\<close> of a file, replacing whatever file is at the new name.\<close>

definition os_Rename :: "string \<Rightarrow> string \<Rightarrow> ('x host, unit) go" where
  "os_Rename old new = sys OsRename new (at_located ''rename'' old (\<lambda>p.
     bindG (node_of ''rename'' old p) (\<lambda>nd.
     at_located ''rename'' new (\<lambda>q ns.
       if node_at ns q = Some Directory then (Inl (path_err ''rename'' new PlainError ''file exists''), ns)
       else (Inr (), AList.update q nd (AList.delete p ns))))))"

text \<open>\<open>os.ReadDir\<close>: the entries of a directory sorted by name, with whether each is a directory.\<close>

definition children :: "nodes \<Rightarrow> string list \<Rightarrow> string list" where
  "children ns d = sort (remdups (map (\<lambda>(p, _). last p) (filter (\<lambda>(p, _). p \<noteq> [] \<and> butlast p = d) ns)))"

definition os_ReadDir :: "string \<Rightarrow> ('x host, (string \<times> bool) list) go" where
  "os_ReadDir path = sys OsReadDir path (at_resolved ''open'' path (\<lambda>cs.
     bindG (node_of ''open'' path cs) (\<lambda>nd ns.
       if nd = Directory then (Inr (map (\<lambda>c. (c, map_of ns (cs @ [c]) = Some Directory)) (children ns cs)), ns)
       else (Inl (path_err ''readdirent'' path PlainError ''not a directory''), ns))))"

text \<open>
  \<open>os.CreateTemp(dir, pattern + "*")\<close> opens with \<open>O_EXCL\<close>: the name is new.
  The result is the path and the open file, which stays the same node whatever happens to the
  names. The remaining calls on an open file are write, chmod, sync and close.
\<close>

definition CreateTemp :: "string \<Rightarrow> string \<Rightarrow> ('x host, string \<times> string list) go" where
  "CreateTemp dir pattern h =
     (let path = Join dir (pattern @ hs_random h (hs_calls h))
      in sys OsCreateTemp path (at_located ''open'' path (\<lambda>cs ns.
           if node_at ns cs \<noteq> None then (Inl (path_err ''open'' path PlainError ''file exists''), ns)
           else (Inr (path, cs), AList.update cs (RegularFile []) ns))) h)"

definition file_write :: "string \<times> string list \<Rightarrow> byte list \<Rightarrow> ('x host, unit) go" where
  "file_write file bs = sys OsWrite (fst file) (\<lambda>ns. (Inr (), AList.update (snd file) (RegularFile bs) ns))"

definition file_call :: "os_call \<Rightarrow> string \<times> string list \<Rightarrow> ('x host, unit) go" where
  "file_call call file = sys call (fst file) (returnG ())"

section \<open>Resolution after changes\<close>

text \<open>What resolution sees of a node: not the contents of a regular file.\<close>

definition node_kind :: "fnode \<Rightarrow> fnode" where
  "node_kind nd = (case nd of RegularFile _ \<Rightarrow> RegularFile [] | _ \<Rightarrow> nd)"

text \<open>Every node of the first tree is still there, of the same kind.\<close>

definition keeps_shape :: "nodes \<Rightarrow> nodes \<Rightarrow> bool" where
  "keeps_shape ns ns' \<longleftrightarrow>
     (\<forall>k nd. map_of ns k = Some nd \<longrightarrow> (\<exists>nd'. map_of ns' k = Some nd' \<and> node_kind nd' = node_kind nd))"

lemma keeps_shape_refl [simp]: "keeps_shape ns ns"
  by (simp add: keeps_shape_def)

lemma keeps_shape_trans: "keeps_shape a b \<Longrightarrow> keeps_shape b c \<Longrightarrow> keeps_shape a c"
  unfolding keeps_shape_def by metis

lemma keeps_shape_update:
  "(\<And>nd'. map_of ns k = Some nd' \<Longrightarrow> node_kind nd' = node_kind nd) \<Longrightarrow> keeps_shape ns (AList.update k nd ns)"
  by (auto simp: keeps_shape_def update_conv')

lemma walk_keeps_shape:
  assumes "keeps_shape ns ns'" and "walk False ns n d todo = Inr p"
  shows "walk False ns' n d todo = Inr p"
  using assms
proof (induction False ns n d todo rule: walk.induct)
  case (1 ns n d)
  then show ?case by (simp add: walk.simps)
next
  case (2 ns n d c cs)
  note shape = "2.prems"(1) and run = "2.prems"(2)
  show ?case
  proof (cases "c = [] \<or> c = ''.'' \<or> c = ''..''")
    case True
    with 2 show ?thesis by (auto simp: walk.simps(2) split: if_splits)
  next
    case False
    with run obtain nd where nd: "map_of ns (d @ [c]) = Some nd"
      by (auto simp: walk.simps(2) split: option.splits)
    then obtain nd' where nd': "map_of ns' (d @ [c]) = Some nd'" "node_kind nd' = node_kind nd"
      using shape unfolding keeps_shape_def by metis
    note eqs = walk.simps(2) [of False ns n d c cs] walk.simps(2) [of False ns' n d c cs]
    show ?thesis
    proof (cases nd)
      case (Symlink t)
      with nd' have "nd' = Symlink t" by (cases nd') (simp_all add: node_kind_def)
      show ?thesis
      proof (cases n)
        case (Suc m)
        with False run nd Symlink
        have "walk False ns m (if IsAbs t then [] else d) (split_slash t @ cs) = Inr p"
          by (simp add: walk.simps(2))
        then have "walk False ns' m (if IsAbs t then [] else d) (split_slash t @ cs) = Inr p"
          using False "2.hyps"(4) [OF _ _ nd Symlink Suc] shape by simp
        with False nd' \<open>nd' = Symlink t\<close> Suc show ?thesis by (simp add: walk.simps(2))
      qed (use False run nd Symlink in \<open>simp add: walk.simps(2)\<close>)
    next
      case Directory
      with nd' have "nd' = Directory" by (cases nd') (simp_all add: node_kind_def)
      with False run nd nd' Directory "2.hyps"(3) [OF _ _ nd] shape show ?thesis
        by (auto simp: eqs)
    qed (use False run nd nd' in \<open>cases nd'; auto simp: eqs node_kind_def split: if_splits\<close>)+
  qed
qed

lemma locate_keeps_shape:
  assumes "keeps_shape ns ns'" and "locate ns path = Inr p"
  shows "locate ns' path = Inr p"
  using assms walk_keeps_shape [OF assms(1)]
  by (auto simp: locate_def resolve_def Let_def split: if_splits sum.splits)

lemma sys_Inr:
  assumes "sys call path m h = (Inr x, h')"
  shows "\<exists>ns. m (hs_nodes h) = (Inr x, ns) \<and> h' = h\<lparr>hs_calls := Suc (hs_calls h), hs_nodes := ns\<rparr>"
  using assms by (auto simp: sys_def Let_def split: option.splits prod.splits)

lemma sys_Inl:
  assumes "sys call path m h = (Inl e, h')"
  shows "h' = h\<lparr>hs_calls := Suc (hs_calls h)\<rparr> \<or>
    (\<exists>ns. m (hs_nodes h) = (Inl e, ns) \<and> h' = h\<lparr>hs_calls := Suc (hs_calls h), hs_nodes := ns\<rparr>)"
  using assms by (auto simp: sys_def Let_def split: option.splits prod.splits)

lemma sys_nodes_unchanged:
  assumes "\<And>r ns ns'. m ns = (r, ns') \<Longrightarrow> ns' = ns"
  shows "hs_nodes (snd (sys call path m h)) = hs_nodes h"
proof (cases "m (hs_nodes h)")
  case (Pair r ns')
  with assms have "ns' = hs_nodes h" by blast
  with Pair show ?thesis by (auto simp: sys_def Let_def split: option.split)
qed

lemma file_call_nodes [simp]: "hs_nodes (snd (file_call call file h)) = hs_nodes h"
  unfolding file_call_def by (rule sys_nodes_unchanged) simp

lemma CreateTemp_Inr:
  assumes "CreateTemp dir pat h = (Inr file, h')"
  shows "locate (hs_nodes h') (fst file) = Inr (snd file)"
    and "map_of (hs_nodes h') (snd file) = Some (RegularFile [])" and "node_at (hs_nodes h) (snd file) = None"
    and "\<forall>p. p \<noteq> snd file \<longrightarrow> map_of (hs_nodes h') p = map_of (hs_nodes h) p"
proof -
  from assms obtain path cs where f: "file = (path, cs)" and loc: "locate (hs_nodes h) path = Inr cs"
    and none: "node_at (hs_nodes h) cs = None" and ns: "hs_nodes h' = AList.update cs (RegularFile []) (hs_nodes h)"
    by (auto simp: CreateTemp_def Let_def at_located_def dest!: sys_Inr split: sum.splits if_splits)
  from none have fresh: "map_of (hs_nodes h) cs = None" by (auto simp: node_at_def split: if_splits)
  then have "keeps_shape (hs_nodes h) (hs_nodes h')" unfolding ns by (intro keeps_shape_update) simp
  from locate_keeps_shape [OF this loc] show "locate (hs_nodes h') (fst file) = Inr (snd file)" by (simp add: f)
  show "map_of (hs_nodes h') (snd file) = Some (RegularFile [])" "node_at (hs_nodes h) (snd file) = None"
    "\<forall>p. p \<noteq> snd file \<longrightarrow> map_of (hs_nodes h') p = map_of (hs_nodes h) p"
    by (simp_all add: f ns none update_conv')
qed

section \<open>Resolved paths\<close>

text \<open>Every proper ancestor of a resolved location is a directory, and the location is no link.\<close>

definition real_dir :: "nodes \<Rightarrow> string list \<Rightarrow> bool" where
  "real_dir ns d \<longleftrightarrow> (\<forall>q. q \<noteq> [] \<and> prefix q d \<longrightarrow> map_of ns q = Some Directory)"

definition real_node :: "nodes \<Rightarrow> string list \<Rightarrow> bool" where
  "real_node ns p \<longleftrightarrow> list_all plain_elem p \<and> real_dir ns (butlast p) \<and>
     (p = [] \<or> (\<exists>nd. map_of ns p = Some nd \<and> (\<forall>t. nd \<noteq> Symlink t)))"

lemma real_dir_Nil [simp]: "real_dir ns []"
  by (simp add: real_dir_def)

lemma real_dir_snoc: "real_dir ns (d @ [c]) \<longleftrightarrow> real_dir ns d \<and> map_of ns (d @ [c]) = Some Directory"
  by (auto simp: real_dir_def)

lemma real_dir_butlast: "real_dir ns d \<Longrightarrow> real_dir ns (butlast d)"
  by (cases d rule: rev_cases) (simp_all add: real_dir_snoc)

lemma real_dir_node: "real_dir ns d \<Longrightarrow> list_all plain_elem d \<Longrightarrow> real_node ns d"
  by (cases d rule: rev_cases) (auto simp: real_node_def real_dir_snoc)

lemma walk_real:
  assumes "walk False ns n d todo = Inr p" and "real_dir ns d" and "list_all plain_elem d" and "\<forall>x\<in>set todo. slash \<notin> set x"
  shows "real_node ns p"
  using assms
proof (induction False ns n d todo rule: walk.induct)
  case (1 ns n d)
  then show ?case by (simp add: walk.simps real_dir_node)
next
  case (2 ns n d c cs)
  show ?case
  proof (cases "c = [] \<or> c = ''.'' \<or> c = ''..''")
    case True
    have "list_all plain_elem (butlast d)" using 2 by (auto simp: list_all_iff dest: in_set_butlastD)
    with True 2 show ?thesis by (auto simp: walk.simps(2) intro: real_dir_butlast split: if_splits)
  next
    case False
    with 2 have plain: "plain_elem c" by (simp add: plain_elem_def)
    from False 2 obtain nd where nd: "map_of ns (d @ [c]) = Some nd"
      by (auto simp: walk.simps(2) split: option.splits)
    show ?thesis
    proof (cases nd)
      case (Symlink t)
      show ?thesis
      proof (cases n)
        case (Suc m)
        have "walk False ns m (if IsAbs t then [] else d) (split_slash t @ cs) = Inr p"
          using "2.prems"(1) False nd Symlink Suc by (simp add: walk.simps(2))
        with False nd Symlink Suc show ?thesis
          using "2.hyps"(4) [OF _ _ nd Symlink Suc] "2.prems" split_slash_free [of _ t] by (auto split: if_splits)
      qed (use 2 False nd Symlink in \<open>simp add: walk.simps(2)\<close>)
    next
      case Directory
      with False 2 nd plain show ?thesis by (simp add: walk.simps(2) real_dir_snoc)
    qed (use False 2 nd plain in \<open>auto simp: walk.simps(2) real_node_def split: if_splits\<close>)
  qed
qed

lemma resolve_real: "resolve ns path = Inr p \<Longrightarrow> real_node ns p"
  unfolding resolve_def by (erule walk_real) (auto dest: split_slash_free)

lemma walk_plain:
  assumes "list_all plain_elem rest" and "real_dir ns (butlast (d @ rest))" and "rest \<noteq> []"
    and "map_of ns (d @ rest) = Some nd" and "\<forall>t. nd \<noteq> Symlink t"
  shows "walk False ns n d rest = Inr (d @ rest)"
  using assms
proof (induction rest arbitrary: d)
  case (Cons c cs)
  have c: "c \<noteq> [] \<and> c \<noteq> ''.'' \<and> c \<noteq> ''..''" using Cons.prems by (simp add: plain_elem_def)
  show ?case
  proof (cases "cs = []")
    case True
    with Cons.prems c show ?thesis by (cases nd) (simp_all add: walk.simps)
  next
    case False
    then have "prefix (d @ [c]) (butlast (d @ c # cs))" by (simp add: butlast_append)
    with Cons.prems have "map_of ns (d @ [c]) = Some Directory" by (auto simp: real_dir_def)
    with c Cons.IH [of "d @ [c]"] Cons.prems False show ?thesis by (simp add: walk.simps(2))
  qed
qed simp

text \<open>Resolving a resolved location again changes nothing.\<close>

lemma resolve_slash_path:
  assumes "real_node ns p"
  shows "resolve ns (slash_path p) = Inr p"
proof (cases "p = []")
  case True
  then show ?thesis by (simp add: resolve_def slash_path_def walk.simps)
next
  case False
  from assms have free: "list_all (\<lambda>x. slash \<notin> set x) p" by (auto simp: real_node_def list_all_iff plain_elem_def)
  have "split_slash (slash_path p) = [] # p" using False split_join [OF False free] by (simp add: slash_path_def)
  moreover from assms False obtain nd where "map_of ns p = Some nd" "\<forall>t. nd \<noteq> Symlink t" by (auto simp: real_node_def)
  ultimately show ?thesis
    using walk_plain [of p ns "[]" nd 255] assms False
    by (simp add: resolve_def walk.simps(2) [of _ _ _ _ "[]"] real_node_def)
qed

lemma clean_elems_slash_path: "real_node ns p \<Longrightarrow> clean_elems (slash_path p) = p"
  using clean_elems_slash_join [of p] by (simp add: slash_path_def real_node_def)

lemma IsAbs_slash_path [simp]: "IsAbs (slash_path p)"
  by (simp add: slash_path_def IsAbs_def)

section \<open>Directories\<close>

lemma mkdirs_keeps: "mkdirs path d cs ns = (r, ns') \<Longrightarrow> map_of ns p = Some nd \<Longrightarrow> map_of ns' p = Some nd"
proof (induction path d cs ns rule: mkdirs.induct)
  case (2 path d c cs ns)
  show ?case
  proof (cases "walk True ns 255 [] (d @ [c])")
    case (Inr q)
    show ?thesis
    proof (cases "node_at ns q")
      case None
      with "2.prems"(2) have "q \<noteq> p" by (auto simp: node_at_def split: if_splits)
      with None Inr 2 show ?thesis by (simp add: update_conv')
    next
      case (Some x)
      with Inr 2 show ?thesis by (cases x) auto
    qed
  qed (use 2 in simp)
qed simp

lemma os_MkdirAll_keeps:
  assumes "os_MkdirAll path h = (r, h')"
  shows "hs_fault h' = hs_fault h" and "map_of (hs_nodes h) p = Some nd \<Longrightarrow> map_of (hs_nodes h') p = Some nd"
proof -
  obtain r1 ns1 where m: "mkdirs path [] (clean_elems path) (hs_nodes h) = (r1, ns1)" by fastforce
  with assms show "hs_fault h' = hs_fault h" by (auto simp: os_MkdirAll_def sys_def Let_def split: option.splits)
  show "map_of (hs_nodes h) p = Some nd \<Longrightarrow> map_of (hs_nodes h') p = Some nd"
    using assms m mkdirs_keeps [OF m] by (auto simp: os_MkdirAll_def sys_def Let_def split: option.splits)
qed

lemma os_Stat_unchanged: "os_Stat path h = (r, h') \<Longrightarrow> hs_nodes h' = hs_nodes h \<and> hs_fault h' = hs_fault h"
  by (auto simp: os_Stat_def sys_def at_resolved_def node_of_def Let_def split: option.splits sum.splits)

lemma os_Stat_file:
  assumes "\<forall>n p. hs_fault h n OsStat p = None" and "resolve (hs_nodes h) path = Inr p" and "map_of (hs_nodes h) p = Some nd" and "p \<noteq> []"
  shows "fst (os_Stat path h) = Inr nd"
  using assms by (simp add: os_Stat_def sys_def at_resolved_def node_of_def node_at_def Let_def)

end
