(* ===== verification/SystemdUnit.thy ===== *)
theory SystemdUnit
  imports Host HostAgent Sha256 "HOL-Library.Multiset"
begin

text \<open>
  The user-systemd layer (\<open>internal/agent/systemd\<close>): the client interface, the D-Bus
  client that implements it, and the persistent unit files of \<open>persistent.go\<close>
  (validation, rendering, atomic installation). The D-Bus connection is a parameter: a call with
  its reply values. The environment of a unit, a Go map, is the list of its entries in iteration
  order.
\<close>

section \<open>The client interface (client.go)\<close>

datatype dbus_value =
    DBool bool | DString string | DStrings "string list" | DPath string | DUint32 uint32
  | DChanges "(string \<times> string \<times> string) list" | DUnits "(string \<times> string) list" | DProperties "(string \<times> string) list"

record unit_info =
  Unit_Name :: string
  Unit_Path :: string
  Unit_PID :: uint32

record 'x systemd_client =
  SC_Reload :: "('x host, unit) go"
  SC_EnableUnitFiles :: "string list \<Rightarrow> ('x host, unit) go"
  SC_StartUnit :: "string \<Rightarrow> ('x host, unit_info) go"
  SC_StartTransientUnit :: "string \<Rightarrow> (string \<times> string) list \<Rightarrow> ('x host, unit_info) go"
  SC_StopUnit :: "string \<Rightarrow> ('x host, unit) go"
  SC_GetUnit :: "string \<Rightarrow> ('x host, unit_info) go"
  SC_ListUnits :: "('x host, unit_info list) go"

text \<open>The D-Bus connection: object path, method and arguments to the reply, and a property read.\<close>

record 'x dbus_conn =
  bus_call :: "string \<Rightarrow> string \<Rightarrow> dbus_value list \<Rightarrow> ('x host, dbus_value list) go"
  bus_property :: "string \<Rightarrow> string \<Rightarrow> ('x host, dbus_value) go"

definition manager_call :: "'x dbus_conn \<Rightarrow> string \<Rightarrow> string \<Rightarrow> dbus_value list \<Rightarrow> ('x host, dbus_value list) go" where
  "manager_call conn msg method args =
     wrapG msg (bus_call conn ''/org/freedesktop/systemd1'' (''org.freedesktop.systemd1.Manager.'' @ method) args)"

text \<open>\<open>call.Store\<close>: the reply must have the expected shape.\<close>

definition store_err :: "string \<Rightarrow> goerr" where
  "store_err msg = wrap_err msg (plain_err ''dbus.Store: type mismatch'')"

definition store_path :: "string \<Rightarrow> dbus_value list \<Rightarrow> ('s, string) go" where
  "store_path msg vs = (case vs of [DPath p] \<Rightarrow> returnG p | _ \<Rightarrow> failG (store_err msg))"

definition DBus_Reload :: "'x dbus_conn \<Rightarrow> ('x host, unit) go" where
  "DBus_Reload conn = bindG (manager_call conn ''reload user systemd manager'' ''Reload'' []) (\<lambda>_. returnG ())"

definition DBus_EnableUnitFiles :: "'x dbus_conn \<Rightarrow> string list \<Rightarrow> ('x host, unit) go" where
  "DBus_EnableUnitFiles conn names =
     (if names = [] then returnG ()
      else bindG (manager_call conn ''enable user units'' ''EnableUnitFiles'' [DStrings names, DBool False, DBool True])
        (\<lambda>vs. case vs of [DBool _, DChanges _] \<Rightarrow> returnG () | _ \<Rightarrow> failG (store_err ''decode enable user units'')))"

definition DBus_GetUnit :: "'x dbus_conn \<Rightarrow> string \<Rightarrow> ('x host, unit_info) go" where
  "DBus_GetUnit conn name =
     bindG (manager_call conn (''get unit '' @ Quote name) ''GetUnit'' [DString name]) (\<lambda>vs.
     bindG (store_path (''decode unit '' @ Quote name) vs) (\<lambda>path.
     catchG (bus_property conn path ''org.freedesktop.systemd1.Service.MainPID'') (\<lambda>r.
       returnG \<lparr>Unit_Name = name, Unit_Path = path,
         Unit_PID = (case r of Inr (DUint32 pid) \<Rightarrow> pid | _ \<Rightarrow> 0)\<rparr>)))"

definition DBus_StartUnit :: "'x dbus_conn \<Rightarrow> string \<Rightarrow> ('x host, unit_info) go" where
  "DBus_StartUnit conn name =
     bindG (manager_call conn (''start unit '' @ Quote name) ''StartUnit'' [DString name, DString ''replace'']) (\<lambda>vs.
     bindG (store_path (''decode start unit '' @ Quote name) vs) (\<lambda>_. DBus_GetUnit conn name))"

definition DBus_StartTransientUnit :: "'x dbus_conn \<Rightarrow> string \<Rightarrow> (string \<times> string) list \<Rightarrow> ('x host, unit_info) go" where
  "DBus_StartTransientUnit conn name properties =
     bindG (manager_call conn (''start transient unit '' @ Quote name) ''StartTransientUnit''
              [DString name, DString ''replace'', DProperties properties, DUnits []]) (\<lambda>vs.
     bindG (store_path (''decode transient unit '' @ Quote name) vs) (\<lambda>path.
     returnG \<lparr>Unit_Name = name, Unit_Path = path, Unit_PID = 0\<rparr>))"

definition DBus_StopUnit :: "'x dbus_conn \<Rightarrow> string \<Rightarrow> ('x host, unit) go" where
  "DBus_StopUnit conn name =
     bindG (manager_call conn (''stop unit '' @ Quote name) ''StopUnit'' [DString name, DString ''replace'']) (\<lambda>vs.
     bindG (store_path (''decode stop unit '' @ Quote name) vs) (\<lambda>_. returnG ()))"

definition DBus_ListUnits :: "'x dbus_conn \<Rightarrow> ('x host, unit_info list) go" where
  "DBus_ListUnits conn =
     bindG (manager_call conn ''list units'' ''ListUnits'' []) (\<lambda>vs.
       case vs of [DUnits us] \<Rightarrow> returnG (map (\<lambda>(n, p). \<lparr>Unit_Name = n, Unit_Path = p, Unit_PID = 0\<rparr>) us)
       | _ \<Rightarrow> failG (store_err ''decode units''))"

definition DBusClient :: "'x dbus_conn \<Rightarrow> 'x systemd_client" where
  "DBusClient conn = \<lparr>SC_Reload = DBus_Reload conn, SC_EnableUnitFiles = DBus_EnableUnitFiles conn,
     SC_StartUnit = DBus_StartUnit conn, SC_StartTransientUnit = DBus_StartTransientUnit conn,
     SC_StopUnit = DBus_StopUnit conn, SC_GetUnit = DBus_GetUnit conn, SC_ListUnits = DBus_ListUnits conn\<rparr>"

section \<open>Persistent units (persistent.go)\<close>

definition is_alnum :: "char \<Rightarrow> bool" where
  "is_alnum c \<longleftrightarrow> (let n = (of_char c :: nat) in 48 \<le> n \<and> n \<le> 57 \<or> 65 \<le> n \<and> n \<le> 90 \<or> 97 \<le> n \<and> n \<le> 122)"

text \<open>The regular expression \<open>^[A-Za-z0-9][A-Za-z0-9_.-]{0,127}$\<close>.\<close>

definition is_identifier :: "string \<Rightarrow> bool" where
  "is_identifier s \<longleftrightarrow> (case s of [] \<Rightarrow> False
     | c # cs \<Rightarrow> is_alnum c \<and> length cs \<le> 127 \<and> list_all (\<lambda>x. is_alnum x \<or> x \<in> {CHR ''_'', CHR ''.'', CHR ''-''}) cs)"

record persistent_unit =
  PU_InstallationID :: string
  PU_OwnerUID :: string
  PU_NodeID :: string
  PU_Name :: string
  PU_Description :: string
  PU_ExecStart :: "string list"
  PU_Environment :: "(string \<times> string) list"
  PU_Restart :: string

abbreviation crlf :: string where
  "crlf \<equiv> [CHR 0x0D, CHR 0x0A]"

abbreviation nl :: string where
  "nl \<equiv> [CHR 0x0A]"

definition Unit_Validate :: "persistent_unit \<Rightarrow> goerr option" where
  "Unit_Validate u =
     (if \<not> is_identifier (PU_InstallationID u) \<or> \<not> is_identifier (PU_OwnerUID u) \<or> \<not> is_identifier (PU_NodeID u) \<or>
         \<not> is_identifier (PU_Name u) \<or> \<not> HasSuffix (PU_Name u) ''.service''
      then Some (detail_err ErrInvalidUnit
             ''installation ID, owner UID, node ID, and .service name must be safe identifiers'')
      else if PU_ExecStart u = [] \<or> hd (PU_ExecStart u) = [] \<or> ContainsAny (hd (PU_ExecStart u)) crlf
      then Some (detail_err ErrInvalidUnit ''executable is required'')
      else if list_ex (\<lambda>v. ContainsAny v crlf) (PU_ExecStart u)
      then Some (detail_err ErrInvalidUnit ''exec arguments cannot contain newlines'')
      else if list_ex (\<lambda>(k, v). \<not> is_identifier k \<or> ContainsAny v crlf) (PU_Environment u)
      then Some (detail_err ErrInvalidUnit ''environment is invalid'')
      else if PU_Restart u \<noteq> [] \<and> PU_Restart u \<noteq> ''on-failure'' \<and> PU_Restart u \<noteq> ''always'' \<and> PU_Restart u \<noteq> ''no''
      then Some (detail_err ErrInvalidUnit (''restart policy '' @ Quote (PU_Restart u)))
      else None)"

abbreviation backslash :: char where
  "backslash \<equiv> CHR 0x5C"

abbreviation dquote :: char where
  "dquote \<equiv> CHR 0x22"

definition escapeUnitValue :: "string \<Rightarrow> string" where
  "escapeUnitValue v = replace_char dquote [backslash, dquote] (replace_char backslash [backslash, backslash] v)"

definition quoteExec :: "string list \<Rightarrow> string" where
  "quoteExec vals = join_with '' '' (map (\<lambda>v. [dquote] @ escapeUnitValue v @ [dquote]) vals)"

text \<open>\<open>sortStrings\<close>: the inner loop swaps neighbours downwards from index \<open>j\<close>.\<close>

fun sift :: "nat \<Rightarrow> string list \<Rightarrow> string list" where
  "sift 0 xs = xs"
| "sift (Suc j) xs =
     (if xs ! Suc j < xs ! j then sift j (xs[Suc j := xs ! j, j := xs ! Suc j]) else xs)"

definition sortStrings :: "string list \<Rightarrow> string list" where
  "sortStrings vals = foldl (\<lambda>xs i. sift i xs) vals [1..<length vals]"

definition Render :: "persistent_unit \<Rightarrow> goerr + string" where
  "Render u =
     (case Unit_Validate u of
        Some e \<Rightarrow> Inl e
      | None \<Rightarrow>
          let description = (if PU_Description u = [] then ''k8labs owned VM '' @ PU_OwnerUID u else PU_Description u);
              restart = (if PU_Restart u = [] then ''on-failure'' else PU_Restart u);
              keys = sortStrings (map fst (PU_Environment u))
          in Inr (
               ''[Unit]'' @ nl @ ''Description='' @ escapeUnitValue description @ nl @
               ''[Service]'' @ nl @ ''Type=simple'' @ nl @
               ''Environment=K8LABS_INSTALLATION_ID='' @ escapeUnitValue (PU_InstallationID u) @ nl @
               ''Environment=K8LABS_OWNER_UID='' @ escapeUnitValue (PU_OwnerUID u) @ nl @
               ''Environment=K8LABS_NODE_ID='' @ escapeUnitValue (PU_NodeID u) @ nl @
               concat (map (\<lambda>key. ''Environment='' @ key @ ''='' @
                  escapeUnitValue (case map_of (PU_Environment u) key of None \<Rightarrow> [] | Some v \<Rightarrow> v) @ nl) keys) @
               ''ExecStart='' @ quoteExec (PU_ExecStart u) @ nl @ ''Restart='' @ restart @ nl @ ''RestartSec=2'' @ nl @
               ''[Install]'' @ nl @ ''WantedBy=default.target'' @ nl))"

text \<open>The deferred \<open>os.Remove\<close> of the temporary file.\<close>

definition deferred_remove :: "string \<Rightarrow> ('x host, 'a) go \<Rightarrow> ('x host, 'a) go" where
  "deferred_remove path m = catchG m (\<lambda>r. catchG (os_Remove path) (\<lambda>_. liftG r))"

text \<open>The file half of \<open>Install\<close>, up to the rename; a failed call closes the file first.\<close>

definition or_close :: "string \<times> string list \<Rightarrow> string \<Rightarrow> ('x host, unit) go \<Rightarrow> ('x host, unit) go" where
  "or_close file msg m = catchG m (\<lambda>r. case r of
       Inl e \<Rightarrow> catchG (file_call OsClose file) (\<lambda>_. failG (wrap_err msg e))
     | Inr _ \<Rightarrow> returnG ())"

definition replace_unit_file :: "string \<times> string list \<Rightarrow> string \<Rightarrow> string \<Rightarrow> ('x host, unit) go" where
  "replace_unit_file file content path =
     bindG (or_close file ''chmod temporary unit'' (file_call OsChmod file)) (\<lambda>_.
     bindG (or_close file ''write temporary unit'' (file_write file (string_bytes content))) (\<lambda>_.
     bindG (or_close file ''sync temporary unit'' (file_call OsSync file)) (\<lambda>_.
     bindG (wrapG ''close temporary unit'' (file_call OsClose file)) (\<lambda>_.
     wrapG ''replace unit file'' (os_Rename (fst file) path)))))"

definition Install :: "'x systemd_client \<Rightarrow> string \<Rightarrow> persistent_unit \<Rightarrow> ('x host, unit_info) go" where
  "Install client directory u =
     bindG (liftG (Render u)) (\<lambda>content.
     if \<not> IsAbs directory then failG (detail_err ErrInvalidUnit ''unit directory must be absolute'')
     else
     bindG (wrapG ''create unit directory'' (os_MkdirAll directory)) (\<lambda>_.
     let path = Join directory (PU_Name u) in
     if Dir path \<noteq> Clean directory then failG (detail_err ErrInvalidUnit ''unit path escaped directory'')
     else
     bindG (wrapG ''create temporary unit'' (CreateTemp directory (''.'' @ PU_Name u @ ''.''))) (\<lambda>file.
     deferred_remove (fst file) (
       bindG (replace_unit_file file content path) (\<lambda>_.
       bindG (SC_Reload client) (\<lambda>_.
       bindG (SC_EnableUnitFiles client [PU_Name u]) (\<lambda>_.
       SC_StartUnit client (PU_Name u))))))))"

section \<open>Sorting the environment\<close>

lemma sift_insert:
  assumes "sorted ys"
  shows "\<exists>ws. sift (length ys) (ys @ v # zs) = ws @ zs \<and> sorted ws \<and> mset ws = add_mset v (mset ys)"
  using assms
proof (induction ys arbitrary: zs rule: rev_induct)
  case Nil
  then show ?case by (intro exI [of _ "[v]"]) simp
next
  case (snoc y ys)
  have nth: "(ys @ y # v # zs) ! Suc (length ys) = v" "(ys @ y # v # zs) ! length ys = y"
    by (simp_all add: nth_append)
  have swap: "(ys @ y # v # zs)[Suc (length ys) := y, length ys := v] = ys @ v # y # zs"
    by (simp add: list_update_append)
  show ?case
  proof (cases "v < y")
    case True
    from snoc.prems have "sorted ys" "\<forall>x\<in>set ys. x \<le> y" by (simp_all add: sorted_append)
    with snoc.IH [of "y # zs"] obtain ws where
      ws: "sift (length ys) (ys @ v # y # zs) = ws @ y # zs" "sorted ws" "mset ws = add_mset v (mset ys)"
      by blast
    from ws(3) have "set ws = insert v (set ys)" by (metis set_mset_add_mset_insert set_mset_mset)
    with ws \<open>\<forall>x\<in>set ys. x \<le> y\<close> True have "sorted (ws @ [y])" by (auto simp: sorted_append)
    moreover have "sift (length (ys @ [y])) ((ys @ [y]) @ v # zs) = (ws @ [y]) @ zs"
      using True nth swap ws(1) by simp
    ultimately show ?thesis using ws(3) by (intro exI [of _ "ws @ [y]"]) simp
  next
    case False
    with snoc.prems have "sorted ((ys @ [y]) @ [v])" by (auto simp: sorted_append intro: order_trans)
    moreover have "sift (length (ys @ [y])) ((ys @ [y]) @ v # zs) = ((ys @ [y]) @ [v]) @ zs"
      using False nth by simp
    ultimately show ?thesis by (intro exI [of _ "(ys @ [y]) @ [v]"]) simp
  qed
qed

lemma sift_loop:
  assumes "n \<le> length vals"
  shows "\<exists>ws. foldl (\<lambda>xs i. sift i xs) vals [1..<n] = ws @ drop (max 1 n) vals \<and> sorted ws \<and>
    mset ws = mset (take (max 1 n) vals)"
  using assms
proof (induction n)
  case 0
  have "sorted (take 1 vals)" by (cases vals) simp_all
  then show ?case by (intro exI [of _ "take 1 vals"]) simp
next
  case (Suc n)
  show ?case
  proof (cases "n = 0")
    case True
    have "sorted (take 1 vals)" by (cases vals) simp_all
    with True show ?thesis by (intro exI [of _ "take 1 vals"]) simp
  next
    case False
    with Suc obtain ws where ws: "foldl (\<lambda>xs i. sift i xs) vals [1..<n] = ws @ drop n vals" "sorted ws"
      "mset ws = mset (take n vals)" by (auto simp: max_def split: if_splits)
    from ws(3) Suc.prems have len: "length ws = n" by (metis length_take min.absorb2 mset_eq_length Suc_leD)
    from Suc.prems have dr: "drop n vals = vals ! n # drop (Suc n) vals" by (simp add: Cons_nth_drop_Suc)
    from sift_insert [OF ws(2), of "vals ! n" "drop (Suc n) vals"] obtain us where
      us: "sift n (ws @ vals ! n # drop (Suc n) vals) = us @ drop (Suc n) vals" "sorted us"
        "mset us = add_mset (vals ! n) (mset ws)" using len by auto
    have "mset us = mset (take (Suc n) vals)"
      using us(3) ws(3) Suc.prems by (simp add: take_Suc_conv_app_nth)
    with us ws(1) dr False show ?thesis by (intro exI [of _ us]) (simp add: max_def)
  qed
qed

text \<open>
  The hand-written insertion sort \<open>sortStrings\<close> sorts: its result is the sorted
  permutation of its input, for every slice, the empty one included.
\<close>

theorem sortStrings_correct: "sortStrings vals = sort vals"
proof -
  obtain ws where ws: "sortStrings vals = ws @ drop (max 1 (length vals)) vals" "sorted ws"
      "mset ws = mset (take (max 1 (length vals)) vals)"
    using sift_loop [of "length vals" vals] by (auto simp: sortStrings_def)
  then show ?thesis by (metis append.right_neutral drop_all max.cobounded2 properties_for_sort take_all)
qed

section \<open>Quoting\<close>

text \<open>
  The reading side of systemd's command lines, as a reference: space-separated arguments, each
  in double quotes, where a backslash makes the next character literal.
\<close>

fun read_quoted :: "string \<Rightarrow> (string \<times> string) option" where
  "read_quoted [] = None"
| "read_quoted (c # s) =
     (if c = dquote then Some ([], s)
      else if c = backslash then
        (case s of [] \<Rightarrow> None | d # s' \<Rightarrow> map_option (\<lambda>(v, rest). (d # v, rest)) (read_quoted s'))
      else map_option (\<lambda>(v, rest). (c # v, rest)) (read_quoted s))"

lemma read_quoted_length: "read_quoted s = Some (v, rest) \<Longrightarrow> length rest < length s"
  by (induction s arbitrary: v rest rule: read_quoted.induct) (auto split: if_splits list.splits, fastforce+)

function read_exec :: "string \<Rightarrow> string list option" where
  "read_exec s =
     (case s of
        [] \<Rightarrow> None
      | c # s' \<Rightarrow>
          if c \<noteq> dquote then None
          else case read_quoted s' of
            None \<Rightarrow> None
          | Some (v, []) \<Rightarrow> Some [v]
          | Some (v, sp # rest) \<Rightarrow> if sp = CHR '' '' then map_option ((#) v) (read_exec rest) else None)"
  by pat_completeness auto
termination
  by (relation "measure length") (auto dest: read_quoted_length)

declare read_exec.simps [simp del]

lemma read_quoted_escape: "read_quoted (escapeUnitValue v @ dquote # rest) = Some (v, rest)"
  by (induction v) (auto simp: escapeUnitValue_def)

text \<open>
  Quoting is faithful. Reading the rendered \<open>ExecStart\<close> line back gives exactly the
  argument list, whatever quotes, backslashes or spaces the arguments contain: no argument is
  split, merged or altered.
\<close>

theorem quoteExec_round_trip:
  assumes "args \<noteq> []"
  shows "read_exec (quoteExec args) = Some args"
  using assms
proof (induction args)
  case (Cons a args)
  show ?case
  proof (cases args)
    case Nil
    then show ?thesis
      by (subst read_exec.simps) (simp add: quoteExec_def read_quoted_escape)
  next
    case (Cons b bs)
    with Cons.IH have IH: "read_exec (quoteExec args) = Some args" by simp
    have "quoteExec (a # args) = dquote # escapeUnitValue a @ dquote # CHR '' '' # quoteExec args"
      using Cons by (simp add: quoteExec_def)
    with IH show ?thesis by (subst read_exec.simps) (simp add: read_quoted_escape)
  qed
qed simp

theorem quoteExec_round_trip_witness:
  "read_exec (quoteExec [''/usr/bin/ch'', ''--api-socket'', ''path=/run/a b'', [dquote, backslash]]) =
     Some [''/usr/bin/ch'', ''--api-socket'', ''path=/run/a b'', [dquote, backslash]]"
  by (rule quoteExec_round_trip) simp

section \<open>The rendered file\<close>

fun split_lines :: "string \<Rightarrow> string list" where
  "split_lines [] = []"
| "split_lines (c # s) =
     (if c = CHR 0x0A then [] # split_lines s
      else case split_lines s of [] \<Rightarrow> [[c]] | x # xs \<Rightarrow> (c # x) # xs)"

definition unit_lines :: "persistent_unit \<Rightarrow> string list" where
  "unit_lines u =
     [''[Unit]'',
      ''Description='' @ escapeUnitValue (if PU_Description u = [] then ''k8labs owned VM '' @ PU_OwnerUID u else PU_Description u),
      ''[Service]'', ''Type=simple'',
      ''Environment=K8LABS_INSTALLATION_ID='' @ escapeUnitValue (PU_InstallationID u),
      ''Environment=K8LABS_OWNER_UID='' @ escapeUnitValue (PU_OwnerUID u),
      ''Environment=K8LABS_NODE_ID='' @ escapeUnitValue (PU_NodeID u)] @
     map (\<lambda>key. ''Environment='' @ key @ ''='' @
        escapeUnitValue (case map_of (PU_Environment u) key of None \<Rightarrow> [] | Some v \<Rightarrow> v)) (sort (map fst (PU_Environment u))) @
     [''ExecStart='' @ quoteExec (PU_ExecStart u),
      ''Restart='' @ (if PU_Restart u = [] then ''on-failure'' else PU_Restart u),
      ''RestartSec=2'', ''[Install]'', ''WantedBy=default.target'']"

lemma Render_lines:
  assumes "Render u = Inr content"
  shows "content = concat (map (\<lambda>l. l @ nl) (unit_lines u))"
  using assms
  by (simp add: Render_def Let_def unit_lines_def sortStrings_correct map_map comp_def split: option.splits if_splits)

lemma split_lines_line: "CHR 0x0A \<notin> set l \<Longrightarrow> split_lines (l @ CHR 0x0A # s) = l # split_lines s"
  by (induction l) auto

lemma split_lines_concat:
  "\<forall>l\<in>set ls. CHR 0x0A \<notin> set l \<Longrightarrow> split_lines (concat (map (\<lambda>l. l @ nl) ls)) = ls"
  by (induction ls) (simp_all add: split_lines_line)

lemma identifier_no_newline: "is_identifier s \<Longrightarrow> CHR 0x0A \<notin> set s"
  by (auto simp: is_identifier_def is_alnum_def Let_def list_all_iff split: list.splits)

lemma set_escape: "set (escapeUnitValue v) \<subseteq> set v \<union> {backslash, dquote}"
proof -
  have "set (escapeUnitValue v) \<subseteq> set (replace_char backslash [backslash, backslash] v) \<union> {backslash, dquote}"
    unfolding escapeUnitValue_def using set_replace_char by fastforce
  also have "\<dots> \<subseteq> set v \<union> {backslash, dquote}" using set_replace_char [of backslash] by fastforce
  finally show ?thesis .
qed

lemma escape_no_newline: "CHR 0x0A \<notin> set v \<Longrightarrow> CHR 0x0A \<notin> set (escapeUnitValue v)"
  using set_escape [of v] by auto

lemma set_join: "set (join_with sep xs) \<subseteq> set sep \<union> \<Union> (set ` set xs)"
  by (induction sep xs rule: join_with.induct) auto

lemma quoteExec_no_newline:
  assumes "\<forall>v\<in>set vs. CHR 0x0A \<notin> set v"
  shows "CHR 0x0A \<notin> set (quoteExec vs)"
proof
  assume "CHR 0x0A \<in> set (quoteExec vs)"
  then obtain v where "v \<in> set vs" "CHR 0x0A \<in> set (escapeUnitValue v)"
    using set_join [of "'' ''" "map (\<lambda>v. [dquote] @ escapeUnitValue v @ [dquote]) vs"]
    by (auto simp: quoteExec_def split: if_splits)
  with assms escape_no_newline show False by blast
qed

lemma ContainsAny_crlf: "\<not> ContainsAny v crlf \<Longrightarrow> CHR 0x0A \<notin> set v"
  by (auto simp: ContainsAny_iff)

lemma Unit_Validate_None:
  assumes "Unit_Validate u = None"
  shows "is_identifier (PU_InstallationID u)" "is_identifier (PU_OwnerUID u)" "is_identifier (PU_NodeID u)" "is_identifier (PU_Name u)"
    "HasSuffix (PU_Name u) ''.service''" "PU_ExecStart u \<noteq> []" "\<forall>v\<in>set (PU_ExecStart u). CHR 0x0A \<notin> set v"
    "\<And>k v. (k, v) \<in> set (PU_Environment u) \<Longrightarrow> is_identifier k \<and> CHR 0x0A \<notin> set v"
    "PU_Restart u \<in> {[], ''on-failure'', ''always'', ''no''}"
proof -
  have crlf: "\<And>v. ContainsAny v crlf \<or> CHR 0x0A \<notin> set v" using ContainsAny_crlf by blast
  show "\<And>k v. (k, v) \<in> set (PU_Environment u) \<Longrightarrow> is_identifier k \<and> CHR 0x0A \<notin> set v"
    using assms crlf by (fastforce simp: Unit_Validate_def list_ex_iff split: if_splits)
qed (use assms in \<open>auto simp: Unit_Validate_def list_ex_iff ContainsAny_crlf split: if_splits\<close>)

text \<open>
  C33: no directive can be injected through an identity, an environment value or an argument. If
  the description has no newline, the file \<open>Render\<close> produces has exactly the intended
  lines: the three identity variables, one line per environment entry in sorted key order, one
  command line, one restart policy, and the fixed section headers.
\<close>

theorem Render_no_injection:
  assumes "Render u = Inr content" and "CHR 0x0A \<notin> set (PU_Description u)"
  shows "split_lines content = unit_lines u"
proof -
  from assms(1) have v: "Unit_Validate u = None" by (simp add: Render_def split: option.splits)
  note valid = Unit_Validate_None [OF v]
  have env: "CHR 0x0A \<notin> set k" if "(k, v) \<in> set (PU_Environment u)" for k v
    using valid(8) [OF that] identifier_no_newline by blast
  have val: "CHR 0x0A \<notin> set (escapeUnitValue (case map_of (PU_Environment u) k of None \<Rightarrow> [] | Some v \<Rightarrow> v))" for k
  proof (rule escape_no_newline, cases "map_of (PU_Environment u) k")
    case (Some w)
    then have "(k, w) \<in> set (PU_Environment u)" by (rule map_of_SomeD)
    from valid(8) [OF this] Some
    show "CHR 0x0A \<notin> set (case map_of (PU_Environment u) k of None \<Rightarrow> [] | Some v \<Rightarrow> v)" by simp
  qed simp
  have "CHR 0x0A \<notin> set l" if "l \<in> set (unit_lines u)" for l
    using that env val valid(9) assms(2) quoteExec_no_newline [OF valid(7)]
      identifier_no_newline [OF valid(1)] identifier_no_newline [OF valid(2)] identifier_no_newline [OF valid(3)]
    by (auto simp: unit_lines_def escape_no_newline split: if_splits)
  with Render_lines [OF assms(1)] show ?thesis by (simp add: split_lines_concat)
qed

definition sample_unit :: persistent_unit where
  "sample_unit = \<lparr>PU_InstallationID = ''lab'', PU_OwnerUID = ''u1'', PU_NodeID = ''n1'', PU_Name = ''vm.service'',
     PU_Description = [], PU_ExecStart = [''/usr/bin/ch''], PU_Environment = [(''B'', ''2''), (''A'', ''1'')], PU_Restart = []\<rparr>"

lemma sample_unit_valid: "Unit_Validate (sample_unit\<lparr>PU_Description := d\<rparr>) = None"
  by (simp add: Unit_Validate_def sample_unit_def is_identifier_def is_alnum_def Let_def HasSuffix_def ContainsAny_def)

theorem Render_no_injection_witness:
  "\<exists>content. Render sample_unit = Inr content \<and> split_lines content = unit_lines sample_unit"
proof -
  have v: "Unit_Validate sample_unit = None" using sample_unit_valid [of "[]"] by (simp add: sample_unit_def)
  then obtain content where c: "Render sample_unit = Inr content" by (simp add: Render_def Let_def)
  moreover have "split_lines content = unit_lines sample_unit"
    by (rule Render_no_injection [OF c]) (simp add: sample_unit_def)
  ultimately show ?thesis by blast
qed

text \<open>
  The description is not checked. A unit whose description contains a newline passes
  validation, and its rendered file has a command line of the description's choosing beside the
  intended one.
\<close>

theorem Render_description_injects:
  "\<exists>u content. Unit_Validate u = None \<and> PU_ExecStart u = [''/usr/bin/ch''] \<and> Render u = Inr content \<and>
     ''ExecStart=/bin/other'' \<in> set (split_lines content)"
proof -
  let ?u = "sample_unit\<lparr>PU_Description := ''x'' @ nl @ ''[Service]'' @ nl @ ''ExecStart=/bin/other''\<rparr>"
  have v: "Unit_Validate ?u = None" by (rule sample_unit_valid)
  then obtain content where c: "Render ?u = Inr content" by (simp add: Render_def Let_def)
  obtain ls where ls: "unit_lines ?u = ''[Unit]'' # (''Description=x'' @ nl @ ''[Service]'' @ nl @ ''ExecStart=/bin/other'') # ls"
    by (simp add: unit_lines_def escapeUnitValue_def)
  have "content = concat (map (\<lambda>l. l @ nl) (''[Unit]'' # (''Description=x'' @ nl @ ''[Service]'' @ nl @ ''ExecStart=/bin/other'') # ls))"
    using Render_lines [OF c] ls by simp
  then have "''ExecStart=/bin/other'' \<in> set (split_lines content)"
    using split_lines_line [of "''ExecStart=/bin/other''"] by (simp split: list.split)
  moreover have "PU_ExecStart ?u = [''/usr/bin/ch'']" by (simp add: sample_unit_def)
  ultimately show ?thesis using v c by blast
qed

section \<open>Atomic installation\<close>

lemma or_close_Inr: "or_close tmp msg m h = (Inr (), h') \<longleftrightarrow> m h = (Inr (), h')"
  by (auto simp: or_close_def catchG_def split: prod.splits sum.splits)

lemma file_call_nodesD: "file_call call tmp h = (r, h') \<Longrightarrow> hs_nodes h' = hs_nodes h"
  by (metis file_call_nodes snd_conv)

lemma or_close_nodes:
  assumes "or_close tmp msg m h = (r, h')"
  shows "hs_nodes h' = hs_nodes (snd (m h))"
  using assms by (auto simp: or_close_def catchG_def split: prod.splits sum.splits dest: file_call_nodesD)

lemma file_write_nodes:
  "hs_nodes (snd (file_write tmp bs h)) = hs_nodes h \<or>
   hs_nodes (snd (file_write tmp bs h)) = AList.update (snd tmp) (RegularFile bs) (hs_nodes h)"
  by (auto simp: file_write_def sys_def Let_def split: option.split)

lemma os_Rename_Inl: "os_Rename old new h = (Inl e, h') \<Longrightarrow> hs_nodes h' = hs_nodes h"
  by (auto simp: os_Rename_def at_located_def node_of_def run_bind dest!: sys_Inl
      split: sum.splits option.splits if_splits)

lemma os_Rename_Inr:
  assumes "os_Rename old new h = (Inr (), h')" and "locate (hs_nodes h) old = Inr p" and "locate (hs_nodes h) new = Inr q"
    and "p \<noteq> []"
  shows "\<exists>nd. map_of (hs_nodes h) p = Some nd \<and> hs_nodes h' = AList.update q nd (AList.delete p (hs_nodes h))"
  using assms
  by (auto simp: os_Rename_def at_located_def node_of_def run_bind node_at_def dest!: sys_Inr
      split: option.splits if_splits)

text \<open>
  A unit file is replaced atomically. With a temporary file made by
  \<open>os.CreateTemp\<close>, the write, sync and rename sequence either succeeds, and then the unit
  path holds exactly the rendered content and the temporary name is gone, or it fails, and then
  no file other than the temporary one has changed.
\<close>

theorem replace_unit_file_atomic:
  assumes "CreateTemp dir pat h0 = (Inr tmp, h)" and "locate (hs_nodes h) path = Inr q" and "q \<noteq> snd tmp"
  shows "case replace_unit_file tmp content path h of
      (Inl e, h') \<Rightarrow> \<forall>p. p \<noteq> snd tmp \<longrightarrow> map_of (hs_nodes h') p = map_of (hs_nodes h) p
    | (Inr _, h') \<Rightarrow> map_of (hs_nodes h') q = Some (RegularFile (string_bytes content)) \<and>
        map_of (hs_nodes h') (snd tmp) = None \<and>
        (\<forall>p. p \<noteq> snd tmp \<and> p \<noteq> q \<longrightarrow> map_of (hs_nodes h') p = map_of (hs_nodes h) p)"
proof -
  note temp = CreateTemp_Inr [OF assms(1)]
  let ?same = "\<lambda>h'. \<forall>p. p \<noteq> snd tmp \<longrightarrow> map_of (hs_nodes h') p = map_of (hs_nodes h) p"
  have tne: "snd tmp \<noteq> []" using temp(3) by (auto simp: node_at_def)
  obtain r1 h1 where 1: "or_close tmp ''chmod temporary unit'' (file_call OsChmod tmp) h = (r1, h1)" by fastforce
  have n1: "hs_nodes h1 = hs_nodes h" using or_close_nodes [OF 1] by simp
  obtain r2 h2 where 2: "or_close tmp ''write temporary unit'' (file_write tmp (string_bytes content)) h1 = (r2, h2)"
    by fastforce
  have n2: "hs_nodes h2 = hs_nodes h \<or> hs_nodes h2 = AList.update (snd tmp) (RegularFile (string_bytes content)) (hs_nodes h)"
    using or_close_nodes [OF 2] file_write_nodes [of tmp "string_bytes content" h1] n1 by simp
  have s2: "?same h2" using n2 by (auto simp: update_conv')
  obtain r3 h3 where 3: "or_close tmp ''sync temporary unit'' (file_call OsSync tmp) h2 = (r3, h3)" by fastforce
  have n3: "hs_nodes h3 = hs_nodes h2" using or_close_nodes [OF 3] by simp
  obtain r4 h4 where 4: "file_call OsClose tmp h3 = (r4, h4)" by fastforce
  have n4: "hs_nodes h4 = hs_nodes h2" using file_call_nodesD [OF 4] n3 by simp
  obtain r5 h5 where 5: "os_Rename (fst tmp) path h4 = (r5, h5)" by fastforce
  have written: "hs_nodes h2 = AList.update (snd tmp) (RegularFile (string_bytes content)) (hs_nodes h)" if "r2 = Inr ()"
    using 2 that n1 by (auto simp: or_close_Inr file_write_def dest!: sys_Inr)
  have moved: "map_of (hs_nodes h5) q = Some (RegularFile (string_bytes content)) \<and> map_of (hs_nodes h5) (snd tmp) = None \<and>
      (\<forall>p. p \<noteq> snd tmp \<and> p \<noteq> q \<longrightarrow> map_of (hs_nodes h5) p = map_of (hs_nodes h) p)"
    if "r2 = Inr ()" "r5 = Inr ()"
  proof -
    have ns: "hs_nodes h4 = AList.update (snd tmp) (RegularFile (string_bytes content)) (hs_nodes h)"
      using n4 written that by simp
    have shape: "keeps_shape (hs_nodes h) (hs_nodes h4)"
      unfolding ns using temp(2) by (intro keeps_shape_update) (simp add: node_kind_def)
    from os_Rename_Inr [OF 5 [unfolded that(2)] locate_keeps_shape [OF shape temp(1)] locate_keeps_shape [OF shape assms(2)] tne]
    show ?thesis using assms(3) by (auto simp: ns update_conv' delete_conv')
  qed
  have run: "replace_unit_file tmp content path h =
     (case r1 of Inl e \<Rightarrow> (Inl e, h1) | Inr _ \<Rightarrow> (case r2 of Inl e \<Rightarrow> (Inl e, h2) | Inr _ \<Rightarrow>
      (case r3 of Inl e \<Rightarrow> (Inl e, h3) | Inr _ \<Rightarrow> (case r4 of Inl e \<Rightarrow> (Inl (wrap_err ''close temporary unit'' e), h4) | Inr _ \<Rightarrow>
      (case r5 of Inl e \<Rightarrow> (Inl (wrap_err ''replace unit file'' e), h5) | Inr x \<Rightarrow> (Inr x, h5))))))"
    by (simp add: replace_unit_file_def run_bind 1 2 3 4 5 run_wrap split: sum.split)
  have s5: "?same h5" if "r5 = Inl e" for e
    using os_Rename_Inl [OF 5 [unfolded that]] n4 s2 by simp
  show ?thesis
    unfolding run using n1 n3 n4 s2 s5 moved by (auto split: sum.split)
qed

definition sample_host :: "unit host" where
  "sample_host = \<lparr>hs_nodes = [([''u''], Directory), ([''u'', ''vm.service''], RegularFile [1])],
     hs_fault = (\<lambda>_ _ _. None), hs_calls = 0, hs_random = (\<lambda>_. ''7''), hs_ext = ()\<rparr>"

theorem replace_unit_file_atomic_witness:
  "\<exists>tmp h1. CreateTemp ''/u'' ''.vm.service.'' sample_host = (Inr tmp, h1) \<and>
     (case replace_unit_file tmp ''[Unit]'' ''/u/vm.service'' h1 of
        (Inl e, h') \<Rightarrow> map_of (hs_nodes h') [''u'', ''vm.service''] = Some (RegularFile [1])
      | (Inr _, h') \<Rightarrow> map_of (hs_nodes h') [''u'', ''vm.service''] = Some (RegularFile (string_bytes ''[Unit]'')))"
proof -
  let ?ns = "[([''u''], Directory), ([''u'', ''vm.service''], RegularFile [1])]"
  let ?tmp = "(''/u/.vm.service.7'', [''u'', ''.vm.service.7''])"
  have "Join ''/u'' ''.vm.service.7'' = ''/u/.vm.service.7''" by code_simp
  moreover have "locate ?ns ''/u/.vm.service.7'' = Inr [''u'', ''.vm.service.7'']" by code_simp
  moreover have "node_at ?ns [''u'', ''.vm.service.7''] = None" by code_simp
  ultimately obtain h1 where run: "CreateTemp ''/u'' ''.vm.service.'' sample_host = (Inr ?tmp, h1)"
    and ns: "hs_nodes h1 = AList.update [''u'', ''.vm.service.7''] (RegularFile []) ?ns"
    by (simp add: CreateTemp_def sample_host_def sys_def at_located_def Let_def)
  have loc: "locate (hs_nodes h1) ''/u/vm.service'' = Inr [''u'', ''vm.service'']" unfolding ns by code_simp
  have old: "map_of (hs_nodes h1) [''u'', ''vm.service''] = Some (RegularFile [1])" by (simp add: ns)
  from replace_unit_file_atomic [OF run loc, of "''[Unit]''"] old run
  show ?thesis by (intro exI [of _ ?tmp] exI [of _ h1]) (auto split: prod.splits sum.splits)
qed

end
