(* ===== verification/Artifact.thy ===== *)
theory Artifact
  imports Host Sha256
begin

text \<open>
  The artifact builder and the manifest (\<open>internal/agent/artifact\<close>): verification of
  owned files, creation of root disks and CIDATA images under the builder's root, and the mapping
  from image references to immutable files. The programs it runs (\<open>qemu-img\<close>,
  \<open>mkdosfs\<close>, \<open>mcopy\<close>) are behind the \<open>Runner\<close> interface, a
  parameter; Go maps are lists of entries.
\<close>

record 'x builder =
  B_Root :: string
  B_QemuImg :: string
  B_Mkdosfs :: string
  B_Mcopy :: string
  B_Run :: "(string \<Rightarrow> string list \<Rightarrow> ('x host, byte list) go) option"

record cidata =
  CI_Path :: string
  CI_SHA256 :: string

definition run_tool :: "'x builder \<Rightarrow> string \<Rightarrow> string list \<Rightarrow> ('x host, byte list) go" where
  "run_tool b name args = (case B_Run b of Some run \<Rightarrow> run name args | None \<Rightarrow> failG (sentinel_err NilDereference))"

section \<open>Verification\<close>

definition is_hex :: "char \<Rightarrow> bool" where
  "is_hex c \<longleftrightarrow> (let n = (of_char c :: nat) in 48 \<le> n \<and> n \<le> 57 \<or> 65 \<le> n \<and> n \<le> 70 \<or> 97 \<le> n \<and> n \<le> 102)"

definition regularFile :: "string \<Rightarrow> ('x host, bool) go" where
  "regularFile path = catchG (os_Stat path)
     (\<lambda>r. returnG (case r of Inr (RegularFile _) \<Rightarrow> True | _ \<Rightarrow> False))"

definition is_regular :: "fnode \<Rightarrow> bool" where
  "is_regular nd = (case nd of RegularFile _ \<Rightarrow> True | _ \<Rightarrow> False)"

definition not_owned :: "string \<Rightarrow> goerr" where
  "not_owned path = plain_err (''artifact path is not an owned regular file: '' @ Quote path)"

definition resolveOwnedPath :: "string \<Rightarrow> string \<Rightarrow> ('x host, string) go" where
  "resolveOwnedPath root path =
     (if \<not> IsAbs path then failG (plain_err (''invalid artifact path: '' @ Quote path))
      else
        bindG (wrapG ''resolve artifact root'' (EvalSymlinks root)) (\<lambda>resolvedRoot.
        catchG (os_Lstat path) (\<lambda>info.
          case info of
            Inl _ \<Rightarrow> failG (not_owned path)
          | Inr nd \<Rightarrow>
              if \<not> is_regular nd then failG (not_owned path)
              else catchG (EvalSymlinks path) (\<lambda>r.
                case r of
                  Inl _ \<Rightarrow> failG (not_owned path)
                | Inr resolved \<Rightarrow>
                    if \<not> within resolvedRoot resolved then failG (not_owned path) else returnG resolved))))"

definition fileSHA256 :: "string \<Rightarrow> ('x host, string) go" where
  "fileSHA256 path =
     bindG (wrapG (''read artifact '' @ Quote path) (os_ReadFile path)) (\<lambda>contents.
     returnG (hex_string (sha256 contents)))"

definition VerifyOwnedFile :: "string \<Rightarrow> string \<Rightarrow> string \<Rightarrow> ('x host, unit) go" where
  "VerifyOwnedFile root path checksum =
     (if length checksum \<noteq> 64 \<or> \<not> list_all is_hex checksum
      then failG (plain_err (''invalid artifact path or checksum: '' @ Quote path))
      else
        bindG (resolveOwnedPath root path) (\<lambda>resolved.
        bindG (fileSHA256 resolved) (\<lambda>actual.
        if actual \<noteq> ToLower checksum then failG (plain_err (''artifact checksum mismatch: '' @ Quote path))
        else returnG ())))"

definition VerifyOwnedPath :: "string \<Rightarrow> string \<Rightarrow> ('x host, unit) go" where
  "VerifyOwnedPath root path = bindG (resolveOwnedPath root path) (\<lambda>_. returnG ())"

definition Builder_Verify :: "'x builder \<Rightarrow> string list \<Rightarrow> string list \<Rightarrow> ('x host, unit) go" where
  "Builder_Verify b paths checksums =
     (if length paths \<noteq> length checksums \<or> paths = []
      then failG (plain_err ''artifact paths and checksums must have equal non-zero lengths'')
      else eachG (\<lambda>(path, checksum). VerifyOwnedFile (B_Root b) path checksum) (zip paths checksums))"

section \<open>Construction\<close>

definition validName :: "'x builder \<Rightarrow> string \<Rightarrow> goerr option" where
  "validName b name =
     (if B_Run b = None \<or> B_Root b = [] \<or> \<not> IsAbs (B_Root b) \<or> name = [] \<or>
         ContainsAny name [slash, CHR 0x5C, CHR 0x0D, CHR 0x0A]
      then Some (plain_err ''invalid artifact builder or name'') else None)"

definition Builder_PrepareRootDisk :: "'x builder \<Rightarrow> string \<Rightarrow> string \<Rightarrow> ('x host, string) go" where
  "Builder_PrepareRootDisk b name source =
     bindG (checkG (validName b name)) (\<lambda>_.
     bindG (if IsAbs source then regularFile source else returnG False) (\<lambda>ok.
     if \<not> ok then failG (plain_err (''invalid source image '' @ Quote source))
     else
     bindG (wrapG ''create artifact root'' (os_MkdirAll (B_Root b))) (\<lambda>_.
     let destination = Join (B_Root b) (name @ ''-root.qcow2'') in
     if \<not> within (B_Root b) destination then failG (plain_err ''root disk path escaped artifact root'')
     else
     bindG (regularFile destination) (\<lambda>exists.
     if exists then returnG destination
     else
     bindG (wrapG ''create root disk'' (run_tool b (B_QemuImg b) [''convert'', ''-O'', ''qcow2'', source, destination])) (\<lambda>_.
     returnG destination)))))"

definition cidata_parts :: "string list" where
  "cidata_parts = [''user-data'', ''meta-data'', ''network-config'']"

fun require_parts :: "(string \<times> byte list) list \<Rightarrow> string list \<Rightarrow> goerr option" where
  "require_parts parts [] = None"
| "require_parts parts (r # rs) =
     (if map_of parts r = None then Some (plain_err (''CIDATA part '' @ Quote r @ '' is required''))
      else require_parts parts rs)"

definition write_part :: "string \<Rightarrow> (string \<times> byte list) list \<Rightarrow> string \<Rightarrow> ('x host, unit) go" where
  "write_part staging parts key =
     (if slash \<in> set key \<or> key = ''.'' \<or> key = ''..'' then failG (plain_err (''invalid CIDATA part '' @ Quote key))
      else wrapG ''write CIDATA part''
        (os_WriteFile (Join staging key) (case map_of parts key of None \<Rightarrow> [] | Some bs \<Rightarrow> bs)))"

text \<open>The 4 MiB image: remove the old file, create, truncate to size, close.\<close>

definition cidata_size :: nat where
  "cidata_size = 4 * 2 ^ 20"

definition new_image :: "string \<Rightarrow> ('x host, unit) go" where
  "new_image path =
     bindG (catchG (os_Remove path)
       (\<lambda>r. case r of Inl e \<Rightarrow> if errors_Is e OsErrNotExist then returnG () else failG e | Inr _ \<Rightarrow> returnG ())) (\<lambda>_.
     bindG (sys OsOpen path (write_node path [])) (\<lambda>_.
     bindG (catchG (sys OsTruncate path (write_node path (replicate cidata_size 0)))
       (\<lambda>r. case r of Inl e \<Rightarrow> catchG (sys OsClose path (returnG ())) (\<lambda>_. failG e) | Inr _ \<Rightarrow> returnG ())) (\<lambda>_.
     sys OsClose path (returnG ()))))"

definition Builder_PrepareCIDATA :: "'x builder \<Rightarrow> string \<Rightarrow> (string \<times> byte list) list \<Rightarrow> ('x host, cidata) go" where
  "Builder_PrepareCIDATA b name parts =
     bindG (checkG (validName b name)) (\<lambda>_.
     bindG (checkG (require_parts parts cidata_parts)) (\<lambda>_.
     bindG (wrapG ''create artifact root'' (os_MkdirAll (B_Root b))) (\<lambda>_.
     let staging = Join (B_Root b) (name @ ''-cidata-parts'') in
     if \<not> within (B_Root b) staging then failG (plain_err ''CIDATA staging escaped artifact root'')
     else
     bindG (wrapG ''create CIDATA staging'' (os_MkdirAll staging)) (\<lambda>_.
     bindG (eachG (write_part staging parts) (sort (map fst parts))) (\<lambda>_.
     let path = Join (B_Root b) (name @ ''-cidata.img'') in
     bindG (new_image path) (\<lambda>_.
     bindG (wrapG ''format CIDATA'' (run_tool b (B_Mkdosfs b) [''-F'', ''16'', ''-s'', ''1'', ''-n'', ''CIDATA'', path])) (\<lambda>_.
     bindG (eachG (\<lambda>key. bindG (wrapG (''copy CIDATA part '' @ key)
              (run_tool b (B_Mcopy b) [''-i'', path, Join staging key, ''::'' @ key])) (\<lambda>_. returnG ())) cidata_parts) (\<lambda>_.
     bindG (os_ReadFile path) (\<lambda>contents.
     returnG \<lparr>CI_Path = path, CI_SHA256 = hex_string (sha256 contents)\<rparr>)))))))))"

section \<open>The manifest\<close>

record immutable_file =
  IF_Path :: string
  IF_SHA256 :: string

record manifest =
  Man_Images :: "(string \<times> immutable_file) list"
  Man_Firmware :: immutable_file

definition verify_image :: "string \<Rightarrow> string \<times> immutable_file \<Rightarrow> ('x host, unit) go" where
  "verify_image root entry =
     (case entry of (reference, img) \<Rightarrow>
        if TrimSpace reference = [] then failG (plain_err ''artifact manifest has an empty image reference'')
        else wrapG (''verify manifest image '' @ Quote reference) (VerifyOwnedFile root (IF_Path img) (IF_SHA256 img)))"

text \<open>\<open>decode\<close> is \<open>json.Unmarshal\<close> into a \<open>Manifest\<close>.\<close>

definition LoadManifest ::
  "(byte list \<Rightarrow> goerr + manifest) \<Rightarrow> string \<Rightarrow> string \<Rightarrow> string \<Rightarrow> ('x host, manifest) go" where
  "LoadManifest decode path baseImageRoot firmwareRoot =
     (if \<not> IsAbs path \<or> \<not> IsAbs baseImageRoot \<or> \<not> IsAbs firmwareRoot
      then failG (plain_err ''manifest and owned roots must be absolute'')
      else
        bindG (catchG (os_Lstat path) (\<lambda>r. case r of
             Inr nd \<Rightarrow> if is_regular nd then returnG () else failG (plain_err (''artifact manifest is not a regular file: '' @ Quote path))
           | Inl _ \<Rightarrow> failG (plain_err (''artifact manifest is not a regular file: '' @ Quote path)))) (\<lambda>_.
        bindG (wrapG ''read artifact manifest'' (os_ReadFile path)) (\<lambda>contents.
        bindG (wrapG ''parse artifact manifest'' (liftG (decode contents))) (\<lambda>m.
        if Man_Images m = [] then failG (plain_err ''artifact manifest has no images'')
        else
        bindG (wrapG ''verify manifest firmware''
          (VerifyOwnedFile firmwareRoot (IF_Path (Man_Firmware m)) (IF_SHA256 (Man_Firmware m)))) (\<lambda>_.
        bindG (eachG (verify_image baseImageRoot) (Man_Images m)) (\<lambda>_. returnG m))))))"

definition Manifest_Image :: "manifest \<Rightarrow> string \<Rightarrow> goerr + immutable_file" where
  "Manifest_Image m reference =
     (case map_of (Man_Images m) reference of
        Some img \<Rightarrow> if TrimSpace reference = [] then Inl (plain_err (''unknown base image reference '' @ Quote reference)) else Inr img
      | None \<Rightarrow> Inl (plain_err (''unknown base image reference '' @ Quote reference)))"

section \<open>What verification establishes\<close>

lemma EvalSymlinks_Inr:
  assumes "EvalSymlinks path h = (Inr r, h')"
  obtains p where "resolve (hs_nodes h) path = Inr p" "r = (if IsAbs path then slash_path p else Clean path)"
    "hs_nodes h' = hs_nodes h"
  using assms by (auto simp: EvalSymlinks_def at_resolved_def dest!: sys_Inr split: sum.splits)

lemma os_Lstat_nodes:
  assumes "os_Lstat path h = (r, h')"
  shows "hs_nodes h' = hs_nodes h"
proof -
  have "hs_nodes (snd (os_Lstat path h)) = hs_nodes h"
    unfolding os_Lstat_def
    by (rule sys_nodes_unchanged) (auto simp: at_located_def node_of_def split: sum.splits option.splits)
  with assms show ?thesis by simp
qed

lemma read_node_Inr: "read_node path p ns = (Inr bs, ns') \<Longrightarrow> map_of ns p = Some (RegularFile bs) \<and> ns' = ns"
  unfolding read_node_def bindG_eq_Inr
  by (auto simp: node_of_def node_at_def split: option.splits fnode.splits if_splits)

lemma os_ReadFile_Inr:
  assumes "os_ReadFile path h = (Inr bs, h')"
  obtains p where "resolve (hs_nodes h) path = Inr p" "map_of (hs_nodes h) p = Some (RegularFile bs)" "hs_nodes h' = hs_nodes h"
proof -
  from sys_Inr [OF assms [unfolded os_ReadFile_def]] obtain ns
    where ns: "at_resolved ''open'' path (read_node path) (hs_nodes h) = (Inr bs, ns)" "hs_nodes h' = ns" by auto
  then obtain p where "resolve (hs_nodes h) path = Inr p" "read_node path p (hs_nodes h) = (Inr bs, ns)"
    by (auto simp: at_resolved_def split: sum.splits)
  with that ns(2) read_node_Inr show thesis by blast
qed

lemma resolveOwnedPath_Inr:
  assumes "resolveOwnedPath root path h = (Inr resolved, h')"
  obtains r p where "IsAbs path" "resolve (hs_nodes h) root = Inr r" "resolve (hs_nodes h) path = Inr p"
    "prefix r p" "resolved = slash_path p" "hs_nodes h' = hs_nodes h"
proof -
  from assms obtain rr h1 i h2 where abs: "IsAbs path" and r: "EvalSymlinks root h = (Inr rr, h1)"
    and l: "os_Lstat path h1 = (i, h2)" and p: "EvalSymlinks path h2 = (Inr resolved, h')" and w: "within rr resolved"
    by (auto simp: resolveOwnedPath_def bindG_eq_Inr catchG_case_eq split: if_split_asm)
  from r obtain rp where rp: "resolve (hs_nodes h) root = Inr rp" "rr = (if IsAbs root then slash_path rp else Clean root)"
    "hs_nodes h1 = hs_nodes h" by (rule EvalSymlinks_Inr)
  from p obtain pp where pp: "resolve (hs_nodes h2) path = Inr pp" "resolved = (if IsAbs path then slash_path pp else Clean path)"
    "hs_nodes h' = hs_nodes h2" by (rule EvalSymlinks_Inr)
  have n2: "hs_nodes h2 = hs_nodes h" using os_Lstat_nodes [OF l] rp by simp
  have "IsAbs rr" using within_IsAbs [OF w] pp(2) abs by simp
  then have "IsAbs root" using rp(2) by (metis IsAbs_Clean_iff)
  with w rp pp abs have "within (slash_path rp) (slash_path pp)" by simp
  then have "prefix rp pp"
    using clean_elems_slash_path [OF resolve_real [OF rp(1)]] clean_elems_slash_path [OF resolve_real [OF pp(1)]]
    by (simp add: within_prefix)
  with that abs rp pp n2 show thesis by simp
qed

lemma VerifyOwnedFile_Inr:
  assumes "VerifyOwnedFile root path checksum h = (Inr (), h')"
  obtains r p bs where "resolve (hs_nodes h) root = Inr r" "resolve (hs_nodes h) path = Inr p" "prefix r p"
    "map_of (hs_nodes h) p = Some (RegularFile bs)" "hex_string (sha256 bs) = ToLower checksum" "hs_nodes h' = hs_nodes h"
proof -
  from assms obtain resolved h1 bs where r: "resolveOwnedPath root path h = (Inr resolved, h1)"
    and bs: "os_ReadFile resolved h1 = (Inr bs, h')" and sum: "hex_string (sha256 bs) = ToLower checksum"
    by (auto simp: VerifyOwnedFile_def fileSHA256_def bindG_eq_Inr split: if_splits)
  from r obtain rp pp where rp: "resolve (hs_nodes h) root = Inr rp" "resolve (hs_nodes h) path = Inr pp" "prefix rp pp"
    "resolved = slash_path pp" "hs_nodes h1 = hs_nodes h" by (rule resolveOwnedPath_Inr)
  from bs obtain q where q: "resolve (hs_nodes h1) resolved = Inr q" "map_of (hs_nodes h1) q = Some (RegularFile bs)"
    "hs_nodes h' = hs_nodes h1" by (rule os_ReadFile_Inr)
  have "q = pp" using q(1) resolve_slash_path [OF resolve_real [OF rp(2)]] rp(4,5) by simp
  with that rp q sum show thesis by simp
qed

text \<open>
  C27: \<open>VerifyOwnedFile\<close> is sound. When it accepts, the path resolves, through every
  symbolic link, to a regular file at or below the resolved root, the SHA-256 of that very file's
  contents is the given checksum, and nothing was changed.
\<close>

theorem VerifyOwnedFile_sound:
  assumes "VerifyOwnedFile root path checksum h = (Inr (), h')"
  shows "\<exists>r p bs. resolve (hs_nodes h) root = Inr r \<and> resolve (hs_nodes h) path = Inr p \<and> prefix r p \<and>
    map_of (hs_nodes h) p = Some (RegularFile bs) \<and> hex_string (sha256 bs) = ToLower checksum \<and> hs_nodes h' = hs_nodes h"
  by (rule VerifyOwnedFile_Inr [OF assms]) blast

lemma hex_char_range: "d < 16 \<Longrightarrow> is_hex (hex_char d) \<and> lower_char (hex_char d) = hex_char d"
  by (auto simp: is_hex_def hex_char_def lower_char_def Let_def)

lemma hex_string_hex: "list_all is_hex (hex_string bs) \<and> ToLower (hex_string bs) = hex_string bs"
proof (induction bs)
  case (Cons b bs)
  have "unat b < 2 ^ LENGTH(8)" by (rule unsigned_less)
  then have "unat b div 16 < 16" by simp
  moreover have "unat b mod 16 < 16" by simp
  ultimately show ?case using Cons hex_char_range by (simp add: hex_string_def hex_byte_def ToLower_def)
qed (simp add: hex_string_def ToLower_def)

definition one_file_host :: "unit host" where
  "one_file_host = \<lparr>hs_nodes = [([''a''], Directory), ([''a'', ''f''], RegularFile [1]), ([''l''], Symlink ''/a''), ([''m''], RegularFile [2]),
      ([''a'', ''tls.crt''], RegularFile [3]), ([''a'', ''tls.key''], RegularFile [4])],
     hs_fault = (\<lambda>_ _ _. None), hs_calls = 0, hs_random = (\<lambda>_. ''7''), hs_ext = ()\<rparr>"

lemma one_file_verified:
  assumes "hs_nodes h = hs_nodes one_file_host" and "hs_fault h = (\<lambda>_ _ _. None)"
  shows "\<exists>h'. VerifyOwnedFile ''/a'' ''/l/f'' (hex_string (sha256 [1])) h = (Inr (), h') \<and>
    hs_nodes h' = hs_nodes one_file_host \<and> hs_fault h' = (\<lambda>_ _ _. None)"
proof -
  let ?ns = "hs_nodes one_file_host"
  have "resolve ?ns ''/a'' = Inr [''a'']" "resolve ?ns ''/l/f'' = Inr [''a'', ''f'']"
    "resolve ?ns ''/a/f'' = Inr [''a'', ''f'']" "locate ?ns ''/l/f'' = Inr [''a'', ''f'']"
    "node_at ?ns [''a'', ''f''] = Some (RegularFile [1])" "slash_path [''a''] = ''/a''" "slash_path [''a'', ''f''] = ''/a/f''"
    "within ''/a'' ''/a/f''"
    by code_simp+
  then show ?thesis
    using hex_string_hex [of "sha256 [1]"] assms
    by (simp add: VerifyOwnedFile_def resolveOwnedPath_def fileSHA256_def run_bind run_wrap catchG_def IsAbs_def
        EvalSymlinks_def os_Lstat_def os_ReadFile_def sys_def at_resolved_def at_located_def node_of_def read_node_def
        is_regular_def Let_def)
qed

theorem VerifyOwnedFile_sound_witness:
  "\<exists>p bs. resolve (hs_nodes one_file_host) ''/l/f'' = Inr p \<and> prefix [''a''] p \<and>
     map_of (hs_nodes one_file_host) p = Some (RegularFile bs)"
proof -
  obtain h' where "VerifyOwnedFile ''/a'' ''/l/f'' (hex_string (sha256 [1])) one_file_host = (Inr (), h')"
    using one_file_verified [of one_file_host] by (auto simp: one_file_host_def)
  moreover have "resolve (hs_nodes one_file_host) ''/a'' = Inr [''a'']" by code_simp
  ultimately show ?thesis using VerifyOwnedFile_sound by fastforce
qed

section \<open>The manifest only hands out verified files\<close>

lemma eachG_Inr_invariant:
  assumes "eachG f xs s = (Inr (), t)" and "I s" and "\<And>x u v. x \<in> set xs \<Longrightarrow> I u \<Longrightarrow> f x u = (Inr (), v) \<Longrightarrow> I v"
  shows "I t \<and> (\<forall>x\<in>set xs. \<exists>u v. I u \<and> f x u = (Inr (), v))"
  using assms
proof (induction xs arbitrary: s)
  case (Cons x xs)
  from Cons.prems(1) obtain u where u: "f x s = (Inr (), u)" "eachG f xs u = (Inr (), t)" by (auto simp: bindG_eq_Inr)
  have "I u" using Cons.prems(3) [of x s u] Cons.prems(2) u(1) by simp
  have "I t \<and> (\<forall>x\<in>set xs. \<exists>u v. I u \<and> f x u = (Inr (), v))"
    by (rule Cons.IH [OF u(2) \<open>I u\<close>]) (rule Cons.prems(3), simp_all)
  moreover have "\<exists>u v. I u \<and> f x u = (Inr (), v)" using Cons.prems(2) u(1) by blast
  ultimately show ?case by simp
qed simp

text \<open>
  Every image the manifest resolves is verified. When \<open>LoadManifest\<close> returns a
  manifest, the firmware and every image that \<open>Image\<close> hands out for any reference is a
  regular file that resolves to a place at or below its root and has the recorded checksum;
  loading changed no file.
\<close>

theorem LoadManifest_images_verified:
  fixes h h' :: "'x host"
  assumes "LoadManifest decode path base fw h = (Inr m, h')" and "Manifest_Image m reference = Inr img"
  shows "\<exists>r p bs. resolve (hs_nodes h) base = Inr r \<and> resolve (hs_nodes h) (IF_Path img) = Inr p \<and> prefix r p \<and>
    map_of (hs_nodes h) p = Some (RegularFile bs) \<and> hex_string (sha256 bs) = ToLower (IF_SHA256 img) \<and>
    hs_nodes h' = hs_nodes h"
proof -
  let ?I = "\<lambda>g :: 'x host. hs_nodes g = hs_nodes h"
  from assms(1) obtain nd h1 bs h2 h3 where l: "os_Lstat path h = (Inr nd, h1)"
    and rd: "os_ReadFile path h1 = (Inr bs, h2)"
    and f: "VerifyOwnedFile fw (IF_Path (Man_Firmware m)) (IF_SHA256 (Man_Firmware m)) h2 = (Inr (), h3)"
    and e: "eachG (verify_image base) (Man_Images m) h3 = (Inr (), h')"
    by (auto simp: LoadManifest_def bindG_eq_Inr catchG_case_eq liftG_def split: if_split_asm)
  have "hs_nodes h1 = hs_nodes h" by (rule os_Lstat_nodes [OF l])
  moreover have "hs_nodes h2 = hs_nodes h1" by (rule os_ReadFile_Inr [OF rd])
  moreover have "hs_nodes h3 = hs_nodes h2" by (rule VerifyOwnedFile_Inr [OF f])
  ultimately have I3: "?I h3" by simp
  have img_ok: "VerifyOwnedFile base (IF_Path i) (IF_SHA256 i) u = (Inr (), v)"
    if "verify_image base (ref, i) u = (Inr (), v)" for ref i and u v :: "'x host"
    using that by (auto simp: verify_image_def split: if_split_asm)
  have step: "?I v" if "?I u" "verify_image base x u = (Inr (), v)" for x and u v :: "'x host"
  proof (cases x)
    case (Pair ref i)
    with that(2) img_ok have "VerifyOwnedFile base (IF_Path i) (IF_SHA256 i) u = (Inr (), v)" by blast
    then show ?thesis by (rule VerifyOwnedFile_Inr) (use that(1) in simp)
  qed
  have all: "?I h' \<and> (\<forall>x\<in>set (Man_Images m). \<exists>u v. ?I u \<and> verify_image base x u = (Inr (), v))"
    using eachG_Inr_invariant [OF e, of ?I] I3 step by blast
  from assms(2) have "(reference, img) \<in> set (Man_Images m)"
    by (auto simp: Manifest_Image_def split: option.splits if_splits dest: map_of_SomeD)
  with all obtain u v where u: "?I u" "verify_image base (reference, img) u = (Inr (), v)" by blast
  from img_ok [OF u(2)] show ?thesis by (rule VerifyOwnedFile_Inr) (use u(1) all in auto)
qed

definition sample_manifest :: manifest where
  "sample_manifest = \<lparr>Man_Images = [(''ubuntu'', \<lparr>IF_Path = ''/l/f'', IF_SHA256 = hex_string (sha256 [1])\<rparr>)],
     Man_Firmware = \<lparr>IF_Path = ''/l/f'', IF_SHA256 = hex_string (sha256 [1])\<rparr>\<rparr>"

lemma sample_manifest_loads:
  "\<exists>h'. LoadManifest (\<lambda>_. Inr sample_manifest) ''/m'' ''/a'' ''/a'' one_file_host = (Inr sample_manifest, h') \<and>
     hs_nodes h' = hs_nodes one_file_host \<and> hs_fault h' = (\<lambda>_ _ _. None)"
proof -
  have files: "resolve (hs_nodes one_file_host) ''/m'' = Inr [''m'']" "locate (hs_nodes one_file_host) ''/m'' = Inr [''m'']"
    "node_at (hs_nodes one_file_host) [''m''] = Some (RegularFile [2])" "TrimSpace ''ubuntu'' = ''ubuntu''"
    by code_simp+
  define g where "g = one_file_host\<lparr>hs_calls := 2\<rparr>"
  have g: "hs_nodes g = hs_nodes one_file_host" "hs_fault g = (\<lambda>_ _ _. None)" by (simp_all add: g_def one_file_host_def)
  obtain g1 where g1: "VerifyOwnedFile ''/a'' ''/l/f'' (hex_string (sha256 [1])) g = (Inr (), g1)"
    "hs_nodes g1 = hs_nodes one_file_host" "hs_fault g1 = (\<lambda>_ _ _. None)" using one_file_verified [OF g] by blast
  obtain g2 where g2: "VerifyOwnedFile ''/a'' ''/l/f'' (hex_string (sha256 [1])) g1 = (Inr (), g2)"
    "hs_nodes g2 = hs_nodes one_file_host" "hs_fault g2 = (\<lambda>_ _ _. None)" using one_file_verified [OF g1(2,3)] by blast
  have start: "os_Lstat ''/m'' one_file_host = (Inr (RegularFile [2]), one_file_host\<lparr>hs_calls := 1\<rparr>)"
    "os_ReadFile ''/m'' (one_file_host\<lparr>hs_calls := 1\<rparr>) = (Inr [2], g)"
    using files by (simp_all add: g_def os_Lstat_def os_ReadFile_def sys_def at_located_def at_resolved_def node_of_def
      read_node_def run_bind Let_def one_file_host_def)
  show ?thesis
    using g1(1) g2 start files(4)
    by (simp add: LoadManifest_def run_bind catchG_def IsAbs_def is_regular_def run_wrap liftG_def sample_manifest_def
      verify_image_def)
qed

theorem LoadManifest_images_verified_witness:
  "\<exists>img p. Manifest_Image sample_manifest ''ubuntu'' = Inr img \<and>
     resolve (hs_nodes one_file_host) (IF_Path img) = Inr p \<and> prefix [''a''] p"
proof -
  let ?img = "\<lparr>IF_Path = ''/l/f'', IF_SHA256 = hex_string (sha256 [1])\<rparr>"
  obtain h' where run: "LoadManifest (\<lambda>_. Inr sample_manifest) ''/m'' ''/a'' ''/a'' one_file_host = (Inr sample_manifest, h')"
    using sample_manifest_loads by blast
  have "TrimSpace ''ubuntu'' = ''ubuntu''" by code_simp
  then have img: "Manifest_Image sample_manifest ''ubuntu'' = Inr ?img" by (simp add: Manifest_Image_def sample_manifest_def)
  have "resolve (hs_nodes one_file_host) ''/a'' = Inr [''a'']" by code_simp
  with LoadManifest_images_verified [OF run img] have "\<exists>p. resolve (hs_nodes one_file_host) (IF_Path ?img) = Inr p \<and> prefix [''a''] p"
    by auto
  with img show ?thesis by blast
qed

section \<open>Root disks\<close>

lemma validName_None:
  assumes "validName b name = None"
  shows "IsAbs (B_Root b)" "slash \<notin> set name"
  using assms by (auto simp: validName_def ContainsAny_iff split: if_splits)

lemma regularFile_unchanged: "regularFile path h = (r, h') \<Longrightarrow> hs_nodes h' = hs_nodes h \<and> hs_fault h' = hs_fault h"
  by (auto simp: regularFile_def catchG_eq dest: os_Stat_unchanged)

text \<open>
  A root disk is made once. If the disk's path already resolves to a regular file and
  \<open>stat\<close> works, a successful \<open>PrepareRootDisk\<close> returns that path, which is a
  direct child of the builder's root, without running the image tool: every node that existed
  before is unchanged, so a guest's disk is never written over.
\<close>

theorem PrepareRootDisk_keeps_existing:
  assumes "Builder_PrepareRootDisk b name source h = (Inr dest, h')"
    and "\<forall>n p. hs_fault h n OsStat p = None"
    and "resolve (hs_nodes h) (Join (B_Root b) (name @ ''-root.qcow2'')) = Inr p"
    and "map_of (hs_nodes h) p = Some (RegularFile bs)" and "p \<noteq> []"
  shows "clean_elems dest = clean_elems (B_Root b) @ [name @ ''-root.qcow2''] \<and>
    (\<forall>q nd. map_of (hs_nodes h) q = Some nd \<longrightarrow> map_of (hs_nodes h') q = Some nd)"
proof -
  let ?dest = "Join (B_Root b) (name @ ''-root.qcow2'')"
  from assms(1) obtain h1 h2 ok h3 where v: "validName b name = None"
    and src: "(if IsAbs source then regularFile source else returnG False) h = (Inr True, h1)"
    and mk: "os_MkdirAll (B_Root b) h1 = (Inr (), h2)" and ex: "regularFile ?dest h2 = (Inr ok, h3)"
    and rest: "(if ok then returnG ?dest else bindG (wrapG ''create root disk''
        (run_tool b (B_QemuImg b) [''convert'', ''-O'', ''qcow2'', source, ?dest])) (\<lambda>_. returnG ?dest)) h3 = (Inr dest, h')"
    by (auto simp: Builder_PrepareRootDisk_def bindG_eq_Inr Let_def split: if_split_asm)
  have n1: "hs_nodes h1 = hs_nodes h \<and> hs_fault h1 = hs_fault h"
    using src by (auto split: if_split_asm dest: regularFile_unchanged)
  have keep: "\<forall>q nd. map_of (hs_nodes h) q = Some nd \<longrightarrow> map_of (hs_nodes h2) q = Some nd"
    using os_MkdirAll_keeps(2) [OF mk] n1 by metis
  then have "keeps_shape (hs_nodes h) (hs_nodes h2)" by (simp add: keeps_shape_def)
  with assms(3) have "resolve (hs_nodes h2) ?dest = Inr p" unfolding resolve_def by (rule walk_keeps_shape [rotated])
  moreover have "\<forall>n q. hs_fault h2 n OsStat q = None" using os_MkdirAll_keeps(1) [OF mk] n1 assms(2) by simp
  ultimately have "fst (os_Stat ?dest h2) = Inr (RegularFile bs)"
    using keep assms(4,5) os_Stat_file by blast
  with ex have "ok" by (auto simp: regularFile_def catchG_eq)
  with rest have "dest = ?dest" "h' = h3" by simp_all
  moreover have "hs_nodes h3 = hs_nodes h2" using regularFile_unchanged [OF ex] by simp
  moreover have "plain_elem (name @ ''-root.qcow2'')" using validName_None [OF v] by (intro plain_elem_append) simp_all
  ultimately show ?thesis using keep validName_None [OF v] by (simp add: clean_elems_Join)
qed

definition disk_host :: "unit host" where
  "disk_host = \<lparr>hs_nodes = [([''a''], Directory), ([''a'', ''f''], RegularFile [1]), ([''a'', ''vm-root.qcow2''], RegularFile [9])],
     hs_fault = (\<lambda>_ _ _. None), hs_calls = 0, hs_random = (\<lambda>_. ''7''), hs_ext = ()\<rparr>"

definition sample_builder :: "unit builder" where
  "sample_builder = \<lparr>B_Root = ''/a'', B_QemuImg = ''qemu-img'', B_Mkdosfs = ''mkdosfs'', B_Mcopy = ''mcopy'',
     B_Run = Some (\<lambda>_ _. returnG [])\<rparr>"

lemma disk_host_prepared:
  "\<exists>h'. Builder_PrepareRootDisk sample_builder ''vm'' ''/a/f'' disk_host = (Inr ''/a/vm-root.qcow2'', h')"
proof -
  let ?ns = "hs_nodes disk_host"
  have "resolve ?ns ''/a/f'' = Inr [''a'', ''f'']" "node_at ?ns [''a'', ''f''] = Some (RegularFile [1])"
    "Join ''/a'' ''vm-root.qcow2'' = ''/a/vm-root.qcow2''" "within ''/a'' ''/a/vm-root.qcow2''"
    "resolve ?ns ''/a/vm-root.qcow2'' = Inr [''a'', ''vm-root.qcow2'']"
    "node_at ?ns [''a'', ''vm-root.qcow2''] = Some (RegularFile [9])"
    "mkdirs ''/a'' [] (clean_elems ''/a'') ?ns = (Inr (), ?ns)"
    by code_simp+
  moreover have "validName sample_builder ''vm'' = None"
    by (simp add: validName_def sample_builder_def IsAbs_def ContainsAny_def)
  moreover have "hs_fault disk_host = (\<lambda>_ _ _. None)" by (simp add: disk_host_def)
  ultimately show ?thesis
    by (simp add: Builder_PrepareRootDisk_def run_bind run_wrap regularFile_def catchG_def os_Stat_def os_MkdirAll_def sys_def
        at_resolved_def node_of_def Let_def IsAbs_def sample_builder_def)
qed

theorem PrepareRootDisk_keeps_existing_witness:
  "\<exists>h'. Builder_PrepareRootDisk sample_builder ''vm'' ''/a/f'' disk_host = (Inr ''/a/vm-root.qcow2'', h') \<and>
     map_of (hs_nodes h') [''a'', ''vm-root.qcow2''] = Some (RegularFile [9])"
proof -
  obtain h' where run: "Builder_PrepareRootDisk sample_builder ''vm'' ''/a/f'' disk_host = (Inr ''/a/vm-root.qcow2'', h')"
    using disk_host_prepared by blast
  have root: "B_Root sample_builder = ''/a''" by (simp add: sample_builder_def)
  have res: "resolve (hs_nodes disk_host) (Join ''/a'' (''vm'' @ ''-root.qcow2'')) = Inr [''a'', ''vm-root.qcow2'']"
    "map_of (hs_nodes disk_host) [''a'', ''vm-root.qcow2''] = Some (RegularFile [9])" by code_simp+
  have fault: "\<forall>n p. hs_fault disk_host n OsStat p = None" by (simp add: disk_host_def)
  from PrepareRootDisk_keeps_existing [OF run fault, unfolded root, OF res] res(2) run show ?thesis by blast
qed

end
