(* ===== verification/Mac.thy ===== *)
theory Mac
  imports Sha256
begin

text \<open>
  MAC addresses: \<open>Derive\<close> of \<open>internal/mac/mac.go\<close>, and the
  \<open>net.ParseMAC\<close> and \<open>HardwareAddr.String\<close> of the standard library its users
  validate addresses with.
\<close>

definition macFamilyPrefix :: string where
  "macFamilyPrefix = ''c6''"

definition colon_hex :: "byte list \<Rightarrow> string" where
  "colon_hex bs = join_with '':'' (map hex_byte bs)"

definition Derive :: "string \<Rightarrow> string \<Rightarrow> string" where
  "Derive clusterName machineName =
     (let sum = sha256 (string_bytes (clusterName @ ''/'' @ machineName))
      in macFamilyPrefix @ '':'' @ colon_hex (take 5 sum))"

section \<open>Parsing\<close>

definition hex_val :: "char \<Rightarrow> nat option" where
  "hex_val c = (let n = (of_char c :: nat) in
     if 48 \<le> n \<and> n \<le> 57 then Some (n - 48)
     else if 97 \<le> n \<and> n \<le> 102 then Some (n - 87)
     else if 65 \<le> n \<and> n \<le> 70 then Some (n - 55) else None)"

text \<open>Two hexadecimal digits, then the end of the text or the separator \<open>e\<close>.\<close>

definition xtoi2 :: "string \<Rightarrow> char option \<Rightarrow> byte option" where
  "xtoi2 s e =
     (if length s > 2 \<and> Some (s ! 2) \<noteq> e then None
      else case s of
        a # b # _ \<Rightarrow> (case (hex_val a, hex_val b) of (Some x, Some y) \<Rightarrow> Some (of_nat (16 * x + y)) | _ \<Rightarrow> None)
      | _ \<Rightarrow> None)"

fun parse_octets :: "nat \<Rightarrow> char \<Rightarrow> string \<Rightarrow> byte list option" where
  "parse_octets 0 sep s = Some []"
| "parse_octets (Suc n) sep s =
     (case xtoi2 s (Some sep) of None \<Rightarrow> None
      | Some b \<Rightarrow> map_option ((#) b) (parse_octets n sep (drop 3 s)))"

fun parse_dotted :: "nat \<Rightarrow> string \<Rightarrow> byte list option" where
  "parse_dotted 0 s = Some []"
| "parse_dotted (Suc n) s =
     (case (xtoi2 (take 2 s) None, xtoi2 (drop 2 s) (Some (CHR ''.''))) of
        (Some a, Some b) \<Rightarrow> map_option (\<lambda>bs. a # b # bs) (parse_dotted n (drop 5 s))
      | _ \<Rightarrow> None)"

definition ParseMAC :: "string \<Rightarrow> byte list option" where
  "ParseMAC s =
     (if length s < 14 then None
      else if s ! 2 = CHR '':'' \<or> s ! 2 = CHR ''-'' then
        (if (length s + 1) mod 3 \<noteq> 0 then None
         else let n = (length s + 1) div 3
              in if n \<noteq> 6 \<and> n \<noteq> 8 \<and> n \<noteq> 20 then None else parse_octets n (s ! 2) s)
      else if s ! 4 = CHR ''.'' then
        (if (length s + 1) mod 5 \<noteq> 0 then None
         else let n = 2 * (length s + 1) div 5
              in if n \<noteq> 6 \<and> n \<noteq> 8 \<and> n \<noteq> 20 then None else parse_dotted (n div 2) s)
      else None)"

section \<open>Printing and parsing agree\<close>

lemma hex_val_hex_char [simp]: "d < 16 \<Longrightarrow> hex_val (hex_char d) = Some d"
  by (auto simp: hex_val_def hex_char_def Let_def)

lemma hex_byte_digits: "unat b div 16 < 16" "unat b mod 16 < 16" "of_nat (16 * (unat b div 16) + unat b mod 16) = (b :: byte)"
proof -
  have "unat b < 2 ^ LENGTH(8)" by (rule unsigned_less)
  then show "unat b div 16 < 16" by simp
  show "of_nat (16 * (unat b div 16) + unat b mod 16) = b" by simp
qed simp

lemma xtoi2_hex_byte: "s = [] \<or> Some (hd s) = e \<Longrightarrow> xtoi2 (hex_byte b @ s) e = Some b"
  using hex_byte_digits [of b] by (cases s) (auto simp: xtoi2_def hex_byte_def)

lemma hex_byte_inject: "hex_byte a = hex_byte b \<longleftrightarrow> a = b"
  by (metis append_Nil2 option.inject xtoi2_hex_byte)

lemma length_colon_hex: "length (colon_hex bs) = 3 * length bs - 1"
proof (induction bs)
  case (Cons b bs)
  then show ?case by (cases bs) (auto simp: colon_hex_def hex_byte_def)
qed (simp add: colon_hex_def)

lemma parse_octets_colon_hex: "parse_octets (length bs) (CHR '':'') (colon_hex bs) = Some bs"
proof (induction bs)
  case (Cons b bs)
  show ?case
  proof (cases bs)
    case Nil
    then show ?thesis using xtoi2_hex_byte [of "[]" "Some (CHR '':'')" b] by (simp add: colon_hex_def)
  next
    case (Cons c cs)
    have "colon_hex (b # bs) = hex_byte b @ CHR '':'' # colon_hex bs" using Cons by (simp add: colon_hex_def)
    moreover have "length (hex_byte b) = 2" by (simp add: hex_byte_def)
    ultimately show ?thesis
      using Cons.IH xtoi2_hex_byte [of "CHR '':'' # colon_hex bs" "Some (CHR '':'')" b] by simp
  qed
qed simp

lemma ParseMAC_colon_hex:
  assumes "length bs = 6"
  shows "ParseMAC (colon_hex bs) = Some bs"
proof -
  obtain b c cs where bs: "bs = b # c # cs" using assms by (cases bs; cases "tl bs") auto
  have "colon_hex bs ! 2 = CHR '':''" by (simp add: bs colon_hex_def hex_byte_def)
  with assms parse_octets_colon_hex [of bs] length_colon_hex [of bs] show ?thesis by (simp add: ParseMAC_def)
qed

lemma hex_byte_c6: "hex_byte 0xc6 = ''c6''"
  by code_simp

lemma Derive_colon_hex: "Derive c m = colon_hex (0xc6 # take 5 (sha256 (string_bytes (c @ ''/'' @ m))))"
proof -
  obtain b bs where "take 5 (sha256 (string_bytes (c @ ''/'' @ m))) = b # bs"
    by (cases "take 5 (sha256 (string_bytes (c @ ''/'' @ m)))") (auto dest: arg_cong [of _ _ length])
  then show ?thesis by (simp add: Derive_def Let_def macFamilyPrefix_def colon_hex_def hex_byte_c6)
qed

text \<open>
  A derived address is a well-formed unicast, locally administered MAC address. It parses to
  six octets and prints back unchanged; the first octet has the group bit clear and the local
  bit set, and the others are the first five digest bytes, so two machines get the same address
  exactly when these 40 bits of their digests agree.
\<close>

theorem Derive_well_formed:
  "\<exists>bs. ParseMAC (Derive c m) = Some bs \<and> length bs = 6 \<and> colon_hex bs = Derive c m \<and>
     \<not> bit (hd bs) 0 \<and> bit (hd bs) 1 \<and>
     (Derive c m = Derive c' m' \<longleftrightarrow>
        take 5 (sha256 (string_bytes (c @ ''/'' @ m))) = take 5 (sha256 (string_bytes (c' @ ''/'' @ m'))))"
proof -
  let ?bs = "\<lambda>c m. 0xc6 # take 5 (sha256 (string_bytes (c @ ''/'' @ m)))"
  have parse: "ParseMAC (Derive c m) = Some (?bs c m)" for c m
    unfolding Derive_colon_hex by (rule ParseMAC_colon_hex) simp
  have "Derive c m = Derive c' m' \<longleftrightarrow> ?bs c m = ?bs c' m'"
    using parse Derive_colon_hex by (metis option.inject)
  moreover have "\<not> bit (0xc6 :: byte) 0" "bit (0xc6 :: byte) 1" by code_simp+
  ultimately show ?thesis
    using parse [of c m] by (intro exI [of _ "?bs c m"]) (simp add: Derive_colon_hex)
qed

end
