(* ===== verification/ChClient.thy ===== *)
theory ChClient
  imports Host Json Mac
begin

text \<open>
  The Cloud Hypervisor side: the REST client (\<open>internal/ch/client.go\<close>), the parser of
  net device strings (\<open>internal/ch/netconfig.go\<close>), and the controller's VM client with
  its net string renderer (\<open>internal/chclient\<close>). The HTTP transport over the unix socket
  and the reading of the \<open>vm.info\<close> document are parameters; the process manager
  \<open>ch.Manager\<close> is used through its three calls.
\<close>

section \<open>Configuration (client.go)\<close>

record disk_config =
  Disk_Path :: string
  Disk_Readonly :: bool
  Disk_ImageType :: string

definition NewDiskConfig :: "string \<Rightarrow> bool \<Rightarrow> disk_config" where
  "NewDiskConfig path readonly = \<lparr>Disk_Path = path, Disk_Readonly = readonly,
     Disk_ImageType = (if HasSuffix (ToLower path) ''.qcow2'' then ''Qcow2'' else ''Raw'')\<rparr>"

record net_config =
  Net_VhostUser :: bool
  Net_VhostSocket :: string
  Net_MAC :: string
  Net_NumQueues :: int

record cpus_config =
  Cpus_Boot :: int
  Cpus_Max :: int

record memory_config =
  Mem_Size :: int
  Mem_Shared :: bool

record vm_config =
  Vm_Firmware :: "string option"
  Vm_Cpus :: "cpus_config option"
  Vm_Memory :: "memory_config option"
  Vm_Disks :: "disk_config list"
  Vm_Net :: "net_config list"

definition DefaultMemorySize :: int where
  "DefaultMemorySize = 512 * 1024 * 1024"

text \<open>The JSON form, with the \<open>omitempty\<close> fields left out when empty.\<close>

definition disk_json :: "disk_config \<Rightarrow> json" where
  "disk_json d = JObject ([(''path'', JString (Disk_Path d))] @
     (if Disk_Readonly d then [(''readonly'', JBool True)] else []) @
     [(''image_type'', JString (Disk_ImageType d))])"

definition net_json :: "net_config \<Rightarrow> json" where
  "net_json n = JObject ([(''vhost_user'', JBool (Net_VhostUser n))] @
     (if Net_VhostSocket n \<noteq> [] then [(''vhost_socket'', JString (Net_VhostSocket n))] else []) @
     (if Net_MAC n \<noteq> [] then [(''mac'', JString (Net_MAC n))] else []) @
     [(''num_queues'', JInt (Net_NumQueues n))])"

definition config_json :: "vm_config \<Rightarrow> json" where
  "config_json c = JObject (
     (case Vm_Firmware c of None \<Rightarrow> []
      | Some f \<Rightarrow> [(''payload'', JObject (if f \<noteq> [] then [(''firmware'', JString f)] else []))]) @
     (case Vm_Cpus c of None \<Rightarrow> []
      | Some u \<Rightarrow> [(''cpus'', JObject [(''boot_vcpus'', JInt (Cpus_Boot u)), (''max_vcpus'', JInt (Cpus_Max u))])]) @
     (case Vm_Memory c of None \<Rightarrow> []
      | Some m \<Rightarrow> [(''memory'', JObject [(''size'', JInt (Mem_Size m)), (''shared'', JBool (Mem_Shared m))])]) @
     (if Vm_Disks c \<noteq> [] then [(''disks'', JArray (map disk_json (Vm_Disks c)))] else []) @
     (if Vm_Net c \<noteq> [] then [(''net'', JArray (map net_json (Vm_Net c)))] else []))"

section \<open>The REST client (client.go)\<close>

record http_request =
  Req_Method :: string
  Req_Path :: string
  Req_JSON :: bool
  Req_Body :: string

record http_response =
  Resp_Status :: int
  Resp_Body :: string
  Resp_ReadError :: "goerr option"

record 'x http =
  http_Do :: "string \<Rightarrow> http_request \<Rightarrow> ('x host, http_response) go"
  http_decode_info :: "string \<Rightarrow> goerr + string"

definition statusErrorBodyLimit :: nat where
  "statusErrorBodyLimit = 4 * 1024"

definition api_do :: "'x http \<Rightarrow> string \<Rightarrow> string \<Rightarrow> string \<Rightarrow> string option \<Rightarrow> ('x host, string) go" where
  "api_do t sock method path body =
     bindG (http_Do t sock \<lparr>Req_Method = method, Req_Path = path, Req_JSON = (body \<noteq> None),
              Req_Body = (case body of None \<Rightarrow> [] | Some b \<Rightarrow> b)\<rparr>) (\<lambda>resp.
     if Resp_Status resp < 200 \<or> Resp_Status resp > 299
     then failG (sentinel_err (StatusError (Resp_Status resp) (take statusErrorBodyLimit (Resp_Body resp))))
     else case Resp_ReadError resp of Some e \<Rightarrow> failG e | None \<Rightarrow> returnG (Resp_Body resp))"

definition api_Boot :: "'x http \<Rightarrow> string \<Rightarrow> ('x host, unit) go" where
  "api_Boot t sock = bindG (api_do t sock ''PUT'' ''/api/v1/vm.boot'' None) (\<lambda>_. returnG ())"

definition api_Shutdown :: "'x http \<Rightarrow> string \<Rightarrow> ('x host, unit) go" where
  "api_Shutdown t sock = bindG (api_do t sock ''PUT'' ''/api/v1/vm.shutdown'' None) (\<lambda>_. returnG ())"

definition api_Delete :: "'x http \<Rightarrow> string \<Rightarrow> ('x host, unit) go" where
  "api_Delete t sock = bindG (api_do t sock ''PUT'' ''/api/v1/vm.delete'' None) (\<lambda>_. returnG ())"

definition api_Create :: "'x http \<Rightarrow> string \<Rightarrow> vm_config \<Rightarrow> ('x host, unit) go" where
  "api_Create t sock cfg =
     bindG (api_do t sock ''PUT'' ''/api/v1/vm.create'' (Some (Marshal (config_json cfg)))) (\<lambda>_. returnG ())"

definition api_Info :: "'x http \<Rightarrow> string \<Rightarrow> ('x host, string) go" where
  "api_Info t sock =
     bindG (api_do t sock ''GET'' ''/api/v1/vm.info'' None) (\<lambda>body. liftG (http_decode_info t body))"

section \<open>Net device strings (netconfig.go, vhostuser.go)\<close>

text \<open>\<open>strings.Split\<close> and \<open>strings.Cut\<close> at a one-byte separator.\<close>

fun split_on :: "char \<Rightarrow> string \<Rightarrow> string list" where
  "split_on sep [] = [[]]"
| "split_on sep (c # s) =
     (if c = sep then [] # split_on sep s
      else case split_on sep s of [] \<Rightarrow> [[c]] | x # xs \<Rightarrow> (c # x) # xs)"

definition Cut :: "char \<Rightarrow> string \<Rightarrow> (string \<times> string) option" where
  "Cut sep s = (if sep \<in> set s then Some (takeWhile (\<lambda>c. c \<noteq> sep) s, tl (dropWhile (\<lambda>c. c \<noteq> sep) s)) else None)"

definition ParseBool :: "string \<Rightarrow> bool option" where
  "ParseBool s =
     (if s \<in> {''1'', ''t'', ''T'', ''true'', ''TRUE'', ''True''} then Some True
      else if s \<in> {''0'', ''f'', ''F'', ''false'', ''FALSE'', ''False''} then Some False
      else None)"

text \<open>\<open>strconv.Atoi\<close> on a 64-bit \<open>int\<close>.\<close>

definition Atoi :: "string \<Rightarrow> string + int" where
  "Atoi s =
     (case s of
        [] \<Rightarrow> Inl ''invalid syntax''
      | c # cs \<Rightarrow>
          (case parse_nat (if c = CHR ''+'' \<or> c = CHR ''-'' then cs else s) of
             None \<Rightarrow> Inl ''invalid syntax''
           | Some n \<Rightarrow>
               let i = (if c = CHR ''-'' then - int n else int n)
               in if - (2 ^ 63) \<le> i \<and> i < 2 ^ 63 then Inr i else Inl ''value out of range''))"

definition minNetQueues :: int where
  "minNetQueues = 2"

definition zero_net_config :: net_config where
  "zero_net_config = \<lparr>Net_VhostUser = False, Net_VhostSocket = [], Net_MAC = [], Net_NumQueues = 0\<rparr>"

definition net_err :: "string \<Rightarrow> string \<Rightarrow> goerr" where
  "net_err cfg detail = plain_err (''parse net config '' @ Quote cfg @ '': '' @ detail)"

definition parse_net_field :: "string \<Rightarrow> net_config \<Rightarrow> string \<Rightarrow> goerr + net_config" where
  "parse_net_field netConfig cfg field =
     (case Cut (CHR ''='') field of
        None \<Rightarrow> Inl (net_err netConfig (''field '' @ Quote field @ '' has no key=value separator''))
      | Some (key, v) \<Rightarrow>
          if key = ''vhost_user'' then
            (case ParseBool v of
               None \<Rightarrow> Inl (net_err netConfig (''invalid vhost_user '' @ Quote v @ '': strconv.ParseBool: parsing '' @ Quote v @ '': invalid syntax''))
             | Some b \<Rightarrow> Inr (cfg\<lparr>Net_VhostUser := b\<rparr>))
          else if key = ''socket'' then Inr (cfg\<lparr>Net_VhostSocket := v\<rparr>)
          else if key = ''mac'' then Inr (cfg\<lparr>Net_MAC := v\<rparr>)
          else if key = ''num_queues'' then
            (case Atoi v of
               Inl reason \<Rightarrow> Inl (net_err netConfig (''invalid num_queues '' @ Quote v @ '': strconv.Atoi: parsing '' @ Quote v @ '': '' @ reason))
             | Inr n \<Rightarrow> Inr (cfg\<lparr>Net_NumQueues := (if n < minNetQueues then minNetQueues else n)\<rparr>))
          else Inl (net_err netConfig (''unknown key '' @ Quote key)))"

fun parse_net_fields :: "string \<Rightarrow> net_config \<Rightarrow> string list \<Rightarrow> goerr + net_config" where
  "parse_net_fields netConfig cfg [] = Inr cfg"
| "parse_net_fields netConfig cfg (f # fs) =
     (case parse_net_field netConfig cfg f of Inl e \<Rightarrow> Inl e | Inr cfg' \<Rightarrow> parse_net_fields netConfig cfg' fs)"

definition ParseNetConfig :: "string \<Rightarrow> goerr + net_config" where
  "ParseNetConfig netConfig =
     (case parse_net_fields netConfig zero_net_config (split_on (CHR '','') netConfig) of
        Inl e \<Rightarrow> Inl e
      | Inr cfg \<Rightarrow> Inr (if Net_NumQueues cfg = 0 then cfg\<lparr>Net_NumQueues := minNetQueues\<rparr> else cfg))"

definition k8netdSocketBase :: string where
  "k8netdSocketBase = ''/run/user/1000/k8snet''"

text \<open>\<open>filepath.Base\<close> strips the directories, so the result stays under the base directory.\<close>

definition VhostUserSocketPath :: "string \<Rightarrow> string" where
  "VhostUserSocketPath portName =
     (if portName = [] then k8netdSocketBase @ ''/.sock''
      else
        let safe = Base portName;
            safe' = (if safe = ''.'' \<or> safe = ''/'' \<or> safe = [] then
                       (let r = replace_char slash ''_'' portName in if r = [] then ''port'' else r)
                     else safe)
        in k8netdSocketBase @ ''/'' @ safe' @ ''.sock'')"

definition VhostUserNetConfig :: "string \<Rightarrow> string \<Rightarrow> goerr + string" where
  "VhostUserNetConfig socketPath mac =
     (if TrimSpace socketPath = [] then Inl (plain_err ''chclient: socket path must not be empty'')
      else if TrimSpace mac = [] then Inl (plain_err ''chclient: mac must not be empty'')
      else case ParseMAC mac of
        None \<Rightarrow> Inl (plain_err (''chclient: invalid mac '' @ Quote mac @ '': address '' @ mac @ '': invalid MAC address''))
      | Some parsed \<Rightarrow>
          if length parsed \<noteq> 6
          then Inl (plain_err (''chclient: invalid mac '' @ Quote mac @ '': want 6 octets, got '' @ show_nat (length parsed)))
          else if \<not> HasPrefix socketPath (k8netdSocketBase @ ''/'') \<and> socketPath \<noteq> k8netdSocketBase @ ''/.sock''
          then Inl (plain_err (''chclient: socket path '' @ Quote socketPath @ '' must be under '' @ k8netdSocketBase))
          else Inr (''vhost_user=true,socket='' @ socketPath @ '',mac='' @ ToLower (colon_hex parsed) @ '',num_queues=2''))"

section \<open>The controller's VM client (chclient.go)\<close>

text \<open>The process manager through its calls: start, wait for the socket, stop.\<close>

record 'x manager =
  Man_Start :: "('x host, unit) go"
  Man_WaitReady :: "('x host, unit) go"
  Man_Stop :: "('x host, unit) go"

record 'x vm_client =
  VC_Manager :: "'x manager"
  VC_Socket :: string
  VC_NetConfig :: string
  VC_Firmware :: string
  VC_DiskPaths :: "string list"
  VC_CPU :: int32
  VC_RamMiB :: int32

definition NewVMClient :: "(string \<Rightarrow> string \<Rightarrow> 'x manager) \<Rightarrow> string \<Rightarrow> string \<Rightarrow> 'x vm_client" where
  "NewVMClient newManager socketDir binaryPath =
     \<lparr>VC_Manager = newManager socketDir binaryPath, VC_Socket = Join socketDir ''api.sock'',
      VC_NetConfig = [], VC_Firmware = [], VC_DiskPaths = [], VC_CPU = 0, VC_RamMiB = 0\<rparr>"

definition SetNetConfig :: "string \<Rightarrow> 'x vm_client \<Rightarrow> 'x vm_client" where
  "SetNetConfig v c = c\<lparr>VC_NetConfig := v\<rparr>"

definition SetFirmware :: "string \<Rightarrow> 'x vm_client \<Rightarrow> 'x vm_client" where
  "SetFirmware v c = c\<lparr>VC_Firmware := v\<rparr>"

definition SetDiskPaths :: "string list \<Rightarrow> 'x vm_client \<Rightarrow> 'x vm_client" where
  "SetDiskPaths v c = c\<lparr>VC_DiskPaths := v\<rparr>"

definition SetCPU :: "int32 \<Rightarrow> 'x vm_client \<Rightarrow> 'x vm_client" where
  "SetCPU v c = c\<lparr>VC_CPU := v\<rparr>"

definition SetRAM :: "int32 \<Rightarrow> 'x vm_client \<Rightarrow> 'x vm_client" where
  "SetRAM v c = c\<lparr>VC_RamMiB := v\<rparr>"

definition isCIDATADisk :: "string \<Rightarrow> bool" where
  "isCIDATADisk path = HasSuffix path ''-cidata.img''"

definition isVMAbsent :: "goerr \<Rightarrow> bool" where
  "isVMAbsent e =
     (case err_kind e of
        StatusError code body \<Rightarrow> code = 404 \<or> code = 500 \<and> Contains (ToLower body) ''vm is not created''
      | _ \<Rightarrow> False)"

definition pushConfig :: "'x http \<Rightarrow> 'x vm_client \<Rightarrow> ('x host, unit) go" where
  "pushConfig t c =
     (if VC_Firmware c = [] then failG (plain_err ''push vm config: no firmware configured (SetFirmware)'')
      else
        let cfg = \<lparr>Vm_Firmware = Some (VC_Firmware c),
              Vm_Cpus = (if sint (VC_CPU c) > 0 then Some \<lparr>Cpus_Boot = sint (VC_CPU c), Cpus_Max = sint (VC_CPU c)\<rparr> else None),
              Vm_Memory = None,
              Vm_Disks = map (\<lambda>p. NewDiskConfig p (isCIDATADisk p)) (VC_DiskPaths c), Vm_Net = []\<rparr>
        in bindG
          (if VC_NetConfig c \<noteq> [] then
             bindG (wrapG ''push vm config'' (liftG (ParseNetConfig (VC_NetConfig c)))) (\<lambda>net.
             returnG (cfg\<lparr>Vm_Net := [net],
               Vm_Memory := Some \<lparr>Mem_Size = (if sint (VC_RamMiB c) > 0 then sint (VC_RamMiB c) * 1024 * 1024 else DefaultMemorySize),
                 Mem_Shared = True\<rparr>\<rparr>))
           else returnG cfg) (\<lambda>cfg.
          wrapG ''push vm config'' (api_Create t (VC_Socket c) cfg)))"

definition ensureBooted :: "'x http \<Rightarrow> 'x vm_client \<Rightarrow> ('x host, unit) go" where
  "ensureBooted t c = catchG (api_Info t (VC_Socket c)) (\<lambda>r.
     case r of
       Inr state \<Rightarrow> if state = ''Running'' then returnG () else api_Boot t (VC_Socket c)
     | Inl e \<Rightarrow>
         if \<not> isVMAbsent e then failG e
         else bindG (pushConfig t c) (\<lambda>_. api_Boot t (VC_Socket c)))"

definition EnsureRunning :: "'x http \<Rightarrow> 'x vm_client \<Rightarrow> ('x host, unit) go" where
  "EnsureRunning t c =
     bindG (Man_Start (VC_Manager c)) (\<lambda>_.
     bindG (Man_WaitReady (VC_Manager c)) (\<lambda>_. ensureBooted t c))"

definition vm_not_found :: goerr where
  "vm_not_found = sentinel_err VmNotFound"

definition VMClient_Shutdown :: "'x http \<Rightarrow> 'x vm_client \<Rightarrow> ('x host, unit) go" where
  "VMClient_Shutdown t c = catchG (os_Stat (VC_Socket c)) (\<lambda>r.
     case r of
       Inl e \<Rightarrow> if errors_Is e OsErrNotExist then failG vm_not_found else api_Shutdown t (VC_Socket c)
     | Inr _ \<Rightarrow> api_Shutdown t (VC_Socket c))"

definition VMClient_Stop :: "'x vm_client \<Rightarrow> ('x host, unit) go" where
  "VMClient_Stop c = Man_Stop (VC_Manager c)"

definition VMClient_Info :: "'x http \<Rightarrow> 'x vm_client \<Rightarrow> ('x host, string) go" where
  "VMClient_Info t c = catchG (os_Stat (VC_Socket c)) (\<lambda>r.
     case r of
       Inl e \<Rightarrow> if errors_Is e OsErrNotExist then failG vm_not_found else api_Info t (VC_Socket c)
     | Inr _ \<Rightarrow> api_Info t (VC_Socket c))"

section \<open>Net strings round trip\<close>

lemma split_on_append: "sep \<notin> set x \<Longrightarrow> split_on sep (x @ sep # s) = x # split_on sep s"
  by (induction x) auto

lemma split_on_id: "sep \<notin> set x \<Longrightarrow> split_on sep x = [x]"
  by (induction x) auto

lemma Cut_append: "sep \<notin> set k \<Longrightarrow> Cut sep (k @ sep # v) = Some (k, v)"
  by (induction k) (auto simp: Cut_def)

lemma colon_hex_chars: "set (colon_hex bs) \<subseteq> insert (CHR '':'') (hex_char ` {0..<16})"
proof -
  have "set (hex_byte b) \<subseteq> hex_char ` {0..<16}" for b
    using hex_byte_digits(1,2) [of b] by (auto simp: hex_byte_def)
  moreover have "set (join_with sep xs) \<subseteq> set sep \<union> (\<Union>x\<in>set xs. set x)" for sep xs
    by (induction sep xs rule: join_with.induct) auto
  ultimately show ?thesis unfolding colon_hex_def by fastforce
qed

lemma hex_char_lower: "d < 16 \<Longrightarrow> lower_char (hex_char d) = hex_char d \<and> hex_char d \<noteq> CHR '',''"
  by (auto simp: hex_char_def lower_char_def dest: arg_cong [of _ _ "of_char :: char \<Rightarrow> nat"])

lemma colon_hex_lower: "ToLower (colon_hex bs) = colon_hex bs" and colon_hex_comma: "CHR '','' \<notin> set (colon_hex bs)"
proof -
  have ok: "lower_char c = c \<and> c \<noteq> CHR '',''" if "c \<in> set (colon_hex bs)" for c
  proof -
    from colon_hex_chars [of bs] that consider "c = CHR '':''" | d where "d < 16" "c = hex_char d" by auto
    then show ?thesis using hex_char_lower by cases (simp_all add: lower_char_def)
  qed
  then show "ToLower (colon_hex bs) = colon_hex bs" by (simp add: ToLower_def map_idI)
  from ok show "CHR '','' \<notin> set (colon_hex bs)" by blast
qed

lemma ParseNetConfig_rendered:
  assumes "CHR '','' \<notin> set s" and "CHR '','' \<notin> set m"
  shows "ParseNetConfig (''vhost_user=true,socket='' @ s @ '',mac='' @ m @ '',num_queues=2'') =
    Inr \<lparr>Net_VhostUser = True, Net_VhostSocket = s, Net_MAC = m, Net_NumQueues = 2\<rparr>"
proof -
  let ?cfg = "''vhost_user=true,socket='' @ s @ '',mac='' @ m @ '',num_queues=2''"
  have "?cfg = ''vhost_user=true'' @ CHR '','' # (''socket='' @ s) @ CHR '','' # (''mac='' @ m) @ CHR '','' # ''num_queues=2''"
    by simp
  then have "split_on (CHR '','') ?cfg = [''vhost_user=true'', ''socket='' @ s, ''mac='' @ m, ''num_queues=2'']"
    using assms by (simp only: split_on_append split_on_id) (simp add: split_on_append split_on_id)
  moreover have "parse_net_field ?cfg c ''vhost_user=true'' = Inr (c\<lparr>Net_VhostUser := True\<rparr>)" for c
    using Cut_append [of "CHR ''=''" "''vhost_user''" "''true''"] by (simp add: parse_net_field_def ParseBool_def)
  moreover have "parse_net_field ?cfg c (''socket='' @ s) = Inr (c\<lparr>Net_VhostSocket := s\<rparr>)" for c
    using Cut_append [of "CHR ''=''" "''socket''" s] by (simp add: parse_net_field_def)
  moreover have "parse_net_field ?cfg c (''mac='' @ m) = Inr (c\<lparr>Net_MAC := m\<rparr>)" for c
    using Cut_append [of "CHR ''=''" "''mac''" m] by (simp add: parse_net_field_def)
  moreover have "Atoi ''2'' = Inr 2" by code_simp
  then have "parse_net_field ?cfg c ''num_queues=2'' = Inr (c\<lparr>Net_NumQueues := 2\<rparr>)" for c
    using Cut_append [of "CHR ''=''" "''num_queues''" "''2''"] by (simp add: parse_net_field_def minNetQueues_def)
  ultimately show ?thesis by (simp add: ParseNetConfig_def zero_net_config_def)
qed

lemma VhostUserNetConfig_Inr:
  assumes "VhostUserNetConfig s m = Inr cfg"
  obtains bs where "ParseMAC m = Some bs" "length bs = 6"
    "cfg = ''vhost_user=true,socket='' @ s @ '',mac='' @ colon_hex bs @ '',num_queues=2''"
  using assms by (auto simp: VhostUserNetConfig_def colon_hex_lower split: if_splits option.splits)

text \<open>
  What the controller renders is what Cloud Hypervisor is told. Parsing the net string
  \<open>VhostUserNetConfig\<close> renders for a socket path without a comma gives a vhost-user
  device with exactly that socket, the same six octets of MAC address, and two queues.
\<close>

theorem NetConfig_round_trip:
  assumes "VhostUserNetConfig s m = Inr cfg" and "CHR '','' \<notin> set s"
  shows "\<exists>mac. ParseNetConfig cfg = Inr \<lparr>Net_VhostUser = True, Net_VhostSocket = s, Net_MAC = mac, Net_NumQueues = 2\<rparr> \<and>
    ParseMAC mac = ParseMAC m"
proof -
  from assms(1) obtain bs where bs: "ParseMAC m = Some bs" "length bs = 6"
    "cfg = ''vhost_user=true,socket='' @ s @ '',mac='' @ colon_hex bs @ '',num_queues=2''"
    by (rule VhostUserNetConfig_Inr)
  with ParseNetConfig_rendered [OF assms(2) colon_hex_comma [of bs]] ParseMAC_colon_hex [OF bs(2)] show ?thesis by auto
qed

theorem NetConfig_round_trip_witness:
  "\<exists>cfg. VhostUserNetConfig ''/run/user/1000/k8snet/a.sock'' ''C6-E5-50-1C-EC-AB'' = Inr cfg \<and>
     (\<exists>mac. ParseNetConfig cfg = Inr \<lparr>Net_VhostUser = True, Net_VhostSocket = ''/run/user/1000/k8snet/a.sock'',
        Net_MAC = mac, Net_NumQueues = 2\<rparr>)"
proof -
  have "VhostUserNetConfig ''/run/user/1000/k8snet/a.sock'' ''C6-E5-50-1C-EC-AB'' =
     Inr ''vhost_user=true,socket=/run/user/1000/k8snet/a.sock,mac=c6:e5:50:1c:ec:ab,num_queues=2''" by code_simp
  with NetConfig_round_trip [OF this] show ?thesis by auto
qed

lemma parse_net_field_queues:
  assumes "parse_net_field n cfg f = Inr cfg'" and "Net_NumQueues cfg = 0 \<or> minNetQueues \<le> Net_NumQueues cfg"
  shows "Net_NumQueues cfg' = 0 \<or> minNetQueues \<le> Net_NumQueues cfg'"
  using assms by (auto simp: parse_net_field_def split: option.splits sum.splits if_splits prod.splits)

lemma parse_net_fields_queues:
  assumes "parse_net_fields n cfg fs = Inr cfg'" and "Net_NumQueues cfg = 0 \<or> minNetQueues \<le> Net_NumQueues cfg"
  shows "Net_NumQueues cfg' = 0 \<or> minNetQueues \<le> Net_NumQueues cfg'"
  using assms
proof (induction fs arbitrary: cfg)
  case (Cons f fs)
  then show ?case using parse_net_field_queues by (auto split: sum.splits)
qed simp

text \<open>
  Every accepted net string yields at least the two queues Cloud Hypervisor insists on,
  whatever count the string gives, a negative one included, and however often it is given.
\<close>

theorem ParseNetConfig_min_queues:
  assumes "ParseNetConfig netConfig = Inr cfg"
  shows "2 \<le> Net_NumQueues cfg"
proof -
  from assms obtain cfg0 where c: "parse_net_fields netConfig zero_net_config (split_on (CHR '','') netConfig) = Inr cfg0"
    "cfg = (if Net_NumQueues cfg0 = 0 then cfg0\<lparr>Net_NumQueues := minNetQueues\<rparr> else cfg0)"
    by (auto simp: ParseNetConfig_def split: sum.splits)
  have "Net_NumQueues cfg0 = 0 \<or> minNetQueues \<le> Net_NumQueues cfg0"
    by (rule parse_net_fields_queues [OF c(1)]) (simp add: zero_net_config_def)
  with c(2) show ?thesis by (auto simp: minNetQueues_def)
qed

theorem ParseNetConfig_min_queues_witness:
  "\<exists>cfg. ParseNetConfig ''num_queues=1,mac=x'' = Inr cfg \<and> 2 \<le> Net_NumQueues cfg"
proof -
  have "ParseNetConfig ''num_queues=1,mac=x'' =
    Inr \<lparr>Net_VhostUser = False, Net_VhostSocket = [], Net_MAC = ''x'', Net_NumQueues = 2\<rparr>" by code_simp
  from ParseNetConfig_min_queues [OF this] this show ?thesis by blast
qed

section \<open>Sockets stay under the k8netd directory\<close>

lemma Base_no_slash: "Base p = [slash] \<or> slash \<notin> set (Base p)"
  by (auto simp: Base_def Let_def dest: set_takeWhileD)

text \<open>
  No port name escapes the socket directory. For every name, with \<open>..\<close>, slashes or
  nothing in it, the socket path is the fixed base directory followed by one ordinary file name.
\<close>

theorem VhostUserSocketPath_contained:
  "\<exists>x. VhostUserSocketPath p = k8netdSocketBase @ ''/'' @ x \<and> plain_elem x \<and> within k8netdSocketBase (VhostUserSocketPath p)"
proof -
  have "\<exists>y. VhostUserSocketPath p = k8netdSocketBase @ ''/'' @ y @ ''.sock'' \<and> slash \<notin> set y"
  proof (cases "p = []")
    case True
    then show ?thesis by (auto simp: VhostUserSocketPath_def)
  next
    case False
    have "slash \<notin> set (replace_char slash ''_'' p)" by (induction p) auto
    with False Base_no_slash [of p] show ?thesis
      by (auto simp: VhostUserSocketPath_def Let_def)
  qed
  then obtain y where y: "VhostUserSocketPath p = k8netdSocketBase @ ''/'' @ y @ ''.sock''" "slash \<notin> set y" by blast
  have plain: "plain_elem (y @ ''.sock'')" using y(2) by (intro plain_elem_append) simp_all
  have base: "IsAbs k8netdSocketBase" "k8netdSocketBase \<noteq> []" by (simp_all add: k8netdSocketBase_def IsAbs_def)
  have abs: "IsAbs (VhostUserSocketPath p)" using base y(1) by (simp add: IsAbs_def)
  have "clean_elems (VhostUserSocketPath p) = clean_elems (Join k8netdSocketBase (y @ ''.sock''))"
    using abs base y(1) by (simp add: Join_def clean_elems_Clean)
  then have "within k8netdSocketBase (VhostUserSocketPath p)"
    using abs base plain by (simp add: within_prefix clean_elems_Join)
  with y plain show ?thesis by auto
qed

section \<open>The configuration that is pushed\<close>

text \<open>
  The pushed VM is the one configured. With a firmware and a net string rendered for a
  comma-free socket, \<open>pushConfig\<close> is exactly one \<open>vm.create\<close> with one
  vhost-user device on that socket, shared memory of the requested size in bytes (positive and
  within \<open>int64\<close>), the disks in order, and only the CIDATA image read-only.
\<close>

theorem pushConfig_vhost:
  assumes "VhostUserNetConfig s m = Inr (VC_NetConfig c)" and "CHR '','' \<notin> set s" and "VC_Firmware c \<noteq> []"
  shows "\<exists>cfg size mac. pushConfig t c = wrapG ''push vm config'' (api_Create t (VC_Socket c) cfg) \<and>
    Vm_Firmware cfg = Some (VC_Firmware c) \<and>
    Vm_Net cfg = [\<lparr>Net_VhostUser = True, Net_VhostSocket = s, Net_MAC = mac, Net_NumQueues = 2\<rparr>] \<and>
    Vm_Memory cfg = Some \<lparr>Mem_Size = size, Mem_Shared = True\<rparr> \<and> 0 < size \<and> size < 2 ^ 63 \<and>
    (0 < sint (VC_RamMiB c) \<longrightarrow> size = sint (VC_RamMiB c) * 2 ^ 20) \<and>
    map Disk_Path (Vm_Disks cfg) = VC_DiskPaths c \<and>
    (\<forall>d\<in>set (Vm_Disks cfg). Disk_Readonly d = HasSuffix (Disk_Path d) ''-cidata.img'')"
proof -
  obtain bs where bs: "VC_NetConfig c = ''vhost_user=true,socket='' @ s @ '',mac='' @ colon_hex bs @ '',num_queues=2''"
    by (rule VhostUserNetConfig_Inr [OF assms(1)])
  have parse: "ParseNetConfig (VC_NetConfig c) =
      Inr \<lparr>Net_VhostUser = True, Net_VhostSocket = s, Net_MAC = colon_hex bs, Net_NumQueues = 2\<rparr>"
    unfolding bs by (rule ParseNetConfig_rendered [OF assms(2) colon_hex_comma])
  have ne: "VC_NetConfig c \<noteq> []" by (simp add: bs)
  have bound: "sint (VC_RamMiB c) < 2 ^ 31" using sint_lt [of "VC_RamMiB c"] by simp
  define size where "size = (if sint (VC_RamMiB c) > 0 then sint (VC_RamMiB c) * 1024 * 1024 else DefaultMemorySize)"
  have "0 < size \<and> size < 2 ^ 63" using bound by (simp add: size_def DefaultMemorySize_def)
  moreover have "pushConfig t c = wrapG ''push vm config'' (api_Create t (VC_Socket c)
      \<lparr>Vm_Firmware = Some (VC_Firmware c),
        Vm_Cpus = (if sint (VC_CPU c) > 0 then Some \<lparr>Cpus_Boot = sint (VC_CPU c), Cpus_Max = sint (VC_CPU c)\<rparr> else None),
        Vm_Memory = Some \<lparr>Mem_Size = size, Mem_Shared = True\<rparr>,
        Vm_Disks = map (\<lambda>p. NewDiskConfig p (isCIDATADisk p)) (VC_DiskPaths c),
        Vm_Net = [\<lparr>Net_VhostUser = True, Net_VhostSocket = s, Net_MAC = colon_hex bs, Net_NumQueues = 2\<rparr>]\<rparr>)"
    using assms(3) ne
    by (simp add: pushConfig_def Let_def parse liftG_def size_def fun_eq_iff run_bind run_wrap)
  ultimately show ?thesis
    by (intro exI conjI) (auto simp: size_def NewDiskConfig_def isCIDATADisk_def comp_def)
qed

definition sample_vm_client :: "unit vm_client" where
  "sample_vm_client = \<lparr>VC_Manager = \<lparr>Man_Start = returnG (), Man_WaitReady = returnG (), Man_Stop = returnG ()\<rparr>,
     VC_Socket = ''/run/api.sock'',
     VC_NetConfig = ''vhost_user=true,socket=/run/user/1000/k8snet/a.sock,mac=c6:e5:50:1c:ec:ab,num_queues=2'',
     VC_Firmware = ''/fw'', VC_DiskPaths = [''/a-root.qcow2'', ''/a-cidata.img''], VC_CPU = 2, VC_RamMiB = 2048\<rparr>"

theorem pushConfig_vhost_witness:
  "\<exists>t cfg size. pushConfig t sample_vm_client = wrapG ''push vm config'' (api_Create t ''/run/api.sock'' cfg) \<and>
     Vm_Memory cfg = Some \<lparr>Mem_Size = size, Mem_Shared = True\<rparr> \<and> size = 2147483648"
proof -
  let ?t = "\<lparr>http_Do = (\<lambda>_ _. returnG \<lparr>Resp_Status = 204, Resp_Body = [], Resp_ReadError = None\<rparr>),
     http_decode_info = (\<lambda>_. Inr ''Running'')\<rparr> :: unit http"
  have net: "VhostUserNetConfig ''/run/user/1000/k8snet/a.sock'' ''c6:e5:50:1c:ec:ab'' = Inr (VC_NetConfig sample_vm_client)"
    by code_simp
  have "CHR '','' \<notin> set ''/run/user/1000/k8snet/a.sock''" "VC_Firmware sample_vm_client \<noteq> []"
    by (simp_all add: sample_vm_client_def)
  from pushConfig_vhost [OF net this, of ?t] show ?thesis
    by (simp add: sample_vm_client_def) blast
qed

end
