(* ===== verification/Confext.thy ===== *)
theory Confext
  imports Host
begin

text \<open>
  The confext packager (\<open>internal/confext/confext.go\<close>): writing a rendered tree below a
  staging directory and building one squashfs image per top-level directory. The command runner is
  a parameter; the tree, a Go map, is the list of its entries in iteration order.
\<close>

type_synonym 'x runner = "string \<Rightarrow> string list \<Rightarrow> ('x host, byte list) go"

definition write_tree_entry :: "string \<Rightarrow> string \<times> byte list \<Rightarrow> ('x host, unit) go" where
  "write_tree_entry stagingDir entry =
     (case entry of (key, content) \<Rightarrow>
        if slash \<notin> set key then failG (plain_err (''confext: tree key '' @ Quote key @ '' has no path separator''))
        else if HasPrefix key [slash] then failG (plain_err (''confext: tree key '' @ Quote key @ '' begins with a separator''))
        else
          let path = Join stagingDir key in
          bindG (wrapG (''confext: create tree directory for '' @ Quote key) (os_MkdirAll (Dir path))) (\<lambda>_.
          wrapG (''confext: write tree file '' @ Quote path) (os_WriteFile path content)))"

definition WriteTree :: "(string \<times> byte list) list \<Rightarrow> string \<Rightarrow> ('x host, unit) go" where
  "WriteTree tree stagingDir =
     (if tree = [] then failG (plain_err ''confext: cannot write an empty tree'')
      else eachG (write_tree_entry stagingDir) tree)"

definition build_raw :: "'x runner \<Rightarrow> string \<Rightarrow> string \<Rightarrow> string \<Rightarrow> ('x host, string) go" where
  "build_raw run stagingDir outDir name =
     (let src = Join stagingDir name; dst = Join outDir (name @ ''.raw'') in
      bindG (wrapG (''confext: mksquashfs '' @ src @ '' -> '' @ dst)
        (run ''mksquashfs'' [src, dst, ''-noappend'', ''-all-root''])) (\<lambda>_. returnG dst))"

definition BuildRaws :: "'x runner \<Rightarrow> string \<Rightarrow> string \<Rightarrow> ('x host, string list) go" where
  "BuildRaws run stagingDir outDir =
     bindG (wrapG (''confext: read staging dir '' @ Quote stagingDir) (os_ReadDir stagingDir)) (\<lambda>entries.
     let names = map fst (filter snd entries) in
     if names = [] then failG (plain_err (''confext: no confext trees found under '' @ Quote stagingDir))
     else
       bindG (wrapG (''confext: create output dir '' @ Quote outDir) (os_MkdirAll outDir)) (\<lambda>_.
       collectG (build_raw run stagingDir outDir) names))"

section \<open>Where files go\<close>

lemma foldl_clean_push:
  assumes "dotdot \<notin> set xs"
  shows "\<exists>ys. foldl (clean_step True) stack xs = ys @ stack"
  using assms
proof (induction xs arbitrary: stack)
  case (Cons x xs)
  then obtain ys where "foldl (clean_step True) (clean_step True stack x) xs = ys @ clean_step True stack x" by fastforce
  moreover have "clean_step True stack x = stack \<or> clean_step True stack x = [x] @ stack"
    using Cons.prems by (auto simp: clean_step_def)
  ultimately show ?case by (metis append.assoc foldl_Cons)
qed simp

lemma Join_no_dotdot_within:
  assumes "IsAbs root" and "dotdot \<notin> set (split_slash key)"
  shows "within root (Join root key)"
proof -
  have abs: "IsAbs (root @ slash # key)" and ne: "root \<noteq> []" using assms(1) by (auto simp: IsAbs_def)
  obtain ys where "foldl (clean_step True) (foldl (clean_step True) [] (split_slash root)) (split_slash key) =
      ys @ foldl (clean_step True) [] (split_slash root)" using foldl_clean_push [OF assms(2)] by blast
  then have "clean_elems (root @ slash # key) = clean_elems root @ rev ys"
    using abs assms(1) by (simp add: clean_elems_def split_slash_slash)
  then have "clean_elems (Join root key) = clean_elems root @ rev ys" "IsAbs (Join root key)"
    using ne abs by (simp_all add: Join_def clean_elems_Clean)
  with assms(1) show ?thesis by (simp add: within_prefix)
qed

text \<open>
  A tree entry without a \<open>..\<close> element is written below the staging directory. For
  such a key the entry is exactly a directory creation and one file write at a path inside the
  staging directory.
\<close>

theorem write_tree_entry_contained:
  assumes "IsAbs stagingDir" and "dotdot \<notin> set (split_slash key)" and "slash \<in> set key" and "\<not> HasPrefix key [slash]"
  shows "\<exists>path. within stagingDir path \<and>
    write_tree_entry stagingDir (key, content) =
      bindG (wrapG (''confext: create tree directory for '' @ Quote key) (os_MkdirAll (Dir path)))
        (\<lambda>_. wrapG (''confext: write tree file '' @ Quote path) (os_WriteFile path content))"
  using assms Join_no_dotdot_within [OF assms(1,2)] by (auto simp: write_tree_entry_def Let_def)

theorem write_tree_entry_contained_witness:
  "\<exists>path. within ''/s'' path \<and>
     (write_tree_entry ''/s'' (''cp/etc/ca.pem'', [1]) :: (unit host, unit) go) =
       bindG (wrapG (''confext: create tree directory for '' @ Quote ''cp/etc/ca.pem'') (os_MkdirAll (Dir path)))
         (\<lambda>_. wrapG (''confext: write tree file '' @ Quote path) (os_WriteFile path [1]))"
  by (rule write_tree_entry_contained) (simp_all add: IsAbs_def HasPrefix_def)

definition staging_host :: "unit host" where
  "staging_host = \<lparr>hs_nodes = [([''a''], Directory)],
     hs_fault = (\<lambda>_ _ _. None), hs_calls = 0, hs_random = (\<lambda>_. ''7''), hs_ext = ()\<rparr>"

text \<open>
  A \<open>..\<close> element is not rejected. The key \<open>x/../../../b/f\<close> passes the two
  checks of \<open>WriteTree\<close>, and the file is written outside the staging directory.
\<close>

theorem WriteTree_escapes:
  "fst (WriteTree [(''x/../../../b/f'', [6])] ''/a/s'' staging_host) = Inr () \<and>
   map_of (hs_nodes (snd (WriteTree [(''x/../../../b/f'', [6])] ''/a/s'' staging_host))) [''b'', ''f''] = Some (RegularFile [6]) \<and>
   \<not> within ''/a/s'' ''/b/f''"
proof -
  have "Join ''/a/s'' ''x/../../../b/f'' = ''/b/f''" "Dir ''/b/f'' = ''/b''" "\<not> within ''/a/s'' ''/b/f''"
    "mkdirs ''/b'' [] (clean_elems ''/b'') [([''a''], Directory)] = (Inr (), [([''a''], Directory), ([''b''], Directory)])"
    "write_node ''/b/f'' [6] [([''a''], Directory), ([''b''], Directory)] =
       (Inr (), [([''a''], Directory), ([''b''], Directory), ([''b'', ''f''], RegularFile [6])])"
    by code_simp+
  then show ?thesis
    by (simp add: WriteTree_def write_tree_entry_def HasPrefix_def Let_def run_bind run_wrap os_MkdirAll_def os_WriteFile_def
        sys_def staging_host_def)
qed

section \<open>The images\<close>

lemma collectG_Inr: "collectG f xs s = (Inr ys, t) \<Longrightarrow> list_all2 (\<lambda>x y. \<exists>u v. f x u = (Inr y, v)) xs ys"
  by (induction xs arbitrary: s ys) (fastforce simp: bindG_eq_Inr)+

text \<open>
  One image per confext. A successful \<open>BuildRaws\<close> returns, in the sorted order of
  the directory listing, the path of one \<open>.raw\<close> file in the output directory for every
  directory of the staging directory and for nothing else, and there is at least one.
\<close>

theorem BuildRaws_paths:
  assumes "BuildRaws run stagingDir outDir h = (Inr paths, h')"
  shows "\<exists>entries h1. os_ReadDir stagingDir h = (Inr entries, h1) \<and> paths \<noteq> [] \<and>
    paths = map (\<lambda>n. Join outDir (n @ ''.raw'')) (map fst (filter snd entries))"
proof -
  from assms obtain entries h1 h2 where e: "os_ReadDir stagingDir h = (Inr entries, h1)"
    and ne: "map fst (filter snd entries) \<noteq> []"
    and c: "collectG (build_raw run stagingDir outDir) (map fst (filter snd entries)) h2 = (Inr paths, h')"
    by (auto simp: BuildRaws_def bindG_eq_Inr Let_def split: if_split_asm)
  have "list_all2 (\<lambda>n p. p = Join outDir (n @ ''.raw'')) (map fst (filter snd entries)) paths"
    using collectG_Inr [OF c] by (rule list_all2_mono) (auto simp: build_raw_def Let_def bindG_eq_Inr)
  then have "paths = map (\<lambda>n. Join outDir (n @ ''.raw'')) (map fst (filter snd entries))"
    by (simp add: list_all2_conv_all_nth nth_equalityI)
  with e ne show ?thesis by auto
qed

theorem BuildRaws_paths_witness:
  "\<exists>h'. BuildRaws (\<lambda>_ _. returnG []) ''/'' ''/a'' staging_host = (Inr [''/a/a.raw''], h')"
proof -
  have ev: "resolve [([''a''], Directory)] ''/'' = Inr []" "children [([''a''], Directory)] [] = [''a'']"
    "mkdirs ''/a'' [] (clean_elems ''/a'') [([''a''], Directory)] = (Inr (), [([''a''], Directory)])"
    by code_simp+
  obtain entries h1 where rd: "os_ReadDir ''/'' staging_host = (Inr entries, h1)" and en: "entries = [(''a'', True)]"
    using ev by (simp add: os_ReadDir_def sys_def staging_host_def at_resolved_def node_of_def node_at_def run_bind Let_def)
  have h1: "h1 = staging_host\<lparr>hs_calls := 1\<rparr>"
    using rd ev by (simp add: os_ReadDir_def sys_def staging_host_def at_resolved_def node_of_def node_at_def run_bind Let_def)
  have mk: "os_MkdirAll ''/a'' h1 = (Inr (), staging_host\<lparr>hs_calls := 2\<rparr>)"
    using ev by (simp add: os_MkdirAll_def sys_def h1 staging_host_def Let_def)
  have "\<exists>paths h'. BuildRaws (\<lambda>_ _. returnG []) ''/'' ''/a'' staging_host = (Inr paths, h')"
    by (simp add: BuildRaws_def run_bind run_wrap rd en mk build_raw_def Let_def)
  then obtain paths h' where run: "BuildRaws (\<lambda>_ _. returnG []) ''/'' ''/a'' staging_host = (Inr paths, h')" by blast
  have "Join ''/a'' ''a.raw'' = ''/a/a.raw''" by code_simp
  with BuildRaws_paths [OF run] rd en have "paths = [''/a/a.raw'']" by simp
  with run show ?thesis by blast
qed

end
