(* ===== verification/Executor.thy ===== *)
theory Executor
  imports HostAgent Inventory SystemdUnit Artifact ChClient Confext
begin

text \<open>
  The production host agent (\<open>internal/agent/executor/executor.go\<close>), first part: its
  state, the clients it holds, the request hash and the journal wrapper \<open>begin\<close> /
  \<open>complete\<close> every mutation runs under, and \<open>Health\<close>. The state of a run is the
  inventory database and the host. A method called through a nil pointer panics in Go; here it is
  the error \<open>NilDereference\<close>. The clock, the HTTP transport, the JSON form of an artifact
  result and the programs the agent runs are parameters.
\<close>

record 'x world =
  db :: store
  host :: "'x host"

record 'x network_client =
  NC_CreateNetwork :: "string \<Rightarrow> string \<Rightarrow> string \<Rightarrow> string \<Rightarrow> string \<Rightarrow> ('x host, unit) go"
  NC_DeleteNetwork :: "string \<Rightarrow> ('x host, unit) go"
  NC_CreatePort :: "string \<Rightarrow> ('x host, unit) go"
  NC_DeletePort :: "string \<Rightarrow> ('x host, unit) go"
  NC_AttachPort :: "string \<Rightarrow> string \<Rightarrow> string \<Rightarrow> ('x host, unit) go"
  NC_DetachPort :: "string \<Rightarrow> ('x host, unit) go"
  NC_AllocateIP :: "string \<Rightarrow> string \<Rightarrow> ('x host, string) go"
  NC_ReleaseIP :: "string \<Rightarrow> string \<Rightarrow> ('x host, unit) go"
  NC_PublishPort :: "string \<Rightarrow> int32 \<Rightarrow> ('x host, int32) go"
  NC_UnpublishPort :: "string \<Rightarrow> int32 \<Rightarrow> ('x host, unit) go"

datatype wait_event = Tick | Deadline | Cancelled goerr

text \<open>What the executor uses of its surroundings.\<close>

record 'x surroundings =
  Env_Now :: "'x host \<Rightarrow> int"
  Env_HTTP :: "'x http"
  Env_Select :: "('x host, wait_event) go"
  Env_Exec :: "'x runner"
  Env_EncodeArtifact :: "artifact_result \<Rightarrow> string"
  Env_DecodeArtifact :: "string \<Rightarrow> goerr + artifact_result"

record 'x executor =
  Ex_Store :: bool
  Ex_Systemd :: "'x systemd_client option"
  Ex_Artifacts :: "'x builder"
  Ex_Network :: "'x network_client option"
  Ex_NodeID :: string
  Ex_CloudHypervisor :: string
  Ex_K8netdSocket :: string
  Ex_KVMPath :: string
  Ex_UnitDir :: string
  Ex_FirmwareRoot :: string
  Ex_BaseImageRoot :: string
  Ex_Manifest :: "manifest option"
  Ex_Env :: "'x surroundings"

definition dbG :: "(store, 'a) go \<Rightarrow> ('x world, 'a) go" where
  "dbG = onG db (\<lambda>s w. w\<lparr>db := s\<rparr>)"

definition hostG :: "('x host, 'a) go \<Rightarrow> ('x world, 'a) go" where
  "hostG = onG host (\<lambda>h w. w\<lparr>host := h\<rparr>)"

definition storeG :: "'x executor \<Rightarrow> (store, 'a) go \<Rightarrow> ('x world, 'a) go" where
  "storeG e m = (if Ex_Store e then dbG m else failG (sentinel_err NilDereference))"

definition netG :: "'x executor \<Rightarrow> ('x network_client \<Rightarrow> ('x host, 'a) go) \<Rightarrow> ('x world, 'a) go" where
  "netG e f = (case Ex_Network e of None \<Rightarrow> failG (sentinel_err NilDereference) | Some c \<Rightarrow> hostG (f c))"

definition sysdG :: "'x executor \<Rightarrow> ('x systemd_client \<Rightarrow> ('x host, 'a) go) \<Rightarrow> ('x world, 'a) go" where
  "sysdG e f = (case Ex_Systemd e of None \<Rightarrow> failG (sentinel_err NilDereference) | Some c \<Rightarrow> hostG (f c))"

definition notImplemented :: "string \<Rightarrow> goerr" where
  "notImplemented detail = detail_err ErrUnavailable detail"

section \<open>The request hash and the journal\<close>

definition mutation_json :: "mutation \<Rightarrow> json" where
  "mutation_json m = JObject [
     (''ProtocolMajor'', JInt (uint (Mut_ProtocolMajor m))),
     (''Owner'', JObject [
        (''InstallationID'', JString (Owner_InstallationID (Mut_Owner m))),
        (''NodeID'', JString (Owner_NodeID (Mut_Owner m))),
        (''UID'', JString (Owner_UID (Mut_Owner m)))]),
     (''Generation'', JInt (uint (Mut_Generation m))),
     (''IdempotencyKey'', JString (Mut_IdempotencyKey m)),
     (''RetainDisk'', JBool (Mut_RetainDisk m))]"

text \<open>The hashed document; no inputs is a nil slice, which \<open>json.Marshal\<close> writes as \<open>null\<close>.\<close>

definition hash_document :: "string \<Rightarrow> mutation \<Rightarrow> json list \<Rightarrow> string" where
  "hash_document kind m inputs = Marshal (JObject [
     (''Kind'', JString kind), (''Mutation'', mutation_json m),
     (''Inputs'', if inputs = [] then JNull else JArray inputs)])"

definition operationHash :: "string \<Rightarrow> mutation \<Rightarrow> json list \<Rightarrow> string" where
  "operationHash kind m inputs = hex_string (sha256 (string_bytes (hash_document kind m inputs)))"

definition journal_operation :: "mutation \<Rightarrow> string \<Rightarrow> string \<Rightarrow> operation" where
  "journal_operation m kind hash =
     \<lparr>Op_InstallationID = Owner_InstallationID (Mut_Owner m), Op_OwnerUID = Owner_UID (Mut_Owner m),
      Op_NodeID = Owner_NodeID (Mut_Owner m), Op_Key = Mut_IdempotencyKey m, Op_Kind = kind, Op_RequestHash = hash,
      Op_Generation = Mut_Generation m, Op_State = OperationUnset, Op_Result = [], Op_Failure = [],
      Op_CreatedAt = 0, Op_UpdatedAt = 0\<rparr>"

definition nowG :: "'x executor \<Rightarrow> ('x world, int) go" where
  "nowG e = readG (\<lambda>w. Env_Now (Ex_Env e) (host w))"

definition begin_op :: "'x executor \<Rightarrow> mutation \<Rightarrow> string \<Rightarrow> json list \<Rightarrow> ('x world, operation) go" where
  "begin_op e m kind inputs =
     bindG (nowG e) (\<lambda>now.
     catchG (storeG e (BeginOperation now (journal_operation m kind (operationHash kind m inputs)))) (\<lambda>r.
       case r of
         Inr (stored, _) \<Rightarrow> returnG stored
       | Inl err \<Rightarrow>
           if errors_Is err ErrIdempotencyConflict then failG (detail_err ErrConflict (err_text err))
           else failG (wrap_err (''journal '' @ kind @ '' intent'') err)))"

definition complete_op ::
  "'x executor \<Rightarrow> mutation \<Rightarrow> string \<Rightarrow> string \<Rightarrow> operation_state \<Rightarrow> string \<Rightarrow> string \<Rightarrow> ('x world, unit) go" where
  "complete_op e m kind hash state result failure =
     bindG (nowG e) (\<lambda>now.
     wrapG (''journal '' @ kind @ '' result'')
       (storeG e (CompleteOperation now (journal_operation m kind hash) state result failure)))"

text \<open>\<open>_ = e.complete(...)\<close>: the outcome of the journal write is ignored.\<close>

definition try_complete ::
  "'x executor \<Rightarrow> mutation \<Rightarrow> string \<Rightarrow> string \<Rightarrow> operation_state \<Rightarrow> string \<Rightarrow> string \<Rightarrow> ('x world, unit) go" where
  "try_complete e m kind hash state result failure =
     catchG (complete_op e m kind hash state result failure) (\<lambda>_. returnG ())"

section \<open>Health\<close>

definition Health :: "'x executor \<Rightarrow> ('x world, capabilities) go" where
  "Health e =
     (if \<not> Ex_Store e \<or> Ex_Systemd e = None \<or> Ex_NodeID e = []
      then failG (detail_err ErrUnavailable ''inventory, user systemd, and node ID are required'')
      else
        bindG (catchG (hostG (os_Stat (Ex_KVMPath e))) (\<lambda>r. case r of
            Inl err \<Rightarrow> failG (detail_err ErrUnavailable (''KVM device: '' @ err_text err)) | Inr _ \<Rightarrow> returnG ())) (\<lambda>_.
        bindG (catchG (hostG (os_Stat (Ex_K8netdSocket e))) (\<lambda>r. case r of
            Inl err \<Rightarrow> failG (detail_err ErrUnavailable (''k8netd socket: '' @ err_text err)) | Inr _ \<Rightarrow> returnG ())) (\<lambda>_.
        returnG \<lparr>Cap_NodeID = Ex_NodeID e, Cap_CloudHypervisor = Ex_CloudHypervisor e,
          Cap_K8netdProtocolMajor = ProtocolMajor, Cap_CanUseKVM = True, Cap_CanUseUserDBus = True\<rparr>)))"

section \<open>Relations on the database that every method respects\<close>

text \<open>
  A relation on the inventory tables, lifted to the world. The host side of a method cannot
  break it; the database side is the store's contract \<open>inventory_relation\<close>. So each method
  is walked through once, and holds for the schema invariant, the forward-only journal and the
  isolation of owners alike.
\<close>

definition on_db :: "(tables \<Rightarrow> tables \<Rightarrow> bool) \<Rightarrow> 'x world \<Rightarrow> 'x world \<Rightarrow> bool" where
  "on_db R w w' \<longleftrightarrow> on_tables R (db w) (db w')"

abbreviation owner_key :: "mutation \<Rightarrow> string \<times> string" where
  "owner_key m \<equiv> (Owner_InstallationID (Mut_Owner m), Owner_UID (Mut_Owner m))"

locale executor_relation = inventory_relation R mine
  for R :: "tables \<Rightarrow> tables \<Rightarrow> bool" and mine :: "string \<times> string \<Rightarrow> bool"
begin

sublocale world: go_preorder "on_db R :: 'x world \<Rightarrow> 'x world \<Rightarrow> bool"
  by unfold_locales (auto simp: on_db_def on_tables_def intro: T_refl T_trans)

lemma hostG_steps [intro!, simp]: "steps (on_db R) (hostG m)"
  by (auto simp: steps_def hostG_def onG_def on_db_def on_tables_def T_refl split: prod.split)

lemma dbG_steps [intro!]: "steps (on_tables R) m \<Longrightarrow> steps (on_db R) (dbG m)"
  unfolding dbG_def by (rule steps_on) (auto simp: on_db_def)

lemma storeG_steps [intro!]: "steps (on_tables R) m \<Longrightarrow> steps (on_db R) (storeG e m)"
  unfolding storeG_def by auto

lemma netG_steps [intro!, simp]: "steps (on_db R) (netG e f)"
  unfolding netG_def by (auto split: option.split)

lemma sysdG_steps [intro!, simp]: "steps (on_db R) (sysdG e f)"
  unfolding sysdG_def by (auto split: option.split)

lemma begin_op_steps [intro!]: "mine (owner_key m) \<Longrightarrow> steps (on_db R) (begin_op e m kind inputs)"
  unfolding begin_op_def nowG_def
  by (auto intro!: BeginOperation_steps simp: journal_operation_def split: prod.split)

lemma complete_op_steps [intro!]:
  "mine (owner_key m) \<Longrightarrow> steps (on_db R) (complete_op e m kind hash state result failure)"
  unfolding complete_op_def nowG_def by (auto intro!: CompleteOperation_steps simp: journal_operation_def)

lemma try_complete_steps [intro!]:
  "mine (owner_key m) \<Longrightarrow> steps (on_db R) (try_complete e m kind hash state result failure)"
  unfolding try_complete_def by auto

end

end
