(* ===== verification/ExecutorNet.thy ===== *)
theory ExecutorNet
  imports Executor
begin

text \<open>
  The executor's network methods (\<open>executor.go\<close>): networks, ports, addresses and
  published ports, over the k8netd client and the inventory.
\<close>

unbundle bit_operations_syntax

section \<open>IPv4 prefixes (net/netip)\<close>

definition parse_octet :: "string \<Rightarrow> byte option" where
  "parse_octet s =
     (case parse_nat s of
        None \<Rightarrow> None
      | Some n \<Rightarrow> if length s > 3 \<or> (length s > 1 \<and> hd s = CHR ''0'') \<or> n > 255 then None else Some (of_nat n))"

fun parse_octets4 :: "string list \<Rightarrow> byte list option" where
  "parse_octets4 [a, b, c, d] =
     (case (parse_octet a, parse_octet b, parse_octet c, parse_octet d) of
        (Some a', Some b', Some c', Some d') \<Rightarrow> Some [a', b', c', d'] | _ \<Rightarrow> None)"
| "parse_octets4 _ = None"

text \<open>\<open>netip.ParsePrefix\<close> for an IPv4 address; an IPv6 prefix is rejected by the caller as well.\<close>

definition ParsePrefix4 :: "string \<Rightarrow> (byte list \<times> nat) option" where
  "ParsePrefix4 s =
     (if slash \<notin> set s then None
      else
        let bits = rev (takeWhile (\<lambda>c. c \<noteq> slash) (rev s));
            addr = take (length s - length bits - 1) s
        in case (parse_octets4 (split_on (CHR ''.'') addr), parse_nat bits) of
             (Some a, Some n) \<Rightarrow>
               if (length bits > 1 \<and> hd bits = CHR ''0'') \<or> n > 32 then None else Some (a, n)
           | _ \<Rightarrow> None)"

text \<open>\<open>prefix.Masked().Addr().As4()\<close>.\<close>

definition Masked4 :: "byte list \<Rightarrow> nat \<Rightarrow> byte list" where
  "Masked4 addr bits = bytes32 (be32 addr AND push_bit (32 - bits) (- 1))"

definition addr_string :: "byte list \<Rightarrow> string" where
  "addr_string bs = join_with ''.'' (map (\<lambda>b. show_nat (unat b)) bs)"

section \<open>Networks\<close>

definition with_last :: "byte list \<Rightarrow> byte \<Rightarrow> byte list" where
  "with_last base d = [base ! 0, base ! 1, base ! 2, base ! 3 + d]"

definition EnsureNetwork :: "'x executor \<Rightarrow> mutation \<Rightarrow> network_request \<Rightarrow> ('x world, unit) go" where
  "EnsureNetwork e m request =
     bindG (checkG (Mutation_Validate m)) (\<lambda>_.
     if Ex_Network e = None \<or> NetReq_Name request = []
     then failG (notImplemented ''EnsureNetwork requires k8netd and network name'')
     else case ParsePrefix4 (NetReq_CIDR request) of
       None \<Rightarrow> failG (sentinel_err ErrInvalidRequest)
     | Some (addr, bits) \<Rightarrow>
         if bits \<noteq> 24 then failG (sentinel_err ErrInvalidRequest)
         else
           let base = Masked4 addr bits;
               gateway = addr_string (with_last base 1);
               start = addr_string (with_last base 2);
               finish = addr_string (with_last base 254)
           in catchG (netG e (\<lambda>c. NC_CreateNetwork c (NetReq_Name request) (NetReq_CIDR request) gateway start finish)) (\<lambda>r.
                case r of
                  Inl err \<Rightarrow> if errors_Is err NetAlreadyExists then returnG () else failG (wrap_err ''ensure network'' err)
                | Inr _ \<Rightarrow> returnG ()))"

definition DeleteNetwork :: "'x executor \<Rightarrow> mutation \<Rightarrow> ('x world, unit) go" where
  "DeleteNetwork e m =
     bindG (checkG (Mutation_Validate m)) (\<lambda>_.
     if Ex_Network e = None then failG (notImplemented ''DeleteNetwork requires k8netd'')
     else catchG (netG e (\<lambda>c. NC_DeleteNetwork c (Owner_UID (Mut_Owner m)))) (\<lambda>r.
       case r of
         Inl err \<Rightarrow> if errors_Is err NetNotFound then returnG () else failG err
       | Inr _ \<Rightarrow> returnG ()))"

section \<open>Ports\<close>

definition observedPort :: "network_resource \<Rightarrow> port_observed" where
  "observedPort r = \<lparr>PortObs_Name = NR_Port r, PortObs_Network = NR_Network r, PortObs_MAC = NR_MAC r,
     PortObs_IP = NR_IP r, PortObs_Published = Map.empty\<rparr>"

definition port_owned_err :: "string \<Rightarrow> string \<Rightarrow> goerr" where
  "port_owned_err name uid = detail_err ErrConflict (''port '' @ Quote name @ '' is owned by '' @ Quote uid)"

definition port_identity_err :: "string \<Rightarrow> goerr" where
  "port_identity_err name = detail_err ErrConflict (''port '' @ Quote name @ '' identity does not match recorded resource'')"

text \<open>A k8netd call whose \<open>k\<close> error counts as success.\<close>

definition ignoring :: "sentinel \<Rightarrow> ('s, unit) go \<Rightarrow> ('s, unit) go" where
  "ignoring k m = catchG m (\<lambda>r. case r of
       Inl err \<Rightarrow> if errors_Is err k then returnG () else failG err
     | Inr _ \<Rightarrow> returnG ())"

definition recorded_port :: "mutation \<Rightarrow> port_request \<Rightarrow> network_resource \<Rightarrow> goerr + port_observed" where
  "recorded_port m request r =
     (if NR_OwnerUID r \<noteq> Owner_UID (Mut_Owner m) then Inl (port_owned_err (PortReq_Name request) (NR_OwnerUID r))
      else if NR_NodeID r \<noteq> Owner_NodeID (Mut_Owner m) \<or> NR_Network r \<noteq> PortReq_Network request \<or> NR_MAC r \<noteq> PortReq_MAC request
      then Inl (port_identity_err (PortReq_Name request))
      else Inr (observedPort r))"

definition EnsurePort :: "'x executor \<Rightarrow> mutation \<Rightarrow> port_request \<Rightarrow> ('x world, port_observed) go" where
  "EnsurePort e m request =
     bindG (checkG (Mutation_Validate m)) (\<lambda>_.
     if Ex_Network e = None \<or> \<not> Ex_Store e \<or> PortReq_Name request = [] \<or> PortReq_Network request = [] \<or> PortReq_MAC request = []
     then failG (notImplemented ''EnsurePort requires k8netd, inventory, and port identity'')
     else catchG (storeG e (GetNetworkResourceByPort (Owner_InstallationID (Mut_Owner m)) (PortReq_Name request))) (\<lambda>found.
       case found of
         Inr r \<Rightarrow> liftG (recorded_port m request r)
       | Inl err \<Rightarrow>
           if \<not> errors_Is err SqlErrNoRows
           then failG (wrap_err (''inspect network resource for port '' @ Quote (PortReq_Name request)) err)
           else
             bindG (ignoring NetAlreadyExists (netG e (\<lambda>c. NC_CreatePort c (PortReq_Name request)))) (\<lambda>_.
             bindG (ignoring NetAlreadyExists (netG e (\<lambda>c.
               NC_AttachPort c (PortReq_Name request) (PortReq_Network request) (PortReq_MAC request)))) (\<lambda>_.
             bindG (netG e (\<lambda>c. NC_AllocateIP c (PortReq_Network request) (PortReq_MAC request))) (\<lambda>ip.
             let r = \<lparr>NR_InstallationID = Owner_InstallationID (Mut_Owner m), NR_OwnerUID = Owner_UID (Mut_Owner m),
                   NR_NodeID = Owner_NodeID (Mut_Owner m), NR_Network = PortReq_Network request,
                   NR_Port = PortReq_Name request, NR_MAC = PortReq_MAC request, NR_IP = ip\<rparr>
             in catchG (storeG e (UpsertNetworkResource r)) (\<lambda>stored.
                  case stored of
                    Inr _ \<Rightarrow> returnG (observedPort r)
                  | Inl upsertErr \<Rightarrow>
                      catchG (storeG e (GetNetworkResourceByPort (NR_InstallationID r) (NR_Port r))) (\<lambda>lookup.
                        case lookup of
                          Inr existing \<Rightarrow> liftG (recorded_port m request existing)
                        | Inl _ \<Rightarrow> failG upsertErr)))))))"

definition release_mapping :: "'x executor \<Rightarrow> mutation \<Rightarrow> string \<Rightarrow> published_port \<Rightarrow> ('x world, unit) go" where
  "release_mapping e m port mapping =
     bindG (ignoring NetNotFound (netG e (\<lambda>c. NC_UnpublishPort c port (PP_GuestPort mapping)))) (\<lambda>_.
     storeG e (DeletePublishedPort (Owner_InstallationID (Mut_Owner m)) (Owner_UID (Mut_Owner m)) (PP_GuestPort mapping)))"

definition DeletePort :: "'x executor \<Rightarrow> mutation \<Rightarrow> ('x world, unit) go" where
  "DeletePort e m =
     bindG (checkG (Mutation_Validate m)) (\<lambda>_.
     if Ex_Network e = None \<or> \<not> Ex_Store e then failG (notImplemented ''DeletePort requires k8netd inventory'')
     else catchG (storeG e (GetNetworkResource (Owner_InstallationID (Mut_Owner m)) (Owner_UID (Mut_Owner m)))) (\<lambda>found.
       case found of
         Inl err \<Rightarrow> if errors_Is err SqlErrNoRows then returnG () else failG err
       | Inr r \<Rightarrow>
           if NR_NodeID r \<noteq> Owner_NodeID (Mut_Owner m) then failG (sentinel_err ErrUnauthorized)
           else
             bindG (storeG e (ListPublishedPorts (Owner_InstallationID (Mut_Owner m)) (Owner_UID (Mut_Owner m)))) (\<lambda>published.
             bindG (eachG (release_mapping e m (NR_Port r)) published) (\<lambda>_.
             bindG (ignoring NetNotFound (netG e (\<lambda>c. NC_ReleaseIP c (NR_Network r) (NR_MAC r)))) (\<lambda>_.
             bindG (ignoring NetNotFound (netG e (\<lambda>c. NC_DetachPort c (NR_Port r)))) (\<lambda>_.
             bindG (ignoring NetNotFound (netG e (\<lambda>c. NC_DeletePort c (NR_Port r)))) (\<lambda>_.
             storeG e (DeleteNetworkResource (Owner_InstallationID (Mut_Owner m)) (Owner_UID (Mut_Owner m))))))))))"

section \<open>Addresses\<close>

definition owned_resource :: "'x executor \<Rightarrow> mutation \<Rightarrow> ('x world, network_resource) go" where
  "owned_resource e m = storeG e (GetNetworkResource (Owner_InstallationID (Mut_Owner m)) (Owner_UID (Mut_Owner m)))"

definition AllocateIP :: "'x executor \<Rightarrow> mutation \<Rightarrow> ('x world, string) go" where
  "AllocateIP e m =
     bindG (checkG (Mutation_Validate m)) (\<lambda>_.
     bindG (owned_resource e m) (\<lambda>r.
     if NR_NodeID r \<noteq> Owner_NodeID (Mut_Owner m) then failG (sentinel_err ErrUnauthorized)
     else netG e (\<lambda>c. NC_AllocateIP c (NR_Network r) (NR_MAC r))))"

definition ReleaseIP :: "'x executor \<Rightarrow> mutation \<Rightarrow> string \<Rightarrow> ('x world, unit) go" where
  "ReleaseIP e m ip =
     bindG (checkG (Mutation_Validate m)) (\<lambda>_.
     bindG (owned_resource e m) (\<lambda>r.
     if NR_IP r \<noteq> ip \<or> NR_NodeID r \<noteq> Owner_NodeID (Mut_Owner m) then failG (sentinel_err ErrUnauthorized)
     else netG e (\<lambda>c. NC_ReleaseIP c (NR_Network r) (NR_MAC r))))"

section \<open>Published ports\<close>

definition portOperationFailure :: "string \<Rightarrow> string \<Rightarrow> goerr" where
  "portOperationFailure kind failure = detail_err ErrUnavailable (''prior '' @ kind @ '' failed: '' @ failure)"

text \<open>The JSON form of a \<open>uint32\<close> and its decoder.\<close>

definition encode_uint32 :: "uint32 \<Rightarrow> string" where
  "encode_uint32 w = Marshal (JInt (uint w))"

definition decode_uint32 :: "string \<Rightarrow> goerr + uint32" where
  "decode_uint32 s =
     (let t = TrimSpace s in
      if t = ''null'' then Inr 0
      else case parse_nat t of
        Some n \<Rightarrow> if (length t > 1 \<and> hd t = CHR ''0'') \<or> n \<ge> 2 ^ 32
                  then Inl (plain_err (''json: cannot unmarshal number '' @ t @ '' into Go value of type uint32''))
                  else Inr (of_nat n)
      | None \<Rightarrow> Inl (plain_err ''json: cannot unmarshal into Go value of type uint32''))"

definition PublishPort :: "'x executor \<Rightarrow> mutation \<Rightarrow> uint32 \<Rightarrow> uint32 \<Rightarrow> ('x world, uint32) go" where
  "PublishPort e m guestPort hostPort =
     bindG (checkG (Mutation_Validate m)) (\<lambda>_.
     if guestPort = 0 \<or> guestPort > 65535 \<or> hostPort \<noteq> 0 \<or> Ex_Network e = None \<or> \<not> Ex_Store e
     then failG (sentinel_err ErrInvalidRequest)
     else
       bindG (owned_resource e m) (\<lambda>r.
       if NR_NodeID r \<noteq> Owner_NodeID (Mut_Owner m) then failG (sentinel_err ErrUnauthorized)
       else
         catchG (storeG e (GetPublishedPort (Owner_InstallationID (Mut_Owner m)) (Owner_UID (Mut_Owner m)) guestPort)) (\<lambda>found.
           case found of
             Inr p \<Rightarrow> returnG (PP_HostPort p)
           | Inl err \<Rightarrow>
               if \<not> errors_Is err SqlErrNoRows
               then failG (wrap_err (''get published port '' @ show_word guestPort) err)
               else
                 bindG (begin_op e m ''PublishPort'' [JInt (uint guestPort)]) (\<lambda>op.
                 if Op_State op = OperationCompleted
                 then wrapG ''decode published host port'' (liftG (decode_uint32 (Op_Result op)))
                 else if Op_State op = OperationFailed
                 then failG (portOperationFailure ''PublishPort'' (Op_Failure op))
                 else
                   catchG (netG e (\<lambda>c. NC_PublishPort c (NR_Port r) guestPort)) (\<lambda>published.
                     case published of
                       Inl netErr \<Rightarrow>
                         bindG (try_complete e m ''PublishPort'' (Op_RequestHash op) OperationFailed [] (err_text netErr))
                           (\<lambda>_. failG netErr)
                     | Inr port \<Rightarrow>
                         if sint port \<le> 0 \<or> sint port > 65535
                         then bindG (try_complete e m ''PublishPort'' (Op_RequestHash op) OperationFailed []
                                (err_text (sentinel_err ErrInvalidRequest))) (\<lambda>_. failG (sentinel_err ErrInvalidRequest))
                         else
                           catchG (storeG e (UpsertPublishedPort
                               \<lparr>PP_InstallationID = Owner_InstallationID (Mut_Owner m), PP_OwnerUID = Owner_UID (Mut_Owner m),
                                PP_GuestPort = guestPort, PP_HostPort = port\<rparr>)) (\<lambda>stored.
                             case stored of
                               Inl storeErr \<Rightarrow>
                                 bindG (try_complete e m ''PublishPort'' (Op_RequestHash op) OperationFailed [] (err_text storeErr))
                                   (\<lambda>_. failG storeErr)
                             | Inr _ \<Rightarrow>
                                 bindG (complete_op e m ''PublishPort'' (Op_RequestHash op) OperationCompleted (encode_uint32 port) [])
                                   (\<lambda>_. returnG port)))))))"

definition ReleasePort :: "'x executor \<Rightarrow> mutation \<Rightarrow> uint32 \<Rightarrow> uint32 \<Rightarrow> ('x world, unit) go" where
  "ReleasePort e m guestPort hostPort =
     bindG (checkG (Mutation_Validate m)) (\<lambda>_.
     if guestPort = 0 \<or> guestPort > 65535 \<or> hostPort = 0 \<or> hostPort > 65535 \<or> Ex_Network e = None \<or> \<not> Ex_Store e
     then failG (sentinel_err ErrInvalidRequest)
     else
       bindG (owned_resource e m) (\<lambda>r.
       if NR_NodeID r \<noteq> Owner_NodeID (Mut_Owner m) then failG (sentinel_err ErrUnauthorized)
       else
         catchG (storeG e (GetPublishedPort (Owner_InstallationID (Mut_Owner m)) (Owner_UID (Mut_Owner m)) guestPort)) (\<lambda>mapping.
         if (case mapping of Inl err \<Rightarrow> \<not> errors_Is err SqlErrNoRows | Inr _ \<Rightarrow> False)
         then (case mapping of Inl err \<Rightarrow> failG err | Inr _ \<Rightarrow> returnG ())
         else if (case mapping of Inl _ \<Rightarrow> False | Inr p \<Rightarrow> PP_HostPort p \<noteq> hostPort)
         then failG (sentinel_err ErrInvalidRequest)
         else
           bindG (begin_op e m ''ReleasePort''
               [JObject [(''GuestPort'', JInt (uint guestPort)), (''HostPort'', JInt (uint hostPort))]]) (\<lambda>op.
           if Op_State op = OperationCompleted then returnG ()
           else if Op_State op = OperationFailed then failG (portOperationFailure ''ReleasePort'' (Op_Failure op))
           else case mapping of
             Inl _ \<Rightarrow> failG (sentinel_err ErrNotFound)
           | Inr _ \<Rightarrow>
               catchG (ignoring NetNotFound (netG e (\<lambda>c. NC_UnpublishPort c (NR_Port r) guestPort))) (\<lambda>gone.
                 case gone of
                   Inl err \<Rightarrow>
                     bindG (try_complete e m ''ReleasePort'' (Op_RequestHash op) OperationFailed [] (err_text err)) (\<lambda>_. failG err)
                 | Inr _ \<Rightarrow>
                     catchG (storeG e (DeletePublishedPort (Owner_InstallationID (Mut_Owner m)) (Owner_UID (Mut_Owner m)) guestPort))
                       (\<lambda>deleted. case deleted of
                          Inl err \<Rightarrow>
                            bindG (try_complete e m ''ReleasePort'' (Op_RequestHash op) OperationFailed [] (err_text err)) (\<lambda>_. failG err)
                        | Inr _ \<Rightarrow> complete_op e m ''ReleasePort'' (Op_RequestHash op) OperationCompleted ''released'' []))))))"

end
