(* ===== verification/ExecutorVM.thy ===== *)
theory ExecutorVM
  imports ExecutorNet
begin

text \<open>
  The executor's VM methods (\<open>executor.go\<close>): create and boot, observe, stop, delete, and
  the diagnostics built on them.
\<close>

section \<open>Waiting for the API socket\<close>

text \<open>
  The ten-second deadline allows at most 200 ticks of 50 ms; the bound is the number of polls,
  after which the deadline has fired.
\<close>

definition socket_deadline_err :: "string \<Rightarrow> goerr" where
  "socket_deadline_err path =
     detail_err ErrUnavailable (''Cloud Hypervisor API socket '' @ Quote path @ '' did not appear'')"

fun wait_loop :: "nat \<Rightarrow> ('x host, wait_event) go \<Rightarrow> string \<Rightarrow> ('x host, unit) go" where
  "wait_loop 0 select path = failG (socket_deadline_err path)"
| "wait_loop (Suc n) select path = catchG (os_Stat path) (\<lambda>r.
     if r = Inr SocketFile then returnG ()
     else bindG select (\<lambda>ev. case ev of
         Cancelled err \<Rightarrow> failG err
       | Deadline \<Rightarrow> failG (socket_deadline_err path)
       | Tick \<Rightarrow> wait_loop n select path))"

definition waitForSocket :: "'x executor \<Rightarrow> string \<Rightarrow> ('x host, unit) go" where
  "waitForSocket e path = wait_loop 201 (Env_Select (Ex_Env e)) path"

section \<open>EnsureVM\<close>

definition verifyVMArtifacts :: "'x executor \<Rightarrow> vm_desired \<Rightarrow> string list \<Rightarrow> string list \<Rightarrow> bool \<Rightarrow> ('x host, unit) go" where
  "verifyVMArtifacts e desired paths checksums verifyRootContents =
     (if paths = [] \<or> length paths \<noteq> length checksums
      then failG (plain_err ''verify VM disks: artifact paths and checksums must have equal non-zero lengths'')
      else
        bindG
          (if verifyRootContents
           then wrapG ''verify VM disks'' (Builder_Verify (Ex_Artifacts e) paths checksums)
           else
             bindG (wrapG ''verify VM root disk ownership'' (VerifyOwnedPath (B_Root (Ex_Artifacts e)) (Des_Disk desired))) (\<lambda>_.
             if length paths > 1
             then wrapG ''verify VM additional disks'' (Builder_Verify (Ex_Artifacts e) (tl paths) (tl checksums))
             else returnG ())) (\<lambda>_.
        wrapG ''verify VM firmware'' (VerifyOwnedFile (Ex_FirmwareRoot e) (Des_Firmware desired) (Des_FirmwareSHA256 desired))))"

text \<open>\<open>vm.info\<close> answers that no VM was created yet.\<close>

definition not_created :: "goerr \<Rightarrow> bool" where
  "not_created e =
     (case err_kind e of
        StatusError code body \<Rightarrow> code = 404 \<or> code = 500 \<and> Contains (ToLower body) ''vm is not created''
      | _ \<Rightarrow> False)"

text \<open>The boot errors after which a VM without inventory is deleted, created and booted again.\<close>

definition boot_recoverable :: "goerr \<Rightarrow> bool" where
  "boot_recoverable e =
     (case err_kind e of
        StatusError code body \<Rightarrow>
          let b = ToLower body in
          Contains b ''image type required for disk'' \<or>
          (Contains b ''error manipulating firmware file'' \<and> Contains b ''no such file or directory (os error 2)'') \<or>
          (code = 500 \<and> Contains b ''error from api'' \<and> Contains b ''the vm could not boot'' \<and> Contains b ''vm is already created'')
      | _ \<Rightarrow> False)"

definition vm_config_of :: "vm_desired \<Rightarrow> vm_config" where
  "vm_config_of d =
     \<lparr>Vm_Firmware = Some (Des_Firmware d),
      Vm_Cpus = Some \<lparr>Cpus_Boot = uint (Des_CPUs d), Cpus_Max = uint (Des_CPUs d)\<rparr>,
      Vm_Memory = Some \<lparr>Mem_Size = uint (Des_MemoryMiB d) * 1024 * 1024, Mem_Shared = True\<rparr>,
      Vm_Disks = NewDiskConfig (Des_Disk d) False # map (\<lambda>p. NewDiskConfig p True) (Des_AdditionalDisks d),
      Vm_Net = [\<lparr>Net_VhostUser = True, Net_VhostSocket = Des_VhostSocket d, Net_MAC = Des_MAC d, Net_NumQueues = 2\<rparr>]\<rparr>"

definition vm_unit :: "mutation \<Rightarrow> string" where
  "vm_unit m = ''k8slab-vm-'' @ Owner_UID (Mut_Owner m) @ ''.service''"

definition boot_vm :: "'x executor \<Rightarrow> mutation \<Rightarrow> vm_desired \<Rightarrow> ('x world, unit) go" where
  "boot_vm e m d =
     (let t = Env_HTTP (Ex_Env e); sock = Des_APISocket d in
      catchG (hostG (api_Boot t sock)) (\<lambda>r. case r of
        Inr _ \<Rightarrow> returnG ()
      | Inl err \<Rightarrow>
          if \<not> boot_recoverable err then failG err
          else catchG (storeG e (Store_GetVM (Owner_InstallationID (Mut_Owner m)) (Owner_UID (Mut_Owner m)))) (\<lambda>inv.
            case inv of
              Inr _ \<Rightarrow> failG err
            | Inl invErr \<Rightarrow>
                if \<not> errors_Is invErr SqlErrNoRows then failG (wrap_err ''load VM inventory'' invErr)
                else
                  bindG (hostG (api_Delete t sock)) (\<lambda>_.
                  bindG (hostG (api_Create t sock (vm_config_of d))) (\<lambda>_.
                  hostG (api_Boot t sock))))))"

definition observed_json :: "vm_observed \<Rightarrow> json" where
  "observed_json v = JObject [
     (''UID'', JString (Obs_UID v)), (''Unit'', JString (Obs_Unit v)), (''PID'', JInt (Obs_PID v)),
     (''GuestUptime'', JInt (uint (Obs_GuestUptime v))), (''Running'', JBool (Obs_Running v)),
     (''APISocket'', JString (Obs_APISocket v)), (''VhostSocket'', JString (Obs_VhostSocket v)),
     (''IP'', JString (Obs_IP v)), (''MAC'', JString (Obs_MAC v)), (''Generation'', JInt (uint (Obs_Generation v)))]"

definition GetVM :: "'x executor \<Rightarrow> owner \<Rightarrow> ('x world, vm_observed) go" where
  "GetVM e ow =
     bindG (checkG (Owner_Validate ow)) (\<lambda>_.
     if \<not> Ex_Store e \<or> Ex_Systemd e = None then failG (notImplemented ''GetVM requires inventory and user systemd'')
     else catchG (storeG e (Store_GetVM (Owner_InstallationID ow) (Owner_UID ow))) (\<lambda>r. case r of
         Inl err \<Rightarrow> if errors_Is err SqlErrNoRows then failG (sentinel_err ErrNotFound) else failG (wrap_err ''load VM inventory'' err)
       | Inr v \<Rightarrow>
           if VM_NodeID v \<noteq> Owner_NodeID ow then failG (sentinel_err ErrUnauthorized)
           else
             bindG (wrapG (''get VM unit '' @ Quote (VM_Unit v)) (sysdG e (\<lambda>c. SC_GetUnit c (VM_Unit v)))) (\<lambda>u.
             returnG \<lparr>Obs_UID = Owner_UID ow, Obs_Unit = VM_Unit v, Obs_PID = uint (Unit_PID u), Obs_GuestUptime = 0,
               Obs_Running = (Unit_PID u \<noteq> 0), Obs_APISocket = VM_APISocket v, Obs_VhostSocket = VM_VhostSocket v,
               Obs_IP = VM_IP v, Obs_MAC = VM_MAC v, Obs_Generation = VM_Generation v\<rparr>)))"

definition install_vm_unit :: "'x executor \<Rightarrow> mutation \<Rightarrow> vm_desired \<Rightarrow> ('x world, unit_info) go" where
  "install_vm_unit e m d = sysdG e (\<lambda>c. Install c (Ex_UnitDir e)
     \<lparr>PU_InstallationID = Owner_InstallationID (Mut_Owner m), PU_OwnerUID = Owner_UID (Mut_Owner m),
      PU_NodeID = Owner_NodeID (Mut_Owner m), PU_Name = vm_unit m, PU_Description = [],
      PU_ExecStart = [Ex_CloudHypervisor e, ''--api-socket'', ''path='' @ Des_APISocket d],
      PU_Environment = [], PU_Restart = []\<rparr>)"

text \<open>From the running unit on: inspect, verify, create, boot. The result is the VM state reached.\<close>

definition bring_up :: "'x executor \<Rightarrow> mutation \<Rightarrow> vm_desired \<Rightarrow> ('x world, unit) go" where
  "bring_up e m d =
     (let t = Env_HTTP (Ex_Env e); sock = Des_APISocket d;
          paths = Des_Disk d # Des_AdditionalDisks d; checksums = Des_DiskSHA256 d # Des_AdditionalDiskSHA256s d in
      catchG (hostG (api_Info t sock)) (\<lambda>info.
      if (case info of Inl err \<Rightarrow> \<not> not_created err | Inr _ \<Rightarrow> False)
      then (case info of Inl err \<Rightarrow> failG err | Inr _ \<Rightarrow> returnG ())
      else
        let notCreated = (case info of Inl _ \<Rightarrow> True | Inr _ \<Rightarrow> False);
            state0 = (case info of Inl _ \<Rightarrow> [] | Inr st \<Rightarrow> st) in
        catchG (storeG e (Store_GetVM (Owner_InstallationID (Mut_Owner m)) (Owner_UID (Mut_Owner m)))) (\<lambda>inv.
        if (case inv of Inl err \<Rightarrow> \<not> errors_Is err SqlErrNoRows | Inr _ \<Rightarrow> False)
        then (case inv of Inl err \<Rightarrow> failG (wrap_err ''load VM inventory'' err) | Inr _ \<Rightarrow> returnG ())
        else if (case inv of Inl _ \<Rightarrow> False | Inr v \<Rightarrow> VM_Disk v \<noteq> [] \<and> VM_Disk v \<noteq> Des_Disk d)
        then failG (detail_err ErrConflict ''VM root disk path changed'')
        else
          let hasInventory = (case inv of Inl _ \<Rightarrow> False | Inr _ \<Rightarrow> True) in
          bindG (hostG (verifyVMArtifacts e d paths checksums (\<not> hasInventory \<and> (notCreated \<or> state0 = ''Created'')))) (\<lambda>_.
          bindG (if notCreated then hostG (api_Create t sock (vm_config_of d)) else returnG ()) (\<lambda>_.
          let state = (if notCreated then ''Created'' else state0) in
          if state = ''Running'' then returnG ()
          else if state = ''Created'' then boot_vm e m d
          else failG (plain_err (''unexpected Cloud Hypervisor VM state '' @ Quote state)))))))"

definition vm_row :: "mutation \<Rightarrow> vm_desired \<Rightarrow> unit_info \<Rightarrow> vm" where
  "vm_row m d u = \<lparr>VM_InstallationID = Owner_InstallationID (Mut_Owner m), VM_OwnerUID = Owner_UID (Mut_Owner m),
     VM_NodeID = Owner_NodeID (Mut_Owner m), VM_Unit = vm_unit m, VM_Generation = Mut_Generation m, VM_PID = uint (Unit_PID u),
     VM_Disk = Des_Disk d, VM_APISocket = Des_APISocket d, VM_VhostSocket = Des_VhostSocket d, VM_Network = [], VM_Port = [],
     VM_MAC = Des_MAC d, VM_IP = Des_IP d\<rparr>"

definition vm_seen :: "mutation \<Rightarrow> vm_desired \<Rightarrow> unit_info \<Rightarrow> vm_observed" where
  "vm_seen m d u = \<lparr>Obs_UID = Des_UID d, Obs_Unit = vm_unit m, Obs_PID = uint (Unit_PID u), Obs_GuestUptime = 0,
     Obs_Running = (Unit_PID u \<noteq> 0), Obs_APISocket = Des_APISocket d, Obs_VhostSocket = Des_VhostSocket d,
     Obs_IP = Des_IP d, Obs_MAC = Des_MAC d, Obs_Generation = Mut_Generation m\<rparr>"

definition with_manifest :: "'x executor \<Rightarrow> vm_desired \<Rightarrow> vm_desired" where
  "with_manifest e d =
     (case Ex_Manifest e of
        None \<Rightarrow> d
      | Some man \<Rightarrow> d\<lparr>Des_Firmware := IF_Path (Man_Firmware man), Des_FirmwareSHA256 := IF_SHA256 (Man_Firmware man)\<rparr>)"

definition EnsureVM :: "'x executor \<Rightarrow> mutation \<Rightarrow> vm_desired \<Rightarrow> ('x world, vm_observed) go" where
  "EnsureVM e m desired =
     bindG (checkG (Mutation_Validate m)) (\<lambda>_.
     let d = with_manifest e desired in
     if Ex_Systemd e = None \<or> \<not> Ex_Store e \<or> Ex_UnitDir e = [] \<or> Ex_CloudHypervisor e = [] \<or> Ex_FirmwareRoot e = []
     then failG (notImplemented ''EnsureVM requires user systemd, inventory, unit directory, firmware root, and Cloud Hypervisor'')
     else if Des_UID d = [] \<or> Des_Disk d = [] \<or> Des_Firmware d = [] \<or> Des_FirmwareSHA256 d = [] \<or> Des_APISocket d = [] \<or>
        Des_VhostSocket d = [] \<or> Des_MAC d = [] \<or> Des_CPUs d = 0 \<or> Des_MemoryMiB d = 0
     then failG (sentinel_err ErrInvalidRequest)
     else
       bindG (begin_op e m ''EnsureVM'' []) (\<lambda>op.
       if Op_State op = OperationCompleted then GetVM e (Mut_Owner m)
       else
         bindG (wrapG ''create Cloud Hypervisor API socket directory'' (hostG (os_MkdirAll (Dir (Des_APISocket d))))) (\<lambda>_.
         bindG (install_vm_unit e m d) (\<lambda>u.
         bindG (hostG (waitForSocket e (Des_APISocket d))) (\<lambda>_.
         if [] \<in> set (Des_AdditionalDisks d) then failG (sentinel_err ErrInvalidRequest)
         else
           bindG (bring_up e m d) (\<lambda>_.
           bindG (storeG e (UpsertVM (vm_row m d u))) (\<lambda>_.
           bindG (complete_op e m ''EnsureVM'' (Op_RequestHash op) OperationCompleted (Marshal (observed_json (vm_seen m d u))) []) (\<lambda>_.
           returnG (vm_seen m d u)))))))))"

section \<open>StopVM and DeleteVM\<close>

definition is_status_error :: "goerr \<Rightarrow> bool" where
  "is_status_error e = (case err_kind e of StatusError _ _ \<Rightarrow> True | _ \<Rightarrow> False)"

text \<open>A failed graceful shutdown counts only if the socket is there and the API did not answer.\<close>

definition graceful_shutdown :: "'x executor \<Rightarrow> string \<Rightarrow> ('x host, unit) go" where
  "graceful_shutdown e sock = catchG (api_Shutdown (Env_HTTP (Ex_Env e)) sock) (\<lambda>r. case r of
       Inr _ \<Rightarrow> returnG ()
     | Inl err \<Rightarrow> catchG (os_Stat sock) (\<lambda>st. case st of
           Inr _ \<Rightarrow> if is_status_error err then returnG () else failG (wrap_err ''graceful VM shutdown'' err)
         | Inl _ \<Rightarrow> returnG ()))"

definition StopVM :: "'x executor \<Rightarrow> mutation \<Rightarrow> ('x world, unit) go" where
  "StopVM e m =
     bindG (checkG (Mutation_Validate m)) (\<lambda>_.
     if \<not> Ex_Store e \<or> Ex_Systemd e = None then failG (notImplemented ''StopVM requires inventory and user systemd'')
     else
       bindG (begin_op e m ''StopVM'' []) (\<lambda>op.
       if Op_State op = OperationCompleted then returnG ()
       else if Op_State op = OperationFailed
       then failG (detail_err ErrUnavailable (''prior StopVM failed: '' @ Op_Failure op))
       else
         catchG (storeG e (Store_GetVM (Owner_InstallationID (Mut_Owner m)) (Owner_UID (Mut_Owner m)))) (\<lambda>r. case r of
           Inl err \<Rightarrow>
             if errors_Is err SqlErrNoRows
             then complete_op e m ''StopVM'' (Op_RequestHash op) OperationCompleted ''absent'' []
             else failG (wrap_err ''load VM inventory'' err)
         | Inr v \<Rightarrow>
             if VM_NodeID v \<noteq> Owner_NodeID (Mut_Owner m) then failG (sentinel_err ErrUnauthorized)
             else
               bindG (hostG (graceful_shutdown e (VM_APISocket v))) (\<lambda>_.
               catchG (sysdG e (\<lambda>c. SC_StopUnit c (VM_Unit v))) (\<lambda>stopped. case stopped of
                 Inl err \<Rightarrow>
                   bindG (try_complete e m ''StopVM'' (Op_RequestHash op) OperationFailed [] (err_text err))
                     (\<lambda>_. failG (wrap_err ''stop owned VM unit'' err))
               | Inr _ \<Rightarrow> complete_op e m ''StopVM'' (Op_RequestHash op) OperationCompleted ''stopped'' [])))))"

text \<open>\<open>removeOwnedArtifact\<close>: errors of the removal are ignored.\<close>

definition removeOwnedArtifact :: "string \<Rightarrow> string \<Rightarrow> ('x host, unit) go" where
  "removeOwnedArtifact root path =
     (if within root path then catchG (os_RemoveAll path) (\<lambda>_. returnG ()) else returnG ())"

definition remove_family :: "string \<Rightarrow> string \<Rightarrow> ('x host, unit) go" where
  "remove_family root disk =
     (let pre = TrimSuffix (Base disk) ''-root.qcow2'' @ ''-'' in
      catchG (os_ReadDir (Dir disk)) (\<lambda>r. case r of
        Inl _ \<Rightarrow> returnG ()
      | Inr entries \<Rightarrow>
          eachG (\<lambda>(name, _). if HasPrefix name pre then removeOwnedArtifact root (Join (Dir disk) name) else returnG ()) entries))"

definition remove_vm_files :: "'x executor \<Rightarrow> mutation \<Rightarrow> vm \<Rightarrow> ('x host, unit) go" where
  "remove_vm_files e m v =
     (let root = B_Root (Ex_Artifacts e) in
      if \<not> Mut_RetainDisk m \<and> root \<noteq> [] then
        bindG (removeOwnedArtifact root (VM_Disk v)) (\<lambda>_.
        bindG (removeOwnedArtifact root (VM_APISocket v)) (\<lambda>_.
        remove_family root (VM_Disk v)))
      else returnG ())"

definition DeleteVM :: "'x executor \<Rightarrow> mutation \<Rightarrow> ('x world, unit) go" where
  "DeleteVM e m =
     bindG (checkG (Mutation_Validate m)) (\<lambda>_.
     bindG (StopVM e m) (\<lambda>_.
     catchG (storeG e (Store_GetVM (Owner_InstallationID (Mut_Owner m)) (Owner_UID (Mut_Owner m)))) (\<lambda>r. case r of
       Inl err \<Rightarrow> if errors_Is err SqlErrNoRows then returnG () else failG err
     | Inr v \<Rightarrow>
         if VM_NodeID v \<noteq> Owner_NodeID (Mut_Owner m) then failG (sentinel_err ErrUnauthorized)
         else
           bindG (if Ex_Network e \<noteq> None then DeletePort e m else returnG ()) (\<lambda>_.
           bindG (hostG (remove_vm_files e m v)) (\<lambda>_.
           storeG e (Store_DeleteVM (Owner_InstallationID (Mut_Owner m)) (Owner_UID (Mut_Owner m))))))))"

section \<open>Diagnostics and probes\<close>

definition show_bool :: "bool \<Rightarrow> string" where
  "show_bool b = (if b then ''true'' else ''false'')"

definition Diagnostics :: "'x executor \<Rightarrow> owner \<Rightarrow> ('x world, diagnostics) go" where
  "Diagnostics e ow =
     bindG (checkG (Owner_Validate ow)) (\<lambda>_.
     catchG (GetVM e ow) (\<lambda>r. case r of
       Inl err \<Rightarrow>
         if errors_Is err ErrNotFound then returnG \<lparr>Diag_OwnerUID = Owner_UID ow, Diag_Messages = [''vm not found'']\<rparr>
         else failG err
     | Inr v \<Rightarrow> returnG \<lparr>Diag_OwnerUID = Owner_UID ow,
         Diag_Messages = [''unit='' @ Obs_Unit v @ '' running='' @ show_bool (Obs_Running v) @ '' pid='' @ show_int (Obs_PID v)]\<rparr>))"

definition AcquireProbe :: "'x executor \<Rightarrow> mutation \<Rightarrow> string \<Rightarrow> ('x world, probe_lease) go" where
  "AcquireProbe e m network = failG (notImplemented ''AcquireProbe requires k8netd and VM adapters'')"

definition ReleaseProbe :: "'x executor \<Rightarrow> mutation \<Rightarrow> string \<Rightarrow> ('x world, unit) go" where
  "ReleaseProbe e m lease = failG (notImplemented ''ReleaseProbe requires k8netd and VM adapters'')"

end
