(* ===== verification/ExecutorArtifacts.thy ===== *)
theory ExecutorArtifacts
  imports ExecutorVM
begin

text \<open>
  The executor's artifact methods (\<open>executor.go\<close>): root disks, CIDATA images and confext
  images, each recorded in the journal with its checksums; and the executor as a
  \<open>HostAgent\<close>.
\<close>

section \<open>Digests\<close>

text \<open>
  \<open>digestFile\<close> streams the file through the hash; the digest is that of the whole contents.
  Opening is one call, reading another.
\<close>

definition digestFile :: "string \<Rightarrow> ('x host, string) go" where
  "digestFile path =
     bindG (wrapG (''open artifact '' @ Quote path) (sys OsOpen path (at_resolved ''open'' path (node_of ''open'' path)))) (\<lambda>_.
     bindG (wrapG (''digest artifact '' @ Quote path) (os_ReadFile path)) (\<lambda>contents.
     returnG (hex_string (sha256 contents))))"

definition addArtifactChecksums :: "artifact_result \<Rightarrow> ('x host, artifact_result) go" where
  "addArtifactChecksums result =
     (if Art_Paths result = [] then failG (sentinel_err ErrInvalidRequest)
      else bindG (collectG digestFile (Art_Paths result)) (\<lambda>digests. returnG (result\<lparr>Art_SHA256s := digests\<rparr>)))"

section \<open>The methods\<close>

text \<open>A Go map built by assignment in a loop: a later file of the same name replaces the earlier one.\<close>

definition file_map :: "artifact_file list \<Rightarrow> (string \<times> byte list) list" where
  "file_map fs = foldl (\<lambda>acc f. AList.update (File_Name f) (File_Content f) acc) [] fs"

definition PrepareRootDisk :: "'x executor \<Rightarrow> mutation \<Rightarrow> root_disk_request \<Rightarrow> ('x world, artifact_result) go" where
  "PrepareRootDisk e m request =
     bindG (checkG (Mutation_Validate m)) (\<lambda>_.
     bindG (case Ex_Manifest e of
              None \<Rightarrow> returnG (RootReq_SourceImage request)
            | Some man \<Rightarrow> bindG (liftG (Manifest_Image man (RootReq_SourceImage request))) (\<lambda>img. returnG (IF_Path img))) (\<lambda>source.
     bindG (begin_op e m ''PrepareRootDisk'' []) (\<lambda>op.
     if Op_State op = OperationCompleted then
       bindG (liftG (Env_DecodeArtifact (Ex_Env e) (Op_Result op))) (\<lambda>result.
       if length (Art_Paths result) \<noteq> 1 \<or> length (Art_SHA256s result) \<noteq> 1
       then failG (plain_err ''invalid completed root-disk artifact result'') else returnG result)
     else
       bindG (hostG (Builder_PrepareRootDisk (Ex_Artifacts e) (RootReq_Name request) source)) (\<lambda>path.
       bindG (hostG (addArtifactChecksums \<lparr>Art_Paths = [path], Art_SHA256s = []\<rparr>)) (\<lambda>result.
       bindG (complete_op e m ''PrepareRootDisk'' (Op_RequestHash op) OperationCompleted
                (Env_EncodeArtifact (Ex_Env e) result) []) (\<lambda>_.
       returnG result))))))"

text \<open>
  The error of decoding a replayed result is dropped: text that is not JSON leaves the zero value. (A
  value of another type in one field would leave the other field set; the journal holds only results
  this method has encoded.)
\<close>

definition PrepareCIDATA :: "'x executor \<Rightarrow> mutation \<Rightarrow> string \<Rightarrow> artifact_file list \<Rightarrow> ('x world, artifact_result) go" where
  "PrepareCIDATA e m name fs =
     bindG (checkG (Mutation_Validate m)) (\<lambda>_.
     bindG (begin_op e m ''PrepareCIDATA'' []) (\<lambda>op.
     if Op_State op = OperationCompleted then
       returnG (case Env_DecodeArtifact (Ex_Env e) (Op_Result op) of Inl _ \<Rightarrow> zero_artifact_result | Inr r \<Rightarrow> r)
     else
       bindG (hostG (Builder_PrepareCIDATA (Ex_Artifacts e) name (file_map fs))) (\<lambda>c.
       let response = \<lparr>Art_Paths = [CI_Path c], Art_SHA256s = [CI_SHA256 c]\<rparr> in
       bindG (complete_op e m ''PrepareCIDATA'' (Op_RequestHash op) OperationCompleted
                (Env_EncodeArtifact (Ex_Env e) response) []) (\<lambda>_.
       returnG response))))"

definition PrepareConfext :: "'x executor \<Rightarrow> mutation \<Rightarrow> string \<Rightarrow> artifact_file list \<Rightarrow> ('x world, artifact_result) go" where
  "PrepareConfext e m name fs =
     bindG (checkG (Mutation_Validate m)) (\<lambda>_.
     if name = [] \<or> fs = [] then failG (sentinel_err ErrInvalidRequest)
     else
       bindG (begin_op e m ''PrepareConfext'' []) (\<lambda>op.
       if Op_State op = OperationCompleted then liftG (Env_DecodeArtifact (Ex_Env e) (Op_Result op))
       else
         let staging = Join (B_Root (Ex_Artifacts e)) (name @ ''-confext'');
             output = Join (B_Root (Ex_Artifacts e)) (name @ ''-data'') in
         bindG (hostG (WriteTree (file_map fs) staging)) (\<lambda>_.
         bindG (hostG (BuildRaws (Env_Exec (Ex_Env e)) staging output)) (\<lambda>paths.
         bindG (hostG (collectG digestFile paths)) (\<lambda>digests.
         let result = \<lparr>Art_Paths = paths, Art_SHA256s = digests\<rparr> in
         bindG (complete_op e m ''PrepareConfext'' (Op_RequestHash op) OperationCompleted
                  (Env_EncodeArtifact (Ex_Env e) result) []) (\<lambda>_.
         returnG result))))))"

section \<open>The executor as a host agent\<close>

definition executor_agent :: "'x executor \<Rightarrow> 'x world host_agent" where
  "executor_agent e = \<lparr>
     HA_Health = Health e, HA_EnsureVM = EnsureVM e, HA_GetVM = GetVM e, HA_StopVM = StopVM e, HA_DeleteVM = DeleteVM e,
     HA_EnsureNetwork = EnsureNetwork e, HA_DeleteNetwork = DeleteNetwork e, HA_EnsurePort = EnsurePort e,
     HA_DeletePort = DeletePort e, HA_AllocateIP = AllocateIP e, HA_ReleaseIP = ReleaseIP e,
     HA_PublishPort = PublishPort e, HA_ReleasePort = ReleasePort e, HA_Diagnostics = Diagnostics e,
     HA_AcquireProbe = AcquireProbe e, HA_ReleaseProbe = ReleaseProbe e, HA_PrepareRootDisk = PrepareRootDisk e,
     HA_PrepareCIDATA = PrepareCIDATA e, HA_PrepareConfext = PrepareConfext e\<rparr>"

section \<open>Every method respects the store's relations\<close>

text \<open>
  The contract of a host agent: whatever relation \<open>R\<close> on states holds across each method
  called for owner \<open>ow\<close>, succeeding or failing.
\<close>

definition agent_respects :: "('s \<Rightarrow> 's \<Rightarrow> bool) \<Rightarrow> (string \<times> string \<Rightarrow> bool) \<Rightarrow> 's host_agent \<Rightarrow> bool" where
  "agent_respects R mine a \<longleftrightarrow>
     steps R (HA_Health a) \<and>
     (\<forall>ow. steps R (HA_GetVM a ow) \<and> steps R (HA_Diagnostics a ow)) \<and>
     (\<forall>m. mine (owner_key m) \<longrightarrow>
        (\<forall>d. steps R (HA_EnsureVM a m d)) \<and> steps R (HA_StopVM a m) \<and> steps R (HA_DeleteVM a m) \<and>
        (\<forall>r. steps R (HA_EnsureNetwork a m r)) \<and> steps R (HA_DeleteNetwork a m) \<and>
        (\<forall>r. steps R (HA_EnsurePort a m r)) \<and> steps R (HA_DeletePort a m) \<and>
        steps R (HA_AllocateIP a m) \<and> (\<forall>ip. steps R (HA_ReleaseIP a m ip)) \<and>
        (\<forall>g h. steps R (HA_PublishPort a m g h)) \<and> (\<forall>g h. steps R (HA_ReleasePort a m g h)) \<and>
        (\<forall>n. steps R (HA_AcquireProbe a m n)) \<and> (\<forall>l. steps R (HA_ReleaseProbe a m l)) \<and>
        (\<forall>r. steps R (HA_PrepareRootDisk a m r)) \<and> (\<forall>n fs. steps R (HA_PrepareCIDATA a m n fs)) \<and>
        (\<forall>n fs. steps R (HA_PrepareConfext a m n fs)))"

context executor_relation
begin

lemma ignoring_steps [intro!]: "steps (on_db R) m \<Longrightarrow> steps (on_db R) (ignoring k m)"
  unfolding ignoring_def by auto

lemma Health_steps: "steps (on_db R) (Health e)"
  unfolding Health_def by auto

lemma GetVM_steps: "steps (on_db R) (GetVM e ow)"
  unfolding GetVM_def by (auto intro!: reads_steps)

lemma Diagnostics_steps: "steps (on_db R) (Diagnostics e ow)"
  unfolding Diagnostics_def by (auto intro!: GetVM_steps)

lemma EnsureNetwork_steps: "steps (on_db R) (EnsureNetwork e m r)"
  unfolding EnsureNetwork_def Let_def by (auto split: prod.split)

lemma DeleteNetwork_steps: "steps (on_db R) (DeleteNetwork e m)"
  unfolding DeleteNetwork_def by auto

lemma owned_resource_steps [intro!]: "steps (on_db R) (owned_resource e m)"
  unfolding owned_resource_def by (auto intro!: reads_steps)

lemma AllocateIP_steps: "steps (on_db R) (AllocateIP e m)"
  unfolding AllocateIP_def by auto

lemma ReleaseIP_steps: "steps (on_db R) (ReleaseIP e m ip)"
  unfolding ReleaseIP_def by auto

lemma EnsurePort_steps: "mine (owner_key m) \<Longrightarrow> steps (on_db R) (EnsurePort e m r)"
  unfolding EnsurePort_def Let_def by (auto intro!: reads_steps UpsertNetworkResource_steps simp: nr_key_def)

lemma DeletePort_steps: "mine (owner_key m) \<Longrightarrow> steps (on_db R) (DeletePort e m)"
  unfolding DeletePort_def release_mapping_def
  by (auto intro!: reads_steps DeletePublishedPort_steps DeleteNetworkResource_steps)

lemma PublishPort_steps: "mine (owner_key m) \<Longrightarrow> steps (on_db R) (PublishPort e m g h)"
  unfolding PublishPort_def by (auto intro!: reads_steps UpsertPublishedPort_steps)

lemma ReleasePort_steps: "mine (owner_key m) \<Longrightarrow> steps (on_db R) (ReleasePort e m g h)"
  unfolding ReleasePort_def by (auto intro!: reads_steps DeletePublishedPort_steps)

lemma boot_vm_steps [intro!]: "steps (on_db R) (boot_vm e m d)"
  unfolding boot_vm_def Let_def by (auto intro!: reads_steps)

lemma bring_up_steps [intro!]: "steps (on_db R) (bring_up e m d)"
  unfolding bring_up_def Let_def by (auto intro!: reads_steps)

lemma install_vm_unit_steps [intro!]: "steps (on_db R) (install_vm_unit e m d)"
  unfolding install_vm_unit_def by auto

lemma EnsureVM_steps: "mine (owner_key m) \<Longrightarrow> steps (on_db R) (EnsureVM e m d)"
  unfolding EnsureVM_def Let_def by (auto intro!: GetVM_steps UpsertVM_steps simp: vm_row_def vm_key_def)

lemma StopVM_steps: "mine (owner_key m) \<Longrightarrow> steps (on_db R) (StopVM e m)"
  unfolding StopVM_def by (auto intro!: reads_steps)

lemma DeleteVM_steps: "mine (owner_key m) \<Longrightarrow> steps (on_db R) (DeleteVM e m)"
  unfolding DeleteVM_def by (auto intro!: reads_steps StopVM_steps DeletePort_steps Store_DeleteVM_steps)

lemma probe_steps: "steps (on_db R) (AcquireProbe e m n)" "steps (on_db R) (ReleaseProbe e m l)"
  by (simp_all add: AcquireProbe_def ReleaseProbe_def)

lemma PrepareRootDisk_steps: "mine (owner_key m) \<Longrightarrow> steps (on_db R) (PrepareRootDisk e m r)"
  unfolding PrepareRootDisk_def by auto

lemma PrepareCIDATA_steps: "mine (owner_key m) \<Longrightarrow> steps (on_db R) (PrepareCIDATA e m n fs)"
  unfolding PrepareCIDATA_def Let_def by auto

lemma PrepareConfext_steps: "mine (owner_key m) \<Longrightarrow> steps (on_db R) (PrepareConfext e m n fs)"
  unfolding PrepareConfext_def Let_def by auto

lemmas method_steps = Health_steps GetVM_steps Diagnostics_steps EnsureNetwork_steps DeleteNetwork_steps
  AllocateIP_steps ReleaseIP_steps EnsurePort_steps DeletePort_steps PublishPort_steps ReleasePort_steps
  EnsureVM_steps StopVM_steps DeleteVM_steps probe_steps PrepareRootDisk_steps PrepareCIDATA_steps PrepareConfext_steps

lemma executor_respects: "agent_respects (on_db R) mine (executor_agent e)"
  unfolding agent_respects_def executor_agent_def by (auto intro!: method_steps)

end

interpretation ex_schema: executor_relation keeps_tables_ok "\<lambda>_. True" ..

interpretation ex_forward: executor_relation journal_forward "\<lambda>_. True" ..

interpretation ex_others: executor_relation "same_others o'" "\<lambda>p. p = o'" for o' ..

text \<open>
  The database invariant. Every method of the executor, for every request and every failure
  of the engine, the file system or a daemon, keeps the tables well formed: unique keys, one VM
  per unit and one owner per port in an installation, host ports published at most once and in
  range, and journal rows that carry an outcome only in a terminal state. The constraints are those of
  the schema, which every statement of the engine enforces.
\<close>

theorem executor_keeps_schema: "agent_respects (on_db keeps_tables_ok) (\<lambda>_. True) (executor_agent e)"
  by (rule ex_schema.executor_respects)

text \<open>
  C13: the journal only moves forward. No method ever drops a journal row, changes what it
  identifies, or alters a recorded outcome.
\<close>

theorem executor_journal_forward: "agent_respects (on_db journal_forward) (\<lambda>_. True) (executor_agent e)"
  by (rule ex_forward.executor_respects)

text \<open>
  C11: owners are isolated. A method called for one owner of one installation leaves every
  inventory row of every other owner exactly as it was, in the same order, whether the call
  succeeds or fails.
\<close>

theorem executor_isolates_owners: "agent_respects (on_db (same_others ow)) (\<lambda>p. p = ow) (executor_agent e)"
  by (rule ex_others.executor_respects)

end
