(* ===== verification/ExecutorJournal.thy ===== *)
theory ExecutorJournal
  imports ExecutorArtifacts
begin

text \<open>
  What the journal gives the executor's methods: a mutation is carried out at most once under
  its key, a repetition returns the recorded outcome without touching the host, and a recorded
  failure is final. The hashed request document is injective, so two requests share a hash only if
  they are the same request or SHA-256 collides.
\<close>

section \<open>Runs on the parts of the world\<close>

lemma dbG_eq: "dbG m w = (r, w') \<longleftrightarrow> (\<exists>s. m (db w) = (r, s) \<and> w' = w\<lparr>db := s\<rparr>)"
  by (auto simp: dbG_def onG_def split: prod.splits)

lemma hostG_eq: "hostG m w = (r, w') \<longleftrightarrow> (\<exists>h. m (host w) = (r, h) \<and> w' = w\<lparr>host := h\<rparr>)"
  by (auto simp: hostG_def onG_def split: prod.splits)

lemma storeG_Inr: "storeG e m w = (Inr x, w') \<longleftrightarrow> Ex_Store e \<and> (\<exists>s. m (db w) = (Inr x, s) \<and> w' = w\<lparr>db := s\<rparr>)"
  by (auto simp: storeG_def dbG_eq)

lemma storeG_run: "Ex_Store e \<Longrightarrow> storeG e m w = (case m (db w) of (r, s) \<Rightarrow> (r, w\<lparr>db := s\<rparr>))"
  by (simp add: storeG_def dbG_def onG_def)

lemma netG_run: "Ex_Network e = Some c \<Longrightarrow> netG e f w = (case f c (host w) of (r, h) \<Rightarrow> (r, w\<lparr>host := h\<rparr>))"
  by (simp add: netG_def hostG_def onG_def)

lemma nowG_run [simp]: "bindG (nowG e) k w = k (Env_Now (Ex_Env e) (host w)) w"
  by (simp add: nowG_def readG_def run_bind)

lemma storeG_host: "storeG e m w = (r, w') \<Longrightarrow> host w' = host w"
  by (auto simp: storeG_def dbG_eq split: if_splits)

section \<open>Recorded requests\<close>

abbreviation tables_of :: "'x world \<Rightarrow> tables" where
  "tables_of w \<equiv> st_tables (db w)"

definition recorded :: "mutation \<Rightarrow> string \<Rightarrow> json list \<Rightarrow> tables \<Rightarrow> operation \<Rightarrow> bool" where
  "recorded m kind inputs t r \<longleftrightarrow>
     select_row op_key (Owner_InstallationID (Mut_Owner m), Owner_UID (Mut_Owner m), Mut_IdempotencyKey m) (operation_journal t) = Some r \<and>
     same_request r (journal_operation m kind (operationHash kind m inputs))"

lemma op_key_journal [simp]:
  "op_key (journal_operation m kind hash) = (Owner_InstallationID (Mut_Owner m), Owner_UID (Mut_Owner m), Mut_IdempotencyKey m)"
  by (simp add: op_key_def journal_operation_def)

lemma operationHash_nonempty [simp]: "operationHash kind m inputs \<noteq> []"
  by (metis length_0_conv length_hex_string length_sha256 mult_is_0 operationHash_def zero_neq_numeral)

lemma journal_operation_valid:
  "Mutation_Validate m = None \<Longrightarrow> kind \<noteq> [] \<Longrightarrow> hash \<noteq> [] \<Longrightarrow> validateOperation (journal_operation m kind hash) = None"
  by (auto simp: validateOperation_def journal_operation_def Mutation_Validate_None Owner_Validate_None)

lemma begin_op_Inr:
  assumes "begin_op e m kind inputs w = (Inr r, w')"
  shows "recorded m kind inputs (tables_of w') r" "host w' = host w" "Op_RequestHash r = operationHash kind m inputs"
proof -
  from assms obtain fin s where b: "BeginOperation (Env_Now (Ex_Env e) (host w))
      (journal_operation m kind (operationHash kind m inputs)) (db w) = (Inr (r, fin), s)" and w': "w' = w\<lparr>db := s\<rparr>"
    by (auto simp: begin_op_def catchG_case_eq storeG_Inr split: if_splits)
  note stored = BeginOperation_stored [OF b]
  from stored(1,2) w' show "recorded m kind inputs (tables_of w') r" by (simp add: recorded_def)
  from w' show "host w' = host w" by simp
  from stored(2) show "Op_RequestHash r = operationHash kind m inputs" by (simp add: same_request_def journal_operation_def)
qed

lemma complete_op_Inr:
  assumes "complete_op e m kind (operationHash kind m inputs) state result failure w = (Inr (), w')"
  shows "\<exists>r. recorded m kind inputs (tables_of w') r \<and> Op_State r = state \<and> Op_Result r = result \<and> Op_Failure r = failure"
    and "host w' = host w"
  using assms CompleteOperation_recorded by (fastforce simp: complete_op_def storeG_Inr recorded_def)+

lemma recorded_forward:
  assumes "recorded m kind inputs t r" and "terminal r" and "journal_forward t u"
  shows "recorded m kind inputs u r"
  using assms unfolding recorded_def journal_forward_def row_forward_def by (metis (no_types))

lemma begin_op_replay:
  assumes "recorded m kind inputs (tables_of w) r" and "healthy (db w)" and "Ex_Store e"
    and "Mutation_Validate m = None" and "kind \<noteq> []"
  shows "\<exists>w'. begin_op e m kind inputs w = (Inr r, w') \<and> host w' = host w \<and> tables_of w' = tables_of w \<and> healthy (db w')"
  using assms
  by (simp add: begin_op_def catchG_def storeG_run BeginOperation_healthy journal_operation_valid recorded_def)

section \<open>Stopping a VM\<close>

lemma StopVM_Inr:
  assumes "StopVM e m w = (Inr (), w')"
  shows "\<exists>r. recorded m ''StopVM'' [] (tables_of w') r \<and> Op_State r = OperationCompleted"
    and "Mutation_Validate m = None" and "Ex_Store e" and "Ex_Systemd e \<noteq> None"
proof -
  from assms obtain op w1 where v: "Mutation_Validate m = None" and st: "Ex_Store e" "Ex_Systemd e \<noteq> None"
    and b: "begin_op e m ''StopVM'' [] w = (Inr op, w1)"
    and rest: "Op_State op = OperationCompleted \<and> w' = w1 \<or>
      (\<exists>res u. complete_op e m ''StopVM'' (Op_RequestHash op) OperationCompleted res [] u = (Inr (), w'))"
    by (auto simp: StopVM_def bindG_eq_Inr catchG_case_eq split: if_split_asm)
  from v st show "Mutation_Validate m = None" "Ex_Store e" "Ex_Systemd e \<noteq> None" by simp_all
  show "\<exists>r. recorded m ''StopVM'' [] (tables_of w') r \<and> Op_State r = OperationCompleted"
    using rest begin_op_Inr [OF b] complete_op_Inr(1) by metis
qed

text \<open>
  Stopping is idempotent. After \<open>StopVM\<close> succeeded once, the same request, at any
  later time and whatever the agent has done in between, succeeds again without contacting
  systemd, Cloud Hypervisor or the file system and without changing a row.
\<close>

theorem StopVM_idempotent:
  assumes "StopVM e m w = (Inr (), w1)" and "journal_forward (tables_of w1) (tables_of w2)" and "healthy (db w2)"
  shows "\<exists>w3. StopVM e m w2 = (Inr (), w3) \<and> host w3 = host w2 \<and> tables_of w3 = tables_of w2"
proof -
  note ok = StopVM_Inr [OF assms(1)]
  from ok(1) obtain r where r: "recorded m ''StopVM'' [] (tables_of w1) r" "Op_State r = OperationCompleted" by blast
  have "recorded m ''StopVM'' [] (tables_of w2) r"
    by (rule recorded_forward [OF r(1) _ assms(2)]) (simp add: terminal_def r(2))
  from begin_op_replay [OF this assms(3) ok(3,2)] obtain w3 where
    "begin_op e m ''StopVM'' [] w2 = (Inr r, w3)" "host w3 = host w2" "tables_of w3 = tables_of w2" by auto
  with ok r(2) show ?thesis by (simp add: StopVM_def run_bind)
qed

text \<open>
  A failed stop is final for its key. If the journal records that this \<open>StopVM\<close>
  failed, every repetition of the request fails as unavailable with the recorded text, and the
  unit is not stopped: nothing on the host changes.
\<close>

theorem StopVM_failure_sticky:
  assumes "recorded m ''StopVM'' [] (tables_of w) r" and "Op_State r = OperationFailed" and "healthy (db w)"
    and "Mutation_Validate m = None" and "Ex_Store e" and "Ex_Systemd e \<noteq> None"
  shows "\<exists>w'. StopVM e m w = (Inl (detail_err ErrUnavailable (''prior StopVM failed: '' @ Op_Failure r)), w') \<and>
    host w' = host w \<and> tables_of w' = tables_of w"
proof -
  from begin_op_replay [OF assms(1,3,5,4)] obtain w1 where
    "begin_op e m ''StopVM'' [] w = (Inr r, w1)" "host w1 = host w" "tables_of w1 = tables_of w" by auto
  with assms show ?thesis by (auto simp: StopVM_def run_bind)
qed

section \<open>A working journal\<close>

lemma one_intent_row:
  assumes "distinct (map op_key rows)" and "select_row op_key k rows = Some r" and "Op_State r = OperationIntent"
  shows "length (filter (\<lambda>r. op_key r = k \<and> Op_State r = OperationIntent) rows) = 1"
  using assms
proof (induction rows)
  case (Cons x rows)
  show ?case
  proof (cases "op_key x = k")
    case True
    with Cons.prems(1) have "\<forall>y\<in>set rows. op_key y \<noteq> k" by (auto simp: image_iff)
    then have "filter (\<lambda>r. op_key r = k \<and> Op_State r = OperationIntent) rows = []" by (simp add: filter_empty_conv)
    with True Cons.prems show ?thesis by simp
  next
    case False
    with Cons show ?thesis by simp
  qed
qed simp

lemma CompleteOperation_healthy:
  assumes "healthy s" and "validateOperation op = None" and "distinct (map op_key (operation_journal (st_tables s)))"
    and "select_row op_key (op_key op) (operation_journal (st_tables s)) = Some r" and "same_request r op"
    and "Op_State r = OperationIntent" and "state = OperationCompleted \<or> state = OperationFailed"
  shows "\<exists>t. CompleteOperation now op state result failure s = (Inr (), t) \<and> healthy t \<and>
    st_tables t = (st_tables s)\<lparr>operation_journal :=
      snd (complete_rows now op state result failure (operation_journal (st_tables s)))\<rparr>"
proof -
  obtain s1 where b: "BeginOperation now op s = (Inr (r, False), s1)" and s1: "st_tables s1 = st_tables s" "healthy s1"
    using assms by (simp add: BeginOperation_healthy terminal_def)
  have one: "fst (complete_rows now op state result failure (operation_journal (st_tables s))) = 1"
    using one_intent_row [OF assms(3,4,6)] by (simp add: complete_rows_def)
  show ?thesis
    using assms(6,7) s1 one
    by (auto simp: CompleteOperation_def run_bind b run_wrap sql_exec_healthy case_prod_beta Let_def)
qed

lemma complete_op_healthy:
  assumes "recorded m kind inputs (tables_of w) r" and "Op_State r = OperationIntent" and "healthy (db w)" and "Ex_Store e"
    and "Mutation_Validate m = None" and "kind \<noteq> []" and "distinct (map op_key (operation_journal (tables_of w)))"
    and "state = OperationCompleted \<or> state = OperationFailed"
  shows "\<exists>w'. complete_op e m kind (operationHash kind m inputs) state result failure w = (Inr (), w') \<and> host w' = host w \<and> healthy (db w')"
proof -
  let ?op = "journal_operation m kind (operationHash kind m inputs)"
  have "select_row op_key (op_key ?op) (operation_journal (tables_of w)) = Some r" "same_request r ?op"
    using assms(1) by (simp_all add: recorded_def)
  from CompleteOperation_healthy [OF assms(3) journal_operation_valid [OF assms(5,6) operationHash_nonempty] assms(7) this assms(2,8)]
  obtain t where "CompleteOperation (Env_Now (Ex_Env e) (host w)) ?op state result failure (db w) = (Inr (), t)" "healthy t" by blast
  with assms(4) show ?thesis by (simp add: complete_op_def storeG_run run_wrap)
qed

lemma begin_op_new:
  assumes "healthy (db w)" and "Ex_Store e" and "Mutation_Validate m = None" and "kind \<noteq> []"
    and "select_row op_key (Owner_InstallationID (Mut_Owner m), Owner_UID (Mut_Owner m), Mut_IdempotencyKey m)
           (operation_journal (tables_of w)) = None"
    and "distinct (map op_key (operation_journal (tables_of w)))"
  shows "\<exists>r w'. begin_op e m kind inputs w = (Inr r, w') \<and> recorded m kind inputs (tables_of w') r \<and>
    Op_State r = OperationIntent \<and> host w' = host w \<and> healthy (db w') \<and>
    distinct (map op_key (operation_journal (tables_of w'))) \<and>
    tables_of w' = (tables_of w)\<lparr>operation_journal := operation_journal (tables_of w) @ [r]\<rparr>"
proof -
  let ?op = "journal_operation m kind (operationHash kind m inputs)"
  let ?r = "intent_row (Env_Now (Ex_Env e) (host w)) ?op"
  have key: "op_key ?r = op_key ?op" by (simp add: op_key_def intent_row_def)
  have fresh: "op_key ?r \<notin> set (map op_key (operation_journal (tables_of w)))"
    using assms(5) key by (simp add: select_row_None_iff)
  have same: "same_request ?r ?op" by (simp add: same_request_def intent_row_def)
  have sel: "select_row op_key (op_key ?op) (operation_journal (tables_of w) @ [?r]) = Some ?r"
    using assms(5) key by (simp add: select_row_append)
  show ?thesis
    using assms(1,2,5,6) journal_operation_valid [OF assms(3,4) operationHash_nonempty] fresh same sel
    by (intro exI [of _ ?r]) (simp add: begin_op_def catchG_def storeG_run BeginOperation_healthy recorded_def intent_row_def)
qed

section \<open>A concrete executor\<close>

definition sample_mutation :: mutation where
  "sample_mutation = \<lparr>Mut_ProtocolMajor = 1, Mut_Owner = \<lparr>Owner_InstallationID = ''i'', Owner_NodeID = ''n'', Owner_UID = ''u''\<rparr>,
     Mut_Generation = 1, Mut_IdempotencyKey = ''k'', Mut_RetainDisk = False\<rparr>"

definition sample_systemd :: "unit systemd_client" where
  "sample_systemd = \<lparr>SC_Reload = returnG (), SC_EnableUnitFiles = (\<lambda>_. returnG ()),
     SC_StartUnit = (\<lambda>n. returnG \<lparr>Unit_Name = n, Unit_Path = ''/u'', Unit_PID = 42\<rparr>),
     SC_StartTransientUnit = (\<lambda>n _. returnG \<lparr>Unit_Name = n, Unit_Path = ''/u'', Unit_PID = 42\<rparr>),
     SC_StopUnit = (\<lambda>_. returnG ()),
     SC_GetUnit = (\<lambda>n. returnG \<lparr>Unit_Name = n, Unit_Path = ''/u'', Unit_PID = 42\<rparr>), SC_ListUnits = returnG []\<rparr>"

definition sample_network :: "unit network_client" where
  "sample_network = \<lparr>NC_CreateNetwork = (\<lambda>_ _ _ _ _. returnG ()), NC_DeleteNetwork = (\<lambda>_. returnG ()),
     NC_CreatePort = (\<lambda>_. returnG ()), NC_DeletePort = (\<lambda>_. returnG ()), NC_AttachPort = (\<lambda>_ _ _. returnG ()),
     NC_DetachPort = (\<lambda>_. returnG ()), NC_AllocateIP = (\<lambda>_ _. returnG ''10.0.0.5''), NC_ReleaseIP = (\<lambda>_ _. returnG ()),
     NC_PublishPort = (\<lambda>_ _. returnG 30000), NC_UnpublishPort = (\<lambda>_ _. returnG ())\<rparr>"

definition sample_env :: "unit surroundings" where
  "sample_env = \<lparr>Env_Now = (\<lambda>_. 7),
     Env_HTTP = \<lparr>http_Do = (\<lambda>_ _. returnG \<lparr>Resp_Status = 204, Resp_Body = [], Resp_ReadError = None\<rparr>),
       http_decode_info = (\<lambda>_. Inr ''Running'')\<rparr>,
     Env_Select = returnG Tick, Env_Exec = (\<lambda>_ _. returnG []),
     Env_EncodeArtifact = (\<lambda>r. concat (Art_Paths r)), Env_DecodeArtifact = (\<lambda>s. Inr \<lparr>Art_Paths = [s], Art_SHA256s = [s]\<rparr>)\<rparr>"

definition sample_executor :: "unit executor" where
  "sample_executor = \<lparr>Ex_Store = True, Ex_Systemd = Some sample_systemd, Ex_Artifacts = sample_builder, Ex_Network = Some sample_network,
     Ex_NodeID = ''n'', Ex_CloudHypervisor = ''/ch'', Ex_K8netdSocket = ''/s'', Ex_KVMPath = ''/kvm'', Ex_UnitDir = ''/u'',
     Ex_FirmwareRoot = ''/fw'', Ex_BaseImageRoot = ''/img'', Ex_Manifest = None, Ex_Env = sample_env\<rparr>"

definition sample_world :: "unit world" where
  "sample_world = \<lparr>db = empty_store, host = disk_host\<rparr>"

lemma sample_simps [simp]:
  "Mutation_Validate sample_mutation = None" "Ex_Store sample_executor" "Ex_Systemd sample_executor = Some sample_systemd"
  "Ex_Network sample_executor = Some sample_network" "healthy (db sample_world)" "tables_of sample_world = empty_tables"
  "Owner_Validate (Mut_Owner sample_mutation) = None"
  by (simp_all add: Mutation_Validate_None Owner_Validate_None sample_mutation_def ProtocolMajor_def sample_executor_def
      sample_world_def empty_store_def healthy_def working_sqlite_def)

lemma sample_StopVM: "\<exists>w1. StopVM sample_executor sample_mutation sample_world = (Inr (), w1) \<and> healthy (db w1)"
proof -
  have "\<exists>r w'. begin_op sample_executor sample_mutation ''StopVM'' [] sample_world = (Inr r, w') \<and>
      recorded sample_mutation ''StopVM'' [] (tables_of w') r \<and> Op_State r = OperationIntent \<and> host w' = host sample_world \<and> healthy (db w') \<and>
      distinct (map op_key (operation_journal (tables_of w'))) \<and>
      tables_of w' = (tables_of sample_world)\<lparr>operation_journal := operation_journal (tables_of sample_world) @ [r]\<rparr>"
    by (rule begin_op_new) (simp_all add: empty_tables_def)
  then obtain r w1 where b: "begin_op sample_executor sample_mutation ''StopVM'' [] sample_world = (Inr r, w1)"
    and rec: "recorded sample_mutation ''StopVM'' [] (tables_of w1) r" and st: "Op_State r = OperationIntent"
    and h: "healthy (db w1)" and d: "distinct (map op_key (operation_journal (tables_of w1)))"
    and t: "tables_of w1 = (tables_of sample_world)\<lparr>operation_journal := operation_journal (tables_of sample_world) @ [r]\<rparr>" by blast
  let ?w2 = "w1\<lparr>db := (db w1)\<lparr>st_calls := Suc (st_calls (db w1))\<rparr>\<rparr>"
  have none: "storeG sample_executor (Store_GetVM i u) w1 = (Inl (sentinel_err SqlErrNoRows), ?w2)" for i u
    using h t by (simp add: storeG_run Store_GetVM_def sql_row_healthy empty_tables_def)
  obtain w3 where "complete_op sample_executor sample_mutation ''StopVM'' (operationHash ''StopVM'' sample_mutation []) OperationCompleted ''absent'' [] ?w2 = (Inr (), w3)"
    "healthy (db w3)"
    using complete_op_healthy [of sample_mutation "''StopVM''" "[]" ?w2 r sample_executor OperationCompleted "''absent''" "[]"] rec st h d by auto
  with b none st begin_op_Inr(3) [OF b] show ?thesis by (simp add: StopVM_def run_bind catchG_def)
qed

theorem StopVM_idempotent_witness:
  "\<exists>w1 w3. StopVM sample_executor sample_mutation sample_world = (Inr (), w1) \<and>
     StopVM sample_executor sample_mutation w1 = (Inr (), w3) \<and> tables_of w3 = tables_of w1"
proof -
  obtain w1 where w1: "StopVM sample_executor sample_mutation sample_world = (Inr (), w1)" "healthy (db w1)"
    using sample_StopVM by blast
  from StopVM_idempotent [OF w1(1) forward.T_refl w1(2)] w1(1) show ?thesis by blast
qed

text \<open>A world whose journal records the failed stop.\<close>

definition with_journal :: "operation \<Rightarrow> unit world" where
  "with_journal r = sample_world\<lparr>db := empty_store\<lparr>st_tables := empty_tables\<lparr>operation_journal := [r]\<rparr>\<rparr>\<rparr>"

definition outcome :: "string \<Rightarrow> json list \<Rightarrow> operation_state \<Rightarrow> string \<Rightarrow> string \<Rightarrow> operation" where
  "outcome kind inputs state result failure = (journal_operation sample_mutation kind (operationHash kind sample_mutation inputs))
     \<lparr>Op_State := state, Op_Result := result, Op_Failure := failure\<rparr>"

lemma with_journal_simps [simp]:
  "recorded sample_mutation kind inputs (tables_of (with_journal (outcome kind inputs state result failure))) (outcome kind inputs state result failure)"
  "healthy (db (with_journal r))"
  "Op_State (outcome kind inputs state result failure) = state" "Op_Result (outcome kind inputs state result failure) = result"
  "Op_Failure (outcome kind inputs state result failure) = failure"
  by (simp_all add: recorded_def with_journal_def outcome_def same_request_def op_key_def journal_operation_def sample_mutation_def)

theorem StopVM_failure_sticky_witness:
  "\<exists>w'. StopVM sample_executor sample_mutation (with_journal (outcome ''StopVM'' [] OperationFailed [] ''timeout'')) =
     (Inl (detail_err ErrUnavailable ''prior StopVM failed: timeout''), w')"
  using StopVM_failure_sticky [of sample_mutation "with_journal (outcome ''StopVM'' [] OperationFailed [] ''timeout'')"
      "outcome ''StopVM'' [] OperationFailed [] ''timeout''" sample_executor] by simp blast

section \<open>The hashed document\<close>

lemma show_nat_separator:
  assumes "show_nat a @ c # r = show_nat b @ c' # t" and "\<not> is_digit c" and "\<not> is_digit c'"
  shows "a = b \<and> c # r = c' # t"
proof -
  have split: "takeWhile is_digit (show_nat n @ d # s) = show_nat n" "dropWhile is_digit (show_nat n @ d # s) = d # s"
    if "\<not> is_digit d" for n d s
    using show_nat_digits [of n] that by (auto simp: list_all_iff takeWhile_append dropWhile_append)
  from assms split show ?thesis by (metis show_nat_inject)
qed

lemma show_int_separator:
  assumes "show_int (uint a) @ CHR '','' # r = show_int (uint b) @ CHR '','' # t"
  shows "a = b \<and> r = t"
proof -
  have "show_nat (unat a) @ CHR '','' # r = show_nat (unat b) @ CHR '','' # t"
    using assms by (simp add: show_int_def flip: unat_eq_nat_uint)
  from show_nat_separator [OF this] have "unat a = unat b" "r = t" by (simp_all add: is_digit_def)
  then show ?thesis by (simp add: word_unat_eq_iff)
qed

lemma json_string_eq: "json_string v = json_string w \<longleftrightarrow> v = w"
  using json_string_inject [of v "[]" w "[]"] by simp

lemma hex_string_inject: "hex_string xs = hex_string ys \<Longrightarrow> xs = ys"
proof (induction xs arbitrary: ys)
  case Nil
  then show ?case by (cases ys) (simp_all add: hex_string_def hex_byte_def)
next
  case (Cons x xs)
  then obtain y ys' where ys: "ys = y # ys'" by (cases ys) (auto simp: hex_string_def hex_byte_def)
  with Cons.prems have "hex_byte x = hex_byte y" "hex_string xs = hex_string ys'"
    by (simp_all add: hex_string_def hex_byte_def)
  with Cons.IH ys hex_byte_inject show ?case by blast
qed

lemma hash_document_inject:
  assumes "hash_document kind m inputs = hash_document kind' m' inputs'"
  shows "kind = kind' \<and> m = m' \<and>
    Marshal (if inputs = [] then JNull else JArray inputs) = Marshal (if inputs' = [] then JNull else JArray inputs')"
proof -
  have eq: "kind = kind' \<and> Mut_ProtocolMajor m = Mut_ProtocolMajor m' \<and>
      Owner_InstallationID (Mut_Owner m) = Owner_InstallationID (Mut_Owner m') \<and>
      Owner_NodeID (Mut_Owner m) = Owner_NodeID (Mut_Owner m') \<and> Owner_UID (Mut_Owner m) = Owner_UID (Mut_Owner m') \<and>
      Mut_Generation m = Mut_Generation m' \<and> Mut_IdempotencyKey m = Mut_IdempotencyKey m' \<and> Mut_RetainDisk m = Mut_RetainDisk m' \<and>
      Marshal (if inputs = [] then JNull else JArray inputs) = Marshal (if inputs' = [] then JNull else JArray inputs')"
    using assms unfolding hash_document_def mutation_json_def
    by (simp add: json_string_inject)
      (auto dest!: show_int_separator simp: json_string_inject json_string_eq split: if_splits)
  then show ?thesis by simp
qed

text \<open>
  The request hash identifies the request. If SHA-256 does not collide on the two hashed
  documents, equal hashes mean the same kind and the same whole mutation, the owner, the
  generation, the key and the disk retention flag included, and inputs that are written the same.
\<close>

theorem operationHash_identifies:
  assumes "operationHash kind m inputs = operationHash kind' m' inputs'"
    and "inj_on sha256 {string_bytes (hash_document kind m inputs), string_bytes (hash_document kind' m' inputs')}"
  shows "kind = kind' \<and> m = m' \<and>
    Marshal (if inputs = [] then JNull else JArray inputs) = Marshal (if inputs' = [] then JNull else JArray inputs')"
proof (rule hash_document_inject)
  have "sha256 (string_bytes (hash_document kind m inputs)) = sha256 (string_bytes (hash_document kind' m' inputs'))"
    using assms(1) unfolding operationHash_def by (rule hex_string_inject)
  then have "string_bytes (hash_document kind m inputs) = string_bytes (hash_document kind' m' inputs')"
    by (rule inj_onD [OF assms(2)]) simp_all
  then have "bytes_string (string_bytes (hash_document kind m inputs)) = bytes_string (string_bytes (hash_document kind' m' inputs'))"
    by (rule arg_cong)
  then show "hash_document kind m inputs = hash_document kind' m' inputs'" unfolding bytes_string_bytes .
qed

theorem operationHash_identifies_witness:
  "\<exists>m. operationHash ''StopVM'' m [] = operationHash ''StopVM'' sample_mutation [] \<and> m = sample_mutation"
  using operationHash_identifies [of "''StopVM''" sample_mutation "[]" "''StopVM''" sample_mutation "[]"] by auto

end
