(* ===== verification/ExecutorPorts.thy ===== *)
theory ExecutorPorts
  imports ExecutorJournal
begin

text \<open>
  What the executor's network methods guarantee: address arithmetic of a network, ownership of
  ports, removal of a port with everything published on it, and stable host ports.
\<close>

section \<open>Networks\<close>

lemma Masked4_24: "Masked4 [a, b, c, d] 24 = [a, b, c, 0]"
proof -
  define W :: uint32 where "W = be32 [a, b, c, d] AND push_bit 8 (- 1)"
  have w: "bit W n \<longleftrightarrow> 8 \<le> n \<and> n < 32 \<and>
      (if n < 16 then bit c (n - 8) else if n < 24 then bit b (n - 16) else bit a (n - 24))" for n
  proof -
    have c: "\<not> bit x k" if "8 \<le> k" for x :: byte and k using that by (auto dest: bit_imp_le_length)
    show ?thesis by (auto simp: W_def be32_def bit_simps c)
  qed
  have "ucast (drop_bit 24 W) = a" "ucast (drop_bit 16 W) = b" "ucast (drop_bit 8 W) = c" "ucast W = (0 :: byte)"
    by (rule bit_word_eqI, simp add: bit_unsigned_iff bit_drop_bit_eq w)+
  then show ?thesis by (simp add: Masked4_def bytes32_def W_def)
qed

text \<open>
  The addresses of a network. For a valid request whose CIDR is an IPv4 \<open>/24\<close> prefix
  \<open>a.b.c.d/24\<close>, \<open>EnsureNetwork\<close> is one \<open>CreateNetwork\<close> call with gateway
  \<open>a.b.c.1\<close> and pool \<open>a.b.c.2\<close> to \<open>a.b.c.254\<close>, whatever the host part
  \<open>d\<close>; an existing network counts as success and any other error is reported.
\<close>

theorem EnsureNetwork_addresses:
  assumes "Mutation_Validate m = None" and "Ex_Network e = Some nc" and "NetReq_Name r \<noteq> []"
    and "ParsePrefix4 (NetReq_CIDR r) = Some ([a, b, c, d], 24)"
  shows "EnsureNetwork e m r w =
    (case NC_CreateNetwork nc (NetReq_Name r) (NetReq_CIDR r) (addr_string [a, b, c, 1]) (addr_string [a, b, c, 2])
        (addr_string [a, b, c, 254]) (host w) of
       (Inr _, h) \<Rightarrow> (Inr (), w\<lparr>host := h\<rparr>)
     | (Inl err, h) \<Rightarrow>
         (if errors_Is err NetAlreadyExists then Inr () else Inl (wrap_err ''ensure network'' err), w\<lparr>host := h\<rparr>))"
  using assms
  by (simp add: EnsureNetwork_def Masked4_24 with_last_def netG_run catchG_def Let_def split: prod.split sum.split)

theorem EnsureNetwork_addresses_witness:
  "EnsureNetwork sample_executor sample_mutation \<lparr>NetReq_Name = ''net'', NetReq_CIDR = ''10.1.2.77/24''\<rparr> sample_world =
     (Inr (), sample_world)"
proof -
  have "ParsePrefix4 (NetReq_CIDR \<lparr>NetReq_Name = ''net'', NetReq_CIDR = ''10.1.2.77/24''\<rparr>) = Some ([10, 1, 2, 77], 24)" by code_simp
  from EnsureNetwork_addresses [OF sample_simps(1,4) _ this, of sample_world] show ?thesis
    by (simp add: sample_network_def)
qed

section \<open>Ports\<close>

lemma storeG_read_healthy:
  assumes "healthy (db w)" and "Ex_Store e"
  shows "storeG e (sql_row q f) w =
    ((case f (tables_of w) of None \<Rightarrow> Inl (sentinel_err SqlErrNoRows) | Some x \<Rightarrow> Inr x),
     w\<lparr>db := (db w)\<lparr>st_calls := Suc (st_calls (db w))\<rparr>\<rparr>)"
  using assms by (simp add: storeG_run sql_row_healthy)

text \<open>
  A port belongs to one owner. If the inventory has a port of that name in the installation
  under another owner, or with another node, network or MAC address, \<open>EnsurePort\<close> is
  refused as a conflict without a call to k8netd and without changing a row.
\<close>

theorem EnsurePort_conflict:
  assumes "Mutation_Validate m = None" and "Ex_Network e \<noteq> None" and "Ex_Store e" and "healthy (db w)"
    and "PortReq_Name r \<noteq> []" and "PortReq_Network r \<noteq> []" and "PortReq_MAC r \<noteq> []"
    and "select_row (\<lambda>r. (NR_InstallationID r, NR_Port r)) (Owner_InstallationID (Mut_Owner m), PortReq_Name r)
           (network_resources (tables_of w)) = Some n"
    and "NR_OwnerUID n \<noteq> Owner_UID (Mut_Owner m) \<or> NR_NodeID n \<noteq> Owner_NodeID (Mut_Owner m) \<or>
         NR_Network n \<noteq> PortReq_Network r \<or> NR_MAC n \<noteq> PortReq_MAC r"
  shows "\<exists>err w'. EnsurePort e m r w = (Inl err, w') \<and> IsConflict err \<and> host w' = host w \<and> tables_of w' = tables_of w"
proof -
  have "storeG e (GetNetworkResourceByPort (Owner_InstallationID (Mut_Owner m)) (PortReq_Name r)) w =
      (Inr n, w\<lparr>db := (db w)\<lparr>st_calls := Suc (st_calls (db w))\<rparr>\<rparr>)"
    unfolding GetNetworkResourceByPort_def using assms(3,4,8) by (simp add: storeG_read_healthy)
  moreover have "\<exists>err. recorded_port m r n = Inl err \<and> IsConflict err"
    using assms(9) by (cases "NR_OwnerUID n = Owner_UID (Mut_Owner m)")
      (auto simp: recorded_port_def IsConflict_def port_owned_err_def port_identity_err_def)
  then obtain err where "recorded_port m r n = Inl err" "IsConflict err" by blast
  ultimately show ?thesis using assms(1-7) by (auto simp: EnsurePort_def run_bind catchG_def liftG_def)
qed

definition sample_resource :: network_resource where
  "sample_resource = \<lparr>NR_InstallationID = ''i'', NR_OwnerUID = ''u'', NR_NodeID = ''n'', NR_Network = ''net'', NR_Port = ''vm'',
     NR_MAC = ''c6:00:00:00:00:01'', NR_IP = ''10.1.2.3''\<rparr>"

definition port_world :: "published_port list \<Rightarrow> unit world" where
  "port_world ps = sample_world\<lparr>db := empty_store\<lparr>st_tables := empty_tables\<lparr>network_resources := [sample_resource], published_ports := ps\<rparr>\<rparr>\<rparr>"

lemma port_world_simps [simp]:
  "healthy (db (port_world ps))" "network_resources (tables_of (port_world ps)) = [sample_resource]"
  "published_ports (tables_of (port_world ps)) = ps" "operation_journal (tables_of (port_world ps)) = []"
  by (simp_all add: port_world_def empty_tables_def)

theorem EnsurePort_conflict_witness:
  "\<exists>err w'. EnsurePort sample_executor (sample_mutation\<lparr>Mut_Owner := (Mut_Owner sample_mutation)\<lparr>Owner_UID := ''other''\<rparr>\<rparr>)
     \<lparr>PortReq_Name = ''vm'', PortReq_Network = ''net'', PortReq_MAC = ''c6:00:00:00:00:01''\<rparr> (port_world []) = (Inl err, w') \<and>
     IsConflict err \<and> tables_of w' = tables_of (port_world [])"
proof -
  let ?m = "sample_mutation\<lparr>Mut_Owner := (Mut_Owner sample_mutation)\<lparr>Owner_UID := ''other''\<rparr>\<rparr>"
  have "Mutation_Validate ?m = None"
    by (simp add: Mutation_Validate_None Owner_Validate_None sample_mutation_def ProtocolMajor_def)
  from EnsurePort_conflict [OF this, of sample_executor "port_world []" "\<lparr>PortReq_Name = ''vm'', PortReq_Network = ''net'', PortReq_MAC = ''c6:00:00:00:00:01''\<rparr>" sample_resource]
  show ?thesis by (auto simp: sample_resource_def sample_mutation_def)
qed

section \<open>Deleting a port\<close>

lemma ignoring_Inr: "ignoring k m w = (Inr (), w') \<Longrightarrow> \<exists>r. m w = (r, w')"
  by (auto simp: ignoring_def catchG_case_eq split: if_splits)

lemma netG_db: "netG e f w = (r, w') \<Longrightarrow> db w' = db w"
  by (auto simp: netG_def hostG_eq split: option.splits)

lemma ignoring_net_db: "ignoring k (netG e f) w = (Inr (), w') \<Longrightarrow> db w' = db w"
  by (drule ignoring_Inr) (auto dest: netG_db)

lemma release_mapping_Inr:
  assumes "release_mapping e m port p w = (Inr (), w')"
  shows "published_ports (tables_of w') = delete_row pp_key (Owner_InstallationID (Mut_Owner m), Owner_UID (Mut_Owner m), PP_GuestPort p)
           (published_ports (tables_of w))"
proof -
  from assms obtain w1 s where n: "ignoring NetNotFound (netG e (\<lambda>c. NC_UnpublishPort c port (PP_GuestPort p))) w = (Inr (), w1)"
    and d: "DeletePublishedPort (Owner_InstallationID (Mut_Owner m)) (Owner_UID (Mut_Owner m)) (PP_GuestPort p) (db w1) = (Inr (), s)"
    and w': "w' = w1\<lparr>db := s\<rparr>"
    by (auto simp: release_mapping_def bindG_eq_Inr storeG_Inr)
  have "db w1 = db w" by (rule ignoring_net_db [OF n])
  with d w' port_table.del_ok [of "(Owner_InstallationID (Mut_Owner m), Owner_UID (Mut_Owner m), PP_GuestPort p)" "db w1" s]
  show ?thesis by simp
qed

lemma each_release_Inr:
  assumes "eachG (release_mapping e m port) ps w = (Inr (), w')"
  shows "set (published_ports (tables_of w')) \<subseteq>
    {p \<in> set (published_ports (tables_of w)). \<forall>q\<in>set ps. pp_key p \<noteq> (Owner_InstallationID (Mut_Owner m), Owner_UID (Mut_Owner m), PP_GuestPort q)}"
  using assms
proof (induction ps arbitrary: w)
  case (Cons p ps)
  from Cons.prems obtain w1 where w1: "release_mapping e m port p w = (Inr (), w1)" "eachG (release_mapping e m port) ps w1 = (Inr (), w')"
    by (auto simp: bindG_eq_Inr)
  from Cons.IH [OF w1(2)] release_mapping_Inr [OF w1(1)] show ?case by (auto simp: delete_row_def)
qed simp

lemma sql_rows_Inr:
  assumes "sql_rows a b c q f s = (Inr xs, t)"
  shows "xs = f (st_tables s)" "st_tables t = st_tables s"
proof -
  have each: "st_tables v = st_tables u" if "eachG (\<lambda>_. wrapG b (sql_ping QScanRow)) ys u = (Inr (), v)" for ys u v
    using that by (induction ys arbitrary: u) (fastforce simp: bindG_eq_Inr dest: sql_ping_cases)+
  from assms show "xs = f (st_tables s)" "st_tables t = st_tables s"
    by (auto simp: sql_rows_def bindG_eq_Inr sql_query_def dest!: sql_exec_Inr sql_ping_cases each)
qed

lemma DeletePort_gone:
  assumes "DeletePort e m w = (Inr (), w')" and "healthy (db w)"
  shows "select_row nr_key (owner_key m) (network_resources (tables_of w')) = None \<and>
    (select_row nr_key (owner_key m) (network_resources (tables_of w)) \<noteq> None \<longrightarrow>
       (\<forall>p\<in>set (published_ports (tables_of w')). (PP_InstallationID p, PP_OwnerUID p) \<noteq> owner_key m))"
proof -
  let ?i = "Owner_InstallationID (Mut_Owner m)" and ?u = "Owner_UID (Mut_Owner m)"
  let ?w1 = "w\<lparr>db := (db w)\<lparr>st_calls := Suc (st_calls (db w))\<rparr>\<rparr>"
  from assms(1) have st: "Ex_Store e" by (auto simp: DeletePort_def bindG_eq_Inr split: if_split_asm)
  have get: "storeG e (GetNetworkResource ?i ?u) w =
      ((case select_row nr_key (?i, ?u) (network_resources (tables_of w)) of None \<Rightarrow> Inl (sentinel_err SqlErrNoRows) | Some x \<Rightarrow> Inr x), ?w1)"
    unfolding GetNetworkResource_def using st assms(2) by (simp add: storeG_read_healthy)
  show ?thesis
  proof (cases "select_row nr_key (?i, ?u) (network_resources (tables_of w))")
    case None
    with assms(1) get have "tables_of w' = tables_of w"
      by (auto simp: DeletePort_def bindG_eq_Inr catchG_def split: if_split_asm)
    with None show ?thesis by simp
  next
    case (Some n)
    with assms(1) get obtain ps w2 w3 w4 w5 w6 where
      l: "storeG e (ListPublishedPorts ?i ?u) ?w1 = (Inr ps, w2)" and ea: "eachG (release_mapping e m (NR_Port n)) ps w2 = (Inr (), w3)"
      and n1: "ignoring NetNotFound (netG e (\<lambda>c. NC_ReleaseIP c (NR_Network n) (NR_MAC n))) w3 = (Inr (), w4)"
      and n2: "ignoring NetNotFound (netG e (\<lambda>c. NC_DetachPort c (NR_Port n))) w4 = (Inr (), w5)"
      and n3: "ignoring NetNotFound (netG e (\<lambda>c. NC_DeletePort c (NR_Port n))) w5 = (Inr (), w6)"
      and del: "storeG e (DeleteNetworkResource ?i ?u) w6 = (Inr (), w')"
      by (auto simp: DeletePort_def bindG_eq_Inr catchG_def split: if_split_asm)
    from l obtain s where s: "ListPublishedPorts ?i ?u (db ?w1) = (Inr ps, s)" "w2 = ?w1\<lparr>db := s\<rparr>" by (auto simp: storeG_Inr)
    note rows = sql_rows_Inr [OF s(1) [unfolded ListPublishedPorts_def]]
    from rows s(2) have ps: "set ps = {p \<in> set (published_ports (tables_of w)). (PP_InstallationID p, PP_OwnerUID p) = (?i, ?u)}"
      "published_ports (tables_of w2) = published_ports (tables_of w)"
      by auto
    have db6: "db w6 = db w3" using ignoring_net_db [OF n1] ignoring_net_db [OF n2] ignoring_net_db [OF n3] by simp
    have "set (published_ports (tables_of w3)) \<subseteq> {p \<in> set (published_ports (tables_of w)). (PP_InstallationID p, PP_OwnerUID p) \<noteq> (?i, ?u)}"
      using each_release_Inr [OF ea] ps by (auto simp: pp_key_def)
    moreover have "set (published_ports (tables_of w')) \<subseteq> set (published_ports (tables_of w6))"
      using del by (auto simp: storeG_Inr DeleteNetworkResource_def dest!: sql_exec_Inr split: if_splits)
    moreover have "network_resources (tables_of w') = delete_row nr_key (?i, ?u) (network_resources (tables_of w6))"
      using del network_table.del_ok by (fastforce simp: storeG_Inr)
    ultimately show ?thesis using db6 by (auto simp: select_delete_row)
  qed
qed

text \<open>
  Deleting a port removes all of it. After a successful \<open>DeletePort\<close> the owner has no
  network resource; and if there was one, no host port is left published for the owner either,
  even on a connection that does not enforce foreign keys.
\<close>

theorem DeletePort_removes:
  assumes "DeletePort e m w = (Inr (), w')" and "healthy (db w)"
  shows "select_row nr_key (owner_key m) (network_resources (tables_of w')) = None \<and>
    (select_row nr_key (owner_key m) (network_resources (tables_of w)) \<noteq> None \<longrightarrow>
       (\<forall>p\<in>set (published_ports (tables_of w')). (PP_InstallationID p, PP_OwnerUID p) \<noteq> owner_key m))"
  using assms by (rule DeletePort_gone)

lemma sample_ignoring: "f sample_network = returnG () \<Longrightarrow> ignoring k (netG sample_executor f) w = (Inr (), w)"
  by (simp add: ignoring_def catchG_def netG_run)

theorem DeletePort_removes_witness:
  "\<exists>w'. DeletePort sample_executor sample_mutation
       (port_world [\<lparr>PP_InstallationID = ''i'', PP_OwnerUID = ''u'', PP_GuestPort = 80, PP_HostPort = 30000\<rparr>]) = (Inr (), w') \<and>
     select_row nr_key (''i'', ''u'') (network_resources (tables_of w')) = None"
proof -
  let ?p = "\<lparr>PP_InstallationID = ''i'', PP_OwnerUID = ''u'', PP_GuestPort = 80, PP_HostPort = 30000\<rparr>"
  have own: "Owner_InstallationID (Mut_Owner sample_mutation) = ''i''" "Owner_UID (Mut_Owner sample_mutation) = ''u''"
    "Owner_NodeID (Mut_Owner sample_mutation) = ''n''" by (simp_all add: sample_mutation_def)
  have "\<exists>w'. DeletePort sample_executor sample_mutation (port_world [?p]) = (Inr (), w')"
    by (simp add: DeletePort_def own run_bind catchG_def storeG_run GetNetworkResource_def sql_row_healthy nr_key_def
        ListPublishedPorts_def sql_rows_def run_wrap order_by_def release_mapping_def sample_ignoring sample_network_def
        DeletePublishedPort_def sql_exec_healthy DeleteNetworkResource_def sample_resource_def)
  then obtain w' where w': "DeletePort sample_executor sample_mutation (port_world [?p]) = (Inr (), w')" by blast
  from DeletePort_removes [OF w'] w' own show ?thesis by auto
qed

section \<open>Publishing a port\<close>

text \<open>The journal calls touch no other table.\<close>

definition same_resources :: "tables \<Rightarrow> tables \<Rightarrow> bool" where
  "same_resources t u \<longleftrightarrow> operations u = operations t \<and> network_resources u = network_resources t \<and> vms u = vms t \<and>
     published_ports u = published_ports t"

abbreviation only_journal :: "store \<Rightarrow> store \<Rightarrow> bool" where
  "only_journal \<equiv> on_tables same_resources"

interpretation journal_only: go_preorder only_journal
  by unfold_locales (auto simp: on_tables_def same_resources_def)

lemma only_journal_exec:
  "(\<And>fk t x u. f fk t = Some (x, u) \<Longrightarrow> same_resources t u) \<Longrightarrow> steps only_journal (sql_exec q f)"
  by (rule stepsI) (auto simp: sql_exec_def Let_def on_tables_def same_resources_def split: option.splits)

lemma only_journal_ping [intro!]: "steps only_journal (sql_ping q)"
  unfolding sql_ping_def by (rule only_journal_exec) (auto simp: same_resources_def)

lemma only_journal_row [intro!]: "steps only_journal (sql_row q f)"
  unfolding sql_row_def sql_query_def
  by (intro journal_only.steps_bind only_journal_exec) (auto simp: same_resources_def)

lemma only_journal_transaction [intro!]: "steps only_journal m \<Longrightarrow> steps only_journal (transactionG m)"
  by (rule stepsI) (auto simp: transactionG_def journal_only.R_refl [unfolded on_tables_def] on_tables_def
      split: prod.splits sum.splits dest: stepsD)

lemma BeginOperation_only_journal [intro!]: "steps only_journal (BeginOperation now op)"
  unfolding BeginOperation_def operationFromRow_def
  by (auto intro!: only_journal_exec simp: same_resources_def)

lemma CompleteOperation_only_journal [intro!]: "steps only_journal (CompleteOperation now op state result failure)"
  unfolding CompleteOperation_def by (auto intro!: only_journal_exec simp: Let_def case_prod_beta same_resources_def)

lemma storeG_only_journal: "steps only_journal m \<Longrightarrow> storeG e m w = (r, w') \<Longrightarrow> only_journal (db w) (db w')"
  by (cases "Ex_Store e") (auto simp: storeG_def dbG_eq journal_only.R_refl dest: stepsD)

lemma complete_op_only_journal:
  assumes "complete_op e m kind hash state result failure w = (r, w')"
  shows "only_journal (db w) (db w')"
proof -
  from assms obtain r1 where
    "storeG e (CompleteOperation (Env_Now (Ex_Env e) (host w)) (journal_operation m kind hash) state result failure) w = (r1, w')"
    by (auto simp: complete_op_def run_wrap split: prod.splits sum.splits)
  with CompleteOperation_only_journal show ?thesis by (rule storeG_only_journal)
qed

lemma begin_op_only_journal:
  assumes "begin_op e m kind inputs w = (r, w')"
  shows "only_journal (db w) (db w')"
proof -
  from assms obtain r1 w1 where s: "storeG e (BeginOperation (Env_Now (Ex_Env e) (host w))
      (journal_operation m kind (operationHash kind m inputs))) w = (r1, w1)" and w': "w1 = w'"
    by (auto simp: begin_op_def catchG_def split: prod.splits sum.splits if_splits)
  from storeG_only_journal [OF BeginOperation_only_journal s] w' show ?thesis by simp
qed

lemma only_journalD:
  assumes "only_journal s t"
  shows "published_ports (st_tables t) = published_ports (st_tables s)" "network_resources (st_tables t) = network_resources (st_tables s)"
    "vms (st_tables t) = vms (st_tables s)"
  using assms by (simp_all add: on_tables_def same_resources_def)

lemmas begin_op_tables = begin_op_only_journal [THEN only_journalD(1)] begin_op_only_journal [THEN only_journalD(2)]
  begin_op_only_journal [THEN only_journalD(3)]

lemmas complete_op_tables = complete_op_only_journal [THEN only_journalD(1)] complete_op_only_journal [THEN only_journalD(2)]
  complete_op_only_journal [THEN only_journalD(3)]

text \<open>The reads at the start of a port operation, with a working database.\<close>

definition read_rows :: "nat \<Rightarrow> 'x world \<Rightarrow> 'x world" where
  "read_rows n w = w\<lparr>db := (db w)\<lparr>st_calls := st_calls (db w) + n\<rparr>\<rparr>"

lemma read_rows_simps [simp]:
  "host (read_rows n w) = host w" "tables_of (read_rows n w) = tables_of w" "healthy (db (read_rows n w)) = healthy (db w)"
  by (simp_all add: read_rows_def)

lemma owned_resource_healthy:
  assumes "healthy (db w)" and "Ex_Store e"
  shows "owned_resource e m w =
    ((case select_row nr_key (owner_key m) (network_resources (tables_of w)) of
        None \<Rightarrow> Inl (sentinel_err SqlErrNoRows) | Some x \<Rightarrow> Inr x), read_rows 1 w)"
  using assms by (simp add: owned_resource_def GetNetworkResource_def storeG_read_healthy read_rows_def)

lemma GetPublishedPort_healthy:
  assumes "healthy (db w)" and "Ex_Store e"
  shows "storeG e (GetPublishedPort i u g) w =
    ((case select_row pp_key (i, u, g) (published_ports (tables_of w)) of
        None \<Rightarrow> Inl (sentinel_err SqlErrNoRows) | Some x \<Rightarrow> Inr x), read_rows 1 w)"
  using assms by (simp add: GetPublishedPort_def storeG_read_healthy read_rows_def)

abbreviation pp_row :: "mutation \<Rightarrow> uint32 \<Rightarrow> tables \<Rightarrow> published_port option" where
  "pp_row m g t \<equiv> select_row pp_key (Owner_InstallationID (Mut_Owner m), Owner_UID (Mut_Owner m), g) (published_ports t)"

abbreviation nr_row :: "mutation \<Rightarrow> tables \<Rightarrow> network_resource option" where
  "nr_row m t \<equiv> select_row nr_key (owner_key m) (network_resources t)"

lemma PublishPort_Inr_request:
  assumes "PublishPort e m g hp w = (Inr p, w')" and "healthy (db w)"
  shows "Mutation_Validate m = None" "g \<noteq> 0" "\<not> g > 65535" "hp = 0" "Ex_Network e \<noteq> None" "Ex_Store e"
    and "\<exists>r. nr_row m (tables_of w) = Some r \<and> NR_NodeID r = Owner_NodeID (Mut_Owner m)"
proof -
  show v: "Mutation_Validate m = None" "g \<noteq> 0" "\<not> g > 65535" "hp = 0" "Ex_Network e \<noteq> None" and st: "Ex_Store e"
    using assms(1) by (auto simp: PublishPort_def bindG_eq_Inr split: if_split_asm)
  show "\<exists>r. nr_row m (tables_of w) = Some r \<and> NR_NodeID r = Owner_NodeID (Mut_Owner m)"
    using assms(1) v owned_resource_healthy [OF assms(2) st, of m]
    by (cases "nr_row m (tables_of w)") (auto simp: PublishPort_def bindG_eq_Inr split: if_split_asm)
qed

lemma PublishPort_again:
  assumes "Mutation_Validate m = None" "g \<noteq> 0" "\<not> g > 65535" "Ex_Network e \<noteq> None" "Ex_Store e" and "healthy (db w)"
    and "nr_row m (tables_of w) = Some r" "NR_NodeID r = Owner_NodeID (Mut_Owner m)" and "pp_row m g (tables_of w) = Some q"
  shows "PublishPort e m g 0 w = (Inr (PP_HostPort q), read_rows 2 w)"
  using assms owned_resource_healthy [OF assms(6,5), of m] GetPublishedPort_healthy [of "read_rows 1 w" e] 
  by (simp add: PublishPort_def run_bind catchG_def) (simp add: read_rows_def)


lemma PublishPort_new:
  assumes "PublishPort e m g hp w = (Inr p, w')" and "healthy (db w)" and "tables_ok (tables_of w)"
    and "select_row op_key (Owner_InstallationID (Mut_Owner m), Owner_UID (Mut_Owner m), Mut_IdempotencyKey m)
           (operation_journal (tables_of w)) = None"
    and none: "pp_row m g (tables_of w) = None"
  shows "port_in_range p" and "network_resources (tables_of w') = network_resources (tables_of w)"
    and "\<exists>q. pp_row m g (tables_of w') = Some q \<and> PP_HostPort q = p"
    and "\<exists>c r h. Ex_Network e = Some c \<and> nr_row m (tables_of w) = Some r \<and> NC_PublishPort c (NR_Port r) g (host w) = (Inr p, h) \<and> host w' = h"
proof -
  let ?i = "Owner_InstallationID (Mut_Owner m)" and ?u = "Owner_UID (Mut_Owner m)"
  note rq = PublishPort_Inr_request [OF assms(1,2)]
  from rq(7) obtain r where r: "nr_row m (tables_of w) = Some r" "NR_NodeID r = Owner_NodeID (Mut_Owner m)" by blast
  from rq(5) obtain c where c: "Ex_Network e = Some c" by blast
  let ?w2 = "read_rows 1 (read_rows 1 w)" and ?q = "\<lparr>PP_InstallationID = ?i, PP_OwnerUID = ?u, PP_GuestPort = g, PP_HostPort = p\<rparr>"
  obtain op w3 where b: "begin_op e m ''PublishPort'' [JInt (uint g)] ?w2 = (Inr op, w3)" and i: "Op_State op = OperationIntent"
    using begin_op_new [of ?w2 e m "''PublishPort''" "[JInt (uint g)]"] rq(1,6) assms(2,3,4)
    by (auto simp: tables_ok_def journal_ok_def)
  have "\<exists>h w5 kh. NC_PublishPort c (NR_Port r) g (host w3) = (Inr p, h) \<and>
      storeG e (UpsertPublishedPort ?q) (w3\<lparr>host := h\<rparr>) = (Inr (), w5) \<and>
      complete_op e m ''PublishPort'' kh OperationCompleted (encode_uint32 p) [] w5 = (Inr (), w')"
    using assms(1) rq r none owned_resource_healthy [OF assms(2) rq(6), of m] b i c
      GetPublishedPort_healthy [of "read_rows 1 w" e ?i ?u g] assms(2)
    by (auto simp: PublishPort_def bindG_eq_Inr catchG_case_eq netG_def hostG_eq split: if_split_asm)
  then obtain h w5 kh where n: "NC_PublishPort c (NR_Port r) g (host w3) = (Inr p, h)"
    and up: "storeG e (UpsertPublishedPort ?q) (w3\<lparr>host := h\<rparr>) = (Inr (), w5)"
    and co: "complete_op e m ''PublishPort'' kh OperationCompleted (encode_uint32 p) [] w5 = (Inr (), w')" by blast
  have h3: "host w3 = host w" using begin_op_Inr(2) [OF b] by simp
  from up obtain s where s: "UpsertPublishedPort ?q (db w3) = (Inr (), s)" "w5 = w3\<lparr>host := h, db := s\<rparr>" by (auto simp: storeG_Inr)
  have rows: "published_ports (st_tables s) = upsert_row pp_key ?q (published_ports (tables_of w3))"
    using port_table.put_ok [OF s(1)] by simp
  have nets: "network_resources (st_tables s) = network_resources (tables_of w3)"
    using s(1) by (auto simp: UpsertPublishedPort_def dest!: sql_exec_Inr split: if_splits)
  have h5: "host w' = h" using co s(2) by (auto simp: complete_op_def storeG_Inr)
  show "port_in_range p" using s(1) by (auto simp: UpsertPublishedPort_def dest!: sql_exec_Inr split: if_splits)
  show "network_resources (tables_of w') = network_resources (tables_of w)"
    using complete_op_tables(2) [OF co] s(2) nets begin_op_tables(2) [OF b] by simp
  show "\<exists>q. pp_row m g (tables_of w') = Some q \<and> PP_HostPort q = p"
    using complete_op_tables(1) [OF co] s(2) rows by (simp add: select_upsert_row pp_key_def)
  show "\<exists>c r h. Ex_Network e = Some c \<and> nr_row m (tables_of w) = Some r \<and> NC_PublishPort c (NR_Port r) g (host w) = (Inr p, h) \<and> host w' = h"
    using c r n h3 h5 by auto
qed


text \<open>
  C12: published host ports come from k8netd and are stable. When \<open>PublishPort\<close> under an
  unused key succeeds on a healthy store, the guest port was a legal one, no host port was asked for, and
  the answer is a legal host port that the inventory now records for the owner and the guest port. If none
  was recorded before, it is what k8netd answered, asked once, for the owner's own network port. From then
  on, as long as the record and the owner's port exist, publishing the same guest port under any key
  returns the same host port without a call to k8netd and without changing a row.
\<close>

theorem PublishPort_stable:
  assumes "PublishPort e m g hp w = (Inr p, w1)" and "healthy (db w)" and "tables_ok (tables_of w)"
    and "select_row op_key (Owner_InstallationID (Mut_Owner m), Owner_UID (Mut_Owner m), Mut_IdempotencyKey m)
           (operation_journal (tables_of w)) = None"
    and "Mutation_Validate m2 = None" and "Mut_Owner m2 = Mut_Owner m" and "healthy (db w2)"
    and "published_ports (tables_of w2) = published_ports (tables_of w1)"
    and "network_resources (tables_of w2) = network_resources (tables_of w1)"
  shows "1 \<le> g \<and> g \<le> 65535 \<and> hp = 0 \<and> 1 \<le> p \<and> p \<le> 65535 \<and>
    (\<exists>q. pp_row m g (tables_of w1) = Some q \<and> PP_HostPort q = p) \<and>
    (pp_row m g (tables_of w) = None \<longrightarrow> (\<exists>c r. Ex_Network e = Some c \<and> nr_row m (tables_of w) = Some r \<and>
       NC_PublishPort c (NR_Port r) g (host w) = (Inr p, host w1))) \<and>
    (\<exists>w3. PublishPort e m2 g 0 w2 = (Inr p, w3) \<and> host w3 = host w2 \<and> tables_of w3 = tables_of w2)"
proof -
  note rq = PublishPort_Inr_request [OF assms(1,2)]
  from rq(7) obtain r where r: "nr_row m (tables_of w) = Some r" "NR_NodeID r = Owner_NodeID (Mut_Owner m)" by blast
  have "\<exists>q. pp_row m g (tables_of w1) = Some q \<and> PP_HostPort q = p \<and> network_resources (tables_of w1) = network_resources (tables_of w) \<and>
      1 \<le> p \<and> p \<le> 65535"
  proof (cases "pp_row m g (tables_of w)")
    case None
    note new = PublishPort_new [OF assms(1-4) None]
    then show ?thesis by (auto simp: port_in_range_def)
  next
    case (Some q)
    from PublishPort_again [OF rq(1,2,3,5,6) assms(2) r Some] assms(1) rq(4)
    have "p = PP_HostPort q" "tables_of w1 = tables_of w" by auto
    moreover have "port_in_range (PP_HostPort q)"
      using assms(3) select_row_SomeD [OF Some] by (auto simp: tables_ok_def published_ports_ok_def list_all_iff)
    ultimately show ?thesis using Some by (auto simp: port_in_range_def)
  qed
  then obtain q where q: "pp_row m g (tables_of w1) = Some q" "PP_HostPort q = p" "1 \<le> p \<and> p \<le> 65535"
    and n: "network_resources (tables_of w1) = network_resources (tables_of w)" by blast
  have "PublishPort e m2 g 0 w2 = (Inr (PP_HostPort q), read_rows 2 w2)"
    by (rule PublishPort_again [of m2 g e w2 r]) (use rq(2,3,5,6) assms(5-9) r q n in simp_all)
  moreover have "\<exists>c r. Ex_Network e = Some c \<and> nr_row m (tables_of w) = Some r \<and>
      NC_PublishPort c (NR_Port r) g (host w) = (Inr p, host w1)" if "pp_row m g (tables_of w) = None"
    using PublishPort_new(4) [OF assms(1-4) that] by auto
  moreover have "1 \<le> g \<and> g \<le> 65535" using rq(2,3) by (simp add: word_le_nat_alt word_less_nat_alt unat_eq_zero Suc_le_eq unat_gt_0)
  ultimately show ?thesis using q rq(4) by auto
qed

text \<open>
  A completed publication is answered from the journal. If the inventory no longer has the
  mapping (it was released) but the journal has the completed \<open>PublishPort\<close> of this key,
  repeating that request returns the old host port although nothing is published: k8netd is not
  called and no row is written.
\<close>

theorem PublishPort_replay_after_release:
  assumes "recorded m ''PublishPort'' [JInt (uint g)] (tables_of w) op" and "Op_State op = OperationCompleted"
    and "decode_uint32 (Op_Result op) = Inr p" and "pp_row m g (tables_of w) = None" and "healthy (db w)"
    and "Mutation_Validate m = None" and "g \<noteq> 0" and "\<not> g > 65535" and "Ex_Network e \<noteq> None" and "Ex_Store e"
    and "nr_row m (tables_of w) = Some r" and "NR_NodeID r = Owner_NodeID (Mut_Owner m)"
  shows "\<exists>w'. PublishPort e m g 0 w = (Inr p, w') \<and> host w' = host w \<and> tables_of w' = tables_of w"
proof -
  obtain w3 where "begin_op e m ''PublishPort'' [JInt (uint g)] (read_rows 1 (read_rows 1 w)) = (Inr op, w3)" "host w3 = host w"
    "tables_of w3 = tables_of w"
    using begin_op_replay [of m "''PublishPort''" "[JInt (uint g)]" "read_rows 1 (read_rows 1 w)" op e] assms by auto
  with assms owned_resource_healthy [OF assms(5,10), of m]
    GetPublishedPort_healthy [of "read_rows 1 w" e "Owner_InstallationID (Mut_Owner m)" "Owner_UID (Mut_Owner m)" g]
  show ?thesis by (simp add: PublishPort_def run_bind catchG_def run_wrap liftG_def)
qed


lemma dropWhile_none: "list_all (\<lambda>c. \<not> P c) s \<Longrightarrow> dropWhile P s = s"
  by (cases s) auto

lemma digit_not_space: "list_all is_digit s \<Longrightarrow> list_all (\<lambda>c. \<not> is_space c) s"
  by (auto simp: list_all_iff is_digit_def is_space_def)

lemma digit_char_0: "digit_char 0 = CHR ''0''"
  by code_simp

lemma show_nat_no_leading_zero: "n \<noteq> 0 \<Longrightarrow> hd (show_nat n) \<noteq> CHR ''0''"
proof (induction n rule: show_nat.induct)
  case (1 n)
  show ?case
  proof (cases "n < 10")
    case True
    have "digit_char m \<noteq> digit_char 0" if "m < 10" "m \<noteq> 0" for m
      using that by (metis digit_val_digit_char zero_less_numeral)
    with True 1 show ?thesis by (subst show_nat.simps) (simp add: digit_char_0 [symmetric])
  next
    case False
    with 1 show ?thesis by (subst show_nat.simps) simp
  qed
qed

lemma decode_encode_uint32 [simp]: "decode_uint32 (encode_uint32 p) = Inr p"
proof -
  let ?s = "show_nat (unat p)"
  have d: "list_all is_digit ?s" "?s \<noteq> []" using show_nat_digits by blast+
  have t: "TrimSpace ?s = ?s" using digit_not_space [OF d(1)] by (simp add: TrimSpace_def dropWhile_none)
  have n: "?s \<noteq> ''null''" using d(1) by (auto simp: is_digit_def)
  have z: "\<not> (length ?s > 1 \<and> hd ?s = CHR ''0'')"
    using show_nat_no_leading_zero [of "unat p"] by (cases "unat p = 0") (auto simp: show_nat.simps)
  have "encode_uint32 p = ?s" by (simp add: encode_uint32_def show_int_def flip: unat_eq_nat_uint)
  moreover have "unat p < 2 ^ 32" using unsigned_less [of p] by simp
  ultimately show ?thesis using t n z by (auto simp: decode_uint32_def Let_def)
qed

theorem PublishPort_replay_after_release_witness:
  "\<exists>w'. PublishPort sample_executor sample_mutation 80 0
      ((port_world [])\<lparr>db := empty_store\<lparr>st_tables := empty_tables\<lparr>network_resources := [sample_resource],
         operation_journal := [outcome ''PublishPort'' [JInt 80] OperationCompleted (encode_uint32 30000) []]\<rparr>\<rparr>\<rparr>) = (Inr 30000, w') \<and>
    published_ports (tables_of w') = []"
proof -
  let ?op = "outcome ''PublishPort'' [JInt 80] OperationCompleted (encode_uint32 30000) []"
  let ?w = "(port_world [])\<lparr>db := empty_store\<lparr>st_tables := empty_tables\<lparr>network_resources := [sample_resource], operation_journal := [?op]\<rparr>\<rparr>\<rparr>"
  have "recorded sample_mutation ''PublishPort'' [JInt (uint (80 :: uint32))] (tables_of ?w) ?op"
    using with_journal_simps(1) [of "''PublishPort''" "[JInt 80]" OperationCompleted "encode_uint32 30000" "[]"]
    by (simp add: recorded_def with_journal_def empty_tables_def)
  moreover have "decode_uint32 (Op_Result ?op) = Inr 30000" by simp
  moreover have "pp_row sample_mutation 80 (tables_of ?w) = None" "healthy (db ?w)" "published_ports (tables_of ?w) = []"
    "nr_row sample_mutation (tables_of ?w) = Some sample_resource" "NR_NodeID sample_resource = Owner_NodeID (Mut_Owner sample_mutation)"
    by (simp_all add: sample_resource_def sample_mutation_def empty_tables_def nr_key_def)
  moreover have "(80 :: uint32) \<noteq> 0" "\<not> (80 :: uint32) > 65535" by simp_all
  ultimately obtain w' where "PublishPort sample_executor sample_mutation 80 0 ?w = (Inr 30000, w')" "tables_of w' = tables_of ?w"
    using PublishPort_replay_after_release [of sample_mutation 80 ?w ?op 30000 sample_executor sample_resource] by auto
  with \<open>published_ports (tables_of ?w) = []\<close> show ?thesis by (intro exI [of _ w']) simp
qed

lemma port_world_publish:
  "\<exists>w1. PublishPort sample_executor sample_mutation 80 0 (port_world []) = (Inr 30000, w1) \<and> healthy (db w1)"
proof -
  have ok: "healthy (db (port_world []))" "Ex_Store sample_executor" by simp_all
  have row: "nr_row sample_mutation (tables_of (port_world [])) = Some sample_resource"
    "NR_NodeID sample_resource = Owner_NodeID (Mut_Owner sample_mutation)"
    by (simp_all add: sample_resource_def nr_key_def sample_mutation_def)
  let ?w2 = "read_rows 1 (read_rows 1 (port_world []))" and ?in = "[JInt (uint (80 :: uint32))]"
  let ?q = "\<lparr>PP_InstallationID = ''i'', PP_OwnerUID = ''u'', PP_GuestPort = 80, PP_HostPort = 30000\<rparr>"
  obtain op w3 where b: "begin_op sample_executor sample_mutation ''PublishPort'' ?in ?w2 = (Inr op, w3)"
    "recorded sample_mutation ''PublishPort'' ?in (tables_of w3) op" "Op_State op = OperationIntent" "healthy (db w3)"
    "distinct (map op_key (operation_journal (tables_of w3)))" "published_ports (tables_of w3) = []" "network_resources (tables_of w3) = [sample_resource]"
    using begin_op_new [of ?w2 sample_executor sample_mutation "''PublishPort''" ?in] by auto
  let ?s = "(db w3)\<lparr>st_calls := Suc (st_calls (db w3)), st_tables := (tables_of w3)\<lparr>published_ports := [?q]\<rparr>\<rparr>"
  have up: "UpsertPublishedPort ?q (db w3) = (Inr (), ?s)"
    using b(4,6,7) by (simp add: UpsertPublishedPort_def run_wrap sql_exec_healthy port_in_range_def unique_for_def sample_resource_def nr_key_def)
  let ?w4 = "w3\<lparr>db := ?s\<rparr>"
  have "recorded sample_mutation ''PublishPort'' ?in (tables_of ?w4) op" using b(2) by (simp add: recorded_def)
  then obtain w5 where co: "complete_op sample_executor sample_mutation ''PublishPort'' (operationHash ''PublishPort'' sample_mutation ?in) OperationCompleted (encode_uint32 30000) [] ?w4 = (Inr (), w5)"
    "healthy (db w5)"
    using complete_op_healthy [of sample_mutation "''PublishPort''" ?in ?w4 op sample_executor OperationCompleted "encode_uint32 30000" "[]"] b(3,4,5) by auto
  have own: "Owner_InstallationID (Mut_Owner sample_mutation) = ''i''" "Owner_UID (Mut_Owner sample_mutation) = ''u''"
    by (simp_all add: sample_mutation_def)
  from b(1,3) begin_op_Inr(3) [OF b(1)] up co own row owned_resource_healthy [OF ok, of sample_mutation]
    GetPublishedPort_healthy [of "read_rows 1 (port_world [])" sample_executor "''i''" "''u''" 80]
  show ?thesis by (simp add: PublishPort_def run_bind catchG_def netG_run sample_network_def storeG_run)
qed

theorem PublishPort_stable_witness:
  "\<exists>w1 w3. PublishPort sample_executor sample_mutation 80 0 (port_world []) = (Inr 30000, w1) \<and>
     PublishPort sample_executor sample_mutation 80 0 w1 = (Inr 30000, w3) \<and> tables_of w3 = tables_of w1"
proof -
  obtain w1 where w1: "PublishPort sample_executor sample_mutation 80 0 (port_world []) = (Inr 30000, w1)" "healthy (db w1)"
    using port_world_publish by blast
  have "tables_ok (tables_of (port_world []))"
    by (simp add: port_world_def tables_ok_def empty_tables_def journal_ok_def network_resources_ok_def vms_ok_def published_ports_ok_def)
  from PublishPort_stable [OF w1(1) _ this _ _ _ w1(2), of sample_mutation] w1(1) show ?thesis by auto
qed


end
