(* ===== verification/ExecutorLifecycle.thy ===== *)
theory ExecutorLifecycle
  imports ExecutorPorts
begin

text \<open>
  What the executor's VM methods guarantee: a deleted VM is gone together with its port, another
  node's VM is not touched, nothing is booted that was not verified, and a repeated
  \<open>EnsureVM\<close> only observes.
\<close>

section \<open>Steps that keep the VM rows and the engine\<close>

definition same_vms :: "store \<Rightarrow> store \<Rightarrow> bool" where
  "same_vms s t \<longleftrightarrow> vms (st_tables t) = vms (st_tables s) \<and> st_engine t = st_engine s"

definition same_vms_world :: "'x world \<Rightarrow> 'x world \<Rightarrow> bool" where
  "same_vms_world w w' \<longleftrightarrow> same_vms (db w) (db w')"

interpretation vms_store: go_preorder same_vms
  by unfold_locales (auto simp: same_vms_def)

interpretation vms_world: go_preorder same_vms_world
  by unfold_locales (auto simp: same_vms_world_def same_vms_def)

lemma same_vms_exec:
  "(\<And>fk t x u. f fk t = Some (x, u) \<Longrightarrow> vms u = vms t) \<Longrightarrow> steps same_vms (sql_exec q f)"
  by (rule stepsI) (auto simp: sql_exec_def Let_def same_vms_def split: option.splits)

lemma same_vms_reads [intro!]:
  "steps same_vms (sql_ping q)" "steps same_vms (sql_query q g)" "steps same_vms (sql_row q f)"
  by (auto simp: sql_ping_def sql_query_def sql_row_def intro!: same_vms_exec)

lemma same_vms_rows [intro!]: "steps same_vms (sql_rows a b c q f)"
  unfolding sql_rows_def by auto

lemma same_vms_transaction [intro!]: "steps same_vms m \<Longrightarrow> steps same_vms (transactionG m)"
  by (rule stepsI) (auto simp: transactionG_def same_vms_def split: prod.splits sum.splits dest: stepsD)

lemma same_vms_statements [intro!]:
  "steps same_vms (BeginOperation now op)" "steps same_vms (CompleteOperation now op state result failure)"
  "steps same_vms (DeletePublishedPort i u g)" "steps same_vms (DeleteNetworkResource i u)"
  unfolding BeginOperation_def operationFromRow_def CompleteOperation_def DeletePublishedPort_def DeleteNetworkResource_def
  by (auto intro!: same_vms_exec simp: Let_def case_prod_beta split: if_splits)

lemma same_vms_reads2 [intro!]:
  "steps same_vms (Store_GetVM i u)" "steps same_vms (GetNetworkResource i u)" "steps same_vms (ListPublishedPorts i u)"
  unfolding Store_GetVM_def GetNetworkResource_def ListPublishedPorts_def by auto

lemma same_vms_host [intro!]: "steps same_vms_world (hostG m)" "steps same_vms_world (netG e f)" "steps same_vms_world (sysdG e g)"
  by (rule stepsI, auto simp: netG_def sysdG_def hostG_eq same_vms_world_def vms_store.R_refl split: option.splits)+

lemma same_vms_storeG [intro!]: "steps same_vms m \<Longrightarrow> steps same_vms_world (storeG e m)"
  by (rule stepsI) (auto simp: storeG_def dbG_eq same_vms_world_def vms_store.R_refl split: if_splits dest: stepsD)

lemma same_vms_journal [intro!]:
  "steps same_vms_world (begin_op e m kind inputs)" "steps same_vms_world (complete_op e m kind hash state result failure)"
  unfolding begin_op_def complete_op_def nowG_def by (auto split: prod.split)

lemma StopVM_same_vms: "steps same_vms_world (StopVM e m)"
  unfolding StopVM_def try_complete_def by auto

lemma DeletePort_same_vms: "steps same_vms_world (DeletePort e m)"
  unfolding DeletePort_def release_mapping_def ignoring_def by auto

lemma same_vms_healthy: "same_vms_world w w' \<Longrightarrow> healthy (db w') = healthy (db w)"
  by (simp add: same_vms_world_def same_vms_def healthy_def)

section \<open>Deleting a VM\<close>

abbreviation own_vm :: "owner \<Rightarrow> tables \<Rightarrow> vm option" where
  "own_vm ow t \<equiv> select_row vm_key (Owner_InstallationID ow, Owner_UID ow) (vms t)"

lemma GetVM_store_healthy:
  assumes "healthy (db w)" and "Ex_Store e"
  shows "storeG e (Store_GetVM (Owner_InstallationID ow) (Owner_UID ow)) w =
    ((case own_vm ow (tables_of w) of None \<Rightarrow> Inl (sentinel_err SqlErrNoRows) | Some x \<Rightarrow> Inr x), read_rows 1 w)"
  using assms by (simp add: Store_GetVM_def storeG_read_healthy read_rows_def)

lemma DeleteVM_Inr:
  assumes "DeleteVM e m w = (Inr (), w')" and "healthy (db w)"
  shows "own_vm (Mut_Owner m) (tables_of w') = None" and "Mutation_Validate m = None" and "Ex_Store e" and "Ex_Systemd e \<noteq> None"
    and "own_vm (Mut_Owner m) (tables_of w) \<noteq> None \<Longrightarrow> Ex_Network e \<noteq> None \<Longrightarrow> nr_row m (tables_of w') = None"
proof -
  let ?i = "Owner_InstallationID (Mut_Owner m)" and ?u = "Owner_UID (Mut_Owner m)"
  from assms(1) obtain w1 where s: "StopVM e m w = (Inr (), w1)" unfolding DeleteVM_def bindG_eq_Inr by fastforce
  note ok = StopVM_Inr [OF s]
  from ok show "Mutation_Validate m = None" and st: "Ex_Store e" and "Ex_Systemd e \<noteq> None" by auto
  have same: "same_vms_world w w1" by (rule stepsD [OF StopVM_same_vms s])
  then have h1: "healthy (db w1)" and v1: "vms (tables_of w1) = vms (tables_of w)"
    using assms(2) same_vms_healthy [OF same] by (simp_all add: same_vms_world_def same_vms_def)
  note get = GetVM_store_healthy [OF h1 st, of "Mut_Owner m"]
  have "own_vm (Mut_Owner m) (tables_of w') = None \<and>
    (own_vm (Mut_Owner m) (tables_of w) \<noteq> None \<longrightarrow> Ex_Network e \<noteq> None \<longrightarrow> nr_row m (tables_of w') = None)"
  proof (cases "own_vm (Mut_Owner m) (tables_of w1)")
    case None
    with assms(1) s get ok(2) have "w' = read_rows 1 w1" by (auto simp: DeleteVM_def run_bind catchG_def)
    with None v1 show ?thesis by simp
  next
    case (Some v)
    let ?port = "if Ex_Network e \<noteq> None then DeletePort e m else returnG ()"
    from Some assms(1) s get ok(2) obtain w2 w3 where p: "?port (read_rows 1 w1) = (Inr (), w2)"
      and f: "hostG (remove_vm_files e m v) w2 = (Inr (), w3)" and d: "storeG e (Store_DeleteVM ?i ?u) w3 = (Inr (), w')"
      by (auto simp: DeleteVM_def bindG_eq_Inr catchG_def split: if_split_asm)
    from f have db3: "db w3 = db w2" by (auto simp: hostG_eq)
    from d obtain t where t: "Store_DeleteVM ?i ?u (db w3) = (Inr (), t)" "w' = w3\<lparr>db := t\<rparr>" by (auto simp: storeG_Inr)
    have "vms (tables_of w') = delete_row vm_key (?i, ?u) (vms (tables_of w3))" using vm_table.del_ok [of "(?i, ?u)" "db w3" t] t by simp
    moreover have "network_resources (tables_of w') = network_resources (tables_of w3)"
      using t by (auto simp: Store_DeleteVM_def dest!: sql_exec_Inr)
    moreover have "nr_row m (tables_of w2) = None" if "Ex_Network e \<noteq> None"
      using that p DeletePort_gone [of e m "read_rows 1 w1" w2] h1 by auto
    ultimately show ?thesis using db3 by (simp add: select_delete_row)
  qed
  then show "own_vm (Mut_Owner m) (tables_of w') = None"
    and "own_vm (Mut_Owner m) (tables_of w) \<noteq> None \<Longrightarrow> Ex_Network e \<noteq> None \<Longrightarrow> nr_row m (tables_of w') = None" by auto
qed

text \<open>
  A deleted VM is gone. After \<open>DeleteVM\<close> succeeded the owner has no VM row, and, if it
  had one and the executor has a network client, no port either; every later \<open>GetVM\<close>, as
  long as no new row is written, answers not found without asking systemd.
\<close>

theorem DeleteVM_removes:
  assumes "DeleteVM e m w = (Inr (), w')" and "healthy (db w)"
  shows "own_vm (Mut_Owner m) (tables_of w') = None \<and>
    (own_vm (Mut_Owner m) (tables_of w) \<noteq> None \<and> Ex_Network e \<noteq> None \<longrightarrow> nr_row m (tables_of w') = None) \<and>
    (\<forall>w2. healthy (db w2) \<and> vms (tables_of w2) = vms (tables_of w') \<longrightarrow>
       (\<exists>w3. GetVM e (Mut_Owner m) w2 = (Inl (sentinel_err ErrNotFound), w3) \<and> host w3 = host w2))"
proof -
  note r = DeleteVM_Inr [OF assms]
  have "Owner_Validate (Mut_Owner m) = None" using r(2) by (simp add: Mutation_Validate_None)
  then have "\<exists>w3. GetVM e (Mut_Owner m) w2 = (Inl (sentinel_err ErrNotFound), w3) \<and> host w3 = host w2"
    if "healthy (db w2)" "vms (tables_of w2) = vms (tables_of w')" for w2
    using r(1,3,4) that GetVM_store_healthy [OF that(1) r(3), of "Mut_Owner m"] by (auto simp: GetVM_def run_bind catchG_def)
  with r(1,5) show ?thesis by blast
qed

lemma eachG_always: "(\<And>x s. x \<in> set xs \<Longrightarrow> \<exists>t. f x s = (Inr (), t)) \<Longrightarrow> \<exists>t. eachG f xs s = (Inr (), t)"
proof (induction xs arbitrary: s)
  case (Cons x xs)
  obtain u where "f x s = (Inr (), u)" using Cons.prems [of x s] by auto
  moreover obtain t where "eachG f xs u = (Inr (), t)" using Cons.IH [of u] Cons.prems by auto
  ultimately show ?case by (simp add: run_bind)
qed simp

lemma removeOwnedArtifact_ok: "\<exists>t. removeOwnedArtifact root path s = (Inr (), t)"
  by (auto simp: removeOwnedArtifact_def catchG_def split: prod.split)

lemma remove_family_ok: "\<exists>t. remove_family root disk s = (Inr (), t)"
proof -
  obtain r u where r: "os_ReadDir (Dir disk) s = (r, u)" by fastforce
  show ?thesis
  proof (cases r)
    case (Inl err)
    with r show ?thesis by (simp add: remove_family_def catchG_def)
  next
    case (Inr entries)
    let ?f = "\<lambda>(name, _ :: bool). if HasPrefix name (TrimSuffix (Base disk) ''-root.qcow2'' @ ''-'')
      then removeOwnedArtifact root (Join (Dir disk) name) else returnG ()"
    have "\<exists>t. eachG ?f entries u = (Inr (), t)"
      by (rule eachG_always) (auto simp: removeOwnedArtifact_ok split: prod.split)
    with r Inr show ?thesis by (simp add: remove_family_def catchG_def)
  qed
qed

lemma remove_vm_files_ok: "\<exists>t. remove_vm_files e m v s = (Inr (), t)"
proof -
  let ?root = "B_Root (Ex_Artifacts e)"
  obtain s1 where 1: "removeOwnedArtifact ?root (VM_Disk v) s = (Inr (), s1)" using removeOwnedArtifact_ok by blast
  obtain s2 where 2: "removeOwnedArtifact ?root (VM_APISocket v) s1 = (Inr (), s2)" using removeOwnedArtifact_ok by blast
  obtain s3 where "remove_family ?root (VM_Disk v) s2 = (Inr (), s3)" using remove_family_ok by blast
  with 1 2 show ?thesis by (simp add: remove_vm_files_def Let_def run_bind)
qed

text \<open>The first \<open>StopVM\<close> of a key, up to the VM's row.\<close>

lemma StopVM_begins:
  assumes "Mutation_Validate m = None" and "Ex_Store e" and "Ex_Systemd e = Some c" and "healthy (db w)" and "tables_ok (tables_of w)"
    and "select_row op_key (Owner_InstallationID (Mut_Owner m), Owner_UID (Mut_Owner m), Mut_IdempotencyKey m)
           (operation_journal (tables_of w)) = None"
    and "own_vm (Mut_Owner m) (tables_of w) = Some v"
  obtains r w1 where "recorded m ''StopVM'' [] (tables_of w1) r" "Op_State r = OperationIntent" "host w1 = host w" "healthy (db w1)"
    "distinct (map op_key (operation_journal (tables_of w1)))" "own_vm (Mut_Owner m) (tables_of w1) = Some v"
    "tables_of w1 = (tables_of w)\<lparr>operation_journal := operation_journal (tables_of w) @ [r]\<rparr>"
    "StopVM e m w =
      (if VM_NodeID v \<noteq> Owner_NodeID (Mut_Owner m) then failG (sentinel_err ErrUnauthorized)
       else bindG (hostG (graceful_shutdown e (VM_APISocket v))) (\<lambda>_.
         catchG (sysdG e (\<lambda>c. SC_StopUnit c (VM_Unit v))) (\<lambda>stopped. case stopped of
             Inl err \<Rightarrow> bindG (try_complete e m ''StopVM'' (operationHash ''StopVM'' m []) OperationFailed [] (err_text err))
               (\<lambda>_. failG (wrap_err ''stop owned VM unit'' err))
           | Inr _ \<Rightarrow> complete_op e m ''StopVM'' (operationHash ''StopVM'' m []) OperationCompleted ''stopped'' []))) w1"
proof -
  obtain r w0 where b: "begin_op e m ''StopVM'' [] w = (Inr r, w0)" "recorded m ''StopVM'' [] (tables_of w0) r" "Op_State r = OperationIntent"
    "host w0 = host w" "healthy (db w0)" "distinct (map op_key (operation_journal (tables_of w0)))"
    "tables_of w0 = (tables_of w)\<lparr>operation_journal := operation_journal (tables_of w) @ [r]\<rparr>"
    using begin_op_new [OF assms(4,2,1) _ assms(6), of "''StopVM''" "[]"] assms(5) by (auto simp: tables_ok_def journal_ok_def)
  have v: "own_vm (Mut_Owner m) (tables_of w0) = Some v" using assms(7) b(7) by simp
  show thesis
  proof (rule that [of "read_rows 1 w0" r])
    show "StopVM e m w =
      (if VM_NodeID v \<noteq> Owner_NodeID (Mut_Owner m) then failG (sentinel_err ErrUnauthorized)
       else bindG (hostG (graceful_shutdown e (VM_APISocket v))) (\<lambda>_.
         catchG (sysdG e (\<lambda>c. SC_StopUnit c (VM_Unit v))) (\<lambda>stopped. case stopped of
             Inl err \<Rightarrow> bindG (try_complete e m ''StopVM'' (operationHash ''StopVM'' m []) OperationFailed [] (err_text err))
               (\<lambda>_. failG (wrap_err ''stop owned VM unit'' err))
           | Inr _ \<Rightarrow> complete_op e m ''StopVM'' (operationHash ''StopVM'' m []) OperationCompleted ''stopped'' []))) (read_rows 1 w0)"
      using assms(1,2,3) b(1,3,5) begin_op_Inr(3) [OF b(1)] v GetVM_store_healthy [OF b(5) assms(2), of "Mut_Owner m"]
      by (simp add: StopVM_def run_bind catchG_def)
  qed (use b v in simp_all)
qed

text \<open>
  A node cannot delete another node's VM. If the owner's VM is recorded under another node, a
  fresh \<open>DeleteVM\<close> is refused as unauthorized; nothing on the host changes and no row other
  than the journal's intent is written.
\<close>

theorem DeleteVM_other_node:
  assumes "Mutation_Validate m = None" and "Ex_Store e" and "Ex_Systemd e = Some c" and "healthy (db w)" and "tables_ok (tables_of w)"
    and "select_row op_key (Owner_InstallationID (Mut_Owner m), Owner_UID (Mut_Owner m), Mut_IdempotencyKey m)
           (operation_journal (tables_of w)) = None"
    and "own_vm (Mut_Owner m) (tables_of w) = Some v" and "VM_NodeID v \<noteq> Owner_NodeID (Mut_Owner m)"
  shows "\<exists>w'. DeleteVM e m w = (Inl (sentinel_err ErrUnauthorized), w') \<and> host w' = host w \<and>
    same_resources (tables_of w) (tables_of w')"
proof -
  obtain r w1 where "host w1 = host w" "tables_of w1 = (tables_of w)\<lparr>operation_journal := operation_journal (tables_of w) @ [r]\<rparr>"
    "StopVM e m w = (Inl (sentinel_err ErrUnauthorized), w1)"
    by (rule StopVM_begins [OF assms(1-7)]) (use assms(8) in simp)
  with assms(1) show ?thesis by (simp add: DeleteVM_def run_bind same_resources_def)
qed


definition sample_vm :: "string \<Rightarrow> vm" where
  "sample_vm node = \<lparr>VM_InstallationID = ''i'', VM_OwnerUID = ''u'', VM_NodeID = node, VM_Unit = ''k8slab-vm-u.service'', VM_Generation = 1,
     VM_PID = 42, VM_Disk = ''/a/web-root.qcow2'', VM_APISocket = ''/a/web.sock'', VM_VhostSocket = ''/s/web.sock'', VM_Network = [], VM_Port = [],
     VM_MAC = ''c6:00:00:00:00:01'', VM_IP = ''10.1.2.3''\<rparr>"

definition vm_world :: "string \<Rightarrow> unit world" where
  "vm_world node = sample_world\<lparr>db := empty_store\<lparr>st_tables := empty_tables\<lparr>vms := [sample_vm node]\<rparr>\<rparr>\<rparr>"

lemma vm_world_simps [simp]:
  "healthy (db (vm_world node))" "tables_ok (tables_of (vm_world node))" "operation_journal (tables_of (vm_world node)) = []"
  "own_vm (Mut_Owner sample_mutation) (tables_of (vm_world node)) = Some (sample_vm node)"
  "VM_NodeID (sample_vm node) = node" "Owner_NodeID (Mut_Owner sample_mutation) = ''n''"
  by (simp_all add: vm_world_def tables_ok_def empty_tables_def journal_ok_def network_resources_ok_def vms_ok_def published_ports_ok_def
      sample_mutation_def sample_vm_def vm_key_def)

theorem DeleteVM_other_node_witness:
  "\<exists>w'. DeleteVM sample_executor sample_mutation (vm_world ''other'') = (Inl (sentinel_err ErrUnauthorized), w') \<and>
     same_resources (tables_of (vm_world ''other'')) (tables_of w')"
  using DeleteVM_other_node [of sample_mutation sample_executor sample_systemd "vm_world ''other''" "sample_vm ''other''"] by auto

abbreviation offline_executor :: "unit executor" where
  "offline_executor \<equiv> sample_executor\<lparr>Ex_Network := None\<rparr>"

lemma sample_graceful: "graceful_shutdown offline_executor sock h = (Inr (), h)"
  by (simp add: graceful_shutdown_def api_Shutdown_def api_do_def sample_executor_def sample_env_def run_bind catchG_def run_wrap Let_def)

lemma offline_DeleteVM: "\<exists>w'. DeleteVM offline_executor sample_mutation (vm_world ''n'') = (Inr (), w')"
proof -
  obtain r w1 where w1: "recorded sample_mutation ''StopVM'' [] (tables_of w1) r" "Op_State r = OperationIntent" "healthy (db w1)"
    "distinct (map op_key (operation_journal (tables_of w1)))" "own_vm (Mut_Owner sample_mutation) (tables_of w1) = Some (sample_vm ''n'')"
    "StopVM offline_executor sample_mutation (vm_world ''n'') =
      complete_op offline_executor sample_mutation ''StopVM'' (operationHash ''StopVM'' sample_mutation []) OperationCompleted ''stopped'' [] w1"
  proof (rule StopVM_begins [of sample_mutation offline_executor sample_systemd "vm_world ''n''" "sample_vm ''n''"], goal_cases)
    case (8 r w1)
    then show ?case
      by (intro 8(1) [of w1 r])
        (simp_all add: run_bind hostG_def onG_def sample_graceful catchG_def sysdG_def sample_systemd_def)
  qed simp_all
  obtain w2 where w2: "StopVM offline_executor sample_mutation (vm_world ''n'') = (Inr (), w2)" "healthy (db w2)"
    using complete_op_healthy [OF w1(1,2,3), of offline_executor OperationCompleted "''stopped''" "[]"] w1(4,6) by auto
  have "same_vms_world (vm_world ''n'') w2" by (rule stepsD [OF StopVM_same_vms w2(1)])
  then have v: "own_vm (Mut_Owner sample_mutation) (tables_of w2) = Some (sample_vm ''n'')"
    using vm_world_simps(4) [of "''n''"] by (simp add: same_vms_world_def same_vms_def)
  obtain h where h: "remove_vm_files offline_executor sample_mutation (sample_vm ''n'') (host w2) = (Inr (), h)"
    using remove_vm_files_ok by blast
  have "\<exists>t. Store_DeleteVM i u (db w2\<lparr>st_calls := c\<rparr>) = (Inr (), t)" for i u c
    using w2(2) by (simp add: Store_DeleteVM_def run_wrap sql_exec_healthy)
  then show ?thesis
    using w2 v h GetVM_store_healthy [OF w2(2), of offline_executor "Mut_Owner sample_mutation"]
    by (simp add: DeleteVM_def run_bind catchG_def hostG_def onG_def read_rows_def storeG_run split: prod.split sum.split)
      (metis old.prod.inject sum.distinct(1))
qed

theorem DeleteVM_removes_witness:
  "\<exists>w'. DeleteVM offline_executor sample_mutation (vm_world ''n'') = (Inr (), w') \<and> own_vm (Mut_Owner sample_mutation) (tables_of w') = None"
proof -
  obtain w' where w': "DeleteVM offline_executor sample_mutation (vm_world ''n'') = (Inr (), w')" using offline_DeleteVM by blast
  from DeleteVM_removes [OF w'] w' show ?thesis by auto
qed


section \<open>Nothing unverified is booted\<close>

text \<open>Calls that leave files, sockets and daemons as they are.\<close>

definition quiet :: "'x host \<Rightarrow> 'x host \<Rightarrow> bool" where
  "quiet h h' \<longleftrightarrow> hs_nodes h' = hs_nodes h \<and> hs_ext h' = hs_ext h"

interpretation quiet: go_preorder quiet
  by unfold_locales (auto simp: quiet_def)

lemma quiet_sys: "(\<And>r ns ns'. m ns = (r, ns') \<Longrightarrow> ns' = ns) \<Longrightarrow> steps quiet (sys call path m)"
  by (rule stepsI) (auto simp: sys_def Let_def quiet_def split: option.splits prod.splits)

lemma quiet_reads [intro!]:
  "steps quiet (os_Stat path)" "steps quiet (os_Lstat path)" "steps quiet (EvalSymlinks path)" "steps quiet (os_ReadFile path)"
  unfolding os_Stat_def os_Lstat_def EvalSymlinks_def os_ReadFile_def
  by (rule quiet_sys, auto simp: at_resolved_def at_located_def node_of_def read_node_def run_bind
      split: sum.splits option.splits fnode.splits prod.splits)+

lemma quiet_verify [intro!]: "steps quiet (resolveOwnedPath root path)" "steps quiet (VerifyOwnedFile root path checksum)"
  "steps quiet (VerifyOwnedPath root path)" "steps quiet (Builder_Verify b paths checksums)"
  unfolding Builder_Verify_def VerifyOwnedPath_def VerifyOwnedFile_def fileSHA256_def resolveOwnedPath_def by auto

lemma quiet_verifyVMArtifacts: "steps quiet (verifyVMArtifacts e d paths checksums b)"
  unfolding verifyVMArtifacts_def by auto

text \<open>The path resolves to a regular file at or below the resolved root whose contents have the checksum.\<close>

definition genuine :: "nodes \<Rightarrow> string \<Rightarrow> string \<Rightarrow> string \<Rightarrow> bool" where
  "genuine ns root path checksum \<longleftrightarrow>
     (\<exists>r p bs. resolve ns root = Inr r \<and> resolve ns path = Inr p \<and> prefix r p \<and> map_of ns p = Some (RegularFile bs) \<and>
        hex_string (sha256 bs) = ToLower checksum)"

lemma VerifyOwnedFile_genuine:
  "VerifyOwnedFile root path checksum h = (Inr (), h') \<Longrightarrow> genuine (hs_nodes h) root path checksum \<and> hs_nodes h' = hs_nodes h"
  by (erule VerifyOwnedFile_Inr) (auto simp: genuine_def)

lemma Builder_Verify_genuine:
  fixes h h' :: "'x host"
  assumes "Builder_Verify b paths checksums h = (Inr (), h')"
  shows "length paths = length checksums" and "\<forall>(p, c)\<in>set (zip paths checksums). genuine (hs_nodes h) (B_Root b) p c"
    and "hs_nodes h' = hs_nodes h"
proof -
  let ?f = "\<lambda>(path, checksum). VerifyOwnedFile (B_Root b) path checksum :: ('x host, unit) go"
  from assms show "length paths = length checksums" by (auto simp: Builder_Verify_def split: if_splits)
  from assms have run: "eachG ?f (zip paths checksums) h = (Inr (), h')" by (auto simp: Builder_Verify_def split: if_splits)
  have "hs_nodes h' = hs_nodes h \<and> (\<forall>x\<in>set (zip paths checksums). \<exists>u v. hs_nodes u = hs_nodes h \<and> ?f x u = (Inr (), v))"
    by (rule eachG_Inr_invariant [OF run, of "\<lambda>u. hs_nodes u = hs_nodes h"]) (auto dest: VerifyOwnedFile_genuine)
  then show "\<forall>(p, c)\<in>set (zip paths checksums). genuine (hs_nodes h) (B_Root b) p c" "hs_nodes h' = hs_nodes h"
    by (fastforce dest: VerifyOwnedFile_genuine)+
qed

text \<open>The boot inputs that must be genuine on every reconciliation: the firmware and the read-only disks.\<close>

definition boot_inputs :: "'x executor \<Rightarrow> vm_desired \<Rightarrow> (string \<times> string \<times> string) set" where
  "boot_inputs e d = insert (Ex_FirmwareRoot e, Des_Firmware d, Des_FirmwareSHA256 d)
     ((\<lambda>(p, c). (B_Root (Ex_Artifacts e), p, c)) ` set (zip (Des_AdditionalDisks d) (Des_AdditionalDiskSHA256s d)))"

lemma verifyVMArtifacts_genuine:
  assumes "verifyVMArtifacts e d (Des_Disk d # Des_AdditionalDisks d) (Des_DiskSHA256 d # Des_AdditionalDiskSHA256s d) b h = (Inr (), h')"
  shows "\<forall>(root, path, checksum)\<in>boot_inputs e d. genuine (hs_nodes h) root path checksum"
    and "b \<Longrightarrow> genuine (hs_nodes h) (B_Root (Ex_Artifacts e)) (Des_Disk d) (Des_DiskSHA256 d)"
proof -
  let ?ns = "hs_nodes h" and ?root = "B_Root (Ex_Artifacts e)"
  have *: "genuine ?ns (Ex_FirmwareRoot e) (Des_Firmware d) (Des_FirmwareSHA256 d) \<and>
    (\<forall>(p, c)\<in>set (zip (Des_AdditionalDisks d) (Des_AdditionalDiskSHA256s d)). genuine ?ns ?root p c) \<and>
    (b \<longrightarrow> genuine ?ns ?root (Des_Disk d) (Des_DiskSHA256 d))"
  proof (cases b)
    case True
    with assms obtain h1 where v: "Builder_Verify (Ex_Artifacts e) (Des_Disk d # Des_AdditionalDisks d) (Des_DiskSHA256 d # Des_AdditionalDiskSHA256s d) h = (Inr (), h1)"
      "VerifyOwnedFile (Ex_FirmwareRoot e) (Des_Firmware d) (Des_FirmwareSHA256 d) h1 = (Inr (), h')"
      by (auto simp: verifyVMArtifacts_def bindG_eq_Inr split: if_splits)
    from Builder_Verify_genuine(2,3) [OF v(1)] VerifyOwnedFile_genuine [OF v(2)] show ?thesis by simp
  next
    case False
    with assms obtain h1 h2 where o: "VerifyOwnedPath ?root (Des_Disk d) h = (Inr (), h1)"
      and a: "Des_AdditionalDisks d = [] \<and> h2 = h1 \<or>
        Builder_Verify (Ex_Artifacts e) (Des_AdditionalDisks d) (Des_AdditionalDiskSHA256s d) h1 = (Inr (), h2)"
      and f: "VerifyOwnedFile (Ex_FirmwareRoot e) (Des_Firmware d) (Des_FirmwareSHA256 d) h2 = (Inr (), h')"
      by (auto simp: verifyVMArtifacts_def bindG_eq_Inr split: if_splits)
    have n1: "hs_nodes h1 = ?ns" using stepsD [OF quiet_verify(3) o] by (simp add: quiet_def)
    with a Builder_Verify_genuine [of "Ex_Artifacts e" "Des_AdditionalDisks d" "Des_AdditionalDiskSHA256s d" h1 h2]
    have "hs_nodes h2 = ?ns" "\<forall>(p, c)\<in>set (zip (Des_AdditionalDisks d) (Des_AdditionalDiskSHA256s d)). genuine ?ns ?root p c"
      by auto
    with False VerifyOwnedFile_genuine [OF f] show ?thesis by simp
  qed
  then show "\<forall>(root, path, checksum)\<in>boot_inputs e d. genuine ?ns root path checksum" by (auto simp: boot_inputs_def)
  from * show "b \<Longrightarrow> genuine ?ns ?root (Des_Disk d) (Des_DiskSHA256 d)" by blast
qed

text \<open>
  C1: nothing unverified is created or booted. If, when \<open>vm.info\<close> has answered, the firmware or
  one of the read-only disks of the request is not a regular file below its root with the requested
  checksum, \<open>EnsureVM\<close> fails at this point: from then on no file, socket or daemon changes,
  so the VM is neither created nor booted.
\<close>

theorem bring_up_refuses_unverified:
  assumes "api_Info (Env_HTTP (Ex_Env e)) (Des_APISocket d) (host w) = (info, h)"
    and "(root, path, checksum) \<in> boot_inputs e d" and "\<not> genuine (hs_nodes h) root path checksum"
  shows "\<exists>err w'. bring_up e m d w = (Inl err, w') \<and> hs_nodes (host w') = hs_nodes h \<and> hs_ext (host w') = hs_ext h"
proof -
  obtain inv w2 where s: "storeG e (Store_GetVM (Owner_InstallationID (Mut_Owner m)) (Owner_UID (Mut_Owner m))) (w\<lparr>host := h\<rparr>) = (inv, w2)"
    by fastforce
  then have h2: "host w2 = h" by (auto dest: storeG_host)
  have ver: "\<exists>err h'. verifyVMArtifacts e d (Des_Disk d # Des_AdditionalDisks d) (Des_DiskSHA256 d # Des_AdditionalDiskSHA256s d) b h = (Inl err, h') \<and> quiet h h'" for b
  proof -
    obtain v h' where v: "verifyVMArtifacts e d (Des_Disk d # Des_AdditionalDisks d) (Des_DiskSHA256 d # Des_AdditionalDiskSHA256s d) b h = (v, h')" by fastforce
    then have "quiet h h'" by (rule stepsD [OF quiet_verifyVMArtifacts])
    moreover have "\<exists>err. v = Inl err" using v assms(2,3) verifyVMArtifacts_genuine(1) [of e d b h h'] by (cases v) auto
    ultimately show ?thesis using v by blast
  qed
  let ?b = "(case inv of Inl _ \<Rightarrow> True | Inr _ \<Rightarrow> False) \<and> ((case info of Inl _ \<Rightarrow> True | Inr _ \<Rightarrow> False) \<or> (case info of Inl _ \<Rightarrow> [] | Inr st \<Rightarrow> st) = ''Created'')"
  from ver [of ?b] obtain err h' where "verifyVMArtifacts e d (Des_Disk d # Des_AdditionalDisks d) (Des_DiskSHA256 d # Des_AdditionalDiskSHA256s d) ?b h = (Inl err, h')"
    "hs_nodes h' = hs_nodes h" "hs_ext h' = hs_ext h" by (auto simp: quiet_def)
  with assms(1) s h2 show ?thesis
    by (cases info; cases inv) (auto simp: bring_up_def catchG_def run_bind hostG_def onG_def Let_def)
qed


definition sample_desired :: vm_desired where
  "sample_desired = \<lparr>Des_UID = ''u'', Des_Name = ''web'', Des_Image = [], Des_Firmware = ''/fw/fw.bin'', Des_FirmwareSHA256 = ''00'',
     Des_APISocket = ''/a/web.sock'', Des_VhostSocket = ''/s/web.sock'', Des_Disk = ''/a/web-root.qcow2'', Des_MAC = ''c6:00:00:00:00:01'',
     Des_IP = ''10.1.2.3'', Des_CPUs = 2, Des_MemoryMiB = 512, Des_AdditionalDisks = [], Des_DiskSHA256 = ''00'', Des_AdditionalDiskSHA256s = []\<rparr>"

theorem bring_up_refuses_unverified_witness:
  "\<exists>err w'. bring_up sample_executor sample_mutation sample_desired sample_world = (Inl err, w') \<and> hs_nodes (host w') = hs_nodes disk_host"
proof -
  have info: "api_Info (Env_HTTP (Ex_Env sample_executor)) (Des_APISocket sample_desired) (host sample_world) = (Inr ''Running'', disk_host)"
    by (simp add: api_Info_def api_do_def sample_executor_def sample_env_def sample_world_def run_bind liftG_def)
  have "resolve (hs_nodes disk_host) ''/fw'' = Inl NoEntry" by code_simp
  then have "\<not> genuine (hs_nodes disk_host) ''/fw'' ''/fw/fw.bin'' ''00''" by (simp add: genuine_def)
  moreover have "(''/fw'', ''/fw/fw.bin'', ''00'') \<in> boot_inputs sample_executor sample_desired"
    by (simp add: boot_inputs_def sample_executor_def sample_desired_def)
  ultimately show ?thesis using bring_up_refuses_unverified [OF info] by blast
qed

section \<open>Repeating EnsureVM\<close>

text \<open>The fields \<open>EnsureVM\<close> requires.\<close>

definition complete_desired :: "vm_desired \<Rightarrow> bool" where
  "complete_desired d \<longleftrightarrow> Des_UID d \<noteq> [] \<and> Des_Disk d \<noteq> [] \<and> Des_Firmware d \<noteq> [] \<and> Des_FirmwareSHA256 d \<noteq> [] \<and> Des_APISocket d \<noteq> [] \<and>
     Des_VhostSocket d \<noteq> [] \<and> Des_MAC d \<noteq> [] \<and> Des_CPUs d \<noteq> 0 \<and> Des_MemoryMiB d \<noteq> 0"

definition vm_executor :: "'x executor \<Rightarrow> bool" where
  "vm_executor e \<longleftrightarrow> Ex_Systemd e \<noteq> None \<and> Ex_Store e \<and> Ex_UnitDir e \<noteq> [] \<and> Ex_CloudHypervisor e \<noteq> [] \<and> Ex_FirmwareRoot e \<noteq> []"

text \<open>
  C34: a repeated \<open>EnsureVM\<close> only observes. Once the journal has the completed operation,
  \<open>EnsureVM\<close> under that key is \<open>GetVM\<close> on an unchanged host and unchanged tables, for
  every complete request: other CPUs, memory, disks or firmware than the VM was created with are
  neither applied nor rejected, since the request hash does not cover the desired VM.
\<close>

theorem EnsureVM_replay_observes:
  assumes "recorded m ''EnsureVM'' [] (tables_of w) op" and "Op_State op = OperationCompleted" and "healthy (db w)"
    and "Mutation_Validate m = None" and "vm_executor e"
  shows "\<exists>w1. host w1 = host w \<and> tables_of w1 = tables_of w \<and>
    (\<forall>d. complete_desired (with_manifest e d) \<longrightarrow> EnsureVM e m d w = GetVM e (Mut_Owner m) w1)"
proof -
  from assms(5) have st: "Ex_Store e" by (simp add: vm_executor_def)
  from begin_op_replay [OF assms(1,3) st assms(4)] obtain w1 where
    "begin_op e m ''EnsureVM'' [] w = (Inr op, w1)" "host w1 = host w" "tables_of w1 = tables_of w" by auto
  with assms(2,4,5) show ?thesis
    by (intro exI [of _ w1]) (auto simp: EnsureVM_def run_bind Let_def vm_executor_def complete_desired_def)
qed

theorem EnsureVM_replay_observes_witness:
  "\<exists>w1. EnsureVM sample_executor sample_mutation (sample_desired\<lparr>Des_CPUs := 64\<rparr>)
      (with_journal (outcome ''EnsureVM'' [] OperationCompleted [] [])) = GetVM sample_executor (Mut_Owner sample_mutation) w1 \<and>
    tables_of w1 = tables_of (with_journal (outcome ''EnsureVM'' [] OperationCompleted [] []))"
proof -
  have "vm_executor sample_executor" "complete_desired (with_manifest sample_executor (sample_desired\<lparr>Des_CPUs := 64\<rparr>))"
    by (simp_all add: vm_executor_def complete_desired_def with_manifest_def sample_executor_def sample_desired_def)
  then show ?thesis
    using EnsureVM_replay_observes [OF with_journal_simps(1) [of "''EnsureVM''" "[]" OperationCompleted "[]" "[]"], of sample_executor]
    by auto
qed


section \<open>A VM that was brought up is observed\<close>

lemma EnsureVM_new:
  assumes "EnsureVM e m desired w = (Inr obs, w')" and "healthy (db w)" and "tables_ok (tables_of w)"
    and "select_row op_key (Owner_InstallationID (Mut_Owner m), Owner_UID (Mut_Owner m), Mut_IdempotencyKey m)
           (operation_journal (tables_of w)) = None"
  obtains u w1 w2 where "Mutation_Validate m = None" "Ex_Store e" "Ex_Systemd e \<noteq> None"
    "obs = vm_seen m (with_manifest e desired) u" "bring_up e m (with_manifest e desired) w1 = (Inr (), w2)"
    "own_vm (Mut_Owner m) (tables_of w') = Some (vm_row m (with_manifest e desired) u)"
proof -
  let ?d = "with_manifest e desired"
  from assms(1) have v: "Mutation_Validate m = None" and sy: "Ex_Systemd e \<noteq> None" and st: "Ex_Store e"
    by (auto simp: EnsureVM_def bindG_eq_Inr Let_def split: if_split_asm)
  obtain op w0 where b: "begin_op e m ''EnsureVM'' [] w = (Inr op, w0)" and i: "Op_State op = OperationIntent"
    using begin_op_new [OF assms(2) st v _ assms(4), of "''EnsureVM''" "[]"] assms(3) by (auto simp: tables_ok_def journal_ok_def)
  from assms(1) b i v obtain u w1 w2 w3 where up: "bring_up e m ?d w1 = (Inr (), w2)"
    and row: "storeG e (UpsertVM (vm_row m ?d u)) w2 = (Inr (), w3)"
    and co: "complete_op e m ''EnsureVM'' (Op_RequestHash op) OperationCompleted (Marshal (observed_json (vm_seen m ?d u))) [] w3 = (Inr (), w')"
    and obs: "obs = vm_seen m ?d u"
    by (auto simp: EnsureVM_def bindG_eq_Inr Let_def split: if_split_asm)
  from row obtain t where "UpsertVM (vm_row m ?d u) (db w2) = (Inr (), t)" "db w3 = t" by (auto simp: storeG_Inr)
  then have "vms (tables_of w3) = upsert_row vm_key (vm_row m ?d u) (vms (tables_of w2))" using vm_table.put_ok by blast
  with complete_op_tables(3) [OF co] have "own_vm (Mut_Owner m) (tables_of w') = Some (vm_row m ?d u)"
    by (simp add: select_upsert_row vm_key_def vm_row_def)
  with that v st sy obs up show thesis by blast
qed

text \<open>
  C25: a VM that was brought up is observed as requested. After \<open>EnsureVM\<close> under an unused
  key succeeded, \<open>GetVM\<close> for the same owner, while the VM's row stays, asks systemd for the
  VM's own unit and returns the requested sockets, MAC, address and generation with the process that
  systemd reports.
\<close>

theorem EnsureVM_then_GetVM:
  assumes "EnsureVM e m desired w = (Inr obs, w1)" and "healthy (db w)" and "tables_ok (tables_of w)"
    and "select_row op_key (Owner_InstallationID (Mut_Owner m), Owner_UID (Mut_Owner m), Mut_IdempotencyKey m)
           (operation_journal (tables_of w)) = None"
    and "healthy (db w2)" and "vms (tables_of w2) = vms (tables_of w1)"
    and "Ex_Systemd e = Some c" and "SC_GetUnit c (vm_unit m) (host w2) = (Inr u, h)"
  shows "\<exists>w3. GetVM e (Mut_Owner m) w2 = (Inr \<lparr>Obs_UID = Owner_UID (Mut_Owner m), Obs_Unit = vm_unit m, Obs_PID = uint (Unit_PID u),
      Obs_GuestUptime = 0, Obs_Running = (Unit_PID u \<noteq> 0), Obs_APISocket = Des_APISocket desired, Obs_VhostSocket = Des_VhostSocket desired,
      Obs_IP = Des_IP desired, Obs_MAC = Des_MAC desired, Obs_Generation = Mut_Generation m\<rparr>, w3) \<and> host w3 = h"
proof -
  obtain u' where r: "Mutation_Validate m = None" "Ex_Store e" "own_vm (Mut_Owner m) (tables_of w1) = Some (vm_row m (with_manifest e desired) u')"
    by (rule EnsureVM_new [OF assms(1-4)]) blast
  have fields: "Des_APISocket (with_manifest e desired) = Des_APISocket desired" "Des_VhostSocket (with_manifest e desired) = Des_VhostSocket desired"
    "Des_IP (with_manifest e desired) = Des_IP desired" "Des_MAC (with_manifest e desired) = Des_MAC desired"
    by (simp_all add: with_manifest_def split: option.split)
  from r assms(5-8) GetVM_store_healthy [OF assms(5) r(2), of "Mut_Owner m"] fields show ?thesis
    by (simp add: GetVM_def run_bind catchG_def run_wrap sysdG_def hostG_def onG_def vm_row_def Mutation_Validate_None)
qed


lemma map_of_filter_key: "map_of (filter (\<lambda>(p, _). P p) ns) p = (if P p then map_of ns p else None)"
  by (induction ns) auto

definition vm_host :: "unit host" where
  "vm_host = \<lparr>hs_nodes = [([''a''], Directory), ([''a'', ''web-root.qcow2''], RegularFile [1]), ([''a'', ''web.sock''], SocketFile),
       ([''fw''], Directory), ([''fw'', ''fw.bin''], RegularFile [1]), ([''u''], Directory)],
     hs_fault = (\<lambda>_ _ _. None), hs_calls = 0, hs_random = (\<lambda>_. ''7''), hs_ext = ()\<rparr>"

definition vm_unit_host :: "unit host" where
  "vm_unit_host = snd (bindG (os_MkdirAll ''/a'') (\<lambda>_. Install sample_systemd ''/u''
     \<lparr>PU_InstallationID = ''i'', PU_OwnerUID = ''u'', PU_NodeID = ''n'', PU_Name = ''k8slab-vm-u.service'', PU_Description = [],
      PU_ExecStart = [''/ch'', ''--api-socket'', ''path=/a/web.sock''], PU_Environment = [], PU_Restart = []\<rparr>) vm_host)"

lemma vm_unit_host_run:
  "fst (bindG (os_MkdirAll ''/a'') (\<lambda>_. Install sample_systemd ''/u''
     \<lparr>PU_InstallationID = ''i'', PU_OwnerUID = ''u'', PU_NodeID = ''n'', PU_Name = ''k8slab-vm-u.service'', PU_Description = [],
      PU_ExecStart = [''/ch'', ''--api-socket'', ''path=/a/web.sock''], PU_Environment = [], PU_Restart = []\<rparr>) vm_host) =
   Inr \<lparr>Unit_Name = ''k8slab-vm-u.service'', Unit_Path = ''/u'', Unit_PID = 42\<rparr>"
  by code_simp

lemma vm_unit_host_fault: "hs_fault vm_unit_host n c p = None"
  by code_simp

lemma vm_unit_host_nodes:
  "filter (\<lambda>(p, _). p \<noteq> [''u'', ''k8slab-vm-u.service'']) (hs_nodes vm_unit_host) = hs_nodes vm_host"
  by code_simp

lemma vm_unit_host_node:
  assumes "p \<noteq> [''u'', ''k8slab-vm-u.service'']"
  shows "map_of (hs_nodes vm_unit_host) p = map_of (hs_nodes vm_host) p"
  using map_of_filter_key [of "\<lambda>p. p \<noteq> [''u'', ''k8slab-vm-u.service'']" "hs_nodes vm_unit_host" p] assms
  by (simp add: vm_unit_host_nodes)

lemma vm_unit_host_paths:
  "resolve (hs_nodes vm_unit_host) ''/a'' = Inr [''a'']" "resolve (hs_nodes vm_unit_host) ''/fw'' = Inr [''fw'']"
  "locate (hs_nodes vm_unit_host) ''/a/web-root.qcow2'' = Inr [''a'', ''web-root.qcow2'']"
  "resolve (hs_nodes vm_unit_host) ''/a/web-root.qcow2'' = Inr [''a'', ''web-root.qcow2'']"
  "locate (hs_nodes vm_unit_host) ''/fw/fw.bin'' = Inr [''fw'', ''fw.bin'']"
  "resolve (hs_nodes vm_unit_host) ''/fw/fw.bin'' = Inr [''fw'', ''fw.bin'']"
  "node_at (hs_nodes vm_unit_host) [''fw'', ''fw.bin''] = Some (RegularFile [1])"
  "node_at (hs_nodes vm_unit_host) [''a'', ''web-root.qcow2''] = Some (RegularFile [1])"
  "resolve (hs_nodes vm_unit_host) ''/a/web.sock'' = Inr [''a'', ''web.sock'']"
  "node_at (hs_nodes vm_unit_host) [''a'', ''web.sock''] = Some SocketFile"
  by (simp_all add: resolve_def locate_def Let_def walk.simps node_at_def vm_unit_host_node vm_host_def)

lemma vm_host_verified:
  assumes "hs_nodes h = hs_nodes vm_unit_host" and "hs_fault h = hs_fault vm_unit_host"
  shows "\<exists>h'. verifyVMArtifacts sample_executor (sample_desired\<lparr>Des_FirmwareSHA256 := hex_string (sha256 [1])\<rparr>) [''/a/web-root.qcow2''] [''00''] False h =
    (Inr (), h')"
proof -
  have "slash_path [''a''] = ''/a''" "slash_path [''fw''] = ''/fw''" "slash_path [''a'', ''web-root.qcow2''] = ''/a/web-root.qcow2''"
    "slash_path [''fw'', ''fw.bin''] = ''/fw/fw.bin''" "within ''/a'' ''/a/web-root.qcow2''" "within ''/fw'' ''/fw/fw.bin''" by code_simp+
  then show ?thesis
    using hex_string_hex [of "sha256 [1]"] assms vm_unit_host_paths vm_unit_host_fault
    by (simp add: verifyVMArtifacts_def VerifyOwnedPath_def VerifyOwnedFile_def resolveOwnedPath_def fileSHA256_def run_bind run_wrap catchG_def IsAbs_def
        EvalSymlinks_def os_Lstat_def os_ReadFile_def sys_def at_resolved_def at_located_def node_of_def read_node_def
        is_regular_def Let_def sample_executor_def sample_builder_def sample_desired_def)
qed


definition vm_request :: vm_desired where
  "vm_request = sample_desired\<lparr>Des_FirmwareSHA256 := hex_string (sha256 [1])\<rparr>"

lemma empty_store_tables [simp]: "st_tables empty_store = empty_tables" "operation_journal empty_tables = []" "vms empty_tables = []"
  by (simp_all add: empty_store_def empty_tables_def)

abbreviation fresh_world :: "unit world" where
  "fresh_world \<equiv> \<lparr>db = empty_store, host = vm_host\<rparr>"

lemma vm_request_simps [simp]:
  "with_manifest sample_executor vm_request = vm_request" "complete_desired vm_request" "vm_executor sample_executor"
  "vm_unit sample_mutation = ''k8slab-vm-u.service''"
proof -
  have "hex_string (sha256 [1]) \<noteq> []" by (metis length_0_conv length_hex_string length_sha256 mult_is_0 zero_neq_numeral)
  then show "complete_desired vm_request" by (simp add: vm_request_def sample_desired_def complete_desired_def)
qed (simp_all add: vm_executor_def with_manifest_def sample_executor_def vm_unit_def sample_mutation_def)

lemma fresh_install:
  assumes "host w = vm_host"
  obtains u where "bindG (wrapG msg (hostG (os_MkdirAll (Dir (Des_APISocket vm_request))))) (\<lambda>_. bindG (install_vm_unit sample_executor sample_mutation vm_request) k) w =
    k u (w\<lparr>host := vm_unit_host\<rparr>)"
proof -
  let ?pu = "\<lparr>PU_InstallationID = ''i'', PU_OwnerUID = ''u'', PU_NodeID = ''n'', PU_Name = ''k8slab-vm-u.service'', PU_Description = [],
      PU_ExecStart = [''/ch'', ''--api-socket'', ''path=/a/web.sock''], PU_Environment = [], PU_Restart = []\<rparr>"
  let ?u = "\<lparr>Unit_Name = ''k8slab-vm-u.service'', Unit_Path = ''/u'', Unit_PID = 42\<rparr>"
  have "bindG (os_MkdirAll ''/a'') (\<lambda>_. Install sample_systemd ''/u'' ?pu) vm_host = (Inr ?u, vm_unit_host)"
    using vm_unit_host_run unfolding vm_unit_host_def by (metis prod.collapse)
  then obtain h1 where h1: "os_MkdirAll ''/a'' vm_host = (Inr (), h1)" "Install sample_systemd ''/u'' ?pu h1 = (Inr ?u, vm_unit_host)"
    by (auto simp: bindG_eq_Inr)
  have dir: "Dir ''/a/web.sock'' = ''/a''" by code_simp
  have i: "install_vm_unit sample_executor sample_mutation vm_request (w\<lparr>host := h1\<rparr>) = (Inr ?u, w\<lparr>host := vm_unit_host\<rparr>)"
    using h1(2) by (simp add: install_vm_unit_def sysdG_def hostG_def onG_def)
      (simp add: vm_request_def sample_desired_def sample_executor_def sample_mutation_def)
  have "hostG (os_MkdirAll (Dir (Des_APISocket vm_request))) w = (Inr (), w\<lparr>host := h1\<rparr>)"
    using h1(1) dir assms by (simp add: hostG_def onG_def vm_request_def sample_desired_def)
  with i that [of ?u] show thesis by (simp add: run_bind run_wrap)
qed

lemma fresh_bring_up:
  assumes "host w = vm_unit_host" and "healthy (db w)" and "vms (tables_of w) = []"
  obtains w' where "bindG (hostG (waitForSocket sample_executor (Des_APISocket vm_request))) (\<lambda>_. bring_up sample_executor sample_mutation vm_request) w = (Inr (), w')"
    "tables_of w' = tables_of w" "healthy (db w')"
proof -
  let ?h1 = "vm_unit_host\<lparr>hs_calls := Suc (hs_calls vm_unit_host)\<rparr>"
  have "201 = Suc 200" by simp
  then have "waitForSocket sample_executor ''/a/web.sock'' vm_unit_host = (Inr (), ?h1)"
    using vm_unit_host_paths(9,10) vm_unit_host_fault
    by (simp only: waitForSocket_def wait_loop.simps(2))
      (simp add: catchG_def os_Stat_def sys_def at_resolved_def node_of_def Let_def)
  then have wait: "hostG (waitForSocket sample_executor (Des_APISocket vm_request)) w = (Inr (), w\<lparr>host := ?h1\<rparr>)"
    using assms(1) by (simp add: hostG_def onG_def vm_request_def sample_desired_def)
  have info: "api_Info (Env_HTTP (Ex_Env sample_executor)) s h = (Inr ''Running'', h)" for s h
    by (simp add: api_Info_def api_do_def sample_executor_def sample_env_def run_bind liftG_def)
  obtain h2 where ver: "verifyVMArtifacts sample_executor vm_request [''/a/web-root.qcow2''] [''00''] False ?h1 = (Inr (), h2)"
    using vm_host_verified [of ?h1] by (auto simp: vm_request_def)
  have d: "Des_Disk vm_request = ''/a/web-root.qcow2''" "Des_AdditionalDisks vm_request = []" "Des_DiskSHA256 vm_request = ''00''"
    "Des_AdditionalDiskSHA256s vm_request = []" by (simp_all add: vm_request_def sample_desired_def)
  have get: "storeG sample_executor (Store_GetVM i u) (w\<lparr>host := ?h1\<rparr>) = (Inl (sentinel_err SqlErrNoRows), read_rows 1 (w\<lparr>host := ?h1\<rparr>))" for i u
    using assms(2,3) by (simp add: Store_GetVM_def storeG_read_healthy read_rows_def)
  have "bring_up sample_executor sample_mutation vm_request (w\<lparr>host := ?h1\<rparr>) = (Inr (), (read_rows 1 (w\<lparr>host := ?h1\<rparr>))\<lparr>host := h2\<rparr>)"
    using info get ver d by (simp add: bring_up_def catchG_def run_bind hostG_def onG_def Let_def)
  with wait assms(2) that [of "(read_rows 1 (w\<lparr>host := ?h1\<rparr>))\<lparr>host := h2\<rparr>"] show thesis by (simp add: run_bind read_rows_def)
qed


lemma fresh_EnsureVM:
  "\<exists>obs w'. EnsureVM sample_executor sample_mutation vm_request fresh_world = (Inr obs, w') \<and> healthy (db w')"
proof -
  let ?e = sample_executor and ?m = sample_mutation and ?d = vm_request
  obtain op w0 where b: "begin_op ?e ?m ''EnsureVM'' [] fresh_world = (Inr op, w0)" "recorded ?m ''EnsureVM'' [] (tables_of w0) op"
    "Op_State op = OperationIntent" "host w0 = vm_host" "healthy (db w0)" "distinct (map op_key (operation_journal (tables_of w0)))"
    "vms (tables_of w0) = []"
    using begin_op_new [of fresh_world ?e ?m "''EnsureVM''" "[]"] by auto
  define k where "k = (\<lambda>u. bindG (hostG (waitForSocket ?e (Des_APISocket ?d))) (\<lambda>_.
     bindG (bring_up ?e ?m ?d) (\<lambda>_. bindG (storeG ?e (UpsertVM (vm_row ?m ?d u))) (\<lambda>_.
     bindG (complete_op ?e ?m ''EnsureVM'' (Op_RequestHash op) OperationCompleted (Marshal (observed_json (vm_seen ?m ?d u))) []) (\<lambda>_.
     returnG (vm_seen ?m ?d u))))))"
  obtain u where u: "bindG (wrapG ''create Cloud Hypervisor API socket directory'' (hostG (os_MkdirAll (Dir (Des_APISocket ?d)))))
      (\<lambda>_. bindG (install_vm_unit ?e ?m ?d) k) w0 = k u (w0\<lparr>host := vm_unit_host\<rparr>)"
    using fresh_install [OF b(4)] by blast
  obtain w2 where w2: "bindG (hostG (waitForSocket ?e (Des_APISocket ?d))) (\<lambda>_. bring_up ?e ?m ?d) (w0\<lparr>host := vm_unit_host\<rparr>) = (Inr (), w2)"
    "tables_of w2 = tables_of w0" "healthy (db w2)"
    by (rule fresh_bring_up [of "w0\<lparr>host := vm_unit_host\<rparr>"]) (use b in simp_all)
  let ?w3 = "w2\<lparr>db := (db w2)\<lparr>st_calls := Suc (st_calls (db w2)), st_tables := (tables_of w2)\<lparr>vms := [vm_row ?m ?d u]\<rparr>\<rparr>\<rparr>"
  have up: "storeG ?e (UpsertVM (vm_row ?m ?d u)) w2 = (Inr (), ?w3)"
    using w2 b(7) by (simp add: storeG_run UpsertVM_def run_wrap sql_exec_healthy unique_for_def)
  have "recorded ?m ''EnsureVM'' [] (tables_of ?w3) op" using b(2) w2(2) by (simp add: recorded_def)
  then obtain w4 where co: "complete_op ?e ?m ''EnsureVM'' (operationHash ''EnsureVM'' ?m []) OperationCompleted (Marshal (observed_json (vm_seen ?m ?d u))) [] ?w3 = (Inr (), w4)"
    "healthy (db w4)"
    using complete_op_healthy [of ?m "''EnsureVM''" "[]" ?w3 op ?e OperationCompleted "Marshal (observed_json (vm_seen ?m ?d u))" "[]"] b(3,6) w2 by auto
  have "k u (w0\<lparr>host := vm_unit_host\<rparr>) = (Inr (vm_seen ?m ?d u), w4)"
    using w2(1) up co(1) begin_op_Inr(3) [OF b(1)] by (auto simp: k_def run_bind bindG_eq_Inr split: prod.splits sum.splits)
  moreover have "EnsureVM ?e ?m ?d fresh_world = k u (w0\<lparr>host := vm_unit_host\<rparr>)"
  proof -
    have "\<not> (Ex_Systemd ?e = None \<or> \<not> Ex_Store ?e \<or> Ex_UnitDir ?e = [] \<or> Ex_CloudHypervisor ?e = [] \<or> Ex_FirmwareRoot ?e = [])"
      using vm_request_simps(3) by (auto simp: vm_executor_def)
    moreover have "\<not> (Des_UID ?d = [] \<or> Des_Disk ?d = [] \<or> Des_Firmware ?d = [] \<or> Des_FirmwareSHA256 ?d = [] \<or> Des_APISocket ?d = [] \<or>
        Des_VhostSocket ?d = [] \<or> Des_MAC ?d = [] \<or> Des_CPUs ?d = 0 \<or> Des_MemoryMiB ?d = 0)"
      using vm_request_simps(2) by (auto simp: complete_desired_def)
    moreover have "[] \<notin> set (Des_AdditionalDisks ?d)" by (simp add: vm_request_def sample_desired_def)
    ultimately show ?thesis using b(1,3) u by (simp add: EnsureVM_def run_bind [of "begin_op e m kk i" for e m kk i] Let_def k_def)
  qed
  ultimately show ?thesis using co(2) by simp
qed

theorem EnsureVM_then_GetVM_witness:
  "\<exists>obs w1 w3. EnsureVM sample_executor sample_mutation vm_request fresh_world = (Inr obs, w1) \<and>
     (\<exists>v. GetVM sample_executor (Mut_Owner sample_mutation) w1 = (Inr v, w3) \<and> Obs_MAC v = ''c6:00:00:00:00:01'')"
proof -
  obtain obs w1 where w1: "EnsureVM sample_executor sample_mutation vm_request fresh_world = (Inr obs, w1)" "healthy (db w1)"
    using fresh_EnsureVM by blast
  have "SC_GetUnit sample_systemd (vm_unit sample_mutation) (host w1) =
      (Inr \<lparr>Unit_Name = ''k8slab-vm-u.service'', Unit_Path = ''/u'', Unit_PID = 42\<rparr>, host w1)"
    by (simp add: sample_systemd_def)
  from EnsureVM_then_GetVM [OF w1(1) _ _ _ w1(2) refl sample_simps(3) this] obtain v w3 where
    "GetVM sample_executor (Mut_Owner sample_mutation) w1 = (Inr v, w3)" "Obs_MAC v = Des_MAC vm_request"
    by auto
  moreover have "Des_MAC vm_request = ''c6:00:00:00:00:01''" by (simp add: vm_request_def sample_desired_def)
  ultimately show ?thesis using w1(1) by auto
qed


end
