(* ===== verification/ExecutorFiles.thy ===== *)
theory ExecutorFiles
  imports ExecutorLifecycle
begin

text \<open>
  Which files \<open>DeleteVM\<close> removes: on a tree without symbolic links only files below the
  artifact root, but every file whose name starts with the VM's disk name and a dash.
\<close>

section \<open>Paths without symbolic links\<close>

definition no_links :: "nodes \<Rightarrow> bool" where
  "no_links ns \<longleftrightarrow> (\<forall>p t. map_of ns p \<noteq> Some (Symlink t))"

lemma clean_step_butlast:
  assumes "dotdot \<notin> set d"
  shows "clean_step True (rev d) dotdot = rev (butlast d)"
  using assms by (cases d rule: rev_cases) (auto simp: clean_step_def)

lemma walk_lexical:
  assumes "walk create ns n d todo = Inr p" and "no_links ns" and "dotdot \<notin> set d"
  shows "rev p = foldl (clean_step True) (rev d) todo"
  using assms
proof (induction create ns n d todo rule: walk.induct)
  case (1 create ns n d)
  then show ?case by (simp add: walk.simps)
next
  case (2 create ns n d c cs)
  consider "c = [] \<or> c = ''.''" | "c = dotdot" | "c \<noteq> []" "c \<noteq> ''.''" "c \<noteq> dotdot" by blast
  then show ?case
  proof cases
    case 1
    with 2 show ?thesis by (auto simp: walk.simps(2) clean_step_def)
  next
    case 2
    with "2.prems" "2.IH"(2) clean_step_butlast [of d] show ?thesis
      by (auto simp: walk.simps(2) dest: in_set_butlastD)
  next
    case 3
    then have step: "clean_step True (rev d) c = rev (d @ [c])" by (simp add: clean_step_def)
    show ?thesis
    proof (cases "map_of ns (d @ [c])")
      case None
      with 3 "2.prems" step show ?thesis by (auto simp: walk.simps(2) split: if_splits)
    next
      case (Some nd)
      with 3 "2.prems" "2.IH"(3) [OF _ _ Some] step show ?thesis
        by (cases nd) (auto simp: walk.simps(2) no_links_def split: if_splits)
    qed
  qed
qed

lemma foldl_clean_filter: "foldl (clean_step r) st (filter (\<lambda>c. c \<noteq> [] \<and> c \<noteq> ''.'') xs) = foldl (clean_step r) st xs"
  by (induction xs arbitrary: st) (auto simp: clean_step_def)

lemma locate_lexical:
  assumes "locate ns path = Inr p" and "no_links ns" and "IsAbs path"
  shows "p = clean_elems path"
proof -
  let ?cs = "filter (\<lambda>c. c \<noteq> [] \<and> c \<noteq> ''.'') (split_slash path)"
  have "rev p = foldl (clean_step True) [] (split_slash path)"
  proof (cases "?cs = [] \<or> last ?cs = dotdot")
    case True
    with assms(1) have "walk False ns 255 [] (split_slash path) = Inr p" by (simp add: locate_def resolve_def Let_def)
    from walk_lexical [OF this assms(2)] show ?thesis by simp
  next
    case False
    with assms(1) obtain d where d: "walk False ns 255 [] (butlast ?cs @ [[]]) = Inr d" "p = d @ [last ?cs]"
      by (auto simp: locate_def Let_def split: sum.splits)
    have "last ?cs \<in> set ?cs" using False by (intro last_in_set) simp
    then have "last ?cs \<noteq> [] \<and> last ?cs \<noteq> ''.''" by simp
    with False have "clean_step True st (last ?cs) = last ?cs # st" for st by (auto simp: clean_step_def)
    moreover have "rev d = foldl (clean_step True) [] (butlast ?cs)"
      using walk_lexical [OF d(1) assms(2)] by (simp add: clean_step_def)
    ultimately have "rev p = foldl (clean_step True) [] (butlast ?cs @ [last ?cs])" using d(2) by simp
    with False show ?thesis by (simp add: foldl_clean_filter)
  qed
  with assms(3) show ?thesis by (metis clean_elems_def rev_rev_ident)
qed

section \<open>Removal stays below the artifact root\<close>

definition removes_below :: "string list \<Rightarrow> 'x host \<Rightarrow> 'x host \<Rightarrow> bool" where
  "removes_below r h h' \<longleftrightarrow> (no_links (hs_nodes h) \<longrightarrow>
     no_links (hs_nodes h') \<and> (\<forall>p. \<not> prefix r p \<longrightarrow> map_of (hs_nodes h') p = map_of (hs_nodes h) p) \<and> hs_ext h' = hs_ext h)"

interpretation removal: go_preorder "removes_below r" for r
  by unfold_locales (auto simp: removes_below_def)

lemma below_prefix: "below q p \<longleftrightarrow> prefix q p"
  by (auto simp: below_def prefix_def) (metis append_take_drop_id)

lemma removeOwnedArtifact_below:
  assumes "IsAbs root"
  shows "steps (removes_below (clean_elems root)) (removeOwnedArtifact root path)"
proof (cases "within root path")
  case True
  then have abs: "IsAbs path" using assms by (simp add: within_IsAbs)
  with True have pre: "prefix (clean_elems root) (clean_elems path)" using assms by (simp add: within_prefix)
  have "steps (removes_below (clean_elems root)) (os_RemoveAll path)"
  proof (rule stepsI)
    fix h h' :: "'x host" and r
    assume run: "os_RemoveAll path h = (r, h')"
    have "no_links (hs_nodes h) \<Longrightarrow> removes_below (clean_elems root) h h'"
    proof (cases "locate (hs_nodes h) path")
      case (Inl er)
      with run show ?thesis
        by (cases er) (auto simp: os_RemoveAll_def sys_def Let_def removes_below_def split: option.splits)
    next
      case (Inr q)
      assume nl: "no_links (hs_nodes h)"
      have q: "q = clean_elems path" by (rule locate_lexical [OF Inr nl abs])
      show ?thesis
        using run Inr nl q pre
        by (auto simp: os_RemoveAll_def sys_def Let_def removes_below_def map_of_filter_key no_links_def below_prefix
            split: option.splits if_split_asm dest: prefix_order.trans)
    qed
    then show "removes_below (clean_elems root) h h'" by (auto simp: removes_below_def)
  qed
  with True show ?thesis unfolding removeOwnedArtifact_def by auto
qed (auto simp: removeOwnedArtifact_def)

lemma os_ReadDir_quiet: "steps quiet (os_ReadDir path)"
  unfolding os_ReadDir_def
  by (rule quiet_sys) (auto simp: at_resolved_def run_bind node_of_def split: sum.splits option.splits if_splits)

lemma quiet_removes_below: "steps quiet m \<Longrightarrow> steps (removes_below r) m"
  by (auto simp: steps_def quiet_def removes_below_def)

lemma remove_vm_files_below:
  assumes "IsAbs (B_Root (Ex_Artifacts e))"
  shows "steps (removes_below (clean_elems (B_Root (Ex_Artifacts e)))) (remove_vm_files e m v)"
  unfolding remove_vm_files_def remove_family_def Let_def
  by (auto intro!: removeOwnedArtifact_below quiet_removes_below [OF os_ReadDir_quiet] assms split: prod.split)

text \<open>
  C26: deleting a VM's files stays below the artifact root. With an absolute artifact root and no
  symbolic links in the tree, whatever disk and socket paths the inventory holds, dot-dot paths
  included, the files outside the root are exactly the same afterwards, and no daemon is contacted.
\<close>

theorem remove_vm_files_contained:
  assumes "remove_vm_files e m v h = (r, h')" and "IsAbs (B_Root (Ex_Artifacts e))" and "no_links (hs_nodes h)"
    and "\<not> prefix (clean_elems (B_Root (Ex_Artifacts e))) p"
  shows "map_of (hs_nodes h') p = map_of (hs_nodes h) p \<and> hs_ext h' = hs_ext h"
  using stepsD [OF remove_vm_files_below [OF assms(2)] assms(1)] assms(3,4) by (auto simp: removes_below_def)

section \<open>Files of other VMs\<close>

definition two_vms_host :: "unit host" where
  "two_vms_host = \<lparr>hs_nodes = [([''a''], Directory), ([''a'', ''web-root.qcow2''], RegularFile [1]),
       ([''a'', ''web-2-root.qcow2''], RegularFile [2]), ([''b''], RegularFile [3])],
     hs_fault = (\<lambda>_ _ _. None), hs_calls = 0, hs_random = (\<lambda>_. ''7''), hs_ext = ()\<rparr>"

lemma two_vms_no_links: "no_links (hs_nodes two_vms_host)"
  by (auto simp: no_links_def two_vms_host_def split: if_splits)

theorem remove_vm_files_contained_witness:
  "map_of (hs_nodes (snd (remove_vm_files sample_executor sample_mutation (sample_vm ''n'') two_vms_host))) [''b''] = Some (RegularFile [3])"
proof -
  obtain r h' where run: "remove_vm_files sample_executor sample_mutation (sample_vm ''n'') two_vms_host = (r, h')" by fastforce
  have root: "B_Root (Ex_Artifacts sample_executor) = ''/a''" by (simp add: sample_executor_def sample_builder_def)
  have "IsAbs ''/a''" "clean_elems ''/a'' = [''a'']" by code_simp+
  with remove_vm_files_contained [OF run _ two_vms_no_links, of "[''b'']"] root run show ?thesis
    by (simp add: two_vms_host_def)
qed

text \<open>
  Deleting a VM deletes files of VMs whose name extends its own. Deleting the VM with disk
  \<open>web-root.qcow2\<close> also removes \<open>web-2-root.qcow2\<close>, the root disk of VM
  \<open>web-2\<close>, because every file in the directory whose name starts with \<open>web-\<close> goes.
\<close>

theorem remove_vm_files_takes_other_disk:
  "map_of (hs_nodes two_vms_host) [''a'', ''web-2-root.qcow2''] = Some (RegularFile [2]) \<and>
   map_of (hs_nodes (snd (remove_vm_files sample_executor sample_mutation (sample_vm ''n'') two_vms_host))) [''a'', ''web-2-root.qcow2''] = None"
  by code_simp


end
