(* ===== verification/Provider.thy ===== *)
theory Provider
  imports KubeApi HostAgent
begin

text \<open>
  What the provider's controllers share: the result of a reconcile, the rest of the API client and
  of the libraries (the part of the upgrade plan controller is in \<open>KubeApi\<close>), the links
  between objects (owner references, infrastructure references) and the mutation a controller sends
  to the host agent.

  An update returns the object the API server answers with: the Go client overwrites its argument
  with it, so that a controller goes on with the stored object and not with the one it sent.
\<close>

record ctrl_result =
  RequeueAfter :: int

abbreviation settled :: ctrl_result where
  "settled \<equiv> \<lparr>RequeueAfter = 0\<rparr>"

section \<open>Libraries and client\<close>

text \<open>
  The functions and constants of \<open>k8s.io/apimachinery\<close>, \<open>sigs.k8s.io/cluster-api\<close>
  and \<open>sigs.k8s.io/controller-runtime\<close> the other controllers use besides those of
  \<open>kube_lib\<close>. \<open>Lib_ParseGroup\<close> is the group \<open>ParseGroupVersion\<close> reads,
  \<open>None\<close> its error. \<open>Lib_SetControllerReference\<close> is given the kind and the metadata
  of the owner and the metadata of the owned object, and returns the latter with the reference.
\<close>

record provider_lib = kube_lib +
  Lib_ParseGroup :: "string \<Rightarrow> string option"
  Lib_ClusterGroup :: string
  Lib_IsStatusConditionTrue :: "condition list \<Rightarrow> string \<Rightarrow> bool"
  Lib_HasPaused :: "object_meta \<Rightarrow> bool"
  Lib_SetControllerReference :: "string \<Rightarrow> object_meta \<Rightarrow> object_meta \<Rightarrow> goerr + object_meta"
  Lib_InternalIP :: string
  Lib_HostName :: string
  Lib_InfrastructureReady :: string
  Lib_ClonedFromName :: string
  Lib_ClonedFromGroupKind :: string

text \<open>An event names the object by its kind and metadata.\<close>

record 's provider_kube = "'s kube" +
  K_ListClusters :: "string \<Rightarrow> ('s, cluster list) go"
  K_UpdateHypervisorCluster :: "hypervisor_cluster \<Rightarrow> ('s, hypervisor_cluster) go"
  K_PatchHypervisorCluster :: "hypervisor_cluster \<Rightarrow> hypervisor_cluster \<Rightarrow> ('s, hypervisor_cluster) go"
  K_UpdateHypervisorClusterStatus :: "hypervisor_cluster \<Rightarrow> ('s, hypervisor_cluster) go"
  K_GetMachine :: "object_key \<Rightarrow> ('s, machine) go"
  K_DeleteMachine :: "machine \<Rightarrow> ('s, unit) go"
  K_GetHypervisorMachine :: "object_key \<Rightarrow> ('s, hypervisor_machine) go"
  K_CreateHypervisorMachine :: "hypervisor_machine \<Rightarrow> ('s, unit) go"
  K_UpdateHypervisorMachine :: "hypervisor_machine \<Rightarrow> ('s, hypervisor_machine) go"
  K_UpdateHypervisorMachineStatus :: "hypervisor_machine \<Rightarrow> ('s, hypervisor_machine) go"
  K_DeleteHypervisorMachine :: "hypervisor_machine \<Rightarrow> ('s, unit) go"
  K_GetMachineTemplate :: "object_key \<Rightarrow> ('s, hypervisor_machine_template) go"
  K_UpdateControlPlaneStatus :: "hypervisor_control_plane \<Rightarrow> ('s, hypervisor_control_plane) go"
  K_GetConfig :: "object_key \<Rightarrow> ('s, hypervisor_config) go"
  K_ListConfigs :: "string \<Rightarrow> ('s, hypervisor_config list) go"
  K_CreateConfig :: "hypervisor_config \<Rightarrow> ('s, unit) go"
  K_DeleteConfig :: "hypervisor_config \<Rightarrow> ('s, unit) go"
  K_UpdateConfigStatus :: "hypervisor_config \<Rightarrow> ('s, hypervisor_config) go"
  K_GetSecret :: "object_key \<Rightarrow> ('s, secret) go"
  K_CreateSecret :: "secret \<Rightarrow> ('s, unit) go"
  K_UpdateSecret :: "secret \<Rightarrow> ('s, unit) go"
  K_EventOn :: "string \<Rightarrow> object_meta \<Rightarrow> string \<Rightarrow> string \<Rightarrow> string \<Rightarrow> 's \<Rightarrow> 's"

definition event_onG :: "'s provider_kube \<Rightarrow> string \<Rightarrow> object_meta \<Rightarrow> string \<Rightarrow> string \<Rightarrow> string \<Rightarrow> ('s, unit) go" where
  "event_onG k kind m ty reason message = (\<lambda>s. (Inr (), K_EventOn k kind m ty reason message s))"

definition IsAlreadyExists_api :: "goerr \<Rightarrow> bool" where
  "IsAlreadyExists_api e \<longleftrightarrow> err_kind e = ApiStatus ReasonAlreadyExists"

text \<open>A call whose error of one class is success: \<open>err != nil && !is(err)\<close>.\<close>

definition toleratingG :: "(goerr \<Rightarrow> bool) \<Rightarrow> string \<Rightarrow> ('s, 'a) go \<Rightarrow> ('s, unit) go" where
  "toleratingG ok p m = catchG m (\<lambda>r. case r of
      Inl e \<Rightarrow> if ok e then returnG () else failG (wrap_err p e)
    | Inr _ \<Rightarrow> returnG ())"

lemma run_tolerating:
  "toleratingG ok p m s = (case m s of
     (Inl e, t) \<Rightarrow> (if ok e then Inr () else Inl (wrap_err p e), t)
   | (Inr x, t) \<Rightarrow> (Inr (), t))"
  by (simp add: toleratingG_def catchG_def split: prod.split sum.split)

text \<open>
  A call whose error is reported by a warning event before it is returned wrapped; \<open>%v\<close> in
  the event is the text of the error.
\<close>

definition reportedG ::
  "'s provider_kube \<Rightarrow> string \<Rightarrow> object_meta \<Rightarrow> string \<Rightarrow> string \<Rightarrow> string \<Rightarrow> ('s, 'a) go \<Rightarrow> ('s, 'a) go" where
  "reportedG k kind meta reason message p m = catchG m (\<lambda>r. case r of
      Inl e \<Rightarrow> bindG (event_onG k kind meta ''Warning'' reason (message @ '': '' @ err_text e)) (\<lambda>_. failG (wrap_err p e))
    | Inr x \<Rightarrow> returnG x)"

lemma run_reported:
  "reportedG k kind meta reason message p m s = (case m s of
     (Inl e, t) \<Rightarrow> (Inl (wrap_err p e), K_EventOn k kind meta ''Warning'' reason (message @ '': '' @ err_text e) t)
   | (Inr x, t) \<Rightarrow> (Inr x, t))"
  by (simp add: reportedG_def event_onG_def catchG_def run_bind split: prod.split sum.split)

lemma run_event_on: "event_onG k kind m ty reason message s = (Inr (), K_EventOn k kind m ty reason message s)"
  by (simp add: event_onG_def)

text \<open>The metadata of an object that is about to be created.\<close>

definition new_meta :: "string \<Rightarrow> string \<Rightarrow> object_meta" where
  "new_meta ns name = \<lparr>M_Namespace = ns, M_Name = name, M_UID = [], M_Generation = 0, M_OwnerReferences = [],
     M_Labels = Map.empty, M_Annotations = Map.empty, M_Finalizers = [], M_DeletionTimestamp = None, M_ResourceVersion = []\<rparr>"

section \<open>Links between objects\<close>

abbreviation meta_key :: "object_meta \<Rightarrow> object_key" where
  "meta_key m \<equiv> (M_Namespace m, M_Name m)"

text \<open>An owner reference to a kind of the Cluster API group.\<close>

definition owner_ref_to :: "provider_lib \<Rightarrow> string \<Rightarrow> owner_reference \<Rightarrow> bool" where
  "owner_ref_to lib kind ref \<longleftrightarrow>
     OR_Kind ref = kind \<and> Lib_ParseGroup lib (OR_APIVersion ref) = Some (Lib_ClusterGroup lib)"

definition linkedHypervisorCluster ::
  "'l kube_lib_scheme \<Rightarrow> ('s, 'z) kube_scheme \<Rightarrow> cluster \<Rightarrow> ('s, hypervisor_cluster option) go" where
  "linkedHypervisorCluster lib k c =
     (let ref = CL_InfrastructureRef c; key = (M_Namespace (CL_Meta c), Ref_Name ref) in
      if \<not> Lib_IsDefined lib ref \<or> Ref_Kind ref \<noteq> ''HypervisorCluster'' \<or> Ref_Name ref = [] then returnG None
      else optionalG (''get linked HypervisorCluster '' @ show_key key) (K_GetHypervisorCluster k key))"

definition isControlPlaneMachine :: "provider_lib \<Rightarrow> machine \<Rightarrow> bool" where
  "isControlPlaneMachine lib m \<longleftrightarrow> M_Labels (MC_Meta m) (Lib_ControlPlaneLabel lib) \<noteq> None"

definition control_plane_selector :: "provider_lib \<Rightarrow> cluster \<Rightarrow> (string \<times> string) list" where
  "control_plane_selector lib c = [(Lib_ClusterNameLabel lib, M_Name (CL_Meta c)), (Lib_ControlPlaneLabel lib, [])]"

section \<open>Published ports and addresses\<close>

definition controlPlaneAPIServerPort :: int32 where
  "controlPlaneAPIServerPort = 6443"

definition controlPlaneSSHPort :: int32 where
  "controlPlaneSSHPort = 22"

definition controlPlaneEtcdClientPort :: int32 where
  "controlPlaneEtcdClientPort = 2379"

text \<open>The port of the workload API server, of the cluster controller.\<close>

definition defaultControlPlanePort :: int32 where
  "defaultControlPlanePort = 6443"

fun publishedHostPort :: "machine_port list \<Rightarrow> int32 \<Rightarrow> int32 option" where
  "publishedHostPort [] vmPort = None"
| "publishedHostPort (p # ps) vmPort = (if MPP_VMPort p = vmPort then Some (MPP_HostPort p) else publishedHostPort ps vmPort)"

fun upsertPublishedPort :: "machine_port list \<Rightarrow> machine_port \<Rightarrow> machine_port list" where
  "upsertPublishedPort [] a = [a]"
| "upsertPublishedPort (p # ps) a = (if MPP_VMPort p = MPP_VMPort a then a # ps else p # upsertPublishedPort ps a)"

lemma publishedHostPort_upsert:
  "publishedHostPort (upsertPublishedPort ps a) v =
     (if v = MPP_VMPort a then Some (MPP_HostPort a) else publishedHostPort ps v)"
  by (induction ps) auto

lemma upsert_distinct:
  "distinct (map MPP_VMPort ps) \<Longrightarrow> distinct (map MPP_VMPort (upsertPublishedPort ps a))"
proof (induction ps)
  case (Cons p ps)
  have "set (map MPP_VMPort (upsertPublishedPort ps a)) \<subseteq> insert (MPP_VMPort a) (set (map MPP_VMPort ps))"
    by (induction ps) auto
  with Cons show ?case by auto
qed simp

text \<open>The first internal address, with the check for an empty one some callers make.\<close>

definition internalIPAddress :: "provider_lib \<Rightarrow> machine_address list \<Rightarrow> string" where
  "internalIPAddress lib as = (case find (\<lambda>a. Addr_Type a = Lib_InternalIP lib) as of None \<Rightarrow> [] | Some a \<Rightarrow> Addr_Address a)"

definition some_internal_ip :: "provider_lib \<Rightarrow> machine_address list \<Rightarrow> string option" where
  "some_internal_ip lib as =
     map_option Addr_Address (find (\<lambda>a. Addr_Type a = Lib_InternalIP lib \<and> Addr_Address a \<noteq> []) as)"

definition effective_replicas :: "hypervisor_control_plane \<Rightarrow> int" where
  "effective_replicas cp = max (sint (CP_Replicas (CP_Spec cp))) 1"

section \<open>The requests to the host agent\<close>

definition managerNodeID :: string where
  "managerNodeID = ''k8labs-mgmt-control-plane''"

definition hostMutation :: "string \<Rightarrow> string \<Rightarrow> int64 \<Rightarrow> string \<Rightarrow> mutation" where
  "hostMutation installationUID resourceUID generation operation =
     (let g = (if generation = 0 then 1 else generation) in
      \<lparr>Mut_ProtocolMajor = ProtocolMajor,
       Mut_Owner = \<lparr>Owner_InstallationID = installationUID, Owner_NodeID = managerNodeID, Owner_UID = resourceUID\<rparr>,
       Mut_Generation = g,
       Mut_IdempotencyKey = resourceUID @ ''-'' @ operation @ ''-'' @ show_int (sint g),
       Mut_RetainDisk = False\<rparr>)"

lemma hostMutation_valid:
  "inst \<noteq> [] \<Longrightarrow> uid \<noteq> [] \<Longrightarrow> Mutation_Validate (hostMutation inst uid g op) = None"
  by (simp add: Mutation_Validate_None Owner_Validate_None hostMutation_def managerNodeID_def Let_def)

lemma hostMutation_owner [simp]:
  "Mut_Owner (hostMutation inst uid g op) =
     \<lparr>Owner_InstallationID = inst, Owner_NodeID = managerNodeID, Owner_UID = uid\<rparr>"
  by (simp add: hostMutation_def Let_def)

section \<open>What a reconciler holds\<close>

text \<open>
  The client of k8netd, which a controller calls directly when it has no host agent; here the calls
  of \<open>*k8netd.Client\<close> the controllers make.
\<close>

record 's k8netd =
  KN_CreateNetwork :: "string \<Rightarrow> string \<Rightarrow> string \<Rightarrow> string \<Rightarrow> string \<Rightarrow> ('s, unit) go"
  KN_DeleteNetwork :: "string \<Rightarrow> ('s, unit) go"
  KN_CreatePort :: "string \<Rightarrow> ('s, unit) go"
  KN_AttachPort :: "string \<Rightarrow> string \<Rightarrow> string \<Rightarrow> ('s, unit) go"
  KN_AllocateIP :: "string \<Rightarrow> string \<Rightarrow> ('s, string) go"
  KN_PublishPort :: "string \<Rightarrow> int32 \<Rightarrow> ('s, int32) go"
  KN_DetachPort :: "string \<Rightarrow> ('s, unit) go"
  KN_DeletePort :: "string \<Rightarrow> ('s, unit) go"

text \<open>The fields every reconciler has, and those of the reconcilers that work on the host.\<close>

record 's controller =
  R_Lib :: provider_lib
  R_Kube :: "'s provider_kube"

record 's reconciler = "'s controller" +
  R_Agent :: "'s host_agent option"
  R_K8Netd :: "'s k8netd"

end
