(* ===== verification/UpgradePlan.thy ===== *)
theory UpgradePlan
  imports Provider
begin

text \<open>
  The upgrade plan controller (\<open>controllers/hypervisorupgradeplan_controller.go\<close>): one run of
  \<open>Reconcile\<close> reads the plan and what it needs of the cluster, decides by the phase of the plan
  and writes at most one new status. The API client and the libraries are the parameters of
  \<open>KubeApi\<close>; the plan a function changes in place before it stores it is passed on as a value.
\<close>

definition upgradePlanRequeueInterval :: int where
  "upgradePlanRequeueInterval = 15 * 1000000000"

abbreviation requeue :: ctrl_result where
  "requeue \<equiv> \<lparr>RequeueAfter = upgradePlanRequeueInterval\<rparr>"

definition upgradePlanFinalizer :: string where
  "upgradePlanFinalizer = ''upgradeplan.controlplane.cluster.x-k8s.io''"

definition upgradePlanProgressingCondition :: string where
  "upgradePlanProgressingCondition = ''Progressing''"

definition upgradePlanReadyCondition :: string where
  "upgradePlanReadyCondition = ''Ready''"

definition eventG :: "'s kube \<Rightarrow> plan \<Rightarrow> string \<Rightarrow> string \<Rightarrow> string \<Rightarrow> ('s, unit) go" where
  "eventG k p kind reason message = (\<lambda>s. (Inr (), K_Event k p kind reason message s))"

section \<open>Versions and steps\<close>

definition resolveUpgradeSteps :: "plan \<Rightarrow> string list" where
  "resolveUpgradeSteps p = (if PS_Steps (P_Spec p) \<noteq> [] then PS_Steps (P_Spec p) else [PS_ToVersion (P_Spec p)])"

definition currentClusterVersion :: "cluster \<Rightarrow> hypervisor_control_plane \<Rightarrow> string" where
  "currentClusterVersion c cp =
     (if CP_Version (CP_Spec cp) \<noteq> [] then CP_Version (CP_Spec cp) else CL_TopologyVersion c)"

definition compareSemver :: "kube_lib \<Rightarrow> string \<Rightarrow> string \<Rightarrow> goerr + int" where
  "compareSemver lib a b =
     (if \<not> Lib_IsValid lib a \<or> \<not> Lib_IsValid lib b
      then Inl (plain_err (''versions must be v-prefixed semver: '' @ Quote a @ '' vs '' @ Quote b))
      else Inr (Lib_Compare lib a b))"

definition checkVersionAdvance :: "kube_lib \<Rightarrow> string \<Rightarrow> string \<Rightarrow> goerr option" where
  "checkVersionAdvance lib current target = (case compareSemver lib current target of
     Inl e \<Rightarrow> Some e
   | Inr comparison \<Rightarrow>
       if comparison \<ge> 0
       then Some (plain_err (''target version '' @ Quote target @ '' must be strictly greater than the current version '' @ Quote current))
       else None)"

definition missingImageVersions :: "hypervisor_cluster \<Rightarrow> string list \<Rightarrow> string list" where
  "missingImageVersions hc vs = filter (\<lambda>v. v \<notin> set (map Im_Version (HC_Images (HC_Spec hc)))) vs"

fun mark_first :: "string \<Rightarrow> plan_phase \<Rightarrow> step_status list \<Rightarrow> step_status list" where
  "mark_first version phase [] = []"
| "mark_first version phase (st # sts) =
     (if St_Version st = version then st\<lparr>St_Phase := phase\<rparr> # sts else st # mark_first version phase sts)"

definition markStepPhase :: "plan \<Rightarrow> string \<Rightarrow> plan_phase \<Rightarrow> plan" where
  "markStepPhase p version phase =
     p\<lparr>P_Status := (P_Status p)\<lparr>PSt_Steps := mark_first version phase (PSt_Steps (P_Status p))\<rparr>\<rparr>"

section \<open>Reading the cluster\<close>

definition targetCluster :: "'s kube \<Rightarrow> plan \<Rightarrow> ('s, cluster option) go" where
  "targetCluster k p =
     (let key = (M_Namespace (P_Meta p), PS_ClusterName (P_Spec p))
      in optionalG (''get Cluster '' @ show_key key) (K_GetCluster k key))"

definition controlPlane :: "kube_lib \<Rightarrow> 's kube \<Rightarrow> cluster \<Rightarrow> ('s, hypervisor_control_plane option) go" where
  "controlPlane lib k c =
     (let ref = CL_ControlPlaneRef c; key = (M_Namespace (CL_Meta c), Ref_Name ref) in
      if \<not> Lib_IsDefined lib ref \<or> Ref_Kind ref \<noteq> ''HypervisorControlPlane'' \<or> Ref_Name ref = [] then returnG None
      else optionalG (''get HypervisorControlPlane '' @ show_key key) (K_GetControlPlane k key))"

definition controlPlaneMachines :: "kube_lib \<Rightarrow> 's kube \<Rightarrow> cluster \<Rightarrow> ('s, machine list) go" where
  "controlPlaneMachines lib k c =
     wrapG (''list control-plane Machines of Cluster '' @ Quote (M_Name (CL_Meta c)))
      (K_ListMachines k (M_Namespace (CL_Meta c))
        [(Lib_ClusterNameLabel lib, M_Name (CL_Meta c)), (Lib_ControlPlaneLabel lib, [])])"

definition machineDeployments :: "kube_lib \<Rightarrow> 's kube \<Rightarrow> cluster \<Rightarrow> ('s, machine_deployment list) go" where
  "machineDeployments lib k c =
     wrapG (''list MachineDeployments of Cluster '' @ Quote (M_Name (CL_Meta c)))
      (K_ListMachineDeployments k (M_Namespace (CL_Meta c)) [(Lib_ClusterNameLabel lib, M_Name (CL_Meta c))])"

definition is_paused :: "kube_lib \<Rightarrow> machine_deployment \<Rightarrow> bool" where
  "is_paused lib md \<longleftrightarrow> M_Annotations (MD_Meta md) (Lib_PausedAnnotation lib) \<noteq> None"

definition with_pause :: "kube_lib \<Rightarrow> bool \<Rightarrow> machine_deployment \<Rightarrow> machine_deployment" where
  "with_pause lib paused md =
     md\<lparr>MD_Meta := (MD_Meta md)\<lparr>M_Annotations :=
       (M_Annotations (MD_Meta md))(Lib_PausedAnnotation lib := (if paused then Some [] else None))\<rparr>\<rparr>"

definition show_bool :: "bool \<Rightarrow> string" where
  "show_bool b = (if b then ''true'' else ''false'')"

definition pause_one :: "kube_lib \<Rightarrow> 's kube \<Rightarrow> bool \<Rightarrow> machine_deployment \<Rightarrow> ('s, unit) go" where
  "pause_one lib k paused md =
     (if is_paused lib md = paused then returnG ()
      else wrapG (''set paused='' @ show_bool paused @ '' on MachineDeployment '' @ Quote (M_Name (MD_Meta md)))
             (K_PatchMachineDeployment k md (with_pause lib paused md)))"

definition setMachineDeploymentsPaused :: "kube_lib \<Rightarrow> 's kube \<Rightarrow> cluster \<Rightarrow> bool \<Rightarrow> ('s, unit) go" where
  "setMachineDeploymentsPaused lib k c paused =
     bindG (machineDeployments lib k c) (\<lambda>mds. eachG (pause_one lib k paused) mds)"

section \<open>Ending a plan\<close>

definition setCondition :: "kube_lib \<Rightarrow> string \<Rightarrow> string \<Rightarrow> string \<Rightarrow> string \<Rightarrow> plan \<Rightarrow> plan" where
  "setCondition lib ty st reason message p =
     p\<lparr>P_Status := (P_Status p)\<lparr>PSt_Conditions := Lib_SetStatusCondition lib (PSt_Conditions (P_Status p))
        \<lparr>Cond_Type = ty, Cond_Status = st, Cond_Reason = reason, Cond_Message = message\<rparr>\<rparr>\<rparr>"

definition with_phase :: "plan_phase \<Rightarrow> plan \<Rightarrow> plan" where
  "with_phase phase p = p\<lparr>P_Status := (P_Status p)\<lparr>PSt_Phase := phase\<rparr>\<rparr>"

definition failed_plan :: "kube_lib \<Rightarrow> plan \<Rightarrow> string \<Rightarrow> string \<Rightarrow> plan" where
  "failed_plan lib p reason message =
     setCondition lib upgradePlanReadyCondition ''False'' reason message
      (setCondition lib upgradePlanProgressingCondition ''False'' reason message
        (p\<lparr>P_Status := (P_Status p)\<lparr>PSt_Phase := UpgradePlanPhaseFailed, PSt_FailureReason := reason,
            PSt_FailureMessage := message\<rparr>\<rparr>))"

definition failPlan :: "kube_lib \<Rightarrow> 's kube \<Rightarrow> plan \<Rightarrow> string \<Rightarrow> string \<Rightarrow> ('s, ctrl_result) go" where
  "failPlan lib k p reason message =
     (let p' = failed_plan lib p reason message in
      bindG (wrapG ''fail HypervisorUpgradePlan'' (K_UpdatePlanStatus k p')) (\<lambda>_.
      bindG (eventG k p' ''Warning'' reason message) (\<lambda>_. returnG settled)))"

definition completed_plan :: "kube_lib \<Rightarrow> plan \<Rightarrow> plan" where
  "completed_plan lib p =
     setCondition lib upgradePlanReadyCondition ''True'' ''UpgradeCompleted''
        (''cluster is running '' @ PS_ToVersion (P_Spec p))
      (setCondition lib upgradePlanProgressingCondition ''False'' ''UpgradeCompleted'' ''every step completed''
        (with_phase UpgradePlanPhaseCompleted p))"

definition completePlan :: "kube_lib \<Rightarrow> 's kube \<Rightarrow> plan \<Rightarrow> ('s, ctrl_result) go" where
  "completePlan lib k p =
     bindG (targetCluster k p) (\<lambda>cluster.
     bindG (case cluster of None \<Rightarrow> returnG () | Some c \<Rightarrow> setMachineDeploymentsPaused lib k c False) (\<lambda>_.
     (let p' = completed_plan lib p in
      bindG (wrapG ''complete HypervisorUpgradePlan'' (K_UpdatePlanStatus k p')) (\<lambda>_.
      bindG (eventG k p' ''Normal'' ''UpgradeCompleted''
              (''Cluster '' @ Quote (PS_ClusterName (P_Spec p)) @ '' is running '' @ PS_ToVersion (P_Spec p))) (\<lambda>_.
      returnG settled)))))"

section \<open>Beginning a plan\<close>

definition begun_plan :: "kube_lib \<Rightarrow> plan \<Rightarrow> string \<Rightarrow> plan" where
  "begun_plan lib p current =
     setCondition lib upgradePlanProgressingCondition ''True'' ''UpgradeStarted''
       (''upgrading from '' @ current @ '' to '' @ PS_ToVersion (P_Spec p))
      (p\<lparr>P_Status := (P_Status p)\<lparr>PSt_FromVersion := current, PSt_CurrentStep := 0,
          PSt_Steps := map (\<lambda>v. \<lparr>St_Version = v, St_Phase = UpgradePlanPhaseRollingControlPlane\<rparr>) (resolveUpgradeSteps p),
          PSt_FailureReason := [], PSt_FailureMessage := [], PSt_Phase := UpgradePlanPhaseRollingControlPlane\<rparr>\<rparr>)"

definition beginPlan :: "kube_lib \<Rightarrow> 's kube \<Rightarrow> plan \<Rightarrow> cluster \<Rightarrow> ('s, ctrl_result) go" where
  "beginPlan lib k p c =
     bindG (linkedHypervisorCluster lib k c) (\<lambda>linked. case linked of
       None \<Rightarrow> failPlan lib k p ''InfrastructureNotFound''
         (''HypervisorCluster for Cluster '' @ Quote (M_Name (CL_Meta c)) @ '' not found'')
     | Some hc \<Rightarrow>
     bindG (controlPlane lib k c) (\<lambda>owned. case owned of
       None \<Rightarrow> failPlan lib k p ''ControlPlaneNotFound''
         (''HypervisorControlPlane for Cluster '' @ Quote (M_Name (CL_Meta c)) @ '' not found'')
     | Some cp \<Rightarrow>
       (let vs = resolveUpgradeSteps p; replicas = effective_replicas cp; current = currentClusterVersion c cp;
            target = PS_ToVersion (P_Spec p);
            advance = (if current \<noteq> [] \<and> target \<noteq> [] then checkVersionAdvance lib current target else None);
            missing = missingImageVersions hc vs in
        if replicas \<noteq> 1 then failPlan lib k p ''UnsupportedReplicas''
          (''upgrades require exactly one control plane replica (per-node single-member etcd), but '' @
           M_Name (CP_Meta cp) @ '' has '' @ show_int replicas)
        else case advance of Some e \<Rightarrow> failPlan lib k p ''VersionNotAdvancing'' (err_text e)
        | None \<Rightarrow>
        if missing \<noteq> [] then failPlan lib k p ''ImageNotRegistered''
          (''no base image registered on HypervisorCluster '' @ Quote (M_Name (HC_Meta hc)) @ '' for versions ['' @
           join_with '' '' missing @ '']; bake and register them before upgrading'')
        else
          let p' = begun_plan lib p current in
          bindG (wrapG ''initialize HypervisorUpgradePlan status'' (K_UpdatePlanStatus k p')) (\<lambda>_.
          bindG (eventG k p' ''Normal'' ''UpgradeStarted''
                  (''upgrading Cluster '' @ Quote (M_Name (CL_Meta c)) @ '' from '' @ current @ '' to '' @ target)) (\<lambda>_.
          returnG requeue)))))"

section \<open>The steps\<close>

definition patchTopologyVersion :: "kube_lib \<Rightarrow> 's kube \<Rightarrow> plan \<Rightarrow> cluster \<Rightarrow> string \<Rightarrow> ('s, ctrl_result) go" where
  "patchTopologyVersion lib k p c step =
     (if CL_TopologyClass c = [] then failPlan lib k p ''TopologyMissing''
        (''Cluster '' @ Quote (M_Name (CL_Meta c)) @
         '' carries no topology; upgrades are only supported for ClusterClass clusters'')
      else
        bindG (wrapG (''patch topology version of Cluster '' @ Quote (M_Name (CL_Meta c)) @ '' to '' @ step)
                (K_PatchCluster k c (c\<lparr>CL_TopologyVersion := step\<rparr>))) (\<lambda>_.
        bindG (eventG k p ''Normal'' ''TopologyVersionPatched''
                (''Cluster '' @ Quote (M_Name (CL_Meta c)) @ '' topology version patched to '' @ step)) (\<lambda>_.
        returnG requeue)))"

definition control_plane_converged :: "hypervisor_control_plane \<Rightarrow> machine list \<Rightarrow> string \<Rightarrow> bool" where
  "control_plane_converged cp machines step \<longleftrightarrow>
     (let replicas = effective_replicas cp in
      CP_Version (CP_Spec cp) = step \<and> list_all (\<lambda>m. MC_Version m = step) machines \<and>
      CPS_Ready (CP_Status cp) \<and> sint (CPS_ReadyReplicas (CP_Status cp)) \<ge> replicas \<and>
      int (length machines) \<ge> replicas)"

definition reconcileControlPlaneStep :: "kube_lib \<Rightarrow> 's kube \<Rightarrow> plan \<Rightarrow> cluster \<Rightarrow> string \<Rightarrow> ('s, ctrl_result) go" where
  "reconcileControlPlaneStep lib k p c step =
     bindG (setMachineDeploymentsPaused lib k c True) (\<lambda>_.
     if CL_TopologyVersion c \<noteq> step then patchTopologyVersion lib k p c step
     else
     bindG (controlPlane lib k c) (\<lambda>owned. case owned of
       None \<Rightarrow> returnG requeue
     | Some cp \<Rightarrow>
     bindG (controlPlaneMachines lib k c) (\<lambda>machines.
       if \<not> control_plane_converged cp machines step then returnG requeue
       else
         let p' = with_phase UpgradePlanPhaseRollingWorkers (markStepPhase p step UpgradePlanPhaseRollingWorkers) in
         bindG (wrapG ''advance HypervisorUpgradePlan to the workers phase'' (K_UpdatePlanStatus k p')) (\<lambda>_.
         bindG (eventG k p' ''Normal'' ''ControlPlaneUpgraded''
                 (''control plane of Cluster '' @ Quote (M_Name (CL_Meta c)) @ '' is running '' @ step)) (\<lambda>_.
         returnG requeue)))))"

definition deployment_converged :: "string \<Rightarrow> machine_deployment \<Rightarrow> bool" where
  "deployment_converged step md \<longleftrightarrow> MD_Version md = step \<and>
     (case (MD_Replicas md, MD_UpToDateReplicas md, MD_ReadyReplicas md) of
        (Some want, Some updated, Some ready) \<Rightarrow> sint updated \<ge> sint want \<and> sint ready \<ge> sint want
      | _ \<Rightarrow> False)"

definition reconcileWorkersStep :: "kube_lib \<Rightarrow> 's kube \<Rightarrow> plan \<Rightarrow> cluster \<Rightarrow> string \<Rightarrow> ('s, ctrl_result) go" where
  "reconcileWorkersStep lib k p c step =
     bindG (setMachineDeploymentsPaused lib k c False) (\<lambda>_.
     bindG (machineDeployments lib k c) (\<lambda>mds.
       if \<not> list_all (deployment_converged step) mds then returnG requeue
       else
         let p' = markStepPhase p step UpgradePlanPhaseCompleted in
         if PSt_CurrentStep (P_Status p') + 1 \<ge> int (length (resolveUpgradeSteps p')) then completePlan lib k p'
         else
           let next_step = PSt_CurrentStep (P_Status p') + 1;
               p'' = p'\<lparr>P_Status := (P_Status p')\<lparr>PSt_CurrentStep := next_step,
                         PSt_Phase := UpgradePlanPhaseRollingControlPlane\<rparr>\<rparr> in
           bindG (wrapG (''advance HypervisorUpgradePlan to step '' @ show_int next_step) (K_UpdatePlanStatus k p'')) (\<lambda>_.
           bindG (eventG k p'' ''Normal'' ''StepCompleted''
                   (''workers of Cluster '' @ Quote (M_Name (CL_Meta c)) @ '' are running '' @ step @
                    ''; continuing to the next step'')) (\<lambda>_.
           returnG requeue))))"

section \<open>Reconcile\<close>

definition with_finalizers :: "plan \<Rightarrow> string list \<Rightarrow> plan" where
  "with_finalizers p fs = p\<lparr>P_Meta := (P_Meta p)\<lparr>M_Finalizers := fs\<rparr>\<rparr>"

definition reconcileDelete :: "kube_lib \<Rightarrow> 's kube \<Rightarrow> plan \<Rightarrow> ('s, ctrl_result) go" where
  "reconcileDelete lib k p =
     bindG (targetCluster k p) (\<lambda>cluster.
     bindG (case cluster of None \<Rightarrow> returnG () | Some c \<Rightarrow> setMachineDeploymentsPaused lib k c False) (\<lambda>_.
     bindG (wrapG (''remove finalizer from HypervisorUpgradePlan '' @ Quote (M_Name (P_Meta p)))
             (K_UpdatePlan k (with_finalizers p (Lib_RemoveFinalizer lib (M_Finalizers (P_Meta p)) upgradePlanFinalizer)))) (\<lambda>_.
     returnG settled)))"

text \<open>Indexing the steps with a negative number panics.\<close>

definition index_panic :: goerr where
  "index_panic = plain_err ''runtime error: index out of range''"

definition run_phase :: "kube_lib \<Rightarrow> 's kube \<Rightarrow> plan \<Rightarrow> cluster \<Rightarrow> ('s, ctrl_result) go" where
  "run_phase lib k p c =
     (let vs = resolveUpgradeSteps p; i = PSt_CurrentStep (P_Status p); phase = PSt_Phase (P_Status p) in
      if i \<ge> int (length vs) then completePlan lib k p
      else if i < 0 then failG index_panic
      else if phase = UpgradePlanPhaseRollingControlPlane then reconcileControlPlaneStep lib k p c (vs ! nat i)
      else if phase = UpgradePlanPhaseRollingWorkers then reconcileWorkersStep lib k p c (vs ! nat i)
      else failG (plain_err (''HypervisorUpgradePlan '' @ Quote (M_Name (P_Meta p)) @ '' is in unexpected phase '' @ Quote phase)))"

definition reconcile_plan :: "kube_lib \<Rightarrow> 's kube \<Rightarrow> plan \<Rightarrow> ('s, ctrl_result) go" where
  "reconcile_plan lib k p =
     (if M_DeletionTimestamp (P_Meta p) \<noteq> None then reconcileDelete lib k p
      else if Terminal (PSt_Phase (P_Status p)) then returnG settled
      else if \<not> Lib_ContainsFinalizer lib (M_Finalizers (P_Meta p)) upgradePlanFinalizer then
        bindG (wrapG (''add finalizer to HypervisorUpgradePlan '' @ Quote (M_Name (P_Meta p)))
                (K_UpdatePlan k (with_finalizers p (Lib_AddFinalizer lib (M_Finalizers (P_Meta p)) upgradePlanFinalizer))))
          (\<lambda>_. returnG settled)
      else
        bindG (targetCluster k p) (\<lambda>cluster. case cluster of
          None \<Rightarrow> failPlan lib k p ''ClusterNotFound''
            (''Cluster '' @ Quote (PS_ClusterName (P_Spec p)) @ '' not found in namespace '' @ Quote (M_Namespace (P_Meta p)))
        | Some c \<Rightarrow>
            if PSt_Phase (P_Status p) = [] \<or> PSt_Phase (P_Status p) = UpgradePlanPhasePending then beginPlan lib k p c
            else run_phase lib k p c))"

definition Reconcile :: "kube_lib \<Rightarrow> 's kube \<Rightarrow> object_key \<Rightarrow> ('s, ctrl_result) go" where
  "Reconcile lib k key =
     bindG (optionalG (''get HypervisorUpgradePlan '' @ show_key key) (K_GetPlan k key)) (\<lambda>found. case found of
       None \<Rightarrow> returnG settled
     | Some p \<Rightarrow> reconcile_plan lib k p)"

section \<open>Watches\<close>

text \<open>The requests of an event: no cluster name and a failed list give none.\<close>

definition planRequests :: "'s kube \<Rightarrow> string \<Rightarrow> string \<Rightarrow> 's \<Rightarrow> object_key list \<times> 's" where
  "planRequests k namespace clusterName s = (case K_ListPlans k namespace s of
     (Inl e, t) \<Rightarrow> ([], t)
   | (Inr plans, t) \<Rightarrow>
       (map (\<lambda>p. (M_Namespace (P_Meta p), M_Name (P_Meta p)))
          (filter (\<lambda>p. PS_ClusterName (P_Spec p) = clusterName) plans), t))"

definition clusterToPlans :: "'s kube \<Rightarrow> cluster \<Rightarrow> 's \<Rightarrow> object_key list \<times> 's" where
  "clusterToPlans k c = planRequests k (M_Namespace (CL_Meta c)) (M_Name (CL_Meta c))"

definition objectClusterToPlans :: "kube_lib \<Rightarrow> 's kube \<Rightarrow> object_meta \<Rightarrow> 's \<Rightarrow> object_key list \<times> 's" where
  "objectClusterToPlans lib k m s = (case M_Labels m (Lib_ClusterNameLabel lib) of
     None \<Rightarrow> ([], s)
   | Some clusterName \<Rightarrow> if clusterName = [] then ([], s) else planRequests k (M_Namespace m) clusterName s)"

end
