(* ===== verification/NetIP.thy ===== *)
theory NetIP
  imports Mac
begin

text \<open>
  The address parsers of Go's \<open>net/netip\<close> the cluster webhook validates with:
  \<open>ParseAddr\<close> for IPv4 and IPv6 (with embedded IPv4 and zones) and
  \<open>ParsePrefix\<close>. Only success and the parsed value matter to the callers, so that a
  failed parse is \<open>None\<close>.
\<close>

datatype addr = IPv4 "nat list" | IPv6 "nat list" string

fun Is4 :: "addr \<Rightarrow> bool" where
  "Is4 (IPv4 _) = True"
| "Is4 (IPv6 _ _) = False"

text \<open>
  The loop of \<open>parseIPv4Fields\<close>: \<open>val\<close> and \<open>digLen\<close> are the value and
  the number of digits of the current octet, \<open>fields\<close> the octets so far; a dot needs a digit
  before it and something behind it.
\<close>

fun ipv4_fields :: "nat \<Rightarrow> nat \<Rightarrow> nat list \<Rightarrow> string \<Rightarrow> nat list option" where
  "ipv4_fields val digLen fields [] = (if length fields < 3 then None else Some (fields @ [val]))"
| "ipv4_fields val digLen fields (c # s) =
     (if is_digit c then
        if digLen = 1 \<and> val = 0 then None
        else let v = val * 10 + digit_val c
             in if v > 255 then None else ipv4_fields v (digLen + 1) fields s
      else if c = CHR ''.'' then
        if digLen = 0 \<or> s = [] then None
        else if length fields = 3 then None
        else ipv4_fields 0 0 (fields @ [val]) s
      else None)"

definition parseIPv4 :: "string \<Rightarrow> addr option" where
  "parseIPv4 s = map_option IPv4 (ipv4_fields 0 0 [] s)"

text \<open>The hexadecimal digits at the start of a group: more than four are refused.\<close>

definition hex_group :: "string \<Rightarrow> (nat \<times> string) option" where
  "hex_group s =
     (let ds = takeWhile (\<lambda>c. hex_val c \<noteq> None) s
      in if ds = [] \<or> length ds > 4 then None
         else Some (foldl (\<lambda>acc c. 16 * acc + the (hex_val c)) 0 ds, drop (length ds) s))"

text \<open>
  The loop of \<open>parseIPv6\<close> over the rest of the text. The bytes parsed so far are
  \<open>ip\<close>, and \<open>ell\<close> is where the ellipsis was seen. The result is the bytes and the
  ellipsis when the whole text was used.
\<close>

function ipv6_groups :: "nat list \<Rightarrow> nat option \<Rightarrow> string \<Rightarrow> (nat list \<times> nat option) option" where
  "ipv6_groups ip ell s =
     (if length ip \<ge> 16 then (if s = [] then Some (ip, ell) else None)
      else case hex_group s of None \<Rightarrow> None
      | Some (acc, r) \<Rightarrow>
          if r \<noteq> [] \<and> hd r = CHR ''.'' then
            if ell = None \<and> length ip \<noteq> 12 then None
            else if length ip + 4 > 16 then None
            else map_option (\<lambda>fs. (ip @ fs, ell)) (ipv4_fields 0 0 [] s)
          else
            let ip' = ip @ [acc div 256, acc mod 256] in
            if r = [] then Some (ip', ell)
            else if hd r \<noteq> CHR '':'' \<or> length r = 1 then None
            else if hd (tl r) = CHR '':'' then
              if ell \<noteq> None then None
              else if length r = 2 then Some (ip', Some (length ip'))
              else ipv6_groups ip' (Some (length ip')) (drop 2 r)
            else ipv6_groups ip' ell (tl r))"
  by pat_completeness auto

termination
  by (relation "measure (\<lambda>(ip, ell, s). 16 - length ip)") auto

declare ipv6_groups.simps [simp del]

definition expand_ellipsis :: "nat list \<Rightarrow> nat option \<Rightarrow> nat list option" where
  "expand_ellipsis ip ell =
     (if length ip < 16 then
        case ell of None \<Rightarrow> None
        | Some k \<Rightarrow> Some (take k ip @ replicate (16 - length ip) 0 @ drop k ip)
      else if ell \<noteq> None then None else Some ip)"

definition parseIPv6 :: "string \<Rightarrow> addr option" where
  "parseIPv6 text =
     (let s = takeWhile (\<lambda>c. c \<noteq> CHR ''%'') text;
          zoned = (CHR ''%'' \<in> set text);
          zone = drop (length s + 1) text
      in if zoned \<and> zone = [] then None
         else if take 2 s = ''::'' \<and> length s = 2 then Some (IPv6 (replicate 16 0) zone)
         else case (if take 2 s = ''::'' then ipv6_groups [] (Some 0) (drop 2 s) else ipv6_groups [] None s) of
                None \<Rightarrow> None
              | Some (ip, ell) \<Rightarrow> map_option (\<lambda>bs. IPv6 bs zone) (expand_ellipsis ip ell))"

text \<open>The first dot, colon or percent sign decides.\<close>

definition ParseAddr :: "string \<Rightarrow> addr option" where
  "ParseAddr s =
     (case find (\<lambda>c. c = CHR ''.'' \<or> c = CHR '':'' \<or> c = CHR ''%'') s of
        None \<Rightarrow> None
      | Some c \<Rightarrow> if c = CHR ''.'' then parseIPv4 s else if c = CHR '':'' then parseIPv6 s else None)"

definition zone_of :: "addr \<Rightarrow> string" where
  "zone_of a = (case a of IPv4 _ \<Rightarrow> [] | IPv6 _ z \<Rightarrow> z)"

definition max_bits :: "addr \<Rightarrow> nat" where
  "max_bits a = (if Is4 a then 32 else 128)"

definition ParsePrefix :: "string \<Rightarrow> (addr \<times> nat) option" where
  "ParsePrefix s =
     (if CHR ''/'' \<notin> set s then None
      else let bits = rev (takeWhile (\<lambda>c. c \<noteq> CHR ''/'') (rev s));
               text = take (length s - length bits - 1) s
           in case ParseAddr text of None \<Rightarrow> None
           | Some ip \<Rightarrow>
               if zone_of ip \<noteq> [] then None
               else if length bits > 1 \<and> (\<not> is_digit (hd bits) \<or> hd bits = CHR ''0'') then None
               else case parse_nat bits of None \<Rightarrow> None
               | Some n \<Rightarrow> if n > max_bits ip then None else Some (ip, n))"

section \<open>Dotted text reads back\<close>

definition dotted :: "nat list \<Rightarrow> string" where
  "dotted fs = join_with ''.'' (map show_nat fs)"

lemma show_nat_small: "n < 10 \<Longrightarrow> show_nat n = [digit_char n]"
  by (subst show_nat.simps) simp

lemma show_nat_step: "\<not> n < 10 \<Longrightarrow> show_nat n = show_nat (n div 10) @ [digit_char (n mod 10)]"
  by (subst show_nat.simps) simp

lemma show_nat_no_sep: "list_all is_digit (show_nat n)"
  by (simp add: show_nat_digits)

lemma ipv4_fields_digits:
  "n \<le> 255 \<Longrightarrow> ipv4_fields 0 0 fields (show_nat n @ s) = ipv4_fields n (length (show_nat n)) fields s"
proof (induction n arbitrary: s rule: show_nat.induct)
  case (1 n)
  show ?case
  proof (cases "n < 10")
    case True
    then show ?thesis by (simp add: show_nat_small)
  next
    case False
    then have "n div 10 \<noteq> 0" and "length (show_nat (n div 10)) \<ge> 1"
      by (auto simp: Suc_le_eq)
    with 1 False show ?thesis by (simp add: show_nat_step Let_def)
  qed
qed

lemma dot_no_digit [simp]: "\<not> is_digit (CHR ''.'')" "\<not> is_digit (CHR ''/'')" "\<not> is_digit (CHR '':'')" "\<not> is_digit (CHR ''%'')"
  by (simp_all add: is_digit_def)

lemma ipv4_fields_dotted:
  assumes "a \<le> 255" "b \<le> 255" "c \<le> 255" "d \<le> 255"
  shows "ipv4_fields 0 0 [] (dotted [a, b, c, d]) = Some [a, b, c, d]"
  using assms ipv4_fields_digits [of d "[a, b, c]" "[]"] by (simp add: dotted_def ipv4_fields_digits)

lemma find_skip: "list_all (\<lambda>x. \<not> P x) xs \<Longrightarrow> find P (xs @ ys) = find P ys"
  by (induction xs) auto

lemma digits_list_all: "(\<And>c. is_digit c \<Longrightarrow> P c) \<Longrightarrow> list_all P (show_nat n)"
  using show_nat_no_sep [of n] by (auto simp: list_all_iff)

lemma ParseAddr_dotted:
  assumes "a \<le> 255" "b \<le> 255" "c \<le> 255" "d \<le> 255"
  shows "ParseAddr (dotted [a, b, c, d]) = Some (IPv4 [a, b, c, d])"
proof -
  have "find (\<lambda>c. c = CHR ''.'' \<or> c = CHR '':'' \<or> c = CHR ''%'') (dotted [a, b, c, d]) = Some (CHR ''.'')"
    by (auto simp: dotted_def intro!: trans [OF find_skip] digits_list_all)
  then show ?thesis using ipv4_fields_dotted [OF assms] by (simp add: ParseAddr_def parseIPv4_def)
qed

lemma hd_show_nat: "n \<noteq> 0 \<Longrightarrow> hd (show_nat n) \<noteq> CHR ''0''"
proof (induction n rule: show_nat.induct)
  case (1 n)
  show ?case
  proof (cases "n < 10")
    case True
    moreover have "digit_val (CHR ''0'') = 0" by (simp add: digit_val_def)
    ultimately have "digit_char n \<noteq> CHR ''0''" using 1 by (metis digit_val_digit_char)
    with True show ?thesis by (auto simp: show_nat_small)
  qed (use 1 in \<open>simp add: show_nat_step\<close>)
qed

lemma length_show_nat_0: "length (show_nat n) > 1 \<Longrightarrow> n \<noteq> 0"
  by (cases "n = 0") (simp_all add: show_nat_small)

lemma hd_show_digit: "is_digit (hd (show_nat n))"
  using show_nat_no_sep [of n] by (cases "show_nat n") auto

text \<open>
  An IPv4 network in dotted notation parses to itself: for octets up to 255 and a length up to
  32, printing the address, a slash and the length and parsing the text gives back exactly these
  numbers, so the webhook accepts every network the provider prints.
\<close>

theorem ParsePrefix_dotted:
  assumes "a \<le> 255" "b \<le> 255" "c \<le> 255" "d \<le> 255" "n \<le> 32"
  shows "ParsePrefix (dotted [a, b, c, d] @ ''/'' @ show_nat n) = Some (IPv4 [a, b, c, d], n)"
proof -
  have "takeWhile (\<lambda>c. c \<noteq> CHR ''/'') (rev (dotted [a, b, c, d] @ ''/'' @ show_nat n)) = rev (show_nat n)"
    using show_nat_no_sep [of n] by (auto simp: list_all_iff takeWhile_append)
  then show ?thesis
    using ParseAddr_dotted [OF assms(1-4)] assms(5) hd_show_nat [of n] length_show_nat_0 [of n] hd_show_digit [of n]
    by (auto simp: ParsePrefix_def zone_of_def max_bits_def Let_def)
qed

theorem ParsePrefix_dotted_witness:
  "ParsePrefix (dotted [192, 168, 124, 0] @ ''/'' @ show_nat 24) = Some (IPv4 [192, 168, 124, 0], 24)"
  by (rule ParsePrefix_dotted) simp_all

end
