(* ===== verification/Webhooks.thy ===== *)
theory Webhooks
  imports KubeApi NetIP
begin

text \<open>
  The admission webhooks (\<open>internal/webhook\<close>): for each kind the defaulter and the
  validators for create, update and delete. The API server hands them any object, so that the
  argument is the sum \<open>runtime_object\<close> and the type assertion of the code is a case on it.
  An answer is \<open>None\<close> for \<open>nil\<close> or the error, with every field error in the order
  the code appends them. The checks of the upgrade plan that read the cluster run over the client
  parameter.
\<close>

section \<open>Objects and errors\<close>

datatype runtime_object =
    OCluster hypervisor_cluster
  | OMachine hypervisor_machine
  | OMachineTemplate hypervisor_machine_template
  | OControlPlane hypervisor_control_plane
  | OConfig hypervisor_config
  | OPlan plan
  | OOther string

text \<open>The \<open>%T\<close> of an object; for a foreign one the text is a parameter of the constructor.\<close>

fun type_name :: "runtime_object \<Rightarrow> string" where
  "type_name (OCluster _) = ''*v1alpha1.HypervisorCluster''"
| "type_name (OMachine _) = ''*v1alpha1.HypervisorMachine''"
| "type_name (OMachineTemplate _) = ''*v1alpha1.HypervisorMachineTemplate''"
| "type_name (OControlPlane _) = ''*controlplanev1alpha1.HypervisorControlPlane''"
| "type_name (OConfig _) = ''*bootstrapv1alpha1.HypervisorConfig''"
| "type_name (OPlan _) = ''*controlplanev1alpha1.HypervisorUpgradePlan''"
| "type_name (OOther t) = t"

datatype field_value = FInt int | FString string | FStrings "string list" | FMachineSpec hm_spec

datatype field_error =
    Invalid "string list" field_value string
  | Required "string list" string
  | Duplicate "string list" field_value
  | NotSupported "string list" field_value "string list"
  | Forbidden "string list" string

datatype admission_error =
    BadRequest string
  | InvalidObject string "field_error list"
  | ConflictError string string
  | InternalError goerr

definition expected :: "string \<Rightarrow> runtime_object \<Rightarrow> admission_error" where
  "expected kind obj = BadRequest (''expected a '' @ kind @ '' but got a '' @ type_name obj)"

definition invalid_unless_empty :: "string \<Rightarrow> field_error list \<Rightarrow> admission_error option" where
  "invalid_unless_empty name errs = (if errs = [] then None else Some (InvalidObject name errs))"

section \<open>HypervisorCluster\<close>

definition Cluster_Default :: "runtime_object \<Rightarrow> admission_error + runtime_object" where
  "Cluster_Default obj = (case obj of
     OCluster c \<Rightarrow>
       let n = HC_Network (HC_Spec c);
           n1 = (if HC_CIDR n = [] then n\<lparr>HC_CIDR := ''192.168.124.0/24''\<rparr> else n);
           n2 = (if HC_BridgeName n1 = [] then n1\<lparr>HC_BridgeName := ''k8sbr0''\<rparr> else n1);
           n3 = (if HC_NATTable n2 = [] then n2\<lparr>HC_NATTable := ''k8slab''\<rparr> else n2)
       in Inr (OCluster (c\<lparr>HC_Spec := (HC_Spec c)\<lparr>HC_Network := n3\<rparr>\<rparr>))
   | _ \<Rightarrow> Inl (expected ''HypervisorCluster'' obj))"

fun cluster_image_errors :: "kube_lib \<Rightarrow> string list \<Rightarrow> nat \<Rightarrow> string set \<Rightarrow> image_ref list \<Rightarrow> field_error list" where
  "cluster_image_errors lib path i seen [] = []"
| "cluster_image_errors lib path i seen (img # imgs) =
     (let p = path @ [show_nat i] in
      (if \<not> Lib_IsValid lib (Im_Version img)
       then [Invalid (p @ [''version'']) (FString (Im_Version img)) ''must be v-prefixed semver (e.g. v1.38.0)'']
       else []) @
      (if Im_Version img \<in> seen then [Duplicate (p @ [''version'']) (FString (Im_Version img))] else []) @
      (if Im_Path img = [] then [Required (p @ [''path'']) ''must not be empty''] else []) @
      cluster_image_errors lib path (Suc i) (insert (Im_Version img) seen) imgs)"

definition validateClusterImages :: "kube_lib \<Rightarrow> hypervisor_cluster \<Rightarrow> string list \<Rightarrow> field_error list" where
  "validateClusterImages lib c path = cluster_image_errors lib path 0 {} (HC_Images (HC_Spec c))"

definition validateHypervisorCluster :: "kube_lib \<Rightarrow> hypervisor_cluster \<Rightarrow> admission_error option" where
  "validateHypervisorCluster lib c =
     (let n = HC_Network (HC_Spec c); path = [''spec'', ''network''];
          bad_cidr = (case ParsePrefix (HC_CIDR n) of None \<Rightarrow> True | Some (a, _) \<Rightarrow> \<not> Is4 a)
      in invalid_unless_empty (M_Name (HC_Meta c))
          ((if bad_cidr then [Invalid (path @ [''cidr'']) (FString (HC_CIDR n)) ''must be a valid IPv4 CIDR''] else []) @
           (if HC_Gateway n \<noteq> [] \<and> ParseAddr (HC_Gateway n) = None
            then [Invalid (path @ [''gateway'']) (FString (HC_Gateway n)) ''must be a valid IP address''] else []) @
           validateClusterImages lib c [''spec'', ''images'']))"

definition Cluster_ValidateCreate :: "kube_lib \<Rightarrow> runtime_object \<Rightarrow> admission_error option" where
  "Cluster_ValidateCreate lib obj = (case obj of
     OCluster c \<Rightarrow> validateHypervisorCluster lib c | _ \<Rightarrow> Some (expected ''HypervisorCluster'' obj))"

definition Cluster_ValidateUpdate :: "kube_lib \<Rightarrow> runtime_object \<Rightarrow> runtime_object \<Rightarrow> admission_error option" where
  "Cluster_ValidateUpdate lib oldObj newObj = (case oldObj of
     OCluster _ \<Rightarrow> (case newObj of
         OCluster c \<Rightarrow> validateHypervisorCluster lib c | _ \<Rightarrow> Some (expected ''HypervisorCluster'' newObj))
   | _ \<Rightarrow> Some (expected ''HypervisorCluster'' oldObj))"

definition Cluster_ValidateDelete :: "runtime_object \<Rightarrow> admission_error option" where
  "Cluster_ValidateDelete obj = (case obj of OCluster _ \<Rightarrow> None | _ \<Rightarrow> Some (expected ''HypervisorCluster'' obj))"

section \<open>HypervisorMachine\<close>

definition hypervisorMachineMACPrefix :: string where
  "hypervisorMachineMACPrefix = ''c6:''"

definition Machine_Default :: "runtime_object \<Rightarrow> admission_error + runtime_object" where
  "Machine_Default obj = (case obj of OMachine _ \<Rightarrow> Inr obj | _ \<Rightarrow> Inl (expected ''HypervisorMachine'' obj))"

definition not_positive :: "string \<Rightarrow> int32 \<Rightarrow> field_error list" where
  "not_positive name v =
     (if sint v \<le> 0 then [Invalid [''spec'', name] (FInt (sint v)) ''must be greater than 0''] else [])"

definition validateHypervisorMachine :: "hypervisor_machine \<Rightarrow> admission_error option" where
  "validateHypervisorMachine m =
     (let s = HM_Spec m in
      invalid_unless_empty (M_Name (HM_Meta m))
       (not_positive ''cpu'' (HM_CPU s) @ not_positive ''ram'' (HM_RAM s) @ not_positive ''disk'' (HM_Disk s) @
        (if HM_MAC s = [] then []
         else case ParseMAC (HM_MAC s) of
           None \<Rightarrow> [Invalid [''spec'', ''mac''] (FString (HM_MAC s)) ''must be a valid MAC address'']
         | Some bs \<Rightarrow> if HasPrefix (ToLower (colon_hex bs)) hypervisorMachineMACPrefix then []
             else [Invalid [''spec'', ''mac''] (FString (HM_MAC s)) ''must belong to the c6:e5:50:1c:ec MAC family''])))"

definition Machine_ValidateCreate :: "runtime_object \<Rightarrow> admission_error option" where
  "Machine_ValidateCreate obj = (case obj of
     OMachine m \<Rightarrow> validateHypervisorMachine m | _ \<Rightarrow> Some (expected ''HypervisorMachine'' obj))"

definition Machine_ValidateUpdate :: "runtime_object \<Rightarrow> runtime_object \<Rightarrow> admission_error option" where
  "Machine_ValidateUpdate oldObj newObj = (case oldObj of
     OMachine _ \<Rightarrow> (case newObj of
         OMachine m \<Rightarrow> validateHypervisorMachine m | _ \<Rightarrow> Some (expected ''HypervisorMachine'' newObj))
   | _ \<Rightarrow> Some (expected ''HypervisorMachine'' oldObj))"

definition Machine_ValidateDelete :: "runtime_object \<Rightarrow> admission_error option" where
  "Machine_ValidateDelete obj = (case obj of OMachine _ \<Rightarrow> None | _ \<Rightarrow> Some (expected ''HypervisorMachine'' obj))"

section \<open>HypervisorMachineTemplate\<close>

definition Template_Default :: "runtime_object \<Rightarrow> admission_error + runtime_object" where
  "Template_Default obj = (case obj of
     OMachineTemplate _ \<Rightarrow> Inr obj | _ \<Rightarrow> Inl (expected ''HypervisorMachineTemplate'' obj))"

definition Template_ValidateCreate :: "runtime_object \<Rightarrow> admission_error option" where
  "Template_ValidateCreate obj = (case obj of
     OMachineTemplate _ \<Rightarrow> None | _ \<Rightarrow> Some (expected ''HypervisorMachineTemplate'' obj))"

definition Template_ValidateUpdate :: "runtime_object \<Rightarrow> runtime_object \<Rightarrow> admission_error option" where
  "Template_ValidateUpdate oldObj newObj = (case oldObj of
     OMachineTemplate a \<Rightarrow> (case newObj of
         OMachineTemplate b \<Rightarrow>
           if HMT_TemplateSpec a \<noteq> HMT_TemplateSpec b
           then Some (InvalidObject (M_Name (HMT_Meta b))
                  [Invalid [''spec'', ''template'', ''spec''] (FMachineSpec (HMT_TemplateSpec b)) ''field is immutable''])
           else None
       | _ \<Rightarrow> Some (expected ''HypervisorMachineTemplate'' newObj))
   | _ \<Rightarrow> Some (expected ''HypervisorMachineTemplate'' oldObj))"

definition Template_ValidateDelete :: "runtime_object \<Rightarrow> admission_error option" where
  "Template_ValidateDelete obj = (case obj of
     OMachineTemplate _ \<Rightarrow> None | _ \<Rightarrow> Some (expected ''HypervisorMachineTemplate'' obj))"

section \<open>HypervisorControlPlane\<close>

definition ControlPlane_Default :: "runtime_object \<Rightarrow> admission_error + runtime_object" where
  "ControlPlane_Default obj = (case obj of
     OControlPlane _ \<Rightarrow> Inr obj | _ \<Rightarrow> Inl (expected ''HypervisorControlPlane'' obj))"

definition validateHypervisorControlPlane :: "hypervisor_control_plane \<Rightarrow> admission_error option" where
  "validateHypervisorControlPlane c =
     (let s = CP_Spec c; ref = CP_InfrastructureRef s;
          path = [''spec'', ''machineTemplate'', ''spec'', ''infrastructureRef'']
      in invalid_unless_empty (M_Name (CP_Meta c))
          ((if sint (CP_Replicas s) < 1
            then [Invalid [''spec'', ''replicas''] (FInt (sint (CP_Replicas s))) ''must be greater than or equal to 1''] else []) @
           (if Ref_Kind ref = [] then [Required (path @ [''kind'']) ''must not be empty''] else []) @
           (if Ref_Name ref = [] then [Required (path @ [''name'']) ''must not be empty''] else [])))"

definition ControlPlane_ValidateCreate :: "runtime_object \<Rightarrow> admission_error option" where
  "ControlPlane_ValidateCreate obj = (case obj of
     OControlPlane c \<Rightarrow> validateHypervisorControlPlane c | _ \<Rightarrow> Some (expected ''HypervisorControlPlane'' obj))"

definition ControlPlane_ValidateUpdate :: "runtime_object \<Rightarrow> runtime_object \<Rightarrow> admission_error option" where
  "ControlPlane_ValidateUpdate oldObj newObj = (case oldObj of
     OControlPlane _ \<Rightarrow> (case newObj of
         OControlPlane c \<Rightarrow> validateHypervisorControlPlane c
       | _ \<Rightarrow> Some (expected ''HypervisorControlPlane'' newObj))
   | _ \<Rightarrow> Some (expected ''HypervisorControlPlane'' oldObj))"

definition ControlPlane_ValidateDelete :: "runtime_object \<Rightarrow> admission_error option" where
  "ControlPlane_ValidateDelete obj = (case obj of
     OControlPlane _ \<Rightarrow> None | _ \<Rightarrow> Some (expected ''HypervisorControlPlane'' obj))"

section \<open>HypervisorConfig\<close>

definition Config_Default :: "runtime_object \<Rightarrow> admission_error + runtime_object" where
  "Config_Default obj = (case obj of
     OConfig c \<Rightarrow> Inr (OConfig (if Cfg_NodeName (Cfg_Spec c) = []
                            then c\<lparr>Cfg_Spec := (Cfg_Spec c)\<lparr>Cfg_NodeName := M_Name (Cfg_Meta c)\<rparr>\<rparr> else c))
   | _ \<Rightarrow> Inl (expected ''HypervisorConfig'' obj))"

definition validateHypervisorConfig :: "hypervisor_config \<Rightarrow> admission_error option" where
  "validateHypervisorConfig c =
     (let s = Cfg_Spec c in
      invalid_unless_empty (M_Name (Cfg_Meta c))
       ((if Cfg_Role s \<noteq> ''control-plane'' \<and> Cfg_Role s \<noteq> ''worker''
         then [NotSupported [''spec'', ''role''] (FString (Cfg_Role s)) [''control-plane'', ''worker'']] else []) @
        (if Cfg_NodeName s = [] then [Required [''spec'', ''nodeName''] ''must not be empty''] else []) @
        (if Cfg_ClusterName s = [] then [Required [''spec'', ''clusterName''] ''must not be empty''] else [])))"

definition Config_ValidateCreate :: "runtime_object \<Rightarrow> admission_error option" where
  "Config_ValidateCreate obj = (case obj of
     OConfig c \<Rightarrow> validateHypervisorConfig c | _ \<Rightarrow> Some (expected ''HypervisorConfig'' obj))"

definition Config_ValidateUpdate :: "runtime_object \<Rightarrow> runtime_object \<Rightarrow> admission_error option" where
  "Config_ValidateUpdate oldObj newObj = (case oldObj of
     OConfig _ \<Rightarrow> (case newObj of
         OConfig c \<Rightarrow> validateHypervisorConfig c | _ \<Rightarrow> Some (expected ''HypervisorConfig'' newObj))
   | _ \<Rightarrow> Some (expected ''HypervisorConfig'' oldObj))"

definition Config_ValidateDelete :: "runtime_object \<Rightarrow> admission_error option" where
  "Config_ValidateDelete obj = (case obj of OConfig _ \<Rightarrow> None | _ \<Rightarrow> Some (expected ''HypervisorConfig'' obj))"

section \<open>HypervisorUpgradePlan\<close>

definition Plan_Default :: "runtime_object \<Rightarrow> admission_error + runtime_object" where
  "Plan_Default obj = (case obj of OPlan _ \<Rightarrow> Inr obj | _ \<Rightarrow> Inl (expected ''HypervisorUpgradePlan'' obj))"

definition notSemverMessage :: string where
  "notSemverMessage = ''must be v-prefixed semver (e.g. v1.38.0)''"

definition validVersion :: "kube_lib \<Rightarrow> string \<Rightarrow> bool" where
  "validVersion lib version = Lib_IsValid lib version"

fun plan_step_errors :: "kube_lib \<Rightarrow> nat \<Rightarrow> string \<Rightarrow> string list \<Rightarrow> field_error list" where
  "plan_step_errors lib i previous [] = []"
| "plan_step_errors lib i previous (step # rest) =
     (let path = [''spec'', ''steps'', show_nat i] in
      if \<not> validVersion lib step
      then Invalid path (FString step) notSemverMessage # plan_step_errors lib (Suc i) previous rest
      else (if previous \<noteq> [] \<and> Lib_Compare lib step previous \<le> 0
            then [Invalid path (FString step) ''must be strictly greater than the previous step''] else []) @
           plan_step_errors lib (Suc i) step rest)"

definition validateHypervisorUpgradePlan :: "kube_lib \<Rightarrow> plan \<Rightarrow> admission_error option" where
  "validateHypervisorUpgradePlan lib p =
     (let s = P_Spec p;
          errs = (if PS_ClusterName s = [] then [Required [''spec'', ''clusterName''] ''must not be empty''] else []) @
                 (if \<not> validVersion lib (PS_ToVersion s)
                  then [Invalid [''spec'', ''toVersion''] (FString (PS_ToVersion s)) notSemverMessage] else []) @
                 plan_step_errors lib 0 [] (PS_Steps s)
      in invalid_unless_empty (M_Name (P_Meta p))
          (if PS_Steps s \<noteq> [] \<and> errs = [] \<and> Lib_Compare lib (last (PS_Steps s)) (PS_ToVersion s) \<noteq> 0
           then errs @ [Invalid [''spec'', ''steps''] (FStrings (PS_Steps s)) ''the last step must equal spec.toVersion'']
           else errs))"

text \<open>The webhook may run without a client: \<open>None\<close>.\<close>

definition validateActivePlanUniqueness :: "'s kube option \<Rightarrow> plan \<Rightarrow> 's \<Rightarrow> admission_error option \<times> 's" where
  "validateActivePlanUniqueness kc p s = (case kc of None \<Rightarrow> (None, s) | Some k \<Rightarrow>
     if PS_ClusterName (P_Spec p) = [] then (None, s)
     else case K_ListPlans k (M_Namespace (P_Meta p)) s of
       (Inl e, t) \<Rightarrow>
         (Some (InternalError (wrap_err (''list HypervisorUpgradePlans in '' @ Quote (M_Namespace (P_Meta p))) e)), t)
     | (Inr plans, t) \<Rightarrow>
         (case find (\<lambda>q. M_Name (P_Meta q) \<noteq> M_Name (P_Meta p) \<and>
                        PS_ClusterName (P_Spec q) = PS_ClusterName (P_Spec p) \<and>
                        \<not> Terminal (PSt_Phase (P_Status q))) plans of
            None \<Rightarrow> (None, t)
          | Some q \<Rightarrow> (Some (ConflictError (M_Name (P_Meta p))
              (''plan '' @ Quote (M_Name (P_Meta q)) @ '' is already upgrading Cluster '' @
               Quote (PS_ClusterName (P_Spec p)))), t)))"

definition validateClusterExists :: "'s kube option \<Rightarrow> plan \<Rightarrow> 's \<Rightarrow> admission_error option \<times> 's" where
  "validateClusterExists kc p s = (case kc of None \<Rightarrow> (None, s) | Some k \<Rightarrow>
     if PS_ClusterName (P_Spec p) = [] then (None, s)
     else let key = (M_Namespace (P_Meta p), PS_ClusterName (P_Spec p)) in
       case K_GetCluster k key s of
         (Inr _, t) \<Rightarrow> (None, t)
       | (Inl e, t) \<Rightarrow>
           (Some (if IsNotFound_api e
                  then InvalidObject (M_Name (P_Meta p))
                    [Invalid [''spec'', ''clusterName''] (FString (PS_ClusterName (P_Spec p)))
                      (''Cluster '' @ Quote (PS_ClusterName (P_Spec p)) @ '' not found in namespace '' @
                       Quote (M_Namespace (P_Meta p)))]
                  else InternalError (wrap_err (''get Cluster '' @ show_key key) e)), t))"

definition Plan_ValidateCreate :: "kube_lib \<Rightarrow> 's kube option \<Rightarrow> runtime_object \<Rightarrow> 's \<Rightarrow> admission_error option \<times> 's" where
  "Plan_ValidateCreate lib kc obj s = (case obj of
     OPlan p \<Rightarrow>
       (case validateHypervisorUpgradePlan lib p of
          Some e \<Rightarrow> (Some e, s)
        | None \<Rightarrow> (case validateClusterExists kc p s of
              (Some e, t) \<Rightarrow> (Some e, t)
            | (None, t) \<Rightarrow> validateActivePlanUniqueness kc p t))
   | _ \<Rightarrow> (Some (expected ''HypervisorUpgradePlan'' obj), s))"

definition Plan_ValidateUpdate ::
  "kube_lib \<Rightarrow> 's kube option \<Rightarrow> runtime_object \<Rightarrow> runtime_object \<Rightarrow> 's \<Rightarrow> admission_error option \<times> 's" where
  "Plan_ValidateUpdate lib kc oldObj newObj s = (case oldObj of
     OPlan q \<Rightarrow> (case newObj of
         OPlan p \<Rightarrow>
           (case validateHypervisorUpgradePlan lib p of
              Some e \<Rightarrow> (Some e, s)
            | None \<Rightarrow>
                if PS_ClusterName (P_Spec q) \<noteq> PS_ClusterName (P_Spec p) \<or>
                   PS_ToVersion (P_Spec q) \<noteq> PS_ToVersion (P_Spec p) \<or> PS_Steps (P_Spec q) \<noteq> PS_Steps (P_Spec p)
                then (Some (InvalidObject (M_Name (P_Meta p))
                        [Forbidden [''spec''] ''is immutable; delete and re-create the plan to re-target'']), s)
                else validateActivePlanUniqueness kc p s)
       | _ \<Rightarrow> (Some (expected ''HypervisorUpgradePlan'' newObj), s))
   | _ \<Rightarrow> (Some (expected ''HypervisorUpgradePlan'' oldObj), s))"

definition Plan_ValidateDelete :: "runtime_object \<Rightarrow> admission_error option" where
  "Plan_ValidateDelete obj = (case obj of OPlan _ \<Rightarrow> None | _ \<Rightarrow> Some (expected ''HypervisorUpgradePlan'' obj))"

end
