(* ===== verification/Admission.thy ===== *)
theory Admission
  imports Webhooks
begin

text \<open>
  What the admission webhooks of \<open>Webhooks\<close> guarantee of the objects they let through: each
  validator, which collects field errors in loops, accepts exactly the objects of a specification
  without loops, and a plan that is admitted has an increasing list of versions, keeps it for ever
  and is the only active plan of its cluster.
\<close>

section \<open>Clusters\<close>

lemma invalid_unless_empty_None [simp]: "invalid_unless_empty n errs = None \<longleftrightarrow> errs = []"
  by (simp add: invalid_unless_empty_def)

lemma cluster_image_errors_Nil:
  "cluster_image_errors lib path i seen imgs = [] \<longleftrightarrow>
     (\<forall>img\<in>set imgs. Lib_IsValid lib (Im_Version img) \<and> Im_Path img \<noteq> []) \<and>
     distinct (map Im_Version imgs) \<and> Im_Version ` set imgs \<inter> seen = {}"
  by (induction imgs arbitrary: i seen) (auto simp: Let_def)

definition cluster_ok :: "kube_lib \<Rightarrow> hypervisor_cluster \<Rightarrow> bool" where
  "cluster_ok lib c \<longleftrightarrow> (let n = HC_Network (HC_Spec c); imgs = HC_Images (HC_Spec c) in
     (\<exists>fs k. ParsePrefix (HC_CIDR n) = Some (IPv4 fs, k)) \<and>
     (HC_Gateway n = [] \<or> ParseAddr (HC_Gateway n) \<noteq> None) \<and>
     (\<forall>img\<in>set imgs. Lib_IsValid lib (Im_Version img) \<and> Im_Path img \<noteq> []) \<and> distinct (map Im_Version imgs))"

lemma Is4_iff: "Is4 a \<longleftrightarrow> (\<exists>fs. a = IPv4 fs)"
  by (cases a) auto

lemma validateHypervisorCluster_ok: "validateHypervisorCluster lib c = None \<longleftrightarrow> cluster_ok lib c"
  by (auto simp: validateHypervisorCluster_def cluster_ok_def validateClusterImages_def cluster_image_errors_Nil
      Let_def Is4_iff split: option.splits)

text \<open>The default network is an IPv4 network.\<close>

lemma default_cidr: "ParsePrefix ''192.168.124.0/24'' = Some (IPv4 [192, 168, 124, 0], 24)"
  by code_simp

lemma Cluster_Default_network:
  assumes "Cluster_Default (OCluster c) = Inr (OCluster d)"
  shows "HC_CIDR (HC_Network (HC_Spec d)) =
           (if HC_CIDR (HC_Network (HC_Spec c)) = [] then ''192.168.124.0/24'' else HC_CIDR (HC_Network (HC_Spec c)))"
    and "HC_Gateway (HC_Network (HC_Spec d)) = HC_Gateway (HC_Network (HC_Spec c))"
    and "HC_Images (HC_Spec d) = HC_Images (HC_Spec c)"
  using assms by (auto simp: Cluster_Default_def Let_def split: if_split_asm)

lemma network_unchanged [simp]: "c\<lparr>HC_Spec := (HC_Spec c)\<lparr>HC_Network := HC_Network (HC_Spec c)\<rparr>\<rparr> = c"
  by simp

lemma Cluster_Default_idem:
  assumes "Cluster_Default (OCluster c) = Inr (OCluster d)"
  shows "Cluster_Default (OCluster d) = Inr (OCluster d)"
proof -
  let ?n = "HC_Network (HC_Spec d)"
  have "HC_CIDR ?n \<noteq> []" "HC_BridgeName ?n \<noteq> []" "HC_NATTable ?n \<noteq> []"
    using assms
    by (cases "HC_CIDR (HC_Network (HC_Spec c)) = []"; cases "HC_BridgeName (HC_Network (HC_Spec c)) = []";
        cases "HC_NATTable (HC_Network (HC_Spec c)) = []"; auto simp: Cluster_Default_def)+
  then show ?thesis by (simp add: Cluster_Default_def)
qed

text \<open>
  C29: the cluster webhook admits exactly the well-formed clusters. Creating or updating a
  HypervisorCluster is accepted if and only if its CIDR is an IPv4 network, its gateway is empty
  or an address, and its images have pairwise distinct valid versions and non-empty paths,
  whatever the old object was; and defaulting is idempotent and turns a cluster without a CIDR
  into one whose network is accepted.
\<close>

theorem cluster_admission:
  "(Cluster_ValidateCreate lib (OCluster c) = None \<longleftrightarrow> cluster_ok lib c) \<and>
   (Cluster_ValidateUpdate lib (OCluster b) (OCluster c) = None \<longleftrightarrow> cluster_ok lib c) \<and>
   (\<exists>d. Cluster_Default (OCluster c) = Inr (OCluster d) \<and> Cluster_Default (OCluster d) = Inr (OCluster d) \<and>
     (cluster_ok lib d \<longleftrightarrow> cluster_ok lib c \<or>
        HC_CIDR (HC_Network (HC_Spec c)) = [] \<and>
        cluster_ok lib (c\<lparr>HC_Spec := (HC_Spec c)\<lparr>HC_Network := (HC_Network (HC_Spec c))\<lparr>HC_CIDR := ''192.168.124.0/24''\<rparr>\<rparr>\<rparr>)))"
proof -
  have "Cluster_ValidateCreate lib (OCluster c) = None \<longleftrightarrow> cluster_ok lib c"
    "Cluster_ValidateUpdate lib (OCluster b) (OCluster c) = None \<longleftrightarrow> cluster_ok lib c"
    by (simp_all add: Cluster_ValidateCreate_def Cluster_ValidateUpdate_def validateHypervisorCluster_ok)
  moreover obtain d where d: "Cluster_Default (OCluster c) = Inr (OCluster d)"
    by (simp add: Cluster_Default_def Let_def)
  moreover have "ParsePrefix [] = None" by (simp add: ParsePrefix_def)
  with Cluster_Default_network [OF d]
  have "cluster_ok lib d \<longleftrightarrow> cluster_ok lib c \<or> HC_CIDR (HC_Network (HC_Spec c)) = [] \<and>
        cluster_ok lib (c\<lparr>HC_Spec := (HC_Spec c)\<lparr>HC_Network := (HC_Network (HC_Spec c))\<lparr>HC_CIDR := ''192.168.124.0/24''\<rparr>\<rparr>\<rparr>)"
    by (auto simp: cluster_ok_def Let_def default_cidr)
  ultimately show ?thesis using Cluster_Default_idem [OF d] by blast
qed

section \<open>Machines\<close>

lemma length_parse_octets: "parse_octets n sep s = Some bs \<Longrightarrow> length bs = n"
  by (induction n arbitrary: s bs) (auto split: option.splits)

lemma length_parse_dotted: "parse_dotted n s = Some bs \<Longrightarrow> length bs = 2 * n"
  by (induction n arbitrary: s bs) (auto split: option.splits)

lemma ParseMAC_length: "ParseMAC s = Some bs \<Longrightarrow> length bs \<in> {6, 8, 20}"
  by (auto simp: ParseMAC_def Let_def split: if_split_asm dest!: length_parse_octets length_parse_dotted)

lemma lower_hex: "d < 16 \<Longrightarrow> lower_char (hex_char d) = hex_char d"
  by (auto simp: lower_char_def hex_char_def)

lemma lower_hex_byte: "map lower_char (hex_byte b) = hex_byte b"
  using hex_byte_digits [of b] by (simp add: hex_byte_def lower_hex)

lemma colon_hex_Cons: "colon_hex (b # c # cs) = hex_byte b @ CHR '':'' # colon_hex (c # cs)"
  by (simp add: colon_hex_def)

lemma lower_colon_hex: "ToLower (colon_hex bs) = colon_hex bs"
proof (induction bs)
  case (Cons b bs)
  show ?case
  proof (cases bs)
    case Nil
    then show ?thesis by (simp add: ToLower_def colon_hex_def lower_hex_byte)
  next
    case (Cons c cs)
    have "lower_char (CHR '':'') = CHR '':''" by code_simp
    with Cons.IH show ?thesis by (simp add: Cons colon_hex_Cons ToLower_def lower_hex_byte)
  qed
qed (simp add: colon_hex_def ToLower_def)

lemma mac_family:
  assumes "length bs \<ge> 2"
  shows "HasPrefix (ToLower (colon_hex bs)) hypervisorMachineMACPrefix \<longleftrightarrow> hd bs = 0xc6"
proof -
  obtain b c cs where bs: "bs = b # c # cs" using assms by (cases bs; cases "tl bs") auto
  have "take 3 (colon_hex bs) = hex_byte b @ '':''" by (simp add: bs colon_hex_Cons hex_byte_def)
  moreover have "hypervisorMachineMACPrefix = hex_byte 0xc6 @ '':''"
    by (simp add: hypervisorMachineMACPrefix_def hex_byte_c6)
  moreover have "length hypervisorMachineMACPrefix = 3" by (simp add: hypervisorMachineMACPrefix_def)
  ultimately have "HasPrefix (colon_hex bs) hypervisorMachineMACPrefix \<longleftrightarrow> hex_byte b = hex_byte 0xc6"
    by (metis HasPrefix_def append_same_eq)
  then show ?thesis by (simp add: lower_colon_hex hex_byte_inject bs)
qed

definition machine_ok :: "hypervisor_machine \<Rightarrow> bool" where
  "machine_ok m \<longleftrightarrow> (let s = HM_Spec m in
     0 < sint (HM_CPU s) \<and> 0 < sint (HM_RAM s) \<and> 0 < sint (HM_Disk s) \<and>
     (HM_MAC s = [] \<or> (\<exists>bs. ParseMAC (HM_MAC s) = Some bs \<and> length bs \<in> {6, 8, 20} \<and> hd bs = 0xc6)))"

lemma not_positive_Nil [simp]: "not_positive n v = [] \<longleftrightarrow> 0 < sint v"
  by (auto simp: not_positive_def)

lemma validateHypervisorMachine_ok: "validateHypervisorMachine m = None \<longleftrightarrow> machine_ok m"
proof -
  have "HasPrefix (ToLower (colon_hex bs)) hypervisorMachineMACPrefix \<longleftrightarrow> hd bs = 0xc6"
    and "length bs \<in> {6, 8, 20}" if "ParseMAC s = Some bs" for s bs
    using ParseMAC_length [OF that] mac_family [of bs] by auto
  then show ?thesis
    by (auto simp: validateHypervisorMachine_def machine_ok_def Let_def split: option.splits)
qed

lemma derived_mac: "\<exists>bs. ParseMAC (Derive c n) = Some bs \<and> length bs = 6 \<and> hd bs = 0xc6"
  by (simp add: Derive_colon_hex ParseMAC_colon_hex)

text \<open>
  C30: the machine webhook admits exactly the bootable machines. Creating or updating a
  HypervisorMachine is accepted if and only if, as signed numbers, CPU, RAM and disk are positive and
  the MAC is empty or parses to an address whose first octet is c6 (six octets, but eight and
  twenty are let through as well); and the address the controller derives for any machine is one
  that is accepted.
\<close>

theorem machine_admission:
  "(Machine_ValidateCreate (OMachine m) = None \<longleftrightarrow> machine_ok m) \<and>
   (Machine_ValidateUpdate (OMachine l) (OMachine m) = None \<longleftrightarrow> machine_ok m) \<and>
   (Machine_ValidateCreate (OMachine (m\<lparr>HM_Spec := (HM_Spec m)\<lparr>HM_MAC := Derive c n\<rparr>\<rparr>)) = None \<longleftrightarrow>
    Machine_ValidateCreate (OMachine (m\<lparr>HM_Spec := (HM_Spec m)\<lparr>HM_MAC := []\<rparr>\<rparr>)) = None)"
  using derived_mac [of c n]
  by (auto simp: Machine_ValidateCreate_def Machine_ValidateUpdate_def validateHypervisorMachine_ok machine_ok_def Let_def)

section \<open>Templates\<close>

text \<open>
  A machine template never changes its machine spec. An update is accepted if and only if old
  and new object are templates with the same machine spec; labels and other metadata may change.
\<close>

theorem template_immutable:
  "Template_ValidateUpdate old new = None \<longleftrightarrow>
     (\<exists>a b. old = OMachineTemplate a \<and> new = OMachineTemplate b \<and> HMT_TemplateSpec a = HMT_TemplateSpec b)"
  by (auto simp: Template_ValidateUpdate_def split: runtime_object.splits)

section \<open>Upgrade plans\<close>

text \<open>
  What the code relies on of the semantic version package: the empty text is no version, and
  \<open>Compare\<close> is antisymmetric and transitive.
\<close>

definition semver_order :: "kube_lib \<Rightarrow> bool" where
  "semver_order lib \<longleftrightarrow> \<not> Lib_IsValid lib [] \<and> (\<forall>a b. Lib_Compare lib a b = - Lib_Compare lib b a) \<and>
     (\<forall>a b c. Lib_Compare lib a b < 0 \<longrightarrow> Lib_Compare lib b c < 0 \<longrightarrow> Lib_Compare lib a c < 0)"

abbreviation precedes :: "kube_lib \<Rightarrow> string \<Rightarrow> string \<Rightarrow> bool" where
  "precedes lib a b \<equiv> Lib_Compare lib a b < 0"

lemma compare_antisym: "semver_order lib \<Longrightarrow> Lib_Compare lib a b = - Lib_Compare lib b a"
  unfolding semver_order_def by blast

lemma compare_flip: "semver_order lib \<Longrightarrow> Lib_Compare lib a b \<le> 0 \<longleftrightarrow> \<not> precedes lib b a"
  using compare_antisym [of lib a b] by linarith

lemma precedes_irrefl: "semver_order lib \<Longrightarrow> \<not> precedes lib a a"
  using compare_antisym [of lib a a] by linarith

lemma precedes_transp: "semver_order lib \<Longrightarrow> transp (precedes lib)"
  unfolding semver_order_def transp_def by blast

lemma plan_step_errors_Nil:
  assumes "semver_order lib"
  shows "plan_step_errors lib i previous rest = [] \<longleftrightarrow>
     (\<forall>v\<in>set rest. Lib_IsValid lib v) \<and> sorted_wrt (precedes lib) (if previous = [] then rest else previous # rest)"
proof (induction rest arbitrary: i previous)
  case (Cons v rest)
  have "\<not> Lib_IsValid lib []" using assms by (simp add: semver_order_def)
  then have "Lib_IsValid lib v \<Longrightarrow> v \<noteq> []" by blast
  moreover have "sorted_wrt (precedes lib) (u # v # rest) \<longleftrightarrow> precedes lib u v \<and> sorted_wrt (precedes lib) (v # rest)" for u
    using precedes_transp [OF assms] by (rule sorted_wrt2)
  ultimately show ?case
    using Cons.IH by (auto simp: validVersion_def Let_def compare_flip [OF assms] simp del: sorted_wrt.simps(2))
qed simp

definition plan_ok :: "kube_lib \<Rightarrow> plan_spec \<Rightarrow> bool" where
  "plan_ok lib s \<longleftrightarrow> PS_ClusterName s \<noteq> [] \<and> Lib_IsValid lib (PS_ToVersion s) \<and>
     (\<forall>v\<in>set (PS_Steps s). Lib_IsValid lib v) \<and> sorted_wrt (precedes lib) (PS_Steps s) \<and>
     (PS_Steps s = [] \<or> Lib_Compare lib (last (PS_Steps s)) (PS_ToVersion s) = 0)"

lemma validateHypervisorUpgradePlan_ok:
  "semver_order lib \<Longrightarrow> validateHypervisorUpgradePlan lib p = None \<longleftrightarrow> plan_ok lib (P_Spec p)"
  by (auto simp: validateHypervisorUpgradePlan_def plan_ok_def Let_def plan_step_errors_Nil validVersion_def
      split: if_split_asm)

lemma plan_ok_distinct:
  assumes "semver_order lib" and "plan_ok lib s"
  shows "distinct (PS_Steps s)"
proof -
  have "sorted_wrt (precedes lib) vs \<Longrightarrow> distinct vs" for vs
    by (induction vs) (auto simp: precedes_irrefl [OF assms(1)])
  then show ?thesis using assms(2) by (simp add: plan_ok_def)
qed

text \<open>No two active plans for one cluster, among the plans of a namespace.\<close>

definition one_active :: "plan list \<Rightarrow> bool" where
  "one_active plans \<longleftrightarrow> (\<forall>p\<in>set plans. \<forall>q\<in>set plans.
     PS_ClusterName (P_Spec p) = PS_ClusterName (P_Spec q) \<longrightarrow>
     \<not> Terminal (PSt_Phase (P_Status p)) \<longrightarrow> \<not> Terminal (PSt_Phase (P_Status q)) \<longrightarrow>
     M_Name (P_Meta p) = M_Name (P_Meta q))"

definition others :: "plan \<Rightarrow> plan list \<Rightarrow> plan list" where
  "others p plans = filter (\<lambda>q. M_Name (P_Meta q) \<noteq> M_Name (P_Meta p)) plans"

lemma find_SomeD: "find P xs = Some x \<Longrightarrow> x \<in> set xs \<and> P x"
  by (auto simp: find_Some_iff)

lemma uniqueness_None:
  assumes "PS_ClusterName (P_Spec p) \<noteq> []"
  shows "validateActivePlanUniqueness (Some k) p s = (None, t) \<longleftrightarrow>
    (\<exists>plans. K_ListPlans k (M_Namespace (P_Meta p)) s = (Inr plans, t) \<and>
       (\<forall>q\<in>set plans. M_Name (P_Meta q) \<noteq> M_Name (P_Meta p) \<longrightarrow>
          PS_ClusterName (P_Spec q) = PS_ClusterName (P_Spec p) \<longrightarrow> Terminal (PSt_Phase (P_Status q))))"
  using assms
  by (auto simp: validateActivePlanUniqueness_def find_None_iff dest!: find_SomeD
      split: prod.splits sum.splits option.splits)

lemma one_active_add:
  assumes "one_active plans"
    and "\<forall>q\<in>set plans. M_Name (P_Meta q) \<noteq> M_Name (P_Meta p) \<longrightarrow>
          PS_ClusterName (P_Spec q) = PS_ClusterName (P_Spec p) \<longrightarrow> Terminal (PSt_Phase (P_Status q))"
  shows "one_active (p # others p plans)"
  using assms unfolding one_active_def others_def by auto

text \<open>
  C28: an admitted plan is well formed and alone. When the creation of a plan is accepted, its
  steps are valid versions, pairwise increasing and hence distinct, and the last one is equivalent
  to the target; its cluster was found; and if the plans the API server listed had at most one
  active plan per cluster, they still do with the new plan among them.
\<close>

theorem admitted_plan:
  assumes "semver_order lib" and "Plan_ValidateCreate lib (Some k) (OPlan p) s = (None, t)"
  shows "plan_ok lib (P_Spec p) \<and> distinct (PS_Steps (P_Spec p)) \<and>
    (\<exists>c u. K_GetCluster k (M_Namespace (P_Meta p), PS_ClusterName (P_Spec p)) s = (Inr c, u) \<and>
           (\<exists>plans. K_ListPlans k (M_Namespace (P_Meta p)) u = (Inr plans, t) \<and>
             (one_active plans \<longrightarrow> one_active (p # others p plans))))"
proof -
  from assms(2) have ok: "validateHypervisorUpgradePlan lib p = None"
    by (auto simp: Plan_ValidateCreate_def split: option.splits)
  with assms(1) have plan: "plan_ok lib (P_Spec p)" by (simp add: validateHypervisorUpgradePlan_ok)
  then have named: "PS_ClusterName (P_Spec p) \<noteq> []" by (simp add: plan_ok_def)
  from assms(2) ok obtain u where "validateClusterExists (Some k) p s = (None, u)"
    and unique: "validateActivePlanUniqueness (Some k) p u = (None, t)"
    by (auto simp: Plan_ValidateCreate_def split: prod.splits option.splits)
  then obtain c where "K_GetCluster k (M_Namespace (P_Meta p), PS_ClusterName (P_Spec p)) s = (Inr c, u)"
    using named by (auto simp: validateClusterExists_def Let_def split: prod.splits sum.splits)
  moreover from unique named obtain plans where "K_ListPlans k (M_Namespace (P_Meta p)) u = (Inr plans, t)"
    and "one_active plans \<Longrightarrow> one_active (p # others p plans)"
    by (auto simp: uniqueness_None intro: one_active_add)
  ultimately show ?thesis using plan plan_ok_distinct [OF assms(1) plan] by blast
qed

text \<open>
  A plan never changes what it does. When an update of a plan is accepted, the new object has
  the same cluster, target version and steps as the old one.
\<close>

theorem plan_spec_immutable:
  assumes "Plan_ValidateUpdate lib kc old new s = (None, t)"
  shows "\<exists>q p. old = OPlan q \<and> new = OPlan p \<and> P_Spec p = P_Spec q"
proof -
  from assms obtain q p where "old = OPlan q" "new = OPlan p" "PS_ClusterName (P_Spec q) = PS_ClusterName (P_Spec p)"
      "PS_ToVersion (P_Spec q) = PS_ToVersion (P_Spec p)" "PS_Steps (P_Spec q) = PS_Steps (P_Spec p)"
    by (auto simp: Plan_ValidateUpdate_def split: runtime_object.splits option.splits if_split_asm)
  then show ?thesis by (auto intro: plan_spec.equality)
qed

section \<open>Concrete plans\<close>

text \<open>
  A library of versions ordered as texts, an API server whose state is the list of plans it holds
  and which has every cluster, and a plan: they show that the statements above are not vacuous.
\<close>

definition text_lib :: kube_lib where
  "text_lib = \<lparr>Lib_IsValid = (\<lambda>v. HasPrefix v ''v''), Lib_Compare = (\<lambda>a b. if a < b then -1 else if a = b then 0 else 1),
     Lib_SetStatusCondition = (\<lambda>cs c. c # filter (\<lambda>d. Cond_Type d \<noteq> Cond_Type c) cs),
     Lib_ContainsFinalizer = (\<lambda>fs f. f \<in> set fs),
     Lib_AddFinalizer = (\<lambda>fs f. if f \<in> set fs then fs else fs @ [f]),
     Lib_RemoveFinalizer = (\<lambda>fs f. filter (\<lambda>g. g \<noteq> f) fs),
     Lib_IsDefined = (\<lambda>r. Ref_Kind r \<noteq> [] \<and> Ref_Name r \<noteq> []),
     Lib_PausedAnnotation = ''cluster.x-k8s.io/paused'', Lib_ClusterNameLabel = ''cluster.x-k8s.io/cluster-name'',
     Lib_ControlPlaneLabel = ''cluster.x-k8s.io/control-plane''\<rparr>"

lemma semver_order_text_lib: "semver_order text_lib"
  by (auto simp: semver_order_def text_lib_def HasPrefix_def)

definition blank_meta :: "string \<Rightarrow> object_meta" where
  "blank_meta n = \<lparr>M_Namespace = ''default'', M_Name = n, M_UID = n, M_Generation = 1, M_OwnerReferences = [], M_Labels = Map.empty, M_Annotations = Map.empty,
     M_Finalizers = [], M_DeletionTimestamp = None, M_ResourceVersion = ''1''\<rparr>"

definition blank_ref :: contract_ref where
  "blank_ref = \<lparr>Ref_APIGroup = [], Ref_Kind = [], Ref_Name = []\<rparr>"

definition sample_plan :: "string \<Rightarrow> plan" where
  "sample_plan n = \<lparr>P_Meta = blank_meta n,
     P_Spec = \<lparr>PS_ClusterName = ''lab'', PS_ToVersion = ''v2'', PS_Steps = [''v1'', ''v2'']\<rparr>,
     P_Status = \<lparr>PSt_Phase = [], PSt_FromVersion = [], PSt_CurrentStep = 0, PSt_Steps = [], PSt_FailureReason = [],
       PSt_FailureMessage = [], PSt_Conditions = []\<rparr>\<rparr>"

definition plan_list_api :: "plan list kube" where
  "plan_list_api = \<lparr>K_GetPlan = (\<lambda>k. failG (plain_err [])), K_ListPlans = (\<lambda>n. readG id),
     K_UpdatePlan = (\<lambda>p. returnG ()), K_UpdatePlanStatus = (\<lambda>p. returnG ()),
     K_GetCluster = (\<lambda>k. returnG \<lparr>CL_Meta = blank_meta (snd k), CL_TopologyVersion = [], CL_TopologyClass = [],
        CL_ControlPlaneRef = blank_ref, CL_InfrastructureRef = blank_ref\<rparr>),
     K_PatchCluster = (\<lambda>c d. returnG ()), K_GetHypervisorCluster = (\<lambda>k. failG (plain_err [])),
     K_GetControlPlane = (\<lambda>k. failG (plain_err [])), K_ListMachines = (\<lambda>n l. returnG []),
     K_ListMachineDeployments = (\<lambda>n l. returnG []), K_PatchMachineDeployment = (\<lambda>c d. returnG ()),
     K_Event = (\<lambda>p a b c s. s)\<rparr>"

lemma sample_plan_ok: "validateHypervisorUpgradePlan text_lib (sample_plan n) = None"
proof -
  have "plan_ok text_lib (P_Spec (sample_plan n))"
    by (simp add: plan_ok_def sample_plan_def text_lib_def HasPrefix_def)
  then show ?thesis by (simp only: validateHypervisorUpgradePlan_ok [OF semver_order_text_lib])
qed

lemma sample_plan_admitted:
  "Plan_ValidateCreate text_lib (Some plan_list_api) (OPlan (sample_plan n)) [] = (None, [])"
  by (simp add: Plan_ValidateCreate_def sample_plan_ok validateClusterExists_def validateActivePlanUniqueness_def
      plan_list_api_def readG_def Let_def)

theorem admitted_plan_witness:
  "plan_ok text_lib (P_Spec (sample_plan ''up'')) \<and> distinct (PS_Steps (P_Spec (sample_plan ''up''))) \<and>
   (\<exists>plans. K_ListPlans plan_list_api ''default'' [] = (Inr plans, []) \<and>
      (one_active plans \<longrightarrow> one_active (sample_plan ''up'' # others (sample_plan ''up'') plans)))"
  using admitted_plan [OF semver_order_text_lib sample_plan_admitted [of "''up''"]]
  by (auto simp: sample_plan_def blank_meta_def plan_list_api_def readG_def)

theorem plan_spec_immutable_witness:
  "\<exists>q p. OPlan (sample_plan ''up'') = OPlan q \<and> OPlan (sample_plan ''up'') = OPlan p \<and> P_Spec p = P_Spec q"
proof (rule plan_spec_immutable)
  show "Plan_ValidateUpdate text_lib None (OPlan (sample_plan ''up'')) (OPlan (sample_plan ''up'')) () = (None, ())"
    by (simp add: Plan_ValidateUpdate_def sample_plan_ok validateActivePlanUniqueness_def)
qed

text \<open>
  The uniqueness of active plans is checked, not kept. Two plans for one cluster that are
  validated against the same state of the API server, before either is stored, are both accepted,
  and then both are active.
\<close>

theorem concurrent_plans_both_admitted:
  "\<exists>p q. Plan_ValidateCreate text_lib (Some plan_list_api) (OPlan p) [] = (None, []) \<and>
     Plan_ValidateCreate text_lib (Some plan_list_api) (OPlan q) [] = (None, []) \<and> \<not> one_active [p, q]"
proof -
  have "\<not> one_active [sample_plan ''a'', sample_plan ''b'']"
    by (simp add: one_active_def sample_plan_def blank_meta_def Terminal_def phase_defs)
  then show ?thesis using sample_plan_admitted by blast
qed

end
