(* ===== verification/UpgradeRun.thy ===== *)
theory UpgradeRun
  imports UpgradePlan Admission
begin

text \<open>
  The upgrade plan as a state machine. \<open>plan_step\<close> is the abstract machine of one plan: what
  the controller may do to its status. \<open>plan_life\<close> adds what happens to the object outside the
  controller: it is created through the admission webhook, its metadata changes and it is deleted.
  The invariant of every plan that can exist and the bound on the number of its steps are proved
  here; that the controller refines the machine is in \<open>UpgradeRefines\<close>.
\<close>

section \<open>The machine of one plan\<close>

inductive plan_step :: "kube_lib \<Rightarrow> plan \<Rightarrow> plan \<Rightarrow> bool" for lib where
  begin_step: "PSt_Phase (P_Status p) \<in> {[], UpgradePlanPhasePending} \<Longrightarrow> plan_step lib p (begun_plan lib p current)"
| fail_step: "\<not> Terminal (PSt_Phase (P_Status p)) \<Longrightarrow> plan_step lib p (failed_plan lib p reason message)"
| workers_step: "PSt_Phase (P_Status p) = UpgradePlanPhaseRollingControlPlane \<Longrightarrow> 0 \<le> PSt_CurrentStep (P_Status p) \<Longrightarrow>
     PSt_CurrentStep (P_Status p) < int (length (resolveUpgradeSteps p)) \<Longrightarrow>
     v = resolveUpgradeSteps p ! nat (PSt_CurrentStep (P_Status p)) \<Longrightarrow>
     plan_step lib p (with_phase UpgradePlanPhaseRollingWorkers (markStepPhase p v UpgradePlanPhaseRollingWorkers))"
| next_step: "PSt_Phase (P_Status p) = UpgradePlanPhaseRollingWorkers \<Longrightarrow> 0 \<le> PSt_CurrentStep (P_Status p) \<Longrightarrow>
     PSt_CurrentStep (P_Status p) + 1 < int (length (resolveUpgradeSteps p)) \<Longrightarrow>
     v = resolveUpgradeSteps p ! nat (PSt_CurrentStep (P_Status p)) \<Longrightarrow>
     q = markStepPhase p v UpgradePlanPhaseCompleted \<Longrightarrow>
     plan_step lib p (q\<lparr>P_Status := (P_Status q)\<lparr>PSt_CurrentStep := PSt_CurrentStep (P_Status q) + 1,
        PSt_Phase := UpgradePlanPhaseRollingControlPlane\<rparr>\<rparr>)"
| complete_step: "PSt_Phase (P_Status p) = UpgradePlanPhaseRollingWorkers \<Longrightarrow> 0 \<le> PSt_CurrentStep (P_Status p) \<Longrightarrow>
     PSt_CurrentStep (P_Status p) + 1 = int (length (resolveUpgradeSteps p)) \<Longrightarrow>
     v = resolveUpgradeSteps p ! nat (PSt_CurrentStep (P_Status p)) \<Longrightarrow>
     plan_step lib p (completed_plan lib (markStepPhase p v UpgradePlanPhaseCompleted))"
| past_end_step: "PSt_Phase (P_Status p) \<notin> {[], UpgradePlanPhasePending} \<Longrightarrow> \<not> Terminal (PSt_Phase (P_Status p)) \<Longrightarrow>
     PSt_CurrentStep (P_Status p) \<ge> int (length (resolveUpgradeSteps p)) \<Longrightarrow>
     plan_step lib p (completed_plan lib p)"

text \<open>A write of the status stores the status of one object in another one and changes its metadata.\<close>

definition same_record :: "plan \<Rightarrow> plan \<Rightarrow> bool" where
  "same_record p q \<longleftrightarrow> P_Spec q = P_Spec p \<and> P_Status q = P_Status p"

text \<open>
  The life of the object under one key. Which plans may appear is a parameter: those the webhook
  admits, \<open>admitted\<close>, or fewer. The status is a subresource, so a plan is created without
  one: its phase is empty, and \<open>admitted_fresh\<close> says that it lists no steps either.
\<close>

definition admitted :: "kube_lib \<Rightarrow> plan \<Rightarrow> bool" where
  "admitted lib p \<longleftrightarrow> validateHypervisorUpgradePlan lib p = None \<and> PSt_Phase (P_Status p) = []"

definition admitted_fresh :: "kube_lib \<Rightarrow> plan \<Rightarrow> bool" where
  "admitted_fresh lib p \<longleftrightarrow> admitted lib p \<and> PSt_Steps (P_Status p) = []"

inductive plan_life :: "(plan \<Rightarrow> bool) \<Rightarrow> kube_lib \<Rightarrow> plan option \<Rightarrow> plan option \<Rightarrow> bool" for new lib where
  created: "new p \<Longrightarrow> plan_life new lib None (Some p)"
| kept: "same_record p q \<Longrightarrow> plan_life new lib (Some p) (Some q)"
| deleted: "plan_life new lib (Some p) None"
| moved: "plan_step lib p q \<Longrightarrow> same_record q r \<Longrightarrow> plan_life new lib (Some p) (Some r)"

inductive_simps plan_life_from_None: "plan_life new lib None x"
inductive_simps plan_life_Some_Some: "plan_life new lib (Some p) (Some q)"

section \<open>What a step keeps and changes\<close>

lemma resolve_cong: "P_Spec q = P_Spec p \<Longrightarrow> resolveUpgradeSteps q = resolveUpgradeSteps p"
  by (simp add: resolveUpgradeSteps_def)

lemma resolve_nonempty [simp]: "resolveUpgradeSteps p \<noteq> []"
  by (simp add: resolveUpgradeSteps_def)

lemma status_simps [simp]:
  "P_Spec (begun_plan lib p c) = P_Spec p" "P_Spec (failed_plan lib p x y) = P_Spec p"
  "P_Spec (completed_plan lib p) = P_Spec p" "P_Spec (markStepPhase p v ph) = P_Spec p" "P_Spec (with_phase ph p) = P_Spec p"
  "P_Meta (begun_plan lib p c) = P_Meta p" "P_Meta (failed_plan lib p x y) = P_Meta p"
  "P_Meta (completed_plan lib p) = P_Meta p" "P_Meta (markStepPhase p v ph) = P_Meta p" "P_Meta (with_phase ph p) = P_Meta p"
  "PSt_Phase (P_Status (begun_plan lib p c)) = UpgradePlanPhaseRollingControlPlane"
  "PSt_Phase (P_Status (failed_plan lib p x y)) = UpgradePlanPhaseFailed"
  "PSt_Phase (P_Status (completed_plan lib p)) = UpgradePlanPhaseCompleted"
  "PSt_Phase (P_Status (markStepPhase p v ph)) = PSt_Phase (P_Status p)"
  "PSt_Phase (P_Status (with_phase ph p)) = ph"
  "PSt_CurrentStep (P_Status (begun_plan lib p c)) = 0"
  "PSt_CurrentStep (P_Status (failed_plan lib p x y)) = PSt_CurrentStep (P_Status p)"
  "PSt_CurrentStep (P_Status (completed_plan lib p)) = PSt_CurrentStep (P_Status p)"
  "PSt_CurrentStep (P_Status (markStepPhase p v ph)) = PSt_CurrentStep (P_Status p)"
  "PSt_CurrentStep (P_Status (with_phase ph p)) = PSt_CurrentStep (P_Status p)"
  "PSt_Steps (P_Status (completed_plan lib p)) = PSt_Steps (P_Status p)"
  "PSt_Steps (P_Status (failed_plan lib p x y)) = PSt_Steps (P_Status p)"
  "PSt_Steps (P_Status (markStepPhase p v ph)) = mark_first v ph (PSt_Steps (P_Status p))"
  "PSt_Steps (P_Status (with_phase ph p)) = PSt_Steps (P_Status p)"
  "PSt_Steps (P_Status (begun_plan lib p c)) =
     map (\<lambda>v. \<lparr>St_Version = v, St_Phase = UpgradePlanPhaseRollingControlPlane\<rparr>) (resolveUpgradeSteps p)"
  by (simp_all add: begun_plan_def failed_plan_def completed_plan_def markStepPhase_def with_phase_def setCondition_def)

lemma plan_step_spec: "plan_step lib p q \<Longrightarrow> P_Spec q = P_Spec p \<and> P_Meta q = P_Meta p"
  by (induction rule: plan_step.induct) auto

lemma plan_step_not_terminal: "plan_step lib p q \<Longrightarrow> \<not> Terminal (PSt_Phase (P_Status p))"
  by (induction rule: plan_step.induct) (auto)

section \<open>The invariant of a plan\<close>

text \<open>
  The step records of a plan that is at step \<open>i\<close> in phase \<open>ph\<close>: the versions are the
  resolved steps, everything before \<open>i\<close> is completed and everything behind has not begun.
\<close>

definition progress_records :: "string list \<Rightarrow> nat \<Rightarrow> plan_phase \<Rightarrow> step_status list" where
  "progress_records vs i ph =
     map (\<lambda>j. \<lparr>St_Version = vs ! j, St_Phase = (if j < i then UpgradePlanPhaseCompleted
        else if j = i then ph else UpgradePlanPhaseRollingControlPlane)\<rparr>) [0..<length vs]"

definition plan_inv :: "plan \<Rightarrow> bool" where
  "plan_inv p \<longleftrightarrow> (let st = P_Status p; vs = resolveUpgradeSteps p; i = nat (PSt_CurrentStep st); ph = PSt_Phase st in
     distinct vs \<and>
     (ph = [] \<or> ph = UpgradePlanPhaseFailed \<or>
      (0 \<le> PSt_CurrentStep st \<and> i < length vs \<and>
       (ph \<in> {UpgradePlanPhaseRollingControlPlane, UpgradePlanPhaseRollingWorkers} \<and> PSt_Steps st = progress_records vs i ph \<or>
        ph = UpgradePlanPhaseCompleted \<and> PSt_Steps st = progress_records vs (length vs) ph))))"

lemma mark_first_nth:
  assumes "distinct (map St_Version sts)" and "i < length sts" and "St_Version (sts ! i) = v"
  shows "mark_first v ph sts = sts[i := (sts ! i)\<lparr>St_Phase := ph\<rparr>]"
  using assms
proof (induction sts arbitrary: i)
  case (Cons st sts)
  show ?case
  proof (cases i)
    case 0
    with Cons.prems show ?thesis by simp
  next
    case (Suc j)
    with Cons.prems have "St_Version st \<noteq> v" by (auto dest: nth_mem)
    with Suc Cons show ?thesis by auto
  qed
qed simp

lemma length_progress [simp]: "length (progress_records vs i ph) = length vs"
  by (simp add: progress_records_def)

lemma versions_progress [simp]: "map St_Version (progress_records vs i ph) = vs"
  by (simp add: progress_records_def comp_def map_nth)

lemma mark_progress:
  assumes "distinct vs" and "i < length vs"
  shows "mark_first (vs ! i) ph' (progress_records vs i ph) = progress_records vs i ph'"
    and "mark_first (vs ! i) UpgradePlanPhaseCompleted (progress_records vs i ph) =
           progress_records vs (Suc i) UpgradePlanPhaseRollingControlPlane"
    and "Suc i = length vs \<Longrightarrow> progress_records vs (Suc i) ph' = progress_records vs (Suc i) ph''"
proof -
  have mark: "mark_first (vs ! i) ph' (progress_records vs i ph) =
      (progress_records vs i ph)[i := (progress_records vs i ph ! i)\<lparr>St_Phase := ph'\<rparr>]" for ph'
  proof (rule mark_first_nth)
    show "distinct (map St_Version (progress_records vs i ph))" using assms(1) by simp
  qed (use assms in \<open>simp_all add: progress_records_def\<close>)
  show "mark_first (vs ! i) ph' (progress_records vs i ph) = progress_records vs i ph'"
    unfolding mark using assms by (intro nth_equalityI) (auto simp: progress_records_def nth_list_update)
  show "mark_first (vs ! i) UpgradePlanPhaseCompleted (progress_records vs i ph) =
           progress_records vs (Suc i) UpgradePlanPhaseRollingControlPlane"
    unfolding mark using assms by (intro nth_equalityI) (auto simp: progress_records_def nth_list_update)
  show "progress_records vs (Suc i) ph' = progress_records vs (Suc i) ph''" if "Suc i = length vs"
    using that by (auto simp: progress_records_def)
qed

lemma begun_records: "map (\<lambda>v. \<lparr>St_Version = v, St_Phase = UpgradePlanPhaseRollingControlPlane\<rparr>) vs =
   progress_records vs 0 UpgradePlanPhaseRollingControlPlane"
  by (intro nth_equalityI) (auto simp: progress_records_def)

lemma plan_inv_begun: "distinct (resolveUpgradeSteps p) \<Longrightarrow> plan_inv (begun_plan lib p c)"
  by (simp add: plan_inv_def Let_def begun_records resolve_cong [of "begun_plan lib p c" p])

lemma plan_step_inv: "plan_step lib p q \<Longrightarrow> plan_inv p \<Longrightarrow> plan_inv q"
proof (induction rule: plan_step.induct)
  case (begin_step p current)
  then show ?case by (intro plan_inv_begun) (simp add: plan_inv_def Let_def)
next
  case (fail_step p reason message)
  then show ?case by (simp add: plan_inv_def Let_def resolve_cong [of "failed_plan lib p reason message" p])
next
  case (workers_step p v)
  let ?q = "with_phase UpgradePlanPhaseRollingWorkers (markStepPhase p v UpgradePlanPhaseRollingWorkers)"
  have "resolveUpgradeSteps ?q = resolveUpgradeSteps p" by (intro resolve_cong) simp
  with workers_step show ?case by (auto simp: plan_inv_def Let_def mark_progress(1,2))
next
  case (next_step p v q)
  let ?r = "q\<lparr>P_Status := (P_Status q)\<lparr>PSt_CurrentStep := PSt_CurrentStep (P_Status q) + 1,
        PSt_Phase := UpgradePlanPhaseRollingControlPlane\<rparr>\<rparr>"
  have "resolveUpgradeSteps ?r = resolveUpgradeSteps p" using next_step by (intro resolve_cong) simp
  moreover have "nat (PSt_CurrentStep (P_Status p) + 1) = Suc (nat (PSt_CurrentStep (P_Status p)))"
    using next_step(2) by (simp add: nat_add_distrib)
  ultimately show ?case using next_step by (auto simp: plan_inv_def Let_def mark_progress(2))
next
  case (complete_step p v)
  let ?vs = "resolveUpgradeSteps p" and ?i = "nat (PSt_CurrentStep (P_Status p))"
  let ?q = "completed_plan lib (markStepPhase p v UpgradePlanPhaseCompleted)"
  have steps: "resolveUpgradeSteps ?q = ?vs" by (intro resolve_cong) simp
  have len: "Suc ?i = length ?vs" using complete_step by linarith
  have "PSt_Steps (P_Status p) = progress_records ?vs ?i UpgradePlanPhaseRollingWorkers" and "distinct ?vs"
    using complete_step by (auto simp: plan_inv_def Let_def)
  then have "PSt_Steps (P_Status ?q) = progress_records ?vs (length ?vs) UpgradePlanPhaseCompleted"
    using complete_step(4) len mark_progress [of ?vs ?i] by simp
  with steps len complete_step(2) \<open>distinct ?vs\<close> show ?case by (simp add: plan_inv_def Let_def)
next
  case (past_end_step p)
  then show ?case by (auto simp: plan_inv_def Let_def Terminal_def)
qed

lemma plan_inv_same_record: "same_record p q \<Longrightarrow> plan_inv p \<Longrightarrow> plan_inv q"
  using resolve_cong [of q p] by (simp add: plan_inv_def same_record_def)

lemma plan_ok_resolved:
  "semver_order lib \<Longrightarrow> validateHypervisorUpgradePlan lib p = None \<Longrightarrow> distinct (resolveUpgradeSteps p)"
  by (simp add: validateHypervisorUpgradePlan_ok plan_ok_distinct resolveUpgradeSteps_def)

lemma admitted_inv: "semver_order lib \<Longrightarrow> admitted lib p \<Longrightarrow> plan_inv p"
  by (simp add: plan_inv_def admitted_def plan_ok_resolved)

text \<open>
  For a plan that was created without a status the records are also known where \<open>plan_inv\<close>
  says nothing: there are none before the plan has begun, and a failed plan keeps those it had, none
  or the records of the step at which it failed.
\<close>

definition failed_records :: "plan \<Rightarrow> bool" where
  "failed_records p \<longleftrightarrow> (let st = P_Status p; vs = resolveUpgradeSteps p; i = nat (PSt_CurrentStep st) in
     PSt_Steps st = [] \<or>
     0 \<le> PSt_CurrentStep st \<and> i < length vs \<and>
     (\<exists>ph\<in>{UpgradePlanPhaseRollingControlPlane, UpgradePlanPhaseRollingWorkers}. PSt_Steps st = progress_records vs i ph))"

definition plan_honest :: "plan \<Rightarrow> bool" where
  "plan_honest p \<longleftrightarrow> plan_inv p \<and>
     (PSt_Phase (P_Status p) = [] \<longrightarrow> PSt_Steps (P_Status p) = []) \<and>
     (PSt_Phase (P_Status p) = UpgradePlanPhaseFailed \<longrightarrow> failed_records p)"

lemma failed_records_cong:
  "P_Spec q = P_Spec p \<Longrightarrow> PSt_Steps (P_Status q) = PSt_Steps (P_Status p) \<Longrightarrow>
   PSt_CurrentStep (P_Status q) = PSt_CurrentStep (P_Status p) \<Longrightarrow> failed_records q = failed_records p"
  using resolve_cong [of q p] by (simp add: failed_records_def Let_def)

lemma plan_step_honest:
  assumes "plan_step lib p q" and "plan_honest p"
  shows "plan_honest q"
proof -
  have inv: "plan_inv p" using assms(2) by (simp add: plan_honest_def)
  have "PSt_Phase (P_Status q) \<noteq> []" using assms(1) by cases auto
  moreover have "failed_records q" if "PSt_Phase (P_Status q) = UpgradePlanPhaseFailed"
    using assms(1)
  proof cases
    case (fail_step reason message)
    have "failed_records p"
      using assms(2) fail_step(2) by (auto simp: plan_honest_def plan_inv_def failed_records_def Let_def)
    with fail_step(1) show ?thesis using failed_records_cong [of q p] by simp
  qed (use that in auto)
  ultimately show ?thesis using plan_step_inv [OF assms(1) inv] by (simp add: plan_honest_def)
qed

lemma plan_honest_same_record: "same_record p q \<Longrightarrow> plan_honest p \<Longrightarrow> plan_honest q"
  using plan_inv_same_record [of p q] failed_records_cong [of q p] by (simp add: plan_honest_def same_record_def)

lemma admitted_fresh_honest: "semver_order lib \<Longrightarrow> admitted_fresh lib p \<Longrightarrow> plan_honest p"
  by (auto simp: plan_honest_def admitted_fresh_def admitted_inv failed_records_def)

text \<open>What every new plan has and every step and every copy keeps, every plan has in its whole life.\<close>

lemma plan_life_keeps:
  assumes "(plan_life new lib)\<^sup>*\<^sup>* x y" and "pred_option I x" and "\<And>p. new p \<Longrightarrow> I p"
    and "\<And>p q. plan_step lib p q \<Longrightarrow> I p \<Longrightarrow> I q" and "\<And>p q. same_record p q \<Longrightarrow> I p \<Longrightarrow> I q"
  shows "pred_option I y"
  using assms(1,2)
proof (induction rule: rtranclp_induct)
  case (step y z)
  from step(2,3) step.prems show ?case by cases (auto dest: assms(3-5))
qed simp

section \<open>The controller finishes\<close>

text \<open>What is still to do: two phases per step, one for the start.\<close>

definition rank :: "plan \<Rightarrow> nat" where
  "rank p = (let n = length (resolveUpgradeSteps p); i = nat (PSt_CurrentStep (P_Status p)); ph = PSt_Phase (P_Status p) in
     if Terminal ph then 0 else if ph = UpgradePlanPhaseRollingWorkers then 2 * (n - i) - 1
     else if ph = UpgradePlanPhaseRollingControlPlane then 2 * (n - i) else 2 * n + 1)"

lemma rank_same_record: "same_record p q \<Longrightarrow> rank q = rank p"
  using resolve_cong [of q p] by (simp add: rank_def same_record_def)

lemma plan_step_rank: "plan_step lib p q \<Longrightarrow> plan_inv p \<Longrightarrow> rank q < rank p"
proof (induction rule: plan_step.induct)
  case (begin_step p current)
  have "resolveUpgradeSteps (begun_plan lib p current) = resolveUpgradeSteps p" by (intro resolve_cong) simp
  with begin_step show ?case by (auto simp: rank_def Let_def)
next
  case (fail_step p reason message)
  then have "rank p > 0" by (auto simp: rank_def plan_inv_def Let_def)
  then show ?case by (simp add: rank_def [of "failed_plan _ _ _ _"])
next
  case (workers_step p v)
  have "resolveUpgradeSteps (with_phase UpgradePlanPhaseRollingWorkers (markStepPhase p v UpgradePlanPhaseRollingWorkers)) =
    resolveUpgradeSteps p" by (intro resolve_cong) simp
  with workers_step show ?case by (auto simp: rank_def Let_def)
next
  case (next_step p v q)
  have "resolveUpgradeSteps (q\<lparr>P_Status := (P_Status q)\<lparr>PSt_CurrentStep := PSt_CurrentStep (P_Status q) + 1,
      PSt_Phase := UpgradePlanPhaseRollingControlPlane\<rparr>\<rparr>) = resolveUpgradeSteps p"
    using next_step by (intro resolve_cong) simp
  with next_step show ?case by (auto simp: rank_def Let_def)
next
  case (complete_step p v)
  then have "rank p > 0" by (auto simp: rank_def plan_inv_def Let_def)
  then show ?case by (simp add: rank_def [of "completed_plan _ _"])
next
  case (past_end_step p)
  then show ?case by (auto simp: plan_inv_def Let_def)
qed

text \<open>
  Where no plan may appear, a plan that is there at the end has been there all along: it has the record
  it had, or the controller has brought it closer to its end.
\<close>

lemma plan_life_rank:
  assumes "(plan_life (\<lambda>_. False) lib)\<^sup>*\<^sup>* x (Some q)"
  obtains p where "x = Some p" "plan_inv p \<Longrightarrow> plan_inv q \<and> (same_record p q \<or> rank q < rank p)"
proof -
  have "\<exists>p. x = Some p \<and> (plan_inv p \<longrightarrow> plan_inv q \<and> (same_record p q \<or> rank q < rank p))"
    using assms
  proof (induction "Some q" arbitrary: q rule: rtranclp_induct)
    case base
    then show ?case by (auto simp: same_record_def)
  next
    case (step y)
    from step(2) show ?case
    proof cases
      case (kept r)
      with step(3) [of r] show ?thesis
        using plan_inv_same_record [of r q] rank_same_record [of r q] by (auto simp: same_record_def)
    next
      case (moved r r')
      have "rank q < rank r \<and> plan_inv q" if "plan_inv r"
        using plan_step_rank [OF moved(2) that] plan_step_inv [OF moved(2) that] moved(3)
          rank_same_record plan_inv_same_record by auto
      with step(3) [of r] moved(1) rank_same_record [of _ r] show ?thesis by fastforce
    qed auto
  qed
  with that show thesis by blast
qed

lemma terminal_rank: "plan_inv p \<Longrightarrow> rank p = 0 \<longleftrightarrow> Terminal (PSt_Phase (P_Status p))"
  by (auto simp: rank_def plan_inv_def Let_def split: if_split_asm)

end
