(* ===== verification/UpgradeRefines.thy ===== *)
theory UpgradeRefines
  imports UpgradeRun
begin

text \<open>
  The controller refines the machine of \<open>UpgradeRun\<close>, and so its plans end. What it relies on of the API server is
  \<open>plan_api\<close>: other clients may create plans through the webhook, change their metadata and
  delete them during any call, the client may answer from a stale cache, and a failed write may or
  may not have taken effect; but a resource version identifies the content of an object, and a
  write is applied only to the version it was computed from.
\<close>

section \<open>The API server\<close>

type_synonym plan_store = "object_key \<Rightarrow> plan option"

definition plan_key :: "plan \<Rightarrow> object_key" where
  "plan_key p = (M_Namespace (P_Meta p), M_Name (P_Meta p))"

abbreviation version :: "plan \<Rightarrow> string" where
  "version p \<equiv> M_ResourceVersion (P_Meta p)"

text \<open>What others do to the plans.\<close>

definition others_life :: "(plan \<Rightarrow> bool) \<Rightarrow> plan option \<Rightarrow> plan option \<Rightarrow> bool" where
  "others_life new x y \<longleftrightarrow> (case (x, y) of
     (None, None) \<Rightarrow> True
   | (None, Some p) \<Rightarrow> new p
   | (Some p, Some q) \<Rightarrow> same_record p q
   | (Some p, None) \<Rightarrow> True)"

text \<open>Which plans others create, by key.\<close>

type_synonym new_plans = "object_key \<Rightarrow> plan \<Rightarrow> bool"

definition others_act :: "new_plans \<Rightarrow> plan_store \<Rightarrow> plan_store \<Rightarrow> bool" where
  "others_act new X Y \<longleftrightarrow> (\<forall>key. (others_life (new key))\<^sup>*\<^sup>* (X key) (Y key))"

definition plans_live :: "new_plans \<Rightarrow> kube_lib \<Rightarrow> ('s \<Rightarrow> plan_store) \<Rightarrow> 's \<Rightarrow> 's \<Rightarrow> bool" where
  "plans_live new lib stored s t \<longleftrightarrow> (\<forall>key. (plan_life (new key) lib)\<^sup>*\<^sup>* (stored s key) (stored t key))"

text \<open>
  The history of the server maps a resource version to the content the object had. A plan in the
  hands of the controller is \<open>known\<close>: it is the content of its version.
\<close>

type_synonym plan_versions = "object_key \<Rightarrow> string \<Rightarrow> plan option"

definition known :: "('s \<Rightarrow> plan_versions) \<Rightarrow> plan \<Rightarrow> 's \<Rightarrow> bool" where
  "known versions p s \<longleftrightarrow> versions s (plan_key p) (version p) = Some p"

definition remembers :: "('s \<Rightarrow> plan_versions) \<Rightarrow> 's \<Rightarrow> 's \<Rightarrow> bool" where
  "remembers versions s t \<longleftrightarrow> (\<forall>key v q. versions s key v = Some q \<longrightarrow> versions t key v = Some q)"

definition evolve :: "new_plans \<Rightarrow> kube_lib \<Rightarrow> ('s \<Rightarrow> plan_store) \<Rightarrow> ('s \<Rightarrow> plan_versions) \<Rightarrow> plan \<Rightarrow> 's \<Rightarrow> 's \<Rightarrow> bool" where
  "evolve new lib stored versions p s t \<longleftrightarrow> (known versions p s \<longrightarrow> known versions p t \<and> plans_live new lib stored s t)"

lemma plans_liveD: "plans_live new lib stored s t \<Longrightarrow> (plan_life (new key) lib)\<^sup>*\<^sup>* (stored s key) (stored t key)"
  unfolding plans_live_def by blast

lemma plans_live_refl: "plans_live new lib stored s s"
  by (simp add: plans_live_def)

lemma plans_live_trans: "plans_live new lib stored s t \<Longrightarrow> plans_live new lib stored t u \<Longrightarrow> plans_live new lib stored s u"
  unfolding plans_live_def by (meson rtranclp_trans)

interpretation life: go_preorder "evolve new lib stored versions p" for new lib stored versions p
  by unfold_locales (auto simp: evolve_def plans_live_refl intro: plans_live_trans)

text \<open>A write of a plan: nothing, or exactly once to the version it names, among the actions of others.\<close>

definition written ::
  "new_plans \<Rightarrow> (plan \<Rightarrow> plan \<Rightarrow> plan option \<Rightarrow> bool) \<Rightarrow> plan_versions \<Rightarrow> plan \<Rightarrow> plan_store \<Rightarrow> plan_store \<Rightarrow> bool" where
  "written new how h p X Y \<longleftrightarrow> others_act new X Y \<or>
     (\<exists>U q q'. others_act new X U \<and> U (plan_key p) = Some q \<and> version q = version p \<and>
        h (plan_key p) (version q) = Some q \<and> how p q q' \<and> others_act new (U(plan_key p := q')) Y)"

definition status_written :: "plan \<Rightarrow> plan \<Rightarrow> plan option \<Rightarrow> bool" where
  "status_written p q x \<longleftrightarrow> (\<exists>q'. x = Some q' \<and> P_Spec q' = P_Spec q \<and> P_Status q' = P_Status p)"

definition object_written :: "plan \<Rightarrow> plan \<Rightarrow> plan option \<Rightarrow> bool" where
  "object_written p q x \<longleftrightarrow> (\<forall>q'. x = Some q' \<longrightarrow> P_Spec q' = P_Spec p \<and> P_Status q' = P_Status q)"

definition others_only :: "new_plans \<Rightarrow> ('s \<Rightarrow> plan_store) \<Rightarrow> ('s \<Rightarrow> plan_versions) \<Rightarrow> ('s, 'a) go \<Rightarrow> bool" where
  "others_only new stored versions m \<longleftrightarrow>
     steps (\<lambda>s t. others_act new (stored s) (stored t) \<and> remembers versions s t) m"

definition writes :: "new_plans \<Rightarrow> ('s \<Rightarrow> plan_store) \<Rightarrow> ('s \<Rightarrow> plan_versions) \<Rightarrow>
    (plan \<Rightarrow> plan \<Rightarrow> plan option \<Rightarrow> bool) \<Rightarrow> plan \<Rightarrow> ('s, 'a) go \<Rightarrow> bool" where
  "writes new stored versions how p m \<longleftrightarrow>
     steps (\<lambda>s t. written new how (versions t) p (stored s) (stored t) \<and> remembers versions s t) m"

definition plan_api :: "new_plans \<Rightarrow> 's kube \<Rightarrow> ('s \<Rightarrow> plan_store) \<Rightarrow> ('s \<Rightarrow> plan_versions) \<Rightarrow> bool" where
  "plan_api new k stored versions \<longleftrightarrow>
     (\<forall>key. others_only new stored versions (K_GetPlan k key)) \<and>
     (\<forall>key. others_only new stored versions (K_GetCluster k key)) \<and>
     (\<forall>c d. others_only new stored versions (K_PatchCluster k c d)) \<and>
     (\<forall>key. others_only new stored versions (K_GetHypervisorCluster k key)) \<and>
     (\<forall>key. others_only new stored versions (K_GetControlPlane k key)) \<and>
     (\<forall>n l. others_only new stored versions (K_ListMachines k n l)) \<and>
     (\<forall>n l. others_only new stored versions (K_ListMachineDeployments k n l)) \<and>
     (\<forall>c d. others_only new stored versions (K_PatchMachineDeployment k c d)) \<and>
     (\<forall>p a b m. others_only new stored versions (eventG k p a b m)) \<and>
     (\<forall>s key p t. K_GetPlan k key s = (Inr p, t) \<longrightarrow> known versions p t) \<and>
     (\<forall>p. writes new stored versions status_written p (K_UpdatePlanStatus k p)) \<and>
     (\<forall>p. writes new stored versions object_written p (K_UpdatePlan k p))"

section \<open>Writes\<close>

lemma others_plan_life: "others_life new x y \<Longrightarrow> (plan_life new lib)\<^sup>*\<^sup>* x y"
  by (auto simp: others_life_def split: option.split_asm intro: r_into_rtranclp plan_life.intros)

lemma others_star_life: "(others_life new)\<^sup>*\<^sup>* x y \<Longrightarrow> (plan_life new lib)\<^sup>*\<^sup>* x y"
  by (induction rule: rtranclp_induct) (auto intro: rtranclp_trans dest: others_plan_life)

lemma others_live: "others_act new (stored s) (stored t) \<Longrightarrow> plans_live new lib stored s t"
  unfolding others_act_def plans_live_def by (blast intro: others_star_life)

lemma known_remembers: "known versions p s \<Longrightarrow> remembers versions s t \<Longrightarrow> known versions p t"
  unfolding known_def remembers_def by blast

lemma quiet_steps: "others_only new stored versions m \<Longrightarrow> steps (evolve new lib stored versions p) m"
  unfolding steps_def others_only_def evolve_def by (blast intro: others_live known_remembers)

lemma written_live:
  assumes "written new how h p (stored s) (stored t)"
    and same: "\<And>q q'. version q = version p \<Longrightarrow> h (plan_key p) (version q) = Some q \<Longrightarrow> how p q q' \<Longrightarrow>
      (plan_life (new (plan_key p)) lib)\<^sup>*\<^sup>* (Some q) q'"
  shows "plans_live new lib stored s t"
  using assms(1) unfolding written_def
proof (elim disjE exE conjE)
  fix U q q'
  assume U: "others_act new (stored s) U" "U (plan_key p) = Some q" "version q = version p"
      "h (plan_key p) (version q) = Some q" "how p q q'"
    and rest: "others_act new (U(plan_key p := q')) (stored t)"
  show ?thesis unfolding plans_live_def
  proof
    fix key
    have "(plan_life (new key) lib)\<^sup>*\<^sup>* (stored s key) (U key)" "(plan_life (new key) lib)\<^sup>*\<^sup>* ((U(plan_key p := q')) key) (stored t key)"
      using U(1) rest unfolding others_act_def by (blast intro: others_star_life)+
    moreover have "(plan_life (new key) lib)\<^sup>*\<^sup>* (U key) ((U(plan_key p := q')) key)"
      using same [OF U(3-5)] U(2) by simp
    ultimately show "(plan_life (new key) lib)\<^sup>*\<^sup>* (stored s key) (stored t key)" by (meson rtranclp_trans)
  qed
qed (rule others_live)

lemma write_steps:
  assumes wr: "writes new stored versions how p' m"
    and meta: "plan_key p' = plan_key p" "version p' = version p"
    and how: "\<And>q'. how p' p q' \<Longrightarrow> (plan_life (new (plan_key p)) lib)\<^sup>*\<^sup>* (Some p) q'"
  shows "steps (evolve new lib stored versions p) m"
proof (rule stepsI)
  fix s r t
  assume "m s = (r, t)"
  then have w: "written new how (versions t) p' (stored s) (stored t)" and rem: "remembers versions s t"
    using stepsD [OF wr [unfolded writes_def]] by blast+
  show "evolve new lib stored versions p s t" unfolding evolve_def
  proof
    assume "known versions p s"
    then have kn: "known versions p t" using rem by (rule known_remembers)
    have "plans_live new lib stored s t"
    proof (rule written_live [OF w])
      fix q q'
      assume "version q = version p'" "versions t (plan_key p') (version q) = Some q" "how p' q q'"
      moreover from this kn meta have "q = p" by (simp add: known_def)
      ultimately show "(plan_life (new (plan_key p')) lib)\<^sup>*\<^sup>* (Some q) q'" using how meta(1) by simp
    qed
    with kn show "known versions p t \<and> plans_live new lib stored s t" ..
  qed
qed

lemma status_write_steps:
  assumes api: "plan_api new k stored versions" and step: "plan_step lib p p'"
  shows "steps (evolve new lib stored versions p) (K_UpdatePlanStatus k p')"
proof (rule write_steps)
  show "writes new stored versions status_written p' (K_UpdatePlanStatus k p')"
    using api unfolding plan_api_def by blast
  show "plan_key p' = plan_key p" "version p' = version p"
    using plan_step_spec [OF step] by (simp_all add: plan_key_def)
  show "(plan_life (new (plan_key p)) lib)\<^sup>*\<^sup>* (Some p) q'" if "status_written p' p q'" for q'
    using that step plan_step_spec [OF step]
    by (auto simp: status_written_def same_record_def intro!: r_into_rtranclp plan_life.moved)
qed

lemma object_write_steps:
  assumes api: "plan_api new k stored versions"
  shows "steps (evolve new lib stored versions p) (K_UpdatePlan k (with_finalizers p fs))"
proof (rule write_steps)
  show "writes new stored versions object_written (with_finalizers p fs) (K_UpdatePlan k (with_finalizers p fs))"
    using api unfolding plan_api_def by blast
  show "(plan_life (new (plan_key p)) lib)\<^sup>*\<^sup>* (Some p) q'" if "object_written (with_finalizers p fs) p q'" for q'
    using that by (cases q')
      (auto simp: object_written_def with_finalizers_def same_record_def intro!: r_into_rtranclp plan_life.kept plan_life.deleted)
qed (simp_all add: plan_key_def with_finalizers_def)

section \<open>The handlers\<close>

lemma api_steps:
  assumes "plan_api new k stored versions"
  shows "steps (evolve new lib stored versions p) (K_GetPlan k key)" "steps (evolve new lib stored versions p) (K_GetCluster k key)"
    "steps (evolve new lib stored versions p) (K_PatchCluster k c d)" "steps (evolve new lib stored versions p) (K_GetHypervisorCluster k key)"
    "steps (evolve new lib stored versions p) (K_GetControlPlane k key)" "steps (evolve new lib stored versions p) (K_ListMachines k n l)"
    "steps (evolve new lib stored versions p) (K_ListMachineDeployments k n l)"
    "steps (evolve new lib stored versions p) (K_PatchMachineDeployment k e f)"
    "steps (evolve new lib stored versions p) (eventG k e' a b m)"
  using assms unfolding plan_api_def by (auto intro!: quiet_steps simp del: split_paired_All)

lemma steps_optional [intro!]: "steps (evolve new lib stored versions p) m \<Longrightarrow> steps (evolve new lib stored versions p) (optionalG x m)"
  unfolding optionalG_def by auto

lemma read_steps:
  assumes "plan_api new k stored versions"
  shows "steps (evolve new lib stored versions p) (targetCluster k q)" "steps (evolve new lib stored versions p) (controlPlane lib k c)"
    "steps (evolve new lib stored versions p) (linkedHypervisorCluster lib k c)"
    "steps (evolve new lib stored versions p) (controlPlaneMachines lib k c)"
    "steps (evolve new lib stored versions p) (machineDeployments lib k c)"
    "steps (evolve new lib stored versions p) (setMachineDeploymentsPaused lib k c b)"
  unfolding targetCluster_def controlPlane_def linkedHypervisorCluster_def controlPlaneMachines_def machineDeployments_def
    setMachineDeploymentsPaused_def pause_one_def Let_def
  by (auto intro!: api_steps [OF assms])

lemma failPlan_steps:
  assumes "plan_api new k stored versions" and "\<not> Terminal (PSt_Phase (P_Status p))"
  shows "steps (evolve new lib stored versions p) (failPlan lib k p reason message)"
  unfolding failPlan_def Let_def
  by (intro life.steps_bind life.steps_wrap life.steps_return api_steps [OF assms(1)]
      status_write_steps [OF assms(1)] plan_step.fail_step assms(2))

lemma completePlan_steps:
  assumes "plan_api new k stored versions"
    and "plan_step lib p (completed_plan lib q)"
  shows "steps (evolve new lib stored versions p) (completePlan lib k q)"
  unfolding completePlan_def Let_def
  by (intro life.steps_bind life.steps_wrap life.steps_return life.steps_case_option api_steps [OF assms(1)] read_steps [OF assms(1)]
      status_write_steps [OF assms])

lemma beginPlan_steps:
  assumes "plan_api new k stored versions"
    and "PSt_Phase (P_Status p) \<in> {[], UpgradePlanPhasePending}"
  shows "steps (evolve new lib stored versions p) (beginPlan lib k p c)"
proof -
  have "\<not> Terminal (PSt_Phase (P_Status p))" using assms(2) by auto
  note fail = failPlan_steps [OF assms(1) this]
  show ?thesis unfolding beginPlan_def Let_def
    by (intro life.steps_bind life.steps_wrap life.steps_return life.steps_case_option life.steps_if
        api_steps [OF assms(1)] read_steps [OF assms(1)] fail status_write_steps [OF assms(1)] plan_step.begin_step assms(2))
qed

lemma patchTopology_steps:
  assumes "plan_api new k stored versions" and "\<not> Terminal (PSt_Phase (P_Status p))"
  shows "steps (evolve new lib stored versions p) (patchTopologyVersion lib k p c v)"
  unfolding patchTopologyVersion_def
  by (intro life.steps_bind life.steps_wrap life.steps_return life.steps_if api_steps [OF assms(1)] failPlan_steps [OF assms])

lemma run_phase_steps:
  assumes api: "plan_api new k stored versions"
    and phase: "PSt_Phase (P_Status p) \<notin> {[], UpgradePlanPhasePending}" "\<not> Terminal (PSt_Phase (P_Status p))"
  shows "steps (evolve new lib stored versions p) (run_phase lib k p c)"
proof -
  let ?i = "PSt_CurrentStep (P_Status p)" and ?vs = "resolveUpgradeSteps p"
  note rules = life.steps_bind life.steps_wrap life.steps_return life.steps_fail life.steps_case_option life.steps_if
    api_steps [OF api] read_steps [OF api] patchTopology_steps [OF api phase(2)] status_write_steps [OF api]
  have cp: "steps (evolve new lib stored versions p) (reconcileControlPlaneStep lib k p c (?vs ! nat ?i))"
    if "PSt_Phase (P_Status p) = UpgradePlanPhaseRollingControlPlane" "0 \<le> ?i" "?i < int (length ?vs)"
    unfolding reconcileControlPlaneStep_def Let_def by (intro rules plan_step.workers_step that refl)
  have wk: "steps (evolve new lib stored versions p) (reconcileWorkersStep lib k p c (?vs ! nat ?i))"
    if now: "PSt_Phase (P_Status p) = UpgradePlanPhaseRollingWorkers" "0 \<le> ?i" "?i < int (length ?vs)"
  proof -
    let ?q = "markStepPhase p (?vs ! nat ?i) UpgradePlanPhaseCompleted"
    have vs: "resolveUpgradeSteps ?q = ?vs" by (intro resolve_cong) simp
    have "steps (evolve new lib stored versions p) (completePlan lib k ?q)" if "?i + 1 \<ge> int (length ?vs)"
      using that now by (intro completePlan_steps [OF api] plan_step.complete_step) auto
    moreover have "plan_step lib p (?q\<lparr>P_Status := (P_Status ?q)
        \<lparr>PSt_CurrentStep := ?i + 1, PSt_Phase := UpgradePlanPhaseRollingControlPlane\<rparr>\<rparr>)" if "\<not> ?i + 1 \<ge> int (length ?vs)"
      using that now plan_step.next_step [of p _ ?q lib] by auto
    ultimately show ?thesis unfolding reconcileWorkersStep_def Let_def vs
      by (intro rules) auto
  qed
  have "steps (evolve new lib stored versions p) (completePlan lib k p)" if "?i \<ge> int (length ?vs)"
    using that phase by (intro completePlan_steps [OF api] plan_step.past_end_step)
  with cp wk show ?thesis unfolding run_phase_def Let_def by (intro life.steps_if life.steps_fail) auto
qed

lemma reconcile_plan_steps:
  assumes api: "plan_api new k stored versions"
  shows "steps (evolve new lib stored versions p) (reconcile_plan lib k p)"
  unfolding reconcile_plan_def reconcileDelete_def
  by (intro life.steps_bind life.steps_wrap life.steps_return life.steps_case_option life.steps_if api_steps [OF api]
      read_steps [OF api] object_write_steps [OF api] failPlan_steps [OF api] beginPlan_steps [OF api]
      run_phase_steps [OF api]) auto

lemma Reconcile_live:
  assumes api: "plan_api new k stored versions" and run: "Reconcile lib k key s = (r, t)"
  shows "plans_live new lib stored s t"
proof -
  obtain a u where get: "K_GetPlan k key s = (a, u)" by fastforce
  moreover have "others_only new stored versions (K_GetPlan k key)"
    using api by (simp add: plan_api_def del: split_paired_All)
  ultimately have su: "plans_live new lib stored s u"
    unfolding others_only_def by (blast dest: stepsD intro: others_live)
  show ?thesis
  proof (cases a)
    case (Inl e)
    with run get have "t = u"
      by (auto simp: Reconcile_def run_bind run_optional split: if_split_asm)
    with su show ?thesis by simp
  next
    case (Inr p)
    with get api have "known versions p u" unfolding plan_api_def by blast
    moreover have "reconcile_plan lib k p u = (r, t)"
      using run get Inr by (simp add: Reconcile_def run_bind run_optional)
    ultimately have "plans_live new lib stored u t"
      using stepsD [OF reconcile_plan_steps [OF api]] by (simp add: evolve_def)
    with su show ?thesis by (rule plans_live_trans)
  qed
qed

section \<open>Runs of the controller\<close>

text \<open>The controller works through a queue of requests; a failed one is simply retried later.\<close>

fun reconcile_all :: "kube_lib \<Rightarrow> 's kube \<Rightarrow> object_key list \<Rightarrow> 's \<Rightarrow> 's" where
  "reconcile_all lib k [] s = s"
| "reconcile_all lib k (key # keys) s = reconcile_all lib k keys (snd (Reconcile lib k key s))"

lemma reconcile_all_live: "plan_api new k stored versions \<Longrightarrow> plans_live new lib stored s (reconcile_all lib k keys s)"
proof (induction keys arbitrary: s)
  case Nil
  show ?case by (simp add: plans_live_refl)
next
  case (Cons key keys)
  have "plans_live new lib stored s (snd (Reconcile lib k key s))"
    using Reconcile_live [OF Cons.prems, of lib key s] by (metis prod.collapse)
  with Cons show ?case by (auto intro: plans_live_trans)
qed

text \<open>
  C3: the plan controller refines the plan machine. Whatever requests it works on, and whichever
  calls fail, answer from a stale cache or interleave with other clients, every stored plan moves
  only along the life of a plan: admitted through the webhook, its status changed by steps of the
  machine only, one at a time, and its metadata changed by others.
\<close>

theorem plan_controller_refines:
  assumes "plan_api (\<lambda>_. admitted lib) k stored versions"
  shows "(plan_life (admitted lib) lib)\<^sup>*\<^sup>* (stored s key) (stored (reconcile_all lib k keys s) key)"
  by (rule plans_liveD [OF reconcile_all_live [OF assms]])

text \<open>
  C7: the status of a plan tells the truth about its steps, in every phase. Versions are ordered as
  \<open>semver\<close> documents, plans are admitted by the webhook and created without a status, and the key
  held nothing or such a plan at the start. Then after any runs of the controller the plan stored there
  has no step records if it has not begun. While it is rolling it lists its steps with their versions in
  order: those before the current one are completed, those behind it have not begun, and the current one
  is in the phase of the plan. If it is completed every step is. If it has failed, it lists no steps, or
  exactly those of the step and the phase in which it failed.
\<close>

theorem plan_status_consistent:
  assumes "plan_api (\<lambda>_. admitted_fresh lib) k stored versions" and "semver_order lib"
    and "\<And>q. stored s key = Some q \<Longrightarrow> admitted_fresh lib q"
    and "stored (reconcile_all lib k keys s) key = Some p"
  shows "plan_honest p \<and> (PSt_Phase (P_Status p) = UpgradePlanPhaseCompleted \<longrightarrow>
      PSt_Steps (P_Status p) = map (\<lambda>v. \<lparr>St_Version = v, St_Phase = UpgradePlanPhaseCompleted\<rparr>) (resolveUpgradeSteps p))"
proof (intro conjI impI)
  note fresh = admitted_fresh_honest [OF assms(2)]
  have "pred_option plan_honest (stored s key)"
    using assms(3) fresh by (cases "stored s key") auto
  then have "pred_option plan_honest (stored (reconcile_all lib k keys s) key)"
    by (rule plan_life_keeps [OF plans_liveD [OF reconcile_all_live [OF assms(1)]]])
      (auto intro: fresh plan_step_honest plan_honest_same_record)
  with assms(4) show honest: "plan_honest p" by simp
  assume "PSt_Phase (P_Status p) = UpgradePlanPhaseCompleted"
  with honest have "PSt_Steps (P_Status p) =
      progress_records (resolveUpgradeSteps p) (length (resolveUpgradeSteps p)) UpgradePlanPhaseCompleted"
    by (auto simp: plan_honest_def plan_inv_def Let_def)
  then show "PSt_Steps (P_Status p) = map (\<lambda>v. \<lparr>St_Version = v, St_Phase = UpgradePlanPhaseCompleted\<rparr>) (resolveUpgradeSteps p)"
    by (auto intro!: nth_equalityI simp: progress_records_def)
qed

section \<open>Counting the changes\<close>

text \<open>The runs of a queue after which the plan under the key has another spec or status than before.\<close>

definition record_changed :: "plan option \<Rightarrow> plan option \<Rightarrow> bool" where
  "record_changed x y \<longleftrightarrow> (case (x, y) of (Some p, Some q) \<Rightarrow> \<not> (P_Spec q = P_Spec p \<and> P_Status q = P_Status p) | _ \<Rightarrow> False)"

fun changing_runs :: "kube_lib \<Rightarrow> 's kube \<Rightarrow> ('s \<Rightarrow> plan option) \<Rightarrow> object_key list \<Rightarrow> 's \<Rightarrow> nat" where
  "changing_runs lib k at [] s = 0"
| "changing_runs lib k at (key # keys) s =
     (let t = snd (Reconcile lib k key s)
      in (if record_changed (at s) (at t) then 1 else 0) + changing_runs lib k at keys t)"

text \<open>Plans are created through the webhook, but not under the key.\<close>

definition created_elsewhere :: "kube_lib \<Rightarrow> object_key \<Rightarrow> new_plans" where
  "created_elsewhere lib key key' p \<longleftrightarrow> key' \<noteq> key \<and> admitted lib p"

definition rank_option :: "plan option \<Rightarrow> nat" where
  "rank_option x = (case x of None \<Rightarrow> 0 | Some p \<Rightarrow> rank p)"

lemma elsewhere_life:
  assumes "plan_api (created_elsewhere lib key) k stored versions"
  shows "(plan_life (\<lambda>_. False) lib)\<^sup>*\<^sup>* (stored s key) (stored (reconcile_all lib k keys s) key)"
proof -
  have "created_elsewhere lib key key = (\<lambda>_. False)" by (rule ext) (simp add: created_elsewhere_def)
  with plans_liveD [OF reconcile_all_live [OF assms, of lib s keys], of key] show ?thesis by simp
qed

lemma run_rank:
  assumes "plan_api (created_elsewhere lib key) k stored versions" and "pred_option plan_inv (stored s key)"
  shows "pred_option plan_inv (stored (reconcile_all lib k keys s) key) \<and>
    rank_option (stored (reconcile_all lib k keys s) key) +
      (if record_changed (stored s key) (stored (reconcile_all lib k keys s) key) then 1 else 0) \<le> rank_option (stored s key)"
proof (cases "stored (reconcile_all lib k keys s) key")
  case (Some q)
  with elsewhere_life [OF assms(1), of s keys] obtain p where "stored s key = Some p"
    "plan_inv p \<Longrightarrow> plan_inv q \<and> (same_record p q \<or> rank q < rank p)"
    using plan_life_rank by metis
  with assms(2) Some rank_same_record [of p q] show ?thesis
    by (auto simp: rank_option_def record_changed_def same_record_def)
qed (simp add: rank_option_def record_changed_def split: option.split)

lemma changing_runs_rank:
  assumes "plan_api (created_elsewhere lib key) k stored versions"
  shows "pred_option plan_inv (stored s key) \<Longrightarrow>
    changing_runs lib k (\<lambda>u. stored u key) keys s + rank_option (stored (reconcile_all lib k keys s) key) \<le> rank_option (stored s key)"
proof (induction keys arbitrary: s)
  case (Cons key' keys)
  let ?t = "snd (Reconcile lib k key' s)"
  from run_rank [OF assms Cons.prems, of "[key']"] have "pred_option plan_inv (stored ?t key)"
    and "rank_option (stored ?t key) + (if record_changed (stored s key) (stored ?t key) then 1 else 0) \<le> rank_option (stored s key)"
    by simp_all
  with Cons.IH [of ?t] show ?case by (simp add: Let_def)
qed simp

text \<open>
  C9: an upgrade plan ends. Take a freshly admitted plan of n resolved steps, and any queue of
  requests the controller works through, with calls that fail, answer from a stale cache or interleave
  with other clients, which create no other plan under the same key meanwhile. At most 2 n + 1 of the
  runs leave the plan with another spec or status; if it is that many, the plan is in a terminal phase;
  and a plan in a terminal phase keeps its spec and status whatever else the controller works on.
\<close>

theorem upgrade_terminates:
  assumes "plan_api (created_elsewhere lib key) k stored versions" and "semver_order lib"
    and "stored s key = Some p" and "admitted lib p"
  shows "changing_runs lib k (\<lambda>u. stored u key) keys s \<le> 2 * length (resolveUpgradeSteps p) + 1 \<and>
    (\<forall>q. stored (reconcile_all lib k keys s) key = Some q \<longrightarrow>
       (changing_runs lib k (\<lambda>u. stored u key) keys s = 2 * length (resolveUpgradeSteps p) + 1 \<longrightarrow>
          Terminal (PSt_Phase (P_Status q))) \<and>
       (Terminal (PSt_Phase (P_Status q)) \<longrightarrow>
          (\<forall>later r. stored (reconcile_all lib k later (reconcile_all lib k keys s)) key = Some r \<longrightarrow>
             P_Spec r = P_Spec q \<and> P_Status r = P_Status q)))"
proof (intro conjI allI impI)
  have inv: "pred_option plan_inv (stored s key)" using assms(2-4) by (simp add: admitted_inv)
  have start: "rank_option (stored s key) = 2 * length (resolveUpgradeSteps p) + 1"
    using assms(3,4) by (simp add: rank_option_def admitted_def rank_def)
  note runs = changing_runs_rank [OF assms(1) inv, of keys, unfolded start]
  then show "changing_runs lib k (\<lambda>u. stored u key) keys s \<le> 2 * length (resolveUpgradeSteps p) + 1" by simp
  fix q
  assume q: "stored (reconcile_all lib k keys s) key = Some q"
  have inv_q: "plan_inv q" using run_rank [OF assms(1) inv, of keys] q by simp
  show "Terminal (PSt_Phase (P_Status q))"
    if "changing_runs lib k (\<lambda>u. stored u key) keys s = 2 * length (resolveUpgradeSteps p) + 1"
    using runs that q terminal_rank [OF inv_q] by (simp add: rank_option_def)
  fix later r
  assume "Terminal (PSt_Phase (P_Status q))" and r: "stored (reconcile_all lib k later (reconcile_all lib k keys s)) key = Some r"
  then have "rank_option (stored (reconcile_all lib k keys s) key) = 0" using q terminal_rank [OF inv_q] by (simp add: rank_option_def)
  with run_rank [OF assms(1), of "reconcile_all lib k keys s" later] q inv_q r
  show "P_Spec r = P_Spec q" "P_Status r = P_Status q" by (auto simp: record_changed_def split: if_split_asm)
qed

end
