(* ===== verification/UpgradeLive.thy ===== *)
theory UpgradeLive
  imports UpgradeRefines
begin

text \<open>
  Progress of the upgrade: in a state where the cluster has converged to what the current phase
  of the plan waits for, one run of the controller takes the plan a step further, so that a plan
  whose cluster keeps converging reaches a terminal phase.
\<close>

section \<open>A converged cluster\<close>

definition cluster_key :: "plan \<Rightarrow> object_key" where
  "cluster_key p = (M_Namespace (P_Meta p), PS_ClusterName (P_Spec p))"

definition current_version :: "plan \<Rightarrow> string" where
  "current_version p = resolveUpgradeSteps p ! nat (PSt_CurrentStep (P_Status p))"

definition phase_converged :: "kube_lib \<Rightarrow> 's kube \<Rightarrow> plan \<Rightarrow> cluster \<Rightarrow> 's \<Rightarrow> bool" where
  "phase_converged lib k p c s \<longleftrightarrow>
     (if PSt_Phase (P_Status p) = UpgradePlanPhaseRollingControlPlane then
        CL_TopologyVersion c = current_version p \<and>
        (\<exists>mds cp ms. machineDeployments lib k c s = (Inr mds, s) \<and> list_all (is_paused lib) mds \<and>
           controlPlane lib k c s = (Inr (Some cp), s) \<and> controlPlaneMachines lib k c s = (Inr ms, s) \<and>
           control_plane_converged cp ms (current_version p))
      else if PSt_Phase (P_Status p) = UpgradePlanPhaseRollingWorkers then
        (\<exists>mds. machineDeployments lib k c s = (Inr mds, s) \<and>
           list_all (\<lambda>md. \<not> is_paused lib md \<and> deployment_converged (current_version p) md) mds)
      else (\<exists>x y. linkedHypervisorCluster lib k c s = (Inr x, s) \<and> controlPlane lib k c s = (Inr y, s)))"

text \<open>The API server stores a status it is sent, and an event changes no plan.\<close>

definition accepts_status :: "kube_lib \<Rightarrow> 's kube \<Rightarrow> ('s \<Rightarrow> plan_store) \<Rightarrow> plan \<Rightarrow> 's \<Rightarrow> bool" where
  "accepts_status lib k stored p s \<longleftrightarrow> (\<forall>p'. plan_step lib p p' \<longrightarrow>
     (\<exists>t q. K_UpdatePlanStatus k p' s = (Inr (), t) \<and> same_record p' q \<and>
        (\<forall>a b m. stored (K_Event k p' a b m t) (plan_key p) = Some q)))"

definition ready :: "kube_lib \<Rightarrow> 's kube \<Rightarrow> ('s \<Rightarrow> plan_store) \<Rightarrow> object_key \<Rightarrow> 's \<Rightarrow> plan \<Rightarrow> bool" where
  "ready lib k stored key s p \<longleftrightarrow> stored s key = Some p \<and> plan_key p = key \<and> K_GetPlan k key s = (Inr p, s) \<and>
     M_DeletionTimestamp (P_Meta p) = None \<and> Lib_ContainsFinalizer lib (M_Finalizers (P_Meta p)) upgradePlanFinalizer \<and>
     (\<exists>c. K_GetCluster k (cluster_key p) s = (Inr c, s) \<and> phase_converged lib k p c s) \<and> accepts_status lib k stored p s"

section \<open>Progress\<close>

lemma unchanged_pauses:
  "list_all (\<lambda>md. is_paused lib md = b) mds \<Longrightarrow> eachG (pause_one lib k b) mds s = (Inr (), s)"
  by (induction mds) (simp_all add: pause_one_def run_bind)

definition advances :: "kube_lib \<Rightarrow> ('s \<Rightarrow> plan_store) \<Rightarrow> plan \<Rightarrow> ('s, ctrl_result) go \<Rightarrow> 's \<Rightarrow> bool" where
  "advances lib stored p m s \<longleftrightarrow> (\<exists>r t p' q. m s = (Inr r, t) \<and> plan_step lib p p' \<and> same_record p' q \<and>
     stored t (plan_key p) = Some q)"

lemma advances_store:
  assumes "accepts_status lib k stored p s" and "plan_step lib p p'"
  shows "advances lib stored p (bindG (wrapG w (K_UpdatePlanStatus k p')) (\<lambda>_. bindG (eventG k p' a b m) (\<lambda>_. returnG r0))) s"
proof -
  from assms obtain t q where "K_UpdatePlanStatus k p' s = (Inr (), t)" "same_record p' q"
    "stored (K_Event k p' a b m t) (plan_key p) = Some q"
    unfolding accepts_status_def by blast
  with assms(2) show ?thesis unfolding advances_def
    by (intro exI [of _ r0] exI [of _ "K_Event k p' a b m t"] exI [of _ p'] exI [of _ q])
      (simp add: run_bind run_wrap eventG_def)
qed

lemma advances_bind: "m s = (Inr x, s) \<Longrightarrow> advances lib stored p (k x) s \<Longrightarrow> advances lib stored p (bindG m k) s"
  by (simp add: advances_def run_bind)

lemma failPlan_advances:
  "accepts_status lib k stored p s \<Longrightarrow> \<not> Terminal (PSt_Phase (P_Status p)) \<Longrightarrow> advances lib stored p (failPlan lib k p a b) s"
  unfolding failPlan_def Let_def by (intro advances_store plan_step.fail_step)

lemma beginPlan_advances:
  assumes acc: "accepts_status lib k stored p s" and ph: "PSt_Phase (P_Status p) \<in> {[], UpgradePlanPhasePending}"
    and "linkedHypervisorCluster lib k c s = (Inr x, s)" "controlPlane lib k c s = (Inr y, s)"
  shows "advances lib stored p (beginPlan lib k p c) s"
proof -
  have "\<not> Terminal (PSt_Phase (P_Status p))" using ph by auto
  note fail = failPlan_advances [OF acc this] and store = advances_store [OF acc plan_step.begin_step [OF ph]]
  show ?thesis unfolding beginPlan_def
    by (rule advances_bind [of "linkedHypervisorCluster lib k c" s x, OF assms(3)])
      (auto split: option.split intro!: fail advances_bind [of "controlPlane lib k c" s y, OF assms(4)] store simp: Let_def)
qed

lemma completePlan_advances:
  assumes "accepts_status lib k stored p s" and "plan_step lib p (completed_plan lib q)" and "cluster_key q = cluster_key p"
    and "K_GetCluster k (cluster_key p) s = (Inr c, s)" and "machineDeployments lib k c s = (Inr mds, s)"
    and "list_all (\<lambda>md. \<not> is_paused lib md) mds"
  shows "advances lib stored p (completePlan lib k q) s"
proof -
  have "targetCluster k q s = (Inr (Some c), s)"
    using assms(3,4) by (simp add: targetCluster_def Let_def run_optional cluster_key_def)
  moreover have "setMachineDeploymentsPaused lib k c False s = (Inr (), s)"
    using assms(5,6) by (simp add: setMachineDeploymentsPaused_def run_bind unchanged_pauses)
  ultimately show ?thesis unfolding completePlan_def Let_def
    by (intro advances_bind [where s = s] advances_store [OF assms(1,2)]) auto
qed

lemma controlPlane_advances:
  assumes "accepts_status lib k stored p s" and "plan_inv p" and "phase_converged lib k p c s"
    and ph: "PSt_Phase (P_Status p) = UpgradePlanPhaseRollingControlPlane"
  shows "advances lib stored p (reconcileControlPlaneStep lib k p c (current_version p)) s"
proof -
  from assms(3) ph obtain mds cp ms where v: "CL_TopologyVersion c = current_version p"
    and mds: "machineDeployments lib k c s = (Inr mds, s)" "list_all (is_paused lib) mds"
    and cp: "controlPlane lib k c s = (Inr (Some cp), s)" "controlPlaneMachines lib k c s = (Inr ms, s)"
      "control_plane_converged cp ms (current_version p)"
    by (auto simp: phase_converged_def)
  have "setMachineDeploymentsPaused lib k c True s = (Inr (), s)"
    using mds by (simp add: setMachineDeploymentsPaused_def run_bind unchanged_pauses)
  moreover have "plan_step lib p (with_phase UpgradePlanPhaseRollingWorkers
      (markStepPhase p (current_version p) UpgradePlanPhaseRollingWorkers))"
    using assms(2) ph by (intro plan_step.workers_step) (auto simp: plan_inv_def Let_def current_version_def)
  ultimately show ?thesis unfolding reconcileControlPlaneStep_def
    by (auto intro!: advances_bind [where s = s] advances_store [OF assms(1)] simp: v cp Let_def)
qed

lemma workers_advance:
  assumes "accepts_status lib k stored p s" and "plan_inv p" and "phase_converged lib k p c s"
    and ph: "PSt_Phase (P_Status p) = UpgradePlanPhaseRollingWorkers" and cl: "K_GetCluster k (cluster_key p) s = (Inr c, s)"
  shows "advances lib stored p (reconcileWorkersStep lib k p c (current_version p)) s"
proof -
  let ?q = "markStepPhase p (current_version p) UpgradePlanPhaseCompleted" and ?i = "PSt_CurrentStep (P_Status p)"
  from assms(3) ph obtain mds where mds: "machineDeployments lib k c s = (Inr mds, s)"
    and conv: "list_all (deployment_converged (current_version p)) mds" and run: "list_all (\<lambda>md. \<not> is_paused lib md) mds"
    by (auto simp: phase_converged_def list_all_iff)
  have vs: "resolveUpgradeSteps ?q = resolveUpgradeSteps p" by (intro resolve_cong) simp
  have bounds: "0 \<le> ?i" "?i < int (length (resolveUpgradeSteps p))" using assms(2) ph by (auto simp: plan_inv_def Let_def)
  have paused: "setMachineDeploymentsPaused lib k c False s = (Inr (), s)"
    using mds run by (simp add: setMachineDeploymentsPaused_def run_bind unchanged_pauses)
  have "advances lib stored p (completePlan lib k ?q) s" if "?i + 1 \<ge> int (length (resolveUpgradeSteps p))"
    using that bounds ph
    by (intro completePlan_advances [OF assms(1) _ _ cl mds run] plan_step.complete_step)
      (auto simp: cluster_key_def current_version_def)
  moreover have "plan_step lib p (?q\<lparr>P_Status := (P_Status ?q)\<lparr>PSt_CurrentStep := ?i + 1,
      PSt_Phase := UpgradePlanPhaseRollingControlPlane\<rparr>\<rparr>)" if "\<not> ?i + 1 \<ge> int (length (resolveUpgradeSteps p))"
    using that bounds ph plan_step.next_step [of p _ ?q lib] by (auto simp: current_version_def)
  ultimately show ?thesis unfolding reconcileWorkersStep_def Let_def vs
    by (auto intro!: advances_bind [of "setMachineDeploymentsPaused lib k c False" s "()", OF paused]
        advances_bind [of "machineDeployments lib k c" s mds, OF mds] advances_store [OF assms(1)] simp: conv)
qed

lemma Reconcile_advances:
  assumes rdy: "ready lib k stored key s p" and inv: "plan_inv p" and "\<not> Terminal (PSt_Phase (P_Status p))"
  shows "advances lib stored p (Reconcile lib k key) s"
proof -
  from rdy obtain c where c: "K_GetCluster k (cluster_key p) s = (Inr c, s)" and conv: "phase_converged lib k p c s"
    and acc: "accepts_status lib k stored p s" by (auto simp: ready_def)
  have target: "targetCluster k p s = (Inr (Some c), s)"
    using c by (simp add: targetCluster_def Let_def run_optional cluster_key_def)
  consider (new) "PSt_Phase (P_Status p) = []" | (cp) "PSt_Phase (P_Status p) = UpgradePlanPhaseRollingControlPlane"
    | (wk) "PSt_Phase (P_Status p) = UpgradePlanPhaseRollingWorkers"
    using inv assms(3) by (auto simp: plan_inv_def Let_def)
  then have "advances lib stored p (if PSt_Phase (P_Status p) = [] \<or> PSt_Phase (P_Status p) = UpgradePlanPhasePending
      then beginPlan lib k p c else run_phase lib k p c) s"
  proof cases
    case new
    with conv show ?thesis by (auto simp: phase_converged_def intro: beginPlan_advances [OF acc])
  next
    case cp
    with controlPlane_advances [OF acc inv conv cp] inv show ?thesis
      by (auto simp: run_phase_def Let_def plan_inv_def current_version_def)
  next
    case wk
    with workers_advance [OF acc inv conv wk c] inv show ?thesis
      by (auto simp: run_phase_def Let_def plan_inv_def current_version_def)
  qed
  then have "advances lib stored p (reconcile_plan lib k p) s"
    using rdy assms(3) advances_bind [of "targetCluster k p" s "Some c", OF target]
    by (auto simp: reconcile_plan_def ready_def)
  moreover have "optionalG (''get HypervisorUpgradePlan '' @ show_key key) (K_GetPlan k key) s = (Inr (Some p), s)"
    using rdy by (simp add: ready_def run_optional)
  ultimately show ?thesis unfolding Reconcile_def by (intro advances_bind) auto
qed


end
