(* ===== verification/UpgradeTrace.thy ===== *)
theory UpgradeTrace
  imports UpgradePlan
begin

text \<open>
  The order of the calls of one run of the upgrade plan controller. A client is wrapped so that the
  state carries the list of the calls that matter for the order of an upgrade, with their answers:
  the lists and patches of deployments and the patches of the cluster. The wrapped run is the run
  itself, so what is shown of its trace holds for every client, whatever it answers: nothing is
  assumed of the API server, of its cache or of other clients.
\<close>

section \<open>The trace of a run\<close>

datatype upgrade_call =
    ListedDeployments string "(string \<times> string) list" "goerr + machine_deployment list"
  | PatchedDeployment machine_deployment machine_deployment "goerr + unit"
  | PatchedCluster cluster cluster

definition tracing :: "((goerr + 'a) \<Rightarrow> upgrade_call list) \<Rightarrow> ('s, 'a) go \<Rightarrow> ('s \<times> upgrade_call list, 'a) go" where
  "tracing f m = (\<lambda>w. case m (fst w) of (r, t) \<Rightarrow> (r, (t, snd w @ f r)))"

abbreviation untraced :: "('s, 'a) go \<Rightarrow> ('s \<times> upgrade_call list, 'a) go" where
  "untraced \<equiv> tracing (\<lambda>_. [])"

definition traced :: "'s kube \<Rightarrow> ('s \<times> upgrade_call list) kube" where
  "traced k = \<lparr>K_GetPlan = (\<lambda>key. untraced (K_GetPlan k key)), K_ListPlans = (\<lambda>n. untraced (K_ListPlans k n)),
     K_UpdatePlan = (\<lambda>p. untraced (K_UpdatePlan k p)), K_UpdatePlanStatus = (\<lambda>p. untraced (K_UpdatePlanStatus k p)),
     K_GetCluster = (\<lambda>key. untraced (K_GetCluster k key)),
     K_PatchCluster = (\<lambda>c d. tracing (\<lambda>_. [PatchedCluster c d]) (K_PatchCluster k c d)),
     K_GetHypervisorCluster = (\<lambda>key. untraced (K_GetHypervisorCluster k key)),
     K_GetControlPlane = (\<lambda>key. untraced (K_GetControlPlane k key)),
     K_ListMachines = (\<lambda>n l. untraced (K_ListMachines k n l)),
     K_ListMachineDeployments = (\<lambda>n l. tracing (\<lambda>r. [ListedDeployments n l r]) (K_ListMachineDeployments k n l)),
     K_PatchMachineDeployment = (\<lambda>d e. tracing (\<lambda>r. [PatchedDeployment d e r]) (K_PatchMachineDeployment k d e)),
     K_Event = (\<lambda>p a b m w. (K_Event k p a b m (fst w), snd w))\<rparr>"

section \<open>Tracing changes nothing\<close>

definition retraces :: "('s \<times> upgrade_call list, 'a) go \<Rightarrow> ('s, 'a) go \<Rightarrow> bool" where
  "retraces m' m \<longleftrightarrow> (\<forall>s l. m s = (fst (m' (s, l)), fst (snd (m' (s, l)))))"

named_theorems retrace_rules \<open>a traced computation and the computation itself\<close>

lemma retracesD: "retraces m' m \<Longrightarrow> m' (s, l) = (r, (t, l')) \<Longrightarrow> m s = (r, t)"
  unfolding retraces_def by (metis fst_conv snd_conv)

lemma retracesI: "(\<And>s l r t l'. m' (s, l) = (r, (t, l')) \<Longrightarrow> m s = (r, t)) \<Longrightarrow> retraces m' m"
  unfolding retraces_def by (metis surjective_pairing)

lemma retraces_tracing: "retraces (tracing f m) m"
  by (simp add: retraces_def tracing_def split: prod.split)

lemma retraces_catch:
  assumes "retraces m' m" and "\<And>x. retraces (h' x) (h x)"
  shows "retraces (catchG m' h') (catchG m h)"
proof (rule retracesI)
  fix s l r t l'
  assume run: "catchG m' h' (s, l) = (r, (t, l'))"
  obtain x u l1 where x: "m' (s, l) = (x, (u, l1))" by (metis surj_pair)
  with run have "h' x (u, l1) = (r, (t, l'))" by (simp add: catchG_def)
  from retracesD [OF assms(2) this] retracesD [OF assms(1) x] show "catchG m h s = (r, t)" by (simp add: catchG_def)
qed

lemma retraces_sum:
  "(\<And>e. retraces (f' e) (f e)) \<Longrightarrow> (\<And>x. retraces (g' x) (g x)) \<Longrightarrow>
   retraces (case z of Inl e \<Rightarrow> f' e | Inr x \<Rightarrow> g' x) (case z of Inl e \<Rightarrow> f e | Inr x \<Rightarrow> g x)"
  by (cases z) auto

lemma retraces_done [retrace_rules]: "retraces (returnG x) (returnG x)" "retraces (failG e) (failG e)"
  by (simp_all add: retraces_def)

lemma retraces_combine [retrace_rules]:
  "retraces m' m \<Longrightarrow> (\<And>x. retraces (k' x) (k x)) \<Longrightarrow> retraces (bindG m' k') (bindG m k)"
  "retraces m' m \<Longrightarrow> retraces (wrapG p m') (wrapG p m)"
  "retraces m' m \<Longrightarrow> retraces (optionalG p m') (optionalG p m)"
  unfolding bindG_def wrapG_def optionalG_def
  by (auto intro!: retraces_catch retraces_sum retraces_done)

lemma retraces_each [retrace_rules]: "(\<And>x. retraces (f' x) (f x)) \<Longrightarrow> retraces (eachG f' xs) (eachG f xs)"
  by (induction xs) (auto intro: retrace_rules)

lemma retraces_cases [retrace_rules]:
  "retraces m' m \<Longrightarrow> retraces n' n \<Longrightarrow> retraces (if b then m' else n') (if b then m else n)"
  "retraces m' m \<Longrightarrow> (\<And>x. retraces (f' x) (f x)) \<Longrightarrow>
     retraces (case z of None \<Rightarrow> m' | Some x \<Rightarrow> f' x) (case z of None \<Rightarrow> m | Some x \<Rightarrow> f x)"
  by (auto split: option.split)

lemma retraces_calls [retrace_rules]:
  "retraces (K_GetPlan (traced k) key) (K_GetPlan k key)" "retraces (K_UpdatePlan (traced k) p) (K_UpdatePlan k p)"
  "retraces (K_UpdatePlanStatus (traced k) p) (K_UpdatePlanStatus k p)" "retraces (K_GetCluster (traced k) key) (K_GetCluster k key)"
  "retraces (K_PatchCluster (traced k) c d) (K_PatchCluster k c d)"
  "retraces (K_GetHypervisorCluster (traced k) key) (K_GetHypervisorCluster k key)"
  "retraces (K_GetControlPlane (traced k) key) (K_GetControlPlane k key)"
  "retraces (K_ListMachines (traced k) n l) (K_ListMachines k n l)"
  "retraces (K_ListMachineDeployments (traced k) n l) (K_ListMachineDeployments k n l)"
  "retraces (K_PatchMachineDeployment (traced k) x y) (K_PatchMachineDeployment k x y)"
  "retraces (eventG (traced k) p a b m) (eventG k p a b m)"
  by (simp_all add: traced_def retraces_tracing) (simp add: retraces_def eventG_def)

lemma retraces_reads [retrace_rules]:
  "retraces (targetCluster (traced k) p) (targetCluster k p)" "retraces (controlPlane lib (traced k) c) (controlPlane lib k c)"
  "retraces (linkedHypervisorCluster lib (traced k) c) (linkedHypervisorCluster lib k c)"
  "retraces (controlPlaneMachines lib (traced k) c) (controlPlaneMachines lib k c)"
  "retraces (machineDeployments lib (traced k) c) (machineDeployments lib k c)"
  unfolding targetCluster_def controlPlane_def linkedHypervisorCluster_def controlPlaneMachines_def machineDeployments_def Let_def
  by (intro retrace_rules)+

lemma retraces_pause [retrace_rules]:
  "retraces (setMachineDeploymentsPaused lib (traced k) c b) (setMachineDeploymentsPaused lib k c b)"
  unfolding setMachineDeploymentsPaused_def pause_one_def by (intro retrace_rules)

lemma retraces_ends [retrace_rules]:
  "retraces (failPlan lib (traced k) p a b) (failPlan lib k p a b)" "retraces (completePlan lib (traced k) p) (completePlan lib k p)"
  unfolding failPlan_def completePlan_def Let_def by (intro retrace_rules)+

lemma retraces_handlers [retrace_rules]:
  "retraces (beginPlan lib (traced k) p c) (beginPlan lib k p c)"
  "retraces (reconcileControlPlaneStep lib (traced k) p c v) (reconcileControlPlaneStep lib k p c v)"
  "retraces (reconcileWorkersStep lib (traced k) p c v) (reconcileWorkersStep lib k p c v)"
  "retraces (reconcileDelete lib (traced k) p) (reconcileDelete lib k p)"
  unfolding beginPlan_def reconcileControlPlaneStep_def patchTopologyVersion_def reconcileWorkersStep_def reconcileDelete_def Let_def
  by (intro retrace_rules)+

lemma retraces_Reconcile: "retraces (Reconcile lib (traced k) key) (Reconcile lib k key)"
  unfolding Reconcile_def reconcile_plan_def run_phase_def Let_def by (intro retrace_rules)

section \<open>What the parts of a run add to the trace\<close>

definition same_trace :: "'s \<times> upgrade_call list \<Rightarrow> 's \<times> upgrade_call list \<Rightarrow> bool" where
  "same_trace w v \<longleftrightarrow> snd v = snd w"

definition no_cluster_patch :: "'s \<times> upgrade_call list \<Rightarrow> 's \<times> upgrade_call list \<Rightarrow> bool" where
  "no_cluster_patch w v \<longleftrightarrow> ((\<forall>c d. PatchedCluster c d \<notin> set (snd w)) \<longrightarrow> (\<forall>c d. PatchedCluster c d \<notin> set (snd v)))"

interpretation same: go_preorder same_trace
  by unfold_locales (auto simp: same_trace_def)

interpretation nop: go_preorder no_cluster_patch
  by unfold_locales (auto simp: no_cluster_patch_def)

lemma same_no_patch: "steps same_trace m \<Longrightarrow> steps no_cluster_patch m"
  by (simp add: steps_def same_trace_def no_cluster_patch_def)

lemma same_optional [intro!]: "steps same_trace m \<Longrightarrow> steps same_trace (optionalG p m)"
  unfolding optionalG_def by auto

lemma same_calls:
  "steps same_trace (K_GetPlan (traced k) key)" "steps same_trace (K_UpdatePlan (traced k) p)"
  "steps same_trace (K_UpdatePlanStatus (traced k) p)" "steps same_trace (K_GetCluster (traced k) key)"
  "steps same_trace (K_GetHypervisorCluster (traced k) key)" "steps same_trace (K_GetControlPlane (traced k) key)"
  "steps same_trace (K_ListMachines (traced k) n l)" "steps same_trace (eventG (traced k) p a b m)"
  by (simp_all add: steps_def same_trace_def traced_def tracing_def eventG_def split: prod.split)

lemma same_reads:
  "steps same_trace (targetCluster (traced k) p)" "steps same_trace (controlPlane lib (traced k) c)"
  "steps same_trace (linkedHypervisorCluster lib (traced k) c)" "steps same_trace (controlPlaneMachines lib (traced k) c)"
  "steps same_trace (failPlan lib (traced k) p a b)" "steps same_trace (beginPlan lib (traced k) p c)"
  unfolding targetCluster_def controlPlane_def linkedHypervisorCluster_def controlPlaneMachines_def failPlan_def beginPlan_def Let_def
  by (auto intro!: same_calls)

lemmas quiet_calls = same_calls [THEN same_no_patch] same_reads [THEN same_no_patch]

lemma deployments_no_patch:
  "steps no_cluster_patch (machineDeployments lib (traced k) c)"
  "steps no_cluster_patch (setMachineDeploymentsPaused lib (traced k) c b)"
proof -
  have calls: "steps no_cluster_patch (K_ListMachineDeployments (traced k) n l)"
    "steps no_cluster_patch (K_PatchMachineDeployment (traced k) x y)" for n l x y
    by (simp_all add: steps_def no_cluster_patch_def traced_def tracing_def split: prod.split)
  show "steps no_cluster_patch (machineDeployments lib (traced k) c)"
    "steps no_cluster_patch (setMachineDeploymentsPaused lib (traced k) c b)"
    unfolding setMachineDeploymentsPaused_def machineDeployments_def pause_one_def by (auto intro!: calls)
qed

lemma handlers_no_patch:
  "steps no_cluster_patch (completePlan lib (traced k) p)" "steps no_cluster_patch (reconcileWorkersStep lib (traced k) p c v)"
  "steps no_cluster_patch (reconcileDelete lib (traced k) p)"
proof -
  show complete: "steps no_cluster_patch (completePlan lib (traced k) p)" for p
    unfolding completePlan_def Let_def by (auto intro!: deployments_no_patch quiet_calls)
  show "steps no_cluster_patch (reconcileWorkersStep lib (traced k) p c v)"
    "steps no_cluster_patch (reconcileDelete lib (traced k) p)"
    unfolding reconcileWorkersStep_def reconcileDelete_def Let_def
    by (auto intro!: deployments_no_patch complete quiet_calls)
qed

section \<open>Workers wait for the control plane\<close>

lemma with_pause_paused: "is_paused lib (with_pause lib b md) = b"
  by (simp add: is_paused_def with_pause_def)

text \<open>The calls that pause the deployments of a cluster, when none of them fails.\<close>

definition pause_calls :: "kube_lib \<Rightarrow> machine_deployment list \<Rightarrow> upgrade_call list" where
  "pause_calls lib mds =
     map (\<lambda>md. PatchedDeployment md (with_pause lib True md) (Inr ())) (filter (\<lambda>md. \<not> is_paused lib md) mds)"

definition pausing :: "kube_lib \<Rightarrow> cluster \<Rightarrow> machine_deployment list \<Rightarrow> upgrade_call list" where
  "pausing lib c mds =
     ListedDeployments (M_Namespace (CL_Meta c)) [(Lib_ClusterNameLabel lib, M_Name (CL_Meta c))] (Inr mds) # pause_calls lib mds"

lemma pause_each_trace:
  "eachG (pause_one lib (traced k) True) mds w = (Inr (), v) \<Longrightarrow> snd v = snd w @ pause_calls lib mds"
proof (induction mds arbitrary: w)
  case (Cons md mds)
  from Cons.prems obtain u where one: "pause_one lib (traced k) True md w = (Inr (), u)"
    and rest: "eachG (pause_one lib (traced k) True) mds u = (Inr (), v)" by (auto simp: bindG_eq_Inr)
  from one have "snd u = snd w @ pause_calls lib [md]"
    by (auto simp: pause_one_def pause_calls_def traced_def tracing_def split: if_split_asm prod.split_asm)
  with Cons.IH [OF rest] show ?case by (simp add: pause_calls_def)
qed (simp add: pause_calls_def)

lemma pause_trace:
  assumes "setMachineDeploymentsPaused lib (traced k) c True w = (Inr (), v)"
  obtains mds where "snd v = snd w @ pausing lib c mds"
proof -
  from assms obtain mds u where l: "machineDeployments lib (traced k) c w = (Inr mds, u)"
    and each: "eachG (pause_one lib (traced k) True) mds u = (Inr (), v)"
    by (auto simp: setMachineDeploymentsPaused_def bindG_eq_Inr)
  from l have "snd u = snd w @ [ListedDeployments (M_Namespace (CL_Meta c)) [(Lib_ClusterNameLabel lib, M_Name (CL_Meta c))] (Inr mds)]"
    by (auto simp: machineDeployments_def traced_def tracing_def split: prod.split_asm)
  with pause_each_trace [OF each] have "snd v = snd w @ pausing lib c mds" by (simp add: pausing_def)
  then show thesis by (rule that)
qed

text \<open>A trace without a patch of a cluster, or one that pauses the workers and then patches it, once.\<close>

definition paused_before :: "kube_lib \<Rightarrow> upgrade_call list \<Rightarrow> bool" where
  "paused_before lib log \<longleftrightarrow> (\<forall>c d. PatchedCluster c d \<notin> set log) \<or>
     (\<exists>c mds v. log = pausing lib c mds @ [PatchedCluster c (c\<lparr>CL_TopologyVersion := v\<rparr>)])"

definition pauses :: "kube_lib \<Rightarrow> ('s \<times> upgrade_call list, 'a) go \<Rightarrow> bool" where
  "pauses lib m \<longleftrightarrow> (\<forall>s. paused_before lib (snd (snd (m (s, [])))))"

lemma pauses_quiet: "steps no_cluster_patch m \<Longrightarrow> pauses lib m"
  by (simp add: pauses_def paused_before_def steps_def no_cluster_patch_def)

lemma pauses_bind:
  assumes "steps same_trace m" and "\<And>x. pauses lib (k x)"
  shows "pauses lib (bindG m k)"
  unfolding pauses_def
proof
  fix s
  obtain r u l where m: "m (s, []) = (r, (u, l))" by (metis surj_pair)
  with stepsD [OF assms(1) m] have "l = []" by (simp add: same_trace_def)
  with m assms(2) show "paused_before lib (snd (snd (bindG m k (s, []))))"
    by (cases r) (auto simp: run_bind pauses_def paused_before_def)
qed

lemma pauses_cases:
  "(b \<Longrightarrow> pauses lib m) \<Longrightarrow> (\<not> b \<Longrightarrow> pauses lib n) \<Longrightarrow> pauses lib (if b then m else n)"
  "pauses lib m \<Longrightarrow> (\<And>x. pauses lib (f x)) \<Longrightarrow> pauses lib (case z of None \<Rightarrow> m | Some x \<Rightarrow> f x)"
  by (auto split: option.split)

lemma no_patch_pausing: "PatchedCluster x y \<notin> set (pausing lib c mds)"
  by (auto simp: pausing_def pause_calls_def)

lemma patchTopologyVersion_trace:
  assumes "snd w = pausing lib c mds"
  shows "paused_before lib (snd (snd (patchTopologyVersion lib (traced k) p c v w)))"
proof (cases "CL_TopologyClass c = []")
  case True
  have "snd (snd (failPlan lib (traced k) p a b w)) = snd w" for a b
    using same_reads(5) [of lib k p a b] unfolding steps_def same_trace_def by blast
  with True assms no_patch_pausing show ?thesis by (simp add: patchTopologyVersion_def paused_before_def)
next
  case False
  then have "snd (snd (patchTopologyVersion lib (traced k) p c v w)) = snd w @ [PatchedCluster c (c\<lparr>CL_TopologyVersion := v\<rparr>)]"
    by (auto simp: patchTopologyVersion_def run_bind run_wrap traced_def tracing_def eventG_def split: prod.split sum.split)
  with assms show ?thesis unfolding paused_before_def by metis
qed

lemma pauses_controlPlaneStep: "pauses lib (reconcileControlPlaneStep lib (traced k) p c v)"
  unfolding pauses_def
proof
  fix s
  obtain r w where run: "setMachineDeploymentsPaused lib (traced k) c True (s, []) = (r, w)" by (metis surj_pair)
  show "paused_before lib (snd (snd (reconcileControlPlaneStep lib (traced k) p c v (s, []))))"
  proof (cases r)
    case (Inl e)
    with run stepsD [OF deployments_no_patch(2) run] show ?thesis
      by (simp add: reconcileControlPlaneStep_def run_bind paused_before_def no_cluster_patch_def)
  next
    case (Inr x)
    with run obtain mds where w: "snd w = pausing lib c mds" using pause_trace [of lib k c "(s, [])" w] by auto
    define rest where "rest = (\<lambda>u::unit. if CL_TopologyVersion c \<noteq> v then patchTopologyVersion lib (traced k) p c v else
     bindG (controlPlane lib (traced k) c) (\<lambda>owned. case owned of
       None \<Rightarrow> returnG requeue
     | Some cp \<Rightarrow>
     bindG (controlPlaneMachines lib (traced k) c) (\<lambda>machines.
       if \<not> control_plane_converged cp machines v then returnG requeue
       else
         let p' = with_phase UpgradePlanPhaseRollingWorkers (markStepPhase p v UpgradePlanPhaseRollingWorkers) in
         bindG (wrapG ''advance HypervisorUpgradePlan to the workers phase'' (K_UpdatePlanStatus (traced k) p')) (\<lambda>_.
         bindG (eventG (traced k) p' ''Normal'' ''ControlPlaneUpgraded''
                 (''control plane of Cluster '' @ Quote (M_Name (CL_Meta c)) @ '' is running '' @ v)) (\<lambda>_.
         returnG requeue)))))"
    have "steps same_trace (rest ())" if "CL_TopologyVersion c = v"
      using that unfolding rest_def Let_def by (auto intro!: same_calls same_reads)
    then have "snd (snd (rest () w)) = snd w" if "CL_TopologyVersion c = v"
      using that unfolding steps_def same_trace_def by blast
    then have "paused_before lib (snd (snd (rest () w)))"
      using w patchTopologyVersion_trace [OF w] no_patch_pausing
      by (cases "CL_TopologyVersion c = v") (auto simp: paused_before_def rest_def)
    moreover have "reconcileControlPlaneStep lib (traced k) p c v (s, []) = rest () w"
      unfolding reconcileControlPlaneStep_def rest_def using run Inr by (simp add: run_bind)
    ultimately show ?thesis by simp
  qed
qed

lemma pauses_Reconcile: "pauses lib (Reconcile lib (traced k) key)"
proof -
  have "pauses lib (run_phase lib (traced k) p c)" for p c
    unfolding run_phase_def Let_def
    by (intro pauses_cases pauses_controlPlaneStep pauses_quiet [OF handlers_no_patch(1)]
        pauses_quiet [OF handlers_no_patch(2)] pauses_quiet [OF nop.steps_fail])
  then have "pauses lib (reconcile_plan lib (traced k) p)" for p
    unfolding reconcile_plan_def
    by (intro pauses_cases pauses_bind [OF same_reads(1)] pauses_quiet [OF handlers_no_patch(3)]
        pauses_quiet [OF quiet_calls(13)] pauses_quiet [OF quiet_calls(14)] pauses_quiet [OF nop.steps_return]
        pauses_quiet [OF nop.steps_bind [OF nop.steps_wrap [OF quiet_calls(2)] nop.steps_return]])
  then show ?thesis unfolding Reconcile_def
    by (intro pauses_bind [OF same_optional [OF same_calls(1)]] pauses_cases pauses_quiet [OF nop.steps_return])
qed

text \<open>
  C10: a run moves the control plane only after it has paused the workers it was told of. Whatever
  the client answers, if a run of the controller patches a cluster, then its calls before the patch are
  exactly these: it listed the deployments that carry the label of that cluster, the list succeeded, and
  it set the pause annotation on each listed deployment that did not have it, without an error. The patch
  changes the topology version only and is the last of these calls. Listing is what the client answers,
  possibly from a cache; a deployment the list does not show is not paused.
\<close>

theorem topology_patched_only_when_paused:
  assumes "Reconcile lib (traced k) key (s, []) = (r, (t, before @ PatchedCluster c d # after))"
  shows "Reconcile lib k key s = (r, t) \<and> after = [] \<and> d = c\<lparr>CL_TopologyVersion := CL_TopologyVersion d\<rparr> \<and>
    (\<exists>mds. before =
       ListedDeployments (M_Namespace (CL_Meta c)) [(Lib_ClusterNameLabel lib, M_Name (CL_Meta c))] (Inr mds) #
       map (\<lambda>md. PatchedDeployment md (with_pause lib True md) (Inr ())) (filter (\<lambda>md. \<not> is_paused lib md) mds))"
proof -
  have "Reconcile lib k key s = (r, t)"
    using retraces_Reconcile [of lib k key] assms by (blast dest: retracesD)
  moreover have "paused_before lib (before @ PatchedCluster c d # after)"
    using pauses_Reconcile [of lib k key] assms unfolding pauses_def by (metis snd_conv)
  then obtain c' mds v where log: "before @ PatchedCluster c d # after = pausing lib c' mds @ [PatchedCluster c' (c'\<lparr>CL_TopologyVersion := v\<rparr>)]"
    by (auto simp: paused_before_def)
  have "after = []"
  proof (rule ccontr)
    assume "after \<noteq> []"
    then have "butlast (before @ PatchedCluster c d # after) = before @ PatchedCluster c d # butlast after"
      by (simp add: butlast_append)
    then have "PatchedCluster c d \<in> set (pausing lib c' mds)" using log by (metis butlast_snoc in_set_conv_decomp)
    with no_patch_pausing show False by blast
  qed
  ultimately show ?thesis using log by (auto simp: pausing_def pause_calls_def)
qed

end
