(* ===== verification/UpgradeLab.thy ===== *)
theory UpgradeLab
  imports UpgradeLive UpgradeTrace
begin

text \<open>
  A small API server with optimistic locking, held in memory, and a cluster that converges at once.
  It satisfies what the theorems on the upgrade controller ask of their parameters, and shows them
  at work; it also shows a plan that takes the cluster back to an older version on its way.
\<close>

record lab =
  Lab_Plans :: plan_store
  Lab_Versions :: plan_versions
  Lab_Next :: nat
  Lab_Cluster :: cluster
  Lab_HC :: hypervisor_cluster
  Lab_CP :: hypervisor_control_plane
  Lab_Machines :: "machine list"
  Lab_MDs :: "machine_deployment list"

definition api_not_found :: goerr where
  "api_not_found = sentinel_err (ApiStatus ReasonNotFound)"

definition api_conflict :: goerr where
  "api_conflict = sentinel_err (ApiStatus ReasonConflict)"

definition lab_get :: "object_key \<Rightarrow> (lab, plan) go" where
  "lab_get key s = (case Lab_Plans s key of
     Some p \<Rightarrow> (if known Lab_Versions p s then Inr p else Inl api_not_found, s)
   | None \<Rightarrow> (Inl api_not_found, s))"

definition lab_write :: "(plan \<Rightarrow> plan \<Rightarrow> plan) \<Rightarrow> plan \<Rightarrow> (lab, unit) go" where
  "lab_write how p s = (let key = plan_key p; v = show_nat (Lab_Next s) in
     case Lab_Plans s key of None \<Rightarrow> (Inl api_not_found, s)
     | Some q \<Rightarrow>
         if version q = version p \<and> Lab_Versions s key (version q) = Some q \<and> Lab_Versions s key v = None then
           let q' = how p q; q'' = q'\<lparr>P_Meta := (P_Meta q')\<lparr>M_ResourceVersion := v\<rparr>\<rparr> in
           (Inr (), s\<lparr>Lab_Plans := (Lab_Plans s)(key := Some q''),
              Lab_Versions := (Lab_Versions s)(key := (Lab_Versions s key)(v := Some q'')), Lab_Next := Suc (Lab_Next s)\<rparr>)
         else (Inl api_conflict, s))"

definition lab_api :: "lab kube" where
  "lab_api = \<lparr>K_GetPlan = lab_get, K_ListPlans = (\<lambda>n. returnG []),
     K_UpdatePlan = lab_write (\<lambda>p q. p\<lparr>P_Status := P_Status q\<rparr>),
     K_UpdatePlanStatus = lab_write (\<lambda>p q. q\<lparr>P_Status := P_Status p\<rparr>),
     K_GetCluster = (\<lambda>key. readG Lab_Cluster), K_PatchCluster = (\<lambda>c d s. (Inr (), s\<lparr>Lab_Cluster := d\<rparr>)),
     K_GetHypervisorCluster = (\<lambda>key. readG Lab_HC), K_GetControlPlane = (\<lambda>key. readG Lab_CP),
     K_ListMachines = (\<lambda>n l. readG Lab_Machines), K_ListMachineDeployments = (\<lambda>n l. readG Lab_MDs),
     K_PatchMachineDeployment = (\<lambda>d e s. (Inr (), s\<lparr>Lab_MDs := map (\<lambda>x. if x = d then e else x) (Lab_MDs s)\<rparr>)),
     K_Event = (\<lambda>p a b m s. s)\<rparr>"

section \<open>The laws hold\<close>

lemma others_act_refl [simp]: "others_act new X X"
  by (simp add: others_act_def)

lemma remembers_refl [simp]: "remembers f s s"
  by (simp add: remembers_def)

lemma lab_reads: "others_only new Lab_Plans Lab_Versions (readG f)"
  by (simp add: others_only_def steps_def readG_def)

lemma lab_get_reads: "others_only new Lab_Plans Lab_Versions (lab_get key)"
  by (auto simp: others_only_def steps_def lab_get_def split: option.split)

lemma lab_patches:
  "others_only new Lab_Plans Lab_Versions (\<lambda>s. (Inr (), s\<lparr>Lab_Cluster := d\<rparr>))"
  "others_only new Lab_Plans Lab_Versions (\<lambda>s. (Inr (), s\<lparr>Lab_MDs := f s\<rparr>))"
  "others_only new Lab_Plans Lab_Versions (eventG lab_api p a b m)"
  by (simp_all add: others_only_def steps_def remembers_def eventG_def lab_api_def)

lemma lab_writes:
  assumes "\<And>q q'. P_Spec q' = P_Spec (how p q) \<Longrightarrow> P_Status q' = P_Status (how p q) \<Longrightarrow> ok p q (Some q')"
  shows "writes new Lab_Plans Lab_Versions ok p (lab_write how p)"
  unfolding writes_def
proof (rule stepsI, rule conjI)
  fix s r t
  assume run: "lab_write how p s = (r, t)"
  show "remembers Lab_Versions s t"
    using run by (auto simp: lab_write_def Let_def remembers_def split: option.split_asm if_split_asm)
  show "written new ok (Lab_Versions t) p (Lab_Plans s) (Lab_Plans t)"
  proof (cases "\<exists>q. Lab_Plans s (plan_key p) = Some q \<and> version q = version p \<and>
      Lab_Versions s (plan_key p) (version q) = Some q \<and> Lab_Versions s (plan_key p) (show_nat (Lab_Next s)) = None")
    case False
    with run have "t = s" by (auto simp: lab_write_def Let_def split: option.split_asm if_split_asm)
    then show ?thesis by (simp add: written_def)
  next
    case True
    then obtain q where q: "Lab_Plans s (plan_key p) = Some q" "version q = version p"
      "Lab_Versions s (plan_key p) (version q) = Some q" "Lab_Versions s (plan_key p) (show_nat (Lab_Next s)) = None" by blast
    let ?q = "(how p q)\<lparr>P_Meta := (P_Meta (how p q))\<lparr>M_ResourceVersion := show_nat (Lab_Next s)\<rparr>\<rparr>"
    have t: "Lab_Plans t = (Lab_Plans s)(plan_key p := Some ?q)" "Lab_Versions t (plan_key p) (version q) = Some q"
      using run q by (auto simp: lab_write_def Let_def)
    have "ok p q (Some ?q)" by (rule assms) simp_all
    then show ?thesis unfolding written_def using q t
      by (intro disjI2 exI [of _ "Lab_Plans s"] exI [of _ q] exI [of _ "Some ?q"]) simp
  qed
qed

lemma lab_plan_api: "plan_api new lab_api Lab_Plans Lab_Versions"
proof -
  have "known Lab_Versions p t" if "lab_get key s = (Inr p, t)" for s key p t
    using that by (auto simp: lab_get_def split: option.split_asm if_split_asm)
  moreover have "writes new Lab_Plans Lab_Versions status_written p (K_UpdatePlanStatus lab_api p)" for p
    by (auto simp: lab_api_def status_written_def intro!: lab_writes)
  moreover have "writes new Lab_Plans Lab_Versions object_written p (K_UpdatePlan lab_api p)" for p
    by (auto simp: lab_api_def object_written_def intro!: lab_writes)
  ultimately show ?thesis unfolding plan_api_def
    by (auto simp: lab_api_def lab_reads lab_get_reads lab_patches lab_patches(3) [unfolded lab_api_def])
qed

section \<open>A cluster that converges\<close>

definition lab_meta :: "string \<Rightarrow> object_meta" where
  "lab_meta n = (blank_meta n)\<lparr>M_Finalizers := [upgradePlanFinalizer]\<rparr>"

definition lab_ref :: "string \<Rightarrow> contract_ref" where
  "lab_ref kind = \<lparr>Ref_APIGroup = [], Ref_Kind = kind, Ref_Name = ''lab''\<rparr>"

definition lab_cluster :: "string \<Rightarrow> cluster" where
  "lab_cluster v = \<lparr>CL_Meta = blank_meta ''lab'', CL_TopologyVersion = v, CL_TopologyClass = ''lab'',
     CL_ControlPlaneRef = lab_ref ''HypervisorControlPlane'', CL_InfrastructureRef = lab_ref ''HypervisorCluster''\<rparr>"

definition lab_hc :: "string list \<Rightarrow> hypervisor_cluster" where
  "lab_hc vs = \<lparr>HC_Meta = blank_meta ''lab'',
     HC_Spec = \<lparr>HC_ClusterName = ''lab'',
       HC_Network = \<lparr>HC_CIDR = [], HC_Gateway = [], HC_DNSIP = [], HC_BridgeName = [], HC_NATTable = []\<rparr>,
       HC_Endpoint = \<lparr>Ep_Host = [], Ep_Port = 0\<rparr>, HC_Images = map (\<lambda>v. \<lparr>Im_Version = v, Im_Path = ''/img''\<rparr>) vs\<rparr>,
     HC_Status = \<lparr>HCS_Ready = True, HCS_Provisioned = None, HCS_Endpoint = \<lparr>Ep_Host = [], Ep_Port = 0\<rparr>,
       HCS_FailureReason = [], HCS_FailureMessage = [], HCS_Conditions = []\<rparr>\<rparr>"

definition lab_cp :: "string \<Rightarrow> hypervisor_control_plane" where
  "lab_cp v = \<lparr>CP_Meta = blank_meta ''lab'', CP_Spec = \<lparr>CP_Replicas = 1, CP_Version = v, CP_TemplateLabels = Map.empty,
       CP_TemplateAnnotations = Map.empty, CP_InfrastructureRef = blank_ref\<rparr>,
     CP_Status = \<lparr>CPS_Ready = True, CPS_Initialized = True, CPS_ControlPlaneInitialized = None, CPS_Selector = [],
       CPS_Version = None, CPS_Replicas = 1, CPS_UpdatedReplicas = 1, CPS_ReadyReplicas = 1, CPS_UnavailableReplicas = 0,
       CPS_FailureReason = [], CPS_FailureMessage = [], CPS_Replacement = None, CPS_Conditions = []\<rparr>\<rparr>"

definition lab_machine :: "string \<Rightarrow> machine" where
  "lab_machine v = \<lparr>MC_Meta = blank_meta ''m'', MC_Version = v, MC_ClusterName = ''lab'',
     MC_BootstrapRef = blank_ref, MC_InfrastructureRef = blank_ref\<rparr>"

definition lab_md :: "bool \<Rightarrow> string \<Rightarrow> machine_deployment" where
  "lab_md paused v = with_pause text_lib paused
     \<lparr>MD_Meta = blank_meta ''md'', MD_Version = v, MD_Replicas = Some 1, MD_UpToDateReplicas = Some 1, MD_ReadyReplicas = Some 1\<rparr>"

definition lab_with :: "string \<Rightarrow> plan \<Rightarrow> lab" where
  "lab_with v p = (let paused = (PSt_Phase (P_Status p) = UpgradePlanPhaseRollingControlPlane) in
     \<lparr>Lab_Plans = [plan_key p \<mapsto> p], Lab_Versions = (\<lambda>key. if key = plan_key p then [version p \<mapsto> p] else Map.empty),
      Lab_Next = 7, Lab_Cluster = lab_cluster v, Lab_HC = lab_hc [''v1'', ''v2''], Lab_CP = lab_cp v,
      Lab_Machines = [lab_machine v], Lab_MDs = [lab_md paused v]\<rparr>)"

definition lab_plan :: plan where
  "lab_plan = (sample_plan ''up'')\<lparr>P_Meta := lab_meta ''up''\<rparr>"

abbreviation lab_key :: object_key where
  "lab_key \<equiv> (''default'', ''up'')"

lemma lab_plan_simps [simp]:
  "plan_key lab_plan = lab_key" "P_Status lab_plan = P_Status (sample_plan ''up'')" "P_Spec lab_plan = P_Spec (sample_plan ''up'')"
  "P_Meta lab_plan = lab_meta ''up''"
  by (simp_all add: lab_plan_def plan_key_def lab_meta_def blank_meta_def)

lemma lab_plan_ok: "validateHypervisorUpgradePlan text_lib lab_plan = None" "PSt_Phase (P_Status lab_plan) = []"
  using sample_plan_ok [of "''up''"]
  by (simp_all add: validateHypervisorUpgradePlan_ok [OF semver_order_text_lib] sample_plan_def)

lemma lab_md_paused [simp]: "is_paused text_lib (lab_md b v) = b"
  by (simp add: lab_md_def with_pause_paused)

lemma lab_reads_simps [simp]:
  "machineDeployments lib lab_api c s = (Inr (Lab_MDs s), s)"
  "controlPlaneMachines lib lab_api c s = (Inr (Lab_Machines s), s)"
  "controlPlane text_lib lab_api (lab_cluster v) s = (Inr (Some (Lab_CP s)), s)"
  "linkedHypervisorCluster text_lib lab_api (lab_cluster v) s = (Inr (Some (Lab_HC s)), s)"
  by (simp_all add: machineDeployments_def controlPlaneMachines_def controlPlane_def linkedHypervisorCluster_def
      lab_api_def run_wrap run_optional readG_def lab_cluster_def lab_ref_def text_lib_def Let_def)

lemma lab_cluster_version [simp]: "CL_TopologyVersion (lab_cluster v) = v"
  by (simp add: lab_cluster_def)

lemma lab_with_simps [simp]:
  "Lab_Plans (lab_with v p) = [plan_key p \<mapsto> p]" "Lab_CP (lab_with v p) = lab_cp v" "Lab_Cluster (lab_with v p) = lab_cluster v"
  "Lab_Machines (lab_with v p) = [lab_machine v]"
  "Lab_MDs (lab_with v p) = [lab_md (PSt_Phase (P_Status p) = UpgradePlanPhaseRollingControlPlane) v]"
  by (simp_all add: lab_with_def Let_def)

lemma lab_phase_converged: "phase_converged text_lib lab_api p (lab_cluster (current_version p)) (lab_with (current_version p) p)"
proof -
  have "control_plane_converged (lab_cp v) [lab_machine v] v" for v
    by (simp add: control_plane_converged_def lab_cp_def lab_machine_def effective_replicas_def)
  moreover have "deployment_converged v (lab_md b v)" for b v
    by (simp add: deployment_converged_def lab_md_def with_pause_def)
  ultimately show ?thesis by (simp add: phase_converged_def)
qed

lemma lab_accepts:
  assumes "version p = ''1''"
  shows "accepts_status text_lib lab_api Lab_Plans p (lab_with v p)"
  unfolding accepts_status_def
proof (intro allI impI)
  fix p'
  assume "plan_step text_lib p p'"
  then have "plan_key p' = plan_key p" "version p' = version p" "P_Spec p' = P_Spec p"
    using plan_step_spec by (auto simp: plan_key_def)
  moreover have "show_nat 7 \<noteq> ''1''" by code_simp
  ultimately show "\<exists>t q. K_UpdatePlanStatus lab_api p' (lab_with v p) = (Inr (), t) \<and> same_record p' q \<and>
      (\<forall>a b m. Lab_Plans (K_Event lab_api p' a b m t) (plan_key p) = Some q)"
    using assms by (simp add: lab_api_def lab_write_def lab_with_def Let_def same_record_def)
qed

lemma lab_ready:
  assumes "P_Meta p = lab_meta ''up''"
  shows "ready text_lib lab_api Lab_Plans lab_key (lab_with (current_version p) p) p"
proof -
  have "version p = ''1''" "plan_key p = lab_key" using assms by (simp_all add: lab_meta_def blank_meta_def plan_key_def)
  moreover have "K_GetCluster lab_api key (lab_with v p) = (Inr (lab_cluster v), lab_with v p)" for key v
    by (simp add: lab_api_def readG_def lab_with_def Let_def)
  moreover have "K_GetPlan lab_api lab_key (lab_with v p) = (Inr p, lab_with v p)" if "plan_key p = lab_key" for v
    using that by (simp add: lab_api_def lab_get_def lab_with_def Let_def known_def)
  moreover have "M_DeletionTimestamp (lab_meta ''up'') = None"
    "Lib_ContainsFinalizer text_lib (M_Finalizers (lab_meta ''up'')) upgradePlanFinalizer"
    by (simp_all add: lab_meta_def blank_meta_def text_lib_def)
  ultimately show ?thesis
    using lab_phase_converged [of p] lab_accepts [of p "current_version p"] assms
    by (simp add: ready_def)
qed

section \<open>The theorems at work\<close>

theorem plan_controller_refines_witness:
  "(plan_life (admitted text_lib) text_lib)\<^sup>*\<^sup>* (Lab_Plans (lab_with ''v0'' lab_plan) lab_key)
     (Lab_Plans (reconcile_all text_lib lab_api [lab_key, lab_key] (lab_with ''v0'' lab_plan)) lab_key)"
  by (rule plan_controller_refines [OF lab_plan_api])

definition start_state :: lab where
  "start_state = lab_with (current_version lab_plan) lab_plan"

lemma lab_first_run: "\<exists>q. Lab_Plans (reconcile_all text_lib lab_api [lab_key] start_state) lab_key = Some q"
proof -
  have "plan_inv lab_plan" using lab_plan_ok plan_ok_resolved [OF semver_order_text_lib] by (simp add: plan_inv_def)
  then have "advances text_lib Lab_Plans lab_plan (Reconcile text_lib lab_api lab_key) start_state"
    unfolding start_state_def using lab_plan_ok(2) by (intro Reconcile_advances lab_ready) simp_all
  then show ?thesis by (auto simp: advances_def)
qed

lemma lab_plan_fresh: "admitted_fresh text_lib lab_plan"
  using lab_plan_ok by (simp add: admitted_fresh_def admitted_def sample_plan_def)

theorem plan_status_consistent_witness:
  "\<exists>q. Lab_Plans (reconcile_all text_lib lab_api [lab_key] start_state) lab_key = Some q \<and> plan_honest q"
proof -
  from lab_first_run obtain q where q: "Lab_Plans (reconcile_all text_lib lab_api [lab_key] start_state) lab_key = Some q" ..
  have "plan_honest q"
  proof (rule conjunct1 [OF plan_status_consistent [OF lab_plan_api semver_order_text_lib _ q]])
    show "admitted_fresh text_lib p" if "Lab_Plans start_state lab_key = Some p" for p
      using that lab_plan_fresh by (simp add: start_state_def)
  qed
  with q show ?thesis by blast
qed

theorem upgrade_terminates_witness:
  "\<exists>q. Lab_Plans (reconcile_all text_lib lab_api [lab_key] start_state) lab_key = Some q \<and>
     changing_runs text_lib lab_api (\<lambda>u. Lab_Plans u lab_key) [lab_key] start_state \<le> 5"
proof -
  have p: "Lab_Plans start_state lab_key = Some lab_plan" by (simp add: start_state_def)
  have "admitted text_lib lab_plan" using lab_plan_fresh by (simp add: admitted_fresh_def)
  with upgrade_terminates [of text_lib lab_key lab_api Lab_Plans Lab_Versions start_state lab_plan "[lab_key]",
      OF lab_plan_api semver_order_text_lib p]
  have "changing_runs text_lib lab_api (\<lambda>u. Lab_Plans u lab_key) [lab_key] start_state \<le> 2 * length (resolveUpgradeSteps lab_plan) + 1"
    by blast
  moreover have "2 * length (resolveUpgradeSteps lab_plan) + 1 = 5" by (simp add: resolveUpgradeSteps_def sample_plan_def)
  ultimately show ?thesis using lab_first_run by simp
qed

text \<open>The runs of a cluster that converges between them.\<close>

fun converging :: "nat \<Rightarrow> lab" where
  "converging 0 = start_state"
| "converging (Suc i) =
     (let q = the (Lab_Plans (snd (Reconcile text_lib lab_api lab_key (converging i))) lab_key)\<lparr>P_Meta := lab_meta ''up''\<rparr>
      in lab_with (current_version q) q)"

lemma converging_form: "\<exists>p. P_Meta p = lab_meta ''up'' \<and> plan_key p = lab_key \<and> converging i = lab_with (current_version p) p"
proof (cases i)
  case 0
  then show ?thesis by (auto simp: start_state_def intro!: exI [of _ lab_plan])
next
  case (Suc j)
  let ?q = "the (Lab_Plans (snd (Reconcile text_lib lab_api lab_key (converging j))) lab_key)\<lparr>P_Meta := lab_meta ''up''\<rparr>"
  have "P_Meta ?q = lab_meta ''up''" "plan_key ?q = lab_key" by (simp_all add: plan_key_def lab_meta_def blank_meta_def)
  then show ?thesis by (intro exI [of _ ?q]) (simp add: Suc Let_def)
qed


section \<open>A plan that goes back\<close>

definition back_plan :: plan where
  "back_plan = lab_plan\<lparr>P_Spec := \<lparr>PS_ClusterName = ''lab'', PS_ToVersion = ''v3'', PS_Steps = [''v1'', ''v3'']\<rparr>\<rparr>"

text \<open>A server that holds this plan and its cluster, whose control plane runs version 2.\<close>

definition back_api :: "(plan \<times> cluster) kube" where
  "back_api = \<lparr>K_GetPlan = (\<lambda>key. readG fst), K_ListPlans = (\<lambda>n. returnG []),
     K_UpdatePlan = (\<lambda>p s. (Inr (), (p, snd s))), K_UpdatePlanStatus = (\<lambda>p s. (Inr (), (p, snd s))),
     K_GetCluster = (\<lambda>key. readG snd), K_PatchCluster = (\<lambda>c d s. (Inr (), (fst s, d))),
     K_GetHypervisorCluster = (\<lambda>key. returnG (lab_hc [''v1'', ''v2'', ''v3''])),
     K_GetControlPlane = (\<lambda>key. returnG (lab_cp ''v2'')),
     K_ListMachines = (\<lambda>n l. returnG []), K_ListMachineDeployments = (\<lambda>n l. returnG []),
     K_PatchMachineDeployment = (\<lambda>d e s. (Inr (), s)), K_Event = (\<lambda>p a b m s. s)\<rparr>"

lemma back_plan_ok: "validateHypervisorUpgradePlan text_lib back_plan = None"
proof -
  have "plan_ok text_lib (P_Spec back_plan)" by (simp add: back_plan_def plan_ok_def text_lib_def HasPrefix_def)
  then show ?thesis by (simp only: validateHypervisorUpgradePlan_ok [OF semver_order_text_lib])
qed

text \<open>The second run of this plan on a cluster with a deployment that is not paused: a list, a patch of it, the patch of the cluster.\<close>

definition worker_api :: "(plan \<times> cluster) kube" where
  "worker_api = back_api\<lparr>K_ListMachineDeployments := (\<lambda>n l. returnG [lab_md False ''v2''])\<rparr>"

definition begun_state :: "plan \<times> cluster" where
  "begun_state = reconcile_all text_lib worker_api [lab_key] (back_plan, lab_cluster ''v2'')"

fun call_number :: "upgrade_call \<Rightarrow> nat" where
  "call_number (ListedDeployments n l r) = 0"
| "call_number (PatchedDeployment d e r) = 1"
| "call_number (PatchedCluster c d) = 2"

theorem topology_patched_only_when_paused_witness:
  "\<exists>r t c d mds. Reconcile text_lib (traced worker_api) lab_key (begun_state, []) =
     (r, (t, ListedDeployments (M_Namespace (CL_Meta c)) [(Lib_ClusterNameLabel text_lib, M_Name (CL_Meta c))] (Inr mds) #
       map (\<lambda>md. PatchedDeployment md (with_pause text_lib True md) (Inr ())) (filter (\<lambda>md. \<not> is_paused text_lib md) mds) @
       [PatchedCluster c d]))"
proof -
  obtain r t log where run: "Reconcile text_lib (traced worker_api) lab_key (begun_state, []) = (r, (t, log))" by (metis surj_pair)
  have "map call_number (snd (snd (Reconcile text_lib (traced worker_api) lab_key (begun_state, [])))) = [0, 1, 2]" by code_simp
  then have "2 \<in> set (map call_number log)" by (simp add: run)
  then obtain x where x: "x \<in> set log" "call_number x = 2" by auto
  obtain c d where "x = PatchedCluster c d" using x(2) by (cases x rule: upgrade_call.exhaust) simp_all
  with x(1) obtain before after where log: "log = before @ PatchedCluster c d # after" by (metis split_list)
  from topology_patched_only_when_paused [OF run [unfolded log]] run log show ?thesis by auto
qed

text \<open>
  C40: the preflight looks at the target only. There is a plan the webhook admits, whose target is
  newer than the version the cluster runs but whose first step is older, and two runs of the
  controller begin it and set the topology of the cluster to the older version.
\<close>

theorem plan_may_downgrade:
  "\<exists>p. validateHypervisorUpgradePlan text_lib p = None \<and> currentClusterVersion (lab_cluster ''v2'') (lab_cp ''v2'') = ''v2'' \<and>
     CL_TopologyVersion (snd (reconcile_all text_lib back_api [lab_key, lab_key] (p, lab_cluster ''v2''))) = ''v1'' \<and>
     precedes text_lib ''v1'' ''v2''"
proof -
  have "CL_TopologyVersion (snd (reconcile_all text_lib back_api [lab_key, lab_key] (back_plan, lab_cluster ''v2''))) = ''v1''"
    "currentClusterVersion (lab_cluster ''v2'') (lab_cp ''v2'') = ''v2''" "precedes text_lib ''v1'' ''v2''"
    by code_simp+
  with back_plan_ok show ?thesis by blast
qed

end
