(* ===== verification/ProviderConfig.thy ===== *)
theory ProviderConfig
  imports NetIP GoPath
begin

text \<open>
  The configuration of the provider (\<open>internal/config/config.go\<close>), read from the
  environment. \<open>Config_Load\<close> is given the lookup it calls and the process environment from
  which the default state directory comes.
\<close>

record provider_config =
  Conf_BaseImage :: string
  Conf_Firmware :: string
  Conf_FirmwareSHA256 :: string
  Conf_VMDiskDir :: string
  Conf_SocketDir :: string
  Conf_StateDir :: string
  Conf_CHBinary :: string
  Conf_QemuImg :: string
  Conf_K8NetdSocket :: string
  Conf_NetworkCIDR :: string
  Conf_SSHPublicKeyFile :: string

definition valueOrDefault :: "string \<Rightarrow> string \<Rightarrow> string" where
  "valueOrDefault v fallback = (if v = [] then fallback else v)"

definition defaultStateDir :: "(string \<Rightarrow> string) \<Rightarrow> string" where
  "defaultStateDir getenv =
     (if getenv ''HOME'' \<noteq> [] then Join (Join (Join (getenv ''HOME'') ''.local'') ''state'') ''k8slab''
      else if getenv ''XDG_STATE_HOME'' \<noteq> [] then Join (getenv ''XDG_STATE_HOME'') ''k8slab''
      else ''/tmp/k8slab-state'')"

text \<open>What the parser says of a bad prefix is left out of the error.\<close>

definition validateNetworkCIDR :: "string \<Rightarrow> goerr option" where
  "validateNetworkCIDR cidr = (case ParsePrefix cidr of
     None \<Rightarrow> Some (plain_err (''invalid network CIDR '' @ Quote cidr))
   | Some (a, _) \<Rightarrow>
       if Is4 a then None else Some (plain_err (''invalid network CIDR '' @ Quote cidr @ '': not an IPv4 network'')))"

definition Config_Load :: "(string \<Rightarrow> string) option \<Rightarrow> (string \<Rightarrow> string) \<Rightarrow> goerr + provider_config" where
  "Config_Load lookup getenv =
     (let env = (case lookup of None \<Rightarrow> (\<lambda>_. []) | Some f \<Rightarrow> f);
          cfg = \<lparr>
            Conf_BaseImage = valueOrDefault (env ''HYPERVISOR_BASE_IMAGE'') ''build/k8labs-base.qcow2'',
            Conf_Firmware = valueOrDefault (env ''HYPERVISOR_FIRMWARE'') ''build/CLOUDHV.fd'',
            Conf_FirmwareSHA256 = env ''HYPERVISOR_FIRMWARE_SHA256'',
            Conf_VMDiskDir = valueOrDefault (env ''HYPERVISOR_VM_DISKS_DIR'') ''build/vm-disks'',
            Conf_SocketDir = valueOrDefault (env ''HYPERVISOR_SOCKET_DIR'') ''/tmp/ch-capi'',
            Conf_StateDir = valueOrDefault (env ''HYPERVISOR_STATE_DIR'') (defaultStateDir getenv),
            Conf_CHBinary = valueOrDefault (env ''HYPERVISOR_CH_BINARY'') ''cloud-hypervisor'',
            Conf_QemuImg = valueOrDefault (env ''HYPERVISOR_QEMU_IMG'') ''qemu-img'',
            Conf_K8NetdSocket = valueOrDefault (env ''HYPERVISOR_K8NETD_SOCKET'') ''/run/user/1000/k8snet/control.sock'',
            Conf_NetworkCIDR = valueOrDefault (env ''HYPERVISOR_NETWORK_CIDR'') ''192.168.124.0/24'',
            Conf_SSHPublicKeyFile = env ''HYPERVISOR_SSH_PUBLIC_KEY_FILE''\<rparr>
      in case validateNetworkCIDR (Conf_NetworkCIDR cfg) of Some e \<Rightarrow> Inl e | None \<Rightarrow> Inr cfg)"

text \<open>
  A loaded configuration has an IPv4 network and names an image, the directories of disks and
  sockets and the hypervisor; the defaults load.
\<close>

lemma Config_Load_network:
  assumes "Config_Load lookup getenv = Inr cfg"
  shows "\<exists>a n. ParsePrefix (Conf_NetworkCIDR cfg) = Some (a, n) \<and> Is4 a"
    and "Conf_BaseImage cfg \<noteq> []" "Conf_VMDiskDir cfg \<noteq> []" "Conf_SocketDir cfg \<noteq> []" "Conf_CHBinary cfg \<noteq> []"
proof -
  from assms have valid: "validateNetworkCIDR (Conf_NetworkCIDR cfg) = None"
    by (auto simp: Config_Load_def Let_def split: option.splits)
  then show "\<exists>a n. ParsePrefix (Conf_NetworkCIDR cfg) = Some (a, n) \<and> Is4 a"
    by (auto simp: validateNetworkCIDR_def split: option.splits if_splits)
  have ne: "valueOrDefault v d \<noteq> []" if "d \<noteq> []" for v d using that by (simp add: valueOrDefault_def)
  from assms show "Conf_BaseImage cfg \<noteq> []" "Conf_VMDiskDir cfg \<noteq> []" "Conf_SocketDir cfg \<noteq> []" "Conf_CHBinary cfg \<noteq> []"
    by (auto simp: Config_Load_def Let_def ne split: option.split_asm)
qed

lemma Config_Load_default: "\<exists>cfg. Config_Load None getenv = Inr cfg"
proof -
  have "validateNetworkCIDR ''192.168.124.0/24'' = None" by code_simp
  then show ?thesis by (simp add: Config_Load_def Let_def valueOrDefault_def)
qed

end
