(* ===== verification/BootTrees.thy ===== *)
theory BootTrees
  imports TreeBlob Host
begin

text \<open>
  The files a machine boots with: the confext trees (\<open>internal/confexttree\<close>) and the three
  cloud-init parts (\<open>internal/cloudinit\<close>), as text. A tree is the list of its entries in the
  order of the Go map literal; a repeated key replaces the earlier value.
\<close>

definition sq :: string where "sq = [CHR 0x27]"
definition dq :: string where "dq = [CHR 0x22]"
definition bsl :: string where "bsl = [CHR 0x5C]"

text \<open>The lines of a text, each with its line end.\<close>

definition unlines :: "string list \<Rightarrow> string" where
  "unlines ls = concat (map (\<lambda>l. l @ [CHR 0x0A]) ls)"

text \<open>\<open>strings.NewReplacer\<close>: at every position the first pair whose old text is there.\<close>

definition first_match :: "(string \<times> string) list \<Rightarrow> string \<Rightarrow> (string \<times> string) option" where
  "first_match pairs s = find (\<lambda>(old, new). old \<noteq> [] \<and> HasPrefix s old) pairs"

function Replace :: "(string \<times> string) list \<Rightarrow> string \<Rightarrow> string" where
  "Replace pairs [] = []"
| "Replace pairs (c # s) = (case first_match pairs (c # s) of
     None \<Rightarrow> c # Replace pairs s
   | Some (old, new) \<Rightarrow> new @ Replace pairs (drop (length old) (c # s)))"
  by pat_completeness auto
termination
  by (relation "measure (\<lambda>(pairs, s). length s)") (auto simp: first_match_def find_Some_iff)

definition map_literal :: "(string \<times> byte list) list \<Rightarrow> tree" where
  "map_literal es = foldl (\<lambda>acc (k, v). AList.update k v acc) [] es"

text \<open>\<open>maps.Copy(dst, src)\<close>.\<close>

definition maps_Copy :: "tree \<Rightarrow> tree \<Rightarrow> tree" where
  "maps_Copy dst src = foldl (\<lambda>acc (k, v). AList.update k v acc) dst src"

section \<open>The PKI of a cluster\<close>

record cluster_pki =
  PK_CA :: "byte list"
  PK_CAKey :: "byte list"
  PK_FrontProxyCA :: "byte list"
  PK_FrontProxyCAKey :: "byte list"
  PK_APIServer :: "byte list"
  PK_APIServerKey :: "byte list"
  PK_FrontProxy :: "byte list"
  PK_FrontProxyKey :: "byte list"
  PK_ServiceAccount :: "byte list"
  PK_ServiceAccountKey :: "byte list"

section \<open>Confext trees (confexttree.go)\<close>

definition etcdConfTemplate :: string where
  "etcdConfTemplate = unlines [
     ''name: '' @ sq @ ''{{NODE_NAME}}'' @ sq,
     ''data-dir: '' @ sq @ ''/var/lib/etcd'' @ sq,
     ''listen-peer-urls: '' @ sq @ ''http://{{CP_IP}}:2380'' @ sq,
     ''listen-client-urls: '' @ sq @ ''http://{{CP_IP}}:2379,http://127.0.0.1:2379'' @ sq,
     ''advertise-client-urls: '' @ sq @ ''http://{{CP_IP}}:2379'' @ sq,
     ''initial-advertise-peer-urls: '' @ sq @ ''http://{{CP_IP}}:2380'' @ sq,
     ''initial-cluster: '' @ sq @ ''{{NODE_NAME}}=http://{{CP_IP}}:2380'' @ sq,
     ''initial-cluster-token: '' @ sq @ ''etcd-cluster'' @ sq,
     ''initial-cluster-state: '' @ sq @ ''new'' @ sq,
     ''# TLS disabled for lab (single-node, isolated network)'',
     ''#cert-file: '' @ sq @ ''/etc/kubernetes/pki/etcd.pem'' @ sq,
     ''#key-file: '' @ sq @ ''/etc/kubernetes/pki/etcd-key.pem'' @ sq,
     ''client-cert-auth: false'',
     ''#trusted-ca-file: '' @ sq @ ''/etc/kubernetes/pki/ca.pem'' @ sq,
     ''peer-client-cert-auth: false'']"

definition cpEnvTemplate :: string where
  "cpEnvTemplate = unlines [
     ''KUBE_ADVERTISE_ADDRESS={{CP_IP}}'',
     ''KUBE_ETCD_SERVERS=http://{{CP_IP}}:2379'']"

definition extensionRelease :: "string \<Rightarrow> byte list" where
  "extensionRelease treeName = string_bytes (unlines [''ID=fedora'', ''VERSION_ID=44'', ''KERNEL_VERSION=7.1'', ''EXTENSION='' @ treeName])"

definition renderCPEnv :: "string \<Rightarrow> byte list" where
  "renderCPEnv cpIP = string_bytes (Replace [(''{{CP_IP}}'', cpIP)] cpEnvTemplate)"

definition renderEtcdConf :: "string \<Rightarrow> string \<Rightarrow> byte list" where
  "renderEtcdConf cpIP nodeName =
     string_bytes (Replace [(''{{CP_IP}}'', cpIP), (''{{NODE_NAME}}'', nodeName)] etcdConfTemplate)"

definition renderProviderIDEnv :: "string \<Rightarrow> string \<Rightarrow> byte list" where
  "renderProviderIDEnv clusterName nodeName =
     string_bytes (unlines [''PROVIDER_ID=hypervisor://'' @ clusterName @ ''/'' @ nodeName])"

definition k8sServiceNftPath :: string where
  "k8sServiceNftPath = ''etc/k8s-service-nft.sh''"

definition renderServiceNftScript :: "string \<Rightarrow> byte list" where
  "renderServiceNftScript target = string_bytes (unlines [
     ''#!/bin/sh'',
     ''# Install the kubernetes Service-IP DNAT for the apiserver: route'',
     ''# 10.96.0.1:443 to the workload apiserver at '' @ target @ ''. Runs from k8slab-stack'',
     ''# before the Kubernetes services start. Narrow: only the apiserver endpoint,'',
     ''# so Cilium'' @ sq @ ''s BPF Service load-balancer handles every other Service IP.'',
     ''set -e'',
     ''nft add table ip k8sfix 2>/dev/null || true'',
     ''nft add chain ip k8sfix output '' @ dq @ ''{ type nat hook output priority 0; }'' @ dq @ '' 2>/dev/null || true'',
     ''nft add rule ip k8sfix output ip daddr 10.96.0.1 tcp dport 443 dnat to '' @ target @ '' 2>/dev/null || true''])"

definition kubeletTree ::
  "string \<Rightarrow> string \<Rightarrow> cluster_pki \<Rightarrow> byte list \<Rightarrow> byte list \<Rightarrow> byte list \<Rightarrow> tree" where
  "kubeletTree clusterName nodeName pk kubeletCert kubeletKey kubeletKubeconfig =
     (let treeName = ''z-kubelet-'' @ nodeName in
      map_literal [
        (treeName @ ''/etc/kubernetes/kubelet.conf'', kubeletKubeconfig),
        (treeName @ ''/etc/kubernetes/pki/ca.pem'', PK_CA pk),
        (treeName @ ''/etc/kubernetes/pki/'' @ nodeName @ ''.pem'', kubeletCert),
        (treeName @ ''/etc/kubernetes/pki/'' @ nodeName @ ''-key.pem'', kubeletKey),
        (treeName @ ''/etc/kubernetes/provider-id.env'', renderProviderIDEnv clusterName nodeName),
        (treeName @ ''/etc/extension-release.d/extension-release.'' @ treeName, extensionRelease treeName)])"

definition BuildControlPlane ::
  "string \<Rightarrow> string \<Rightarrow> string \<Rightarrow> cluster_pki \<Rightarrow> byte list \<Rightarrow> byte list \<Rightarrow> byte list \<Rightarrow> byte list \<Rightarrow> byte list \<Rightarrow> byte list \<Rightarrow>
   byte list \<Rightarrow> goerr + tree" where
  "BuildControlPlane clusterName cpIP nodeName pk kubeletCert kubeletKey kubeletKubeconfig adminKubeconfig
     controllerManagerKubeconfig schedulerKubeconfig encryptionConfig =
     (if cpIP = [] then Inl (plain_err ''control-plane IP must not be empty'')
      else if nodeName = [] then Inl (plain_err ''node name must not be empty'')
      else Inr (maps_Copy (map_literal [
        (''z-etcd/etc/etcd/etcd.conf.yml'', renderEtcdConf cpIP nodeName),
        (''z-etcd/etc/extension-release.d/extension-release.z-etcd'', extensionRelease ''z-etcd''),
        (''z-kubernetes-cp/etc/kubernetes/cp.env'', renderCPEnv cpIP),
        (''z-kubernetes-cp/etc/kubernetes/pki/ca.pem'', PK_CA pk),
        (''z-kubernetes-cp/etc/kubernetes/pki/ca-key.pem'', PK_CAKey pk),
        (''z-kubernetes-cp/etc/kubernetes/pki/kubernetes.pem'', PK_APIServer pk),
        (''z-kubernetes-cp/etc/kubernetes/pki/kubernetes-key.pem'', PK_APIServerKey pk),
        (''z-kubernetes-cp/etc/kubernetes/pki/front-proxy-ca.pem'', PK_FrontProxyCA pk),
        (''z-kubernetes-cp/etc/kubernetes/pki/front-proxy-client.pem'', PK_FrontProxy pk),
        (''z-kubernetes-cp/etc/kubernetes/pki/front-proxy-client-key.pem'', PK_FrontProxyKey pk),
        (''z-kubernetes-cp/etc/kubernetes/pki/service-account.pem'', PK_ServiceAccount pk),
        (''z-kubernetes-cp/etc/kubernetes/pki/service-account-key.pem'', PK_ServiceAccountKey pk),
        (''z-kubernetes-cp/etc/kubernetes/admin.kubeconfig'', adminKubeconfig),
        (''z-kubernetes-cp/etc/kubernetes/controller-manager.kubeconfig'', controllerManagerKubeconfig),
        (''z-kubernetes-cp/etc/kubernetes/scheduler.kubeconfig'', schedulerKubeconfig),
        (''z-kubernetes-cp/etc/kubernetes/encryption-config.yaml'', encryptionConfig),
        (''z-kubernetes-cp/etc/extension-release.d/extension-release.z-kubernetes-cp'', extensionRelease ''z-kubernetes-cp''),
        (''z-kubernetes-cp/'' @ k8sServiceNftPath, renderServiceNftScript ''127.0.0.1:6443'')])
       (kubeletTree clusterName nodeName pk kubeletCert kubeletKey kubeletKubeconfig)))"

definition BuildWorker ::
  "string \<Rightarrow> string \<Rightarrow> string \<Rightarrow> cluster_pki \<Rightarrow> byte list \<Rightarrow> byte list \<Rightarrow> byte list \<Rightarrow> goerr + tree" where
  "BuildWorker clusterName cpIP nodeName pk kubeletCert kubeletKey kubeletKubeconfig =
     (if nodeName = [] then Inl (plain_err ''node name must not be empty'')
      else if cpIP = [] then Inl (plain_err ''control-plane IP must not be empty'')
      else if clusterName = [] then Inl (plain_err ''cluster name must not be empty'')
      else Inr (AList.update (''z-kubelet-'' @ nodeName @ ''/'' @ k8sServiceNftPath) (renderServiceNftScript (cpIP @ '':6443''))
             (kubeletTree clusterName nodeName pk kubeletCert kubeletKey kubeletKubeconfig)))"

section \<open>Restoring etcd (etcdrestore.go)\<close>

definition etcdRestoreTreeName :: string where
  "etcdRestoreTreeName = ''z-etcd-restore''"

definition etcdRestoreScriptPath :: string where
  "etcdRestoreScriptPath = ''etc/k8slab/etcd-restore.sh''"

definition etcdRestoreSnapshotPath :: string where
  "etcdRestoreSnapshotPath = ''etc/k8slab/etcd-restore/snapshot.db''"

definition etcdRestoreDropInPath :: string where
  "etcdRestoreDropInPath = ''etc/systemd/system/etcd.service.d/10-restore.conf''"

definition etcdRestoreScriptTemplate :: string where
  "etcdRestoreScriptTemplate = unlines [
     ''#!/bin/sh'',
     ''# Restore the etcd snapshot captured before this control-plane Machine was'',
     ''# replaced. Runs from the etcd.service ExecStartPre drop-in: exit 0 without'',
     ''# a staged snapshot, and refuse to touch a populated /var/lib/etcd.'',
     ''set -e'',
     ''SNAP=/etc/k8slab/etcd-restore/snapshot.db'',
     ''DATA_DIR=/var/lib/etcd'',
     ''[ -f '' @ dq @ ''$SNAP'' @ dq @ '' ] || exit 0'',
     ''if [ -d '' @ dq @ ''$DATA_DIR'' @ dq @ '' ]; then'',
     ''    rmdir '' @ dq @ ''$DATA_DIR'' @ dq @ '' 2>/dev/null || exit 0'',
     ''fi'',
     ''etcdctl snapshot restore --data-dir '' @ dq @ ''$DATA_DIR'' @ dq @ '' '' @ dq @ ''$SNAP'' @ dq]"

definition etcdRestoreDropIn :: string where
  "etcdRestoreDropIn = unlines [
     ''[Service]'',
     ''ExecStartPre=/etc/k8slab/etcd-restore.sh'']"

definition BuildEtcdRestore :: "byte list \<Rightarrow> goerr + tree" where
  "BuildEtcdRestore snapshot =
     (if snapshot = [] then Inl (plain_err ''etcd restore snapshot must not be empty'')
      else Inr (map_literal [
        (etcdRestoreTreeName @ ''/'' @ etcdRestoreSnapshotPath, snapshot),
        (etcdRestoreTreeName @ ''/'' @ etcdRestoreScriptPath, string_bytes etcdRestoreScriptTemplate),
        (etcdRestoreTreeName @ ''/'' @ etcdRestoreDropInPath, string_bytes etcdRestoreDropIn),
        (etcdRestoreTreeName @ ''/etc/extension-release.d/extension-release.'' @ etcdRestoreTreeName,
         extensionRelease etcdRestoreTreeName)]))"

section \<open>Cloud-init (cloudinit.go)\<close>

record cloudinit_data =
  D_InstanceID :: string
  D_Hostname :: string
  D_SSHPublicKey :: string

definition user_data :: "cloudinit_data \<Rightarrow> string" where
  "user_data d = unlines [
     ''#cloud-config'',
     ''users:'',
     ''  - default'',
     ''  - name: root'',
     ''    ssh_authorized_keys:'',
     ''      - '' @ D_SSHPublicKey d,
     ''ssh_pwauth: false'',
     ''disable_root: false'',
     [],
     ''# Grow the root partition/LVM to the disk once on first boot, then'',
     ''# activate the confext images carried on the confext data disks.'',
     ''# The loop walks every virtio block device: the root disk /dev/vda and'',
     ''# its partitions (/dev/vda1, /dev/vda2, ...) are skipped by a /dev/vda*'',
     ''# prefix guard, the CIDATA disk is skipped by label, and a disk whose'',
     ''# tree carries no extension-release metadata is skipped (the glob would'',
     ''# otherwise degrade the name to '' @ dq @ ''*'' @ dq @ '' and copy the whole disk to a literal'',
     ''# *.raw file). Each remaining disk is a squashfs of one confext tree, so'',
     ''# the confext name comes from the tree'' @ sq @ ''s extension-release metadata and'',
     ''# the image lands in /var/lib/confexts/ under that name (the image-file'',
     ''# model).'',
     ''runcmd:'',
     ''  - [ /usr/local/sbin/resize-rootfs.sh ]'',
     ''  - [ bash, -c, '' @ dq @ ''for d in /dev/vd*; do case '' @ bsl @ dq @ ''$d'' @ bsl @ dq @ '' in /dev/vda*) continue;; esac; [ '' @ bsl @ dq @ ''$(blkid -s LABEL -o value '' @ bsl @ dq @ ''$d'' @ bsl @ dq @ '')'' @ bsl @ dq @ '' = CIDATA ] && continue; mkdir -p /mnt/confexts; mount '' @ bsl @ dq @ ''$d'' @ bsl @ dq @ '' /mnt/confexts; name=$(basename /mnt/confexts/etc/extension-release.d/extension-release.*); name=${name#extension-release.}; [ '' @ bsl @ dq @ ''$name'' @ bsl @ dq @ '' = '' @ bsl @ dq @ ''*'' @ bsl @ dq @ '' ] && { umount /mnt/confexts; continue; }; cp '' @ bsl @ dq @ ''$d'' @ bsl @ dq @ '' /var/lib/confexts/'' @ bsl @ dq @ ''$name'' @ bsl @ dq @ ''.raw; umount /mnt/confexts; done; systemd-confext refresh'' @ dq @ '' ]'']"

definition meta_data :: "cloudinit_data \<Rightarrow> string" where
  "meta_data d = unlines [''instance-id: '' @ D_InstanceID d, ''local-hostname: '' @ D_Hostname d]"

definition network_config :: string where
  "network_config = unlines [''version: 2'', ''ethernets:'', ''  id0:'', ''    match:'', ''      driver: virtio_net'',
     ''    dhcp4: true'']"

definition empty_field :: "string \<Rightarrow> goerr" where
  "empty_field name = plain_err (''cloudinit: '' @ name @ '' must not be empty'')"

definition Render_cloudinit :: "cloudinit_data \<Rightarrow> goerr + tree" where
  "Render_cloudinit d =
     (if D_InstanceID d = [] then Inl (empty_field ''instance id'')
      else if D_Hostname d = [] then Inl (empty_field ''hostname'')
      else if D_SSHPublicKey d = [] then Inl (empty_field ''ssh public key'')
      else Inr (map_literal [
        (''user-data'', string_bytes (user_data d)),
        (''meta-data'', string_bytes (meta_data d)),
        (''network-config'', string_bytes network_config)]))"

end
