(* ===== verification/MachineParts.thy ===== *)
theory MachineParts
  imports Provider ProviderConfig BootTrees ChClient Confext
begin

text \<open>
  The machine controller (\<open>controllers/hypervisormachine_controller.go\<close>), first part: what
  the reconciler holds, the links of a machine, its identity on the network, the image it boots and
  the disks it is given. Every step works through the host agent when there is one, and otherwise
  through the direct seams the tests use. The HypervisorMachine a Go function changes in place is
  passed on as a value.
\<close>

section \<open>The reconciler\<close>

text \<open>
  The interface \<open>chclient.Client\<close>, with a handle \<open>'c\<close> for one client; a setter
  changes the client.
\<close>

record ('s, 'c) vm_interface =
  VI_SetNetConfig :: "'c \<Rightarrow> string \<Rightarrow> 's \<Rightarrow> 's"
  VI_SetFirmware :: "'c \<Rightarrow> string \<Rightarrow> 's \<Rightarrow> 's"
  VI_SetDiskPaths :: "'c \<Rightarrow> string list \<Rightarrow> 's \<Rightarrow> 's"
  VI_SetCPU :: "'c \<Rightarrow> int32 \<Rightarrow> 's \<Rightarrow> 's"
  VI_SetRAM :: "'c \<Rightarrow> int32 \<Rightarrow> 's \<Rightarrow> 's"
  VI_EnsureRunning :: "'c \<Rightarrow> ('s, unit) go"
  VI_Info :: "'c \<Rightarrow> ('s, string) go"
  VI_Shutdown :: "'c \<Rightarrow> ('s, unit) go"
  VI_Stop :: "'c \<Rightarrow> ('s, unit) go"

text \<open>
  The file system of the manager is the part \<open>MR_Host\<close> of the state, the cache of VM clients
  the part \<open>MR_Clients\<close>. \<open>MR_InfoSize\<close> reads the size in the output of
  \<open>qemu-img info\<close>.
\<close>

record ('s, 'c, 'x) machine_reconciler = "'s reconciler" +
  MR_Config :: provider_config
  MR_Host :: "'s \<Rightarrow> 'x host"
  MR_PutHost :: "'x host \<Rightarrow> 's \<Rightarrow> 's"
  MR_NewVMClient :: "string \<Rightarrow> string \<Rightarrow> 's \<Rightarrow> 'c \<times> 's"
  MR_VM :: "('s, 'c) vm_interface"
  MR_Clients :: "'s \<Rightarrow> string \<rightharpoonup> 'c"
  MR_PutClients :: "(string \<rightharpoonup> 'c) \<Rightarrow> 's \<Rightarrow> 's"
  MR_QemuImg :: "string \<Rightarrow> string list \<Rightarrow> 's \<Rightarrow> (byte list \<times> goerr option) \<times> 's"
  MR_InfoSize :: "byte list \<Rightarrow> goerr + int"
  MR_Confext :: "'x runner"
  MR_RenderCloudInit :: "cloudinit_data \<Rightarrow> goerr + tree"
  MR_DeriveMAC :: "string \<Rightarrow> string \<Rightarrow> string"

definition osG :: "('s, 'c, 'x) machine_reconciler \<Rightarrow> ('x host, 'a) go \<Rightarrow> ('s, 'a) go" where
  "osG r m = onG (MR_Host r) (MR_PutHost r) m"

text \<open>A warning of the machine's recorder with the returned error wrapped.\<close>

definition failing_step ::
  "('s, 'c, 'x) machine_reconciler \<Rightarrow> hypervisor_machine \<Rightarrow> string \<Rightarrow> string \<Rightarrow> string \<Rightarrow> ('s, 'a) go \<Rightarrow> ('s, 'a) go" where
  "failing_step r hm reason message p m = reportedG (R_Kube r) ''HypervisorMachine'' (HM_Meta hm) reason message p m"

section \<open>Links\<close>

fun owner_machine :: "('s, 'z) reconciler_scheme \<Rightarrow> string \<Rightarrow> owner_reference list \<Rightarrow> ('s, machine option) go" where
  "owner_machine r ns [] = returnG None"
| "owner_machine r ns (ref # refs) =
     (if \<not> owner_ref_to (R_Lib r) ''Machine'' ref then owner_machine r ns refs
      else bindG (optionalG (''get owner Machine '' @ show_key (ns, OR_Name ref)) (K_GetMachine (R_Kube r) (ns, OR_Name ref)))
        (\<lambda>found. case found of None \<Rightarrow> owner_machine r ns refs | Some m \<Rightarrow> returnG (Some m)))"

definition getOwnerMachine :: "('s, 'z) reconciler_scheme \<Rightarrow> hypervisor_machine \<Rightarrow> ('s, machine option) go" where
  "getOwnerMachine r hm =
     (let ns = M_Namespace (HM_Meta hm) in
      bindG (owner_machine r ns (M_OwnerReferences (HM_Meta hm))) (\<lambda>owned. case owned of
        Some m \<Rightarrow> returnG (Some m)
      | None \<Rightarrow>
          bindG (wrapG (''list Machines in '' @ Quote ns) (K_ListMachines (R_Kube r) ns [])) (\<lambda>machines.
          returnG (find (\<lambda>m. Lib_IsDefined (R_Lib r) (MC_InfrastructureRef m) \<and>
            Ref_Kind (MC_InfrastructureRef m) = ''HypervisorMachine'' \<and>
            Ref_Name (MC_InfrastructureRef m) = M_Name (HM_Meta hm)) machines))))"

definition Machine_getLinkedCluster :: "('s, 'z) reconciler_scheme \<Rightarrow> machine \<Rightarrow> ('s, cluster option) go" where
  "Machine_getLinkedCluster r m =
     (let key = (M_Namespace (MC_Meta m), MC_ClusterName m) in
      if MC_ClusterName m = [] then returnG None
      else optionalG (''get linked Cluster '' @ show_key key) (K_GetCluster (R_Kube r) key))"

definition k8netdNetworkName :: "hypervisor_cluster \<Rightarrow> string" where
  "k8netdNetworkName hc = M_Name (HC_Meta hc)"

section \<open>Identity\<close>

definition effectiveMAC :: "('s, 'c, 'x) machine_reconciler \<Rightarrow> hypervisor_machine \<Rightarrow> machine \<Rightarrow> string" where
  "effectiveMAC r hm m =
     (if HM_MAC (HM_Spec hm) \<noteq> [] then HM_MAC (HM_Spec hm) else MR_DeriveMAC r (MC_ClusterName m) (M_Name (MC_Meta m)))"

definition with_ports :: "machine_port list \<Rightarrow> hypervisor_machine \<Rightarrow> hypervisor_machine" where
  "with_ports ps hm = hm\<lparr>HM_Status := (HM_Status hm)\<lparr>HMS_PublishedPorts := ps\<rparr>\<rparr>"

definition publish_mutation :: "mutation \<Rightarrow> int32 \<Rightarrow> mutation" where
  "publish_mutation m vmPort = m\<lparr>Mut_IdempotencyKey := Mut_IdempotencyKey m @ ''-publish-'' @ show_int (sint vmPort)\<rparr>"

fun publish_ports ::
  "('s, 'c, 'x) machine_reconciler \<Rightarrow> mutation \<Rightarrow> hypervisor_machine \<Rightarrow> int32 list \<Rightarrow> ('s, hypervisor_machine) go" where
  "publish_ports r m hm [] = returnG hm"
| "publish_ports r m hm (vmPort # vs) =
     (let ports = HMS_PublishedPorts (HM_Status hm); what = show_int (sint vmPort) @ '' for '' @ Quote (M_Name (HM_Meta hm)) in
      if publishedHostPort ports vmPort \<noteq> None then publish_ports r m hm vs
      else
        bindG (failing_step r hm ''FailedProvision'' (''failed to publish vm_port '' @ what) (''publish vm_port '' @ what)
          (case R_Agent r of
             Some a \<Rightarrow> HA_PublishPort a (publish_mutation m vmPort) vmPort 0
           | None \<Rightarrow> KN_PublishPort (R_K8Netd r) (M_Name (HM_Meta hm)) vmPort)) (\<lambda>hostPort.
        publish_ports r m
          (with_ports (upsertPublishedPort ports \<lparr>MPP_VMPort = vmPort, MPP_HostPort = hostPort\<rparr>) hm) vs))"

definition publishControlPlaneEndpoints ::
  "('s, 'c, 'x) machine_reconciler \<Rightarrow> hypervisor_machine \<Rightarrow> machine \<Rightarrow> mutation \<Rightarrow> ('s, hypervisor_machine) go" where
  "publishControlPlaneEndpoints r hm m mutation =
     (if \<not> isControlPlaneMachine (R_Lib r) m then returnG hm
      else publish_ports r mutation hm [controlPlaneAPIServerPort, controlPlaneSSHPort, controlPlaneEtcdClientPort])"

definition recordAddresses ::
  "('s, 'z) reconciler_scheme \<Rightarrow> hypervisor_machine \<Rightarrow> machine \<Rightarrow> string \<Rightarrow> ('s, hypervisor_machine) go" where
  "recordAddresses r hm m ip =
     wrapG ''update HypervisorMachine status'' (K_UpdateHypervisorMachineStatus (R_Kube r)
       (hm\<lparr>HM_Status := (HM_Status hm)\<lparr>HMS_Addresses :=
          [\<lparr>Addr_Type = Lib_InternalIP (R_Lib r), Addr_Address = ip\<rparr>,
           \<lparr>Addr_Type = Lib_HostName (R_Lib r), Addr_Address = M_Name (MC_Meta m)\<rparr>]\<rparr>\<rparr>))"

definition port_mutation :: "hypervisor_machine \<Rightarrow> mutation" where
  "port_mutation hm = hostMutation ''agent'' (M_UID (HM_Meta hm)) (M_Generation (HM_Meta hm)) ''port''"

definition agent_identity ::
  "('s, 'c, 'x) machine_reconciler \<Rightarrow> 's host_agent \<Rightarrow> hypervisor_machine \<Rightarrow> machine \<Rightarrow> hypervisor_cluster \<Rightarrow> string \<Rightarrow>
   ('s, hypervisor_machine) go" where
  "agent_identity r a hm m hc mac =
     (let network = k8netdNetworkName hc; port = M_Name (HM_Meta hm);
          network_mutation = hostMutation ''agent'' (M_UID (HC_Meta hc)) (M_Generation (HC_Meta hc)) ''network'' in
      bindG (wrapG (''agent ensure network '' @ Quote network)
        (HA_EnsureNetwork a network_mutation \<lparr>NetReq_Name = network, NetReq_CIDR = HC_CIDR (HC_Network (HC_Spec hc))\<rparr>)) (\<lambda>_.
      bindG (wrapG (''agent ensure port '' @ Quote port)
        (HA_EnsurePort a (port_mutation hm) \<lparr>PortReq_Name = port, PortReq_Network = network, PortReq_MAC = mac\<rparr>)) (\<lambda>observed.
      bindG (publishControlPlaneEndpoints r hm m (port_mutation hm)) (\<lambda>hm'.
      recordAddresses r hm' m (PortObs_IP observed)))))"

text \<open>A call to k8netd for which \<open>AlreadyExists\<close> is success.\<close>

definition unless_exists ::
  "('s, 'c, 'x) machine_reconciler \<Rightarrow> hypervisor_machine \<Rightarrow> string \<Rightarrow> string \<Rightarrow> ('s, unit) go \<Rightarrow> ('s, unit) go" where
  "unless_exists r hm message p m = catchG m (\<lambda>res. case res of
      Inl e \<Rightarrow> if errors_Is e NetAlreadyExists then returnG () else failing_step r hm ''FailedProvision'' message p (failG e)
    | Inr _ \<Rightarrow> returnG ())"

definition direct_identity ::
  "('s, 'c, 'x) machine_reconciler \<Rightarrow> hypervisor_machine \<Rightarrow> machine \<Rightarrow> hypervisor_cluster \<Rightarrow> string \<Rightarrow>
   ('s, hypervisor_machine) go" where
  "direct_identity r hm m hc mac =
     (let network = k8netdNetworkName hc; port = M_Name (HM_Meta hm); name = M_Name (MC_Meta m);
          attach = ''port '' @ Quote port @ '' to network '' @ Quote network in
      bindG (unless_exists r hm (''failed to create port '' @ Quote port) (''create port '' @ Quote port)
        (KN_CreatePort (R_K8Netd r) port)) (\<lambda>_.
      bindG (unless_exists r hm (''failed to attach '' @ attach) (''attach '' @ attach)
        (KN_AttachPort (R_K8Netd r) port network mac)) (\<lambda>_.
      bindG (publishControlPlaneEndpoints r hm m (port_mutation hm)) (\<lambda>hm'.
      bindG (failing_step r hm' ''FailedProvision'' (''failed to allocate IP for '' @ Quote name) (''allocate IP for '' @ Quote name)
        (KN_AllocateIP (R_K8Netd r) network mac)) (\<lambda>ip.
      recordAddresses r hm' m ip)))))"

definition reconcileIdentity ::
  "('s, 'c, 'x) machine_reconciler \<Rightarrow> hypervisor_machine \<Rightarrow> machine \<Rightarrow> hypervisor_cluster \<Rightarrow> string \<Rightarrow>
   ('s, hypervisor_machine) go" where
  "reconcileIdentity r hm m hc mac = (case R_Agent r of
     Some a \<Rightarrow> agent_identity r a hm m hc mac
   | None \<Rightarrow> direct_identity r hm m hc mac)"

section \<open>The image\<close>

definition resolveBaseImage ::
  "('s, 'c, 'x) machine_reconciler \<Rightarrow> hypervisor_cluster \<Rightarrow> machine \<Rightarrow> goerr + string" where
  "resolveBaseImage r hc m =
     (if MC_Version m = [] then Inr (Conf_BaseImage (MR_Config r))
      else case find (\<lambda>i. Im_Version i = MC_Version m) (HC_Images (HC_Spec hc)) of
        Some i \<Rightarrow> Inr (Im_Path i)
      | None \<Rightarrow> Inl (plain_err (''no base image registered for Kubernetes version '' @ Quote (MC_Version m) @
          '' on HypervisorCluster '' @ Quote (M_Name (HC_Meta hc)))))"

section \<open>Operation keys\<close>

definition artifactOperationKey :: "string \<Rightarrow> string \<Rightarrow> int64 \<Rightarrow> string" where
  "artifactOperationKey uid kind generation = uid @ ''-'' @ kind @ ''-'' @ show_int (sint generation) @ ''-'' @ ''artifact-path-v2''"

definition vmOperationKey :: "string \<Rightarrow> uint64 \<Rightarrow> string" where
  "vmOperationKey uid generation = uid @ ''-vm-'' @ show_nat (unat generation) @ ''-'' @ ''vm-path-v2''"

definition machine_mutation :: "hypervisor_machine \<Rightarrow> uint64 \<Rightarrow> string \<Rightarrow> mutation" where
  "machine_mutation hm generation key =
     \<lparr>Mut_ProtocolMajor = ProtocolMajor,
      Mut_Owner = \<lparr>Owner_InstallationID = ''agent'', Owner_NodeID = managerNodeID, Owner_UID = M_UID (HM_Meta hm)\<rparr>,
      Mut_Generation = generation, Mut_IdempotencyKey = key, Mut_RetainDisk = False\<rparr>"

definition artifact_mutation :: "hypervisor_machine \<Rightarrow> string \<Rightarrow> mutation" where
  "artifact_mutation hm kind = machine_mutation hm (M_Generation (HM_Meta hm))
     (artifactOperationKey (M_UID (HM_Meta hm)) kind (M_Generation (HM_Meta hm)))"

section \<open>The root disk\<close>

text \<open>The output of the program is kept beside its error.\<close>

definition wrapQemuImgErr :: "goerr \<Rightarrow> byte list \<Rightarrow> goerr" where
  "wrapQemuImgErr e out =
     (let msg = TrimSpace (bytes_string out) in if msg \<noteq> [] then GoErr (err_kind e) (err_text e @ '': '' @ msg) else e)"

definition qemuG :: "('s, 'c, 'x) machine_reconciler \<Rightarrow> (goerr \<Rightarrow> byte list \<Rightarrow> goerr) \<Rightarrow> string \<Rightarrow> string list \<Rightarrow> ('s, byte list) go" where
  "qemuG r wrap name args = (\<lambda>s. case MR_QemuImg r name args s of
     ((out, None), t) \<Rightarrow> (Inr out, t)
   | ((out, Some e), t) \<Rightarrow> (Inl (wrap e out), t))"

definition rootDiskSize :: "('s, 'c, 'x) machine_reconciler \<Rightarrow> string \<Rightarrow> ('s, int) go" where
  "rootDiskSize r diskPath =
     bindG (qemuG r (\<lambda>e out. e) ''qemu-img'' [''info'', ''-U'', ''--output=json'', diskPath]) (\<lambda>out.
     liftG (case MR_InfoSize r out of
       Inl e \<Rightarrow> Inl (GoErr QemuImgInfoParse (sentinel_text QemuImgInfoParse @ '' for '' @ Quote diskPath @ '': '' @ err_text e))
     | Inr n \<Rightarrow> Inr n))"

definition direct_root_disk ::
  "('s, 'c, 'x) machine_reconciler \<Rightarrow> hypervisor_machine \<Rightarrow> string \<Rightarrow> string \<Rightarrow> ('s, artifact_result) go" where
  "direct_root_disk r hm baseImage previousImage =
     (let diskPath = Join (Conf_VMDiskDir (MR_Config r)) (M_Name (HM_Meta hm) @ ''-root.qcow2'');
          wantSize = sint (HM_Disk (HM_Spec hm)) * 1024 * 1024;
          convert =
            bindG (failing_step r hm ''FailedProvision'' (''failed to convert root disk '' @ Quote diskPath) (''convert root disk '' @ Quote diskPath)
              (qemuG r wrapQemuImgErr ''qemu-img'' [''convert'', ''-O'', ''qcow2'', baseImage, diskPath])) (\<lambda>_.
            bindG (failing_step r hm ''FailedProvision'' (''failed to resize root disk '' @ Quote diskPath) (''resize root disk '' @ Quote diskPath)
              (qemuG r wrapQemuImgErr ''qemu-img'' [''resize'', diskPath, show_int (sint (HM_Disk (HM_Spec hm))) @ ''M''])) (\<lambda>_.
            returnG zero_artifact_result)) in
      catchG (rootDiskSize r diskPath) (\<lambda>probe. case probe of
        Inr n \<Rightarrow>
          if n = wantSize \<and> (previousImage = [] \<or> previousImage = baseImage) then returnG zero_artifact_result else convert
      | Inl e \<Rightarrow>
          if errors_Is e QemuImgInfoParse then failG (wrap_err (''root disk size probe for '' @ Quote diskPath) e) else convert))"

definition reconcileRootDisk ::
  "('s, 'c, 'x) machine_reconciler \<Rightarrow> hypervisor_machine \<Rightarrow> string \<Rightarrow> string \<Rightarrow> ('s, artifact_result) go" where
  "reconcileRootDisk r hm baseImage previousImage = (case R_Agent r of
     Some a \<Rightarrow> HA_PrepareRootDisk a (artifact_mutation hm ''root'') \<lparr>RootReq_Name = M_Name (HM_Meta hm), RootReq_SourceImage = baseImage\<rparr>
   | None \<Rightarrow> direct_root_disk r hm baseImage previousImage)"

section \<open>Bootstrap data\<close>

text \<open>The HypervisorConfig of a machine, if its bootstrap reference names one.\<close>

definition config_ref :: "provider_lib \<Rightarrow> machine \<Rightarrow> object_key option" where
  "config_ref lib m =
     (let ref = MC_BootstrapRef m in
      if \<not> Lib_IsDefined lib ref \<or> Ref_Kind ref \<noteq> ''HypervisorConfig'' \<or> Ref_Name ref = [] then None
      else Some (M_Namespace (MC_Meta m), Ref_Name ref))"

definition bootstrap_config :: "('s, 'z) reconciler_scheme \<Rightarrow> object_key \<Rightarrow> ('s, hypervisor_config option) go" where
  "bootstrap_config r key = optionalG (''get bootstrap config '' @ show_key key) (K_GetConfig (R_Kube r) key)"

definition bootstrapDataSecretName :: "('s, 'z) reconciler_scheme \<Rightarrow> machine \<Rightarrow> ('s, string) go" where
  "bootstrapDataSecretName r m = (case config_ref (R_Lib r) m of
     None \<Rightarrow> returnG []
   | Some key \<Rightarrow>
       bindG (bootstrap_config r key) (\<lambda>found.
       returnG (case found of None \<Rightarrow> []
         | Some cfg \<Rightarrow> (case CfgS_DataSecretName (Cfg_Status cfg) of None \<Rightarrow> [] | Some n \<Rightarrow> n))))"

definition bootstrapDataPending :: "('s, 'z) reconciler_scheme \<Rightarrow> machine \<Rightarrow> ('s, bool) go" where
  "bootstrapDataPending r m = (case config_ref (R_Lib r) m of
     None \<Rightarrow> returnG False
   | Some key \<Rightarrow>
       bindG (bootstrap_config r key) (\<lambda>found.
       returnG (case found of None \<Rightarrow> True | Some cfg \<Rightarrow> CfgS_DataSecretName (Cfg_Status cfg) = None)))"

definition etcdRestoreTree :: "('s, 'c, 'x) machine_reconciler \<Rightarrow> machine \<Rightarrow> ('s, tree) go" where
  "etcdRestoreTree r m = (case config_ref (R_Lib r) m of
     None \<Rightarrow> returnG []
   | Some key \<Rightarrow>
       bindG (bootstrap_config r key) (\<lambda>found. case found of
         None \<Rightarrow> returnG []
       | Some cfg \<Rightarrow>
           (let path = Cfg_EtcdSnapshotHostPath (Cfg_Spec cfg) in
            if path = [] then returnG []
            else bindG (wrapG (''read etcd snapshot '' @ Quote path) (osG r (os_ReadFile path))) (\<lambda>snapshot.
              liftG (BuildEtcdRestore snapshot)))))"

text \<open>The packaged images of a machine in the order of their names; no directory means none.\<close>

definition confextRawPaths :: "string \<Rightarrow> string \<Rightarrow> ('x host, string list) go" where
  "confextRawPaths vmDisksDir name =
     (let dir = Join vmDisksDir (name @ ''-data'') in
      catchG (os_ReadDir dir) (\<lambda>res. case res of
        Inl e \<Rightarrow> if errors_Is e OsErrNotExist then returnG [] else failG (wrap_err (''read confext data dir for '' @ Quote name) e)
      | Inr entries \<Rightarrow> returnG (map (\<lambda>(n, _). Join dir n) (filter (\<lambda>(n, is_dir). \<not> is_dir \<and> HasSuffix n ''.raw'') entries))))"

definition artifactResultForPaths :: "string list \<Rightarrow> ('x host, artifact_result) go" where
  "artifactResultForPaths paths =
     bindG (collectG (\<lambda>path. bindG (wrapG (''read artifact '' @ Quote path) (os_ReadFile path)) (\<lambda>contents.
       returnG (hex_string (sha256 contents)))) paths) (\<lambda>checksums.
     returnG \<lparr>Art_Paths = paths, Art_SHA256s = checksums\<rparr>)"

text \<open>The code ranges over a map, in any order; the list of a tree fixes one of the orders.\<close>

definition tree_files :: "tree \<Rightarrow> artifact_file list" where
  "tree_files t = map (\<lambda>(name, content). \<lparr>File_Name = name, File_Content = content\<rparr>) t"

definition package_tree ::
  "('s, 'c, 'x) machine_reconciler \<Rightarrow> hypervisor_machine \<Rightarrow> machine \<Rightarrow> tree \<Rightarrow> ('s, artifact_result) go" where
  "package_tree r hm m tree = (let name = M_Name (MC_Meta m); dir = Conf_VMDiskDir (MR_Config r) in case R_Agent r of
     Some a \<Rightarrow>
       wrapG (''agent prepare confext for '' @ Quote name)
         (HA_PrepareConfext a (artifact_mutation hm ''confext'') name (tree_files tree))
   | None \<Rightarrow>
       let stagingDir = Join dir (name @ ''-confext-staging''); outDir = Join dir (name @ ''-data'') in
       bindG (failing_step r hm ''FailedProvision'' ''failed to materialize confext tree'' (''materialize confext tree for '' @ Quote name)
         (osG r (WriteTree tree stagingDir))) (\<lambda>_.
       bindG (failing_step r hm ''FailedProvision'' ''failed to build confext raws'' (''build confext raws for '' @ Quote name)
         (osG r (BuildRaws (MR_Confext r) stagingDir outDir))) (\<lambda>_.
       bindG (osG r (confextRawPaths dir name)) (\<lambda>paths.
       osG r (artifactResultForPaths paths)))))"

definition reconcileConfextDataDisk ::
  "('s, 'c, 'x) machine_reconciler \<Rightarrow> hypervisor_machine \<Rightarrow> machine \<Rightarrow> ('s, artifact_result) go" where
  "reconcileConfextDataDisk r hm m =
     (let name = M_Name (MC_Meta m) in
      bindG (bootstrapDataSecretName r m) (\<lambda>secretName.
      if secretName = [] then returnG zero_artifact_result
      else
        let key = (M_Namespace (MC_Meta m), secretName) in
        bindG (optionalG (''get bootstrap Secret '' @ show_key key) (K_GetSecret (R_Kube r) key)) (\<lambda>found. case found of
          None \<Rightarrow> returnG zero_artifact_result
        | Some secret \<Rightarrow>
            bindG (failing_step r hm ''FailedProvision'' ''failed to decode confext tree'' (''decode confext tree for '' @ Quote name)
              (liftG (decodeConfextTree secret))) (\<lambda>tree.
            if tree = [] then returnG zero_artifact_result
            else
              bindG (failing_step r hm ''FailedProvision'' ''failed to render etcd restore tree''
                (''render etcd restore tree for '' @ Quote name) (etcdRestoreTree r m)) (\<lambda>restore.
              package_tree r hm m (maps_Copy tree restore))))))"

section \<open>Cloud-init\<close>

definition resolveSSHPublicKey :: "('s, 'c, 'x) machine_reconciler \<Rightarrow> hypervisor_config \<Rightarrow> ('s, string) go" where
  "resolveSSHPublicKey r cfg =
     (let path = Conf_SSHPublicKeyFile (MR_Config r) in
      if Cfg_SSHPublicKey (Cfg_Spec cfg) \<noteq> [] then returnG (Cfg_SSHPublicKey (Cfg_Spec cfg))
      else if path = [] then failG (plain_err (''ssh public key: bootstrap config '' @ Quote (M_Name (Cfg_Meta cfg)) @
        '' spec.sshPublicKey is empty and HYPERVISOR_SSH_PUBLIC_KEY_FILE is unset''))
      else
        bindG (wrapG (''read ssh public key file '' @ Quote path @ '' (HYPERVISOR_SSH_PUBLIC_KEY_FILE)'') (osG r (os_ReadFile path))) (\<lambda>content.
        let key = TrimSpace (bytes_string content) in
        if key = [] then failG (plain_err (''ssh public key file '' @ Quote path @ '' (HYPERVISOR_SSH_PUBLIC_KEY_FILE) is empty''))
        else returnG key))"

definition cidataDiskSize :: nat where
  "cidataDiskSize = 4 * 1024 * 1024"

definition not_exist :: "goerr \<Rightarrow> bool" where
  "not_exist e \<longleftrightarrow> errors_Is e OsErrNotExist"

definition buildCIDATADisk :: "('s, 'c, 'x) machine_reconciler \<Rightarrow> hypervisor_machine \<Rightarrow> tree \<Rightarrow> ('s, unit) go" where
  "buildCIDATADisk r hm parts =
     (let dir = Conf_VMDiskDir (MR_Config r); name = M_Name (HM_Meta hm);
          partsDir = Join dir (name @ ''-cidata-parts''); diskPath = Join dir (name @ ''-cidata.img''); disk = Quote diskPath in
      bindG (wrapG (''create CIDATA parts dir '' @ Quote partsDir) (osG r (os_MkdirAll partsDir))) (\<lambda>_.
      bindG (eachG (\<lambda>(part, content). wrapG (''write CIDATA part '' @ Quote part)
        (osG r (os_WriteFile (Join partsDir part) content))) parts) (\<lambda>_.
      bindG (toleratingG not_exist (''remove stale CIDATA disk '' @ disk) (osG r (os_Remove diskPath))) (\<lambda>_.
      bindG (wrapG (''create CIDATA disk '' @ disk) (osG r (sys OsOpen diskPath (write_node diskPath [])))) (\<lambda>_.
      bindG (catchG (osG r (sys OsTruncate diskPath (write_node diskPath (replicate cidataDiskSize 0)))) (\<lambda>res. case res of
          Inl e \<Rightarrow> catchG (osG r (sys OsClose diskPath (returnG ()))) (\<lambda>_. failG (wrap_err (''size CIDATA disk '' @ disk) e))
        | Inr _ \<Rightarrow> returnG ())) (\<lambda>_.
      bindG (wrapG (''close CIDATA disk '' @ disk) (osG r (sys OsClose diskPath (returnG ())))) (\<lambda>_.
      bindG (wrapG (''format CIDATA disk '' @ disk)
        (qemuG r (\<lambda>e out. e) ''mkdosfs'' [''-F'', ''16'', ''-s'', ''1'', ''-n'', ''CIDATA'', diskPath])) (\<lambda>_.
      eachG (\<lambda>part. bindG (wrapG (''copy '' @ part @ '' into CIDATA disk '' @ disk)
        (qemuG r (\<lambda>e out. e) ''mcopy'' [''-i'', diskPath, Join partsDir part, ''::'' @ part])) (\<lambda>_. returnG ()))
        [''user-data'', ''meta-data'', ''network-config'']))))))))"

definition reconcileCIDATA ::
  "('s, 'c, 'x) machine_reconciler \<Rightarrow> hypervisor_machine \<Rightarrow> machine \<Rightarrow> ('s, artifact_result) go" where
  "reconcileCIDATA r hm m = (let name = M_Name (MC_Meta m); hm_name = M_Name (HM_Meta hm) in case config_ref (R_Lib r) m of
     None \<Rightarrow> returnG zero_artifact_result
   | Some key \<Rightarrow>
       bindG (bootstrap_config r key) (\<lambda>found. case found of
         None \<Rightarrow> returnG zero_artifact_result
       | Some cfg \<Rightarrow>
           bindG (failing_step r hm ''FailedProvision'' ''failed to render cloud-init data'' (''render cloud-init data for '' @ Quote name)
             (resolveSSHPublicKey r cfg)) (\<lambda>key.
           bindG (failing_step r hm ''FailedProvision'' ''failed to render cloud-init data'' (''render cloud-init data for '' @ Quote name)
             (liftG (MR_RenderCloudInit r \<lparr>D_InstanceID = name, D_Hostname = name, D_SSHPublicKey = key\<rparr>))) (\<lambda>parts.
           case R_Agent r of
             Some a \<Rightarrow>
               wrapG (''agent prepare CIDATA for '' @ Quote name)
                 (HA_PrepareCIDATA a (artifact_mutation hm ''cidata'') hm_name (tree_files parts))
           | None \<Rightarrow>
               bindG (failing_step r hm ''FailedProvision'' (''failed to build CIDATA disk for '' @ Quote name)
                 (''build CIDATA disk for '' @ Quote name) (buildCIDATADisk r hm parts)) (\<lambda>_.
               osG r (artifactResultForPaths [Join (Conf_VMDiskDir (MR_Config r)) (hm_name @ ''-cidata.img'')]))))))"

end

