(* ===== verification/MachineController.thy ===== *)
theory MachineController
  imports MachineParts
begin

text \<open>
  The machine controller (\<open>controllers/hypervisormachine_controller.go\<close>), second part: the
  life of the VM, deletion, and \<open>Reconcile\<close>.
\<close>

section \<open>The VM clients\<close>

text \<open>
  The cached client of a machine. Between the miss and the store another worker may have stored one:
  \<open>LoadOrStore\<close> keeps the one that is there.
\<close>

definition vmClientFor :: "('s, 'c, 'x) machine_reconciler \<Rightarrow> hypervisor_machine \<Rightarrow> ('s, 'c) go" where
  "vmClientFor r hm = (\<lambda>s. let name = M_Name (HM_Meta hm) in case MR_Clients r s name of
     Some c \<Rightarrow> (Inr c, s)
   | None \<Rightarrow>
       (case MR_NewVMClient r (Join (Conf_SocketDir (MR_Config r)) name) (Conf_CHBinary (MR_Config r)) s of
          (vm, t) \<Rightarrow>
            (case MR_Clients r t name of
               Some c \<Rightarrow> (Inr c, t)
             | None \<Rightarrow> (Inr vm, MR_PutClients r ((MR_Clients r t)(name \<mapsto> vm)) t))))"

definition setG :: "('s \<Rightarrow> 's) \<Rightarrow> ('s, unit) go" where
  "setG f = (\<lambda>s. (Inr (), f s))"

section \<open>Status\<close>

definition vmProvisionedCondition :: string where
  "vmProvisionedCondition = ''VMProvisioned''"

definition with_status :: "(hm_status \<Rightarrow> hm_status) \<Rightarrow> hypervisor_machine \<Rightarrow> hypervisor_machine" where
  "with_status f hm = hm\<lparr>HM_Status := f (HM_Status hm)\<rparr>"

definition markVMProvisioned :: "provider_lib \<Rightarrow> hypervisor_machine \<Rightarrow> hypervisor_machine" where
  "markVMProvisioned lib hm = with_status (\<lambda>st. st\<lparr>HMS_Conditions := Lib_SetStatusCondition lib (HMS_Conditions st)
     \<lparr>Cond_Type = vmProvisionedCondition, Cond_Status = ''True'', Cond_Reason = ''VMProvisioned'', Cond_Message = []\<rparr>\<rparr>) hm"

definition machine_ready :: "provider_lib \<Rightarrow> hypervisor_machine \<Rightarrow> hypervisor_machine" where
  "machine_ready lib hm = with_status (\<lambda>st. st\<lparr>HMS_Ready := True, HMS_Provisioned := Some True\<rparr>) (markVMProvisioned lib hm)"

definition provider_id :: "machine \<Rightarrow> hypervisor_machine \<Rightarrow> string" where
  "provider_id m hm = ''hypervisor://'' @ MC_ClusterName m @ ''/'' @ M_Name (HM_Meta hm)"

definition ensureSpecProviderID ::
  "('s, 'z) reconciler_scheme \<Rightarrow> hypervisor_machine \<Rightarrow> string \<Rightarrow> ('s, hypervisor_machine) go" where
  "ensureSpecProviderID r hm providerID =
     (if HM_ProviderID (HM_Spec hm) = Some providerID then returnG hm
      else wrapG ''update HypervisorMachine spec.providerID''
        (K_UpdateHypervisorMachine (R_Kube r) (hm\<lparr>HM_Spec := (HM_Spec hm)\<lparr>HM_ProviderID := Some providerID\<rparr>\<rparr>)))"

section \<open>The VM\<close>

definition vm_mutation :: "hypervisor_machine \<Rightarrow> mutation" where
  "vm_mutation hm =
     (let generation = (if M_Generation (HM_Meta hm) = 0 then 1 else M_Generation (HM_Meta hm))
      in machine_mutation hm generation (vmOperationKey (M_UID (HM_Meta hm)) generation))"

definition desired_vm ::
  "('s, 'c, 'x) machine_reconciler \<Rightarrow> hypervisor_machine \<Rightarrow> string \<Rightarrow> string \<Rightarrow> artifact_result \<Rightarrow> vm_desired" where
  "desired_vm r hm mac ip artifacts =
     \<lparr>Des_UID = M_UID (HM_Meta hm), Des_Name = M_Name (HM_Meta hm), Des_Image = HMS_Image (HM_Status hm),
      Des_Firmware = Conf_Firmware (MR_Config r), Des_FirmwareSHA256 = Conf_FirmwareSHA256 (MR_Config r),
      Des_APISocket = Join (Join (Conf_SocketDir (MR_Config r)) (M_Name (HM_Meta hm))) ''api.sock'',
      Des_VhostSocket = VhostUserSocketPath (M_Name (HM_Meta hm)), Des_Disk = hd (Art_Paths artifacts),
      Des_MAC = mac, Des_IP = ip, Des_CPUs = HM_CPU (HM_Spec hm), Des_MemoryMiB = HM_RAM (HM_Spec hm),
      Des_AdditionalDisks = tl (Art_Paths artifacts), Des_DiskSHA256 = hd (Art_SHA256s artifacts),
      Des_AdditionalDiskSHA256s = tl (Art_SHA256s artifacts)\<rparr>"

definition agent_vm ::
  "('s, 'c, 'x) machine_reconciler \<Rightarrow> 's host_agent \<Rightarrow> hypervisor_machine \<Rightarrow> machine \<Rightarrow> string \<Rightarrow> artifact_result \<Rightarrow>
   ('s, unit) go" where
  "agent_vm r a hm m mac artifacts =
     (let name = Quote (M_Name (HM_Meta hm)); ip = internalIPAddress (R_Lib r) (HMS_Addresses (HM_Status hm)) in
      if Art_Paths artifacts = [] \<or> length (Art_Paths artifacts) \<noteq> length (Art_SHA256s artifacts)
      then failG (plain_err (''invalid VM artifact result for '' @ name))
      else if ip = [] then failG (plain_err (''machine '' @ name @ '' has no internal IP''))
      else
        bindG (wrapG (''ensure VM for '' @ name) (HA_EnsureVM a (vm_mutation hm) (desired_vm r hm mac ip artifacts))) (\<lambda>_.
        bindG (ensureSpecProviderID r hm (provider_id m hm)) (\<lambda>hm'.
        bindG (K_UpdateHypervisorMachineStatus (R_Kube r)
          (machine_ready (R_Lib r) (with_status (\<lambda>st. st\<lparr>HMS_ProviderID := Some (provider_id m hm)\<rparr>) hm'))) (\<lambda>_.
        returnG ()))))"

definition update_machine_status :: "('s, 'z) reconciler_scheme \<Rightarrow> hypervisor_machine \<Rightarrow> ('s, unit) go" where
  "update_machine_status r hm =
     bindG (wrapG ''update HypervisorMachine status'' (K_UpdateHypervisorMachineStatus (R_Kube r) hm)) (\<lambda>_. returnG ())"

text \<open>The state of the VM once it is recorded: a VM that is not running is booted again.\<close>

definition report_vm :: "('s, 'c, 'x) machine_reconciler \<Rightarrow> 'c \<Rightarrow> hypervisor_machine \<Rightarrow> ('s, unit) go" where
  "report_vm r vm hm =
     (let name = Quote (M_Name (HM_Meta hm));
          report = (\<lambda>state. update_machine_status r (if state = ''Running'' then machine_ready (R_Lib r) hm else hm)) in
      catchG (VI_Info (MR_VM r) vm) (\<lambda>info.
        if info = Inr ''Running'' then report ''Running''
        else
          bindG (failing_step r hm ''FailedProvision'' (''failed to re-boot VM for '' @ name) (''re-boot VM for '' @ name)
            (VI_EnsureRunning (MR_VM r) vm)) (\<lambda>_.
          catchG (VI_Info (MR_VM r) vm) (\<lambda>again. case again of
            Inl e \<Rightarrow>
              bindG (event_onG (R_Kube r) ''HypervisorMachine'' (HM_Meta hm) ''Warning'' ''FailedProvision''
                (''failed to query re-booted VM for '' @ name @ '': '' @ err_text e)) (\<lambda>_.
              update_machine_status r (with_status (\<lambda>st. st\<lparr>HMS_Ready := False\<rparr>) hm))
          | Inr state \<Rightarrow> report state))))"

definition cidata_disk :: "('s, 'c, 'x) machine_reconciler \<Rightarrow> hypervisor_machine \<Rightarrow> ('s, string list) go" where
  "cidata_disk r hm =
     (let name = Quote (M_Name (HM_Meta hm)); path = Join (Conf_VMDiskDir (MR_Config r)) (M_Name (HM_Meta hm) @ ''-cidata.img'') in
      catchG (osG r (os_Stat path)) (\<lambda>res. case res of
        Inr _ \<Rightarrow> returnG [path]
      | Inl e \<Rightarrow>
          if errors_Is e OsErrNotExist then returnG []
          else failing_step r hm ''FailedProvision'' (''failed to stat CIDATA disk for '' @ name) (''stat CIDATA disk for '' @ name) (failG e)))"

definition direct_vm ::
  "('s, 'c, 'x) machine_reconciler \<Rightarrow> hypervisor_machine \<Rightarrow> machine \<Rightarrow> string \<Rightarrow> ('s, unit) go" where
  "direct_vm r hm m netConfig =
     (let name = M_Name (HM_Meta hm); dir = Conf_VMDiskDir (MR_Config r); v = MR_VM r in
      bindG (vmClientFor r hm) (\<lambda>vm.
      bindG (setG (VI_SetNetConfig v vm netConfig)) (\<lambda>_.
      bindG (cidata_disk r hm) (\<lambda>cidata.
      bindG (failing_step r hm ''FailedProvision'' (''failed to list confext raws for '' @ Quote name)
        (''list confext raws for '' @ Quote name) (osG r (confextRawPaths dir name))) (\<lambda>raws.
      bindG (setG (VI_SetRAM v vm (HM_RAM (HM_Spec hm)) \<circ> VI_SetCPU v vm (HM_CPU (HM_Spec hm)) \<circ>
        VI_SetDiskPaths v vm ([Join dir (name @ ''-root.qcow2'')] @ cidata @ raws) \<circ>
        VI_SetFirmware v vm (Conf_Firmware (MR_Config r)))) (\<lambda>_.
      bindG (if HMS_ProviderID (HM_Status hm) \<noteq> None then returnG False
             else
               bindG (bootstrapDataPending r m) (\<lambda>pending.
               if pending then returnG True
               else
                 bindG (failing_step r hm ''FailedProvision'' (''failed to boot VM for '' @ Quote (M_Name (MC_Meta m)))
                   (''boot VM for '' @ Quote (M_Name (MC_Meta m))) (VI_EnsureRunning v vm)) (\<lambda>_. returnG False))) (\<lambda>deferred.
      if deferred then returnG ()
      else
        bindG (ensureSpecProviderID r hm (provider_id m hm)) (\<lambda>hm'.
        report_vm r vm (with_status (\<lambda>st. st\<lparr>HMS_ProviderID := Some (provider_id m hm)\<rparr>) hm')))))))))"

definition reconcileVMLifecycle ::
  "('s, 'c, 'x) machine_reconciler \<Rightarrow> hypervisor_machine \<Rightarrow> machine \<Rightarrow> string \<Rightarrow> artifact_result \<Rightarrow> ('s, unit) go" where
  "reconcileVMLifecycle r hm m mac artifacts =
     (let name = Quote (M_Name (HM_Meta hm)) in
      bindG (failing_step r hm ''FailedProvision'' (''failed to render vhost-user net config for '' @ name)
        (''render vhost-user net config for '' @ name)
        (liftG (VhostUserNetConfig (VhostUserSocketPath (M_Name (HM_Meta hm))) mac))) (\<lambda>netConfig.
      case R_Agent r of
        Some a \<Rightarrow> agent_vm r a hm m mac artifacts
      | None \<Rightarrow> direct_vm r hm m netConfig))"

section \<open>Deletion\<close>

definition removeMachineDisks :: "string \<Rightarrow> string \<Rightarrow> ('x host, unit) go" where
  "removeMachineDisks vmDisksDir name =
     (let path = (\<lambda>suffix. Join vmDisksDir (name @ suffix)) in
      bindG (toleratingG not_exist (''remove root disk '' @ Quote (path ''-root.qcow2'')) (os_Remove (path ''-root.qcow2''))) (\<lambda>_.
      bindG (toleratingG not_exist (''remove CIDATA disk '' @ Quote (path ''-cidata.img'')) (os_Remove (path ''-cidata.img''))) (\<lambda>_.
      bindG (wrapG (''remove CIDATA parts dir '' @ Quote (path ''-cidata-parts'')) (os_RemoveAll (path ''-cidata-parts''))) (\<lambda>_.
      bindG (wrapG (''remove confext data dir '' @ Quote (path ''-data'')) (os_RemoveAll (path ''-data''))) (\<lambda>_.
      wrapG (''remove confext staging dir '' @ Quote (path ''-confext-staging'')) (os_RemoveAll (path ''-confext-staging'')))))))"

definition drop_finalizers :: "('s, 'z) reconciler_scheme \<Rightarrow> hypervisor_machine \<Rightarrow> ('s, ctrl_result) go" where
  "drop_finalizers r hm =
     bindG (wrapG (''remove finalizers from HypervisorMachine '' @ Quote (M_Name (HM_Meta hm)))
       (K_UpdateHypervisorMachine (R_Kube r) (hm\<lparr>HM_Meta := (HM_Meta hm)\<lparr>M_Finalizers := []\<rparr>\<rparr>))) (\<lambda>_.
     returnG settled)"

text \<open>A teardown step whose \<open>NotFound\<close> is success.\<close>

definition teardown_step ::
  "('s, 'c, 'x) machine_reconciler \<Rightarrow> hypervisor_machine \<Rightarrow> (goerr \<Rightarrow> bool) \<Rightarrow> string \<Rightarrow> string \<Rightarrow> ('s, unit) go \<Rightarrow> ('s, unit) go" where
  "teardown_step r hm ok message p m = catchG m (\<lambda>res. case res of
      Inl e \<Rightarrow> if ok e then returnG () else failing_step r hm ''FailedTeardown'' message p (failG e)
    | Inr _ \<Rightarrow> returnG ())"

definition delete_mutation :: "hypervisor_machine \<Rightarrow> mutation" where
  "delete_mutation hm = (hostMutation ''agent'' (M_UID (HM_Meta hm)) (M_Generation (HM_Meta hm)) ''delete-vm'')
     \<lparr>Mut_RetainDisk := HM_RetainDiskOnDelete (HM_Spec hm)\<rparr>"

definition vm_gone :: "goerr \<Rightarrow> bool" where
  "vm_gone e \<longleftrightarrow> errors_Is e VmNotFound"

definition port_gone :: "goerr \<Rightarrow> bool" where
  "port_gone e \<longleftrightarrow> errors_Is e NetNotFound"

definition Machine_reconcileDelete :: "('s, 'c, 'x) machine_reconciler \<Rightarrow> hypervisor_machine \<Rightarrow> ('s, ctrl_result) go" where
  "Machine_reconcileDelete r hm =
     (let plain = M_Name (HM_Meta hm); name = Quote plain; v = MR_VM r in case R_Agent r of
        Some a \<Rightarrow>
          bindG (teardown_step r hm IsNotFound (''failed to delete VM for '' @ name) (''delete VM for '' @ name)
            (HA_DeleteVM a (delete_mutation hm))) (\<lambda>_. drop_finalizers r hm)
      | None \<Rightarrow>
          bindG (vmClientFor r hm) (\<lambda>vm.
          bindG (teardown_step r hm vm_gone (''failed to shut down VM for '' @ name) (''shut down VM for '' @ name)
            (VI_Shutdown v vm)) (\<lambda>_.
          bindG (teardown_step r hm vm_gone (''failed to stop VM for '' @ name) (''stop VM for '' @ name) (VI_Stop v vm)) (\<lambda>_.
          bindG (setG (\<lambda>s. MR_PutClients r ((MR_Clients r s)(plain := None)) s)) (\<lambda>_.
          bindG (teardown_step r hm port_gone (''failed to detach port '' @ name) (''detach port '' @ name)
            (KN_DetachPort (R_K8Netd r) plain)) (\<lambda>_.
          bindG (teardown_step r hm port_gone (''failed to delete port '' @ name) (''delete port '' @ name)
            (KN_DeletePort (R_K8Netd r) plain)) (\<lambda>_.
          bindG (if HM_RetainDiskOnDelete (HM_Spec hm) then returnG ()
                 else failing_step r hm ''FailedTeardown'' ''failed to remove machine disks'' (''remove disks for '' @ name)
                   (osG r (removeMachineDisks (Conf_VMDiskDir (MR_Config r)) plain))) (\<lambda>_.
          drop_finalizers r hm))))))))"

section \<open>Reconcile\<close>

definition join_artifacts :: "artifact_result \<Rightarrow> artifact_result \<Rightarrow> artifact_result \<Rightarrow> artifact_result" where
  "join_artifacts root cidata confext =
     \<lparr>Art_Paths = Art_Paths root @ Art_Paths cidata @ Art_Paths confext,
      Art_SHA256s = Art_SHA256s root @ Art_SHA256s cidata @ Art_SHA256s confext\<rparr>"

definition provision_machine ::
  "('s, 'c, 'x) machine_reconciler \<Rightarrow> hypervisor_machine \<Rightarrow> machine \<Rightarrow> hypervisor_cluster \<Rightarrow> ('s, ctrl_result) go" where
  "provision_machine r hm m hc =
     (let previousImage = HMS_Image (HM_Status hm) in case resolveBaseImage r hc m of
        Inl e \<Rightarrow>
          bindG (event_onG (R_Kube r) ''HypervisorMachine'' (HM_Meta hm) ''Warning'' ''FailedProvision''
            (''failed to resolve base image for '' @ Quote (M_Name (HM_Meta hm)) @ '': '' @ err_text e)) (\<lambda>_. failG e)
      | Inr baseImage \<Rightarrow>
          let hm0 = with_status (\<lambda>st. st\<lparr>HMS_Version := MC_Version m, HMS_Image := baseImage\<rparr>) hm;
              mac = effectiveMAC r hm0 m in
          bindG (reconcileIdentity r hm0 m hc mac) (\<lambda>hm1.
          bindG (reconcileRootDisk r hm1 baseImage previousImage) (\<lambda>root.
          bindG (reconcileConfextDataDisk r hm1 m) (\<lambda>confext.
          bindG (reconcileCIDATA r hm1 m) (\<lambda>cidata.
          bindG (reconcileVMLifecycle r hm1 m mac (join_artifacts root cidata confext)) (\<lambda>_.
          returnG settled))))))"

definition Machine_Reconcile :: "('s, 'c, 'x) machine_reconciler \<Rightarrow> object_key \<Rightarrow> ('s, ctrl_result) go" where
  "Machine_Reconcile r key =
     bindG (optionalG (''get HypervisorMachine '' @ show_key key) (K_GetHypervisorMachine (R_Kube r) key)) (\<lambda>found. case found of
       None \<Rightarrow> returnG settled
     | Some hm \<Rightarrow>
         if M_DeletionTimestamp (HM_Meta hm) \<noteq> None \<and> M_Finalizers (HM_Meta hm) \<noteq> [] then Machine_reconcileDelete r hm
         else
           bindG (getOwnerMachine r hm) (\<lambda>owner. case owner of
             None \<Rightarrow> returnG settled
           | Some m \<Rightarrow>
               bindG (Machine_getLinkedCluster r m) (\<lambda>cluster. case cluster of
                 None \<Rightarrow> returnG settled
               | Some c \<Rightarrow>
                   bindG (linkedHypervisorCluster (R_Lib r) (R_Kube r) c) (\<lambda>infra. case infra of
                     None \<Rightarrow> returnG settled
                   | Some hc \<Rightarrow> provision_machine r hm m hc))))"

end
