(* ===== verification/ClusterPki.thy ===== *)
theory ClusterPki
  imports BootTrees
begin

text \<open>
  The cluster PKI as the controllers keep it: the Secret with one data key per field
  (\<open>clusterPKISecretData\<close>, \<open>decodeClusterPKI\<close> of
  \<open>controllers/hypervisorconfig_controller.go\<close>) and the kubeconfig rendered from it
  (\<open>RenderKubeconfig\<close> of \<open>internal/pki/pki.go\<close>). Reading a certificate and the
  YAML form of a document are parameters.
\<close>

section \<open>The Secret\<close>

definition pki_fields :: "(string \<times> (cluster_pki \<Rightarrow> byte list)) list" where
  "pki_fields = [(''CA'', PK_CA), (''CAKey'', PK_CAKey), (''FrontProxyCA'', PK_FrontProxyCA),
     (''FrontProxyCAKey'', PK_FrontProxyCAKey), (''APIServer'', PK_APIServer), (''APIServerKey'', PK_APIServerKey),
     (''FrontProxy'', PK_FrontProxy), (''FrontProxyKey'', PK_FrontProxyKey), (''ServiceAccount'', PK_ServiceAccount),
     (''ServiceAccountKey'', PK_ServiceAccountKey)]"

definition clusterPKISecretData :: "cluster_pki \<Rightarrow> string \<rightharpoonup> byte list" where
  "clusterPKISecretData pk = map_of (map (\<lambda>(key, field). (key, field pk)) pki_fields)"

definition field_value :: "(string \<rightharpoonup> byte list) \<Rightarrow> string \<Rightarrow> byte list" where
  "field_value d key = (case d key of None \<Rightarrow> [] | Some v \<Rightarrow> v)"

definition decodeClusterPKI :: "(string \<rightharpoonup> byte list) \<Rightarrow> goerr + cluster_pki" where
  "decodeClusterPKI d =
     (let missing = filter (\<lambda>key. d key = None) (map fst pki_fields) in
      if missing \<noteq> [] then Inl (plain_err (''cluster PKI Secret missing data keys ['' @ join_with '' '' missing @ '']''))
      else Inr \<lparr>PK_CA = field_value d ''CA'', PK_CAKey = field_value d ''CAKey'',
        PK_FrontProxyCA = field_value d ''FrontProxyCA'', PK_FrontProxyCAKey = field_value d ''FrontProxyCAKey'',
        PK_APIServer = field_value d ''APIServer'', PK_APIServerKey = field_value d ''APIServerKey'',
        PK_FrontProxy = field_value d ''FrontProxy'', PK_FrontProxyKey = field_value d ''FrontProxyKey'',
        PK_ServiceAccount = field_value d ''ServiceAccount'', PK_ServiceAccountKey = field_value d ''ServiceAccountKey''\<rparr>)"

lemma decode_pki_data: "decodeClusterPKI (clusterPKISecretData pk) = Inr pk"
  by (simp add: decodeClusterPKI_def clusterPKISecretData_def pki_fields_def field_value_def)

lemma decode_pki_complete: "(\<exists>pk. decodeClusterPKI d = Inr pk) \<longleftrightarrow> (\<forall>key\<in>set (map fst pki_fields). d key \<noteq> None)"
  by (auto simp: decodeClusterPKI_def Let_def filter_empty_conv)

section \<open>Kubeconfig\<close>

record kubeconfigClusterData =
  KCD_Server :: string
  KCD_CertificateAuthorityData :: string

record kubeconfigClusterEntry =
  KCE_Name :: string
  KCE_Cluster :: kubeconfigClusterData

record kubeconfigContextData =
  KXD_Cluster :: string
  KXD_User :: string

record kubeconfigContextEntry =
  KXE_Name :: string
  KXE_Context :: kubeconfigContextData

record kubeconfigUserData =
  KUD_ClientCertificateData :: string
  KUD_ClientKeyData :: string

record kubeconfigUserEntry =
  KUE_Name :: string
  KUE_User :: kubeconfigUserData

record kubeconfig =
  KC_APIVersion :: string
  KC_Kind :: string
  KC_Clusters :: "kubeconfigClusterEntry list"
  KC_Contexts :: "kubeconfigContextEntry list"
  KC_CurrentContext :: string
  KC_Users :: "kubeconfigUserEntry list"

text \<open>
  \<open>Pki_ParseCA\<close> is \<open>parseCACertificate\<close>, with \<open>None\<close> for a
  certificate that parses.
\<close>

record pki_lib =
  Pki_ParseCA :: "byte list \<Rightarrow> goerr option"
  Pki_MarshalYAML :: "kubeconfig \<Rightarrow> goerr + byte list"

definition pki_clusterName :: string where
  "pki_clusterName = ''kubernetes''"

definition kubeconfig_for :: "byte list \<Rightarrow> string \<Rightarrow> string \<Rightarrow> byte list \<Rightarrow> byte list \<Rightarrow> kubeconfig" where
  "kubeconfig_for caPEM serverURL user clientCert clientKey =
     \<lparr>KC_APIVersion = ''v1'', KC_Kind = ''Config'',
      KC_Clusters = [\<lparr>KCE_Name = pki_clusterName,
        KCE_Cluster = \<lparr>KCD_Server = serverURL, KCD_CertificateAuthorityData = EncodeToString caPEM\<rparr>\<rparr>],
      KC_Contexts = [\<lparr>KXE_Name = pki_clusterName, KXE_Context = \<lparr>KXD_Cluster = pki_clusterName, KXD_User = user\<rparr>\<rparr>],
      KC_CurrentContext = pki_clusterName,
      KC_Users = [\<lparr>KUE_Name = user,
        KUE_User = \<lparr>KUD_ClientCertificateData = EncodeToString clientCert, KUD_ClientKeyData = EncodeToString clientKey\<rparr>\<rparr>]\<rparr>"

definition RenderKubeconfig ::
  "pki_lib \<Rightarrow> byte list \<Rightarrow> string \<Rightarrow> string \<Rightarrow> byte list \<Rightarrow> byte list \<Rightarrow> goerr + byte list" where
  "RenderKubeconfig lib caPEM serverURL user clientCert clientKey =
     (if serverURL = [] then Inl (plain_err ''server URL must not be empty'')
      else case Pki_ParseCA lib caPEM of
        Some e \<Rightarrow> Inl e
      | None \<Rightarrow>
          (case Pki_MarshalYAML lib (kubeconfig_for caPEM serverURL user clientCert clientKey) of
             Inl e \<Rightarrow> Inl (wrap_err ''marshaling kubeconfig'' e)
           | Inr out \<Rightarrow> Inr out))"

end
