(* ===== verification/ControlPlaneController.thy ===== *)
theory ControlPlaneController
  imports Provider ProviderConfig ClusterPki
begin

text \<open>
  The control plane controller (\<open>controllers/hypervisorcontrolplane_controller.go\<close>): it
  creates the control-plane machines with their bootstrap configs, replaces machines of another
  version one at a time after taking a snapshot of etcd, removes surplus machines, reports the
  counters, and declares the control plane ready once its API server answers.
\<close>

section \<open>The reconciler\<close>

text \<open>
  The functions the reconciler is built with; \<open>None\<close> is a seam that is not wired.
  \<open>CR_CreateMachine\<close> returns the object as the client leaves it. The file system of the
  manager is the part \<open>CR_Host\<close> of the state.
\<close>

record ('s, 'x) cp_reconciler = "'s reconciler" +
  CR_NewConfig :: "hypervisor_control_plane \<Rightarrow> string \<Rightarrow> hypervisor_config"
  CR_CreateMachine :: "machine \<Rightarrow> ('s, machine) go"
  CR_GeneratePKI :: "string \<Rightarrow> ('s, cluster_pki) go"
  CR_CheckAPIServerHealth :: "(string \<Rightarrow> int32 \<Rightarrow> byte list \<Rightarrow> byte list \<Rightarrow> byte list \<Rightarrow> ('s, unit) go) option"
  CR_SeedClusterAdmin :: "(string \<Rightarrow> string \<Rightarrow> cluster_pki \<Rightarrow> ('s, unit) go) option"
  CR_CaptureEtcdSnapshot :: "(string \<Rightarrow> int32 \<Rightarrow> ('s, byte list) go) option"
  CR_Config :: provider_config
  CR_Host :: "'s \<Rightarrow> 'x host"
  CR_PutHost :: "'x host \<Rightarrow> 's \<Rightarrow> 's"
  CR_Pki :: pki_lib

definition bootstrapGroup :: string where
  "bootstrapGroup = ''bootstrap.cluster.x-k8s.io''"

definition infrastructureGroup :: string where
  "infrastructureGroup = ''infrastructure.cluster.x-k8s.io''"

definition controlPlaneReadinessPollInterval :: int where
  "controlPlaneReadinessPollInterval = 30 * 1000000000"

definition replacementPollInterval :: int where
  "replacementPollInterval = 5 * 1000000000"

abbreviation poll_readiness :: ctrl_result where
  "poll_readiness \<equiv> \<lparr>RequeueAfter = controlPlaneReadinessPollInterval\<rparr>"

abbreviation poll_replacement :: ctrl_result where
  "poll_replacement \<equiv> \<lparr>RequeueAfter = replacementPollInterval\<rparr>"

abbreviation cp_namespace :: "hypervisor_control_plane \<Rightarrow> string" where
  "cp_namespace cp \<equiv> M_Namespace (CP_Meta cp)"

abbreviation cp_event ::
  "('s, 'z) reconciler_scheme \<Rightarrow> hypervisor_control_plane \<Rightarrow> string \<Rightarrow> string \<Rightarrow> string \<Rightarrow> ('s, unit) go" where
  "cp_event r cp ty reason message \<equiv> event_onG (R_Kube r) ''HypervisorControlPlane'' (CP_Meta cp) ty reason message"

section \<open>Links\<close>

definition CP_linkedCluster :: "('s, 'z) reconciler_scheme \<Rightarrow> hypervisor_control_plane \<Rightarrow> ('s, cluster option) go" where
  "CP_linkedCluster r cp =
     bindG (wrapG (''list Clusters in '' @ Quote (cp_namespace cp)) (K_ListClusters (R_Kube r) (cp_namespace cp))) (\<lambda>clusters.
     returnG (find (\<lambda>c. let ref = CL_ControlPlaneRef c in
       Lib_IsDefined (R_Lib r) ref \<and> Ref_Name ref = M_Name (CP_Meta cp) \<and>
       (Ref_Kind ref = [] \<or> Ref_Kind ref = ''HypervisorControlPlane'')) clusters))"

definition CP_controlPlaneMachines ::
  "('s, 'z) reconciler_scheme \<Rightarrow> hypervisor_control_plane \<Rightarrow> cluster \<Rightarrow> ('s, machine list) go" where
  "CP_controlPlaneMachines r cp c =
     wrapG (''list control-plane Machines in '' @ Quote (cp_namespace cp))
       (K_ListMachines (R_Kube r) (cp_namespace cp) (control_plane_selector (R_Lib r) c))"

text \<open>\<open>strconv.ParseInt(s, 10, 32)\<close>; which error it is does not matter to the callers.\<close>

definition ParseInt32 :: "string \<Rightarrow> int option" where
  "ParseInt32 s =
     (let neg = (s \<noteq> [] \<and> hd s = CHR ''-'');
          digits = (if s \<noteq> [] \<and> (hd s = CHR ''-'' \<or> hd s = CHR ''+'') then tl s else s) in
      case parse_nat digits of
        None \<Rightarrow> None
      | Some n \<Rightarrow>
          let i = (if neg then - int n else int n)
          in if - (2 ^ 31) \<le> i \<and> i < 2 ^ 31 then Some i else None)"

definition controlPlaneMachineIndex :: "string \<Rightarrow> string \<Rightarrow> int option" where
  "controlPlaneMachineIndex machineName cpName =
     (let pre = cpName @ ''-'' in
      if \<not> HasPrefix machineName pre then None else ParseInt32 (drop (length pre) machineName))"

definition replica_name :: "hypervisor_control_plane \<Rightarrow> nat \<Rightarrow> string" where
  "replica_name cp i = M_Name (CP_Meta cp) @ ''-'' @ show_nat i"

section \<open>The cluster PKI\<close>

definition reserveControlPlaneIP ::
  "('s, 'x) cp_reconciler \<Rightarrow> hypervisor_control_plane \<Rightarrow> cluster \<Rightarrow> ('s, string) go" where
  "reserveControlPlaneIP r cp c =
     bindG (linkedHypervisorCluster (R_Lib r) (R_Kube r) c) (\<lambda>linked. case linked of
       None \<Rightarrow> failG (plain_err (''reserve control-plane IP: HypervisorCluster for Cluster '' @
         Quote (M_Name (CL_Meta c)) @ '' not found''))
     | Some hc \<Rightarrow>
         let network = M_Name (HC_Meta hc); cp0MAC = Derive (M_Name (CL_Meta c)) (replica_name cp 0);
             what = ''reserve control-plane IP for MAC '' @ Quote cp0MAC @ '' on network '' @ Quote network in
         case R_Agent r of
           Some a \<Rightarrow>
             bindG (wrapG (''ensure control-plane network '' @ Quote network)
               (HA_EnsureNetwork a (hostMutation ''agent'' (M_UID (HC_Meta hc)) (M_Generation (HC_Meta hc)) ''network'')
                  \<lparr>NetReq_Name = network, NetReq_CIDR = HC_CIDR (HC_Network (HC_Spec hc))\<rparr>)) (\<lambda>_.
             bindG (wrapG what
               (HA_EnsurePort a (hostMutation ''agent'' (M_UID (CP_Meta cp)) (M_Generation (CP_Meta cp)) ''reserve-control-plane'')
                  \<lparr>PortReq_Name = replica_name cp 0, PortReq_Network = network, PortReq_MAC = cp0MAC\<rparr>)) (\<lambda>observed.
             returnG (PortObs_IP observed)))
         | None \<Rightarrow> wrapG what (KN_AllocateIP (R_K8Netd r) network cp0MAC))"

definition pki_key :: "hypervisor_control_plane \<Rightarrow> cluster \<Rightarrow> object_key" where
  "pki_key cp c = (cp_namespace cp, M_Name (CL_Meta c) @ ''-pki'')"

definition ensureClusterPKISecret ::
  "('s, 'x) cp_reconciler \<Rightarrow> hypervisor_control_plane \<Rightarrow> cluster \<Rightarrow> ('s, unit) go" where
  "ensureClusterPKISecret r cp c =
     (let key = pki_key cp c in
      bindG (optionalG (''get cluster PKI Secret '' @ show_key key) (K_GetSecret (R_Kube r) key)) (\<lambda>found. case found of
        Some _ \<Rightarrow> returnG ()
      | None \<Rightarrow>
          bindG (reserveControlPlaneIP r cp c) (\<lambda>cpIP.
          bindG (wrapG ''generate cluster PKI'' (CR_GeneratePKI r cpIP)) (\<lambda>pk.
          toleratingG IsAlreadyExists_api (''create cluster PKI Secret '' @ show_key key)
            (K_CreateSecret (R_Kube r) \<lparr>Sec_Meta = new_meta (fst key) (snd key), Sec_Data = clusterPKISecretData pk\<rparr>)))))"

definition CP_clusterPKI :: "('s, 'z) reconciler_scheme \<Rightarrow> hypervisor_control_plane \<Rightarrow> cluster \<Rightarrow> ('s, cluster_pki) go" where
  "CP_clusterPKI r cp c =
     (let key = pki_key cp c in
      bindG (wrapG (''get cluster PKI Secret '' @ show_key key) (K_GetSecret (R_Kube r) key)) (\<lambda>secret.
      wrapG (''read stored cluster PKI Secret '' @ show_key key) (liftG (decodeClusterPKI (Sec_Data secret)))))"

section \<open>Machines\<close>

definition machineFor ::
  "('s, 'x) cp_reconciler \<Rightarrow> hypervisor_control_plane \<Rightarrow> cluster \<Rightarrow> string \<Rightarrow> hypervisor_config \<Rightarrow> goerr + machine" where
  "machineFor r cp c machineName cfg =
     (let labels = [Lib_ClusterNameLabel (R_Lib r) \<mapsto> M_Name (CL_Meta c), Lib_ControlPlaneLabel (R_Lib r) \<mapsto> []] ++
            CP_TemplateLabels (CP_Spec cp);
          meta = (new_meta (cp_namespace cp) machineName)\<lparr>M_Labels := labels\<rparr> in
      case Lib_SetControllerReference (R_Lib r) ''HypervisorControlPlane'' (CP_Meta cp) meta of
        Inl e \<Rightarrow> Inl (wrap_err (''set controller owner reference on Machine '' @ Quote machineName) e)
      | Inr meta' \<Rightarrow> Inr \<lparr>MC_Meta = meta', MC_Version = CP_Version (CP_Spec cp), MC_ClusterName = M_Name (CL_Meta c),
          MC_BootstrapRef = \<lparr>Ref_APIGroup = bootstrapGroup, Ref_Kind = ''HypervisorConfig'', Ref_Name = M_Name (Cfg_Meta cfg)\<rparr>,
          MC_InfrastructureRef = \<lparr>Ref_APIGroup = infrastructureGroup, Ref_Kind = ''HypervisorMachine'', Ref_Name = machineName\<rparr>\<rparr>)"

definition zero_hm_status :: hm_status where
  "zero_hm_status = \<lparr>HMS_Ready = False, HMS_Version = [], HMS_Image = [], HMS_Provisioned = None, HMS_Addresses = [],
     HMS_PublishedPorts = [], HMS_ProviderID = None, HMS_FailureReason = [], HMS_FailureMessage = [], HMS_Conditions = []\<rparr>"

definition ensureHypervisorMachine ::
  "('s, 'x) cp_reconciler \<Rightarrow> hypervisor_control_plane \<Rightarrow> cluster \<Rightarrow> machine \<Rightarrow> ('s, unit) go" where
  "ensureHypervisorMachine r cp c m =
     (let name = M_Name (MC_Meta m); ns = cp_namespace cp; ref = CP_InfrastructureRef (CP_Spec cp) in
      bindG (optionalG (''get HypervisorMachine '' @ Quote name) (K_GetHypervisorMachine (R_Kube r) (ns, name))) (\<lambda>found. case found of
        Some _ \<Rightarrow> returnG ()
      | None \<Rightarrow>
          bindG (wrapG (''get HypervisorMachineTemplate '' @ show_key (ns, Ref_Name ref))
            (K_GetMachineTemplate (R_Kube r) (ns, Ref_Name ref))) (\<lambda>tmpl.
          let labels = (M_Labels (HMT_TemplateMeta tmpl) ++ M_Labels (MC_Meta m))
                (Lib_ClusterNameLabel (R_Lib r) \<mapsto> M_Name (CL_Meta c));
              groupKind = (if Ref_APIGroup ref \<noteq> [] then Ref_Kind ref @ ''.'' @ Ref_APIGroup ref else Ref_Kind ref);
              meta = (new_meta ns name)\<lparr>M_Labels := labels,
                M_Annotations := [Lib_ClonedFromName (R_Lib r) \<mapsto> Ref_Name ref, Lib_ClonedFromGroupKind (R_Lib r) \<mapsto> groupKind]\<rparr> in
          bindG (wrapG (''set controller owner reference on HypervisorMachine '' @ Quote name)
            (liftG (Lib_SetControllerReference (R_Lib r) ''Machine'' (MC_Meta m) meta))) (\<lambda>meta'.
          catchG (K_CreateHypervisorMachine (R_Kube r)
              \<lparr>HM_Meta = meta', HM_Spec = (HMT_TemplateSpec tmpl)\<lparr>HM_ClusterName := M_Name (CL_Meta c)\<rparr>, HM_Status = zero_hm_status\<rparr>)
            (\<lambda>res. case res of
               Inl e \<Rightarrow>
                 if IsAlreadyExists_api e then returnG ()
                 else bindG (cp_event r cp ''Warning'' ''FailedCreateHypervisorMachine''
                        (''failed to create HypervisorMachine '' @ Quote name @ '': '' @ err_text e))
                        (\<lambda>_. failG (wrap_err (''create HypervisorMachine '' @ Quote name) e))
             | Inr _ \<Rightarrow> returnG ())))))"

text \<open>The config of a replica: one that replaces a machine restores the recorded snapshot.\<close>

definition replica_config ::
  "('s, 'x) cp_reconciler \<Rightarrow> hypervisor_control_plane \<Rightarrow> cluster \<Rightarrow> string \<Rightarrow> hypervisor_config" where
  "replica_config r cp c machineName =
     (let cfg = CR_NewConfig r cp machineName;
          cfg1 = (if M_Namespace (Cfg_Meta cfg) = [] then cfg\<lparr>Cfg_Meta := (Cfg_Meta cfg)\<lparr>M_Namespace := cp_namespace cp\<rparr>\<rparr> else cfg);
          spec = (Cfg_Spec cfg1)\<lparr>Cfg_ClusterName := M_Name (CL_Meta c), Cfg_NodeName := machineName\<rparr> in
      cfg1\<lparr>Cfg_Spec := (case CPS_Replacement (CP_Status cp) of
         Some rep \<Rightarrow>
           if Rep_MachineName rep = machineName \<and> Rep_TargetVersion rep = CP_Version (CP_Spec cp)
           then spec\<lparr>Cfg_EtcdSnapshotHostPath := Rep_SnapshotPath rep\<rparr> else spec
       | None \<Rightarrow> spec)\<rparr>)"

definition create_replica ::
  "('s, 'x) cp_reconciler \<Rightarrow> hypervisor_control_plane \<Rightarrow> cluster \<Rightarrow> string \<Rightarrow> ('s, machine) go" where
  "create_replica r cp c machineName =
     (let cfg = replica_config r cp c machineName in
      bindG (catchG (ensureClusterPKISecret r cp c) (\<lambda>res. case res of
          Inl e \<Rightarrow> bindG (cp_event r cp ''Warning'' ''FailedClusterPKI'' (''failed to ensure cluster PKI Secret: '' @ err_text e)) (\<lambda>_. failG e)
        | Inr _ \<Rightarrow> returnG ())) (\<lambda>_.
      bindG (toleratingG IsAlreadyExists_api (''create HypervisorConfig '' @ show_key (meta_key (Cfg_Meta cfg)))
        (K_CreateConfig (R_Kube r) cfg)) (\<lambda>_.
      bindG (liftG (machineFor r cp c machineName cfg)) (\<lambda>m.
      reportedG (R_Kube r) ''HypervisorControlPlane'' (CP_Meta cp) ''FailedCreateMachine''
        (''failed to create Machine '' @ Quote machineName) (''create Machine '' @ Quote machineName) (CR_CreateMachine r m)))))"

text \<open>One round of the creation loop; \<open>True\<close> means that the predecessor is still there.\<close>

definition ensure_replica ::
  "('s, 'x) cp_reconciler \<Rightarrow> hypervisor_control_plane \<Rightarrow> cluster \<Rightarrow> string \<Rightarrow> ('s, bool) go" where
  "ensure_replica r cp c machineName =
     (let key = (cp_namespace cp, machineName) in
      bindG (optionalG (''get Machine '' @ Quote machineName) (K_GetMachine (R_Kube r) key)) (\<lambda>found. case found of
        Some m \<Rightarrow> bindG (ensureHypervisorMachine r cp c m) (\<lambda>_. returnG False)
      | None \<Rightarrow>
          bindG (optionalG (''get HypervisorMachine '' @ Quote machineName) (K_GetHypervisorMachine (R_Kube r) key)) (\<lambda>leftover. case leftover of
            Some _ \<Rightarrow> returnG True
          | None \<Rightarrow>
              bindG (create_replica r cp c machineName) (\<lambda>m.
              bindG (ensureHypervisorMachine r cp c m) (\<lambda>_. returnG False)))))"

fun ensure_replicas ::
  "('s, 'x) cp_reconciler \<Rightarrow> hypervisor_control_plane \<Rightarrow> cluster \<Rightarrow> string list \<Rightarrow> ('s, bool) go" where
  "ensure_replicas r cp c [] = returnG False"
| "ensure_replicas r cp c (n # ns) =
     bindG (ensure_replica r cp c n) (\<lambda>waiting. if waiting then returnG True else ensure_replicas r cp c ns)"

definition scale_down_one :: "('s, 'z) reconciler_scheme \<Rightarrow> hypervisor_control_plane \<Rightarrow> int \<Rightarrow> machine \<Rightarrow> ('s, unit) go" where
  "scale_down_one r cp replicas m =
     (let name = M_Name (MC_Meta m) in case controlPlaneMachineIndex name (M_Name (CP_Meta cp)) of
        None \<Rightarrow> returnG ()
      | Some index \<Rightarrow>
          if index < replicas then returnG ()
          else
            bindG (toleratingG IsNotFound_api (''delete surplus Machine '' @ Quote name) (K_DeleteMachine (R_Kube r) m)) (\<lambda>_.
            cp_event r cp ''Normal'' ''DeletedMachine'' (''deleted surplus Machine '' @ Quote name)))"

definition scaleDownMachines ::
  "('s, 'z) reconciler_scheme \<Rightarrow> hypervisor_control_plane \<Rightarrow> cluster \<Rightarrow> int \<Rightarrow> ('s, unit) go" where
  "scaleDownMachines r cp c replicas =
     bindG (CP_controlPlaneMachines r cp c) (\<lambda>machines. eachG (scale_down_one r cp replicas) machines)"

end
