(* ===== verification/ControlPlaneReconcile.thy ===== *)
theory ControlPlaneReconcile
  imports ControlPlaneController
begin

text \<open>
  The control plane controller (\<open>controllers/hypervisorcontrolplane_controller.go\<close>), second
  part: replacing a machine of another version, the counters, readiness, and \<open>Reconcile\<close>.
\<close>

section \<open>Replacing a machine\<close>

definition machineDrifted :: "machine \<Rightarrow> string \<Rightarrow> bool" where
  "machineDrifted m desired \<longleftrightarrow> MC_Version m \<noteq> [] \<and> MC_Version m \<noteq> desired"

definition snapshotsDirName :: string where
  "snapshotsDirName = ''snapshots''"

definition snapshot_path :: "string \<Rightarrow> string \<Rightarrow> string \<Rightarrow> string \<Rightarrow> string" where
  "snapshot_path stateDir clusterName machineName version =
     Join (Join (Join stateDir clusterName) snapshotsDirName) (machineName @ ''-'' @ version @ ''.db'')"

definition writeEtcdSnapshot :: "string \<Rightarrow> string \<Rightarrow> string \<Rightarrow> string \<Rightarrow> byte list \<Rightarrow> ('x host, string) go" where
  "writeEtcdSnapshot stateDir clusterName machineName version snapshot =
     (let path = snapshot_path stateDir clusterName machineName version in
      if stateDir = [] then failG (plain_err (''provider state dir is empty; cannot persist the etcd snapshot for '' @ Quote machineName))
      else
        bindG (wrapG (''create snapshot dir for '' @ Quote machineName) (os_MkdirAll (Dir path))) (\<lambda>_.
        bindG (wrapG (''write etcd snapshot '' @ Quote path) (os_WriteFile path snapshot)) (\<lambda>_.
        returnG path)))"

definition with_replacement :: "cp_replacement option \<Rightarrow> hypervisor_control_plane \<Rightarrow> hypervisor_control_plane" where
  "with_replacement rep cp = cp\<lparr>CP_Status := (CP_Status cp)\<lparr>CPS_Replacement := rep\<rparr>\<rparr>"

definition cp_osG :: "('s, 'x) cp_reconciler \<Rightarrow> ('x host, 'a) go \<Rightarrow> ('s, 'a) go" where
  "cp_osG r m = onG (CR_Host r) (CR_PutHost r) m"

definition captureReplacementSnapshot ::
  "('s, 'x) cp_reconciler \<Rightarrow> hypervisor_control_plane \<Rightarrow> cluster \<Rightarrow> machine \<Rightarrow> ('s, ctrl_result \<times> hypervisor_control_plane) go" where
  "captureReplacementSnapshot r cp c m =
     (let name = M_Name (MC_Meta m); version = CP_Version (CP_Spec cp); waiting = returnG (poll_replacement, cp) in
      case CR_CaptureEtcdSnapshot r of
        None \<Rightarrow> failG (plain_err (''control plane Machine '' @ Quote name @ '' must be replaced to version '' @ Quote version @
          '' but the etcd snapshot seam is not wired''))
      | Some capture \<Rightarrow>
          bindG (optionalG (''get HypervisorMachine '' @ Quote name)
            (K_GetHypervisorMachine (R_Kube r) (cp_namespace cp, name))) (\<lambda>found. case found of
            None \<Rightarrow> waiting
          | Some hm \<Rightarrow>
              (case publishedHostPort (HMS_PublishedPorts (HM_Status hm)) controlPlaneEtcdClientPort of
                 None \<Rightarrow> waiting
               | Some hostPort \<Rightarrow>
                   bindG (reportedG (R_Kube r) ''HypervisorControlPlane'' (CP_Meta cp) ''FailedEtcdSnapshot''
                     (''failed to capture etcd snapshot for '' @ Quote name) (''capture etcd snapshot for '' @ Quote name)
                     (capture ''127.0.0.1'' hostPort)) (\<lambda>snapshot.
                   bindG (cp_osG r (writeEtcdSnapshot (Conf_StateDir (CR_Config r)) (M_Name (CL_Meta c)) name version snapshot)) (\<lambda>path.
                   bindG (wrapG ''record HypervisorControlPlane replacement status'' (K_UpdateControlPlaneStatus (R_Kube r)
                     (with_replacement (Some \<lparr>Rep_MachineName = name, Rep_TargetVersion = version, Rep_SnapshotPath = path\<rparr>) cp))) (\<lambda>cp'.
                   bindG (cp_event r cp' ''Normal'' ''EtcdSnapshotCaptured''
                     (''captured etcd snapshot for Machine '' @ Quote name @ '' at '' @ Quote path)) (\<lambda>_.
                   returnG (poll_replacement, cp'))))))))"

text \<open>Get an object and delete it if it is there.\<close>

definition delete_if_there :: "string \<Rightarrow> string \<Rightarrow> ('s, 'a) go \<Rightarrow> ('a \<Rightarrow> ('s, unit) go) \<Rightarrow> ('s, unit) go" where
  "delete_if_there get_text delete_text get delete =
     bindG (optionalG get_text get) (\<lambda>found. case found of
       None \<Rightarrow> returnG ()
     | Some x \<Rightarrow> toleratingG IsNotFound_api delete_text (delete x))"

definition deleteReplacedMachine ::
  "('s, 'z) reconciler_scheme \<Rightarrow> hypervisor_control_plane \<Rightarrow> machine \<Rightarrow> ('s, ctrl_result) go" where
  "deleteReplacedMachine r cp m =
     (let name = M_Name (MC_Meta m); cfgName = name @ ''-config''; ns = cp_namespace cp in
      bindG (toleratingG IsNotFound_api (''delete replaced Machine '' @ Quote name) (K_DeleteMachine (R_Kube r) m)) (\<lambda>_.
      bindG (delete_if_there (''get bootstrap config '' @ Quote cfgName) (''delete bootstrap config '' @ Quote cfgName)
        (K_GetConfig (R_Kube r) (ns, cfgName)) (K_DeleteConfig (R_Kube r))) (\<lambda>_.
      bindG (delete_if_there (''get HypervisorMachine '' @ Quote name) (''delete HypervisorMachine '' @ Quote name)
        (K_GetHypervisorMachine (R_Kube r) (ns, name)) (K_DeleteHypervisorMachine (R_Kube r))) (\<lambda>_.
      returnG poll_replacement))))"

text \<open>The machine of another version with the highest index below the number of replicas.\<close>

fun highest_drifted ::
  "hypervisor_control_plane \<Rightarrow> int \<Rightarrow> machine list \<Rightarrow> (machine \<times> int) option \<Rightarrow> (machine \<times> int) option" where
  "highest_drifted cp replicas [] best = best"
| "highest_drifted cp replicas (m # ms) best = highest_drifted cp replicas ms
     (if \<not> machineDrifted m (CP_Version (CP_Spec cp)) then best
      else case controlPlaneMachineIndex (M_Name (MC_Meta m)) (M_Name (CP_Meta cp)) of
        None \<Rightarrow> best
      | Some index \<Rightarrow>
          if index \<ge> replicas then best
          else (case best of
            None \<Rightarrow> Some (m, index)
          | Some (_, driftIndex) \<Rightarrow> if index > driftIndex then Some (m, index) else best))"

definition replacement_recorded :: "hypervisor_control_plane \<Rightarrow> string \<Rightarrow> bool" where
  "replacement_recorded cp name = (case CPS_Replacement (CP_Status cp) of
     None \<Rightarrow> False
   | Some rep \<Rightarrow> Rep_MachineName rep = name \<and> Rep_TargetVersion rep = CP_Version (CP_Spec cp))"

definition reconcileVersionDrift ::
  "('s, 'x) cp_reconciler \<Rightarrow> hypervisor_control_plane \<Rightarrow> cluster \<Rightarrow> int \<Rightarrow> ('s, ctrl_result \<times> hypervisor_control_plane) go" where
  "reconcileVersionDrift r cp c replicas =
     (if CP_Version (CP_Spec cp) = [] then returnG (settled, cp)
      else
        bindG (CP_controlPlaneMachines r cp c) (\<lambda>machines. case highest_drifted cp replicas machines None of
          Some (m, _) \<Rightarrow>
            if \<not> replacement_recorded cp (M_Name (MC_Meta m)) then captureReplacementSnapshot r cp c m
            else bindG (deleteReplacedMachine r cp m) (\<lambda>res. returnG (res, cp))
        | None \<Rightarrow>
            (case CPS_Replacement (CP_Status cp) of
               None \<Rightarrow> returnG (settled, cp)
             | Some rep \<Rightarrow>
                 bindG (optionalG (''get replaced Machine '' @ Quote (Rep_MachineName rep))
                   (K_GetMachine (R_Kube r) (cp_namespace cp, Rep_MachineName rep))) (\<lambda>found. case found of
                   None \<Rightarrow> returnG (settled, cp)
                 | Some m \<Rightarrow>
                     if machineDrifted m (CP_Version (CP_Spec cp)) then returnG (settled, cp)
                     else
                       bindG (wrapG ''clear HypervisorControlPlane replacement status''
                         (K_UpdateControlPlaneStatus (R_Kube r) (with_replacement None cp))) (\<lambda>cp'.
                       returnG (settled, cp'))))))"

section \<open>Counters\<close>

fun count_ready :: "('s, 'z) reconciler_scheme \<Rightarrow> string \<Rightarrow> machine list \<Rightarrow> int32 \<Rightarrow> ('s, int32) go" where
  "count_ready r ns [] ready = returnG ready"
| "count_ready r ns (m # ms) ready =
     bindG (optionalG (''get HypervisorMachine '' @ Quote (M_Name (MC_Meta m)))
       (K_GetHypervisorMachine (R_Kube r) (ns, M_Name (MC_Meta m)))) (\<lambda>found. case found of
       None \<Rightarrow> count_ready r ns ms ready
     | Some hm \<Rightarrow> count_ready r ns ms (if HMS_Ready (HM_Status hm) then ready + 1 else ready))"

definition machineReplicaCounts ::
  "('s, 'z) reconciler_scheme \<Rightarrow> hypervisor_control_plane \<Rightarrow> cluster \<Rightarrow> ('s, int32 \<times> int32) go" where
  "machineReplicaCounts r cp c =
     bindG (CP_controlPlaneMachines r cp c) (\<lambda>machines.
     bindG (count_ready r (cp_namespace cp) machines 0) (\<lambda>ready.
     returnG (of_nat (length machines), ready)))"

definition updateScaleStatus ::
  "('s, 'z) reconciler_scheme \<Rightarrow> hypervisor_control_plane \<Rightarrow> cluster \<Rightarrow> ('s, hypervisor_control_plane) go" where
  "updateScaleStatus r cp c =
     bindG (machineReplicaCounts r cp c) (\<lambda>(created, ready).
     wrapG ''update HypervisorControlPlane scale status'' (K_UpdateControlPlaneStatus (R_Kube r)
       (cp\<lparr>CP_Status := (CP_Status cp)\<lparr>CPS_Version := Some (CP_Version (CP_Spec cp)), CPS_Replicas := created,
          CPS_UpdatedReplicas := created, CPS_ReadyReplicas := ready, CPS_UnavailableReplicas := created - ready\<rparr>\<rparr>)))"

section \<open>Readiness\<close>

definition firstControlPlaneMachine ::
  "('s, 'z) reconciler_scheme \<Rightarrow> hypervisor_control_plane \<Rightarrow> cluster \<Rightarrow> ('s, machine option) go" where
  "firstControlPlaneMachine r cp c =
     bindG (CP_controlPlaneMachines r cp c) (\<lambda>machines.
     returnG (case sort_key (\<lambda>m. M_Name (MC_Meta m)) machines of [] \<Rightarrow> None | m # _ \<Rightarrow> Some m))"

definition controlPlaneKubeconfigDataKey :: string where
  "controlPlaneKubeconfigDataKey = ''value''"

definition controlPlaneKubeconfigUser :: string where
  "controlPlaneKubeconfigUser = ''admin''"

definition ensureKubeconfigSecret ::
  "('s, 'x) cp_reconciler \<Rightarrow> hypervisor_control_plane \<Rightarrow> cluster \<Rightarrow> string \<Rightarrow> cluster_pki \<Rightarrow> ('s, unit) go" where
  "ensureKubeconfigSecret r cp c serverURL pk =
     (let name = M_Name (CL_Meta c); key = (cp_namespace cp, name @ ''-kubeconfig''); label = Lib_ClusterNameLabel (R_Lib r) in
      bindG (wrapG ''render admin kubeconfig''
        (liftG (RenderKubeconfig (CR_Pki r) (PK_CA pk) serverURL controlPlaneKubeconfigUser (PK_CA pk) (PK_CAKey pk)))) (\<lambda>rendered.
      bindG (optionalG (''get kubeconfig Secret '' @ show_key key) (K_GetSecret (R_Kube r) key)) (\<lambda>found. case found of
        None \<Rightarrow>
          toleratingG IsAlreadyExists_api (''create kubeconfig Secret '' @ show_key key) (K_CreateSecret (R_Kube r)
            \<lparr>Sec_Meta = (new_meta (fst key) (snd key))\<lparr>M_Labels := [label \<mapsto> name]\<rparr>,
             Sec_Data = [controlPlaneKubeconfigDataKey \<mapsto> rendered]\<rparr>)
      | Some secret \<Rightarrow>
          (let labels = M_Labels (Sec_Meta secret);
               labels' = (if labels label = None then labels(label \<mapsto> name) else labels) in
           if field_value (Sec_Data secret) controlPlaneKubeconfigDataKey = rendered \<and> labels' label = Some name then returnG ()
           else wrapG (''update kubeconfig Secret '' @ show_key key) (K_UpdateSecret (R_Kube r)
             (secret\<lparr>Sec_Meta := (Sec_Meta secret)\<lparr>M_Labels := labels'\<rparr>,
                     Sec_Data := (Sec_Data secret)(controlPlaneKubeconfigDataKey \<mapsto> rendered)\<rparr>))))))"

definition controlPlaneReadyConditionType :: string where
  "controlPlaneReadyConditionType = ''ControlPlaneReady''"

definition markControlPlaneReady ::
  "provider_lib \<Rightarrow> hypervisor_control_plane \<Rightarrow> string \<Rightarrow> string \<Rightarrow> string \<Rightarrow> hypervisor_control_plane" where
  "markControlPlaneReady lib cp status reason message =
     cp\<lparr>CP_Status := (CP_Status cp)\<lparr>CPS_Conditions := Lib_SetStatusCondition lib (CPS_Conditions (CP_Status cp))
        \<lparr>Cond_Type = controlPlaneReadyConditionType, Cond_Status = status, Cond_Reason = reason, Cond_Message = message\<rparr>\<rparr>\<rparr>"

definition ready_control_plane :: "provider_lib \<Rightarrow> hypervisor_control_plane \<Rightarrow> hypervisor_control_plane" where
  "ready_control_plane lib cp =
     markControlPlaneReady lib (cp\<lparr>CP_Status := (CP_Status cp)\<lparr>CPS_Initialized := True, CPS_ControlPlaneInitialized := Some True,
       CPS_Ready := True\<rparr>\<rparr>) ''True'' ''ControlPlaneReady'' ''control plane apiserver is healthy''"

definition server_url :: "int32 \<Rightarrow> string" where
  "server_url hostPort = ''https://host.containers.internal:'' @ show_int (sint hostPort)"

text \<open>Whether the API server answers: a control plane that is ready is not polled again.\<close>

definition apiserver_healthy :: "('s, 'x) cp_reconciler \<Rightarrow> hypervisor_control_plane \<Rightarrow> int32 \<Rightarrow> cluster_pki \<Rightarrow> ('s, bool) go" where
  "apiserver_healthy r cp hostPort pk =
     (if CPS_Ready (CP_Status cp) then returnG True
      else case CR_CheckAPIServerHealth r of
        None \<Rightarrow> returnG False
      | Some check \<Rightarrow>
          catchG (check ''host.containers.internal'' hostPort (PK_CA pk) (PK_CAKey pk) (PK_CA pk)) (\<lambda>res.
            returnG (case res of Inl _ \<Rightarrow> False | Inr _ \<Rightarrow> True)))"

definition report_ready ::
  "('s, 'x) cp_reconciler \<Rightarrow> hypervisor_control_plane \<Rightarrow> cluster \<Rightarrow> string \<Rightarrow> string \<Rightarrow> cluster_pki \<Rightarrow> ('s, ctrl_result) go" where
  "report_ready r cp c serverURL cpIP pk =
     bindG (ensureKubeconfigSecret r cp c serverURL pk) (\<lambda>_.
     bindG (case CR_SeedClusterAdmin r of None \<Rightarrow> returnG () | Some seed \<Rightarrow> seed serverURL cpIP pk) (\<lambda>_.
     if CPS_Ready (CP_Status cp) then returnG settled
     else
       bindG (wrapG ''update HypervisorControlPlane readiness status''
         (K_UpdateControlPlaneStatus (R_Kube r) (ready_control_plane (R_Lib r) cp))) (\<lambda>_. returnG settled)))"

definition reconcileReadiness ::
  "('s, 'x) cp_reconciler \<Rightarrow> hypervisor_control_plane \<Rightarrow> cluster \<Rightarrow> ('s, ctrl_result) go" where
  "reconcileReadiness r cp c =
     bindG (firstControlPlaneMachine r cp c) (\<lambda>first. case first of
       None \<Rightarrow> returnG poll_readiness
     | Some m \<Rightarrow>
         bindG (optionalG (''get HypervisorMachine '' @ Quote (M_Name (MC_Meta m)))
           (K_GetHypervisorMachine (R_Kube r) (cp_namespace cp, M_Name (MC_Meta m)))) (\<lambda>found. case found of
           None \<Rightarrow> returnG poll_readiness
         | Some hm \<Rightarrow>
             let cpIP = internalIPAddress (R_Lib r) (HMS_Addresses (HM_Status hm)) in
             if cpIP = [] then returnG poll_readiness
             else case publishedHostPort (HMS_PublishedPorts (HM_Status hm)) controlPlaneAPIServerPort of
               None \<Rightarrow> returnG poll_readiness
             | Some hostPort \<Rightarrow>
                 bindG (CP_clusterPKI r cp c) (\<lambda>pk.
                 bindG (apiserver_healthy r cp hostPort pk) (\<lambda>healthy.
                 if \<not> healthy then returnG poll_readiness
                 else report_ready r cp c (server_url hostPort) cpIP pk))))"

section \<open>Reconcile\<close>

definition reconcile_control_plane ::
  "('s, 'x) cp_reconciler \<Rightarrow> hypervisor_control_plane \<Rightarrow> cluster \<Rightarrow> ('s, ctrl_result) go" where
  "reconcile_control_plane r cp c =
     (let replicas = effective_replicas cp in
      bindG (reconcileVersionDrift r cp c replicas) (\<lambda>(res, cp1).
      if RequeueAfter res > 0 then returnG res
      else
        bindG (ensure_replicas r cp1 c (map (replica_name cp1) [0..<nat replicas])) (\<lambda>waiting.
        if waiting then returnG poll_replacement
        else
          bindG (scaleDownMachines r cp1 c replicas) (\<lambda>_.
          bindG (updateScaleStatus r cp1 c) (\<lambda>cp2.
          reconcileReadiness r cp2 c)))))"

definition ControlPlane_Reconcile :: "('s, 'x) cp_reconciler \<Rightarrow> object_key \<Rightarrow> ('s, ctrl_result) go" where
  "ControlPlane_Reconcile r key =
     bindG (optionalG (''get HypervisorControlPlane '' @ show_key key) (K_GetControlPlane (R_Kube r) key)) (\<lambda>found. case found of
       None \<Rightarrow> returnG settled
     | Some cp \<Rightarrow>
         bindG (CP_linkedCluster r cp) (\<lambda>linked. case linked of
           None \<Rightarrow> returnG settled
         | Some c \<Rightarrow> reconcile_control_plane r cp c))"

definition clusterToHypervisorControlPlane :: "provider_lib \<Rightarrow> cluster \<Rightarrow> object_key list" where
  "clusterToHypervisorControlPlane lib c =
     (let ref = CL_ControlPlaneRef c in
      if \<not> Lib_IsDefined lib ref \<or> Ref_Kind ref \<noteq> ''HypervisorControlPlane'' \<or> Ref_Name ref = [] then []
      else [(M_Namespace (CL_Meta c), Ref_Name ref)])"

end
