(* ===== verification/ApiLog.thy ===== *)
theory ApiLog
  imports Provider
begin

text \<open>
  What a controller writes to the API server. The state may keep a log of the writes: a read or an
  event leaves it alone, a write adds itself (or, when it fails on the way, nothing). The relation
  \<open>wrote log ok\<close> says that every write between two states is of a permitted kind; a
  controller is followed call by call to see that it holds for a whole run, whatever the calls answer.
\<close>

datatype api_write =
    WUpdateHC hypervisor_cluster
  | WPatchHC hypervisor_cluster hypervisor_cluster
  | WUpdateHCStatus hypervisor_cluster
  | WDeleteMachine machine
  | WCreateHM hypervisor_machine
  | WUpdateHM hypervisor_machine
  | WUpdateHMStatus hypervisor_machine
  | WDeleteHM hypervisor_machine
  | WUpdateCPStatus hypervisor_control_plane
  | WCreateConfig hypervisor_config
  | WDeleteConfig hypervisor_config
  | WUpdateConfigStatus hypervisor_config
  | WCreateSecret secret
  | WUpdateSecret secret
  | WCreateMachine machine

definition ignoringG :: "('s, 'a) go \<Rightarrow> ('s, unit) go" where
  "ignoringG m = bindG m (\<lambda>_. returnG ())"

text \<open>The call of the client that makes a write; a Machine is created by the function of the control plane controller.\<close>

fun performs :: "'s provider_kube \<Rightarrow> api_write \<Rightarrow> ('s, unit) go" where
  "performs k (WUpdateHC h) = ignoringG (K_UpdateHypervisorCluster k h)"
| "performs k (WPatchHC h h') = ignoringG (K_PatchHypervisorCluster k h h')"
| "performs k (WUpdateHCStatus h) = ignoringG (K_UpdateHypervisorClusterStatus k h)"
| "performs k (WDeleteMachine m) = K_DeleteMachine k m"
| "performs k (WCreateHM h) = K_CreateHypervisorMachine k h"
| "performs k (WUpdateHM h) = ignoringG (K_UpdateHypervisorMachine k h)"
| "performs k (WUpdateHMStatus h) = ignoringG (K_UpdateHypervisorMachineStatus k h)"
| "performs k (WDeleteHM h) = K_DeleteHypervisorMachine k h"
| "performs k (WUpdateCPStatus cp) = ignoringG (K_UpdateControlPlaneStatus k cp)"
| "performs k (WCreateConfig c) = K_CreateConfig k c"
| "performs k (WDeleteConfig c) = K_DeleteConfig k c"
| "performs k (WUpdateConfigStatus c) = ignoringG (K_UpdateConfigStatus k c)"
| "performs k (WCreateSecret x) = K_CreateSecret k x"
| "performs k (WUpdateSecret x) = K_UpdateSecret k x"
| "performs k (WCreateMachine m) = returnG ()"

definition silent :: "('s \<Rightarrow> api_write list) \<Rightarrow> ('s, 'a) go \<Rightarrow> bool" where
  "silent log m \<longleftrightarrow> steps (\<lambda>s t. log t = log s) m"

definition logs_as :: "('s \<Rightarrow> api_write list) \<Rightarrow> api_write \<Rightarrow> ('s, 'a) go \<Rightarrow> bool" where
  "logs_as log w m \<longleftrightarrow> steps (\<lambda>s t. log t = log s \<or> log t = w # log s) m"

definition api_logged :: "('s \<Rightarrow> api_write list) \<Rightarrow> 's provider_kube \<Rightarrow> bool" where
  "api_logged log k \<longleftrightarrow>
     (\<forall>key. silent log (K_GetCluster k key)) \<and> (\<forall>key. silent log (K_GetHypervisorCluster k key)) \<and>
     (\<forall>key. silent log (K_GetControlPlane k key)) \<and> (\<forall>n l. silent log (K_ListMachines k n l)) \<and>
     (\<forall>n. silent log (K_ListClusters k n)) \<and> (\<forall>key. silent log (K_GetMachine k key)) \<and>
     (\<forall>key. silent log (K_GetHypervisorMachine k key)) \<and> (\<forall>key. silent log (K_GetMachineTemplate k key)) \<and>
     (\<forall>key. silent log (K_GetConfig k key)) \<and> (\<forall>n. silent log (K_ListConfigs k n)) \<and> (\<forall>key. silent log (K_GetSecret k key)) \<and>
     (\<forall>kind m ty reason msg s. log (K_EventOn k kind m ty reason msg s) = log s) \<and>
     (\<forall>w. logs_as log w (performs k w))"

definition wrote :: "('s \<Rightarrow> api_write list) \<Rightarrow> (api_write \<Rightarrow> bool) \<Rightarrow> 's \<Rightarrow> 's \<Rightarrow> bool" where
  "wrote log ok s t \<longleftrightarrow> (\<exists>ws. log t = ws @ log s \<and> list_all ok ws)"

interpretation wr: go_preorder "wrote log ok" for log :: "'s \<Rightarrow> api_write list" and ok
proof
  show "wrote log ok s s" for s by (simp add: wrote_def)
  show "wrote log ok s u" if st: "wrote log ok s t" and tu: "wrote log ok t u" for s t u
  proof -
    from st tu obtain ws vs where "log t = ws @ log s" "list_all ok ws" "log u = vs @ log t" "list_all ok vs"
      by (auto simp: wrote_def)
    then have "log u = (vs @ ws) @ log s" "list_all ok (vs @ ws)" by simp_all
    then show ?thesis unfolding wrote_def by blast
  qed
qed

lemma silent_steps: "silent log m \<Longrightarrow> steps (wrote log ok) m"
  unfolding silent_def steps_def wrote_def by simp

lemma logs_as_steps:
  assumes "logs_as log w m" and "ok w"
  shows "steps (wrote log ok) m"
proof (rule stepsI)
  fix s r t
  assume "m s = (r, t)"
  with assms(1) have "log t = log s \<or> log t = w # log s" unfolding logs_as_def by (rule stepsD)
  with assms(2) show "wrote log ok s t" unfolding wrote_def by (auto intro: exI [of _ "[]"] exI [of _ "[w]"])
qed

lemma steps_ignoring [simp]: "steps R (ignoringG m) \<longleftrightarrow> steps R m"
proof -
  have "snd (ignoringG m s) = snd (m s)" for s
    by (cases "m s"; cases "fst (m s)") (auto simp: ignoringG_def run_bind)
  then show ?thesis by (simp add: steps_def)
qed

lemma performs_steps: "api_logged log k \<Longrightarrow> ok w \<Longrightarrow> steps (wrote log ok) (performs k w)"
  by (rule logs_as_steps) (auto simp: api_logged_def)

text \<open>The rules for the calls of the client.\<close>

named_theorems api_steps \<open>steps of the calls of an API client with a log\<close>

lemma api_reads [api_steps]:
  assumes "api_logged log k"
  shows "steps (wrote log ok) (K_GetCluster k key)" "steps (wrote log ok) (K_GetHypervisorCluster k key)"
    "steps (wrote log ok) (K_GetControlPlane k key)" "steps (wrote log ok) (K_ListMachines k n l)"
    "steps (wrote log ok) (K_ListClusters k n)" "steps (wrote log ok) (K_GetMachine k key)"
    "steps (wrote log ok) (K_GetHypervisorMachine k key)" "steps (wrote log ok) (K_GetMachineTemplate k key)"
    "steps (wrote log ok) (K_GetConfig k key)" "steps (wrote log ok) (K_ListConfigs k n)"
    "steps (wrote log ok) (K_GetSecret k key)"
  using assms unfolding api_logged_def by (blast intro: silent_steps)+

lemma api_events [api_steps]: "api_logged log k \<Longrightarrow> steps (wrote log ok) (event_onG k kind m ty reason msg)"
proof -
  assume "api_logged log k"
  then have "log (K_EventOn k kind m ty reason msg s) = log s" for s unfolding api_logged_def by blast
  then show ?thesis by (simp add: event_onG_def steps_def wrote_def)
qed

lemma api_writes [api_steps]:
  assumes "api_logged log k"
  shows "ok (WUpdateHC h) \<Longrightarrow> steps (wrote log ok) (K_UpdateHypervisorCluster k h)"
    "ok (WPatchHC h h') \<Longrightarrow> steps (wrote log ok) (K_PatchHypervisorCluster k h h')"
    "ok (WUpdateHCStatus h) \<Longrightarrow> steps (wrote log ok) (K_UpdateHypervisorClusterStatus k h)"
    "ok (WDeleteMachine m) \<Longrightarrow> steps (wrote log ok) (K_DeleteMachine k m)"
    "ok (WCreateHM hm) \<Longrightarrow> steps (wrote log ok) (K_CreateHypervisorMachine k hm)"
    "ok (WUpdateHM hm) \<Longrightarrow> steps (wrote log ok) (K_UpdateHypervisorMachine k hm)"
    "ok (WUpdateHMStatus hm) \<Longrightarrow> steps (wrote log ok) (K_UpdateHypervisorMachineStatus k hm)"
    "ok (WDeleteHM hm) \<Longrightarrow> steps (wrote log ok) (K_DeleteHypervisorMachine k hm)"
    "ok (WUpdateCPStatus cp) \<Longrightarrow> steps (wrote log ok) (K_UpdateControlPlaneStatus k cp)"
    "ok (WCreateConfig cfg) \<Longrightarrow> steps (wrote log ok) (K_CreateConfig k cfg)"
    "ok (WDeleteConfig cfg) \<Longrightarrow> steps (wrote log ok) (K_DeleteConfig k cfg)"
    "ok (WUpdateConfigStatus cfg) \<Longrightarrow> steps (wrote log ok) (K_UpdateConfigStatus k cfg)"
    "ok (WCreateSecret x) \<Longrightarrow> steps (wrote log ok) (K_CreateSecret k x)"
    "ok (WUpdateSecret x) \<Longrightarrow> steps (wrote log ok) (K_UpdateSecret k x)"
proof -
  note p = performs_steps [OF assms, of ok]
  show "ok (WUpdateHC h) \<Longrightarrow> steps (wrote log ok) (K_UpdateHypervisorCluster k h)" using p [of "WUpdateHC h"] by simp
  show "ok (WPatchHC h h') \<Longrightarrow> steps (wrote log ok) (K_PatchHypervisorCluster k h h')" using p [of "WPatchHC h h'"] by simp
  show "ok (WUpdateHCStatus h) \<Longrightarrow> steps (wrote log ok) (K_UpdateHypervisorClusterStatus k h)" using p [of "WUpdateHCStatus h"] by simp
  show "ok (WDeleteMachine m) \<Longrightarrow> steps (wrote log ok) (K_DeleteMachine k m)" using p [of "WDeleteMachine m"] by simp
  show "ok (WCreateHM hm) \<Longrightarrow> steps (wrote log ok) (K_CreateHypervisorMachine k hm)" using p [of "WCreateHM hm"] by simp
  show "ok (WUpdateHM hm) \<Longrightarrow> steps (wrote log ok) (K_UpdateHypervisorMachine k hm)" using p [of "WUpdateHM hm"] by simp
  show "ok (WUpdateHMStatus hm) \<Longrightarrow> steps (wrote log ok) (K_UpdateHypervisorMachineStatus k hm)" using p [of "WUpdateHMStatus hm"] by simp
  show "ok (WDeleteHM hm) \<Longrightarrow> steps (wrote log ok) (K_DeleteHypervisorMachine k hm)" using p [of "WDeleteHM hm"] by simp
  show "ok (WUpdateCPStatus cp) \<Longrightarrow> steps (wrote log ok) (K_UpdateControlPlaneStatus k cp)" using p [of "WUpdateCPStatus cp"] by simp
  show "ok (WCreateConfig cfg) \<Longrightarrow> steps (wrote log ok) (K_CreateConfig k cfg)" using p [of "WCreateConfig cfg"] by simp
  show "ok (WDeleteConfig cfg) \<Longrightarrow> steps (wrote log ok) (K_DeleteConfig k cfg)" using p [of "WDeleteConfig cfg"] by simp
  show "ok (WUpdateConfigStatus cfg) \<Longrightarrow> steps (wrote log ok) (K_UpdateConfigStatus k cfg)" using p [of "WUpdateConfigStatus cfg"] by simp
  show "ok (WCreateSecret x) \<Longrightarrow> steps (wrote log ok) (K_CreateSecret k x)" using p [of "WCreateSecret x"] by simp
  show "ok (WUpdateSecret x) \<Longrightarrow> steps (wrote log ok) (K_UpdateSecret k x)" using p [of "WUpdateSecret x"] by simp
qed

text \<open>The combinators of the controllers.\<close>

lemma wrote_optional [api_steps]: "steps (wrote log ok) m \<Longrightarrow> steps (wrote log ok) (optionalG p m)"
  unfolding optionalG_def by (auto split: sum.split)

lemma wrote_tolerating [api_steps]: "steps (wrote log ok) m \<Longrightarrow> steps (wrote log ok) (toleratingG f p m)"
  unfolding toleratingG_def by (auto split: sum.split)

lemma wrote_reported [api_steps]:
  "api_logged log k \<Longrightarrow> steps (wrote log ok) m \<Longrightarrow> steps (wrote log ok) (reportedG k kind meta reason msg p m)"
  unfolding reportedG_def by (auto intro!: api_steps split: sum.split)

lemma wrote_linked [api_steps]:
  "api_logged log k \<Longrightarrow> steps (wrote log ok) (linkedHypervisorCluster lib k c)"
  unfolding linkedHypervisorCluster_def by (auto simp: Let_def intro!: api_steps)

section \<open>What a call delivers\<close>

text \<open>Every value a computation returns has a property; the rest of a run may rely on it.\<close>

definition delivers :: "('a \<Rightarrow> bool) \<Rightarrow> ('s, 'a) go \<Rightarrow> bool" where
  "delivers P m \<longleftrightarrow> (\<forall>s x t. m s = (Inr x, t) \<longrightarrow> P x)"

lemma delivers_bind:
  assumes "delivers Q m" and "\<And>x. Q x \<Longrightarrow> delivers P (k x)"
  shows "delivers P (bindG m k)"
  using assms by (fastforce simp: delivers_def run_bind split: prod.splits sum.splits)

named_theorems delivers_rules \<open>what the combinators deliver\<close>

lemma delivers_bind_any [delivers_rules]: "(\<And>x. delivers P (k x)) \<Longrightarrow> delivers P (bindG m k)"
  by (rule delivers_bind [of "\<lambda>_. True"]) (auto simp: delivers_def)

lemma delivers_return [delivers_rules]: "P x \<Longrightarrow> delivers P (returnG x)"
  by (simp add: delivers_def)

lemma delivers_fail [delivers_rules]: "delivers P (failG e)"
  by (simp add: delivers_def)

lemma steps_bind_delivers:
  assumes "steps (wrote log ok) m" and "delivers P m" and "\<And>x. P x \<Longrightarrow> steps (wrote log ok) (k x)"
  shows "steps (wrote log ok) (bindG m k)"
proof (rule stepsI)
  fix s r t
  assume run: "bindG m k s = (r, t)"
  obtain x u where m: "m s = (x, u)" by fastforce
  from stepsD [OF assms(1) m] have su: "wrote log ok s u" .
  show "wrote log ok s t"
  proof (cases x)
    case (Inl e)
    with run m su show ?thesis by (simp add: run_bind)
  next
    case (Inr y)
    with assms(2) m have "P y" by (auto simp: delivers_def)
    from assms(3) [OF this] have "wrote log ok u t"
      by (rule stepsD) (use run m Inr in \<open>simp add: run_bind\<close>)
    with su show ?thesis by (rule wr.R_trans)
  qed
qed

end
