(* ===== verification/ControlPlaneSafety.thy ===== *)
theory ControlPlaneSafety
  imports ControlPlaneReconcile ApiLog
begin

text \<open>
  What the control plane controller deletes, and when: the writes of a run, whatever the API server,
  the agent and the seams answer.
\<close>

section \<open>Which writes a run may make\<close>

definition cp_logged :: "('s \<Rightarrow> api_write list) \<Rightarrow> ('s, 'x) cp_reconciler \<Rightarrow> bool" where
  "cp_logged log r \<longleftrightarrow> api_logged log (R_Kube r) \<and>
     (\<forall>m. logs_as log (WCreateMachine m) (CR_CreateMachine r m)) \<and> (\<forall>ip. silent log (CR_GeneratePKI r ip)) \<and>
     (\<forall>f. CR_CheckAPIServerHealth r = Some f \<longrightarrow> (\<forall>h p a b c. silent log (f h p a b c))) \<and>
     (\<forall>f. CR_SeedClusterAdmin r = Some f \<longrightarrow> (\<forall>u ip pk. silent log (f u ip pk))) \<and>
     (\<forall>f. CR_CaptureEtcdSnapshot r = Some f \<longrightarrow> (\<forall>h p. silent log (f h p))) \<and>
     (\<forall>h s. log (CR_PutHost r h s) = log s) \<and>
     (\<forall>a. R_Agent r = Some a \<longrightarrow> (\<forall>m q. silent log (HA_EnsureNetwork a m q)) \<and> (\<forall>m q. silent log (HA_EnsurePort a m q))) \<and>
     (\<forall>n mac. silent log (KN_AllocateIP (R_K8Netd r) n mac))"

text \<open>A status update answers with what it was sent, but for the metadata the server fills in.\<close>

definition status_echoed :: "'s provider_kube \<Rightarrow> bool" where
  "status_echoed k \<longleftrightarrow>
     (\<forall>cp s cp' t. K_UpdateControlPlaneStatus k cp s = (Inr cp', t) \<longrightarrow>
        M_Name (CP_Meta cp') = M_Name (CP_Meta cp) \<and> CP_Spec cp' = CP_Spec cp \<and> CP_Status cp' = CP_Status cp)"

definition surplus_machine :: "hypervisor_control_plane \<Rightarrow> machine \<Rightarrow> bool" where
  "surplus_machine cp m = (case controlPlaneMachineIndex (M_Name (MC_Meta m)) (M_Name (CP_Meta cp)) of
     None \<Rightarrow> False | Some index \<Rightarrow> index \<ge> effective_replicas cp)"

definition replaced_machine :: "hypervisor_control_plane \<Rightarrow> machine \<Rightarrow> bool" where
  "replaced_machine cp m \<longleftrightarrow>
     machineDrifted m (CP_Version (CP_Spec cp)) \<and> replacement_recorded cp (M_Name (MC_Meta m))"

fun cp_may_write :: "hypervisor_control_plane \<Rightarrow> api_write \<Rightarrow> bool" where
  "cp_may_write cp (WDeleteMachine m) = (surplus_machine cp m \<or> replaced_machine cp m)"
| "cp_may_write cp (WDeleteHM h) = (CPS_Replacement (CP_Status cp) \<noteq> None)"
| "cp_may_write cp (WDeleteConfig h) = (CPS_Replacement (CP_Status cp) \<noteq> None)"
| "cp_may_write cp (WUpdateHM h) = False"
| "cp_may_write cp (WUpdateHMStatus h) = False"
| "cp_may_write cp (WUpdateHC h) = False"
| "cp_may_write cp (WUpdateHCStatus h) = False"
| "cp_may_write cp (WPatchHC h h') = False"
| "cp_may_write cp (WUpdateConfigStatus h) = False"
| "cp_may_write cp _ = True"

text \<open>A looser set of writes; which configs are created and what the status records are treated apart.\<close>

definition cp_permits :: "hypervisor_control_plane \<Rightarrow> (api_write \<Rightarrow> bool) \<Rightarrow> bool" where
  "cp_permits cp ok \<longleftrightarrow> (\<forall>w. cp_may_write cp w \<and> (\<forall>cfg. w \<noteq> WCreateConfig cfg) \<and> (\<forall>x. w \<noteq> WUpdateCPStatus x) \<longrightarrow> ok w)"

lemma cp_permits_writes:
  assumes "cp_permits cp ok"
  shows "ok (WCreateHM h)" "ok (WCreateSecret y)" "ok (WUpdateSecret y)" "ok (WCreateMachine m)"
    "surplus_machine cp m \<Longrightarrow> ok (WDeleteMachine m)" "replaced_machine cp m \<Longrightarrow> ok (WDeleteMachine m)"
    "CPS_Replacement (CP_Status cp) \<noteq> None \<Longrightarrow> ok (WDeleteHM h)" "CPS_Replacement (CP_Status cp) \<noteq> None \<Longrightarrow> ok (WDeleteConfig g)"
  using assms by (auto simp: cp_permits_def)

definition keeps_replacement :: "(api_write \<Rightarrow> bool) \<Rightarrow> hypervisor_control_plane \<Rightarrow> bool" where
  "keeps_replacement ok cp \<longleftrightarrow>
     (\<forall>x. CPS_Replacement (CP_Status x) = CPS_Replacement (CP_Status cp) \<longrightarrow> ok (WUpdateCPStatus x))"

section \<open>Following the run\<close>

lemma silent_on: "(\<And>h s. log (put h s) = log s) \<Longrightarrow> steps (wrote log ok) (onG get put m)"
  by (auto simp: steps_def onG_def wrote_def split: prod.split)

lemma cp_seams:
  assumes "cp_logged log r"
  shows "api_logged log (R_Kube r)"
    "ok (WCreateMachine m) \<Longrightarrow> steps (wrote log ok) (CR_CreateMachine r m)" "steps (wrote log ok) (CR_GeneratePKI r ip)"
    "CR_CheckAPIServerHealth r = Some f \<Longrightarrow> steps (wrote log ok) (f h p x y z)"
    "CR_SeedClusterAdmin r = Some g \<Longrightarrow> steps (wrote log ok) (g u ip pk)"
    "CR_CaptureEtcdSnapshot r = Some e \<Longrightarrow> steps (wrote log ok) (e h p)"
    "steps (wrote log ok) (cp_osG r n)"
    "R_Agent r = Some a \<Longrightarrow> steps (wrote log ok) (HA_EnsureNetwork a mu q)"
    "R_Agent r = Some a \<Longrightarrow> steps (wrote log ok) (HA_EnsurePort a mu q')"
    "steps (wrote log ok) (KN_AllocateIP (R_K8Netd r) nw mac)"
proof -
  from assms show "api_logged log (R_Kube r)" by (simp add: cp_logged_def)
  show "ok (WCreateMachine m) \<Longrightarrow> steps (wrote log ok) (CR_CreateMachine r m)"
    by (rule logs_as_steps) (use assms in \<open>auto simp: cp_logged_def\<close>)
  show "steps (wrote log ok) (CR_GeneratePKI r ip)"
    by (rule silent_steps) (use assms in \<open>auto simp: cp_logged_def\<close>)
  show "CR_CheckAPIServerHealth r = Some f \<Longrightarrow> steps (wrote log ok) (f h p x y z)"
    by (rule silent_steps) (use assms in \<open>auto simp: cp_logged_def\<close>)
  show "CR_SeedClusterAdmin r = Some g \<Longrightarrow> steps (wrote log ok) (g u ip pk)"
    by (rule silent_steps) (use assms in \<open>auto simp: cp_logged_def\<close>)
  show "CR_CaptureEtcdSnapshot r = Some e \<Longrightarrow> steps (wrote log ok) (e h p)"
    by (rule silent_steps) (use assms in \<open>auto simp: cp_logged_def\<close>)
  show "steps (wrote log ok) (cp_osG r n)"
    unfolding cp_osG_def by (rule silent_on) (use assms in \<open>auto simp: cp_logged_def\<close>)
  show "R_Agent r = Some a \<Longrightarrow> steps (wrote log ok) (HA_EnsureNetwork a mu q)"
    by (rule silent_steps) (use assms in \<open>auto simp: cp_logged_def\<close>)
  show "R_Agent r = Some a \<Longrightarrow> steps (wrote log ok) (HA_EnsurePort a mu q')"
    by (rule silent_steps) (use assms in \<open>auto simp: cp_logged_def\<close>)
  show "steps (wrote log ok) (KN_AllocateIP (R_K8Netd r) nw mac)"
    by (rule silent_steps) (use assms in \<open>auto simp: cp_logged_def\<close>)
qed

lemma highest_drifted_sound:
  assumes "highest_drifted cp replicas ms best = Some (m, i)"
    and "\<And>m i. best = Some (m, i) \<Longrightarrow> machineDrifted m (CP_Version (CP_Spec cp))"
  shows "machineDrifted m (CP_Version (CP_Spec cp))"
  using assms
proof (induction ms arbitrary: best)
  case (Cons x ms)
  show ?case
    by (rule Cons.IH [OF Cons.prems(1) [unfolded highest_drifted.simps]])
      (use Cons.prems(2) in \<open>auto split: if_splits option.splits\<close>)
qed simp

lemma deletes_replaced:
  assumes "cp_logged log r" and "cp_permits cp ok"
    and "highest_drifted cp n ms None = Some (m, i)" and "replacement_recorded cp (M_Name (MC_Meta m))"
  shows "steps (wrote log ok) (deleteReplacedMachine r cp m)"
proof -
  note k = cp_seams(1) [OF assms(1)]
  have rep: "replaced_machine cp m" and rec: "CPS_Replacement (CP_Status cp) \<noteq> None"
    using highest_drifted_sound [OF assms(3)] assms(4) by (auto simp: replaced_machine_def replacement_recorded_def split: option.splits)
  note ok = cp_permits_writes(6) [OF assms(2) rep] cp_permits_writes(7,8) [OF assms(2) rec]
  show ?thesis
    unfolding deleteReplacedMachine_def delete_if_there_def
    by (auto simp: Let_def split: option.split intro!: api_steps k ok)
qed

text \<open>The writes of one run, from a given state.\<close>

definition writes_from :: "('s \<Rightarrow> api_write list) \<Rightarrow> (api_write \<Rightarrow> bool) \<Rightarrow> ('s, 'a) go \<Rightarrow> 's \<Rightarrow> bool" where
  "writes_from log ok m s \<longleftrightarrow> wrote log ok s (snd (m s))"

lemma writes_from_steps: "steps (wrote log ok) m \<Longrightarrow> writes_from log ok m s"
  by (simp add: writes_from_def steps_def)

lemma writes_from_bind:
  assumes "writes_from log ok m s" and "\<And>x u. m s = (Inr x, u) \<Longrightarrow> writes_from log ok (k x) u"
  shows "writes_from log ok (bindG m k) s"
proof (cases "m s")
  case (Pair r u)
  show ?thesis
  proof (cases r)
    case (Inr x)
    with Pair assms have "wrote log ok s u" "wrote log ok u (snd (k x u))" by (auto simp: writes_from_def)
    then have "wrote log ok s (snd (k x u))" by (rule wr.R_trans)
    with Pair Inr show ?thesis by (simp add: writes_from_def run_bind)
  qed (use Pair assms(1) in \<open>simp add: writes_from_def run_bind\<close>)
qed

lemmas writes_from_seq = writes_from_bind [OF writes_from_steps]

text \<open>
  A snapshot of the etcd of a machine has been written to a path: the machine was read, its etcd port is
  published, the seam answered on that port, and the file was written.
\<close>

definition snapshot_written ::
  "('s, 'x) cp_reconciler \<Rightarrow> hypervisor_control_plane \<Rightarrow> cluster \<Rightarrow> machine \<Rightarrow> 's \<Rightarrow> string \<Rightarrow> bool" where
  "snapshot_written r cp c m u path \<longleftrightarrow> (\<exists>capture hm u0 port snapshot u1 h.
     CR_CaptureEtcdSnapshot r = Some capture \<and>
     K_GetHypervisorMachine (R_Kube r) (cp_namespace cp, M_Name (MC_Meta m)) u = (Inr hm, u0) \<and>
     publishedHostPort (HMS_PublishedPorts (HM_Status hm)) controlPlaneEtcdClientPort = Some port \<and>
     capture ''127.0.0.1'' port u0 = (Inr snapshot, u1) \<and>
     writeEtcdSnapshot (Conf_StateDir (CR_Config r)) (M_Name (CL_Meta c)) (M_Name (MC_Meta m)) (CP_Version (CP_Spec cp)) snapshot
       (CR_Host r u1) = (Inr path, h))"

abbreviation recorded_as :: "hypervisor_control_plane \<Rightarrow> machine \<Rightarrow> string \<Rightarrow> cp_replacement" where
  "recorded_as cp m path \<equiv>
     \<lparr>Rep_MachineName = M_Name (MC_Meta m), Rep_TargetVersion = CP_Version (CP_Spec cp), Rep_SnapshotPath = path\<rparr>"

lemma writes_from_option:
  "(z = None \<Longrightarrow> writes_from log ok m s) \<Longrightarrow> (\<And>x. z = Some x \<Longrightarrow> writes_from log ok (f x) s) \<Longrightarrow>
   writes_from log ok (case z of None \<Rightarrow> m | Some x \<Rightarrow> f x) s"
  by (cases z) simp_all

lemma snapshot_writtenI:
  assumes "CR_CaptureEtcdSnapshot r = Some capture"
    and "optionalG p (K_GetHypervisorMachine (R_Kube r) (cp_namespace cp, M_Name (MC_Meta m))) s = (Inr (Some hm), u)"
    and "publishedHostPort (HMS_PublishedPorts (HM_Status hm)) controlPlaneEtcdClientPort = Some port"
    and "reportedG k kind meta reason msg q (capture ''127.0.0.1'' port) u = (Inr snapshot, v)"
    and "cp_osG r (writeEtcdSnapshot (Conf_StateDir (CR_Config r)) (M_Name (CL_Meta c)) (M_Name (MC_Meta m))
      (CP_Version (CP_Spec cp)) snapshot) v = (Inr path, w)"
  shows "snapshot_written r cp c m s path"
proof -
  have "K_GetHypervisorMachine (R_Kube r) (cp_namespace cp, M_Name (MC_Meta m)) s = (Inr hm, u)"
    using assms(2) by (auto simp: run_optional split: prod.splits sum.splits if_splits)
  moreover have "capture ''127.0.0.1'' port u = (Inr snapshot, v)"
    using assms(4) by (auto simp: run_reported split: prod.splits sum.splits)
  moreover have "\<exists>h. writeEtcdSnapshot (Conf_StateDir (CR_Config r)) (M_Name (CL_Meta c)) (M_Name (MC_Meta m))
      (CP_Version (CP_Spec cp)) snapshot (CR_Host r v) = (Inr path, h)"
    using assms(5) by (auto simp: cp_osG_def onG_def split: prod.splits)
  ultimately show ?thesis using assms(1,3) unfolding snapshot_written_def by blast
qed

lemma capture_writes:
  assumes "cp_logged log r"
    and ok: "\<And>path. snapshot_written r cp c m s path \<Longrightarrow> ok (WUpdateCPStatus (with_replacement (Some (recorded_as cp m path)) cp))"
  shows "writes_from log ok (captureReplacementSnapshot r cp c m) s"
proof (cases "CR_CaptureEtcdSnapshot r")
  case None
  then show ?thesis by (simp add: captureReplacementSnapshot_def Let_def writes_from_steps)
next
  case (Some capture)
  note seams = cp_seams(1) [OF assms(1)] cp_seams(6) [OF assms(1) Some] cp_seams(7) [OF assms(1)]
  show ?thesis
    unfolding captureReplacementSnapshot_def Let_def Some option.case
    by (intro writes_from_seq writes_from_option)
      (auto intro!: writes_from_steps api_steps seams intro: ok [OF snapshot_writtenI [OF Some]])
qed

text \<open>A run that finds a machine of another version takes the snapshot of that machine in the state it is then in.\<close>

definition snapshot_taken ::
  "('s, 'x) cp_reconciler \<Rightarrow> hypervisor_control_plane \<Rightarrow> cluster \<Rightarrow> 's \<Rightarrow> cp_replacement \<Rightarrow> bool" where
  "snapshot_taken r cp c s rep \<longleftrightarrow> (\<exists>ms u m i path.
     CP_controlPlaneMachines r cp c s = (Inr ms, u) \<and> highest_drifted cp (effective_replicas cp) ms None = Some (m, i) \<and>
     snapshot_written r cp c m u path \<and> rep = recorded_as cp m path)"

lemma drift_writes:
  assumes "cp_logged log r" and "cp_permits cp ok" and "ok (WUpdateCPStatus (with_replacement None cp))"
    and taken: "\<And>rep. snapshot_taken r cp c s rep \<Longrightarrow> ok (WUpdateCPStatus (with_replacement (Some rep) cp))"
  shows "writes_from log ok (reconcileVersionDrift r cp c (effective_replicas cp)) s"
proof -
  note k = cp_seams(1) [OF assms(1)]
  have capture: "writes_from log ok (captureReplacementSnapshot r cp c m) u"
    if "CP_controlPlaneMachines r cp c s = (Inr ms, u)" "highest_drifted cp (effective_replicas cp) ms None = Some (m, i)" for ms u m i
    by (rule capture_writes [OF assms(1)]) (use that taken in \<open>auto simp: snapshot_taken_def\<close>)
  have delete: "steps (wrote log ok) (bindG (deleteReplacedMachine r cp m) (\<lambda>res. returnG (res, cp)))"
    if "highest_drifted cp (effective_replicas cp) ms None = Some (m, i)" "replacement_recorded cp (M_Name (MC_Meta m))" for ms m i
    by (auto intro!: deletes_replaced [OF assms(1,2) that])
  have list: "steps (wrote log ok) (CP_controlPlaneMachines r cp c)"
    unfolding CP_controlPlaneMachines_def by (intro api_steps wr.steps_wrap k)
  show ?thesis
  proof (cases "CP_Version (CP_Spec cp) = []")
    case False
    show ?thesis
      unfolding reconcileVersionDrift_def if_not_P [OF False]
    proof (rule writes_from_seq [OF list], split option.split, intro conjI impI allI)
      fix ms u mi
      assume ms: "CP_controlPlaneMachines r cp c s = (Inr ms, u)" and found: "highest_drifted cp (effective_replicas cp) ms None = Some mi"
      obtain m i where mi: "mi = (m, i)" by fastforce
      with found capture [OF ms] writes_from_steps [OF delete] show "writes_from log ok (case mi of (m, _) \<Rightarrow>
          if \<not> replacement_recorded cp (M_Name (MC_Meta m)) then captureReplacementSnapshot r cp c m
          else bindG (deleteReplacedMachine r cp m) (\<lambda>res. returnG (res, cp))) u" by simp
    qed (auto split: option.split intro!: writes_from_steps api_steps k assms(3))
  qed (simp add: reconcileVersionDrift_def writes_from_steps)
qed

lemma drift_hands_on:
  assumes "status_echoed (R_Kube r)"
  shows "delivers (\<lambda>(res, cp1). RequeueAfter res \<le> 0 \<longrightarrow> M_Name (CP_Meta cp1) = M_Name (CP_Meta cp) \<and>
    CP_Spec cp1 = CP_Spec cp \<and> CPS_Replacement (CP_Status cp1) \<in> {None, CPS_Replacement (CP_Status cp)})
    (reconcileVersionDrift r cp c n)"
proof -
  have update: "delivers (\<lambda>cp'. M_Name (CP_Meta cp') = M_Name (CP_Meta cp) \<and> CP_Spec cp' = CP_Spec cp \<and>
      CPS_Replacement (CP_Status cp') = rep) (wrapG p (K_UpdateControlPlaneStatus (R_Kube r) (with_replacement rep cp)))" for p rep
    using assms unfolding status_echoed_def
    by (fastforce simp: delivers_def run_wrap with_replacement_def split: prod.splits sum.splits)
  show ?thesis
    unfolding reconcileVersionDrift_def captureReplacementSnapshot_def deleteReplacedMachine_def replacementPollInterval_def
    by (auto simp: Let_def split: option.split intro!: delivers_rules delivers_bind [OF update])
qed

lemma replica_writes:
  assumes "cp_logged log r" and "cp_permits cp ok" and "ok (WCreateConfig (replica_config r cp' c n))"
  shows "steps (wrote log ok) (ensure_replica r cp' c n)"
proof -
  note seams = cp_seams(1-3,8-10) [OF assms(1)] and ok = cp_permits_writes(1,2,4) [OF assms(2)] assms(3)
  have hm: "steps (wrote log ok) (ensureHypervisorMachine r cp' c m)" for m
    unfolding ensureHypervisorMachine_def by (auto simp: Let_def split: option.split sum.split intro!: api_steps seams ok)
  have reserve: "steps (wrote log ok) (reserveControlPlaneIP r cp' c)"
    unfolding reserveControlPlaneIP_def by (auto simp: Let_def split: option.split intro!: api_steps seams ok)
  have pki: "steps (wrote log ok) (ensureClusterPKISecret r cp' c)"
    unfolding ensureClusterPKISecret_def by (auto simp: Let_def split: option.split intro!: api_steps seams reserve ok)
  have create: "steps (wrote log ok) (create_replica r cp' c n)"
    unfolding create_replica_def by (auto simp: Let_def split: option.split sum.split intro!: api_steps seams pki ok)
  show ?thesis
    unfolding ensure_replica_def by (auto simp: Let_def split: option.split intro!: api_steps seams hm create)
qed

lemma replicas_write:
  assumes "cp_logged log r" and "cp_permits cp ok" and "\<And>n. ok (WCreateConfig (replica_config r cp' c n))"
  shows "steps (wrote log ok) (ensure_replicas r cp' c ns)"
proof (induction ns)
  case Nil
  show ?case by (simp only: ensure_replicas.simps wr.steps_return)
next
  case (Cons n ns)
  then show ?case by (auto intro!: replica_writes [OF assms])
qed

lemma scale_down_writes:
  assumes "cp_logged log r" and "cp_permits cp ok" and "M_Name (CP_Meta cp') = M_Name (CP_Meta cp)"
  shows "steps (wrote log ok) (scaleDownMachines r cp' c (effective_replicas cp))"
proof -
  note k = cp_seams(1) [OF assms(1)]
  have "steps (wrote log ok) (scale_down_one r cp' (effective_replicas cp) m)" for m
    unfolding scale_down_one_def
    by (auto simp: Let_def assms(3) surplus_machine_def split: option.split
        intro!: api_steps k cp_permits_writes(5) [OF assms(2)])
  then show ?thesis
    unfolding scaleDownMachines_def CP_controlPlaneMachines_def by (auto intro!: api_steps k)
qed

lemma scale_status_writes:
  assumes "cp_logged log r" and "keeps_replacement ok cp'"
  shows "steps (wrote log ok) (updateScaleStatus r cp' c)"
proof -
  note k = cp_seams(1) [OF assms(1)]
  have "steps (wrote log ok) (count_ready r ns ms n)" for ns ms n
    by (induction ms arbitrary: n) (auto split: option.split intro!: api_steps k)
  then show ?thesis
    unfolding updateScaleStatus_def machineReplicaCounts_def CP_controlPlaneMachines_def
    using assms(2) by (auto simp: keeps_replacement_def intro!: api_steps k)
qed

lemma scale_status_keeps:
  assumes "status_echoed (R_Kube r)"
  shows "delivers (\<lambda>cp2. CPS_Replacement (CP_Status cp2) = CPS_Replacement (CP_Status cp')) (updateScaleStatus r cp' c)"
  using assms unfolding updateScaleStatus_def status_echoed_def
  by (fastforce simp: delivers_def run_bind run_wrap split: prod.splits sum.splits)

lemma readiness_writes:
  assumes "cp_logged log r" and "cp_permits cp ok" and "keeps_replacement ok cp'"
  shows "steps (wrote log ok) (reconcileReadiness r cp' c)"
proof -
  note k = cp_seams(1) [OF assms(1)] and ok = cp_permits_writes(2,3) [OF assms(2)]
  have healthy: "steps (wrote log ok) (apiserver_healthy r cp' p pk)" for p pk
  proof (cases "CR_CheckAPIServerHealth r")
    case None
    then show ?thesis by (simp add: apiserver_healthy_def)
  next
    case (Some check)
    then show ?thesis unfolding apiserver_healthy_def by (auto split: sum.split intro!: cp_seams(4) [OF assms(1) Some])
  qed
  have kubeconfig: "steps (wrote log ok) (ensureKubeconfigSecret r cp' c u pk)" for u pk
    unfolding ensureKubeconfigSecret_def by (auto simp: Let_def split: option.split intro!: api_steps k ok)
  have status: "ok (WUpdateCPStatus (ready_control_plane (R_Lib r) cp'))"
    using assms(3) by (simp add: keeps_replacement_def ready_control_plane_def markControlPlaneReady_def)
  have ready: "steps (wrote log ok) (report_ready r cp' c u ip pk)" for u ip pk
  proof (cases "CR_SeedClusterAdmin r")
    case None
    then show ?thesis unfolding report_ready_def by (auto intro!: api_steps k kubeconfig ok status)
  next
    case (Some seed)
    then show ?thesis
      unfolding report_ready_def by (auto intro!: api_steps k kubeconfig ok status cp_seams(5) [OF assms(1) Some])
  qed
  show ?thesis
    unfolding reconcileReadiness_def firstControlPlaneMachine_def CP_controlPlaneMachines_def CP_clusterPKI_def
    by (auto simp: Let_def split: option.split intro!: api_steps k healthy ready)
qed

text \<open>
  Everything a run of the control plane controller writes, whatever the calls answer and whichever of
  them fail, is permitted, if what the first part writes is, and the configs of the replicas and the status
  are for each control plane object the replacement of machines may hand on.
\<close>

lemma control_plane_writes:
  assumes "cp_logged log r" and "cp_permits cp ok" and "status_echoed (R_Kube r)"
    and drift: "writes_from log ok (reconcileVersionDrift r cp c (effective_replicas cp)) s"
    and on: "\<And>cp1. M_Name (CP_Meta cp1) = M_Name (CP_Meta cp) \<Longrightarrow> CP_Spec cp1 = CP_Spec cp \<Longrightarrow>
        CPS_Replacement (CP_Status cp1) \<in> {None, CPS_Replacement (CP_Status cp)} \<Longrightarrow>
        keeps_replacement ok cp1 \<and> (\<forall>n. ok (WCreateConfig (replica_config r cp1 c n)))"
  shows "writes_from log ok (reconcile_control_plane r cp c) s"
  unfolding reconcile_control_plane_def Let_def
proof (rule writes_from_bind [OF drift], clarify)
  fix res :: ctrl_result and cp1 :: hypervisor_control_plane and u
  assume "reconcileVersionDrift r cp c (effective_replicas cp) s = (Inr (res, cp1), u)"
  then have handed: "RequeueAfter res \<le> 0 \<longrightarrow> M_Name (CP_Meta cp1) = M_Name (CP_Meta cp) \<and> keeps_replacement ok cp1 \<and>
      (\<forall>n. ok (WCreateConfig (replica_config r cp1 c n)))"
    using drift_hands_on [OF assms(3), of cp c "effective_replicas cp"] on unfolding delivers_def by fastforce
  have "steps (wrote log ok) (bindG (updateScaleStatus r cp1 c) (\<lambda>cp2. reconcileReadiness r cp2 c))"
    if "keeps_replacement ok cp1"
    by (rule steps_bind_delivers [OF scale_status_writes [OF assms(1) that] scale_status_keeps [OF assms(3)]])
      (use that in \<open>auto simp: keeps_replacement_def intro!: readiness_writes assms(1,2)\<close>)
  then have down: "steps (wrote log ok) (bindG (scaleDownMachines r cp1 c (effective_replicas cp)) (\<lambda>_.
      bindG (updateScaleStatus r cp1 c) (\<lambda>cp2. reconcileReadiness r cp2 c)))"
    if "M_Name (CP_Meta cp1) = M_Name (CP_Meta cp)" "keeps_replacement ok cp1"
    by (rule wr.steps_bind [OF scale_down_writes [OF assms(1,2) that(1)]]) (rule that(2))
  show "writes_from log ok
      (if 0 < RequeueAfter res then returnG res
       else bindG (ensure_replicas r cp1 c (map (replica_name cp1) [0..<nat (effective_replicas cp)])) (\<lambda>waiting.
         if waiting then returnG poll_replacement
         else bindG (scaleDownMachines r cp1 c (effective_replicas cp)) (\<lambda>_.
           bindG (updateScaleStatus r cp1 c) (\<lambda>cp2. reconcileReadiness r cp2 c)))) u"
  proof (cases "0 < RequeueAfter res")
    case False
    with handed down have "steps (wrote log ok)
        (bindG (ensure_replicas r cp1 c (map (replica_name cp1) [0..<nat (effective_replicas cp)])) (\<lambda>waiting.
         if waiting then returnG poll_replacement
         else bindG (scaleDownMachines r cp1 c (effective_replicas cp)) (\<lambda>_.
           bindG (updateScaleStatus r cp1 c) (\<lambda>cp2. reconcileReadiness r cp2 c))))"
      by (intro wr.steps_bind [OF replicas_write [OF assms(1,2)] wr.steps_if]) simp_all
    with False show ?thesis by (simp add: writes_from_steps)
  qed (simp add: writes_from_steps)
qed


end
