(* ===== verification/Manager.thy ===== *)
theory Manager
  imports ControlPlaneController BootTrees
begin

text \<open>
  The functions the manager wires into the control plane controller (\<open>main.go\<close>): the config of
  a new replica, the creation of its Machine, the poll of the workload API server, the objects seeded
  into a workload cluster; and the capture of an etcd snapshot
  (\<open>internal/etcdsnap/etcdsnap.go\<close>). The HTTP transport, the client of the workload cluster,
  \<open>net/url\<close> and the X.509 functions are parameters.
\<close>

section \<open>Replicas\<close>

definition controlPlaneRole :: string where
  "controlPlaneRole = ''control-plane''"

definition zero_hcfg_status :: hcfg_status where
  "zero_hcfg_status = \<lparr>CfgS_Ready = False, CfgS_DataSecretName = None, CfgS_Initialization = None, CfgS_FailureReason = [],
     CfgS_FailureMessage = [], CfgS_Conditions = []\<rparr>"

definition manager_NewConfig :: "hypervisor_control_plane \<Rightarrow> string \<Rightarrow> hypervisor_config" where
  "manager_NewConfig cp machineName =
     \<lparr>Cfg_Meta = new_meta (M_Namespace (CP_Meta cp)) (machineName @ ''-config''),
      Cfg_Spec = \<lparr>Cfg_ClusterName = [], Cfg_Role = controlPlaneRole, Cfg_NodeName = [], Cfg_SSHPublicKey = [],
        Cfg_EtcdSnapshotHostPath = []\<rparr>,
      Cfg_Status = zero_hcfg_status\<rparr>"

text \<open>\<open>create\<close> is the client's call, which fills in the object.\<close>

definition manager_CreateMachine :: "(machine \<Rightarrow> ('s, machine) go) \<Rightarrow> machine \<Rightarrow> ('s, machine) go" where
  "manager_CreateMachine create m = create m"

definition defaultControlPlanePKIName :: string where
  "defaultControlPlanePKIName = ''control-plane''"

definition manager_GeneratePKI :: "(string \<Rightarrow> string \<Rightarrow> ('s, cluster_pki) go) \<Rightarrow> string \<Rightarrow> ('s, cluster_pki) go" where
  "manager_GeneratePKI generate cpIP = generate cpIP defaultControlPlanePKIName"

section \<open>HTTP\<close>

text \<open>
  \<open>W_NewRequest\<close> is the error of building a request for a URL, \<open>W_Do\<close> sends it, with
  the client certificate and the CA of the transport where there is one. The body of a response may
  fail to arrive.
\<close>

record web_response =
  WR_StatusCode :: int
  WR_Status :: string
  WR_Body :: "goerr + byte list"

record tls_material =
  TLS_Roots :: "byte list"
  TLS_Certificate :: "byte list \<times> byte list"

record 's web =
  W_NewRequest :: "string \<Rightarrow> string \<Rightarrow> goerr option"
  W_Do :: "string \<Rightarrow> string \<Rightarrow> (string \<times> string) list \<Rightarrow> tls_material option \<Rightarrow> ('s, web_response) go"
  W_IsCertPEM :: "byte list \<Rightarrow> bool"
  W_X509KeyPair :: "byte list \<Rightarrow> byte list \<Rightarrow> goerr option"

definition statusOK :: int where
  "statusOK = 200"

text \<open>\<open>net.JoinHostPort\<close> puts a host with a colon in brackets.\<close>

definition JoinHostPort :: "string \<Rightarrow> string \<Rightarrow> string" where
  "JoinHostPort host port = (if CHR '':'' \<in> set host then ''['' @ host @ '']:'' @ port else host @ '':'' @ port)"

definition checkAPIServerHealth ::
  "'s web \<Rightarrow> string \<Rightarrow> int32 \<Rightarrow> byte list \<Rightarrow> byte list \<Rightarrow> byte list \<Rightarrow> ('s, unit) go" where
  "checkAPIServerHealth w host port clientCert clientKey caCert =
     (let url = ''https://'' @ JoinHostPort host (show_int (sint port)) @ ''/healthz'' in
      if \<not> W_IsCertPEM w caCert then failG (plain_err ''cluster CA bytes are not a PEM certificate'')
      else case W_X509KeyPair w clientCert clientKey of
        Some e \<Rightarrow> failG (wrap_err ''build apiserver health client certificate'' e)
      | None \<Rightarrow>
          (case W_NewRequest w ''GET'' url of
             Some e \<Rightarrow> failG (wrap_err (''build apiserver healthz request for '' @ Quote url) e)
           | None \<Rightarrow>
               bindG (W_Do w ''GET'' url [] (Some \<lparr>TLS_Roots = caCert, TLS_Certificate = (clientCert, clientKey)\<rparr>)) (\<lambda>resp.
               if WR_StatusCode resp \<noteq> statusOK
               then failG (plain_err (''apiserver healthz answered '' @ WR_Status resp)) else returnG ())))"

section \<open>Etcd snapshots\<close>

definition truncateErr :: "byte list \<Rightarrow> string" where
  "truncateErr body = (if length body > 256 then bytes_string (take 256 body) @ ''...'' else bytes_string body)"

definition Capture :: "'s web \<Rightarrow> string \<Rightarrow> int32 \<Rightarrow> ('s, byte list) go" where
  "Capture w host port =
     (let url = ''http://'' @ host @ '':'' @ show_int (sint port) @ ''/v3/kv/snapshot'' in
      case W_NewRequest w ''POST'' url of
        Some e \<Rightarrow> failG (wrap_err (''build etcd snapshot request for '' @ Quote url) e)
      | None \<Rightarrow>
          bindG (wrapG (''post etcd snapshot request to '' @ Quote url)
            (W_Do w ''POST'' url [(''Content-Type'', ''application/json'')] None)) (\<lambda>resp.
          bindG (wrapG (''read etcd snapshot response from '' @ Quote url) (liftG (WR_Body resp))) (\<lambda>body.
          if WR_StatusCode resp \<noteq> statusOK
          then failG (plain_err (''etcd snapshot endpoint '' @ Quote url @ '' answered '' @ WR_Status resp @ '': '' @ truncateErr body))
          else if body = [] then failG (plain_err (''etcd snapshot endpoint '' @ Quote url @ '' answered 200 with an empty body''))
          else returnG body)))"

text \<open>A captured snapshot is the whole body of an answer with status 200, and is never empty.\<close>

lemma Capture_body:
  assumes "Capture w host port s = (Inr body, t)"
  shows "\<exists>url hs resp. W_Do w ''POST'' url hs None s = (Inr resp, t) \<and> WR_StatusCode resp = 200 \<and> WR_Body resp = Inr body" and "body \<noteq> []"
  using assms
  by (auto simp: Capture_def Let_def run_bind run_wrap liftG_def statusOK_def split: option.splits prod.splits sum.splits if_splits)

section \<open>Seeding a workload cluster\<close>

record role_ref =
  RR_APIGroup :: string
  RR_Kind :: string
  RR_Name :: string

record rbac_subject =
  Sub_Kind :: string
  Sub_Name :: string
  Sub_APIGroup :: string

record cluster_role_binding =
  CRB_Name :: string
  CRB_RoleRef :: role_ref
  CRB_Subjects :: "rbac_subject list"

record service_port =
  SP_Name :: string
  SP_Port :: int32
  SP_Protocol :: string
  SP_TargetPort :: int32

record workload_service =
  Svc_Name :: string
  Svc_Namespace :: string
  Svc_Labels :: "string \<rightharpoonup> string"
  Svc_ClusterIP :: string
  Svc_Selector :: "string \<rightharpoonup> string"
  Svc_Ports :: "service_port list"

record config_map =
  CM_Namespace :: string
  CM_Name :: string
  CM_Data :: "string \<rightharpoonup> string"

text \<open>The calls of the typed client; a missing map of a ConfigMap is the empty one.\<close>

record 's workload_client =
  WC_GetBinding :: "string \<Rightarrow> ('s, cluster_role_binding) go"
  WC_CreateBinding :: "cluster_role_binding \<Rightarrow> ('s, unit) go"
  WC_GetService :: "string \<Rightarrow> string \<Rightarrow> ('s, workload_service) go"
  WC_CreateService :: "workload_service \<Rightarrow> ('s, unit) go"
  WC_GetConfigMap :: "string \<Rightarrow> string \<Rightarrow> ('s, config_map) go"
  WC_UpdateConfigMap :: "config_map \<Rightarrow> ('s, unit) go"

definition cluster_ca_binding :: cluster_role_binding where
  "cluster_ca_binding = \<lparr>CRB_Name = ''cluster-ca-admin'',
     CRB_RoleRef = \<lparr>RR_APIGroup = ''rbac.authorization.k8s.io'', RR_Kind = ''ClusterRole'', RR_Name = ''cluster-admin''\<rparr>,
     CRB_Subjects = [\<lparr>Sub_Kind = ''User'', Sub_Name = ''cluster-ca'', Sub_APIGroup = ''rbac.authorization.k8s.io''\<rparr>]\<rparr>"

text \<open>Create an object that is not there yet; somebody else may create it in between.\<close>

definition seed_once :: "string \<Rightarrow> string \<Rightarrow> ('s, 'a) go \<Rightarrow> ('s, unit) go \<Rightarrow> ('s, unit) go" where
  "seed_once get_text create_text get create =
     bindG (optionalG get_text get) (\<lambda>existing. case existing of
       Some _ \<Rightarrow> returnG ()
     | None \<Rightarrow> toleratingG IsAlreadyExists_api create_text create)"

definition seedClusterAdminBinding :: "'s workload_client \<Rightarrow> ('s, unit) go" where
  "seedClusterAdminBinding k =
     (let what = ''workload ClusterRoleBinding '' @ Quote (CRB_Name cluster_ca_binding) in
      seed_once (''get '' @ what) (''create '' @ what) (WC_GetBinding k (CRB_Name cluster_ca_binding)) (WC_CreateBinding k cluster_ca_binding))"

definition kube_dns_service :: workload_service where
  "kube_dns_service = \<lparr>Svc_Name = ''kube-dns'', Svc_Namespace = ''kube-system'',
     Svc_Labels = [''k8s-app'' \<mapsto> ''kube-dns'', ''kubernetes.io/cluster-service'' \<mapsto> ''true'', ''kubernetes.io/name'' \<mapsto> ''CoreDNS''],
     Svc_ClusterIP = ''10.96.0.10'', Svc_Selector = [''k8s-app'' \<mapsto> ''kube-dns''],
     Svc_Ports = [\<lparr>SP_Name = ''dns'', SP_Port = 53, SP_Protocol = ''UDP'', SP_TargetPort = 53\<rparr>,
       \<lparr>SP_Name = ''dns-tcp'', SP_Port = 53, SP_Protocol = ''TCP'', SP_TargetPort = 53\<rparr>,
       \<lparr>SP_Name = ''metrics'', SP_Port = 9153, SP_Protocol = ''TCP'', SP_TargetPort = 9153\<rparr>]\<rparr>"

definition seedKubeDNSService :: "'s workload_client \<Rightarrow> ('s, unit) go" where
  "seedKubeDNSService k =
     seed_once ''get workload kube-dns Service'' ''create workload kube-dns Service''
       (WC_GetService k ''kube-system'' ''kube-dns'') (WC_CreateService k kube_dns_service)"

definition seedCiliumConfig :: "'s workload_client \<Rightarrow> string \<Rightarrow> ('s, unit) go" where
  "seedCiliumConfig k cpIP =
     (let port = show_int (sint controlPlaneAPIServerPort) in
      if cpIP = [] then returnG ()
      else
        bindG (optionalG ''get workload cilium-config'' (WC_GetConfigMap k ''kube-system'' ''cilium-config'')) (\<lambda>found. case found of
          None \<Rightarrow> returnG ()
        | Some cm \<Rightarrow>
            if CM_Data cm ''k8sServiceHost'' = Some cpIP \<and> CM_Data cm ''k8sServicePort'' = Some port then returnG ()
            else wrapG ''update workload cilium-config with k8sServiceHost'' (WC_UpdateConfigMap k
              (cm\<lparr>CM_Data := (CM_Data cm)(''k8sServiceHost'' \<mapsto> cpIP, ''k8sServicePort'' \<mapsto> port)\<rparr>))))"

text \<open>
  \<open>S_URLPort\<close> is the port \<open>net/url\<close> finds in a URL, \<open>S_Mint\<close> is
  \<open>pki.MintClientCert\<close>, \<open>S_NewClient\<close> builds the client for a server with a CA, a
  certificate and a key.
\<close>

record ('s, 'k) seed_lib =
  S_URLPort :: "string \<Rightarrow> goerr + string"
  S_Mint :: "cluster_pki \<Rightarrow> string \<Rightarrow> string list \<Rightarrow> ('s, byte list \<times> byte list) go"
  S_X509KeyPair :: "byte list \<Rightarrow> byte list \<Rightarrow> goerr option"
  S_NewClient :: "string \<Rightarrow> byte list \<Rightarrow> byte list \<Rightarrow> byte list \<Rightarrow> goerr + 'k"

text \<open>\<open>strconv.Atoi\<close> of a port, which has an optional sign and must fit an \<open>int\<close>.\<close>

definition Atoi :: "string \<Rightarrow> int option" where
  "Atoi s =
     (let neg = (s \<noteq> [] \<and> hd s = CHR ''-'');
          digits = (if s \<noteq> [] \<and> (hd s = CHR ''-'' \<or> hd s = CHR ''+'') then tl s else s) in
      case parse_nat digits of
        None \<Rightarrow> None
      | Some n \<Rightarrow>
          let i = (if neg then - int n else int n)
          in if - (2 ^ 63) \<le> i \<and> i < 2 ^ 63 then Some i else None)"

definition urlHostPort :: "('s, 'k) seed_lib \<Rightarrow> string \<Rightarrow> goerr + int32" where
  "urlHostPort lib raw = (case S_URLPort lib raw of
     Inl e \<Rightarrow> Inl e
   | Inr port \<Rightarrow>
       (case Atoi port of
          None \<Rightarrow> Inl (plain_err (''port '' @ Quote port @ '' is not numeric''))
        | Some p \<Rightarrow> Inr (word_of_int p)))"

definition seedClusterAdmin ::
  "('s, 's workload_client) seed_lib \<Rightarrow> string \<Rightarrow> string \<Rightarrow> cluster_pki \<Rightarrow> ('s, unit) go" where
  "seedClusterAdmin lib serverURL cpIP pk =
     bindG (wrapG ''mint system:masters bootstrap client cert'' (S_Mint lib pk ''system:masters-admin'' [''system:masters''])) (\<lambda>(certPEM, keyPEM).
     bindG (wrapG (''parse workload apiserver endpoint '' @ Quote serverURL) (liftG (urlHostPort lib serverURL))) (\<lambda>_.
     bindG (wrapG ''build RBAC seed client certificate''
       (liftG (case S_X509KeyPair lib certPEM keyPEM of Some e \<Rightarrow> Inl e | None \<Rightarrow> Inr ()))) (\<lambda>_.
     bindG (wrapG ''build workload clientset'' (liftG (S_NewClient lib serverURL (PK_CA pk) certPEM keyPEM))) (\<lambda>k.
     bindG (seedClusterAdminBinding k) (\<lambda>_.
     bindG (seedKubeDNSService k) (\<lambda>_.
     seedCiliumConfig k cpIP))))))"

end
