(* ===== verification/SnapshotRestore.thy ===== *)
theory SnapshotRestore
  imports MachineController ControlPlaneSafety Manager
begin

text \<open>
  The way of an etcd snapshot through a replacement: the control plane controller writes it to a file
  of the manager and records the path, the config of the replacement carries the path, and the machine
  controller reads the file back into the tree the new machine boots from.
\<close>

section \<open>Reading what was written\<close>

lemma walk_create_no_link:
  assumes "walk True ns n d todo = Inr p" and "real_dir ns d"
  shows "node_at ns p \<noteq> Some (Symlink t)"
  using assms
proof (induction True ns n d todo rule: walk.induct)
  case (1 ns n d)
  then show ?case by (cases d rule: rev_cases) (auto simp: walk.simps real_dir_snoc node_at_def)
next
  case (2 ns n d c cs)
  note eqs = walk.simps(2) [of _ _ n d c cs]
  show ?case
  proof (cases "c = [] \<or> c = ''.'' \<or> c = ''..''")
    case True
    with 2 show ?thesis by (auto simp: eqs intro: real_dir_butlast split: if_splits)
  next
    case False
    then have c: "\<not> (c = [] \<or> c = ''.'')" "c \<noteq> ''..''" by simp_all
    show ?thesis
    proof (cases "map_of ns (d @ [c])")
      case None
      with False 2 show ?thesis by (auto simp: eqs node_at_def split: if_splits)
    next
      case (Some nd)
      note nd = Some
      show ?thesis
      proof (cases nd)
        case (Symlink u)
        then obtain m where n: "n = Suc m" using 2 False nd by (cases n) (auto simp: walk.simps(2))
        have "walk True ns m (if IsAbs u then [] else d) (split_slash u @ cs) = Inr p"
          using "2.prems"(1) False nd Symlink n by (simp add: walk.simps(2))
        from "2.hyps"(4) [OF c nd Symlink n this] "2.prems"(2) show ?thesis by simp
      next
        case Directory
        with False 2 nd show ?thesis by (simp add: eqs real_dir_snoc)
      qed (use False 2 nd in \<open>auto simp: eqs node_at_def split: if_splits\<close>)
    qed
  qed
qed

lemma walk_create_resolves:
  assumes "walk True ns n d todo = Inr p" and "real_dir ns d" and "node_at ns p \<noteq> Some Directory"
  shows "walk False (AList.update p (RegularFile bs) ns) n d todo = Inr p"
  using assms
proof (induction True ns n d todo rule: walk.induct)
  case (1 ns n d)
  then show ?case
    by (cases d rule: rev_cases) (auto simp: walk.simps node_at_def real_dir_snoc)
next
  case (2 ns n d c cs)
  show ?case
  proof (cases "c = [] \<or> c = ''.'' \<or> c = ''..''")
    case True
    with 2 show ?thesis by (auto simp: walk.simps(2) intro: real_dir_butlast split: if_splits)
  next
    case False
    note eqs = walk.simps(2) [of _ _ n d c cs]
    show ?thesis
    proof (cases "map_of ns (d @ [c])")
      case None
      with False 2 have "p = d @ [c]" "cs = []" by (auto simp: eqs split: if_splits)
      with False show ?thesis by (simp add: walk.simps update_conv')
    next
      case (Some nd)
      note nd = Some
      show ?thesis
      proof (cases nd)
        case (Symlink t)
        then obtain m where n: "n = Suc m" using 2 False nd by (cases n) (auto simp: walk.simps(2))
        have walk: "walk True ns m (if IsAbs t then [] else d) (split_slash t @ cs) = Inr p"
          using "2.prems"(1) False nd Symlink n by (simp add: walk.simps(2))
        have "walk False (AList.update p (RegularFile bs) ns) m (if IsAbs t then [] else d) (split_slash t @ cs) = Inr p"
          using "2.hyps"(4) [OF _ _ nd Symlink n] walk False "2.prems"(2,3) by auto
        moreover have "p \<noteq> d @ [c]" using walk_create_no_link [OF walk, of t] "2.prems"(2) nd Symlink
          by (cases "IsAbs t") (auto simp: node_at_def)
        ultimately show ?thesis using False nd Symlink n by (simp add: walk.simps(2) update_conv')
      next
        case Directory
        with False 2 nd have "walk False (AList.update p (RegularFile bs) ns) n (d @ [c]) cs = Inr p"
          by (simp add: eqs real_dir_snoc)
        moreover have "p \<noteq> d @ [c]" using Directory nd "2.prems"(3) by (auto simp: node_at_def)
        ultimately show ?thesis using False nd Directory by (simp add: eqs update_conv')
      qed (use False 2 nd in \<open>auto simp: eqs update_conv' split: if_splits\<close>)
    qed
  qed
qed

lemma os_WriteFile_read_back:
  assumes "os_WriteFile path bs h = (Inr (), h')" and "hs_nodes h'' = hs_nodes h'"
    and "hs_fault h'' (hs_calls h'') OsReadFile path = None"
  shows "fst (os_ReadFile path h'') = Inr bs"
proof -
  from assms(1) obtain p where w: "walk True (hs_nodes h) 255 [] (split_slash path) = Inr p"
    and p: "node_at (hs_nodes h) p \<noteq> Some Directory" and ns: "hs_nodes h' = AList.update p (RegularFile bs) (hs_nodes h)"
    unfolding os_WriteFile_def write_node_def by (auto dest!: sys_Inr split: sum.splits if_splits)
  then have "resolve (hs_nodes h') path = Inr p"
    unfolding resolve_def by (simp add: walk_create_resolves)
  moreover have "node_at (hs_nodes h') p = Some (RegularFile bs)"
    using p ns by (auto simp: node_at_def update_conv' split: if_splits)
  ultimately show ?thesis
    using assms(2,3) by (simp add: os_ReadFile_def sys_def at_resolved_def read_node_def node_of_def run_bind Let_def)
qed

section \<open>From the capture to the new machine\<close>

text \<open>
  What the theorem below needs of the parameters: the file system is a part of the state that the API
  calls and the events leave alone, and a status update answers with the status and spec it was sent.
\<close>

definition snapshot_seams :: "('s, 'x) cp_reconciler \<Rightarrow> bool" where
  "snapshot_seams r \<longleftrightarrow>
     (\<forall>h s. CR_Host r (CR_PutHost r h s) = h) \<and>
     (\<forall>cp s cp' t. K_UpdateControlPlaneStatus (R_Kube r) cp s = (Inr cp', t) \<longrightarrow>
        CP_Status cp' = CP_Status cp \<and> CP_Spec cp' = CP_Spec cp \<and> CR_Host r t = CR_Host r s) \<and>
     (\<forall>kind m ty reason msg s. CR_Host r (K_EventOn (R_Kube r) kind m ty reason msg s) = CR_Host r s)"

lemma capture_records:
  assumes seams: "snapshot_seams r" and cap: "CR_CaptureEtcdSnapshot r = Some capture"
    and run: "captureReplacementSnapshot r cp c m s = (Inr (res, cp'), t)"
    and old: "\<not> replacement_recorded cp (M_Name (MC_Meta m))" and new: "replacement_recorded cp' (M_Name (MC_Meta m))"
  obtains hm u0 port snapshot u1 path h where
    "K_GetHypervisorMachine (R_Kube r) (cp_namespace cp, M_Name (MC_Meta m)) s = (Inr hm, u0)"
    "publishedHostPort (HMS_PublishedPorts (HM_Status hm)) controlPlaneEtcdClientPort = Some port"
    "capture ''127.0.0.1'' port u0 = (Inr snapshot, u1)" "os_WriteFile path snapshot h = (Inr (), CR_Host r t)"
    "CPS_Replacement (CP_Status cp') = Some (recorded_as cp m path)" "CP_Spec cp' = CP_Spec cp"
proof -
  have "cp' \<noteq> cp" using old new by auto
  with run cap seams show thesis
    by (auto intro!: that simp: captureReplacementSnapshot_def Let_def run_bind run_optional run_reported run_wrap run_event_on
        cp_osG_def onG_def writeEtcdSnapshot_def snapshot_seams_def with_replacement_def
        split: prod.splits sum.splits option.splits if_splits)
qed

lemma os_WriteFile_path: "os_WriteFile path bs h = (Inr (), h') \<Longrightarrow> path \<noteq> []"
  by (auto simp: os_WriteFile_def write_node_def walk.simps node_at_def dest!: sys_Inr)

lemma BuildEtcdRestore_snapshot:
  "BuildEtcdRestore snapshot = Inr tree \<Longrightarrow>
     map_of tree (etcdRestoreTreeName @ ''/'' @ etcdRestoreSnapshotPath) = Some snapshot"
  by (auto simp: BuildEtcdRestore_def map_literal_def update_conv' etcdRestoreTreeName_def etcdRestoreSnapshotPath_def
      etcdRestoreScriptPath_def etcdRestoreDropInPath_def split: if_splits)

text \<open>
  C4: a replacement boots from the snapshot of its predecessor. Suppose the control plane controller has
  just recorded the replacement of a machine. Then it had read the HypervisorMachine of that machine, and
  the capture on the host port published there for etcd had answered with a snapshot. If the machine
  controller later reads, for any Machine, a config whose snapshot path is the one the control plane
  controller puts in the config of the new replica, while the files of the manager are as the recording
  left them and can be read, the restore tree it renders is that of exactly those bytes, and the tree
  holds them as its snapshot file.
\<close>

theorem replacement_restores_snapshot:
  assumes "snapshot_seams r" and "CR_CaptureEtcdSnapshot r = Some capture"
    and "captureReplacementSnapshot r cp c m s = (Inr (res, cp'), t)"
    and "\<not> replacement_recorded cp (M_Name (MC_Meta m))" and "replacement_recorded cp' (M_Name (MC_Meta m))"
    and "MR_Host mr = CR_Host r" and "config_ref (R_Lib mr) mc = Some key" and "K_GetConfig (R_Kube mr) key u = (Inr cfg, v)"
    and "Cfg_EtcdSnapshotHostPath (Cfg_Spec cfg) =
           Cfg_EtcdSnapshotHostPath (Cfg_Spec (replica_config r cp' c (M_Name (MC_Meta m))))"
    and "hs_nodes (CR_Host r v) = hs_nodes (CR_Host r t)" and "\<forall>n p. hs_fault (CR_Host r v) n OsReadFile p = None"
  shows "\<exists>hm u0 port snapshot u1.
    K_GetHypervisorMachine (R_Kube r) (cp_namespace cp, M_Name (MC_Meta m)) s = (Inr hm, u0) \<and>
    publishedHostPort (HMS_PublishedPorts (HM_Status hm)) controlPlaneEtcdClientPort = Some port \<and>
    capture ''127.0.0.1'' port u0 = (Inr snapshot, u1) \<and>
    fst (etcdRestoreTree mr mc u) = BuildEtcdRestore snapshot \<and>
    (\<forall>tree. BuildEtcdRestore snapshot = Inr tree \<longrightarrow>
       map_of tree (etcdRestoreTreeName @ ''/'' @ etcdRestoreSnapshotPath) = Some snapshot)"
proof -
  obtain hm u0 port snapshot u1 path h where
      hm: "K_GetHypervisorMachine (R_Kube r) (cp_namespace cp, M_Name (MC_Meta m)) s = (Inr hm, u0)"
    and port: "publishedHostPort (HMS_PublishedPorts (HM_Status hm)) controlPlaneEtcdClientPort = Some port"
    and cap: "capture ''127.0.0.1'' port u0 = (Inr snapshot, u1)" and w: "os_WriteFile path snapshot h = (Inr (), CR_Host r t)"
    and rep: "CPS_Replacement (CP_Status cp') = Some (recorded_as cp m path)" and spec: "CP_Spec cp' = CP_Spec cp"
    by (rule capture_records [OF assms(1-5)])
  have "Cfg_EtcdSnapshotHostPath (Cfg_Spec cfg) = path"
    using assms(9) rep spec by (simp add: replica_config_def Let_def)
  moreover have "fst (os_ReadFile path (CR_Host r v)) = Inr snapshot"
    by (rule os_WriteFile_read_back [OF w]) (use assms(10,11) in simp_all)
  ultimately have "fst (etcdRestoreTree mr mc u) = BuildEtcdRestore snapshot"
    using assms(6-8) os_WriteFile_path [OF w]
    by (cases "os_ReadFile path (CR_Host r v)")
      (simp add: etcdRestoreTree_def bootstrap_config_def run_bind run_optional run_wrap osG_def onG_def liftG_def)
  with hm port cap show ?thesis using BuildEtcdRestore_snapshot by blast
qed

section \<open>A version that changes on the way\<close>

text \<open>
  C35: The snapshot is lost when the version changes in the middle of a replacement: if the version of
  the control plane is no longer the one the replacement was recorded for, no config that any run
  creates, and so not the config of the machine that was deleted either, restores a snapshot.
\<close>

theorem version_change_loses_snapshot:
  assumes "cp_logged log r" and "status_echoed (R_Kube r)" and "CR_NewConfig r = manager_NewConfig"
    and "CPS_Replacement (CP_Status cp) = Some rep" and "Rep_TargetVersion rep \<noteq> CP_Version (CP_Spec cp)"
    and "reconcile_control_plane r cp c s = (res, t)"
  shows "\<exists>ws. log t = ws @ log s \<and> (\<forall>cfg. WCreateConfig cfg \<in> set ws \<longrightarrow> Cfg_EtcdSnapshotHostPath (Cfg_Spec cfg) = [])"
proof -
  let ?ok = "\<lambda>w. \<forall>cfg. w = WCreateConfig cfg \<longrightarrow> Cfg_EtcdSnapshotHostPath (Cfg_Spec cfg) = []"
  have plain: "Cfg_EtcdSnapshotHostPath (Cfg_Spec (replica_config r cp1 c n)) = []"
    if "CP_Spec cp1 = CP_Spec cp" "CPS_Replacement (CP_Status cp1) \<in> {None, Some rep}" for cp1 n
    using that assms(3,5) by (auto simp: replica_config_def Let_def manager_NewConfig_def split: option.split)
  have "cp_permits cp ?ok" by (simp add: cp_permits_def)
  moreover have "writes_from log ?ok (reconcileVersionDrift r cp c (effective_replicas cp)) s"
    by (rule drift_writes [OF assms(1) calculation]) simp_all
  ultimately have "writes_from log ?ok (reconcile_control_plane r cp c) s"
    by (rule control_plane_writes [OF assms(1) _ assms(2)]) (use plain assms(4) in \<open>auto simp: keeps_replacement_def\<close>)
  with assms(6) show ?thesis by (auto simp: writes_from_def wrote_def list_all_iff)
qed

end
