(* ===== verification/PortReservation.thy ===== *)
theory PortReservation
  imports ExecutorPorts ControlPlaneController MachineController
begin

text \<open>
  The port of the first control-plane machine: the control plane controller reserves it with the host
  agent to learn the address for the certificates, the machine controller asks for it again. Both go
  to the executor of the agent, which keeps an owner for every port.
\<close>

section \<open>What a granted port leaves behind\<close>

definition port_row :: "'x world \<Rightarrow> string \<Rightarrow> string \<Rightarrow> network_resource option" where
  "port_row w inst port = select_row (\<lambda>r. (NR_InstallationID r, NR_Port r)) (inst, port) (network_resources (tables_of w))"

lemma upsert_row_select:
  "unique_for key u r rows \<Longrightarrow> select_row u (u r) (upsert_row key r rows) = Some r"
  by (induction rows) (auto simp: unique_for_def select_row_def)

lemma get_by_port_Inr:
  "storeG e (GetNetworkResourceByPort inst port) w = (Inr n, w') \<Longrightarrow> port_row w' inst port = Some n"
  by (clarsimp simp: storeG_Inr GetNetworkResourceByPort_def port_row_def)
    (frule sql_row_cases(1), drule sql_row_cases(2) [OF _ refl], simp)

lemma upsert_port_Inr:
  "storeG e (UpsertNetworkResource n) w = (Inr (), w') \<Longrightarrow> port_row w' (NR_InstallationID n) (NR_Port n) = Some n"
  using upsert_row_select [of nr_key "\<lambda>x. (NR_InstallationID x, NR_Port x)" n]
  by (auto simp: storeG_Inr UpsertNetworkResource_def port_row_def run_wrap dest!: sql_exec_Inr split: prod.splits sum.splits if_splits)

lemma recorded_port_owner: "recorded_port m q n = Inr obs \<Longrightarrow> NR_OwnerUID n = Owner_UID (Mut_Owner m)"
  by (auto simp: recorded_port_def split: if_splits)

lemma EnsurePort_records:
  assumes "EnsurePort e m q w = (Inr obs, w')"
  shows "\<exists>n. port_row w' (Owner_InstallationID (Mut_Owner m)) (PortReq_Name q) = Some n \<and> NR_OwnerUID n = Owner_UID (Mut_Owner m)"
proof -
  let ?inst = "Owner_InstallationID (Mut_Owner m)" and ?port = "PortReq_Name q"
  from assms obtain found w1 where get: "storeG e (GetNetworkResourceByPort ?inst ?port) w = (found, w1)"
    by (auto simp: EnsurePort_def bindG_eq_Inr catchG_eq split: if_splits)
  show ?thesis
  proof (cases found)
    case (Inr n)
    with assms get have "recorded_port m q n = Inr obs" "w' = w1"
      by (auto simp: EnsurePort_def bindG_eq_Inr catchG_eq liftG_def split: if_splits)
    with get Inr show ?thesis by (auto dest: get_by_port_Inr recorded_port_owner)
  next
    case (Inl err)
    let ?row = "\<lambda>ip. \<lparr>NR_InstallationID = ?inst, NR_OwnerUID = Owner_UID (Mut_Owner m), NR_NodeID = Owner_NodeID (Mut_Owner m),
         NR_Network = PortReq_Network q, NR_Port = ?port, NR_MAC = PortReq_MAC q, NR_IP = ip\<rparr>"
    let ?store = "\<lambda>ip. catchG (storeG e (UpsertNetworkResource (?row ip))) (\<lambda>stored. case stored of
        Inr _ \<Rightarrow> returnG (observedPort (?row ip))
      | Inl upsertErr \<Rightarrow> catchG (storeG e (GetNetworkResourceByPort ?inst ?port)) (\<lambda>lookup. case lookup of
          Inr existing \<Rightarrow> liftG (recorded_port m q existing) | Inl _ \<Rightarrow> failG upsertErr))"
    from assms get Inl obtain ip w2 where "?store ip w2 = (Inr obs, w')"
      by (simp add: EnsurePort_def catchG_def [of "storeG e (GetNetworkResourceByPort ?inst ?port)"] Let_def split: if_splits)
        (auto simp: bindG_eq_Inr Let_def split: if_splits)
    then obtain stored w3 where up: "storeG e (UpsertNetworkResource (?row ip)) w2 = (stored, w3)"
      and rest: "case stored of Inr _ \<Rightarrow> w' = w3
        | Inl _ \<Rightarrow> (\<exists>n. storeG e (GetNetworkResourceByPort ?inst ?port) w3 = (Inr n, w') \<and> recorded_port m q n = Inr obs)"
      by (auto simp: catchG_def liftG_def split: prod.splits sum.splits)
    show ?thesis
    proof (cases stored)
      case (Inr u)
      with up rest show ?thesis by (auto dest!: upsert_port_Inr)
    next
      case (Inl e')
      with rest show ?thesis by (auto dest: get_by_port_Inr recorded_port_owner)
    qed
  qed
qed

section \<open>The machine that needs the port\<close>

text \<open>The agent the controllers talk to is the executor on a part of the state.\<close>

definition executor_behind :: "('s \<Rightarrow> 'x world) \<Rightarrow> ('x world \<Rightarrow> 's \<Rightarrow> 's) \<Rightarrow> 'x executor \<Rightarrow> 's host_agent \<Rightarrow> bool" where
  "executor_behind get put e a \<longleftrightarrow> (\<forall>w s. get (put w s) = w) \<and>
     (\<forall>m q. HA_EnsureNetwork a m q = onG get put (EnsureNetwork e m q)) \<and>
     (\<forall>m q. HA_EnsurePort a m q = onG get put (EnsurePort e m q))"

lemma reservation_recorded:
  assumes "executor_behind get put e a" and "R_Agent r = Some a" and "reserveControlPlaneIP r cp c s = (Inr ip, t)"
  shows "\<exists>n. port_row (get t) ''agent'' (replica_name cp 0) = Some n \<and> NR_OwnerUID n = M_UID (CP_Meta cp)"
proof -
  let ?m = "hostMutation ''agent'' (M_UID (CP_Meta cp)) (M_Generation (CP_Meta cp)) ''reserve-control-plane''"
  let ?q = "\<lambda>hc. \<lparr>PortReq_Name = replica_name cp 0, PortReq_Network = M_Name (HC_Meta hc),
     PortReq_MAC = Derive (M_Name (CL_Meta c)) (replica_name cp 0)\<rparr>"
  from assms(3,2) obtain hc :: hypervisor_cluster and obs u where "HA_EnsurePort a ?m (?q hc) u = (Inr obs, t)"
    by (auto simp: reserveControlPlaneIP_def Let_def bindG_eq_Inr split: option.splits)
  then obtain w where "EnsurePort e ?m (?q hc) (get u) = (Inr obs, w)" "t = put w u"
    using assms(1) by (auto simp: executor_behind_def onG_def split: prod.splits)
  with EnsurePort_records [of e ?m "?q hc" "get u" obs w] assms(1) show ?thesis
    by (auto simp: executor_behind_def)
qed

lemma EnsureNetwork_db: "EnsureNetwork e m q w = (r, w') \<Longrightarrow> db w' = db w"
  by (cases "Mutation_Validate m")
    (auto simp: EnsureNetwork_def run_bind catchG_def Let_def split: if_splits option.splits prod.splits sum.splits dest: netG_db)

text \<open>
  C36: The reservation of the address blocks the machine it was made for: once the control plane
  controller has reserved the address of its first replica, every attempt to give that replica its
  identity fails as long as the inventory keeps the row, because the port is recorded for the
  HypervisorControlPlane and requested for the HypervisorMachine; the attempt leaves the rows as they
  are.
\<close>

theorem reservation_blocks_machine:
  assumes "executor_behind get put e a" and "R_Agent r = Some a" and "R_Agent mr = Some a"
    and "reserveControlPlaneIP r cp c s = (Inr ip, t)"
    and "M_Name (HM_Meta hm) = replica_name cp 0" and "M_UID (HM_Meta hm) \<noteq> M_UID (CP_Meta cp)"
    and "network_resources (tables_of (get u)) = network_resources (tables_of (get t))" and "healthy (db (get u))"
  shows "\<exists>err v. reconcileIdentity mr hm m hc mac u = (Inl err, v) \<and>
    network_resources (tables_of (get v)) = network_resources (tables_of (get t))"
proof -
  obtain n where n: "port_row (get t) ''agent'' (replica_name cp 0) = Some n" "NR_OwnerUID n = M_UID (CP_Meta cp)"
    using reservation_recorded [OF assms(1,2,4)] by blast
  let ?q = "\<lparr>PortReq_Name = replica_name cp 0, PortReq_Network = k8netdNetworkName hc, PortReq_MAC = mac\<rparr>"
  let ?net = "\<lparr>NetReq_Name = k8netdNetworkName hc, NetReq_CIDR = HC_CIDR (HC_Network (HC_Spec hc))\<rparr>"
  let ?nm = "hostMutation ''agent'' (M_UID (HC_Meta hc)) (M_Generation (HC_Meta hc)) ''network''"
  obtain x w where net: "EnsureNetwork e ?nm ?net (get u) = (x, w)" by fastforce
  then have w: "db w = db (get u)" by (rule EnsureNetwork_db)
  have fails: "\<exists>err w'. EnsurePort e (port_mutation hm) ?q w = (Inl err, w') \<and> tables_of w' = tables_of w"
  proof (cases "Mutation_Validate (port_mutation hm) = None \<and> Ex_Network e \<noteq> None \<and> Ex_Store e \<and> k8netdNetworkName hc \<noteq> [] \<and> mac \<noteq> []")
    case True
    have "port_row w ''agent'' (replica_name cp 0) = Some n" using n(1) assms(7) w by (simp add: port_row_def)
    then show ?thesis
      using EnsurePort_conflict [of "port_mutation hm" e w ?q n] True n(2) assms(6,8) w
      by (auto simp: port_row_def port_mutation_def replica_name_def)
  next
    case False
    then show ?thesis
      by (cases "Mutation_Validate (port_mutation hm)") (auto simp: EnsurePort_def run_bind)
  qed
  then obtain err w' where port: "EnsurePort e (port_mutation hm) ?q w = (Inl err, w')" "tables_of w' = tables_of w" by blast
  have behind: "get (put v s) = v" "HA_EnsureNetwork a k p = onG get put (EnsureNetwork e k p)"
    "HA_EnsurePort a k q = onG get put (EnsurePort e k q)" for v s k p q
    using assms(1) by (simp_all add: executor_behind_def)
  show ?thesis
    using net port w assms(3,5,7)
    by (cases x) (simp_all add: reconcileIdentity_def agent_identity_def Let_def run_bind run_wrap behind onG_def)
qed

end
