(* ===== verification/ClusterController.thy ===== *)
theory ClusterController
  imports Provider
begin

text \<open>
  The cluster controller (\<open>controllers/hypervisorcluster_controller.go\<close>): it gives a
  HypervisorCluster its network, publishes the endpoint of the workload API server once the control
  plane reports initialized, and takes the network down before it releases the object.
\<close>

definition hypervisorClusterFinalizer :: string where
  "hypervisorClusterFinalizer = ''hypervisorcluster.infrastructure.cluster.x-k8s.io''"

definition defaultPoolStart :: string where
  "defaultPoolStart = ''192.168.124.20''"

definition defaultPoolEnd :: string where
  "defaultPoolEnd = ''192.168.124.200''"

section \<open>Links\<close>

text \<open>The Cluster an owner reference names; a reference to a missing one ends the search.\<close>

fun owner_cluster :: "('s, 'z) reconciler_scheme \<Rightarrow> string \<Rightarrow> owner_reference list \<Rightarrow> ('s, cluster option) go" where
  "owner_cluster r ns [] = returnG None"
| "owner_cluster r ns (ref # refs) =
     (if \<not> owner_ref_to (R_Lib r) ''Cluster'' ref then owner_cluster r ns refs
      else optionalG (''get owner Cluster '' @ Quote (OR_Name ref)) (K_GetCluster (R_Kube r) (ns, OR_Name ref)))"

definition Cluster_getLinkedCluster :: "('s, 'z) reconciler_scheme \<Rightarrow> hypervisor_cluster \<Rightarrow> ('s, cluster option) go" where
  "Cluster_getLinkedCluster r hc =
     (let ns = M_Namespace (HC_Meta hc); name = HC_ClusterName (HC_Spec hc) in
      bindG (owner_cluster r ns (M_OwnerReferences (HC_Meta hc))) (\<lambda>owned. case owned of
        Some c \<Rightarrow> returnG (Some c)
      | None \<Rightarrow>
          if name \<noteq> [] then optionalG (''get linked Cluster '' @ Quote name) (K_GetCluster (R_Kube r) (ns, name))
          else
            bindG (wrapG (''list Clusters in '' @ Quote ns) (K_ListClusters (R_Kube r) ns)) (\<lambda>clusters.
            returnG (find (\<lambda>c. Lib_IsDefined (R_Lib r) (CL_InfrastructureRef c) \<and>
              Ref_Kind (CL_InfrastructureRef c) = ''HypervisorCluster'' \<and>
              Ref_Name (CL_InfrastructureRef c) = M_Name (HC_Meta hc)) clusters))))"

definition machineInfraMachine :: "('s, 'z) reconciler_scheme \<Rightarrow> machine \<Rightarrow> ('s, hypervisor_machine option) go" where
  "machineInfraMachine r m =
     (let ref = MC_InfrastructureRef m; key = (M_Namespace (MC_Meta m), Ref_Name ref) in
      if Ref_Kind ref \<noteq> ''HypervisorMachine'' \<or> Ref_Name ref = [] then returnG None
      else optionalG (''get infrastructure machine '' @ show_key key) (K_GetHypervisorMachine (R_Kube r) key))"

section \<open>The endpoint\<close>

definition publishedAPIPort :: "machine_port list \<Rightarrow> int32" where
  "publishedAPIPort ports =
     (case publishedHostPort ports controlPlaneAPIServerPort of Some p \<Rightarrow> p | None \<Rightarrow> defaultControlPlanePort)"

text \<open>The first control-plane machine with an address decides.\<close>

fun endpoint_of :: "('s, 'z) reconciler_scheme \<Rightarrow> machine list \<Rightarrow> ('s, api_endpoint option) go" where
  "endpoint_of r [] = returnG None"
| "endpoint_of r (m # ms) =
     bindG (machineInfraMachine r m) (\<lambda>found. case found of
       None \<Rightarrow> endpoint_of r ms
     | Some hm \<Rightarrow>
         if some_internal_ip (R_Lib r) (HMS_Addresses (HM_Status hm)) = None then endpoint_of r ms
         else returnG (Some \<lparr>Ep_Host = ''host.containers.internal'',
                             Ep_Port = publishedAPIPort (HMS_PublishedPorts (HM_Status hm))\<rparr>))"

definition control_plane_initialized :: "hypervisor_control_plane \<Rightarrow> bool" where
  "control_plane_initialized cp =
     (case CPS_ControlPlaneInitialized (CP_Status cp) of Some b \<Rightarrow> b | None \<Rightarrow> CPS_Initialized (CP_Status cp))"

definition with_endpoint :: "api_endpoint \<Rightarrow> hypervisor_cluster \<Rightarrow> hypervisor_cluster" where
  "with_endpoint ep hc = hc\<lparr>HC_Spec := (HC_Spec hc)\<lparr>HC_Endpoint := ep\<rparr>, HC_Status := (HC_Status hc)\<lparr>HCS_Endpoint := ep\<rparr>\<rparr>"

definition reconcileControlPlaneEndpoint ::
  "('s, 'z) reconciler_scheme \<Rightarrow> cluster \<Rightarrow> hypervisor_cluster \<Rightarrow> ('s, hypervisor_cluster) go" where
  "reconcileControlPlaneEndpoint r c hc =
     (let ref = CL_ControlPlaneRef c; key = (M_Namespace (CL_Meta c), Ref_Name ref) in
      if \<not> Lib_IsDefined (R_Lib r) ref then returnG hc
      else
        bindG (optionalG (''get control plane '' @ show_key key) (K_GetControlPlane (R_Kube r) key)) (\<lambda>found. case found of
          None \<Rightarrow> returnG hc
        | Some cp \<Rightarrow>
            if \<not> control_plane_initialized cp then returnG hc
            else
              bindG (wrapG ''list control-plane machines''
                (K_ListMachines (R_Kube r) (M_Namespace (CL_Meta c)) (control_plane_selector (R_Lib r) c))) (\<lambda>machines.
              bindG (endpoint_of r machines) (\<lambda>endpoint.
              returnG (case endpoint of None \<Rightarrow> hc | Some ep \<Rightarrow> with_endpoint ep hc)))))"

section \<open>Provisioning\<close>

definition isInfrastructureReady :: "provider_lib \<Rightarrow> hypervisor_cluster \<Rightarrow> bool" where
  "isInfrastructureReady lib hc \<longleftrightarrow>
     HCS_Ready (HC_Status hc) \<and> Lib_IsStatusConditionTrue lib (HCS_Conditions (HC_Status hc)) (Lib_InfrastructureReady lib)"

definition markInfrastructureReady :: "provider_lib \<Rightarrow> hypervisor_cluster \<Rightarrow> hypervisor_cluster" where
  "markInfrastructureReady lib hc = hc\<lparr>HC_Status := (HC_Status hc)\<lparr>HCS_Conditions :=
     Lib_SetStatusCondition lib (HCS_Conditions (HC_Status hc))
       \<lparr>Cond_Type = Lib_InfrastructureReady lib, Cond_Status = ''True'', Cond_Reason = ''InfrastructureProvisioned'',
        Cond_Message = []\<rparr>\<rparr>\<rparr>"

definition provisioned :: "provider_lib \<Rightarrow> hypervisor_cluster \<Rightarrow> hypervisor_cluster" where
  "provisioned lib hc =
     markInfrastructureReady lib (hc\<lparr>HC_Status := (HC_Status hc)\<lparr>HCS_Ready := True, HCS_Provisioned := Some True\<rparr>\<rparr>)"

definition ensure_network :: "('s, 'z) reconciler_scheme \<Rightarrow> hypervisor_cluster \<Rightarrow> ('s, unit) go" where
  "ensure_network r hc =
     (let network = HC_Network (HC_Spec hc); name = M_Name (HC_Meta hc);
          mutation = hostMutation ''agent'' (M_UID (HC_Meta hc)) (M_Generation (HC_Meta hc)) ''network'' in
      catchG (case R_Agent r of
          Some a \<Rightarrow> HA_EnsureNetwork a mutation \<lparr>NetReq_Name = name, NetReq_CIDR = HC_CIDR network\<rparr>
        | None \<Rightarrow> KN_CreateNetwork (R_K8Netd r) name (HC_CIDR network) (HC_Gateway network) defaultPoolStart defaultPoolEnd)
       (\<lambda>res. case res of
          Inl e \<Rightarrow>
            if errors_Is e NetAlreadyExists then returnG ()
            else bindG (event_onG (R_Kube r) ''HypervisorCluster'' (HC_Meta hc) ''Warning'' ''FailedProvision''
                   (''failed to create network '' @ Quote name @ '': '' @ err_text e))
                   (\<lambda>_. failG (wrap_err (''create network '' @ Quote name) e))
        | Inr _ \<Rightarrow> returnG ()))"

definition reconcileNormal :: "('s, 'z) reconciler_scheme \<Rightarrow> hypervisor_cluster \<Rightarrow> cluster \<Rightarrow> ('s, unit) go" where
  "reconcileNormal r hc c =
     bindG (if \<not> isInfrastructureReady (R_Lib r) hc then ensure_network r hc else returnG ()) (\<lambda>_.
     bindG (reconcileControlPlaneEndpoint r c (provisioned (R_Lib r) hc)) (\<lambda>hc'.
     bindG (wrapG ''patch HypervisorCluster spec.controlPlaneEndpoint'' (K_PatchHypervisorCluster (R_Kube r) hc hc')) (\<lambda>patched.
     let hc'' = hc'\<lparr>HC_Meta := (HC_Meta hc')\<lparr>M_ResourceVersion := M_ResourceVersion (HC_Meta patched)\<rparr>\<rparr> in
     bindG (wrapG ''update HypervisorCluster status'' (K_UpdateHypervisorClusterStatus (R_Kube r) hc'')) (\<lambda>_.
     returnG ()))))"

section \<open>Deletion\<close>

definition hc_with_finalizers :: "string list \<Rightarrow> hypervisor_cluster \<Rightarrow> hypervisor_cluster" where
  "hc_with_finalizers fs hc = hc\<lparr>HC_Meta := (HC_Meta hc)\<lparr>M_Finalizers := fs\<rparr>\<rparr>"

definition Cluster_reconcileDelete :: "('s, 'z) reconciler_scheme \<Rightarrow> hypervisor_cluster \<Rightarrow> ('s, ctrl_result) go" where
  "Cluster_reconcileDelete r hc =
     (let fs = M_Finalizers (HC_Meta hc); name = M_Name (HC_Meta hc);
          mutation = hostMutation ''agent'' (M_UID (HC_Meta hc)) (M_Generation (HC_Meta hc)) ''network-delete'' in
      if \<not> Lib_ContainsFinalizer (R_Lib r) fs hypervisorClusterFinalizer then returnG settled
      else
        bindG (catchG (case R_Agent r of
            Some a \<Rightarrow> HA_DeleteNetwork a mutation
          | None \<Rightarrow> KN_DeleteNetwork (R_K8Netd r) name)
         (\<lambda>res. case res of
            Inl e \<Rightarrow>
              if errors_Is e NetNotFound \<or> IsNotFound e then returnG ()
              else bindG (event_onG (R_Kube r) ''HypervisorCluster'' (HC_Meta hc) ''Warning'' ''FailedTeardown''
                     (''failed to delete network '' @ Quote name @ '': '' @ err_text e))
                     (\<lambda>_. failG (wrap_err (''delete network '' @ Quote name) e))
          | Inr _ \<Rightarrow> returnG ())) (\<lambda>_.
        bindG (wrapG ''remove finalizer from HypervisorCluster''
          (K_UpdateHypervisorCluster (R_Kube r)
             (hc_with_finalizers (Lib_RemoveFinalizer (R_Lib r) fs hypervisorClusterFinalizer) hc))) (\<lambda>_.
        returnG settled)))"

section \<open>Reconcile\<close>

definition reconcile_cluster :: "('s, 'z) reconciler_scheme \<Rightarrow> hypervisor_cluster \<Rightarrow> cluster \<Rightarrow> ('s, ctrl_result) go" where
  "reconcile_cluster r hc c =
     (let fs = M_Finalizers (HC_Meta hc) in
      if Lib_HasPaused (R_Lib r) (CL_Meta c) \<or> Lib_HasPaused (R_Lib r) (HC_Meta hc) then returnG settled
      else if M_DeletionTimestamp (HC_Meta hc) \<noteq> None then Cluster_reconcileDelete r hc
      else
        bindG (if Lib_ContainsFinalizer (R_Lib r) fs hypervisorClusterFinalizer then returnG hc
               else wrapG ''add finalizer to HypervisorCluster''
                 (K_UpdateHypervisorCluster (R_Kube r)
                   (hc_with_finalizers (Lib_AddFinalizer (R_Lib r) fs hypervisorClusterFinalizer) hc))) (\<lambda>hc'.
        bindG (reconcileNormal r hc' c) (\<lambda>_. returnG settled)))"

definition Cluster_Reconcile :: "('s, 'z) reconciler_scheme \<Rightarrow> object_key \<Rightarrow> ('s, ctrl_result) go" where
  "Cluster_Reconcile r key =
     bindG (optionalG (''get HypervisorCluster '' @ show_key key) (K_GetHypervisorCluster (R_Kube r) key)) (\<lambda>found. case found of
       None \<Rightarrow> returnG settled
     | Some hc \<Rightarrow>
         bindG (Cluster_getLinkedCluster r hc) (\<lambda>linked. case linked of
           None \<Rightarrow> returnG settled
         | Some c \<Rightarrow> reconcile_cluster r hc c))"

section \<open>Watches\<close>

definition clusterToHypervisorCluster :: "provider_lib \<Rightarrow> cluster \<Rightarrow> object_key list" where
  "clusterToHypervisorCluster lib c =
     (let ref = CL_InfrastructureRef c in
      if \<not> Lib_IsDefined lib ref \<or> Ref_Kind ref \<noteq> ''HypervisorCluster'' \<or> Ref_Name ref = [] then []
      else [(M_Namespace (CL_Meta c), Ref_Name ref)])"

definition machineToHypervisorCluster ::
  "('s, 'z) reconciler_scheme \<Rightarrow> hypervisor_machine \<Rightarrow> 's \<Rightarrow> object_key list \<times> 's" where
  "machineToHypervisorCluster r hm s =
     (if HM_ClusterName (HM_Spec hm) = [] then ([], s)
      else case K_GetCluster (R_Kube r) (M_Namespace (HM_Meta hm), HM_ClusterName (HM_Spec hm)) s of
        (Inl _, t) \<Rightarrow> ([], t)
      | (Inr c, t) \<Rightarrow>
          (if Lib_IsDefined (R_Lib r) (CL_InfrastructureRef c)
           then [(M_Namespace (HM_Meta hm), Ref_Name (CL_InfrastructureRef c))] else [], t))"

end
