(* ===== verification/ConfigController.thy ===== *)
theory ConfigController
  imports Provider ClusterPki
begin

text \<open>
  The bootstrap config controller (\<open>controllers/hypervisorconfig_controller.go\<close>): it finds
  the machine and the cluster of a HypervisorConfig, renders the confext tree of the node and stores it
  as the data Secret of the config. Which certificates are generated and how the tree is built are
  functions the reconciler is given; \<open>buildConfextTree\<close> of \<open>main.go\<close> is the
  builder it is given in production.
\<close>

definition configRoleControlPlane :: string where
  "configRoleControlPlane = ''control-plane''"

definition configRoleWorker :: string where
  "configRoleWorker = ''worker''"

definition dataSecretAvailableCondition :: string where
  "dataSecretAvailableCondition = ''DataSecretAvailable''"

definition encryptionConfig :: string where
  "encryptionConfig = unlines [
     ''kind: EncryptionConfiguration'',
     ''apiVersion: apiserver.config.k8s.io/v1'',
     ''resources:'',
     ''  - resources:'',
     ''      - secrets'',
     ''    providers:'',
     ''      - aescbc:'',
     ''          keys:'',
     ''            - name: key1'',
     ''              secret: MDEyMzQ1Njc4OWFiY2RlZjAxMjM0NTY3ODlhYmNkZWY='',
     ''      - identity: {}'']"

record 's config_reconciler = "'s controller" +
  FR_BuildTree :: "string \<Rightarrow> string \<Rightarrow> string \<Rightarrow> string \<Rightarrow> cluster_pki \<Rightarrow> byte list \<Rightarrow> byte list \<Rightarrow>
    (string \<rightharpoonup> byte list) \<Rightarrow> byte list \<Rightarrow> goerr + tree"
  FR_GenerateClusterPKI :: "string \<Rightarrow> string \<Rightarrow> ('s, cluster_pki) go"
  FR_GenerateKubeletCert :: "cluster_pki \<Rightarrow> string \<Rightarrow> ('s, byte list \<times> byte list) go"
  FR_RenderKubeconfig :: "byte list \<Rightarrow> string \<Rightarrow> string \<Rightarrow> byte list \<Rightarrow> byte list \<Rightarrow> goerr + byte list"

section \<open>Failures\<close>

definition markDataSecretAvailable ::
  "provider_lib \<Rightarrow> string \<Rightarrow> string \<Rightarrow> string \<Rightarrow> hypervisor_config \<Rightarrow> hypervisor_config" where
  "markDataSecretAvailable lib status reason message cfg =
     cfg\<lparr>Cfg_Status := (Cfg_Status cfg)\<lparr>CfgS_Conditions := Lib_SetStatusCondition lib (CfgS_Conditions (Cfg_Status cfg))
        \<lparr>Cond_Type = dataSecretAvailableCondition, Cond_Status = status, Cond_Reason = reason, Cond_Message = message\<rparr>\<rparr>\<rparr>"

definition recordFailure :: "('s, 'z) controller_scheme \<Rightarrow> hypervisor_config \<Rightarrow> string \<Rightarrow> string \<Rightarrow> ('s, ctrl_result) go" where
  "recordFailure r cfg reason message =
     bindG (wrapG ''update HypervisorConfig failure status'' (K_UpdateConfigStatus (R_Kube r)
       (markDataSecretAvailable (R_Lib r) ''False'' reason message
         (cfg\<lparr>Cfg_Status := (Cfg_Status cfg)\<lparr>CfgS_Ready := False, CfgS_FailureReason := reason, CfgS_FailureMessage := message\<rparr>\<rparr>)))) (\<lambda>_.
     returnG settled)"

text \<open>The joined error of a failure that cannot be recorded keeps the class of the first.\<close>

definition recordFailureError :: "('s, 'z) controller_scheme \<Rightarrow> hypervisor_config \<Rightarrow> string \<Rightarrow> goerr \<Rightarrow> ('s, ctrl_result) go" where
  "recordFailureError r cfg reason e =
     catchG (recordFailure r cfg reason (err_text e)) (\<lambda>res. case res of
       Inl statusErr \<Rightarrow> failG (GoErr (err_kind e) (err_text e @ [CHR 0x0A] @ err_text (wrap_err ''record config failure status'' statusErr)))
     | Inr _ \<Rightarrow> failG e)"

section \<open>Links and addresses\<close>

fun owning_machine :: "('s, 'z) controller_scheme \<Rightarrow> string \<Rightarrow> owner_reference list \<Rightarrow> ('s, machine option) go" where
  "owning_machine r ns [] = returnG None"
| "owning_machine r ns (ref # refs) =
     (if \<not> owner_ref_to (R_Lib r) ''Machine'' ref then owning_machine r ns refs
      else optionalG (''get owner Machine '' @ Quote (OR_Name ref)) (K_GetMachine (R_Kube r) (ns, OR_Name ref)))"

definition owningMachine :: "('s, 'z) controller_scheme \<Rightarrow> hypervisor_config \<Rightarrow> ('s, machine option) go" where
  "owningMachine r cfg = owning_machine r (M_Namespace (Cfg_Meta cfg)) (M_OwnerReferences (Cfg_Meta cfg))"

definition Config_linkedCluster :: "('s, 'z) controller_scheme \<Rightarrow> machine \<Rightarrow> ('s, cluster option) go" where
  "Config_linkedCluster r m =
     (if MC_ClusterName m = [] then returnG None
      else optionalG (''get linked Cluster '' @ Quote (MC_ClusterName m))
        (K_GetCluster (R_Kube r) (M_Namespace (MC_Meta m), MC_ClusterName m)))"

definition machineInternalIP :: "('s, 'z) controller_scheme \<Rightarrow> machine \<Rightarrow> ('s, string option) go" where
  "machineInternalIP r m =
     (let ref = MC_InfrastructureRef m; key = (M_Namespace (MC_Meta m), Ref_Name ref) in
      if Ref_Kind ref \<noteq> ''HypervisorMachine'' \<or> Ref_Name ref = [] then returnG None
      else
        bindG (optionalG (''get infrastructure machine '' @ show_key key) (K_GetHypervisorMachine (R_Kube r) key)) (\<lambda>found.
        returnG (case found of None \<Rightarrow> None | Some hm \<Rightarrow> some_internal_ip (R_Lib r) (HMS_Addresses (HM_Status hm)))))"

fun first_internal_ip :: "('s, 'z) controller_scheme \<Rightarrow> machine list \<Rightarrow> ('s, string option) go" where
  "first_internal_ip r [] = returnG None"
| "first_internal_ip r (m # ms) =
     bindG (machineInternalIP r m) (\<lambda>ip. case ip of None \<Rightarrow> first_internal_ip r ms | Some a \<Rightarrow> returnG (Some a))"

definition controlPlaneMachineInternalIP :: "('s, 'z) controller_scheme \<Rightarrow> cluster \<Rightarrow> ('s, string option) go" where
  "controlPlaneMachineInternalIP r c =
     bindG (wrapG ''list control-plane machines''
       (K_ListMachines (R_Kube r) (M_Namespace (CL_Meta c)) (control_plane_selector (R_Lib r) c))) (\<lambda>machines.
     first_internal_ip r machines)"

definition controlPlaneAddress :: "('s, 'z) controller_scheme \<Rightarrow> string \<Rightarrow> machine \<Rightarrow> cluster \<Rightarrow> ('s, string \<times> int32) go" where
  "controlPlaneAddress r role m c =
     (if role = configRoleControlPlane then
        bindG (machineInternalIP r m) (\<lambda>ip. case ip of
          None \<Rightarrow> failG (plain_err (''control-plane machine '' @ Quote (M_Name (MC_Meta m)) @ '' has no internal IP''))
        | Some a \<Rightarrow> returnG (a, defaultControlPlanePort))
      else
        bindG (controlPlaneMachineInternalIP r c) (\<lambda>ip. case ip of
          None \<Rightarrow> failG (plain_err (''Cluster '' @ Quote (M_Name (CL_Meta c)) @ '' has no control-plane machine with an internal IP''))
        | Some a \<Rightarrow> returnG (a, defaultControlPlanePort)))"

section \<open>The PKI\<close>

definition config_pki_key :: "hypervisor_config \<Rightarrow> object_key" where
  "config_pki_key cfg = (M_Namespace (Cfg_Meta cfg), Cfg_ClusterName (Cfg_Spec cfg) @ ''-pki'')"

definition Config_clusterPKI :: "'s config_reconciler \<Rightarrow> hypervisor_config \<Rightarrow> string \<Rightarrow> string \<Rightarrow> ('s, cluster_pki \<times> bool) go" where
  "Config_clusterPKI r cfg cpIP cpName =
     (let key = config_pki_key cfg in
      bindG (optionalG (''get cluster PKI Secret '' @ show_key key) (K_GetSecret (R_Kube r) key)) (\<lambda>found. case found of
        Some secret \<Rightarrow>
          bindG (wrapG (''read stored cluster PKI Secret '' @ show_key key) (liftG (decodeClusterPKI (Sec_Data secret)))) (\<lambda>pk.
          returnG (pk, False))
      | None \<Rightarrow> bindG (wrapG ''generate cluster PKI'' (FR_GenerateClusterPKI r cpIP cpName)) (\<lambda>pk. returnG (pk, True))))"

definition persistPKISecret :: "('s, 'z) controller_scheme \<Rightarrow> hypervisor_config \<Rightarrow> cluster_pki \<Rightarrow> ('s, unit) go" where
  "persistPKISecret r cfg pk =
     (let key = config_pki_key cfg in
      wrapG (''create cluster PKI Secret '' @ show_key key)
        (K_CreateSecret (R_Kube r) \<lparr>Sec_Meta = new_meta (fst key) (snd key), Sec_Data = clusterPKISecretData pk\<rparr>))"

section \<open>Rendering\<close>

definition render_one :: "'s config_reconciler \<Rightarrow> cluster_pki \<Rightarrow> string \<Rightarrow> string \<Rightarrow> byte list \<Rightarrow> byte list \<Rightarrow> goerr + byte list" where
  "render_one r pk serverURL user cert key = (case FR_RenderKubeconfig r (PK_CA pk) serverURL user cert key of
     Inl e \<Rightarrow> Inl (wrap_err (''render '' @ user @ '' kubeconfig'') e)
   | Inr out \<Rightarrow> Inr out)"

fun render_components ::
  "'s config_reconciler \<Rightarrow> cluster_pki \<Rightarrow> string \<Rightarrow> (string \<times> string) list \<Rightarrow> (string \<rightharpoonup> byte list) \<Rightarrow> goerr + (string \<rightharpoonup> byte list)" where
  "render_components r pk serverURL [] acc = Inr acc"
| "render_components r pk serverURL ((name, user) # rest) acc =
     (case render_one r pk serverURL user (PK_CA pk) (PK_CAKey pk) of
        Inl e \<Rightarrow> Inl e
      | Inr out \<Rightarrow> render_components r pk serverURL rest (acc(name \<mapsto> out)))"

definition renderKubeconfigs ::
  "'s config_reconciler \<Rightarrow> string \<Rightarrow> string \<Rightarrow> string \<Rightarrow> cluster_pki \<Rightarrow> byte list \<Rightarrow> byte list \<Rightarrow> goerr + (string \<rightharpoonup> byte list)" where
  "renderKubeconfigs r role serverURL nodeName pk kubeletCert kubeletKey =
     (case render_one r pk serverURL (''system:node:'' @ nodeName) kubeletCert kubeletKey of
        Inl e \<Rightarrow> Inl e
      | Inr kubelet \<Rightarrow>
          if role \<noteq> configRoleControlPlane then Inr [''kubelet'' \<mapsto> kubelet]
          else render_components r pk serverURL [(''admin'', ''admin''), (''controller-manager'', ''system:kube-controller-manager''),
                 (''scheduler'', ''system:kube-scheduler'')] [''kubelet'' \<mapsto> kubelet])"

definition buildConfextTree ::
  "string \<Rightarrow> string \<Rightarrow> string \<Rightarrow> string \<Rightarrow> cluster_pki \<Rightarrow> byte list \<Rightarrow> byte list \<Rightarrow> (string \<rightharpoonup> byte list) \<Rightarrow> byte list \<Rightarrow> goerr + tree" where
  "buildConfextTree clusterName role cpIP nodeName pk kubeletCert kubeletKey kubeconfigs encryption =
     (if role = configRoleControlPlane
      then BuildControlPlane clusterName cpIP nodeName pk kubeletCert kubeletKey (field_value kubeconfigs ''kubelet'')
             (field_value kubeconfigs ''admin'') (field_value kubeconfigs ''controller-manager'') (field_value kubeconfigs ''scheduler'')
             encryption
      else BuildWorker clusterName cpIP nodeName pk kubeletCert kubeletKey (field_value kubeconfigs ''kubelet''))"

definition persistDataSecret :: "('s, 'z) controller_scheme \<Rightarrow> hypervisor_config \<Rightarrow> string \<Rightarrow> byte list \<Rightarrow> ('s, unit) go" where
  "persistDataSecret r cfg name blob =
     (let key = (M_Namespace (Cfg_Meta cfg), name) in
      bindG (optionalG (''get data Secret '' @ show_key key) (K_GetSecret (R_Kube r) key)) (\<lambda>found. case found of
        None \<Rightarrow> wrapG (''create data Secret '' @ show_key key)
          (K_CreateSecret (R_Kube r) \<lparr>Sec_Meta = new_meta (fst key) name, Sec_Data = [confextTreeKey \<mapsto> blob]\<rparr>)
      | Some secret \<Rightarrow> wrapG (''update data Secret '' @ show_key key)
          (K_UpdateSecret (R_Kube r) (secret\<lparr>Sec_Data := [confextTreeKey \<mapsto> blob]\<rparr>))))"

section \<open>Reconcile\<close>

definition rendered_status :: "provider_lib \<Rightarrow> string \<Rightarrow> hypervisor_config \<Rightarrow> hypervisor_config" where
  "rendered_status lib dataSecretName cfg =
     markDataSecretAvailable lib ''True'' ''BootstrapDataRendered'' ''bootstrap data Secret rendered''
       (cfg\<lparr>Cfg_Status := (Cfg_Status cfg)\<lparr>CfgS_Ready := True, CfgS_FailureReason := [], CfgS_FailureMessage := [],
          CfgS_DataSecretName := Some dataSecretName,
          CfgS_Initialization := Some \<lparr>CfgI_DataSecretCreated = Some True, CfgI_DataSecretName = dataSecretName\<rparr>\<rparr>\<rparr>)"

definition node_role :: "provider_lib \<Rightarrow> hypervisor_config \<Rightarrow> machine \<Rightarrow> string" where
  "node_role lib cfg m =
     (if Cfg_Role (Cfg_Spec cfg) \<noteq> [] then Cfg_Role (Cfg_Spec cfg)
      else if isControlPlaneMachine lib m then configRoleControlPlane else configRoleWorker)"

definition node_name :: "hypervisor_config \<Rightarrow> machine \<Rightarrow> string" where
  "node_name cfg m = (if Cfg_NodeName (Cfg_Spec cfg) \<noteq> [] then Cfg_NodeName (Cfg_Spec cfg) else M_Name (MC_Meta m))"

text \<open>A step whose error ends the reconcile with a recorded failure.\<close>

definition stepG ::
  "('s, 'z) controller_scheme \<Rightarrow> hypervisor_config \<Rightarrow> string \<Rightarrow> ('s, 'a) go \<Rightarrow> ('a \<Rightarrow> ('s, ctrl_result) go) \<Rightarrow> ('s, ctrl_result) go" where
  "stepG r cfg reason m k = catchG m (\<lambda>res. case res of Inl e \<Rightarrow> recordFailureError r cfg reason e | Inr x \<Rightarrow> k x)"

definition store_bootstrap_data ::
  "'s config_reconciler \<Rightarrow> hypervisor_config \<Rightarrow> cluster_pki \<Rightarrow> bool \<Rightarrow> tree \<Rightarrow> ('s, ctrl_result) go" where
  "store_bootstrap_data r cfg pk generated tree =
     (let dataSecretName = M_Name (Cfg_Meta cfg) @ ''-data''; blob = encodeTreeBlob tree in
      stepG r cfg ''ClusterPKIWriteFailed'' (if generated then persistPKISecret r cfg pk else returnG ()) (\<lambda>_.
      stepG r cfg ''DataSecretWriteFailed'' (persistDataSecret r cfg dataSecretName blob) (\<lambda>_.
      bindG (wrapG ''update HypervisorConfig status''
        (K_UpdateConfigStatus (R_Kube r) (rendered_status (R_Lib r) dataSecretName cfg))) (\<lambda>_.
      returnG settled))))"

definition render_config ::
  "'s config_reconciler \<Rightarrow> hypervisor_config \<Rightarrow> machine \<Rightarrow> cluster \<Rightarrow> ('s, ctrl_result) go" where
  "render_config r cfg m c =
     (let role = node_role (R_Lib r) cfg m; nodeName = node_name cfg m in
      catchG (controlPlaneAddress r role m c) (\<lambda>address. case address of
        Inl e \<Rightarrow> recordFailure r cfg ''AddressNotFound'' (err_text e)
      | Inr (cpIP, cpPort) \<Rightarrow>
          stepG r cfg ''ClusterPKIUnavailable'' (Config_clusterPKI r cfg cpIP nodeName) (\<lambda>(pk, generated).
          stepG r cfg ''KubeletCertGenerationFailed''
            (wrapG ''generate kubelet certificate'' (FR_GenerateKubeletCert r pk nodeName)) (\<lambda>(kubeletCert, kubeletKey).
          stepG r cfg ''KubeconfigRenderFailed''
            (liftG (renderKubeconfigs r role (''https://'' @ cpIP @ '':'' @ show_int (sint cpPort)) nodeName pk kubeletCert kubeletKey)) (\<lambda>kubeconfigs.
          stepG r cfg ''TreeBuildFailed''
            (wrapG ''build confext tree'' (liftG (FR_BuildTree r (MC_ClusterName m) role cpIP nodeName pk kubeletCert kubeletKey kubeconfigs
              (string_bytes encryptionConfig)))) (\<lambda>tree.
          store_bootstrap_data r cfg pk generated tree))))))"

definition Config_Reconcile :: "'s config_reconciler \<Rightarrow> object_key \<Rightarrow> ('s, ctrl_result) go" where
  "Config_Reconcile r key =
     bindG (optionalG (''get HypervisorConfig '' @ show_key key) (K_GetConfig (R_Kube r) key)) (\<lambda>found. case found of
       None \<Rightarrow> returnG settled
     | Some cfg \<Rightarrow>
         bindG (owningMachine r cfg) (\<lambda>owner. case owner of
           None \<Rightarrow> recordFailure r cfg ''MachineNotFound'' ''owning Machine not found''
         | Some m \<Rightarrow>
             bindG (Config_linkedCluster r m) (\<lambda>linked. case linked of
               None \<Rightarrow> recordFailure r cfg ''ClusterNotFound'' (''linked Cluster '' @ Quote (MC_ClusterName m) @ '' not found'')
             | Some c \<Rightarrow> render_config r cfg m c)))"

section \<open>Watches\<close>

definition machineToHypervisorConfig :: "('s, 'z) controller_scheme \<Rightarrow> machine \<Rightarrow> 's \<Rightarrow> object_key list \<times> 's" where
  "machineToHypervisorConfig r m s =
     (let ref = MC_BootstrapRef m; ns = M_Namespace (MC_Meta m) in
      if Lib_IsDefined (R_Lib r) ref \<and> Ref_Kind ref = ''HypervisorConfig'' \<and> Ref_Name ref \<noteq> [] then ([(ns, Ref_Name ref)], s)
      else case K_ListConfigs (R_Kube r) ns s of
        (Inl _, t) \<Rightarrow> ([], t)
      | (Inr cfgs, t) \<Rightarrow>
          (map (\<lambda>cfg. meta_key (Cfg_Meta cfg))
             (filter (\<lambda>cfg. list_ex (\<lambda>o'. OR_Kind o' = ''Machine'' \<and> OR_Name o' = M_Name (MC_Meta m)) (M_OwnerReferences (Cfg_Meta cfg))) cfgs), t))"

end
