(* ===== verification/ProviderLab.thy ===== *)
theory ProviderLab
  imports UpgradeLab SnapshotRestore PortReservation ClusterController ConfigController
begin

text \<open>
  A small API server for the objects of the provider, held in memory, with a log of its writes, the
  file system of the manager and a host agent. It satisfies what the theorems on the controllers ask
  of their parameters and shows them at work.
\<close>

section \<open>The server\<close>

record 'w plab =
  PL_Clusters :: "(object_key \<times> cluster) list"
  PL_HCs :: "(object_key \<times> hypervisor_cluster) list"
  PL_CPs :: "(object_key \<times> hypervisor_control_plane) list"
  PL_Machines :: "(object_key \<times> machine) list"
  PL_HMs :: "(object_key \<times> hypervisor_machine) list"
  PL_Templates :: "(object_key \<times> hypervisor_machine_template) list"
  PL_Configs :: "(object_key \<times> hypervisor_config) list"
  PL_Secrets :: "(object_key \<times> secret) list"
  PL_Log :: "api_write list"
  PL_Host :: "unit host"
  PL_World :: 'w

definition api_exists :: goerr where
  "api_exists = sentinel_err (ApiStatus ReasonAlreadyExists)"

definition pl_get :: "('w plab \<Rightarrow> (object_key \<times> 'a) list) \<Rightarrow> object_key \<Rightarrow> ('w plab, 'a) go" where
  "pl_get f key s = (case map_of (f s) key of None \<Rightarrow> (Inl api_not_found, s) | Some x \<Rightarrow> (Inr x, s))"

definition pl_list :: "('w plab \<Rightarrow> (object_key \<times> 'a) list) \<Rightarrow> ('a \<Rightarrow> bool) \<Rightarrow> string \<Rightarrow> ('w plab, 'a list) go" where
  "pl_list f ok ns s = (Inr (filter ok (map snd (filter (\<lambda>(key, _). fst key = ns) (f s)))), s)"

text \<open>A write to one table is logged when it succeeds.\<close>

definition pl_write :: "api_write \<Rightarrow> ('w plab \<Rightarrow> (goerr + 'a) \<times> 'w plab) \<Rightarrow> ('w plab, 'a) go" where
  "pl_write w m s = (case m s of
     (Inl e, t) \<Rightarrow> (Inl e, s)
   | (Inr x, t) \<Rightarrow> (Inr x, t\<lparr>PL_Log := w # PL_Log s\<rparr>))"

definition pl_create ::
  "('w plab \<Rightarrow> (object_key \<times> 'a) list) \<Rightarrow> ((object_key \<times> 'a) list \<Rightarrow> 'w plab \<Rightarrow> 'w plab) \<Rightarrow> object_key \<Rightarrow> 'a \<Rightarrow> ('w plab, 'a) go" where
  "pl_create f put key x s = (case map_of (f s) key of
     None \<Rightarrow> (Inr x, put (AList.update key x (f s)) s)
   | Some _ \<Rightarrow> (Inl api_exists, s))"

definition pl_change ::
  "('w plab \<Rightarrow> (object_key \<times> 'a) list) \<Rightarrow> ((object_key \<times> 'a) list \<Rightarrow> 'w plab \<Rightarrow> 'w plab) \<Rightarrow> object_key \<Rightarrow> ('a \<Rightarrow> 'a) \<Rightarrow> ('w plab, 'a) go" where
  "pl_change f put key how s = (case map_of (f s) key of
     None \<Rightarrow> (Inl api_not_found, s)
   | Some x \<Rightarrow> (Inr (how x), put (AList.update key (how x) (f s)) s))"

definition pl_delete ::
  "('w plab \<Rightarrow> (object_key \<times> 'a) list) \<Rightarrow> ((object_key \<times> 'a) list \<Rightarrow> 'w plab \<Rightarrow> 'w plab) \<Rightarrow> object_key \<Rightarrow> ('w plab, 'a) go" where
  "pl_delete f put key s = (case map_of (f s) key of
     None \<Rightarrow> (Inl api_not_found, s)
   | Some x \<Rightarrow> (Inr x, put (AList.delete key (f s)) s))"

abbreviation put_hcs where "put_hcs x s \<equiv> PL_HCs_update (\<lambda>_. x) s"
abbreviation put_cps where "put_cps x s \<equiv> PL_CPs_update (\<lambda>_. x) s"
abbreviation put_machines where "put_machines x s \<equiv> PL_Machines_update (\<lambda>_. x) s"
abbreviation put_hms where "put_hms x s \<equiv> PL_HMs_update (\<lambda>_. x) s"
abbreviation put_configs where "put_configs x s \<equiv> PL_Configs_update (\<lambda>_. x) s"
abbreviation put_secrets where "put_secrets x s \<equiv> PL_Secrets_update (\<lambda>_. x) s"

definition pl_selects :: "(string \<times> string) list \<Rightarrow> machine \<Rightarrow> bool" where
  "pl_selects labels m = list_all (\<lambda>(k, v). M_Labels (MC_Meta m) k = Some v) labels"

definition plab_api :: "'w plab provider_kube" where
  "plab_api = \<lparr>K_GetPlan = (\<lambda>key. failG api_not_found), K_ListPlans = (\<lambda>n. returnG []),
     K_UpdatePlan = (\<lambda>p. failG api_not_found), K_UpdatePlanStatus = (\<lambda>p. failG api_not_found),
     K_GetCluster = pl_get PL_Clusters, K_PatchCluster = (\<lambda>c d. failG api_not_found),
     K_GetHypervisorCluster = pl_get PL_HCs, K_GetControlPlane = pl_get PL_CPs,
     K_ListMachines = (\<lambda>n l. pl_list PL_Machines (pl_selects l) n), K_ListMachineDeployments = (\<lambda>n l. returnG []),
     K_PatchMachineDeployment = (\<lambda>d e. failG api_not_found), K_Event = (\<lambda>p a b m s. s),
     K_ListClusters = pl_list PL_Clusters (\<lambda>_. True),
     K_UpdateHypervisorCluster = (\<lambda>h. pl_write (WUpdateHC h)
       (pl_change PL_HCs put_hcs (meta_key (HC_Meta h)) (\<lambda>x. h\<lparr>HC_Status := HC_Status x\<rparr>))),
     K_PatchHypervisorCluster = (\<lambda>h h'. pl_write (WPatchHC h h')
       (pl_change PL_HCs put_hcs (meta_key (HC_Meta h)) (\<lambda>x. x\<lparr>HC_Spec := HC_Spec h'\<rparr>))),
     K_UpdateHypervisorClusterStatus = (\<lambda>h. pl_write (WUpdateHCStatus h)
       (pl_change PL_HCs put_hcs (meta_key (HC_Meta h)) (\<lambda>x. x\<lparr>HC_Status := HC_Status h\<rparr>))),
     K_GetMachine = pl_get PL_Machines,
     K_DeleteMachine = (\<lambda>m. pl_write (WDeleteMachine m) (ignoringG (pl_delete PL_Machines put_machines (meta_key (MC_Meta m))))),
     K_GetHypervisorMachine = pl_get PL_HMs,
     K_CreateHypervisorMachine = (\<lambda>h. pl_write (WCreateHM h) (ignoringG (pl_create PL_HMs put_hms (meta_key (HM_Meta h)) h))),
     K_UpdateHypervisorMachine = (\<lambda>h. pl_write (WUpdateHM h)
       (pl_change PL_HMs put_hms (meta_key (HM_Meta h)) (\<lambda>x. h\<lparr>HM_Status := HM_Status x\<rparr>))),
     K_UpdateHypervisorMachineStatus = (\<lambda>h. pl_write (WUpdateHMStatus h)
       (pl_change PL_HMs put_hms (meta_key (HM_Meta h)) (\<lambda>x. x\<lparr>HM_Status := HM_Status h\<rparr>))),
     K_DeleteHypervisorMachine = (\<lambda>h. pl_write (WDeleteHM h) (ignoringG (pl_delete PL_HMs put_hms (meta_key (HM_Meta h))))),
     K_GetMachineTemplate = pl_get PL_Templates,
     K_UpdateControlPlaneStatus = (\<lambda>c. pl_write (WUpdateCPStatus c)
       (pl_change PL_CPs put_cps (meta_key (CP_Meta c)) (\<lambda>x. c))),
     K_GetConfig = pl_get PL_Configs, K_ListConfigs = pl_list PL_Configs (\<lambda>_. True),
     K_CreateConfig = (\<lambda>c. pl_write (WCreateConfig c) (ignoringG (pl_create PL_Configs put_configs (meta_key (Cfg_Meta c)) c))),
     K_DeleteConfig = (\<lambda>c. pl_write (WDeleteConfig c) (ignoringG (pl_delete PL_Configs put_configs (meta_key (Cfg_Meta c))))),
     K_UpdateConfigStatus = (\<lambda>c. pl_write (WUpdateConfigStatus c)
       (pl_change PL_Configs put_configs (meta_key (Cfg_Meta c)) (\<lambda>x. x\<lparr>Cfg_Status := Cfg_Status c\<rparr>))),
     K_GetSecret = pl_get PL_Secrets,
     K_CreateSecret = (\<lambda>x. pl_write (WCreateSecret x) (ignoringG (pl_create PL_Secrets put_secrets (meta_key (Sec_Meta x)) x))),
     K_UpdateSecret = (\<lambda>x. pl_write (WUpdateSecret x) (ignoringG (pl_change PL_Secrets put_secrets (meta_key (Sec_Meta x)) (\<lambda>_. x)))),
     K_EventOn = (\<lambda>kind m ty reason msg s. s)\<rparr>"

section \<open>The laws hold\<close>

lemma pl_silent [simp]: "silent PL_Log (pl_get f key)" "silent PL_Log (pl_list f ok ns)"
  by (auto simp: silent_def steps_def pl_get_def pl_list_def split: option.split)

lemma pl_logs [simp]: "logs_as PL_Log w (pl_write w m)"
  by (auto simp: logs_as_def steps_def pl_write_def split: prod.split sum.split)

lemma logs_ignoring [simp]: "logs_as log w (ignoringG m) \<longleftrightarrow> logs_as log w m"
  by (simp add: logs_as_def)

lemma plab_logged: "api_logged PL_Log plab_api"
proof -
  have "logs_as PL_Log w (performs plab_api w)" for w
    by (cases w) (simp_all add: plab_api_def, simp add: logs_as_def steps_def)
  then show ?thesis by (auto simp: api_logged_def, simp_all add: plab_api_def)
qed

lemma plab_status_echoed: "status_echoed plab_api"
  by (auto simp: status_echoed_def plab_api_def pl_write_def pl_change_def split: prod.splits sum.splits option.splits)

section \<open>The reconcilers\<close>

definition plab_lib :: provider_lib where
  "plab_lib = kube_lib.extend text_lib (provider_lib.fields (\<lambda>v. Some ''cluster.x-k8s.io'') ''cluster.x-k8s.io''
     (\<lambda>cs t. list_ex (\<lambda>c. Cond_Type c = t \<and> Cond_Status c = ''True'') cs) (\<lambda>m. False)
     (\<lambda>kind owner m. Inr (m\<lparr>M_OwnerReferences := [\<lparr>OR_APIVersion = ''cluster.x-k8s.io/v1beta2'', OR_Kind = kind, OR_Name = M_Name owner\<rparr>]\<rparr>))
     ''InternalIP'' ''Hostname'' ''InfrastructureReady'' ''cloned-from-name'' ''cloned-from-groupkind'')"

definition plab_config :: provider_config where
  "plab_config = \<lparr>Conf_BaseImage = ''/img/base'', Conf_Firmware = ''/img/fw'', Conf_FirmwareSHA256 = [], Conf_VMDiskDir = ''/disks'',
     Conf_SocketDir = ''/run/ch'', Conf_StateDir = ''/state'', Conf_CHBinary = ''ch'', Conf_QemuImg = ''qemu-img'',
     Conf_K8NetdSocket = ''/run/k'', Conf_NetworkCIDR = ''192.168.124.0/24'', Conf_SSHPublicKeyFile = []\<rparr>"

definition no_k8netd :: "'s k8netd" where
  "no_k8netd = \<lparr>KN_CreateNetwork = (\<lambda>a b c d e. failG (plain_err ''none'')), KN_DeleteNetwork = (\<lambda>a. failG (plain_err ''none'')),
     KN_CreatePort = (\<lambda>a. failG (plain_err ''none'')), KN_AttachPort = (\<lambda>a b c. failG (plain_err ''none'')),
     KN_AllocateIP = (\<lambda>a b. failG (plain_err ''none'')), KN_PublishPort = (\<lambda>a b. failG (plain_err ''none'')),
     KN_DetachPort = (\<lambda>a. failG (plain_err ''none'')), KN_DeletePort = (\<lambda>a. failG (plain_err ''none''))\<rparr>"

definition plab_pki :: cluster_pki where
  "plab_pki = \<lparr>PK_CA = [1], PK_CAKey = [2], PK_FrontProxyCA = [3], PK_FrontProxyCAKey = [4], PK_APIServer = [5], PK_APIServerKey = [6],
     PK_FrontProxy = [7], PK_FrontProxyKey = [8], PK_ServiceAccount = [9], PK_ServiceAccountKey = [10]\<rparr>"

definition plab_create_machine :: "machine \<Rightarrow> ('w plab, machine) go" where
  "plab_create_machine m = pl_write (WCreateMachine m) (pl_create PL_Machines put_machines (meta_key (MC_Meta m)) m)"

definition plab_cp_reconciler :: "'w plab host_agent \<Rightarrow> byte list \<Rightarrow> ('w plab, unit) cp_reconciler" where
  "plab_cp_reconciler a snapshot = \<lparr>R_Lib = plab_lib, R_Kube = plab_api, R_Agent = Some a, R_K8Netd = no_k8netd,
     CR_NewConfig = manager_NewConfig, CR_CreateMachine = manager_CreateMachine plab_create_machine,
     CR_GeneratePKI = manager_GeneratePKI (\<lambda>ip name. returnG plab_pki), CR_CheckAPIServerHealth = Some (\<lambda>h p x y z. returnG ()),
     CR_SeedClusterAdmin = None, CR_CaptureEtcdSnapshot = Some (\<lambda>h p. returnG snapshot), CR_Config = plab_config,
     CR_Host = PL_Host, CR_PutHost = (\<lambda>h s. s\<lparr>PL_Host := h\<rparr>),
     CR_Pki = \<lparr>Pki_ParseCA = (\<lambda>_. None), Pki_MarshalYAML = (\<lambda>k. Inr [])\<rparr>\<rparr>"

definition no_vm :: "('s, unit) vm_interface" where
  "no_vm = \<lparr>VI_SetNetConfig = (\<lambda>c x s. s), VI_SetFirmware = (\<lambda>c x s. s), VI_SetDiskPaths = (\<lambda>c x s. s), VI_SetCPU = (\<lambda>c x s. s),
     VI_SetRAM = (\<lambda>c x s. s), VI_EnsureRunning = (\<lambda>c. failG (plain_err ''none'')), VI_Info = (\<lambda>c. failG (plain_err ''none'')),
     VI_Shutdown = (\<lambda>c. failG (plain_err ''none'')), VI_Stop = (\<lambda>c. failG (plain_err ''none''))\<rparr>"

definition plab_machine_reconciler :: "'w plab host_agent \<Rightarrow> ('w plab, unit, unit) machine_reconciler" where
  "plab_machine_reconciler a = \<lparr>R_Lib = plab_lib, R_Kube = plab_api, R_Agent = Some a, R_K8Netd = no_k8netd, MR_Config = plab_config,
     MR_Host = PL_Host, MR_PutHost = (\<lambda>h s. s\<lparr>PL_Host := h\<rparr>), MR_NewVMClient = (\<lambda>p b s. ((), s)), MR_VM = no_vm,
     MR_Clients = (\<lambda>s. Map.empty), MR_PutClients = (\<lambda>m s. s), MR_QemuImg = (\<lambda>n args s. (([], None), s)),
     MR_InfoSize = (\<lambda>b. Inr 0), MR_Confext = (\<lambda>name args. returnG []), MR_RenderCloudInit = Render_cloudinit, MR_DeriveMAC = Derive\<rparr>"

definition agent_silent :: "('s \<Rightarrow> api_write list) \<Rightarrow> 's host_agent \<Rightarrow> bool" where
  "agent_silent log a \<longleftrightarrow> (\<forall>m q. silent log (HA_EnsureNetwork a m q)) \<and> (\<forall>m q. silent log (HA_EnsurePort a m q))"

lemma plab_cp_logged: "agent_silent PL_Log a \<Longrightarrow> cp_logged PL_Log (plab_cp_reconciler a snapshot)"
  using plab_logged
  by (auto simp: cp_logged_def plab_cp_reconciler_def agent_silent_def manager_CreateMachine_def manager_GeneratePKI_def
      plab_create_machine_def no_k8netd_def) (auto simp: silent_def steps_def)

lemma plab_seams: "snapshot_seams (plab_cp_reconciler a snapshot)"
  by (auto simp: snapshot_seams_def plab_cp_reconciler_def plab_api_def pl_write_def pl_change_def
      split: prod.splits sum.splits option.splits)


section \<open>A control plane with one machine of the old version\<close>

definition plab_host :: "unit host" where
  "plab_host = \<lparr>hs_nodes = [], hs_fault = (\<lambda>n c p. None), hs_calls = 0, hs_random = (\<lambda>n. []), hs_ext = ()\<rparr>"

definition plab_labels :: "string \<rightharpoonup> string" where
  "plab_labels = [''cluster.x-k8s.io/cluster-name'' \<mapsto> ''lab'', ''cluster.x-k8s.io/control-plane'' \<mapsto> []]"

definition plab_machine :: "string \<Rightarrow> string \<Rightarrow> machine" where
  "plab_machine name v = \<lparr>MC_Meta = (blank_meta name)\<lparr>M_Labels := plab_labels\<rparr>, MC_Version = v, MC_ClusterName = ''lab'',
     MC_BootstrapRef = \<lparr>Ref_APIGroup = bootstrapGroup, Ref_Kind = ''HypervisorConfig'', Ref_Name = name @ ''-config''\<rparr>,
     MC_InfrastructureRef = \<lparr>Ref_APIGroup = infrastructureGroup, Ref_Kind = ''HypervisorMachine'', Ref_Name = name\<rparr>\<rparr>"

definition plab_spec :: hm_spec where
  "plab_spec = \<lparr>HM_ClusterName = ''lab'', HM_CPU = 2, HM_RAM = 2048, HM_Disk = 10240, HM_MAC = ''c6:e5:50:1c:ec:01'',
     HM_ProviderID = None, HM_RetainDiskOnDelete = False\<rparr>"

definition plab_hm :: "string \<Rightarrow> machine_port list \<Rightarrow> hypervisor_machine" where
  "plab_hm name ports = \<lparr>HM_Meta = blank_meta name, HM_Spec = plab_spec, HM_Status = zero_hm_status\<lparr>HMS_PublishedPorts := ports\<rparr>\<rparr>"

definition plab_cp :: "string \<Rightarrow> hypervisor_control_plane" where
  "plab_cp v = (lab_cp v)\<lparr>CP_Meta := blank_meta ''cp''\<rparr>"

definition plab_state :: "'w \<Rightarrow> 'w plab" where
  "plab_state w = \<lparr>PL_Clusters = [((''default'', ''lab''), lab_cluster ''v2'')], PL_HCs = [((''default'', ''lab''), lab_hc [''v1'', ''v2''])],
     PL_CPs = [((''default'', ''cp''), plab_cp ''v2'')], PL_Machines = [((''default'', ''cp-0''), plab_machine ''cp-0'' ''v1'')],
     PL_HMs = [((''default'', ''cp-0''), plab_hm ''cp-0'' [\<lparr>MPP_VMPort = controlPlaneEtcdClientPort, MPP_HostPort = 30000\<rparr>])],
     PL_Templates = [], PL_Configs = [], PL_Secrets = [], PL_Log = [], PL_Host = plab_host, PL_World = w\<rparr>"

abbreviation plab_capture :: "((goerr + (ctrl_result \<times> hypervisor_control_plane)) \<times> unit plab)" where
  "plab_capture \<equiv> captureReplacementSnapshot (plab_cp_reconciler Fake [1, 2, 3]) (plab_cp ''v2'') (lab_cluster ''v2'')
     (plab_machine ''cp-0'' ''v1'') (plab_state ())"

lemma plab_captures:
  "case plab_capture of (Inr (res, cp'), t) \<Rightarrow> replacement_recorded cp' ''cp-0'' \<and> \<not> replacement_recorded (plab_cp ''v2'') ''cp-0''
   | (Inl e, t) \<Rightarrow> False"
  by code_simp

theorem replacement_restores_snapshot_witness:
  "\<exists>res cp' t (u :: unit plab). plab_capture = (Inr (res, cp'), t) \<and> replacement_recorded cp' ''cp-0'' \<and>
     fst (etcdRestoreTree (plab_machine_reconciler Fake) (plab_machine ''cp-0'' ''v2'') u) = BuildEtcdRestore [1, 2, 3]"
proof -
  let ?r = "plab_cp_reconciler Fake [1, 2, 3] :: (unit plab, unit) cp_reconciler"
  let ?mr = "plab_machine_reconciler Fake :: (unit plab, unit, unit) machine_reconciler"
  obtain res cp' t where run: "plab_capture = (Inr (res, cp'), t)"
    and new: "replacement_recorded cp' ''cp-0''" and old: "\<not> replacement_recorded (plab_cp ''v2'') ''cp-0''"
    using plab_captures by (auto split: prod.splits sum.splits)
  let ?cfg = "replica_config ?r cp' (lab_cluster ''v2'') ''cp-0''"
  let ?u = "t\<lparr>PL_Configs := [((''default'', ''cp-0-config''), ?cfg)], PL_Host := (PL_Host t)\<lparr>hs_fault := \<lambda>n c p. None\<rparr>\<rparr>"
  have "\<exists>hm u0 port snapshot u1.
    K_GetHypervisorMachine (R_Kube ?r) (cp_namespace (plab_cp ''v2''), M_Name (MC_Meta (plab_machine ''cp-0'' ''v1''))) (plab_state ()) = (Inr hm, u0) \<and>
    publishedHostPort (HMS_PublishedPorts (HM_Status hm)) controlPlaneEtcdClientPort = Some port \<and>
    (\<lambda>h p. returnG [1, 2, 3]) ''127.0.0.1'' port u0 = (Inr snapshot, u1) \<and>
    fst (etcdRestoreTree ?mr (plab_machine ''cp-0'' ''v2'') ?u) = BuildEtcdRestore snapshot \<and>
    (\<forall>tree. BuildEtcdRestore snapshot = Inr tree \<longrightarrow>
       map_of tree (etcdRestoreTreeName @ ''/'' @ etcdRestoreSnapshotPath) = Some snapshot)"
    by (rule replacement_restores_snapshot [OF plab_seams _ run, where capture = "\<lambda>h p. returnG [1, 2, 3]" and cfg = ?cfg and key = "(''default'', ''cp-0-config'')" and v = ?u])
      (use old new in \<open>simp_all add: plab_machine_reconciler_def plab_cp_reconciler_def plab_api_def pl_get_def plab_machine_def
        blank_meta_def config_ref_def plab_lib_def text_lib_def kube_lib.defs provider_lib.defs\<close>)
  with run new show ?thesis by auto
qed


section \<open>Deleting the machine that is replaced\<close>

definition recorded_cp :: hypervisor_control_plane where
  "recorded_cp = with_replacement (Some \<lparr>Rep_MachineName = ''cp-0'', Rep_TargetVersion = ''v2'', Rep_SnapshotPath = ''/state/s.db''\<rparr>) (plab_cp ''v2'')"

definition deletes_machine :: "string \<Rightarrow> api_write \<Rightarrow> bool" where
  "deletes_machine name w = (case w of WDeleteMachine m \<Rightarrow> M_Name (MC_Meta m) = name | _ \<Rightarrow> False)"

lemma deletes_machineD: "deletes_machine name w \<Longrightarrow> \<exists>m. w = WDeleteMachine m"
  by (cases w) (simp_all add: deletes_machine_def)

lemma Fake_silent: "agent_silent log Fake"
  by (simp add: agent_silent_def Fake_def silent_def steps_def)

abbreviation plab_replace :: "(goerr + ctrl_result) \<times> unit plab" where
  "plab_replace \<equiv> reconcile_control_plane (plab_cp_reconciler Fake [1, 2, 3]) recorded_cp (lab_cluster ''v2'') (plab_state ())"

lemma plab_deletes: "\<exists>m. WDeleteMachine m \<in> set (PL_Log (snd plab_replace))"
proof -
  have "list_ex (deletes_machine ''cp-0'') (PL_Log (snd plab_replace))" by code_simp
  then show ?thesis unfolding list_ex_iff by (blast dest: deletes_machineD)
qed

abbreviation plab_record :: "(goerr + ctrl_result) \<times> unit plab" where
  "plab_record \<equiv> reconcile_control_plane (plab_cp_reconciler Fake [1, 2, 3]) (plab_cp ''v2'') (lab_cluster ''v2'') (plab_state ())"

definition records_replacement :: "api_write \<Rightarrow> bool" where
  "records_replacement w = (case w of WUpdateCPStatus x \<Rightarrow> CPS_Replacement (CP_Status x) \<noteq> None | _ \<Rightarrow> False)"

lemma plab_records: "\<exists>x rep. WUpdateCPStatus x \<in> set (PL_Log (snd plab_record)) \<and> CPS_Replacement (CP_Status x) = Some rep"
proof -
  have "list_ex records_replacement (PL_Log (snd plab_record))" by code_simp
  then obtain w where w: "w \<in> set (PL_Log (snd plab_record))" "records_replacement w" unfolding list_ex_iff by blast
  obtain x rep where "w = WUpdateCPStatus x" "CPS_Replacement (CP_Status x) = Some rep"
    using w(2) by (auto simp: records_replacement_def split: api_write.splits)
  with w(1) show ?thesis by blast
qed


section \<open>Changing the version in the middle\<close>

text \<open>The machine is gone; its replacement by version 2 is recorded; the version is now 3.\<close>

definition changed_cp :: hypervisor_control_plane where
  "changed_cp = with_replacement (Some \<lparr>Rep_MachineName = ''cp-0'', Rep_TargetVersion = ''v2'', Rep_SnapshotPath = ''/state/s.db''\<rparr>) (plab_cp ''v3'')"

definition gone_state :: "unit plab" where
  "gone_state = (plab_state ())\<lparr>PL_Machines := [], PL_HMs := [],
     PL_Secrets := [((''default'', ''lab-pki''), \<lparr>Sec_Meta = blank_meta ''lab-pki'', Sec_Data = clusterPKISecretData plab_pki\<rparr>)]\<rparr>"

definition creates_config :: "string \<Rightarrow> api_write \<Rightarrow> bool" where
  "creates_config name w = (case w of WCreateConfig cfg \<Rightarrow> M_Name (Cfg_Meta cfg) = name | _ \<Rightarrow> False)"

lemma creates_configD: "creates_config name w \<Longrightarrow> \<exists>cfg. w = WCreateConfig cfg"
  by (cases w) (simp_all add: creates_config_def)

text \<open>The derived address does not matter here and is not computed.\<close>

declare refl [code abort: Derive]

abbreviation plab_recreate :: "(goerr + ctrl_result) \<times> unit plab" where
  "plab_recreate \<equiv> reconcile_control_plane (plab_cp_reconciler Fake [1, 2, 3]) changed_cp (lab_cluster ''v3'') gone_state"

lemma plab_creates: "\<exists>cfg. WCreateConfig cfg \<in> set (PL_Log (snd plab_recreate))"
proof -
  have "list_ex (creates_config ''cp-0-config'') (PL_Log (snd plab_recreate))" by code_simp
  then show ?thesis unfolding list_ex_iff by (blast dest: creates_configD)
qed

theorem version_change_loses_snapshot_witness:
  "\<exists>cfg. WCreateConfig cfg \<in> set (PL_Log (snd plab_recreate)) \<and> Cfg_EtcdSnapshotHostPath (Cfg_Spec cfg) = []"
proof -
  let ?r = "plab_cp_reconciler Fake [1, 2, 3] :: (unit plab, unit) cp_reconciler"
  have "R_Kube ?r = plab_api" "CR_NewConfig ?r = manager_NewConfig" by (simp_all add: plab_cp_reconciler_def)
  moreover have "PL_Log gone_state = []" by (simp add: gone_state_def plab_state_def)
  moreover have "CPS_Replacement (CP_Status changed_cp) =
      Some \<lparr>Rep_MachineName = ''cp-0'', Rep_TargetVersion = ''v2'', Rep_SnapshotPath = ''/state/s.db''\<rparr>"
    "CP_Version (CP_Spec changed_cp) = ''v3''"
    by (simp_all add: changed_cp_def with_replacement_def plab_cp_def lab_cp_def)
  ultimately have "\<forall>cfg. WCreateConfig cfg \<in> set (PL_Log (snd plab_recreate)) \<longrightarrow> Cfg_EtcdSnapshotHostPath (Cfg_Spec cfg) = []"
    using version_change_loses_snapshot [OF plab_cp_logged [OF Fake_silent], of "[1, 2, 3]" changed_cp
        "\<lparr>Rep_MachineName = ''cp-0'', Rep_TargetVersion = ''v2'', Rep_SnapshotPath = ''/state/s.db''\<rparr>" "lab_cluster ''v3''" gone_state
        "fst plab_recreate" "snd plab_recreate"] plab_status_echoed by auto
  with plab_creates show ?thesis by blast
qed


section \<open>The executor behind the agent\<close>

definition plab_agent :: "unit executor \<Rightarrow> unit world plab host_agent" where
  "plab_agent e = Fake\<lparr>HA_EnsureNetwork := (\<lambda>m q. onG PL_World (\<lambda>w s. s\<lparr>PL_World := w\<rparr>) (EnsureNetwork e m q)),
     HA_EnsurePort := (\<lambda>m q. onG PL_World (\<lambda>w s. s\<lparr>PL_World := w\<rparr>) (EnsurePort e m q))\<rparr>"

lemma plab_executor_behind: "executor_behind PL_World (\<lambda>w s. s\<lparr>PL_World := w\<rparr>) e (plab_agent e)"
  by (simp add: executor_behind_def plab_agent_def)

definition net_hc :: hypervisor_cluster where
  "net_hc = (lab_hc [])\<lparr>HC_Spec := (HC_Spec (lab_hc []))\<lparr>HC_Network := (HC_Network (HC_Spec (lab_hc [])))\<lparr>HC_CIDR := ''10.1.2.0/24''\<rparr>\<rparr>\<rparr>"

definition net_state :: "unit world plab" where
  "net_state = (plab_state sample_world)\<lparr>PL_HCs := [((''default'', ''lab''), net_hc)]\<rparr>"

lemma sample_EnsureNetwork:
  "EnsureNetwork sample_executor (hostMutation ''agent'' ''lab'' g ''network'') \<lparr>NetReq_Name = ''lab'', NetReq_CIDR = ''10.1.2.0/24''\<rparr> sample_world =
     (Inr (), sample_world)"
proof -
  have "ParsePrefix4 (NetReq_CIDR \<lparr>NetReq_Name = ''lab'', NetReq_CIDR = ''10.1.2.0/24''\<rparr>) = Some ([10, 1, 2, 0], 24)" by code_simp
  from EnsureNetwork_addresses [OF hostMutation_valid sample_simps(4) _ this, of "''agent''" "''lab''" g "''network''" sample_world] show ?thesis
    by (simp add: sample_network_def)
qed

lemma sample_EnsurePort:
  assumes "Mutation_Validate m = None" and "PortReq_Name q \<noteq> []" and "PortReq_Network q \<noteq> []" and "PortReq_MAC q \<noteq> []"
  shows "\<exists>obs w'. EnsurePort sample_executor m q sample_world = (Inr obs, w') \<and> healthy (db w')"
  using assms
  by (simp add: EnsurePort_def run_bind catchG_def GetNetworkResourceByPort_def UpsertNetworkResource_def run_wrap storeG_run
      sql_row_healthy sql_exec_healthy select_row_def empty_tables_def ignoring_def netG_run sample_network_def unique_for_def
      Let_def errors_Is_def sentinel_err_def)


lemma Derive_nonempty: "Derive c m \<noteq> []"
  by (cases "take 5 (sha256 (string_bytes (c @ ''/'' @ m)))") (simp_all add: Derive_colon_hex colon_hex_def hex_byte_def)

lemma plab_reserves:
  "\<exists>ip t. reserveControlPlaneIP (plab_cp_reconciler (plab_agent sample_executor) []) (plab_cp ''v2'') (lab_cluster ''v2'') net_state = (Inr ip, t) \<and>
     healthy (db (PL_World t))"
proof -
  let ?m = "hostMutation ''agent'' ''cp'' 1 ''reserve-control-plane''"
  let ?q = "\<lparr>PortReq_Name = ''cp-0'', PortReq_Network = ''lab'', PortReq_MAC = Derive ''lab'' ''cp-0''\<rparr>"
  obtain obs w where port: "EnsurePort sample_executor ?m ?q sample_world = (Inr obs, w)" "healthy (db w)"
    using sample_EnsurePort [of ?m ?q] hostMutation_valid [of "''agent''" "''cp''"] Derive_nonempty by auto
  have names: "replica_name (plab_cp ''v2'') 0 = ''cp-0''" by code_simp
  have link: "linkedHypervisorCluster plab_lib (plab_api :: unit world plab provider_kube) (lab_cluster ''v2'') net_state = (Inr (Some net_hc), net_state)"
    by (simp add: linkedHypervisorCluster_def Let_def run_optional plab_api_def pl_get_def net_state_def plab_state_def lab_cluster_def lab_ref_def
        blank_meta_def plab_lib_def text_lib_def kube_lib.defs)
  have agent: "HA_EnsureNetwork (plab_agent e) m q = onG PL_World (\<lambda>w s. s\<lparr>PL_World := w\<rparr>) (EnsureNetwork e m q)"
    "HA_EnsurePort (plab_agent e) m' q' = onG PL_World (\<lambda>w s. s\<lparr>PL_World := w\<rparr>) (EnsurePort e m' q')" for e m q m' q'
    by (simp_all add: plab_agent_def)
  have state: "PL_World net_state = sample_world" "net_state\<lparr>PL_World := sample_world\<rparr> = net_state"
    "HC_CIDR (HC_Network (HC_Spec net_hc)) = ''10.1.2.0/24''" "HC_Meta net_hc = blank_meta ''lab''"
    "CP_Meta (plab_cp ''v2'') = blank_meta ''cp''" "CL_Meta (lab_cluster ''v2'') = blank_meta ''lab''"
    by (simp_all add: net_state_def plab_state_def net_hc_def lab_hc_def plab_cp_def lab_cluster_def)
  show ?thesis
    using port link sample_EnsureNetwork [of 1]
    by (simp add: reserveControlPlaneIP_def plab_cp_reconciler_def Let_def run_bind run_wrap agent onG_def names state blank_meta_def)
qed

theorem reservation_blocks_machine_witness:
  "\<exists>(t :: unit world plab) err v. reconcileIdentity (plab_machine_reconciler (plab_agent sample_executor)) (plab_hm ''cp-0'' [])
     (plab_machine ''cp-0'' ''v2'') net_hc ''c6:e5:50:1c:ec:01'' t = (Inl err, v)"
proof -
  obtain ip t where run: "reserveControlPlaneIP (plab_cp_reconciler (plab_agent sample_executor) []) (plab_cp ''v2'') (lab_cluster ''v2'') net_state = (Inr ip, t)"
    and db: "healthy (db (PL_World t))" using plab_reserves by blast
  have names: "replica_name (plab_cp ''v2'') 0 = ''cp-0''" by code_simp
  have agents: "R_Agent (plab_cp_reconciler a x) = Some a" "R_Agent (plab_machine_reconciler a) = Some a" for a :: "unit world plab host_agent" and x
    by (simp_all add: plab_cp_reconciler_def plab_machine_reconciler_def)
  have hm: "M_Name (HM_Meta (plab_hm ''cp-0'' [])) = replica_name (plab_cp ''v2'') 0"
    "M_UID (HM_Meta (plab_hm ''cp-0'' [])) \<noteq> M_UID (CP_Meta (plab_cp ''v2''))"
    unfolding names by (simp_all add: plab_hm_def plab_cp_def blank_meta_def)
  from reservation_blocks_machine [OF plab_executor_behind agents run hm refl db] show ?thesis by blast
qed


end
