(* ===== verification/MachineSafety.thy ===== *)
theory MachineSafety
  imports MachineController ApiLog
begin

text \<open>
  What the machine controller guarantees: the endpoints of a control-plane machine, the image a machine
  boots, and when a machine is reported ready.
\<close>

section \<open>Published endpoints\<close>

definition endpoint_ports :: "int32 list" where
  "endpoint_ports = [controlPlaneAPIServerPort, controlPlaneSSHPort, controlPlaneEtcdClientPort]"

lemma with_ports_simps [simp]:
  "HMS_PublishedPorts (HM_Status (with_ports ps hm)) = ps" "with_ports ps (with_ports qs hm) = with_ports ps hm"
  "with_ports (HMS_PublishedPorts (HM_Status hm)) hm = hm" "HM_Meta (with_ports ps hm) = HM_Meta hm" "HM_Spec (with_ports ps hm) = HM_Spec hm"
  by (simp_all add: with_ports_def)

lemma failing_step_Inr [simp]: "failing_step r hm reason msg p m s = (Inr x, t) \<longleftrightarrow> m s = (Inr x, t)"
  by (auto simp: failing_step_def run_reported split: prod.splits sum.splits)

lemma publish_ports_result:
  assumes "publish_ports r mu hm vs s = (Inr hm', t)"
  shows "\<exists>ps. hm' = with_ports ps hm \<and> (\<forall>v\<in>set vs. publishedHostPort ps v \<noteq> None) \<and>
    (\<forall>v p. publishedHostPort (HMS_PublishedPorts (HM_Status hm)) v = Some p \<longrightarrow> publishedHostPort ps v = Some p) \<and>
    (distinct (map MPP_VMPort (HMS_PublishedPorts (HM_Status hm))) \<longrightarrow> distinct (map MPP_VMPort ps))"
  using assms
proof (induction vs arbitrary: hm s)
  case Nil
  then show ?case by (intro exI [of _ "HMS_PublishedPorts (HM_Status hm)"]) simp
next
  case (Cons v vs)
  let ?ps = "HMS_PublishedPorts (HM_Status hm)"
  show ?case
  proof (cases "publishedHostPort ?ps v")
    case (Some p)
    with Cons.prems have "publish_ports r mu hm vs s = (Inr hm', t)" by simp
    from Cons.IH [OF this] obtain ps where ps: "hm' = with_ports ps hm" "\<forall>v\<in>set vs. publishedHostPort ps v \<noteq> None"
      "\<forall>w p. publishedHostPort ?ps w = Some p \<longrightarrow> publishedHostPort ps w = Some p"
      "distinct (map MPP_VMPort ?ps) \<longrightarrow> distinct (map MPP_VMPort ps)" by blast
    with Some show ?thesis by (intro exI [of _ ps]) simp
  next
    case None
    let ?new = "\<lambda>hostPort. upsertPublishedPort ?ps \<lparr>MPP_VMPort = v, MPP_HostPort = hostPort\<rparr>"
    from Cons.prems None obtain hostPort u where "publish_ports r mu (with_ports (?new hostPort) hm) vs u = (Inr hm', t)"
      by (auto simp: Let_def bindG_eq_Inr)
    from Cons.IH [OF this] obtain ps where ps: "hm' = with_ports ps hm" "\<forall>v\<in>set vs. publishedHostPort ps v \<noteq> None"
      "\<forall>w p. publishedHostPort (?new hostPort) w = Some p \<longrightarrow> publishedHostPort ps w = Some p"
      "distinct (map MPP_VMPort (?new hostPort)) \<longrightarrow> distinct (map MPP_VMPort ps)" by auto
    have "publishedHostPort ps v \<noteq> None" using ps(3) by (simp add: publishedHostPort_upsert)
    moreover have "publishedHostPort ps w = Some p" if "publishedHostPort ?ps w = Some p" for w p
      using ps(3) that None by (cases "w = v") (simp_all add: publishedHostPort_upsert)
    moreover have "distinct (map MPP_VMPort ps)" if "distinct (map MPP_VMPort ?ps)" using ps(4) upsert_distinct [OF that] by simp
    ultimately show ?thesis using ps(1,2) by (intro exI [of _ ps]) simp
  qed
qed

lemma publish_ports_again:
  assumes "\<forall>v\<in>set vs. publishedHostPort (HMS_PublishedPorts (HM_Status hm)) v \<noteq> None"
  shows "publish_ports r mu hm vs s = (Inr hm, s)"
  using assms by (induction vs) (auto simp: Let_def)

lemma publish_endpoints_ports:
  assumes "publishControlPlaneEndpoints r hm m mu s = (Inr h, t)"
  shows "\<exists>ps. h = with_ports ps hm"
proof (cases "isControlPlaneMachine (R_Lib r) m")
  case True
  with assms have "publish_ports r mu hm endpoint_ports s = (Inr h, t)"
    unfolding publishControlPlaneEndpoints_def endpoint_ports_def by (simp del: publish_ports.simps)
  from publish_ports_result [OF this] show ?thesis by blast
next
  case False
  with assms have "h = with_ports (HMS_PublishedPorts (HM_Status hm)) hm" by (simp add: publishControlPlaneEndpoints_def)
  then show ?thesis ..
qed

text \<open>
  C23: When the endpoints of a control-plane machine were published, the API server, SSH and etcd ports
  all have a host port, ports recorded before keep theirs, nothing else of the machine changed, no
  guest port is listed twice, and publishing again makes no call at all: it returns the machine and
  the state as they are.
\<close>

theorem endpoints_published:
  assumes "publishControlPlaneEndpoints r hm m mu s = (Inr hm', t)" and "isControlPlaneMachine (R_Lib r) m"
  shows "(\<exists>ps. hm' = with_ports ps hm \<and> (\<forall>v\<in>set endpoint_ports. publishedHostPort ps v \<noteq> None) \<and>
      (\<forall>v p. publishedHostPort (HMS_PublishedPorts (HM_Status hm)) v = Some p \<longrightarrow> publishedHostPort ps v = Some p) \<and>
      (distinct (map MPP_VMPort (HMS_PublishedPorts (HM_Status hm))) \<longrightarrow> distinct (map MPP_VMPort ps))) \<and>
    (\<forall>mu' u. publishControlPlaneEndpoints r hm' m mu' u = (Inr hm', u))"
proof -
  from assms obtain ps where ps: "hm' = with_ports ps hm" "\<forall>v\<in>set endpoint_ports. publishedHostPort ps v \<noteq> None"
    "\<forall>v p. publishedHostPort (HMS_PublishedPorts (HM_Status hm)) v = Some p \<longrightarrow> publishedHostPort ps v = Some p"
    "distinct (map MPP_VMPort (HMS_PublishedPorts (HM_Status hm))) \<longrightarrow> distinct (map MPP_VMPort ps)"
    using publish_ports_result [of r mu hm endpoint_ports s hm' t]
    by (auto simp: publishControlPlaneEndpoints_def endpoint_ports_def)
  have "publishControlPlaneEndpoints r hm' m mu' u = (Inr hm', u)" for mu' u
    using publish_ports_again [of endpoint_ports hm' r mu' u] ps(1,2) assms(2)
    by (simp add: publishControlPlaneEndpoints_def endpoint_ports_def)
  with ps show ?thesis by blast
qed

section \<open>Reporting a machine ready\<close>

definition agent_quiet :: "('s \<Rightarrow> api_write list) \<Rightarrow> 's host_agent \<Rightarrow> bool" where
  "agent_quiet log a \<longleftrightarrow>
     (\<forall>m q. silent log (HA_EnsureNetwork a m q)) \<and> (\<forall>m q. silent log (HA_EnsurePort a m q)) \<and> (\<forall>m g h. silent log (HA_PublishPort a m g h)) \<and>
     (\<forall>m q. silent log (HA_PrepareRootDisk a m q)) \<and> (\<forall>m n fs. silent log (HA_PrepareConfext a m n fs)) \<and>
     (\<forall>m n fs. silent log (HA_PrepareCIDATA a m n fs)) \<and> (\<forall>m d. silent log (HA_EnsureVM a m d)) \<and> (\<forall>m. silent log (HA_DeleteVM a m))"

definition machine_logged :: "('s \<Rightarrow> api_write list) \<Rightarrow> ('s, 'c, 'x) machine_reconciler \<Rightarrow> bool" where
  "machine_logged log r \<longleftrightarrow> api_logged log (R_Kube r) \<and> (\<forall>h s. log (MR_PutHost r h s) = log s) \<and>
     (\<forall>a. R_Agent r = Some a \<longrightarrow> agent_quiet log a)"

lemma agent_quiet_steps:
  assumes "agent_quiet log a"
  shows "steps (wrote log ok) (HA_EnsureNetwork a mu nq)" "steps (wrote log ok) (HA_EnsurePort a mu pq)"
    "steps (wrote log ok) (HA_PublishPort a mu g h)" "steps (wrote log ok) (HA_PrepareRootDisk a mu rq)"
    "steps (wrote log ok) (HA_PrepareConfext a mu n fs)" "steps (wrote log ok) (HA_PrepareCIDATA a mu n fs)"
    "steps (wrote log ok) (HA_EnsureVM a mu d)" "steps (wrote log ok) (HA_DeleteVM a mu)"
  using assms by (auto simp: agent_quiet_def intro!: silent_steps)

lemma osG_steps: "machine_logged log r \<Longrightarrow> steps (wrote log ok) (osG r n)"
  by (auto simp: machine_logged_def osG_def steps_def onG_def wrote_def split: prod.split)

lemma failing_steps: "api_logged log (R_Kube r) \<Longrightarrow> steps (wrote log ok) m \<Longrightarrow> steps (wrote log ok) (failing_step r hm reason msg p m)"
  unfolding failing_step_def by (rule wrote_reported)

lemma publish_ports_steps:
  assumes "api_logged log (R_Kube r)" and "R_Agent r = Some a" and "agent_quiet log a"
  shows "steps (wrote log ok) (publish_ports r mu hm vs)"
proof (induction vs arbitrary: hm)
  case Nil
  show ?case by (simp only: publish_ports.simps wr.steps_return)
next
  case (Cons v vs)
  then show ?case by (auto simp: Let_def assms(2) intro!: failing_steps assms(1) agent_quiet_steps [OF assms(3)])
qed

text \<open>The readiness a machine was read with.\<close>

definition same_readiness :: "hypervisor_machine \<Rightarrow> hypervisor_machine \<Rightarrow> bool" where
  "same_readiness hm h \<longleftrightarrow> HM_Spec h = HM_Spec hm \<and> HMS_Ready (HM_Status h) = HMS_Ready (HM_Status hm) \<and>
     HMS_Provisioned (HM_Status h) = HMS_Provisioned (HM_Status hm) \<and> HMS_ProviderID (HM_Status h) = HMS_ProviderID (HM_Status hm) \<and>
     HMS_Conditions (HM_Status h) = HMS_Conditions (HM_Status hm)"

definition status_with_readiness_of :: "hypervisor_machine \<Rightarrow> api_write \<Rightarrow> bool" where
  "status_with_readiness_of hm w \<longleftrightarrow> (\<exists>h. w = WUpdateHMStatus h \<and> same_readiness hm h)"

lemma identity_writes:
  assumes "machine_logged log r" and "R_Agent r = Some a" and "same_readiness hm hm0"
  shows "steps (wrote log (status_with_readiness_of hm)) (reconcileIdentity r hm0 m hc mac)"
proof -
  from assms(1,2) have k: "api_logged log (R_Kube r)" and q: "agent_quiet log a" by (auto simp: machine_logged_def)
  have "delivers (same_readiness hm) (publishControlPlaneEndpoints r hm0 m mu)" for mu
    unfolding delivers_def using assms(3) by (auto simp: same_readiness_def with_ports_def dest!: publish_endpoints_ports)
  moreover have "steps (wrote log (status_with_readiness_of hm)) (publishControlPlaneEndpoints r hm0 m mu)" for mu
    unfolding publishControlPlaneEndpoints_def using publish_ports_steps [OF k assms(2) q] by (simp del: publish_ports.simps)
  moreover have "steps (wrote log (status_with_readiness_of hm)) (recordAddresses r h m ip)" if "same_readiness hm h" for h ip
    unfolding recordAddresses_def using that
    by (auto intro!: api_steps k simp: status_with_readiness_of_def same_readiness_def)
  ultimately have rest: "steps (wrote log (status_with_readiness_of hm))
      (bindG (publishControlPlaneEndpoints r hm0 m (port_mutation hm0)) (\<lambda>hm'. recordAddresses r hm' m ip))" for ip
    by (intro steps_bind_delivers [where P = "same_readiness hm"])
  show ?thesis
    by (auto simp: reconcileIdentity_def assms(2) agent_identity_def Let_def intro!: agent_quiet_steps [OF q] rest)
qed

lemma disks_write_nothing:
  assumes "machine_logged log r" and "R_Agent r = Some a"
  shows "steps (wrote log ok) (reconcileRootDisk r hm base prev)" "steps (wrote log ok) (reconcileConfextDataDisk r hm m)"
    "steps (wrote log ok) (reconcileCIDATA r hm m)"
proof -
  from assms have k: "api_logged log (R_Kube r)" and q: "agent_quiet log a" by (auto simp: machine_logged_def)
  note st = agent_quiet_steps [OF q] osG_steps [OF assms(1)] failing_steps [OF k] k
  show "steps (wrote log ok) (reconcileRootDisk r hm base prev)" by (auto simp: reconcileRootDisk_def assms(2) intro!: st)
  have cfg: "steps (wrote log ok) (bootstrap_config r key)" for key
    unfolding bootstrap_config_def by (auto intro!: api_steps k)
  have name: "steps (wrote log ok) (bootstrapDataSecretName r m)"
    unfolding bootstrapDataSecretName_def by (auto split: option.split intro!: cfg)
  have restore: "steps (wrote log ok) (etcdRestoreTree r m)"
    unfolding etcdRestoreTree_def by (auto simp: Let_def split: option.split intro!: cfg st)
  show "steps (wrote log ok) (reconcileConfextDataDisk r hm m)"
    unfolding reconcileConfextDataDisk_def package_tree_def
    by (auto simp: Let_def assms(2) split: option.split intro!: api_steps name restore st)
  have ssh: "steps (wrote log ok) (resolveSSHPublicKey r c)" for c
    unfolding resolveSSHPublicKey_def by (auto simp: Let_def intro!: st)
  show "steps (wrote log ok) (reconcileCIDATA r hm m)"
    unfolding reconcileCIDATA_def by (auto simp: Let_def assms(2) split: option.split intro!: cfg ssh st)
qed

text \<open>
  C6: A machine is reported ready only for a VM the agent confirmed: if no call of \<open>EnsureVM\<close>
  succeeds, then whatever else happens in a run of the controller, everything it writes to the API
  server is the status of the machine with the spec, readiness, provisioned flag, provider ID and
  conditions it was read with.
\<close>

theorem ready_only_with_vm:
  assumes "machine_logged log r" and "R_Agent r = Some a" and "\<forall>mu d s. \<exists>e t. HA_EnsureVM a mu d s = (Inl e, t)"
    and "provision_machine r hm m hc s = (res, t)"
  shows "\<exists>ws. log t = ws @ log s \<and> list_all (status_with_readiness_of hm) ws"
proof -
  from assms(1,2) have k: "api_logged log (R_Kube r)" and q: "agent_quiet log a" by (auto simp: machine_logged_def)
  have no_vm: "delivers (\<lambda>_. False) (wrapG p (HA_EnsureVM a mu d))" for p mu d
    unfolding delivers_def using assms(3) by (metis Inr_Inl_False prod.inject wrapG_Inr)
  have vm: "steps (wrote log (status_with_readiness_of hm)) (agent_vm r a h m mac arts)" for h mac arts
    unfolding agent_vm_def Let_def
    by (auto intro!: steps_bind_delivers [OF _ no_vm] agent_quiet_steps [OF q])
  have life: "steps (wrote log (status_with_readiness_of hm)) (reconcileVMLifecycle r h m mac arts)" for h mac arts
    unfolding reconcileVMLifecycle_def Let_def by (auto simp: assms(2) intro!: failing_steps k vm)
  have id: "steps (wrote log (status_with_readiness_of hm))
      (reconcileIdentity r (with_status (\<lambda>st. st\<lparr>HMS_Version := v, HMS_Image := i\<rparr>) hm) m hc mac)" for v i mac
    by (rule identity_writes [OF assms(1,2)]) (simp add: same_readiness_def with_status_def)
  have "steps (wrote log (status_with_readiness_of hm)) (provision_machine r hm m hc)"
    unfolding provision_machine_def Let_def
    by (auto split: sum.split intro!: api_steps k id life disks_write_nothing [OF assms(1,2)])
  from stepsD [OF this assms(4)] show ?thesis by (simp add: wrote_def)
qed


section \<open>A run that succeeds\<close>

lemma identity_sends:
  assumes "R_Agent r = Some a" and "reconcileIdentity r hm m hc mac s = (Inr hm1, t)"
  shows "\<exists>sent u. K_UpdateHypervisorMachineStatus (R_Kube r) sent u = (Inr hm1, t) \<and> HM_Meta sent = HM_Meta hm \<and> HM_Spec sent = HM_Spec hm \<and>
    HMS_Image (HM_Status sent) = HMS_Image (HM_Status hm) \<and> HMS_Version (HM_Status sent) = HMS_Version (HM_Status hm)"
proof -
  from assms obtain h ip u where "K_UpdateHypervisorMachineStatus (R_Kube r) (h\<lparr>HM_Status := (HM_Status h)\<lparr>HMS_Addresses := ip\<rparr>\<rparr>) u = (Inr hm1, t)"
    and "\<exists>ps. h = with_ports ps hm"
    by (fastforce simp: reconcileIdentity_def agent_identity_def recordAddresses_def Let_def bindG_eq_Inr dest: publish_endpoints_ports)
  then show ?thesis by (intro exI [of _ "h\<lparr>HM_Status := (HM_Status h)\<lparr>HMS_Addresses := ip\<rparr>\<rparr>"]) (auto simp: with_ports_def)
qed

text \<open>
  C17: A run that succeeds has started the machine it was asked for and said so. The image is the one
  registered for the version of the Machine (the configured one when the Machine names none), and the
  addresses, that image and that version were recorded in the status. For the machine as the API server returned it then, the root
  disk was prepared from the image, and the agent confirmed a VM with its UID, name, CPUs and memory, the
  effective MAC and that root disk; the last write reports the machine ready and provisioned under
  the provider ID of the cluster and the machine.
\<close>

theorem provisioned_means_running:
  assumes "R_Agent r = Some a" and "provision_machine r hm m hc s = (Inr res, t)"
  shows "\<exists>image sent s0 hm1 s1 root s2 d obs s3 s4 h s5 h'. resolveBaseImage r hc m = Inr image \<and>
    K_UpdateHypervisorMachineStatus (R_Kube r) sent s0 = (Inr hm1, s1) \<and> HM_Meta sent = HM_Meta hm \<and> HM_Spec sent = HM_Spec hm \<and>
    HMS_Image (HM_Status sent) = image \<and> HMS_Version (HM_Status sent) = MC_Version m \<and>
    HA_PrepareRootDisk a (artifact_mutation hm1 ''root'') \<lparr>RootReq_Name = M_Name (HM_Meta hm1), RootReq_SourceImage = image\<rparr> s1 = (Inr root, s2) \<and>
    HA_EnsureVM a (vm_mutation hm1) d s3 = (Inr obs, s4) \<and> Des_UID d = M_UID (HM_Meta hm1) \<and> Des_Name d = M_Name (HM_Meta hm1) \<and>
    Des_CPUs d = HM_CPU (HM_Spec hm1) \<and> Des_MemoryMiB d = HM_RAM (HM_Spec hm1) \<and> Des_MAC d = effectiveMAC r hm m \<and>
    (Art_Paths root \<noteq> [] \<longrightarrow> Des_Disk d = hd (Art_Paths root)) \<and>
    K_UpdateHypervisorMachineStatus (R_Kube r) h s5 = (Inr h', t) \<and> HMS_Ready (HM_Status h) \<and>
    HMS_Provisioned (HM_Status h) = Some True \<and> HMS_ProviderID (HM_Status h) = Some (provider_id m hm1)"
proof -
  from assms(2) obtain image where image: "resolveBaseImage r hc m = Inr image"
    by (auto simp: provision_machine_def bindG_eq_Inr split: sum.splits)
  let ?hm0 = "with_status (\<lambda>st. st\<lparr>HMS_Version := MC_Version m, HMS_Image := image\<rparr>) hm"
  let ?mac = "effectiveMAC r ?hm0 m"
  from assms(2) image obtain hm1 root confext cidata s1 s2 s4 where
    id: "reconcileIdentity r ?hm0 m hc ?mac s = (Inr hm1, s1)" and root: "reconcileRootDisk r hm1 image (HMS_Image (HM_Status hm)) s1 = (Inr root, s2)"
    and vm: "reconcileVMLifecycle r hm1 m ?mac (join_artifacts root cidata confext) s4 = (Inr (), t)"
    by (auto simp: provision_machine_def Let_def bindG_eq_Inr)
  obtain sent s0 where "K_UpdateHypervisorMachineStatus (R_Kube r) sent s0 = (Inr hm1, s1)" "HM_Meta sent = HM_Meta hm" "HM_Spec sent = HM_Spec hm"
    "HMS_Image (HM_Status sent) = image" "HMS_Version (HM_Status sent) = MC_Version m"
    using identity_sends [OF assms(1) id] by (auto simp: with_status_def)
  moreover have "?mac = effectiveMAC r hm m" by (simp add: effectiveMAC_def with_status_def)
  moreover from root assms(1) have "HA_PrepareRootDisk a (artifact_mutation hm1 ''root'')
      \<lparr>RootReq_Name = M_Name (HM_Meta hm1), RootReq_SourceImage = image\<rparr> s1 = (Inr root, s2)" by (simp add: reconcileRootDisk_def)
  moreover let ?arts = "join_artifacts root cidata confext"
  from vm assms(1) obtain u where "agent_vm r a hm1 m ?mac ?arts u = (Inr (), t)"
    by (auto simp: reconcileVMLifecycle_def Let_def bindG_eq_Inr)
  then obtain obs u2 hm' u3 h' where
    "HA_EnsureVM a (vm_mutation hm1) (desired_vm r hm1 ?mac (internalIPAddress (R_Lib r) (HMS_Addresses (HM_Status hm1))) ?arts) u = (Inr obs, u2)"
    "K_UpdateHypervisorMachineStatus (R_Kube r)
          (machine_ready (R_Lib r) (with_status (\<lambda>st. st\<lparr>HMS_ProviderID := Some (provider_id m hm1)\<rparr>) hm')) u3 = (Inr h', t)"
    by (auto simp: agent_vm_def Let_def bindG_eq_Inr split: if_splits)
  moreover have "Art_Paths root \<noteq> [] \<longrightarrow> hd (Art_Paths ?arts) = hd (Art_Paths root)" by (simp add: join_artifacts_def)
  ultimately show ?thesis using image
    by (intro exI conjI) (assumption | simp add: desired_vm_def machine_ready_def markVMProvisioned_def with_status_def)+
qed

section \<open>Deleting a machine\<close>

text \<open>
  C18: The finalizers of a machine outlive its VM. When the agent reports neither success nor
  \<open>NotFound\<close> for the VM, a deletion fails and writes nothing to the API server, so the object
  keeps its finalizers; otherwise the deletion writes at most the machine with its finalizers dropped.
\<close>

theorem finalizer_outlives_vm:
  assumes "machine_logged log r" and "R_Agent r = Some a" and "Machine_reconcileDelete r hm s = (res, t)"
  shows "(\<exists>ws. log t = ws @ log s \<and> list_all (\<lambda>w. w = WUpdateHM (hm\<lparr>HM_Meta := (HM_Meta hm)\<lparr>M_Finalizers := []\<rparr>\<rparr>)) ws) \<and>
    ((\<forall>u. \<exists>e v. HA_DeleteVM a (delete_mutation hm) u = (Inl e, v) \<and> \<not> IsNotFound e) \<longrightarrow> log t = log s \<and> (\<exists>e. res = Inl e))"
proof -
  from assms(1,2) have k: "api_logged log (R_Kube r)" and q: "agent_quiet log a" by (auto simp: machine_logged_def)
  let ?ok = "\<lambda>w. w = WUpdateHM (hm\<lparr>HM_Meta := (HM_Meta hm)\<lparr>M_Finalizers := []\<rparr>\<rparr>)"
  have down: "steps (wrote log ok) (teardown_step r hm f msg p (HA_DeleteVM a mu))" for ok f msg p mu
    unfolding teardown_step_def by (auto split: sum.split intro!: agent_quiet_steps [OF q] failing_steps k)
  have "steps (wrote log ?ok) (Machine_reconcileDelete r hm)"
    unfolding Machine_reconcileDelete_def drop_finalizers_def by (auto simp: Let_def assms(2) intro!: down api_steps k)
  from stepsD [OF this assms(3)] have "\<exists>ws. log t = ws @ log s \<and> list_all ?ok ws" by (simp add: wrote_def)
  moreover have "log t = log s \<and> (\<exists>e. res = Inl e)" if bad: "\<forall>u. \<exists>e v. HA_DeleteVM a (delete_mutation hm) u = (Inl e, v) \<and> \<not> IsNotFound e"
  proof -
    let ?step = "teardown_step r hm IsNotFound (''failed to delete VM for '' @ Quote (M_Name (HM_Meta hm)))
      (''delete VM for '' @ Quote (M_Name (HM_Meta hm))) (HA_DeleteVM a (delete_mutation hm))"
    from bad obtain e0 v0 where "HA_DeleteVM a (delete_mutation hm) s = (Inl e0, v0)" "\<not> IsNotFound e0" by blast
    then obtain e v where run: "?step s = (Inl e, v)" by (simp add: teardown_step_def catchG_def failing_step_def run_reported)
    with assms(2,3) have "res = Inl e" "t = v" by (simp_all add: Machine_reconcileDelete_def Let_def run_bind)
    moreover from stepsD [OF down run, where ok1 = "\<lambda>_. False"] have "log v = log s" by (auto simp: wrote_def list_all_iff)
    ultimately show ?thesis by simp
  qed
  ultimately show ?thesis by blast
qed


section \<open>Booting before the bootstrap data\<close>

text \<open>
  C37: With an agent a machine does not wait for its bootstrap data. While the config of the machine has
  no data Secret, a run that succeeds has nevertheless started the VM, with a root disk and a cloud-init disk
  and no image of a rendered tree among its disks, and at the start of the VM the data was pending. (Without
  an agent the boot is deferred: the data is attached at first boot only, and a machine must not boot before it.)
\<close>

theorem agent_boots_without_data:
  assumes "R_Agent r = Some a" and "config_ref (R_Lib r) m = Some key" and "\<forall>s. K_GetConfig (R_Kube r) key s = (Inr cfg, s)"
    and "CfgS_DataSecretName (Cfg_Status cfg) = None" and "provision_machine r hm m hc s = (Inr res, t)"
  shows "\<exists>hm1 image s1 root s2 cidata s3 d obs s4.
    HA_PrepareRootDisk a (artifact_mutation hm1 ''root'') \<lparr>RootReq_Name = M_Name (HM_Meta hm1), RootReq_SourceImage = image\<rparr> s1 = (Inr root, s2) \<and>
    reconcileCIDATA r hm1 m s2 = (Inr cidata, s3) \<and> bootstrapDataPending r m s3 = (Inr True, s3) \<and>
    HA_EnsureVM a (vm_mutation hm1) d s3 = (Inr obs, s4) \<and> Des_Disk d # Des_AdditionalDisks d = Art_Paths root @ Art_Paths cidata"
proof -
  have cfg: "bootstrap_config r key s = (Inr (Some cfg), s)" for s
    using assms(3) by (simp add: bootstrap_config_def run_optional)
  have none: "reconcileConfextDataDisk r hm1 m s = (Inr zero_artifact_result, s)" for hm1 s
    using assms(2,4) by (simp add: reconcileConfextDataDisk_def bootstrapDataSecretName_def cfg run_bind Let_def)
  from assms(5) obtain image where image: "resolveBaseImage r hc m = Inr image"
    by (auto simp: provision_machine_def bindG_eq_Inr split: sum.splits)
  let ?hm0 = "with_status (\<lambda>st. st\<lparr>HMS_Version := MC_Version m, HMS_Image := image\<rparr>) hm"
  let ?mac = "effectiveMAC r ?hm0 m"
  from assms(5) image none obtain hm1 root cidata s1 s2 s3 where
    root: "reconcileRootDisk r hm1 image (HMS_Image (HM_Status hm)) s1 = (Inr root, s2)" and cidata: "reconcileCIDATA r hm1 m s2 = (Inr cidata, s3)"
    and vm: "reconcileVMLifecycle r hm1 m ?mac (join_artifacts root cidata zero_artifact_result) s3 = (Inr (), t)"
    by (auto simp: provision_machine_def Let_def bindG_eq_Inr)
  let ?arts = "join_artifacts root cidata zero_artifact_result"
  from vm assms(1) have "agent_vm r a hm1 m ?mac ?arts s3 = (Inr (), t)"
    by (auto simp: reconcileVMLifecycle_def Let_def bindG_eq_Inr liftG_def)
  then obtain obs u2 where "Art_Paths ?arts \<noteq> []" and
    "HA_EnsureVM a (vm_mutation hm1) (desired_vm r hm1 ?mac (internalIPAddress (R_Lib r) (HMS_Addresses (HM_Status hm1))) ?arts) s3 = (Inr obs, u2)"
    by (auto simp: agent_vm_def Let_def bindG_eq_Inr split: if_splits)
  moreover have "bootstrapDataPending r m s3 = (Inr True, s3)" using assms(2,4) by (simp add: bootstrapDataPending_def cfg run_bind)
  moreover from root assms(1) have "HA_PrepareRootDisk a (artifact_mutation hm1 ''root'')
      \<lparr>RootReq_Name = M_Name (HM_Meta hm1), RootReq_SourceImage = image\<rparr> s1 = (Inr root, s2)" by (simp add: reconcileRootDisk_def)
  moreover have "Art_Paths ?arts = Art_Paths root @ Art_Paths cidata" by (simp add: join_artifacts_def zero_artifact_result_def)
  ultimately show ?thesis using cidata
    by (intro exI conjI) (assumption | simp add: desired_vm_def)+
qed


end
