(* ===== verification/Bootstrap.thy ===== *)
theory Bootstrap
  imports ConfigController MachineSafety
begin

text \<open>
  The config controller and what becomes of its data: the tree it renders reaches the host agent through
  the machine controller, and its status announces data only when the Secret holds it.
\<close>

section \<open>The paths of a rendered tree\<close>

definition ascii :: "string \<Rightarrow> bool" where
  "ascii s = list_all (\<lambda>c. (of_char c :: nat) < 128) s"

lemma ascii_append [simp]: "ascii (xs @ ys) \<longleftrightarrow> ascii xs \<and> ascii ys"
  by (simp add: ascii_def)

lemma ascii_Nil [simp]: "ascii []"
  by (simp add: ascii_def)

lemma ascii_Cons: "ascii (c # cs) \<longleftrightarrow> (of_char c :: nat) < 128 \<and> ascii cs"
  by (simp add: ascii_def)

text \<open>A tree as a Go map: every path once, here with the paths the encoder keeps as they are.\<close>

definition proper_tree :: "tree \<Rightarrow> bool" where
  "proper_tree t \<longleftrightarrow> distinct (map fst t) \<and> (\<forall>p\<in>fst ` set t. ascii p)"

lemma proper_Nil [simp]: "proper_tree []"
  by (simp add: proper_tree_def)

lemma proper_update: "proper_tree t \<Longrightarrow> ascii p \<Longrightarrow> proper_tree (AList.update p c t)"
  by (auto simp: proper_tree_def distinct_update dom_update)

lemma proper_Copy: "proper_tree t \<Longrightarrow> \<forall>p\<in>fst ` set u. ascii p \<Longrightarrow> proper_tree (maps_Copy t u)"
  unfolding maps_Copy_def by (induction u arbitrary: t) (auto simp: proper_update)

lemma proper_literal: "\<forall>p\<in>fst ` set u. ascii p \<Longrightarrow> proper_tree (map_literal u)"
  using proper_Copy [of "[]" u] by (simp add: maps_Copy_def map_literal_def)

lemma keys_Copy: "fst ` set (maps_Copy t u) = fst ` set t \<union> fst ` set u"
proof (induction u arbitrary: t)
  case (Cons x u)
  have "maps_Copy t (x # u) = maps_Copy (AList.update (fst x) (snd x) t) u" by (simp add: maps_Copy_def case_prod_beta)
  with Cons [of "AList.update (fst x) (snd x) t"] show ?case by (simp add: dom_update)
qed (simp add: maps_Copy_def)

lemma Copy_eq_Nil [simp]: "maps_Copy t u = [] \<longleftrightarrow> t = [] \<and> u = []"
  using keys_Copy [of t u] by (cases "maps_Copy t u") auto

lemma kubeletTree_nonempty [simp]: "kubeletTree clusterName nodeName pk cert key kubeconfig \<noteq> []"
  by (simp add: kubeletTree_def Let_def map_literal_def)

lemma proper_ascii: "proper_tree t \<Longrightarrow> \<forall>p\<in>fst ` set t. ascii p"
  by (simp add: proper_tree_def)

lemma proper_kubeletTree:
  assumes "ascii nodeName"
  shows "proper_tree (kubeletTree clusterName nodeName pk cert key kubeconfig)"
  unfolding kubeletTree_def Let_def
  by (rule proper_literal) (use assms in \<open>simp add: ascii_Cons\<close>)

lemma proper_joined:
  assumes "Inr (maps_Copy (map_literal u) k) = Inr t" and "\<forall>p\<in>fst ` set u. ascii p" and "proper_tree k" and "k \<noteq> []"
  shows "proper_tree t \<and> t \<noteq> []"
  using assms proper_Copy [OF proper_literal, of u k] by (auto simp: proper_ascii)

lemma proper_buildConfextTree:
  assumes "buildConfextTree clusterName role cpIP nodeName pk cert key kubeconfigs encryption = Inr t" and "ascii nodeName"
  shows "proper_tree t \<and> t \<noteq> []"
proof -
  note kubelet = proper_kubeletTree [OF assms(2)]
  have nft: "ascii k8sServiceNftPath" unfolding k8sServiceNftPath_def by (simp add: ascii_def)
  show ?thesis
  proof (cases "role = configRoleControlPlane")
    case True
    with assms(1) have ne: "cpIP \<noteq> []" "nodeName \<noteq> []" by (auto simp: buildConfextTree_def BuildControlPlane_def split: if_splits)
    show ?thesis
      using assms(1) unfolding buildConfextTree_def BuildControlPlane_def
      by (simp only: True ne if_True if_False simp_thms) (erule proper_joined, simp_all add: ascii_Cons nft kubelet)
  next
    case False
    with assms show ?thesis
      by (auto simp: buildConfextTree_def BuildWorker_def ascii_Cons nft update_nonempty split: if_splits intro!: proper_update kubelet)
  qed
qed

section \<open>From the config to the machine\<close>

text \<open>
  An API server whose reads see the writes before them: a Secret is read back under its name with the
  data it was written with; a config shows the status written last, and writing it leaves the
  Secrets alone.
\<close>

definition read_after_write :: "'s provider_kube \<Rightarrow> bool" where
  "read_after_write k \<longleftrightarrow>
     (\<forall>key s x t. K_GetSecret k key s = (Inr x, t) \<longrightarrow> meta_key (Sec_Meta x) = key) \<and>
     (\<forall>x s t. K_CreateSecret k x s = (Inr (), t) \<longrightarrow> (\<exists>y. K_GetSecret k (meta_key (Sec_Meta x)) t = (Inr y, t) \<and> Sec_Data y = Sec_Data x)) \<and>
     (\<forall>x s t. K_UpdateSecret k x s = (Inr (), t) \<longrightarrow> (\<exists>y. K_GetSecret k (meta_key (Sec_Meta x)) t = (Inr y, t) \<and> Sec_Data y = Sec_Data x)) \<and>
     (\<forall>c s c' t. K_UpdateConfigStatus k c s = (Inr c', t) \<longrightarrow>
        (\<exists>d. K_GetConfig k (meta_key (Cfg_Meta c)) t = (Inr d, t) \<and> Cfg_Status d = Cfg_Status c) \<and>
        (\<forall>key. K_GetSecret k key t = (fst (K_GetSecret k key s), t)))"

lemma stepG_Inr [simp]: "stepG r cfg reason m k s = (Inr x, t) \<longleftrightarrow> (\<exists>y u. m s = (Inr y, u) \<and> k y u = (Inr x, t))"
  by (auto simp: stepG_def recordFailureError_def catchG_def split: prod.splits sum.splits)

lemma persistDataSecret_stores:
  assumes "read_after_write (R_Kube r)" and "persistDataSecret r cfg name blob s = (Inr (), t)"
  shows "\<exists>y. K_GetSecret (R_Kube r) (M_Namespace (Cfg_Meta cfg), name) t = (Inr y, t) \<and> Sec_Data y = [confextTreeKey \<mapsto> blob]"
proof -
  let ?key = "(M_Namespace (Cfg_Meta cfg), name)"
  from assms(2) obtain found u where found: "optionalG (''get data Secret '' @ show_key ?key) (K_GetSecret (R_Kube r) ?key) s = (Inr found, u)"
    and run: "(case found of None \<Rightarrow> K_CreateSecret (R_Kube r) \<lparr>Sec_Meta = new_meta (fst ?key) name, Sec_Data = [confextTreeKey \<mapsto> blob]\<rparr> u
       | Some secret \<Rightarrow> K_UpdateSecret (R_Kube r) (secret\<lparr>Sec_Data := [confextTreeKey \<mapsto> blob]\<rparr>) u) = (Inr (), t)"
    by (auto simp: persistDataSecret_def Let_def bindG_eq_Inr split: option.splits)
  show ?thesis
  proof (cases found)
    case None
    with run have "K_CreateSecret (R_Kube r) \<lparr>Sec_Meta = new_meta (fst ?key) name, Sec_Data = [confextTreeKey \<mapsto> blob]\<rparr> u = (Inr (), t)" by simp
    with assms(1) show ?thesis unfolding read_after_write_def by (fastforce simp: new_meta_def)
  next
    case (Some secret)
    with found have "K_GetSecret (R_Kube r) ?key s = (Inr secret, u)" by (auto simp: run_optional split: prod.splits sum.splits if_splits)
    with assms(1) have "meta_key (Sec_Meta secret) = ?key" unfolding read_after_write_def by blast
    moreover from run Some have "K_UpdateSecret (R_Kube r) (secret\<lparr>Sec_Data := [confextTreeKey \<mapsto> blob]\<rparr>) u = (Inr (), t)" by simp
    ultimately show ?thesis using assms(1) unfolding read_after_write_def by fastforce
  qed
qed

lemma store_announces:
  assumes "read_after_write (R_Kube r)" and "store_bootstrap_data r cfg pk generated tree s = (Inr res, t)"
  shows "\<exists>d y. K_GetConfig (R_Kube r) (meta_key (Cfg_Meta cfg)) t = (Inr d, t) \<and>
    CfgS_DataSecretName (Cfg_Status d) = Some (M_Name (Cfg_Meta cfg) @ ''-data'') \<and>
    K_GetSecret (R_Kube r) (M_Namespace (Cfg_Meta cfg), M_Name (Cfg_Meta cfg) @ ''-data'') t = (Inr y, t) \<and>
    Sec_Data y = [confextTreeKey \<mapsto> encodeTreeBlob tree]"
proof -
  let ?name = "M_Name (Cfg_Meta cfg) @ ''-data''"
  from assms(2) obtain u v c' where data: "persistDataSecret r cfg ?name (encodeTreeBlob tree) u = (Inr (), v)"
    and status: "K_UpdateConfigStatus (R_Kube r) (rendered_status (R_Lib r) ?name cfg) v = (Inr c', t)"
    by (auto simp: store_bootstrap_data_def Let_def bindG_eq_Inr)
  obtain y where y: "K_GetSecret (R_Kube r) (M_Namespace (Cfg_Meta cfg), ?name) v = (Inr y, v)" "Sec_Data y = [confextTreeKey \<mapsto> encodeTreeBlob tree]"
    using persistDataSecret_stores [OF assms(1) data] by blast
  from assms(1) status have "\<exists>d. K_GetConfig (R_Kube r) (meta_key (Cfg_Meta (rendered_status (R_Lib r) ?name cfg))) t = (Inr d, t) \<and>
      Cfg_Status d = Cfg_Status (rendered_status (R_Lib r) ?name cfg)"
    and "\<forall>key. K_GetSecret (R_Kube r) key t = (fst (K_GetSecret (R_Kube r) key v), t)"
    unfolding read_after_write_def by blast+
  with y show ?thesis by (auto simp: rendered_status_def markDataSecretAvailable_def)
qed

lemma decode_proper:
  assumes "proper_tree t" and "Sec_Data y = [confextTreeKey \<mapsto> encodeTreeBlob t]"
  shows "decodeConfextTree y = Inr (sort_key fst t)"
  by (rule tree_blob_round_trip) (use assms in \<open>auto simp: proper_tree_def ascii_def\<close>)

text \<open>
  C5: Bootstrap data reaches the machine it was rendered for. When the config controller found the
  address of the control plane and its run succeeded, the tree it built with the node's name and that
  address is stored, and the machine controller, reading the API server in the state that is left,
  hands the host agent exactly the files of that tree, in the order of their paths (and nothing else,
  for a config that restores no snapshot): contents are never altered by the encoding, whatever bytes
  they hold.
\<close>

theorem bootstrap_data_reaches_agent:
  assumes "read_after_write (R_Kube r)" and "FR_BuildTree r = buildConfextTree" and "ascii (node_name cfg m)"
    and "render_config r cfg m c s = (Inr res, t)" and "controlPlaneAddress r (node_role (R_Lib r) cfg m) m c s = (Inr (cpIP, cpPort), u)"
    and "R_Kube mr = R_Kube r" and "R_Agent mr = Some a" and "config_ref (R_Lib mr) m = Some (meta_key (Cfg_Meta cfg))"
    and "\<And>d. K_GetConfig (R_Kube r) (meta_key (Cfg_Meta cfg)) t = (Inr d, t) \<Longrightarrow> Cfg_EtcdSnapshotHostPath (Cfg_Spec d) = []"
  shows "\<exists>pk cert key kubeconfigs tree.
    buildConfextTree (MC_ClusterName m) (node_role (R_Lib r) cfg m) cpIP (node_name cfg m) pk cert key kubeconfigs
      (string_bytes encryptionConfig) = Inr tree \<and>
    reconcileConfextDataDisk mr hm m t = wrapG (''agent prepare confext for '' @ Quote (M_Name (MC_Meta m)))
      (HA_PrepareConfext a (artifact_mutation hm ''confext'') (M_Name (MC_Meta m)) (tree_files (sort_key fst tree))) t"
proof -
  from assms(2,4,5) obtain pk cert key kubeconfigs tree generated v where
    tree: "buildConfextTree (MC_ClusterName m) (node_role (R_Lib r) cfg m) cpIP (node_name cfg m) pk cert key kubeconfigs
      (string_bytes encryptionConfig) = Inr tree" and store: "store_bootstrap_data r cfg pk generated tree v = (Inr res, t)"
    by (auto simp: render_config_def Let_def catchG_def liftG_def split: prod.splits)
  from proper_buildConfextTree [OF tree assms(3)] have proper: "proper_tree tree" "tree \<noteq> []" by simp_all
  let ?name = "M_Name (Cfg_Meta cfg) @ ''-data''"
  from store_announces [OF assms(1) store] obtain d y where
    d: "K_GetConfig (R_Kube r) (meta_key (Cfg_Meta cfg)) t = (Inr d, t)" "CfgS_DataSecretName (Cfg_Status d) = Some ?name"
    and y: "K_GetSecret (R_Kube r) (M_Namespace (Cfg_Meta cfg), ?name) t = (Inr y, t)" and data: "Sec_Data y = [confextTreeKey \<mapsto> encodeTreeBlob tree]"
    by blast
  from assms(8) have ns: "M_Namespace (MC_Meta m) = M_Namespace (Cfg_Meta cfg)"
    by (auto simp: config_ref_def Let_def split: if_splits)
  have cfg: "bootstrap_config mr (meta_key (Cfg_Meta cfg)) t = (Inr (Some d), t)"
    by (simp add: bootstrap_config_def run_optional assms(6) d(1))
  have "sort_key fst tree \<noteq> []" using proper(2) by (metis set_empty set_sort)
  moreover have "failing_step mr hm ''FailedProvision'' msg p (liftG (decodeConfextTree y)) t = (Inr (sort_key fst tree), t)" for msg p
    using decode_proper [OF proper(1) data] by (simp add: liftG_def)
  moreover have "failing_step mr hm ''FailedProvision'' msg p (etcdRestoreTree mr m) t = (Inr [], t)" for msg p
    using assms(8) assms(9) [OF d(1)] cfg by (simp add: etcdRestoreTree_def run_bind)
  ultimately have "reconcileConfextDataDisk mr hm m t = wrapG (''agent prepare confext for '' @ Quote (M_Name (MC_Meta m)))
      (HA_PrepareConfext a (artifact_mutation hm ''confext'') (M_Name (MC_Meta m)) (tree_files (sort_key fst tree))) t"
    using d y assms(6,7,8) cfg
    by (simp add: reconcileConfextDataDisk_def bootstrapDataSecretName_def run_bind run_optional ns Let_def package_tree_def maps_Copy_def
        del: failing_step_Inr)
  with tree show ?thesis by blast
qed


section \<open>The status of a config\<close>

definition config_logged :: "('s \<Rightarrow> api_write list) \<Rightarrow> 's config_reconciler \<Rightarrow> bool" where
  "config_logged log r \<longleftrightarrow> api_logged log (R_Kube r) \<and> (\<forall>ip name. silent log (FR_GenerateClusterPKI r ip name)) \<and>
     (\<forall>pk name. silent log (FR_GenerateKubeletCert r pk name))"

text \<open>A write that announces nothing: a Secret, or a config that is not ready.\<close>

fun announces_nothing :: "api_write \<Rightarrow> bool" where
  "announces_nothing (WCreateSecret x) = True"
| "announces_nothing (WUpdateSecret x) = True"
| "announces_nothing (WUpdateConfigStatus c) = (\<not> CfgS_Ready (Cfg_Status c))"
| "announces_nothing w = False"

lemma recordFailure_steps:
  assumes "api_logged log (R_Kube r)"
  shows "steps (wrote log announces_nothing) (recordFailure r cfg reason msg)"
    "steps (wrote log announces_nothing) (recordFailureError r cfg reason e)"
proof -
  show failure: "steps (wrote log announces_nothing) (recordFailure r cfg reason msg)" for reason msg
    unfolding recordFailure_def by (auto intro!: api_steps assms simp: markDataSecretAvailable_def)
  show "steps (wrote log announces_nothing) (recordFailureError r cfg reason e)"
    unfolding recordFailureError_def by (auto split: sum.split intro!: failure)
qed

lemma stepG_steps:
  assumes "api_logged log (R_Kube r)" and "steps (wrote log announces_nothing) m" and "\<And>x. steps (wrote log announces_nothing) (k x)"
  shows "steps (wrote log announces_nothing) (stepG r cfg reason m k)"
  unfolding stepG_def by (auto split: sum.split intro!: assms recordFailure_steps)

lemma stepG_never:
  assumes "api_logged log (R_Kube r)" and "steps (wrote log announces_nothing) m" and "delivers (\<lambda>_. False) m"
  shows "steps (wrote log announces_nothing) (stepG r cfg reason m k)"
proof (rule stepsI)
  fix s res t
  assume run: "stepG r cfg reason m k s = (res, t)"
  obtain e u where m: "m s = (Inl e, u)" using assms(3) by (cases "m s"; cases "fst (m s)") (auto simp: delivers_def)
  from stepsD [OF assms(2) m] have "wrote log announces_nothing s u" .
  moreover have "wrote log announces_nothing u t"
    using stepsD [OF recordFailure_steps(2) [OF assms(1)], of cfg reason e u res t] run m by (simp add: stepG_def catchG_def)
  ultimately show "wrote log announces_nothing s t" by (rule wr.R_trans)
qed

lemma address_steps:
  assumes "api_logged log (R_Kube r)"
  shows "steps (wrote log ok) (controlPlaneAddress r role m c)"
proof -
  have ip: "steps (wrote log ok) (machineInternalIP r m)" for m
    unfolding machineInternalIP_def by (auto simp: Let_def intro!: api_steps assms)
  have first: "steps (wrote log ok) (first_internal_ip r ms)" for ms
  proof (induction ms)
    case Nil
    show ?case by (simp only: first_internal_ip.simps wr.steps_return)
  next
    case (Cons m ms)
    then show ?case by (auto split: option.split intro!: ip)
  qed
  show ?thesis unfolding controlPlaneAddress_def controlPlaneMachineInternalIP_def
    by (auto split: option.split intro!: ip first api_steps assms)
qed

lemma persistDataSecret_never:
  assumes "\<forall>x s. \<exists>e t. K_CreateSecret (R_Kube r) x s = (Inl e, t)" and "\<forall>x s. \<exists>e t. K_UpdateSecret (R_Kube r) x s = (Inl e, t)"
  shows "delivers (\<lambda>_. False) (persistDataSecret r cfg name blob)"
proof -
  have "K_CreateSecret (R_Kube r) x s \<noteq> (Inr (), t)" "K_UpdateSecret (R_Kube r) x s \<noteq> (Inr (), t)" for x s t
    using assms by (metis Inr_Inl_False prod.inject)+
  then show ?thesis by (auto simp: delivers_def persistDataSecret_def Let_def bindG_eq_Inr split: option.splits)
qed

lemma store_never:
  assumes "config_logged log r"
    and "\<forall>x s. \<exists>e t. K_CreateSecret (R_Kube r) x s = (Inl e, t)" and "\<forall>x s. \<exists>e t. K_UpdateSecret (R_Kube r) x s = (Inl e, t)"
  shows "steps (wrote log announces_nothing) (store_bootstrap_data r cfg pk generated tree)"
proof -
  from assms(1) have k: "api_logged log (R_Kube r)" by (simp add: config_logged_def)
  have "steps (wrote log announces_nothing) (persistDataSecret r cfg name blob)" for name blob
    unfolding persistDataSecret_def by (auto simp: Let_def split: option.split intro!: api_steps k)
  moreover have "steps (wrote log announces_nothing) (persistPKISecret r cfg pk)"
    unfolding persistPKISecret_def by (auto simp: Let_def intro!: api_steps k)
  ultimately show ?thesis
    unfolding store_bootstrap_data_def Let_def
    by (intro stepG_steps [OF k] stepG_never [OF k, OF _ persistDataSecret_never [OF assms(2,3)]]) auto
qed

text \<open>
  C22: Bootstrap data is announced only once it is stored: if no write of a Secret succeeds, nothing a
  whole run of the config controller writes marks a config ready, whatever else succeeds or fails; the
  machine controller never sees a data Secret that is not there.
\<close>

theorem config_ready_only_with_secret:
  assumes "config_logged log r" and "Config_Reconcile r key s = (res, t)"
    and "\<forall>x s. \<exists>e t. K_CreateSecret (R_Kube r) x s = (Inl e, t)" and "\<forall>x s. \<exists>e t. K_UpdateSecret (R_Kube r) x s = (Inl e, t)"
  shows "\<exists>ws. log t = ws @ log s \<and> list_all announces_nothing ws"
proof -
  from assms(1) have k: "api_logged log (R_Kube r)" and gen: "silent log (FR_GenerateClusterPKI r ip name)" "silent log (FR_GenerateKubeletCert r pk name)" for ip name pk
    by (auto simp: config_logged_def)
  note st = stepG_steps [OF k] recordFailure_steps [OF k] silent_steps [OF gen(1)] silent_steps [OF gen(2)]
  have pki: "steps (wrote log announces_nothing) (Config_clusterPKI r cfg ip name)" for cfg ip name
    unfolding Config_clusterPKI_def by (auto simp: Let_def split: option.split intro!: api_steps k st)
  have render: "steps (wrote log announces_nothing) (render_config r cfg m c)" for cfg m c
    unfolding render_config_def by (auto simp: Let_def split: sum.split prod.split intro!: st pki address_steps [OF k] store_never [OF assms(1,3,4)])
  have owner: "steps (wrote log announces_nothing) (owning_machine r ns refs)" for ns refs
  proof (induction refs)
    case Nil
    show ?case by (simp only: owning_machine.simps wr.steps_return)
  next
    case (Cons ref refs)
    then show ?case by (auto intro!: api_steps k)
  qed
  have "steps (wrote log announces_nothing) (Config_Reconcile r key)"
    unfolding Config_Reconcile_def owningMachine_def Config_linkedCluster_def
    by (auto split: option.split intro!: api_steps k st render owner)
  from stepsD [OF this assms(2)] show ?thesis by (simp add: wrote_def)
qed

text \<open>
  C39: A failing API server while the address of a worker is looked up is not an error of the run: it is recorded as
  \<open>AddressNotFound\<close>, and the run ends settled, with nothing to retry it. (The failure of a
  dependency is meant to be an error of the run that keeps the underlying error.)
\<close>

theorem address_failure_settles:
  assumes "node_role (R_Lib r) cfg m = configRoleWorker"
    and "K_ListMachines (R_Kube r) (M_Namespace (CL_Meta c)) (control_plane_selector (R_Lib r) c) s = (Inl e, u)"
    and "\<forall>c'. Cfg_Meta c' = Cfg_Meta cfg \<longrightarrow> (\<exists>c'' t. K_UpdateConfigStatus (R_Kube r) c' u = (Inr c'', t))"
  shows "\<exists>c' c'' t. K_UpdateConfigStatus (R_Kube r) c' u = (Inr c'', t) \<and> CfgS_FailureReason (Cfg_Status c') = ''AddressNotFound'' \<and>
    render_config r cfg m c s = (Inr settled, t)"
proof -
  have "controlPlaneAddress r configRoleWorker m c s = (Inl (wrap_err ''list control-plane machines'' e), u)"
    using assms(2) by (simp add: controlPlaneAddress_def controlPlaneMachineInternalIP_def configRoleWorker_def configRoleControlPlane_def run_bind run_wrap)
  then have run: "render_config r cfg m c s = recordFailure r cfg ''AddressNotFound'' (err_text (wrap_err ''list control-plane machines'' e)) u"
    using assms(1) by (simp add: render_config_def Let_def catchG_def)
  let ?c' = "markDataSecretAvailable (R_Lib r) ''False'' ''AddressNotFound'' (err_text (wrap_err ''list control-plane machines'' e))
    (cfg\<lparr>Cfg_Status := (Cfg_Status cfg)\<lparr>CfgS_Ready := False, CfgS_FailureReason := ''AddressNotFound'',
       CfgS_FailureMessage := err_text (wrap_err ''list control-plane machines'' e)\<rparr>\<rparr>)"
  have "Cfg_Meta ?c' = Cfg_Meta cfg" by (simp add: markDataSecretAvailable_def)
  with assms(3) obtain c'' t where upd: "K_UpdateConfigStatus (R_Kube r) ?c' u = (Inr c'', t)" by blast
  then have "render_config r cfg m c s = (Inr settled, t)" unfolding run recordFailure_def by (simp add: run_bind run_wrap)
  with upd show ?thesis
    by (intro exI [of _ ?c'] exI [of _ c''] exI [of _ t]) (simp add: markDataSecretAvailable_def)
qed


end
