(* ===== verification/ClusterSafety.thy ===== *)
theory ClusterSafety
  imports ClusterController ControlPlaneSafety
begin

text \<open>
  What the cluster controller guarantees about the network of a cluster, and that the counters of a
  control plane do not wrap.
\<close>

section \<open>The network of a cluster\<close>

text \<open>Neither success nor one of the answers the controller takes for success.\<close>

definition never_ok :: "(goerr \<Rightarrow> bool) \<Rightarrow> ('s, 'a) go \<Rightarrow> bool" where
  "never_ok tolerated m \<longleftrightarrow> (\<forall>s. \<exists>e t. m s = (Inl e, t) \<and> \<not> tolerated e)"

lemma never_okE:
  assumes "never_ok tolerated m"
  obtains e t where "m s = (Inl e, t)" "\<not> tolerated e"
  using assms unfolding never_ok_def by blast

text \<open>The two calls about the network, through the agent or directly.\<close>

definition create_network_call :: "('s, 'z) reconciler_scheme \<Rightarrow> hypervisor_cluster \<Rightarrow> ('s, unit) go" where
  "create_network_call r hc = (let network = HC_Network (HC_Spec hc); name = M_Name (HC_Meta hc) in case R_Agent r of
     Some a \<Rightarrow> HA_EnsureNetwork a (hostMutation ''agent'' (M_UID (HC_Meta hc)) (M_Generation (HC_Meta hc)) ''network'')
       \<lparr>NetReq_Name = name, NetReq_CIDR = HC_CIDR network\<rparr>
   | None \<Rightarrow> KN_CreateNetwork (R_K8Netd r) name (HC_CIDR network) (HC_Gateway network) defaultPoolStart defaultPoolEnd)"

definition delete_network_call :: "('s, 'z) reconciler_scheme \<Rightarrow> hypervisor_cluster \<Rightarrow> ('s, unit) go" where
  "delete_network_call r hc = (case R_Agent r of
     Some a \<Rightarrow> HA_DeleteNetwork a (hostMutation ''agent'' (M_UID (HC_Meta hc)) (M_Generation (HC_Meta hc)) ''network-delete'')
   | None \<Rightarrow> KN_DeleteNetwork (R_K8Netd r) (M_Name (HC_Meta hc)))"

lemma events_quiet: "api_logged log k \<Longrightarrow> log (K_EventOn k kind m ty reason msg s) = log s"
  by (simp add: api_logged_def)

definition cluster_logged :: "('s \<Rightarrow> api_write list) \<Rightarrow> ('s, 'z) reconciler_scheme \<Rightarrow> bool" where
  "cluster_logged log r \<longleftrightarrow> api_logged log (R_Kube r) \<and>
     (\<forall>hc. silent log (create_network_call r hc)) \<and> (\<forall>hc. silent log (delete_network_call r hc))"

lemma ensure_network_fails:
  assumes "cluster_logged log r" and "never_ok (\<lambda>e. errors_Is e NetAlreadyExists) (create_network_call r hc)"
  shows "\<exists>e t. ensure_network r hc s = (Inl e, t) \<and> log t = log s"
proof -
  obtain e t where "create_network_call r hc s = (Inl e, t)" "\<not> errors_Is e NetAlreadyExists"
    by (rule never_okE [OF assms(2)])
  moreover from this(1) assms(1) have "log t = log s" unfolding cluster_logged_def silent_def by (blast dest: stepsD)
  ultimately show ?thesis using assms(1)
    by (simp add: ensure_network_def create_network_call_def cluster_logged_def Let_def catchG_def run_bind event_onG_def events_quiet)
qed

text \<open>
  C21: The controller never speaks of a network that is not there. A cluster whose infrastructure is not
  yet ready is reported ready only after its network was created: while creating it keeps failing, a run
  fails and writes nothing. A cluster keeps its finalizer until its network is gone: while deleting
  it keeps failing with anything but \<open>NotFound\<close>, a deletion fails and writes nothing.
\<close>

theorem network_guards_cluster:
  assumes "cluster_logged log r"
  shows "(\<not> isInfrastructureReady (R_Lib r) hc \<and> never_ok (\<lambda>e. errors_Is e NetAlreadyExists) (create_network_call r hc) \<longrightarrow>
      (\<exists>e t. reconcileNormal r hc c s = (Inl e, t) \<and> log t = log s)) \<and>
    (Lib_ContainsFinalizer (R_Lib r) (M_Finalizers (HC_Meta hc)) hypervisorClusterFinalizer \<and>
     never_ok (\<lambda>e. errors_Is e NetNotFound \<or> IsNotFound e) (delete_network_call r hc) \<longrightarrow>
      (\<exists>e t. Cluster_reconcileDelete r hc s = (Inl e, t) \<and> log t = log s))"
proof (intro conjI impI; elim conjE)
  assume "\<not> isInfrastructureReady (R_Lib r) hc" "never_ok (\<lambda>e. errors_Is e NetAlreadyExists) (create_network_call r hc)"
  moreover from ensure_network_fails [OF assms this(2), of s] obtain e t where "ensure_network r hc s = (Inl e, t)" "log t = log s" by blast
  ultimately show "\<exists>e t. reconcileNormal r hc c s = (Inl e, t) \<and> log t = log s" by (simp add: reconcileNormal_def run_bind)
next
  assume has: "Lib_ContainsFinalizer (R_Lib r) (M_Finalizers (HC_Meta hc)) hypervisorClusterFinalizer"
    and bad: "never_ok (\<lambda>e. errors_Is e NetNotFound \<or> IsNotFound e) (delete_network_call r hc)"
  obtain e t where "delete_network_call r hc s = (Inl e, t)" "\<not> (errors_Is e NetNotFound \<or> IsNotFound e)" by (rule never_okE [OF bad])
  moreover from this(1) assms have "log t = log s" unfolding cluster_logged_def silent_def by (blast dest: stepsD)
  ultimately show "\<exists>e t. Cluster_reconcileDelete r hc s = (Inl e, t) \<and> log t = log s" using assms has
    by (simp add: Cluster_reconcileDelete_def delete_network_call_def cluster_logged_def Let_def catchG_def run_bind event_onG_def events_quiet)
qed

section \<open>Counting replicas\<close>

lemma count_ready_bounds:
  assumes "count_ready r ns ms n s = (Inr k, t)" and "0 \<le> sint n" and "sint n + int (length ms) < 2 ^ 31"
  shows "sint n \<le> sint k \<and> sint k \<le> sint n + int (length ms)"
  using assms
proof (induction ms arbitrary: n s)
  case (Cons m ms)
  have inc: "sint (n + 1) = sint n + 1" using Cons.prems(2,3) by (simp add: sint_word_ariths signed_take_bit_int_eq_self)
  from Cons.prems(1) obtain n' u where "count_ready r ns ms n' u = (Inr k, t)" "n' = n \<or> n' = n + 1"
    by (auto simp: bindG_eq_Inr split: option.splits if_splits)
  with Cons.IH [of n' u] Cons.prems(2,3) inc show ?case by auto
qed simp

text \<open>
  The counters a control plane reports are those of the machines the API server listed, at their width of
  32 bits: with fewer than \<open>2 ^ 31\<close> machines the replicas are their number, the ready ones are
  between none and all of them, the unavailable ones are the rest, and no counter wraps or is negative.
\<close>

theorem replica_counters_bounded:
  assumes "updateScaleStatus r cp c s = (Inr cp', t)" and "CP_controlPlaneMachines r cp c s = (Inr ms, u)" and "int (length ms) < 2 ^ 31"
  shows "\<exists>sent v. K_UpdateControlPlaneStatus (R_Kube r) sent v = (Inr cp', t) \<and>
    sint (CPS_Replicas (CP_Status sent)) = int (length ms) \<and>
    0 \<le> sint (CPS_ReadyReplicas (CP_Status sent)) \<and> sint (CPS_ReadyReplicas (CP_Status sent)) \<le> int (length ms) \<and>
    sint (CPS_UnavailableReplicas (CP_Status sent)) = int (length ms) - sint (CPS_ReadyReplicas (CP_Status sent))"
proof -
  let ?sent = "\<lambda>created ready. cp\<lparr>CP_Status := (CP_Status cp)\<lparr>CPS_Version := Some (CP_Version (CP_Spec cp)), CPS_Replicas := created,
    CPS_UpdatedReplicas := created, CPS_ReadyReplicas := ready, CPS_UnavailableReplicas := created - ready\<rparr>\<rparr>"
  from assms(1,2) obtain ready v where count: "count_ready r (cp_namespace cp) ms 0 u = (Inr ready, v)"
    and update: "K_UpdateControlPlaneStatus (R_Kube r) (?sent (of_nat (length ms)) ready) v = (Inr cp', t)"
    by (auto simp: updateScaleStatus_def machineReplicaCounts_def bindG_eq_Inr)
  have created: "sint (of_nat (length ms) :: int32) = int (length ms)"
    using assms(3) by (simp add: signed_of_nat signed_take_bit_int_eq_self)
  have ready: "0 \<le> sint ready" "sint ready \<le> int (length ms)" using count_ready_bounds [OF count] assms(3) by simp_all
  have "sint (of_nat (length ms) - ready) = int (length ms) - sint ready"
    using ready assms(3) created by (simp add: sint_word_ariths signed_take_bit_int_eq_self)
  with update created ready show ?thesis by (intro exI [of _ "?sent (of_nat (length ms)) ready"] exI [of _ v]) simp
qed


end
