(* ===== verification/ControllerLab.thy ===== *)
theory ControllerLab
  imports ProviderLab MachineSafety Bootstrap ClusterSafety
begin

text \<open>
  The machine, config and cluster controllers at work on the API server in memory: runs that show the
  hypotheses of their theorems together at concrete inputs.
\<close>

section \<open>A machine that is provisioned\<close>

definition working_agent :: "'s host_agent" where
  "working_agent = Fake\<lparr>HA_EnsurePort := (\<lambda>m q. returnG (zero_port_observed\<lparr>PortObs_IP := ''10.0.0.2''\<rparr>)), HA_PublishPort := (\<lambda>m g h. returnG 30000),
     HA_PrepareRootDisk := (\<lambda>m q. returnG \<lparr>Art_Paths = [''/disks/cp-0-root.qcow2''], Art_SHA256s = [''aa'']\<rparr>)\<rparr>"

definition broken_agent :: "'s host_agent" where
  "broken_agent = working_agent\<lparr>HA_EnsureVM := (\<lambda>m d. failG (plain_err ''no memory'')), HA_DeleteVM := (\<lambda>m. failG (plain_err ''busy''))\<rparr>"

lemma lab_agents_quiet: "agent_quiet log working_agent" "agent_quiet log broken_agent"
  by (simp_all add: agent_quiet_def working_agent_def broken_agent_def Fake_def silent_def steps_def)

lemma plab_machine_logged: "agent_quiet PL_Log a \<Longrightarrow> machine_logged PL_Log (plab_machine_reconciler a)"
  using plab_logged by (simp add: machine_logged_def plab_machine_reconciler_def)

abbreviation lab_machine_reconciler :: "unit plab host_agent \<Rightarrow> (unit plab, unit, unit) machine_reconciler" where
  "lab_machine_reconciler a \<equiv> plab_machine_reconciler a"

lemma failing_return [simp]: "failing_step r hm reason msg p (returnG x) = returnG x"
  by (rule ext) (simp add: returnG_def)

lemma lab_agent_calls [simp]:
  "HA_EnsureNetwork working_agent m nq = returnG ()" "HA_EnsurePort working_agent m pq = returnG (zero_port_observed\<lparr>PortObs_IP := ''10.0.0.2''\<rparr>)"
  "HA_PublishPort working_agent m g h = returnG 30000"
  "HA_PrepareRootDisk working_agent m rq = returnG \<lparr>Art_Paths = [''/disks/cp-0-root.qcow2''], Art_SHA256s = [''aa'']\<rparr>"
  "HA_EnsureVM working_agent m d = returnG zero_vm_observed"
  "HA_EnsureNetwork broken_agent = HA_EnsureNetwork working_agent" "HA_EnsurePort broken_agent = HA_EnsurePort working_agent"
  "HA_PrepareRootDisk broken_agent = HA_PrepareRootDisk working_agent" "HA_EnsureVM broken_agent m d = failG (plain_err ''no memory'')"
  by (simp_all add: broken_agent_def working_agent_def Fake_def)

lemma lab_reconciler [simp]:
  "R_Agent (plab_machine_reconciler a) = Some a" "R_Kube (plab_machine_reconciler a) = plab_api" "R_Lib (plab_machine_reconciler a) = plab_lib"
  by (simp_all add: plab_machine_reconciler_def)

abbreviation publish_run where
  "publish_run \<equiv> publishControlPlaneEndpoints (lab_machine_reconciler working_agent) (plab_hm ''cp-0'' []) (plab_machine ''cp-0'' ''v2'')
     (port_mutation (plab_hm ''cp-0'' [])) (plab_state ())"

lemma lab_control_plane [simp]: "isControlPlaneMachine plab_lib (plab_machine name v)"
  by (simp add: isControlPlaneMachine_def plab_machine_def plab_labels_def plab_lib_def text_lib_def kube_lib.defs)

lemma publish_run_ok: "isl (fst publish_run) = False"
  by (simp add: publishControlPlaneEndpoints_def Let_def split: option.split)

theorem endpoints_published_witness:
  "\<exists>hm' t. publish_run = (Inr hm', t) \<and>
     (\<forall>mu' u. publishControlPlaneEndpoints (lab_machine_reconciler working_agent) hm' (plab_machine ''cp-0'' ''v2'') mu' u = (Inr hm', u))"
proof -
  obtain hm' t where run: "publish_run = (Inr hm', t)" using publish_run_ok by (cases publish_run; cases "fst publish_run") auto
  have "isControlPlaneMachine (R_Lib (lab_machine_reconciler working_agent)) (plab_machine ''cp-0'' ''v2'')" by code_simp
  from endpoints_published [OF run this] run show ?thesis by blast
qed

lemma lift_Inr: "liftG (Inr x) = returnG x"
  by (simp add: liftG_def returnG_def)

lemma wrap_return [simp]: "wrapG p (returnG x) = returnG x"
  by (rule ext) (simp add: run_wrap)

lemma lab_update_status:
  "map_of (PL_HMs s) (meta_key (HM_Meta h)) = Some x \<Longrightarrow> K_UpdateHypervisorMachineStatus plab_api h s =
     (Inr (x\<lparr>HM_Status := HM_Status h\<rparr>), s\<lparr>PL_HMs := AList.update (meta_key (HM_Meta h)) (x\<lparr>HM_Status := HM_Status h\<rparr>) (PL_HMs s), PL_Log := WUpdateHMStatus h # PL_Log s\<rparr>)"
  by (simp add: plab_api_def pl_write_def pl_change_def)

lemma lab_update_machine:
  "map_of (PL_HMs s) (meta_key (HM_Meta h)) = Some x \<Longrightarrow> K_UpdateHypervisorMachine plab_api h s =
     (Inr (h\<lparr>HM_Status := HM_Status x\<rparr>), s\<lparr>PL_HMs := AList.update (meta_key (HM_Meta h)) (h\<lparr>HM_Status := HM_Status x\<rparr>) (PL_HMs s), PL_Log := WUpdateHM h # PL_Log s\<rparr>)"
  by (simp add: plab_api_def pl_write_def pl_change_def)

lemma lab_net_config: "\<exists>c. VhostUserNetConfig (VhostUserSocketPath ''cp-0'') ''c6:e5:50:1c:ec:01'' = Inr c"
proof -
  have "isl (VhostUserNetConfig (VhostUserSocketPath ''cp-0'') ''c6:e5:50:1c:ec:01'') = False" by code_simp
  then show ?thesis by (cases "VhostUserNetConfig (VhostUserSocketPath ''cp-0'') ''c6:e5:50:1c:ec:01''") auto
qed

section \<open>A worker that is provisioned\<close>

abbreviation provision_run where
  "provision_run a \<equiv> provision_machine (lab_machine_reconciler a) (plab_hm ''cp-0'' []) (lab_machine ''v2'') (lab_hc [''v1'', ''v2'']) (plab_state ())"

lemma lab_worker: "\<not> isControlPlaneMachine plab_lib (lab_machine v)" "config_ref plab_lib (lab_machine v) = None"
  by (simp_all add: isControlPlaneMachine_def config_ref_def Let_def lab_machine_def blank_meta_def blank_ref_def plab_lib_def text_lib_def kube_lib.defs)

lemma lab_machine_version [simp]: "MC_Version (lab_machine v) = v"
  by (simp add: lab_machine_def)

definition lab_recorded :: hypervisor_machine where
  "lab_recorded = with_status (\<lambda>st. st\<lparr>HMS_Version := ''v2'', HMS_Image := ''/img'', HMS_Addresses :=
     [\<lparr>Addr_Type = ''InternalIP'', Addr_Address = ''10.0.0.2''\<rparr>, \<lparr>Addr_Type = ''Hostname'', Addr_Address = ''m''\<rparr>]\<rparr>) (plab_hm ''cp-0'' [])"

lemma lab_agents_differ: "broken_agent \<noteq> (working_agent :: unit plab host_agent)"
proof
  assume "broken_agent = (working_agent :: unit plab host_agent)"
  then have "HA_EnsureVM broken_agent m d (plab_state ()) = HA_EnsureVM (working_agent :: unit plab host_agent) m d (plab_state ())" for m d by simp
  then show False by (simp add: failG_def)
qed

text \<open>A reconciler on the lab with one of its agents; the reads of its API server may differ.\<close>

definition lab_like :: "unit plab host_agent \<Rightarrow> (unit plab, unit, unit) machine_reconciler \<Rightarrow> bool" where
  "lab_like a r \<longleftrightarrow> (a = working_agent \<or> a = broken_agent) \<and> R_Agent r = Some a \<and> R_Lib r = plab_lib \<and>
     K_UpdateHypervisorMachineStatus (R_Kube r) = K_UpdateHypervisorMachineStatus plab_api \<and>
     K_UpdateHypervisorMachine (R_Kube r) = K_UpdateHypervisorMachine plab_api"

definition lab_stores :: "unit plab \<Rightarrow> bool" where
  "lab_stores t \<longleftrightarrow> (\<exists>x. map_of (PL_HMs t) (''default'', ''cp-0'') = Some x) \<and> PL_Log t \<noteq> []"

lemma lab_identity:
  assumes "lab_like a r" and "MC_Meta m = blank_meta ''m''"
  shows "\<exists>t. reconcileIdentity r (with_status (\<lambda>st. st\<lparr>HMS_Version := ''v2'', HMS_Image := ''/img''\<rparr>) (plab_hm ''cp-0'' [])) m hc mac (plab_state ()) =
      (Inr lab_recorded, t) \<and> lab_stores t"
proof -
  let ?hm = "with_status (\<lambda>st. st\<lparr>HMS_Version := ''v2'', HMS_Image := ''/img''\<rparr>) (plab_hm ''cp-0'' [])"
  let ?old = "plab_hm ''cp-0'' [\<lparr>MPP_VMPort = controlPlaneEtcdClientPort, MPP_HostPort = 30000\<rparr>]"
  have "\<not> isControlPlaneMachine plab_lib m" using assms(2) by (simp add: isControlPlaneMachine_def blank_meta_def)
  with assms(1) have "reconcileIdentity r ?hm m hc mac = recordAddresses r ?hm m ''10.0.0.2''"
    by (auto simp: lab_like_def reconcileIdentity_def agent_identity_def Let_def publishControlPlaneEndpoints_def)
  moreover have "recordAddresses r ?hm m ''10.0.0.2'' = wrapG ''update HypervisorMachine status'' (K_UpdateHypervisorMachineStatus plab_api lab_recorded)"
    using assms by (simp add: lab_like_def recordAddresses_def lab_recorded_def with_status_def blank_meta_def plab_lib_def text_lib_def kube_lib.defs provider_lib.defs)
  moreover have "HM_Meta lab_recorded = blank_meta ''cp-0''" "meta_key (blank_meta ''cp-0'') = (''default'', ''cp-0'')"
    "(plab_hm ''cp-0'' ps)\<lparr>HM_Status := HM_Status lab_recorded\<rparr> = lab_recorded" for ps
    by (simp_all add: lab_recorded_def with_status_def plab_hm_def blank_meta_def)
  moreover have "map_of (PL_HMs (plab_state ())) (''default'', ''cp-0'') = Some ?old" by (simp add: plab_state_def)
  ultimately show ?thesis
    using lab_update_status [of "plab_state ()" lab_recorded ?old] by (simp add: run_wrap update_conv lab_stores_def)
qed

lemma lab_recorded_ip: "internalIPAddress plab_lib (HMS_Addresses (HM_Status lab_recorded)) = ''10.0.0.2''"
  by code_simp

abbreviation lab_disk :: artifact_result where
  "lab_disk \<equiv> \<lparr>Art_Paths = [''/disks/cp-0-root.qcow2''], Art_SHA256s = [''aa'']\<rparr>"

lemma lab_agent_vm:
  assumes "lab_like a r" and "lab_stores t"
  shows "\<exists>res u. reconcileVMLifecycle r lab_recorded m ''c6:e5:50:1c:ec:01'' lab_disk t = (res, u) \<and> PL_Log u \<noteq> [] \<and> (if a = working_agent then res = Inr () else isl res)"
proof -
  obtain c where net: "VhostUserNetConfig (VhostUserSocketPath ''cp-0'') ''c6:e5:50:1c:ec:01'' = Inr c" using lab_net_config by blast
  obtain x where x: "map_of (PL_HMs t) (''default'', ''cp-0'') = Some x" "PL_Log t \<noteq> []" using assms(2) by (auto simp: lab_stores_def)
  have meta: "HM_Meta lab_recorded = blank_meta ''cp-0''" "HM_ProviderID (HM_Spec lab_recorded) = None" "M_Name (blank_meta ''cp-0'') = ''cp-0''"
    by (simp_all add: lab_recorded_def with_status_def plab_hm_def plab_spec_def blank_meta_def)
  from assms(1) consider "a = working_agent" | "a = broken_agent" "a \<noteq> working_agent" by (auto simp: lab_like_def)
  then show ?thesis
  proof cases
    case 1
    with assms(1) x net meta show ?thesis
      by (simp add: lab_like_def reconcileVMLifecycle_def agent_vm_def Let_def lift_Inr lab_recorded_ip run_bind ensureSpecProviderID_def run_wrap
          lab_update_machine lab_update_status machine_ready_def markVMProvisioned_def with_status_def blank_meta_def update_conv)
  next
    case 2
    with assms(1) x net meta show ?thesis
      by (simp add: lab_like_def reconcileVMLifecycle_def agent_vm_def Let_def lift_Inr lab_recorded_ip run_bind run_wrap failG_def)
  qed
qed

lemma lab_provision:
  assumes "lab_like a r" and "MC_Meta m = blank_meta ''m''" and "MC_Version m = ''v2''"
    and "\<And>s. reconcileConfextDataDisk r lab_recorded m s = (Inr zero_artifact_result, s)"
    and "\<And>s. reconcileCIDATA r lab_recorded m s = (Inr zero_artifact_result, s)"
  shows "\<exists>res u. provision_machine r (plab_hm ''cp-0'' []) m (lab_hc [''v1'', ''v2'']) (plab_state ()) = (res, u) \<and> PL_Log u \<noteq> [] \<and>
    (if a = working_agent then res = Inr settled else isl res)"
proof -
  obtain t where t: "reconcileIdentity r (with_status (\<lambda>st. st\<lparr>HMS_Version := ''v2'', HMS_Image := ''/img''\<rparr>) (plab_hm ''cp-0'' []))
      m (lab_hc [''v1'', ''v2'']) ''c6:e5:50:1c:ec:01'' (plab_state ()) = (Inr lab_recorded, t)" "lab_stores t" using lab_identity [OF assms(1,2)] by blast
  obtain res u where vm: "reconcileVMLifecycle r lab_recorded m ''c6:e5:50:1c:ec:01'' lab_disk t = (res, u)" "PL_Log u \<noteq> []" "if a = working_agent then res = Inr () else isl res"
    using lab_agent_vm [OF assms(1) t(2)] by blast
  have "resolveBaseImage r (lab_hc [''v1'', ''v2'']) m = Inr ''/img''" using assms(3) by (simp add: resolveBaseImage_def lab_hc_def)
  moreover have "reconcileRootDisk r hm1 base prev s = (Inr lab_disk, s)" for hm1 base prev s
    using assms(1) by (auto simp: lab_like_def reconcileRootDisk_def)
  moreover have "effectiveMAC r (with_status f (plab_hm ''cp-0'' [])) m = ''c6:e5:50:1c:ec:01''" for f
    by (simp add: effectiveMAC_def with_status_def plab_hm_def plab_spec_def)
  moreover have "join_artifacts lab_disk zero_artifact_result zero_artifact_result = lab_disk" by (simp add: join_artifacts_def zero_artifact_result_def)
  ultimately have "provision_machine r (plab_hm ''cp-0'' []) m (lab_hc [''v1'', ''v2'']) (plab_state ()) =
      (case res of Inl e \<Rightarrow> (Inl e, u) | Inr _ \<Rightarrow> (Inr settled, u))"
    using t vm(1) assms(3,4,5) by (simp add: provision_machine_def Let_def run_bind split: sum.split)
  with vm(2,3) show ?thesis by (cases res) (auto split: if_splits)
qed

lemma lab_worker_provision:
  assumes "a = working_agent \<or> a = broken_agent"
  shows "\<exists>res u. provision_run a = (res, u) \<and> PL_Log u \<noteq> [] \<and> (if a = working_agent then res = Inr settled else isl res)"
proof (rule lab_provision)
  show "lab_like a (lab_machine_reconciler a)" using assms by (simp add: lab_like_def)
  show "MC_Meta (lab_machine ''v2'') = blank_meta ''m''" "MC_Version (lab_machine ''v2'') = ''v2''" by (simp_all add: lab_machine_def)
qed (simp_all add: reconcileConfextDataDisk_def reconcileCIDATA_def bootstrapDataSecretName_def lab_worker)

theorem provisioned_means_running_witness:
  "\<exists>res t d obs s3 s4 hm1. provision_run working_agent = (Inr res, t) \<and>
     HA_EnsureVM (working_agent :: unit plab host_agent) (vm_mutation hm1) d s3 = (Inr obs, s4) \<and> Des_CPUs d = HM_CPU (HM_Spec hm1)"
proof -
  obtain res t where run: "provision_run working_agent = (Inr res, t)" using lab_worker_provision [of working_agent] by auto
  have "R_Agent (lab_machine_reconciler working_agent) = Some working_agent" by simp
  from provisioned_means_running [OF this run] run show ?thesis by blast
qed

theorem ready_only_with_vm_witness:
  "(\<exists>e. fst (provision_run broken_agent) = Inl e) \<and> PL_Log (snd (provision_run broken_agent)) \<noteq> [] \<and>
   list_all (status_with_readiness_of (plab_hm ''cp-0'' [])) (PL_Log (snd (provision_run broken_agent)))"
proof -
  obtain e u where "provision_run broken_agent = (Inl e, u)" "PL_Log u \<noteq> []"
    using lab_worker_provision [of broken_agent] lab_agents_differ by (auto simp: isl_def)
  then have "\<exists>e. fst (provision_run broken_agent) = Inl e" "PL_Log (snd (provision_run broken_agent)) \<noteq> []" by simp_all
  moreover have "\<forall>mu d (s :: unit plab). \<exists>e t. HA_EnsureVM broken_agent mu d s = (Inl e, t)" by (simp add: failG_def)
  moreover have "PL_Log (plab_state ()) = []" by (simp add: plab_state_def)
  ultimately show ?thesis
    using ready_only_with_vm [OF plab_machine_logged [OF lab_agents_quiet(2)], of broken_agent "plab_hm ''cp-0'' []" "lab_machine ''v2''"
        "lab_hc [''v1'', ''v2'']" "plab_state ()" "fst (provision_run broken_agent)" "snd (provision_run broken_agent)"] by simp
qed

abbreviation delete_run where
  "delete_run a \<equiv> Machine_reconcileDelete (lab_machine_reconciler a) (plab_hm ''cp-0'' []) (plab_state ())"

theorem finalizer_outlives_vm_witness:
  "PL_Log (snd (delete_run broken_agent)) = [] \<and> (\<exists>e. fst (delete_run broken_agent) = Inl e)"
proof -
  have "\<forall>u :: unit plab. \<exists>e v. HA_DeleteVM broken_agent (delete_mutation (plab_hm ''cp-0'' [])) u = (Inl e, v) \<and> \<not> IsNotFound e"
    by (simp add: broken_agent_def failG_def plain_err_def IsNotFound_def errors_Is_def)
  moreover have "PL_Log (plab_state ()) = []" by (simp add: plab_state_def)
  ultimately show ?thesis
    using finalizer_outlives_vm [OF plab_machine_logged [OF lab_agents_quiet(2)], of broken_agent "plab_hm ''cp-0'' []" "plab_state ()"
        "fst (delete_run broken_agent)" "snd (delete_run broken_agent)"] by simp
qed

section \<open>A control plane counts its machines\<close>

abbreviation counter_run where
  "counter_run \<equiv> updateScaleStatus (plab_cp_reconciler Fake []) (plab_cp ''v2'') (lab_cluster ''v2'') (plab_state ())"

theorem replica_counters_bounded_witness:
  "\<exists>cp' t sent v. counter_run = (Inr cp', t) \<and>
     K_UpdateControlPlaneStatus plab_api sent v = (Inr cp', t) \<and> sint (CPS_Replicas (CP_Status sent)) = 1"
proof -
  let ?r = "plab_cp_reconciler Fake [] :: (unit plab, unit) cp_reconciler"
  have "isl (fst counter_run) = False" by code_simp
  then obtain cp' t where run: "counter_run = (Inr cp', t)" by (cases counter_run; cases "fst counter_run") auto
  have "fst (CP_controlPlaneMachines ?r (plab_cp ''v2'') (lab_cluster ''v2'') (plab_state ())) = Inr [plab_machine ''cp-0'' ''v1'']" 
    by (simp add: CP_controlPlaneMachines_def run_wrap plab_cp_reconciler_def plab_api_def pl_list_def plab_state_def pl_selects_def
        control_plane_selector_def plab_cp_def plab_lib_def text_lib_def kube_lib.defs blank_meta_def plab_machine_def plab_labels_def lab_cluster_def)
  then obtain u where "CP_controlPlaneMachines ?r (plab_cp ''v2'') (lab_cluster ''v2'') (plab_state ()) = (Inr [plab_machine ''cp-0'' ''v1''], u)"
    by (metis prod.collapse)
  from replica_counters_bounded [OF run this] run show ?thesis by (auto simp: plab_cp_reconciler_def)
qed


section \<open>A cluster whose network cannot be made\<close>

definition netless_agent :: "'s host_agent" where
  "netless_agent = Fake\<lparr>HA_EnsureNetwork := (\<lambda>m q. failG (plain_err ''no bridge'')), HA_DeleteNetwork := (\<lambda>m. failG (plain_err ''busy''))\<rparr>"

abbreviation netless :: "(unit plab, unit) cp_reconciler" where
  "netless \<equiv> plab_cp_reconciler netless_agent []"

definition finalized_hc :: hypervisor_cluster where
  "finalized_hc = hc_with_finalizers [hypervisorClusterFinalizer] (lab_hc [])"

theorem network_guards_cluster_witness:
  "(\<exists>e t. reconcileNormal netless finalized_hc (lab_cluster ''v2'') (plab_state ()) = (Inl e, t) \<and> PL_Log t = []) \<and>
   (\<exists>e t. Cluster_reconcileDelete netless finalized_hc (plab_state ()) = (Inl e, t) \<and> PL_Log t = [])"
proof -
  have calls: "create_network_call netless hc = failG (plain_err ''no bridge'')" "delete_network_call netless hc = failG (plain_err ''busy'')" for hc
    by (simp_all add: create_network_call_def delete_network_call_def plab_cp_reconciler_def netless_agent_def Let_def)
  have "cluster_logged PL_Log netless"
    using plab_logged by (simp add: cluster_logged_def calls silent_def) (simp add: plab_cp_reconciler_def steps_def failG_def)
  moreover have "\<not> isInfrastructureReady (R_Lib netless) finalized_hc"
    by (simp add: isInfrastructureReady_def plab_cp_reconciler_def finalized_hc_def hc_with_finalizers_def lab_hc_def plab_lib_def provider_lib.defs kube_lib.defs)
  moreover have "Lib_ContainsFinalizer (R_Lib netless) (M_Finalizers (HC_Meta finalized_hc)) hypervisorClusterFinalizer"
    by (simp add: plab_cp_reconciler_def finalized_hc_def hc_with_finalizers_def plab_lib_def text_lib_def kube_lib.defs)
  moreover have "never_ok f (create_network_call netless finalized_hc)" "never_ok f (delete_network_call netless finalized_hc)" 
    if "\<And>t. \<not> f (plain_err t)" for f using that by (simp_all add: calls never_ok_def failG_def)
  moreover have "\<not> errors_Is (plain_err t) NetAlreadyExists" "\<not> (errors_Is (plain_err t) NetNotFound \<or> IsNotFound (plain_err t))" for t
    by (simp_all add: plain_err_def errors_Is_def IsNotFound_def)
  ultimately show ?thesis using network_guards_cluster [of PL_Log netless finalized_hc "lab_cluster ''v2''" "plab_state ()"]
    by (simp add: plab_state_def)
qed


section \<open>A config that is rendered\<close>

text \<open>A read of a Secret answers under the name it was asked for.\<close>

definition keyed_api :: "'w plab provider_kube" where
  "keyed_api = plab_api\<lparr>K_GetSecret := (\<lambda>key s. case pl_get PL_Secrets key s of
     (Inl e, t) \<Rightarrow> (Inl e, t)
   | (Inr x, t) \<Rightarrow> if meta_key (Sec_Meta x) = key then (Inr x, t) else (Inl api_not_found, t))\<rparr>"

lemma keyed_calls:
  "K_GetSecret keyed_api key s = (case map_of (PL_Secrets s) key of None \<Rightarrow> (Inl api_not_found, s)
     | Some x \<Rightarrow> if meta_key (Sec_Meta x) = key then (Inr x, s) else (Inl api_not_found, s))"
  "K_CreateSecret keyed_api x s = (case map_of (PL_Secrets s) (meta_key (Sec_Meta x)) of
     None \<Rightarrow> (Inr (), s\<lparr>PL_Secrets := AList.update (meta_key (Sec_Meta x)) x (PL_Secrets s), PL_Log := WCreateSecret x # PL_Log s\<rparr>)
   | Some _ \<Rightarrow> (Inl api_exists, s))"
  "K_UpdateSecret keyed_api x s = (case map_of (PL_Secrets s) (meta_key (Sec_Meta x)) of
     None \<Rightarrow> (Inl api_not_found, s)
   | Some _ \<Rightarrow> (Inr (), s\<lparr>PL_Secrets := AList.update (meta_key (Sec_Meta x)) x (PL_Secrets s), PL_Log := WUpdateSecret x # PL_Log s\<rparr>))"
  "K_UpdateConfigStatus keyed_api c s = (case map_of (PL_Configs s) (meta_key (Cfg_Meta c)) of
     None \<Rightarrow> (Inl api_not_found, s)
   | Some d \<Rightarrow> (Inr (d\<lparr>Cfg_Status := Cfg_Status c\<rparr>), s\<lparr>PL_Configs := AList.update (meta_key (Cfg_Meta c)) (d\<lparr>Cfg_Status := Cfg_Status c\<rparr>) (PL_Configs s),
       PL_Log := WUpdateConfigStatus c # PL_Log s\<rparr>))"
  "K_GetConfig keyed_api key s = (case map_of (PL_Configs s) key of None \<Rightarrow> (Inl api_not_found, s) | Some d \<Rightarrow> (Inr d, s))"
  by (simp_all add: keyed_api_def plab_api_def pl_get_def pl_write_def pl_create_def pl_change_def ignoringG_def run_bind split: option.split)

lemma keyed_read_after_write: "read_after_write keyed_api"
  unfolding read_after_write_def keyed_calls
  by (intro conjI allI impI; clarsimp simp: update_conv split: option.splits if_splits; blast?)

definition lab_config_reconciler :: "'w plab provider_kube \<Rightarrow> 'w plab config_reconciler" where
  "lab_config_reconciler k = \<lparr>R_Lib = plab_lib, R_Kube = k, FR_BuildTree = buildConfextTree,
     FR_GenerateClusterPKI = (\<lambda>ip name. returnG plab_pki), FR_GenerateKubeletCert = (\<lambda>pk name. returnG ([11], [12])),
     FR_RenderKubeconfig = (\<lambda>ca url user cert key. Inr (string_bytes user))\<rparr>"

definition lab_config :: hypervisor_config where
  "lab_config = \<lparr>Cfg_Meta = blank_meta ''cp-0-config'',
     Cfg_Spec = \<lparr>Cfg_ClusterName = ''lab'', Cfg_Role = [], Cfg_NodeName = [], Cfg_SSHPublicKey = [], Cfg_EtcdSnapshotHostPath = []\<rparr>,
     Cfg_Status = \<lparr>CfgS_Ready = False, CfgS_DataSecretName = None, CfgS_Initialization = None, CfgS_FailureReason = [], CfgS_FailureMessage = [],
       CfgS_Conditions = []\<rparr>\<rparr>"

definition config_state :: "unit plab" where
  "config_state = (plab_state ())\<lparr>PL_Configs := [((''default'', ''cp-0-config''), lab_config)], PL_HMs := [((''default'', ''cp-0''), lab_recorded)]\<rparr>"

abbreviation render_run where
  "render_run \<equiv> render_config (lab_config_reconciler keyed_api) lab_config (plab_machine ''cp-0'' ''v2'') (lab_cluster ''v2'') config_state"

lemma lab_role: "node_role plab_lib lab_config (plab_machine ''cp-0'' ''v2'') = configRoleControlPlane" "node_name lab_config (plab_machine ''cp-0'' ''v2'') = ''cp-0''"
  by code_simp+

lemma lab_address:
  "controlPlaneAddress (lab_config_reconciler keyed_api) configRoleControlPlane (plab_machine ''cp-0'' ''v2'') c config_state =
     (Inr (''10.0.0.2'', defaultControlPlanePort), config_state)"
proof -
  have "some_internal_ip plab_lib (HMS_Addresses (HM_Status lab_recorded)) = Some ''10.0.0.2''" by code_simp
  then show ?thesis
    by (simp add: controlPlaneAddress_def machineInternalIP_def Let_def plab_machine_def lab_config_reconciler_def keyed_api_def plab_api_def pl_get_def
        run_bind run_optional config_state_def blank_meta_def)
qed

lemma lab_pki_stage:
  "Config_clusterPKI (lab_config_reconciler keyed_api) lab_config ip name config_state = (Inr (plab_pki, True), config_state)"
  by (simp add: Config_clusterPKI_def Let_def lab_config_reconciler_def keyed_api_def plab_api_def pl_get_def run_bind run_optional run_wrap
      config_state_def plab_state_def IsNotFound_api_def api_not_found_def sentinel_err_def errors_Is_def)


lemma lab_renders:
  "\<exists>res t. render_run = (Inr res, t) \<and> (\<forall>d. map_of (PL_Configs t) (''default'', ''cp-0-config'') = Some d \<longrightarrow> Cfg_EtcdSnapshotHostPath (Cfg_Spec d) = [])"
proof -
  let ?r = "lab_config_reconciler keyed_api :: unit plab config_reconciler"
  let ?kcs = "renderKubeconfigs ?r configRoleControlPlane (''https://'' @ ''10.0.0.2'' @ '':'' @ show_int (sint defaultControlPlanePort)) ''cp-0'' plab_pki [11] [12]"
  obtain kcs where kcs: "?kcs = Inr kcs"
    by (simp add: renderKubeconfigs_def render_one_def lab_config_reconciler_def)
  obtain tree where tree: "buildConfextTree ''lab'' configRoleControlPlane ''10.0.0.2'' ''cp-0'' plab_pki [11] [12] kcs (string_bytes encryptionConfig) = Inr tree"
    by (simp add: buildConfextTree_def BuildControlPlane_def)
  have fields: "R_Lib ?r = plab_lib" "R_Kube ?r = keyed_api" "FR_GenerateKubeletCert ?r pk name = returnG ([11], [12])" "FR_BuildTree ?r = buildConfextTree" for pk name
    by (simp_all add: lab_config_reconciler_def)
  have store: "\<exists>res t. store_bootstrap_data ?r lab_config plab_pki True tree config_state = (Inr res, t) \<and>
      (\<forall>d. map_of (PL_Configs t) (''default'', ''cp-0-config'') = Some d \<longrightarrow> Cfg_EtcdSnapshotHostPath (Cfg_Spec d) = [])"
    by (simp add: store_bootstrap_data_def Let_def stepG_def catchG_def persistPKISecret_def persistDataSecret_def config_pki_key_def fields keyed_calls
        run_wrap run_bind run_optional config_state_def plab_state_def lab_config_def blank_meta_def new_meta_def update_conv
        IsNotFound_api_def api_not_found_def sentinel_err_def errors_Is_def rendered_status_def markDataSecretAvailable_def)
  have "MC_ClusterName (plab_machine ''cp-0'' ''v2'') = ''lab''" by (simp add: plab_machine_def)
  with store kcs tree show ?thesis
    by (simp add: render_config_def Let_def fields lab_role catchG_def lab_address stepG_def lab_pki_stage lift_Inr)
qed

theorem bootstrap_data_reaches_agent_witness:
  "\<exists>res t tree. render_run = (Inr res, t) \<and> reconcileConfextDataDisk ((lab_machine_reconciler working_agent)\<lparr>R_Kube := keyed_api\<rparr>) (plab_hm ''cp-0'' [])
     (plab_machine ''cp-0'' ''v2'') t = wrapG (''agent prepare confext for '' @ Quote ''cp-0'')
       (HA_PrepareConfext working_agent (artifact_mutation (plab_hm ''cp-0'' []) ''confext'') ''cp-0'' (tree_files (sort_key fst tree))) t"
proof -
  let ?r = "lab_config_reconciler keyed_api :: unit plab config_reconciler" and ?mr = "(lab_machine_reconciler working_agent)\<lparr>R_Kube := keyed_api\<rparr>" and ?m = "plab_machine ''cp-0'' ''v2''"
  obtain res t where run: "render_run = (Inr res, t)"
    and spec: "\<forall>d. map_of (PL_Configs t) (''default'', ''cp-0-config'') = Some d \<longrightarrow> Cfg_EtcdSnapshotHostPath (Cfg_Spec d) = []" using lab_renders by blast
  have fields: "R_Lib ?r = plab_lib" "R_Kube ?r = keyed_api" "FR_BuildTree ?r = buildConfextTree" by (simp_all add: lab_config_reconciler_def)
  have machine: "R_Kube ?mr = R_Kube ?r" "R_Agent ?mr = Some working_agent" "config_ref (R_Lib ?mr) ?m = Some (meta_key (Cfg_Meta lab_config))"
    by (simp_all add: fields plab_machine_reconciler_def config_ref_def plab_machine_def blank_meta_def lab_config_def plab_lib_def text_lib_def kube_lib.defs)
  have name: "ascii (node_name lab_config ?m)" by (simp add: lab_role ascii_def)
  have address: "controlPlaneAddress ?r (node_role (R_Lib ?r) lab_config ?m) ?m (lab_cluster ''v2'') config_state =
     (Inr (''10.0.0.2'', defaultControlPlanePort), config_state)" by (simp add: fields lab_role lab_address)
  have raw: "read_after_write (R_Kube ?r)" by (simp add: fields keyed_read_after_write)
  have path: "Cfg_EtcdSnapshotHostPath (Cfg_Spec d) = []" if "K_GetConfig (R_Kube ?r) (meta_key (Cfg_Meta lab_config)) t = (Inr d, t)" for d
    using that spec by (simp add: fields keyed_calls lab_config_def blank_meta_def split: option.splits)
  have "M_Name (MC_Meta ?m) = ''cp-0''" by (simp add: plab_machine_def blank_meta_def)
  with bootstrap_data_reaches_agent [OF raw fields(3) name run address machine path, of "plab_hm ''cp-0'' []"] run show ?thesis by auto
qed


section \<open>Configs that are not rendered\<close>

definition secretless_api :: "'w plab provider_kube" where
  "secretless_api = plab_api\<lparr>K_CreateSecret := (\<lambda>x. failG (plain_err ''forbidden'')), K_UpdateSecret := (\<lambda>x. failG (plain_err ''forbidden''))\<rparr>"

lemma secretless_logged: "api_logged PL_Log (secretless_api :: 'w plab provider_kube)"
proof -
  have "logs_as PL_Log w (performs (secretless_api :: 'w plab provider_kube) w)" for w
  proof -
    have "logs_as PL_Log w (performs (plab_api :: 'w plab provider_kube) w)" using plab_logged unfolding api_logged_def by blast
    then show ?thesis by (cases w) (simp_all add: secretless_api_def, simp_all add: logs_as_def steps_def failG_def)
  qed
  moreover have "api_logged PL_Log (plab_api :: 'w plab provider_kube)" by (rule plab_logged)
  ultimately show ?thesis unfolding api_logged_def by (simp add: secretless_api_def)
qed

definition owned_state :: "unit plab" where
  "owned_state = config_state\<lparr>PL_Configs := [((''default'', ''cp-0-config''), lab_config\<lparr>Cfg_Meta := (blank_meta ''cp-0-config'')
     \<lparr>M_OwnerReferences := [\<lparr>OR_APIVersion = ''cluster.x-k8s.io/v1beta2'', OR_Kind = ''Machine'', OR_Name = ''cp-0''\<rparr>]\<rparr>\<rparr>)]\<rparr>"

theorem config_ready_only_with_secret_witness:
  "list_all announces_nothing (PL_Log (snd (Config_Reconcile (lab_config_reconciler secretless_api) (''default'', ''cp-0-config'') owned_state)))"
proof -
  let ?r = "lab_config_reconciler secretless_api :: unit plab config_reconciler" and ?key = "(''default'', ''cp-0-config'')"
  have "config_logged PL_Log ?r" using secretless_logged by (simp add: config_logged_def lab_config_reconciler_def silent_def steps_def)
  moreover have "\<forall>x s. \<exists>e t. K_CreateSecret (R_Kube ?r) x s = (Inl e, t)" "\<forall>x s. \<exists>e t. K_UpdateSecret (R_Kube ?r) x s = (Inl e, t)"
    by (simp_all add: lab_config_reconciler_def secretless_api_def failG_def)
  moreover have "PL_Log owned_state = []" by (simp add: owned_state_def config_state_def plab_state_def)
  ultimately show ?thesis
    using config_ready_only_with_secret [of PL_Log ?r ?key owned_state "fst (Config_Reconcile ?r ?key owned_state)" "snd (Config_Reconcile ?r ?key owned_state)"]
    by simp
qed

definition listless_api :: "'w plab provider_kube" where
  "listless_api = plab_api\<lparr>K_ListMachines := (\<lambda>n l. failG (plain_err ''connection refused''))\<rparr>"

theorem address_failure_settles_witness:
  "\<exists>t. render_config (lab_config_reconciler listless_api) lab_config (lab_machine ''v2'') (lab_cluster ''v2'') config_state = (Inr settled, t)"
proof -
  let ?r = "lab_config_reconciler listless_api :: unit plab config_reconciler"
  have "node_role (R_Lib ?r) lab_config (lab_machine ''v2'') = configRoleWorker"
    using lab_worker by (simp add: node_role_def lab_config_def lab_config_reconciler_def)
  moreover have "K_ListMachines (R_Kube ?r) n l config_state = (Inl (plain_err ''connection refused''), config_state)" for n l
    by (simp add: lab_config_reconciler_def listless_api_def failG_def)
  moreover have "\<forall>c'. Cfg_Meta c' = Cfg_Meta lab_config \<longrightarrow> (\<exists>c'' t. K_UpdateConfigStatus (R_Kube ?r) c' config_state = (Inr c'', t))"
    by (simp add: lab_config_reconciler_def listless_api_def plab_api_def pl_write_def pl_change_def config_state_def lab_config_def blank_meta_def)
  ultimately show ?thesis using address_failure_settles [of ?r lab_config "lab_machine ''v2''" "lab_cluster ''v2''" config_state] by blast
qed


section \<open>A machine that boots before its data\<close>

definition waiting_machine :: machine where
  "waiting_machine = (lab_machine ''v2'')\<lparr>MC_BootstrapRef := \<lparr>Ref_APIGroup = bootstrapGroup, Ref_Kind = ''HypervisorConfig'', Ref_Name = ''m-config''\<rparr>\<rparr>"

definition waiting_config :: hypervisor_config where
  "waiting_config = lab_config\<lparr>Cfg_Meta := blank_meta ''m-config'', Cfg_Spec := (Cfg_Spec lab_config)\<lparr>Cfg_SSHPublicKey := ''ssh-ed25519 AAAA''\<rparr>\<rparr>"

text \<open>An API server on which the config of the machine stays as it is.\<close>

definition waiting_api :: "unit plab provider_kube" where
  "waiting_api = plab_api\<lparr>K_GetConfig := (\<lambda>key s. (Inr waiting_config, s))\<rparr>"

abbreviation waiting_reconciler where
  "waiting_reconciler \<equiv> (lab_machine_reconciler working_agent)\<lparr>R_Kube := waiting_api\<rparr>"

abbreviation waiting_run where
  "waiting_run \<equiv> provision_machine waiting_reconciler (plab_hm ''cp-0'' []) waiting_machine (lab_hc [''v1'', ''v2'']) (plab_state ())"

lemma waiting_simps:
  "config_ref plab_lib waiting_machine = Some (''default'', ''m-config'')" "MC_Meta waiting_machine = blank_meta ''m''" "MC_Version waiting_machine = ''v2''"
  "bootstrap_config waiting_reconciler key s = (Inr (Some waiting_config), s)" "CfgS_DataSecretName (Cfg_Status waiting_config) = None"
  "Cfg_SSHPublicKey (Cfg_Spec waiting_config) = ''ssh-ed25519 AAAA''"
  by (simp_all add: config_ref_def Let_def waiting_machine_def lab_machine_def blank_meta_def plab_lib_def text_lib_def kube_lib.defs
      bootstrap_config_def run_optional waiting_api_def waiting_config_def lab_config_def)

lemma waiting_run_ok: "\<exists>t. waiting_run = (Inr settled, t)"
proof -
  have "lab_like working_agent waiting_reconciler" by (simp add: lab_like_def waiting_api_def)
  moreover have "reconcileConfextDataDisk waiting_reconciler lab_recorded waiting_machine s = (Inr zero_artifact_result, s)" for s
    by (simp add: reconcileConfextDataDisk_def bootstrapDataSecretName_def waiting_simps run_bind Let_def)
  moreover have "reconcileCIDATA waiting_reconciler lab_recorded waiting_machine s = (Inr zero_artifact_result, s)" for s
  proof -
    obtain parts where "Render_cloudinit \<lparr>D_InstanceID = ''m'', D_Hostname = ''m'', D_SSHPublicKey = ''ssh-ed25519 AAAA''\<rparr> = Inr parts"
      by (simp add: Render_cloudinit_def)
    moreover have "MR_RenderCloudInit waiting_reconciler = Render_cloudinit" by (simp add: plab_machine_reconciler_def)
    moreover have "HA_PrepareCIDATA (working_agent :: unit plab host_agent) mu n fs = returnG zero_artifact_result" for mu n fs
      by (simp add: working_agent_def Fake_def)
    moreover have "M_Name (blank_meta ''m'') = ''m''" by (simp add: blank_meta_def)
    ultimately show ?thesis
      by (simp add: reconcileCIDATA_def waiting_simps Let_def run_bind resolveSSHPublicKey_def lift_Inr)
  qed
  ultimately show ?thesis using lab_provision [of working_agent waiting_reconciler waiting_machine] by (auto simp: waiting_simps)
qed

theorem agent_boots_without_data_witness:
  "\<exists>t hm1 d s3 obs s4. waiting_run = (Inr settled, t) \<and> bootstrapDataPending waiting_reconciler waiting_machine s3 = (Inr True, s3) \<and>
     HA_EnsureVM (working_agent :: unit plab host_agent) (vm_mutation hm1) d s3 = (Inr obs, s4)"
proof -
  obtain t where run: "waiting_run = (Inr settled, t)" using waiting_run_ok by blast
  have r: "R_Agent waiting_reconciler = Some working_agent" "config_ref (R_Lib waiting_reconciler) waiting_machine = Some (''default'', ''m-config'')"
    "\<forall>s. K_GetConfig (R_Kube waiting_reconciler) (''default'', ''m-config'') s = (Inr waiting_config, s)" "CfgS_DataSecretName (Cfg_Status waiting_config) = None"
    by (simp_all add: waiting_simps waiting_api_def)
  from agent_boots_without_data [OF r run] run show ?thesis by blast
qed


end
