(* ===== verification/Process.thy ===== *)
theory Process
  imports Host
begin

text \<open>
  The process manager of a VM (\<open>internal/ch/process.go\<close>). Its methods take and release the lock
  several times, so each is a sequence of sections that another caller may get in between: the state of a
  caller is the section it is about to run, and a step relation lets the callers, the goroutine that reaps
  the child and the operating system take turns.
\<close>

section \<open>State\<close>

text \<open>
  A child process, with the error \<open>Wait\<close> returns once it has exited, whether it was waited for, and
  the buffer its standard error goes to.
\<close>

record proc =
  Proc_Exit :: "goerr option option"
  Proc_Waited :: bool
  Proc_Buffer :: nat

record process_manager =
  PM_binaryPath :: string
  PM_socketDir :: string
  PM_cmd :: "nat option"
  PM_done :: "nat option"
  PM_pid :: nat
  PM_stderr :: nat
  PM_exitErr :: "goerr option"
  PM_started :: bool
  PM_stopped :: bool
  PM_socketDirCreated :: bool

record 'x pm_state =
  PS_m :: process_manager
  PS_host :: "'x host"
  PS_procs :: "nat \<rightharpoonup> proc"
  PS_buffers :: "nat \<Rightarrow> string"
  PS_closed :: "nat list"
  PS_next :: nat
  PS_panic :: bool

text \<open>\<open>PS_next\<close> is a number no process, channel or buffer has.\<close>

definition NewManager :: "string \<Rightarrow> string \<Rightarrow> process_manager" where
  "NewManager binaryPath socketDir = \<lparr>PM_binaryPath = binaryPath, PM_socketDir = socketDir, PM_cmd = None, PM_done = None, PM_pid = 0,
     PM_stderr = 0, PM_exitErr = None, PM_started = False, PM_stopped = False, PM_socketDirCreated = False\<rparr>"

definition socketPath :: "process_manager \<Rightarrow> string" where
  "socketPath m = (if PM_socketDir m = [] then [] else Join (PM_socketDir m) ''api.sock'')"

abbreviation on_m :: "(process_manager \<Rightarrow> process_manager) \<Rightarrow> 'x pm_state \<Rightarrow> 'x pm_state" where
  "on_m f s \<equiv> s\<lparr>PS_m := f (PS_m s)\<rparr>"

definition PID :: "'x pm_state \<Rightarrow> nat" where
  "PID s = PM_pid (PS_m s)"

section \<open>The parts of the methods\<close>

definition resolveBinary :: "(string \<Rightarrow> goerr + string) \<Rightarrow> process_manager \<Rightarrow> goerr + string" where
  "resolveBinary LookPath m =
     (if PM_binaryPath m \<noteq> [] then Inr (PM_binaryPath m)
      else case LookPath ''cloud-hypervisor'' of
        Inl e \<Rightarrow> Inl (wrap_err ''resolve cloud-hypervisor binary from PATH'' e)
      | Inr resolved \<Rightarrow> Inr resolved)"

definition ensureSocketDir :: "('x host, string) go \<Rightarrow> process_manager \<Rightarrow> ('x host, string) go" where
  "ensureSocketDir MkdirTemp m =
     (if PM_socketDir m \<noteq> []
      then bindG (wrapG (''create socket directory '' @ Quote (PM_socketDir m)) (os_MkdirAll (PM_socketDir m))) (\<lambda>_. returnG (PM_socketDir m))
      else wrapG ''create default socket directory'' MkdirTemp)"

definition processExitedError :: "'x pm_state \<Rightarrow> goerr" where
  "processExitedError s =
     (let stderr = TrimSpace (PS_buffers s (PM_stderr (PS_m s))) in
      plain_err (''cloud-hypervisor exited before becoming ready'' @
        (case PM_exitErr (PS_m s) of None \<Rightarrow> [] | Some e \<Rightarrow> '': '' @ err_text e) @
        (if stderr = [] then [] else '': '' @ stderr)))"

text \<open>A signal that ends a process; one that is gone ignores it.\<close>

definition Kill :: "nat \<Rightarrow> 'x pm_state \<Rightarrow> 'x pm_state" where
  "Kill pid s = s\<lparr>PS_procs := (case PS_procs s pid of
     Some p \<Rightarrow> (if Proc_Exit p = None then (PS_procs s)(pid \<mapsto> p\<lparr>Proc_Exit := Some (Some (plain_err ''signal: killed''))\<rparr>) else PS_procs s)
   | None \<Rightarrow> PS_procs s)\<rparr>"

definition killProcess :: "'x pm_state \<Rightarrow> 'x pm_state" where
  "killProcess s = (case PM_cmd (PS_m s) of None \<Rightarrow> s | Some pid \<Rightarrow> Kill pid s)"

definition removeSocketDir :: "'x pm_state \<Rightarrow> 'x pm_state" where
  "removeSocketDir s = (if PM_socketDirCreated (PS_m s) \<and> PM_socketDir (PS_m s) \<noteq> []
     then s\<lparr>PS_host := snd (os_RemoveAll (PM_socketDir (PS_m s)) (PS_host s))\<rparr> else s)"

section \<open>The sections\<close>

text \<open>
  What \<open>Start\<close> returns at once: an error after \<open>Stop\<close>, the socket if the process was
  started.
\<close>

definition start_check :: "process_manager \<Rightarrow> (goerr + string) option" where
  "start_check m =
     (if PM_stopped m then Some (Inl (plain_err ''process manager: Start called after Stop''))
      else if PM_started m then Some (Inr (socketPath m)) else None)"

definition remove_stale :: "string \<Rightarrow> ('x host, unit) go" where
  "remove_stale socket = catchG (os_Remove socket) (\<lambda>res. case res of
     Inl e \<Rightarrow> if errors_Is e OsErrNotExist then returnG () else failG (wrap_err (''remove stale API socket '' @ Quote socket) e)
   | Inr _ \<Rightarrow> returnG ())"

text \<open>
  The section that spawns: it makes the directory, removes a stale socket and starts the program, for
  which \<open>spawn\<close> is the answer of the operating system.
\<close>

definition spawned :: "'x pm_state \<Rightarrow> 'x pm_state" where
  "spawned s =
     (let n = PS_next s in
      s\<lparr>PS_m := (PS_m s)\<lparr>PM_cmd := Some n, PM_pid := n, PM_done := Some n, PM_exitErr := None\<rparr>,
        PS_procs := (PS_procs s)(n \<mapsto> \<lparr>Proc_Exit = None, Proc_Waited = False, Proc_Buffer = PM_stderr (PS_m s)\<rparr>), PS_next := n + 1\<rparr>)"

definition start_spawn :: "('x host, string) go \<Rightarrow> string \<Rightarrow> goerr option \<Rightarrow> 'x pm_state \<Rightarrow> (goerr + unit) \<times> 'x pm_state" where
  "start_spawn MkdirTemp binary spawn s = (case ensureSocketDir MkdirTemp (PS_m s) (PS_host s) of
     (Inl e, h) \<Rightarrow> (Inl e, s\<lparr>PS_host := h\<rparr>)
   | (Inr dir, h) \<Rightarrow>
       (let m1 = (PS_m s)\<lparr>PM_socketDir := dir, PM_socketDirCreated := True\<rparr>; socket = socketPath m1 in
        case remove_stale socket h of
          (Inl e, h') \<Rightarrow> (Inl e, s\<lparr>PS_m := m1, PS_host := h'\<rparr>)
        | (Inr _, h') \<Rightarrow>
            (let s1 = s\<lparr>PS_m := m1\<lparr>PM_stderr := PS_next s\<rparr>, PS_host := h', PS_buffers := (PS_buffers s)(PS_next s := []), PS_next := PS_next s + 1\<rparr> in
             case spawn of
               Some e \<Rightarrow> (Inl (wrap_err (''start cloud-hypervisor binary '' @ Quote binary) e), s1)
             | None \<Rightarrow> (Inr (), spawned s1))))"

text \<open>The end of the goroutine: it records the exit and closes the channel; closing twice is a panic.\<close>

definition close_done :: "goerr option \<Rightarrow> 'x pm_state \<Rightarrow> 'x pm_state" where
  "close_done e s = (case PM_done (PS_m s) of
     None \<Rightarrow> s\<lparr>PS_panic := True\<rparr>
   | Some ch \<Rightarrow> if ch \<in> set (PS_closed s) then s\<lparr>PS_panic := True\<rparr>
       else s\<lparr>PS_m := (PS_m s)\<lparr>PM_exitErr := e\<rparr>, PS_closed := ch # PS_closed s\<rparr>)"

section \<open>Callers\<close>

text \<open>
  Where a call is: in \<open>Start\<close> before the check, before the look-up of the program, before the spawn, waiting for the
  startup window with the channel it saw, waiting for a process it killed, or before it removes the directory, with the error of the context; in \<open>WaitReady\<close> before the check or
  polling with a delay; in \<open>Stop\<close> before the check, before a signal, in the grace period, after the kill, and
  in the last two sections. A goroutine that reaps has not run yet, waits for a process, or has its answer.
\<close>

datatype call =
    StartCheck | StartResolve | StartSpawn string | StartSelect | StartWatch nat | StartKilled sentinel | StartRemove sentinel
  | ReadyCheck | ReadyPoll "nat option" nat
  | StopCheck | StopSignal nat nat | StopGrace nat nat | StopKilled nat | StopRemove | StopMark

datatype reaper = ReapNew | ReapWait nat | ReapDone "goerr option"

datatype answer = StartAnswer "goerr + string" | ReadyAnswer "goerr option" | StopAnswer

record 'x pm_config =
  PC_s :: "'x pm_state"
  PC_calls :: "call list"
  PC_reapers :: "reaper list"
  PC_answers :: "answer list"

definition readyMinDelay :: nat where "readyMinDelay = 50"
definition readyMaxDelay :: nat where "readyMaxDelay = 500"

definition next_delay :: "nat \<Rightarrow> nat" where
  "next_delay delay = (let d = delay * 2 in if d > readyMaxDelay then readyMaxDelay else d)"

text \<open>What a call does next: it goes on with another section, or it returns.\<close>

datatype progress = Goes call | Returns answer

text \<open>The sections that neither the environment nor the clock decides.\<close>

fun section_of :: "(string \<Rightarrow> goerr + string) \<Rightarrow> call \<Rightarrow> 'x pm_state \<Rightarrow> (progress \<times> 'x pm_state) option" where
  "section_of LookPath StartCheck s = Some (case start_check (PS_m s) of
     Some r \<Rightarrow> (Returns (StartAnswer r), s) | None \<Rightarrow> (Goes StartResolve, s))"
| "section_of LookPath StartResolve s = Some (case resolveBinary LookPath (PS_m s) of
     Inl e \<Rightarrow> (Returns (StartAnswer (Inl e)), s) | Inr binary \<Rightarrow> (Goes (StartSpawn binary), s))"
| "section_of LookPath StartSelect s = (case PM_done (PS_m s) of None \<Rightarrow> None | Some ch \<Rightarrow> Some (Goes (StartWatch ch), s))"
| "section_of LookPath (StartKilled e) s = (case PM_done (PS_m s) of
     Some ch \<Rightarrow> if ch \<in> set (PS_closed s)
       then Some (Goes (StartRemove e), on_m (\<lambda>m. m\<lparr>PM_stopped := True\<rparr>) s) else None
   | None \<Rightarrow> None)"
| "section_of LookPath (StartRemove e) s = Some (Returns (StartAnswer (Inl (sentinel_err e))), removeSocketDir s)"
| "section_of LookPath ReadyCheck s = Some (if \<not> PM_started (PS_m s)
     then (Returns (ReadyAnswer (Some (plain_err ''process manager: WaitReady requires a successful Start''))), s)
     else (Goes (ReadyPoll (PM_done (PS_m s)) readyMinDelay), s))"
| "section_of LookPath StopCheck s = Some (if PM_stopped (PS_m s) then (Returns StopAnswer, s)
     else case (PM_cmd (PS_m s), PM_done (PS_m s)) of
       (Some pid, Some ch) \<Rightarrow> (Goes (StopSignal pid ch), s)
     | _ \<Rightarrow> (Goes StopRemove, s))"
| "section_of LookPath (StopSignal pid ch) s = Some (Goes (if ch \<in> set (PS_closed s) then StopRemove else StopGrace pid ch), s)"
| "section_of LookPath (StopKilled ch) s = (if ch \<in> set (PS_closed s) then Some (Goes StopRemove, s) else None)"
| "section_of LookPath StopRemove s = Some (Goes StopMark, removeSocketDir s)"
| "section_of LookPath StopMark s = Some (Returns StopAnswer, on_m (\<lambda>m. m\<lparr>PM_stopped := True\<rparr>) s)"
| "section_of LookPath c s = None"

section \<open>Steps\<close>

definition advance :: "nat \<Rightarrow> progress \<Rightarrow> 'x pm_config \<Rightarrow> 'x pm_config" where
  "advance i p c = (case p of
     Goes k \<Rightarrow> c\<lparr>PC_calls := (PC_calls c)[i := k]\<rparr>
   | Returns a \<Rightarrow> c\<lparr>PC_calls := take i (PC_calls c) @ drop (Suc i) (PC_calls c), PC_answers := a # PC_answers c\<rparr>)"

definition at_call :: "'x pm_config \<Rightarrow> nat \<Rightarrow> call \<Rightarrow> bool" where
  "at_call c i k \<longleftrightarrow> i < length (PC_calls c) \<and> PC_calls c ! i = k"

definition is_closed :: "'x pm_state \<Rightarrow> nat option \<Rightarrow> bool" where
  "is_closed s ch = (case ch of None \<Rightarrow> False | Some k \<Rightarrow> k \<in> set (PS_closed s))"

definition exit_process :: "nat \<Rightarrow> goerr option \<Rightarrow> 'x pm_state \<Rightarrow> 'x pm_state" where
  "exit_process pid e s = (case PS_procs s pid of
     Some p \<Rightarrow> s\<lparr>PS_procs := (PS_procs s)(pid \<mapsto> p\<lparr>Proc_Exit := Some e\<rparr>)\<rparr> | None \<Rightarrow> s)"

definition running :: "'x pm_state \<Rightarrow> nat \<Rightarrow> bool" where
  "running s pid = (case PS_procs s pid of None \<Rightarrow> False | Some p \<Rightarrow> Proc_Exit p = None)"

text \<open>The goroutine calls \<open>Wait\<close> on the command it finds; a second \<open>Wait\<close> is an error.\<close>

definition begin_wait :: "nat \<Rightarrow> 'x pm_state \<Rightarrow> reaper \<times> 'x pm_state" where
  "begin_wait pid s = (case PS_procs s pid of
     None \<Rightarrow> (ReapDone (Some (plain_err ''exec: not started'')), s)
   | Some p \<Rightarrow> if Proc_Waited p then (ReapDone (Some (plain_err ''exec: Wait was already called'')), s)
       else (ReapWait pid, s\<lparr>PS_procs := (PS_procs s)(pid \<mapsto> p\<lparr>Proc_Waited := True\<rparr>)\<rparr>))"

text \<open>What the error of a context that is done can be.\<close>

definition context_errors :: "sentinel set" where
  "context_errors = {ContextCanceled, ContextDeadlineExceeded}"

text \<open>At most \<open>n\<close> calls are in progress at a time.\<close>

inductive pm_step ::
  "nat \<Rightarrow> (string \<Rightarrow> goerr + string) \<Rightarrow> ('x host, string) go \<Rightarrow> 'x pm_config \<Rightarrow> 'x pm_config \<Rightarrow> bool"
  for n LookPath MkdirTemp where
  arrive: "length (PC_calls c) < n \<Longrightarrow> k \<in> {StartCheck, ReadyCheck, StopCheck} \<Longrightarrow>
    pm_step n LookPath MkdirTemp c (c\<lparr>PC_calls := PC_calls c @ [k]\<rparr>)"
| runs: "at_call c i k \<Longrightarrow> section_of LookPath k (PC_s c) = Some (p, s') \<Longrightarrow>
    pm_step n LookPath MkdirTemp c (advance i p (c\<lparr>PC_s := s'\<rparr>))"
| spawns: "at_call c i (StartSpawn binary) \<Longrightarrow> start_spawn MkdirTemp binary None (PC_s c) = (Inr (), s') \<Longrightarrow>
    pm_step n LookPath MkdirTemp c (advance i (Goes StartSelect) (c\<lparr>PC_s := s', PC_reapers := PC_reapers c @ [ReapNew]\<rparr>))"
| spawn_fails: "at_call c i (StartSpawn binary) \<Longrightarrow> start_spawn MkdirTemp binary spawn (PC_s c) = (Inl e, s') \<Longrightarrow>
    pm_step n LookPath MkdirTemp c (advance i (Returns (StartAnswer (Inl e))) (c\<lparr>PC_s := s'\<rparr>))"
| exited: "at_call c i (StartWatch ch) \<Longrightarrow> is_closed (PC_s c) (Some ch) \<Longrightarrow>
    pm_step n LookPath MkdirTemp c (advance i (Returns (StartAnswer (Inl (processExitedError (PC_s c))))) c)"
| cancelled: "at_call c i (StartWatch ch) \<Longrightarrow> e \<in> context_errors \<Longrightarrow>
    pm_step n LookPath MkdirTemp c (advance i (Goes (StartKilled e)) (c\<lparr>PC_s := killProcess (PC_s c)\<rparr>))"
| window: "at_call c i (StartWatch ch) \<Longrightarrow> s' = on_m (\<lambda>m. m\<lparr>PM_started := True\<rparr>) (PC_s c) \<Longrightarrow>
    pm_step n LookPath MkdirTemp c (advance i (Returns (StartAnswer (Inr (socketPath (PS_m s'))))) (c\<lparr>PC_s := s'\<rparr>))"
| connected: "at_call c i (ReadyPoll ch delay) \<Longrightarrow> pm_step n LookPath MkdirTemp c (advance i (Returns (ReadyAnswer None)) c)"
| unready: "at_call c i (ReadyPoll ch delay) \<Longrightarrow> is_closed (PC_s c) ch \<Longrightarrow>
    pm_step n LookPath MkdirTemp c (advance i (Returns (ReadyAnswer (Some (processExitedError (PC_s c))))) c)"
| ready_timeout: "at_call c i (ReadyPoll ch delay) \<Longrightarrow> e \<in> context_errors \<Longrightarrow>
    pm_step n LookPath MkdirTemp c (advance i (Returns (ReadyAnswer (Some (sentinel_err e)))) c)"
| ready_again: "at_call c i (ReadyPoll ch delay) \<Longrightarrow>
    pm_step n LookPath MkdirTemp c (advance i (Goes (ReadyPoll ch (next_delay delay))) c)"
| graceful: "at_call c i (StopGrace pid ch) \<Longrightarrow> is_closed (PC_s c) (Some ch) \<Longrightarrow>
    pm_step n LookPath MkdirTemp c (advance i (Goes StopRemove) c)"
| forced: "at_call c i (StopGrace pid ch) \<Longrightarrow>
    pm_step n LookPath MkdirTemp c (advance i (Goes (StopKilled ch)) (c\<lparr>PC_s := Kill pid (PC_s c)\<rparr>))"
| reap_begins: "j < length (PC_reapers c) \<Longrightarrow> PC_reapers c ! j = ReapNew \<Longrightarrow> PM_cmd (PS_m (PC_s c)) = Some pid \<Longrightarrow>
    begin_wait pid (PC_s c) = (w, s') \<Longrightarrow>
    pm_step n LookPath MkdirTemp c (c\<lparr>PC_s := s', PC_reapers := (PC_reapers c)[j := w]\<rparr>)"
| reaps: "j < length (PC_reapers c) \<Longrightarrow> PC_reapers c ! j = ReapWait pid \<Longrightarrow> PS_procs (PC_s c) pid = Some p \<Longrightarrow> Proc_Exit p = Some e \<Longrightarrow>
    pm_step n LookPath MkdirTemp c (c\<lparr>PC_reapers := (PC_reapers c)[j := ReapDone e]\<rparr>)"
| reaped: "j < length (PC_reapers c) \<Longrightarrow> PC_reapers c ! j = ReapDone e \<Longrightarrow>
    pm_step n LookPath MkdirTemp c (c\<lparr>PC_s := close_done e (PC_s c), PC_reapers := take j (PC_reapers c) @ drop (Suc j) (PC_reapers c)\<rparr>)"
| exits: "running (PC_s c) pid \<Longrightarrow> pm_step n LookPath MkdirTemp c (c\<lparr>PC_s := exit_process pid e (PC_s c)\<rparr>)"
| writes: "running (PC_s c) pid \<Longrightarrow> PS_procs (PC_s c) pid = Some p \<Longrightarrow>
    pm_step n LookPath MkdirTemp c (c\<lparr>PC_s := (PC_s c)\<lparr>PS_buffers := (PS_buffers (PC_s c))
      (Proc_Buffer p := PS_buffers (PC_s c) (Proc_Buffer p) @ text)\<rparr>\<rparr>)"

definition pm_init :: "string \<Rightarrow> string \<Rightarrow> 'x host \<Rightarrow> 'x pm_config" where
  "pm_init binaryPath socketDir h = \<lparr>PC_s = \<lparr>PS_m = NewManager binaryPath socketDir, PS_host = h, PS_procs = Map.empty, PS_buffers = (\<lambda>_. []),
     PS_closed = [], PS_next = 1, PS_panic = False\<rparr>, PC_calls = [], PC_reapers = [], PC_answers = []\<rparr>"

end
