(* ===== verification/ProcessSerial.thy ===== *)
theory ProcessSerial
  imports Process
begin

text \<open>
  The process manager when its calls come one after another: at most one process runs and it is the one the
  manager knows, no channel is closed twice, and after \<open>Stop\<close> nothing runs. With two calls at a time
  none of this holds.
\<close>

section \<open>The invariant\<close>

text \<open>
  The manager is idle when nothing runs and nothing is left to reap; it is live when it has a process whose exit was
  not announced yet, and one goroutine that will announce it.
\<close>

definition pm_idle :: "'x pm_config \<Rightarrow> bool" where
  "pm_idle c \<longleftrightarrow> (\<forall>pid. \<not> running (PC_s c) pid) \<and> PC_reapers c = [] \<and>
     (case (PM_cmd (PS_m (PC_s c)), PM_done (PS_m (PC_s c))) of
        (None, None) \<Rightarrow> True | (Some _, Some ch) \<Rightarrow> ch \<in> set (PS_closed (PC_s c)) | _ \<Rightarrow> False)"

fun reaper_ok :: "'x pm_state \<Rightarrow> nat \<Rightarrow> reaper \<Rightarrow> bool" where
  "reaper_ok s pid ReapNew = (\<exists>p. PS_procs s pid = Some p \<and> \<not> Proc_Waited p)"
| "reaper_ok s pid (ReapWait q) = (q = pid \<and> PS_procs s pid \<noteq> None)"
| "reaper_ok s pid (ReapDone e) = (\<not> running s pid)"

definition pm_live :: "'x pm_config \<Rightarrow> bool" where
  "pm_live c \<longleftrightarrow> (\<exists>pid ch w. PM_cmd (PS_m (PC_s c)) = Some pid \<and> PM_done (PS_m (PC_s c)) = Some ch \<and> ch \<notin> set (PS_closed (PC_s c)) \<and>
     (\<forall>q. running (PC_s c) q \<longrightarrow> q = pid) \<and> PC_reapers c = [w] \<and> reaper_ok (PC_s c) pid w)"

definition pm_rest :: "'x pm_config \<Rightarrow> bool" where
  "pm_rest c \<longleftrightarrow> (PM_started (PS_m (PC_s c)) \<longrightarrow> PM_cmd (PS_m (PC_s c)) \<noteq> None) \<and>
     (\<not> PM_started (PS_m (PC_s c)) \<or> PM_stopped (PS_m (PC_s c)) \<longrightarrow> pm_idle c)"

fun call_ok :: "'x pm_config \<Rightarrow> call \<Rightarrow> bool" where
  "call_ok c StartResolve = (pm_idle c \<and> \<not> PM_started (PS_m (PC_s c)) \<and> \<not> PM_stopped (PS_m (PC_s c)))"
| "call_ok c (StartSpawn b) = (pm_idle c \<and> \<not> PM_started (PS_m (PC_s c)) \<and> \<not> PM_stopped (PS_m (PC_s c)))"
| "call_ok c StartSelect = (PM_cmd (PS_m (PC_s c)) \<noteq> None \<and> \<not> PM_started (PS_m (PC_s c)) \<and> \<not> PM_stopped (PS_m (PC_s c)))"
| "call_ok c (StartWatch ch) = (PM_cmd (PS_m (PC_s c)) \<noteq> None \<and> PM_done (PS_m (PC_s c)) = Some ch \<and>
     \<not> PM_started (PS_m (PC_s c)) \<and> \<not> PM_stopped (PS_m (PC_s c)))"
| "call_ok c (StartKilled e) = (PM_cmd (PS_m (PC_s c)) \<noteq> None \<and> \<not> PM_started (PS_m (PC_s c)) \<and> \<not> PM_stopped (PS_m (PC_s c)))"
| "call_ok c (StartRemove e) = (pm_idle c \<and> pm_rest c)"
| "call_ok c (StopSignal pid ch) = (PM_cmd (PS_m (PC_s c)) = Some pid \<and> PM_done (PS_m (PC_s c)) = Some ch \<and> pm_rest c)"
| "call_ok c (StopGrace pid ch) = (PM_cmd (PS_m (PC_s c)) = Some pid \<and> PM_done (PS_m (PC_s c)) = Some ch \<and> pm_rest c)"
| "call_ok c (StopKilled ch) = (PM_done (PS_m (PC_s c)) = Some ch \<and> pm_rest c)"
| "call_ok c StopRemove = (pm_idle c \<and> pm_rest c)"
| "call_ok c StopMark = (pm_idle c \<and> pm_rest c)"
| "call_ok c k = pm_rest c"

definition pm_fresh :: "'x pm_state \<Rightarrow> bool" where
  "pm_fresh s \<longleftrightarrow> (\<forall>k\<in>set (PS_closed s). k < PS_next s) \<and> (\<forall>pid p. PS_procs s pid = Some p \<longrightarrow> pid < PS_next s) \<and>
     (\<forall>ch. PM_done (PS_m s) = Some ch \<longrightarrow> ch < PS_next s)"

definition pm_inv :: "'x pm_config \<Rightarrow> bool" where
  "pm_inv c \<longleftrightarrow> \<not> PS_panic (PC_s c) \<and> pm_fresh (PC_s c) \<and> (pm_idle c \<or> pm_live c) \<and>
     (case PC_calls c of [] \<Rightarrow> pm_rest c | [k] \<Rightarrow> call_ok c k | _ \<Rightarrow> False)"

lemma pm_init_inv: "pm_inv (pm_init b d h)"
  by (simp add: pm_inv_def pm_init_def pm_fresh_def pm_idle_def pm_rest_def running_def NewManager_def)

section \<open>What the sections change\<close>

text \<open>The invariant looks at the manager's process, channel and flags, and at processes and channels only.\<close>

definition same_view :: "'x pm_state \<Rightarrow> 'x pm_state \<Rightarrow> bool" where
  "same_view s t \<longleftrightarrow> PM_cmd (PS_m t) = PM_cmd (PS_m s) \<and> PM_done (PS_m t) = PM_done (PS_m s) \<and> PM_started (PS_m t) = PM_started (PS_m s) \<and>
     PM_stopped (PS_m t) = PM_stopped (PS_m s) \<and> PS_procs t = PS_procs s \<and> PS_closed t = PS_closed s \<and> PS_panic t = PS_panic s \<and> PS_next s \<le> PS_next t"

lemma same_view_refl [simp]: "same_view s s"
  by (simp add: same_view_def)

lemma same_view_removeSocketDir [simp]: "same_view s (removeSocketDir s)"
  by (simp add: removeSocketDir_def same_view_def)

lemma start_spawn_view:
  assumes "start_spawn M b spawn s = (Inl e, t)"
  shows "same_view s t"
  using assms by (auto simp: start_spawn_def same_view_def Let_def split: prod.splits sum.splits option.splits)

lemma start_spawn_spawned:
  assumes "start_spawn M b None s = (Inr (), t)"
  shows "\<exists>s1. same_view s s1 \<and> t = spawned s1"
proof -
  from assms obtain s1 where "t = spawned s1" "same_view s s1"
    by (auto simp: start_spawn_def same_view_def Let_def split: prod.splits sum.splits)
  then show ?thesis by blast
qed

lemma view_running: "same_view s t \<Longrightarrow> running t = running s"
  by (rule ext) (simp add: running_def same_view_def)

lemma view_idle: "same_view (PC_s c) (PC_s d) \<Longrightarrow> PC_reapers d = PC_reapers c \<Longrightarrow> pm_idle d = pm_idle c"
  using view_running [of "PC_s c" "PC_s d"] by (simp add: pm_idle_def same_view_def split: option.split)

lemma view_reaper: "same_view s t \<Longrightarrow> reaper_ok t pid w = reaper_ok s pid w"
  using view_running [of s t] by (cases w) (simp_all add: same_view_def)

lemma view_live: "same_view (PC_s c) (PC_s d) \<Longrightarrow> PC_reapers d = PC_reapers c \<Longrightarrow> pm_live d = pm_live c"
  using view_running [of "PC_s c" "PC_s d"] view_reaper [of "PC_s c" "PC_s d"] by (simp add: pm_live_def same_view_def)

lemma view_rest: "same_view (PC_s c) (PC_s d) \<Longrightarrow> PC_reapers d = PC_reapers c \<Longrightarrow> pm_rest d = pm_rest c"
  using view_idle [of c d] by (simp add: pm_rest_def same_view_def)

lemma view_call: "same_view (PC_s c) (PC_s d) \<Longrightarrow> PC_reapers d = PC_reapers c \<Longrightarrow> call_ok d k = call_ok c k"
  using view_idle [of c d] view_rest [of c d] by (cases k) (simp_all add: same_view_def)

lemma view_fresh: "same_view s t \<Longrightarrow> pm_fresh s \<Longrightarrow> pm_fresh t"
  unfolding pm_fresh_def same_view_def by (metis order_less_le_trans)

section \<open>The invariant is kept\<close>

lemma inv_call:
  assumes "pm_inv c" and "at_call c i k"
  shows "i = 0" "PC_calls c = [k]" "call_ok c k"
  using assms by (auto simp: pm_inv_def at_call_def split: list.splits)

lemma advance_alone [simp]:
  "PC_calls c = [k] \<Longrightarrow> PC_calls (advance 0 (Goes k') c) = [k']" "PC_calls c = [k] \<Longrightarrow> PC_calls (advance 0 (Returns a) c) = []"
  "PC_s (advance i p c) = PC_s c" "PC_reapers (advance i p c) = PC_reapers c"
  by (simp_all add: advance_def split: progress.split)

lemma inv_view:
  assumes "pm_inv c" and "same_view (PC_s c) (PC_s d)" and "PC_reapers d = PC_reapers c"
    and "case PC_calls d of [] \<Rightarrow> pm_rest c | [k] \<Rightarrow> call_ok c k | _ \<Rightarrow> False"
  shows "pm_inv d"
  using assms view_idle [OF assms(2,3)] view_live [OF assms(2,3)] view_rest [OF assms(2,3)] view_call [OF assms(2,3)] view_fresh [OF assms(2)]
  by (auto simp: pm_inv_def split: list.splits) (simp_all add: same_view_def)

text \<open>Once the channel is closed the manager is idle.\<close>

lemma closed_idle:
  assumes "pm_inv c" and "PM_done (PS_m (PC_s c)) = Some ch" and "ch \<in> set (PS_closed (PC_s c))"
  shows "pm_idle c"
  using assms by (auto simp: pm_inv_def pm_live_def)

lemma inv_channel: "pm_inv c \<Longrightarrow> PM_cmd (PS_m (PC_s c)) = None \<longleftrightarrow> PM_done (PS_m (PC_s c)) = None"
  by (auto simp: pm_inv_def pm_live_def pm_idle_def split: option.splits)

lemma rest_of_call: "call_ok c k \<Longrightarrow> pm_idle c \<Longrightarrow> pm_rest c"
  by (cases k) (auto simp: pm_rest_def)

text \<open>The sections the caller runs alone.\<close>

lemma section_inv:
  assumes "pm_inv c" and "PC_calls c = [k]" and "section_of L k (PC_s c) = Some (p, s')"
  shows "pm_inv (advance 0 p (c\<lparr>PC_s := s'\<rparr>))"
proof -
  have ok: "call_ok c k" using assms(1,2) by (simp add: pm_inv_def)
  note view = inv_view [OF assms(1), of "advance 0 p (c\<lparr>PC_s := s'\<rparr>)"]
  have stop: "pm_inv (advance 0 p (c\<lparr>PC_s := on_m (\<lambda>m. m\<lparr>PM_stopped := True\<rparr>) (PC_s c)\<rparr>))" if "pm_idle c" "pm_rest c" "(\<exists>e. p = Goes (StartRemove e)) \<or> (\<exists>a. p = Returns a)"
    using that assms(1,2) by (auto simp: pm_inv_def pm_idle_def pm_rest_def pm_fresh_def running_def split: option.splits)
  show ?thesis
  proof (cases k)
    case (StartKilled e)
    with assms(3) obtain ch where ch: "PM_done (PS_m (PC_s c)) = Some ch" "ch \<in> set (PS_closed (PC_s c))" and p: "p = Goes (StartRemove e)"
      and s': "s' = on_m (\<lambda>m. m\<lparr>PM_stopped := True\<rparr>) (PC_s c)" by (auto split: option.splits if_splits)
    have "pm_idle c" by (rule closed_idle [OF assms(1) ch])
    with ok p s' show ?thesis using stop rest_of_call by blast
  next
    case StopMark
    with assms(3) ok show ?thesis using stop by auto
  next
    case StopCheck
    with assms ok inv_channel [OF assms(1)] show ?thesis
      by (intro view) (auto simp: pm_rest_def split: option.splits if_splits)
  next
    case (StopSignal pid ch)
    with assms ok closed_idle [OF assms(1)] show ?thesis by (intro view) (auto split: if_splits)
  next
    case (StopKilled ch)
    with assms ok closed_idle [OF assms(1)] show ?thesis by (intro view) (auto split: if_splits)
  qed (use assms ok in \<open>(intro view; auto simp: start_check_def pm_rest_def pm_idle_def split: option.splits sum.splits if_splits)\<close>)+
qed

text \<open>Ending a process keeps the invariant, whoever ends it.\<close>

lemma exit_running [simp]: "running (exit_process pid e s) q \<longleftrightarrow> running s q \<and> q \<noteq> pid"
  by (auto simp: running_def exit_process_def split: option.splits)

lemma exit_fields [simp]:
  "PS_m (exit_process pid e s) = PS_m s" "PS_closed (exit_process pid e s) = PS_closed s" "PS_panic (exit_process pid e s) = PS_panic s"
  "PS_next (exit_process pid e s) = PS_next s" "PS_procs (exit_process pid e s) q = None \<longleftrightarrow> PS_procs s q = None"
  "(\<exists>p. PS_procs (exit_process pid e s) q = Some p \<and> \<not> Proc_Waited p) \<longleftrightarrow> (\<exists>p. PS_procs s q = Some p \<and> \<not> Proc_Waited p)"
  by (auto simp: exit_process_def split: option.splits)

lemma Kill_exit: "Kill pid s = (if running s pid then exit_process pid (Some (plain_err ''signal: killed'')) s else s)"
  by (auto simp: Kill_def exit_process_def running_def split: option.splits)

lemma exit_reaper: "reaper_ok s pid w \<Longrightarrow> reaper_ok (exit_process q e s) pid w"
  by (cases w) simp_all

lemma exit_idle: "pm_idle c \<Longrightarrow> pm_idle (c\<lparr>PC_s := exit_process pid e (PC_s c)\<rparr>)"
  by (simp add: pm_idle_def split: option.splits)

lemma exit_live: "pm_live c \<Longrightarrow> pm_live (c\<lparr>PC_s := exit_process pid e (PC_s c)\<rparr>)"
  unfolding pm_live_def by (auto intro: exit_reaper)

lemma exit_rest: "pm_rest c \<Longrightarrow> pm_rest (c\<lparr>PC_s := exit_process pid e (PC_s c)\<rparr>)"
  using exit_idle [of c] by (simp add: pm_rest_def)

lemma exit_call: "call_ok c k \<Longrightarrow> call_ok (c\<lparr>PC_s := exit_process pid e (PC_s c)\<rparr>) k"
  using exit_idle [of c] exit_rest [of c] by (cases k) auto

lemma exit_fresh: "pm_fresh s \<Longrightarrow> pm_fresh (exit_process pid e s)"
  by (auto simp: pm_fresh_def exit_process_def split: option.splits if_splits)

lemma exit_inv: "pm_inv c \<Longrightarrow> pm_inv (c\<lparr>PC_s := exit_process pid e (PC_s c)\<rparr>)"
  using exit_idle [of c] exit_live [of c] exit_rest [of c] exit_call [of c] exit_fresh [of "PC_s c"]
  by (auto simp: pm_inv_def split: list.splits)

lemma kill_inv: "pm_inv c \<Longrightarrow> pm_inv (c\<lparr>PC_s := Kill pid (PC_s c)\<rparr>)"
  by (simp add: Kill_exit exit_inv)

text \<open>A step of the caller after the state changed.\<close>

lemma then_goes: "pm_inv (c\<lparr>PC_s := t\<rparr>) \<Longrightarrow> PC_calls c = [k] \<Longrightarrow> call_ok (c\<lparr>PC_s := t\<rparr>) k' \<Longrightarrow> pm_inv (advance 0 (Goes k') (c\<lparr>PC_s := t\<rparr>))"
  by (rule inv_view) simp_all

lemma then_returns: "pm_inv (c\<lparr>PC_s := t\<rparr>) \<Longrightarrow> PC_calls c = [k] \<Longrightarrow> pm_rest (c\<lparr>PC_s := t\<rparr>) \<Longrightarrow> pm_inv (advance 0 (Returns a) (c\<lparr>PC_s := t\<rparr>))"
  by (rule inv_view) simp_all

lemma spawn_inv:
  assumes "pm_inv c" and "PC_calls c = [StartSpawn b]" and "start_spawn M b None (PC_s c) = (Inr (), t)"
  shows "pm_inv (advance 0 (Goes StartSelect) (c\<lparr>PC_s := t, PC_reapers := PC_reapers c @ [ReapNew]\<rparr>))"
proof -
  obtain s1 where v: "same_view (PC_s c) s1" and t: "t = spawned s1" using start_spawn_spawned [OF assms(3)] by blast
  from assms(1,2) have idle: "pm_idle c" and fl: "\<not> PM_started (PS_m (PC_s c))" "\<not> PM_stopped (PS_m (PC_s c))" and fresh: "pm_fresh (PC_s c)"
    and quiet: "\<not> PS_panic (PC_s c)" by (simp_all add: pm_inv_def)
  from view_fresh [OF v fresh] have "PS_next s1 \<notin> set (PS_closed s1)" "PS_procs s1 (PS_next s1) = None" by (force simp: pm_fresh_def)+
  moreover from idle v view_running [OF v] have "\<not> running s1 q" "PC_reapers c = []" for q by (simp_all add: pm_idle_def)
  moreover from calculation have "running (spawned s1) q \<longrightarrow> q = PS_next s1" for q by (auto simp: running_def spawned_def Let_def split: if_splits)
  moreover have "PM_cmd (PS_m t) = Some (PS_next s1)" "PM_done (PS_m t) = Some (PS_next s1)" "PS_closed t = PS_closed s1"
    "reaper_ok t (PS_next s1) ReapNew" by (simp_all add: t spawned_def Let_def)
  ultimately have "pm_live (c\<lparr>PC_s := t, PC_reapers := PC_reapers c @ [ReapNew]\<rparr>)"
    by (simp add: pm_live_def t)
  then have "pm_live (advance 0 (Goes StartSelect) (c\<lparr>PC_s := t, PC_reapers := PC_reapers c @ [ReapNew]\<rparr>))"
    by (simp add: pm_live_def)
  moreover have "pm_fresh t" using view_fresh [OF v fresh] by (fastforce simp: t pm_fresh_def spawned_def Let_def split: if_splits)
  ultimately show ?thesis using fl v quiet assms(2) by (simp add: pm_inv_def same_view_def t) (simp add: spawned_def Let_def)
qed

lemma reaper_alone:
  assumes "pm_inv c" and "j < length (PC_reapers c)" and "PC_reapers c ! j = w"
  shows "j = 0" "PC_reapers c = [w]" "pm_live c"
  using assms by (auto simp: pm_inv_def pm_idle_def pm_live_def)

text \<open>While a process is live the conditions on the caller do not depend on the goroutine.\<close>

lemma live_call:
  assumes "pm_live c" and "PC_calls c = ks" and "case ks of [] \<Rightarrow> pm_rest c | [k] \<Rightarrow> call_ok c k | _ \<Rightarrow> False"
    and "PS_m (PC_s d) = PS_m (PC_s c)" and "PC_calls d = ks"
  shows "case ks of [] \<Rightarrow> pm_rest d | [k] \<Rightarrow> call_ok d k | _ \<Rightarrow> False"
proof -
  have no: "\<not> pm_idle c" using assms(1) by (auto simp: pm_live_def pm_idle_def)
  then have "pm_rest c \<Longrightarrow> pm_rest d" using assms(4) by (auto simp: pm_rest_def)
  moreover from this no have "call_ok c k \<Longrightarrow> call_ok d k" for k using assms(4) by (cases k) auto
  ultimately show ?thesis using assms(3) by (auto split: list.splits)
qed


lemma reap_begin_inv:
  assumes "pm_inv c" and "PC_reapers c = [ReapNew]" and "PM_cmd (PS_m (PC_s c)) = Some pid" and "begin_wait pid (PC_s c) = (w, t)" and "pm_live c"
  shows "pm_inv (c\<lparr>PC_s := t, PC_reapers := [w]\<rparr>)"
proof -
  from assms(2,3,5) obtain ch p where ch: "PM_done (PS_m (PC_s c)) = Some ch" "ch \<notin> set (PS_closed (PC_s c))" "\<forall>q. running (PC_s c) q \<longrightarrow> q = pid"
    and p: "PS_procs (PC_s c) pid = Some p" "\<not> Proc_Waited p" by (auto simp: pm_live_def)
  with assms(4) have t: "t = (PC_s c)\<lparr>PS_procs := (PS_procs (PC_s c))(pid \<mapsto> p\<lparr>Proc_Waited := True\<rparr>)\<rparr>" and w: "w = ReapWait pid"
    by (auto simp: begin_wait_def)
  have run: "running t q \<longleftrightarrow> running (PC_s c) q" for q using p by (auto simp: running_def t)
  let ?d = "c\<lparr>PC_s := t, PC_reapers := [w]\<rparr>"
  have "pm_live ?d" using assms(3) ch run by (simp add: pm_live_def w) (simp add: t)
  moreover have "pm_fresh t" using assms(1) p by (auto simp: pm_inv_def pm_fresh_def t)
  moreover have "case PC_calls c of [] \<Rightarrow> pm_rest ?d | [k] \<Rightarrow> call_ok ?d k | _ \<Rightarrow> False"
    by (rule live_call [OF assms(5)]) (use assms(1) in \<open>auto simp: pm_inv_def t\<close>)
  moreover have "\<not> PS_panic t" using assms(1) by (simp add: pm_inv_def t)
  ultimately show ?thesis by (simp add: pm_inv_def)
qed

lemma reap_inv:
  assumes "pm_inv c" and "PC_reapers c = [ReapWait pid]" and "PS_procs (PC_s c) pid = Some p" and "Proc_Exit p = Some e" and "pm_live c"
  shows "pm_inv (c\<lparr>PC_reapers := [ReapDone e]\<rparr>)"
proof -
  let ?d = "c\<lparr>PC_reapers := [ReapDone e]\<rparr>"
  have "\<not> running (PC_s c) pid" using assms(3,4) by (simp add: running_def)
  with assms(2,5) have "pm_live ?d" by (auto simp: pm_live_def)
  moreover have "case PC_calls c of [] \<Rightarrow> pm_rest ?d | [k] \<Rightarrow> call_ok ?d k | _ \<Rightarrow> False"
    by (rule live_call [OF assms(5)]) (use assms(1) in \<open>auto simp: pm_inv_def\<close>)
  ultimately show ?thesis using assms(1) by (simp add: pm_inv_def)
qed

lemma close_inv:
  assumes "pm_inv c" and "PC_reapers c = [ReapDone e]" and "pm_live c"
  shows "pm_inv (c\<lparr>PC_s := close_done e (PC_s c), PC_reapers := []\<rparr>)"
proof -
  from assms(2,3) obtain pid ch where ch: "PM_cmd (PS_m (PC_s c)) = Some pid" "PM_done (PS_m (PC_s c)) = Some ch" "ch \<notin> set (PS_closed (PC_s c))"
    and run: "\<forall>q. \<not> running (PC_s c) q" by (auto simp: pm_live_def)
  let ?d = "c\<lparr>PC_s := close_done e (PC_s c), PC_reapers := []\<rparr>"
  have s: "close_done e (PC_s c) = (PC_s c)\<lparr>PS_m := (PS_m (PC_s c))\<lparr>PM_exitErr := e\<rparr>, PS_closed := ch # PS_closed (PC_s c)\<rparr>"
    using ch by (simp add: close_done_def)
  have idle: "pm_idle ?d" using ch run by (simp add: pm_idle_def s running_def)
  have "ch < PS_next (PC_s c)" using assms(1) ch(2) by (simp add: pm_inv_def pm_fresh_def)
  then have "pm_fresh (close_done e (PC_s c))" using assms(1) by (auto simp: pm_inv_def pm_fresh_def s)
  moreover have rest: "pm_rest c \<Longrightarrow> pm_rest ?d" using idle ch by (simp add: pm_rest_def s)
  moreover have "call_ok c k \<Longrightarrow> call_ok ?d k" for k using idle rest assms(3) ch by (cases k) (auto simp: s)
  ultimately show ?thesis using assms(1) idle by (auto simp: pm_inv_def s split: list.splits)
qed


lemma window_inv:
  assumes "pm_inv c" and "PC_calls c = [StartWatch ch]"
  shows "pm_inv (advance 0 (Returns a) (c\<lparr>PC_s := on_m (\<lambda>m. m\<lparr>PM_started := True\<rparr>) (PC_s c)\<rparr>))"
proof -
  let ?d = "advance 0 (Returns a) (c\<lparr>PC_s := on_m (\<lambda>m. m\<lparr>PM_started := True\<rparr>) (PC_s c)\<rparr>)"
  have run: "running (PC_s ?d) = running (PC_s c)" by (rule ext) (simp add: running_def)
  have "reaper_ok (PC_s ?d) pid w = reaper_ok (PC_s c) pid w" for pid w using run by (cases w) simp_all
  with run have "pm_idle ?d = pm_idle c" "pm_live ?d = pm_live c" by (simp_all add: pm_idle_def pm_live_def split: option.split)
  moreover have "pm_fresh (PC_s ?d) = pm_fresh (PC_s c)" by (simp add: pm_fresh_def)
  moreover have "PC_calls ?d = []" using assms(2) by simp
  ultimately show ?thesis using assms by (auto simp: pm_inv_def pm_rest_def)
qed

lemma serial_step:
  assumes "pm_step 1 L M c d" and "pm_inv c"
  shows "pm_inv d"
  using assms
proof (cases rule: pm_step.cases)
  case (arrive k)
  then show ?thesis using assms(2) by (intro inv_view [OF assms(2)]) (auto simp: pm_inv_def)
next
  case (runs i k p s')
  note at = inv_call [OF assms(2) runs(2)]
  with section_inv [OF assms(2) at(2) runs(3)] runs(1) show ?thesis by simp
next
  case (spawns i binary s')
  note at = inv_call [OF assms(2) spawns(2)]
  with spawn_inv [OF assms(2) at(2) spawns(3)] spawns(1) show ?thesis by simp
next
  case (spawn_fails i binary spawn e s')
  note at = inv_call [OF assms(2) spawn_fails(2)]
  with spawn_fails start_spawn_view [OF spawn_fails(3)] show ?thesis by (intro inv_view [OF assms(2)]) (auto simp: pm_rest_def)
next
  case (exited i ch)
  note at = inv_call [OF assms(2) exited(2)]
  with exited closed_idle [OF assms(2)] show ?thesis by (intro inv_view [OF assms(2)]) (auto simp: is_closed_def pm_rest_def)
next
  case (cancelled i ch e)
  note at = inv_call [OF assms(2) cancelled(2)]
  then obtain pid where pid: "PM_cmd (PS_m (PC_s c)) = Some pid" by auto
  let ?t = "Kill pid (PC_s c)"
  have "pm_inv (advance 0 (Goes (StartKilled e)) (c\<lparr>PC_s := ?t\<rparr>))"
    by (rule then_goes [OF kill_inv [OF assms(2)] at(2)]) (use at in \<open>auto simp: Kill_exit\<close>)
  with cancelled(1) at(1) pid show ?thesis by (simp add: killProcess_def)
next
  case (window i ch s')
  note at = inv_call [OF assms(2) window(2)]
  with window_inv [OF assms(2)] window show ?thesis by simp
next
  case (connected i ch delay)
  note at = inv_call [OF assms(2) connected(2)]
  with connected show ?thesis by (intro inv_view [OF assms(2)]) auto
next
  case (unready i ch delay)
  note at = inv_call [OF assms(2) unready(2)]
  with unready show ?thesis by (intro inv_view [OF assms(2)]) auto
next
  case (ready_timeout i ch delay e)
  note at = inv_call [OF assms(2) ready_timeout(2)]
  with ready_timeout show ?thesis by (intro inv_view [OF assms(2)]) auto
next
  case (ready_again i ch delay)
  note at = inv_call [OF assms(2) ready_again(2)]
  with ready_again show ?thesis by (intro inv_view [OF assms(2)]) auto
next
  case (graceful i pid ch)
  note at = inv_call [OF assms(2) graceful(2)]
  with graceful closed_idle [OF assms(2)] show ?thesis by (intro inv_view [OF assms(2)]) (auto simp: is_closed_def)
next
  case (forced i pid ch)
  note at = inv_call [OF assms(2) forced(2)]
  have "call_ok (c\<lparr>PC_s := Kill pid (PC_s c)\<rparr>) (StopKilled ch)" using at(3) exit_rest [of c] by (auto simp: Kill_exit)
  with then_goes [OF kill_inv [OF assms(2)] at(2)] forced(1) at(1) show ?thesis by simp
next
  case (reap_begins j pid w s')
  note at = reaper_alone [OF assms(2) reap_begins(2,3)]
  with reap_begin_inv [OF assms(2) at(2) reap_begins(4,5) at(3)] reap_begins(1) show ?thesis by simp
next
  case (reaps j pid p e)
  note at = reaper_alone [OF assms(2) reaps(2,3)]
  with reap_inv [OF assms(2) at(2) reaps(4,5) at(3)] reaps(1) show ?thesis by simp
next
  case (reaped j e)
  note at = reaper_alone [OF assms(2) reaped(2,3)]
  with close_inv [OF assms(2) at(2,3)] reaped(1) show ?thesis by simp
next
  case (exits pid e)
  then show ?thesis using exit_inv [OF assms(2)] by simp
next
  case (writes pid p out)
  then show ?thesis using assms(2) by (intro inv_view [OF assms(2)]) (auto simp: same_view_def pm_inv_def)
qed


lemma serial_reachable: "(pm_step 1 L M)\<^sup>*\<^sup>* (pm_init b d h) c \<Longrightarrow> pm_inv c"
  by (induction rule: rtranclp_induct) (auto intro: pm_init_inv serial_step)

lemma stopped_idle: "pm_inv c \<Longrightarrow> PM_stopped (PS_m (PC_s c)) \<Longrightarrow> pm_idle c"
proof -
  assume inv: "pm_inv c" and stopped: "PM_stopped (PS_m (PC_s c))"
  have "call_ok c k \<Longrightarrow> pm_idle c" for k using stopped by (cases k) (auto simp: pm_rest_def)
  with inv stopped show ?thesis by (auto simp: pm_inv_def pm_rest_def split: list.splits)
qed

section \<open>Stop is final\<close>

definition stop_noted :: "'x pm_config \<Rightarrow> bool" where
  "stop_noted c \<longleftrightarrow> (StopAnswer \<in> set (PC_answers c) \<longrightarrow> PM_stopped (PS_m (PC_s c)))"

lemma sections_keep_stopped:
  assumes "section_of L k s = Some (p, t)"
  shows "PM_stopped (PS_m s) \<Longrightarrow> PM_stopped (PS_m t)" and "p = Returns StopAnswer \<Longrightarrow> PM_stopped (PS_m t)"
  using assms by (cases k; auto simp: removeSocketDir_def split: option.splits sum.splits if_splits prod.splits)+

lemma spawn_keeps_stopped: "start_spawn M b spawn s = (r, t) \<Longrightarrow> PM_stopped (PS_m t) = PM_stopped (PS_m s)"
  by (auto simp: start_spawn_def spawned_def Let_def split: prod.splits sum.splits option.splits)

lemma answers_advance [simp]: "PC_answers (advance i p c) = (case p of Goes k \<Rightarrow> PC_answers c | Returns a \<Rightarrow> a # PC_answers c)"
  by (simp add: advance_def split: progress.split)

lemma stop_noted_step:
  assumes "pm_step n L M c d" and "stop_noted c"
  shows "stop_noted d"
  using assms
proof (cases rule: pm_step.cases)
  case (runs i k p s')
  then show ?thesis using assms(2) sections_keep_stopped [OF runs(3)] by (auto simp: stop_noted_def split: progress.splits)
qed (auto simp: stop_noted_def killProcess_def Kill_def close_done_def exit_process_def begin_wait_def spawn_keeps_stopped split: option.splits if_splits)

lemma stop_noted_reachable: "(pm_step n L M)\<^sup>*\<^sup>* (pm_init b d h) c \<Longrightarrow> stop_noted c"
proof (induction rule: rtranclp_induct)
  case base
  show ?case by (simp add: stop_noted_def pm_init_def)
qed (auto intro: stop_noted_step)

text \<open>
  C20: Used by one caller at a time, the process manager owns exactly one process: in every state it can
  reach, whatever the program, the operating system and cancelled contexts do in between, at most one
  process it started runs, and that one is the process it would signal; no channel is closed twice;
  and once a call of \<open>Stop\<close> has returned nothing runs any more, whatever is called later.
\<close>

theorem serial_manager_owns_process:
  assumes "(pm_step 1 LookPath MkdirTemp)\<^sup>*\<^sup>* (pm_init binaryPath socketDir h) c"
  shows "(\<forall>pid. running (PC_s c) pid \<longrightarrow> PM_cmd (PS_m (PC_s c)) = Some pid) \<and> \<not> PS_panic (PC_s c) \<and>
    (StopAnswer \<in> set (PC_answers c) \<longrightarrow> (\<forall>pid. \<not> running (PC_s c) pid))"
proof -
  have inv: "pm_inv c" by (rule serial_reachable [OF assms])
  then have "\<forall>pid. running (PC_s c) pid \<longrightarrow> PM_cmd (PS_m (PC_s c)) = Some pid" by (auto simp: pm_inv_def pm_idle_def pm_live_def)
  moreover have "\<not> PS_panic (PC_s c)" using inv by (simp add: pm_inv_def)
  moreover have "\<forall>pid. \<not> running (PC_s c) pid" if "StopAnswer \<in> set (PC_answers c)"
    using stopped_idle [OF inv] stop_noted_reachable [OF assms] that by (auto simp: stop_noted_def pm_idle_def)
  ultimately show ?thesis by blast
qed


section \<open>Runs as lists of choices\<close>

text \<open>Who goes next; a run by such choices is a run of the step relation.\<close>

datatype choice = Arrive call | Runs nat | Spawns nat | Window nat | Forced nat | Reaper nat | Exits nat

fun pick :: "nat \<Rightarrow> (string \<Rightarrow> goerr + string) \<Rightarrow> ('x host, string) go \<Rightarrow> choice \<Rightarrow> 'x pm_config \<Rightarrow> 'x pm_config option" where
  "pick n L M (Arrive k) c = (if length (PC_calls c) < n \<and> k \<in> set [StartCheck, ReadyCheck, StopCheck]
     then Some (c\<lparr>PC_calls := PC_calls c @ [k]\<rparr>) else None)"
| "pick n L M (Runs i) c = (if i < length (PC_calls c) then (case section_of L (PC_calls c ! i) (PC_s c) of
     Some (p, s') \<Rightarrow> Some (advance i p (c\<lparr>PC_s := s'\<rparr>)) | None \<Rightarrow> None) else None)"
| "pick n L M (Spawns i) c = (if i < length (PC_calls c) then (case PC_calls c ! i of
     StartSpawn binary \<Rightarrow> (case start_spawn M binary None (PC_s c) of
       (Inr _, s') \<Rightarrow> Some (advance i (Goes StartSelect) (c\<lparr>PC_s := s', PC_reapers := PC_reapers c @ [ReapNew]\<rparr>))
     | (Inl _, _) \<Rightarrow> None)
   | _ \<Rightarrow> None) else None)"
| "pick n L M (Window i) c = (if i < length (PC_calls c) then (case PC_calls c ! i of
     StartWatch ch \<Rightarrow> (let s' = on_m (\<lambda>m. m\<lparr>PM_started := True\<rparr>) (PC_s c) in
       Some (advance i (Returns (StartAnswer (Inr (socketPath (PS_m s'))))) (c\<lparr>PC_s := s'\<rparr>)))
   | _ \<Rightarrow> None) else None)"
| "pick n L M (Forced i) c = (if i < length (PC_calls c) then (case PC_calls c ! i of
     StopGrace pid ch \<Rightarrow> Some (advance i (Goes (StopKilled ch)) (c\<lparr>PC_s := Kill pid (PC_s c)\<rparr>)) | _ \<Rightarrow> None) else None)"
| "pick n L M (Reaper j) c = (if j < length (PC_reapers c) then (case PC_reapers c ! j of
     ReapNew \<Rightarrow> (case PM_cmd (PS_m (PC_s c)) of
       Some pid \<Rightarrow> (case begin_wait pid (PC_s c) of (w, s') \<Rightarrow> Some (c\<lparr>PC_s := s', PC_reapers := (PC_reapers c)[j := w]\<rparr>))
     | None \<Rightarrow> None)
   | ReapWait pid \<Rightarrow> (case PS_procs (PC_s c) pid of
       Some p \<Rightarrow> (case Proc_Exit p of Some e \<Rightarrow> Some (c\<lparr>PC_reapers := (PC_reapers c)[j := ReapDone e]\<rparr>) | None \<Rightarrow> None)
     | None \<Rightarrow> None)
   | ReapDone e \<Rightarrow> Some (c\<lparr>PC_s := close_done e (PC_s c), PC_reapers := take j (PC_reapers c) @ drop (Suc j) (PC_reapers c)\<rparr>)) else None)"
| "pick n L M (Exits pid) c = (if running (PC_s c) pid then Some (c\<lparr>PC_s := exit_process pid None (PC_s c)\<rparr>) else None)"

fun pm_run :: "nat \<Rightarrow> (string \<Rightarrow> goerr + string) \<Rightarrow> ('x host, string) go \<Rightarrow> choice list \<Rightarrow> 'x pm_config \<Rightarrow> 'x pm_config option" where
  "pm_run n L M [] c = Some c"
| "pm_run n L M (a # as) c = (case pick n L M a c of Some d \<Rightarrow> pm_run n L M as d | None \<Rightarrow> None)"

lemma pick_step: "pick n L M a c = Some d \<Longrightarrow> pm_step n L M c d"
proof (cases a)
  case (Arrive k)
  assume "pick n L M a c = Some d"
  with Arrive show ?thesis by (auto intro: pm_step.arrive split: if_splits)
next
  case (Window i)
  assume "pick n L M a c = Some d"
  with Window obtain ch where "at_call c i (StartWatch ch)"
    and "d = (let s' = on_m (\<lambda>m. m\<lparr>PM_started := True\<rparr>) (PC_s c) in advance i (Returns (StartAnswer (Inr (socketPath (PS_m s'))))) (c\<lparr>PC_s := s'\<rparr>))"
    by (auto simp: at_call_def Let_def split: if_splits call.splits)
  with pm_step.window [OF this(1) refl, of n L M] show ?thesis by (simp add: Let_def)
next
  case (Reaper j)
  assume "pick n L M a c = Some d"
  with Reaper show ?thesis
    by (auto intro: pm_step.reap_begins pm_step.reaps pm_step.reaped split: if_splits reaper.splits option.splits prod.splits)
qed (auto simp: at_call_def intro: pm_step.runs pm_step.spawns pm_step.forced pm_step.exits split: if_splits option.splits prod.splits call.splits sum.splits)

lemma pm_run_steps: "pm_run n L M as c = Some d \<Longrightarrow> (pm_step n L M)\<^sup>*\<^sup>* c d"
proof (induction as arbitrary: c)
  case (Cons a as)
  then obtain e where "pick n L M a c = Some e" "pm_run n L M as e = Some d" by (auto split: option.splits)
  with Cons.IH pick_step show ?case by (meson converse_rtranclp_into_rtranclp)
qed simp


section \<open>One caller, and two\<close>

definition bare_host :: "unit host" where
  "bare_host = \<lparr>hs_nodes = [], hs_fault = (\<lambda>n c p. None), hs_calls = 0, hs_random = (\<lambda>n. []), hs_ext = ()\<rparr>"

definition sample_manager :: "unit pm_config" where
  "sample_manager = pm_init ''/usr/bin/cloud-hypervisor'' ''/run/ch/web'' bare_host"

definition no_temp :: "(unit host, string) go" where
  "no_temp = failG (plain_err ''no space'')"

abbreviation sample_run :: "nat \<Rightarrow> choice list \<Rightarrow> unit pm_config option" where
  "sample_run n as \<equiv> pm_run n (\<lambda>b. Inl (plain_err ''not found'')) no_temp as sample_manager"

text \<open>Start, with the process up after the window, then Stop, which has to kill it.\<close>

definition start_stop :: "choice list" where
  "start_stop = [Arrive StartCheck, Runs 0, Runs 0, Spawns 0, Runs 0, Reaper 0, Window 0, Arrive StopCheck, Runs 0, Runs 0, Forced 0,
     Reaper 0, Reaper 0, Runs 0, Runs 0, Runs 0]"

lemma start_stop_runs:
  "case sample_run 1 start_stop of Some c \<Rightarrow> StopAnswer \<in> set (PC_answers c) \<and> PM_started (PS_m (PC_s c)) | None \<Rightarrow> False"
  by code_simp

theorem serial_manager_owns_process_witness:
  "\<exists>c. sample_run 1 start_stop = Some c \<and> StopAnswer \<in> set (PC_answers c) \<and> \<not> PS_panic (PC_s c) \<and> (\<forall>pid. \<not> running (PC_s c) pid)"
proof -
  obtain c where c: "sample_run 1 start_stop = Some c" "StopAnswer \<in> set (PC_answers c)" using start_stop_runs by (auto split: option.splits)
  from serial_manager_owns_process [OF pm_run_steps [OF c(1), unfolded sample_manager_def]] c show ?thesis by blast
qed

text \<open>A Stop that comes between the check and the spawn of a Start.\<close>

definition stop_overtakes :: "choice list" where
  "stop_overtakes = [Arrive StartCheck, Runs 0, Runs 0, Arrive StopCheck, Runs 1, Runs 1, Runs 1, Spawns 0, Runs 0, Reaper 0, Window 0]"

text \<open>Two Starts that both passed the check, and a Stop afterwards.\<close>

definition two_starts :: "choice list" where
  "two_starts = [Arrive StartCheck, Runs 0, Runs 0, Arrive StartCheck, Runs 1, Runs 1, Spawns 0, Runs 0, Reaper 0, Spawns 1, Runs 1, Reaper 1,
     Window 0, Window 0, Arrive StopCheck, Runs 0, Runs 0, Forced 0, Reaper 1, Reaper 1, Runs 0, Runs 0, Runs 0]"

lemma overtaken_runs:
  "case sample_run 2 stop_overtakes of Some c \<Rightarrow> PC_calls c = [] \<and> StopAnswer \<in> set (PC_answers c) \<and> running (PC_s c) 2 | None \<Rightarrow> False"
  by code_simp

lemma two_starts_run:
  "case sample_run 2 two_starts of
     Some c \<Rightarrow> PC_calls c = [] \<and> StopAnswer \<in> set (PC_answers c) \<and> running (PC_s c) 2 \<and> PM_cmd (PS_m (PC_s c)) = Some 4
   | None \<Rightarrow> False"
  by code_simp

lemma two_starts_panic: "case sample_run 2 (two_starts @ [Exits 2, Reaper 0, Reaper 0]) of Some c \<Rightarrow> PS_panic (PC_s c) | None \<Rightarrow> False"
  by code_simp

lemma sample_reaches:
  assumes "case sample_run n as of Some c \<Rightarrow> P c | None \<Rightarrow> False"
  shows "\<exists>c. (pm_step n (\<lambda>b. Inl (plain_err ''not found'')) no_temp)\<^sup>*\<^sup>* sample_manager c \<and> P c"
  using assms pm_run_steps by (fastforce split: option.splits)

text \<open>
  C38: The process manager is not safe for two callers at a time. A \<open>Stop\<close> that runs between the
  check and the spawn of a \<open>Start\<close> returns with success, and the process is started after it and
  runs with the manager stopped. Two calls of \<open>Start\<close> that both pass the check start two processes;
  \<open>Stop\<close> ends one and returns with success while the other runs, unknown to the manager; and when that one
  exits, its goroutine closes the channel of the other a second time, which is a panic. (The comment of
  the type says that it is safe for concurrent use, that of \<open>Stop\<close> that it leaves no process running.)
\<close>

theorem concurrent_manager_leaks_process:
  "(\<exists>c pid. (pm_step 2 (\<lambda>b. Inl (plain_err ''not found'')) no_temp)\<^sup>*\<^sup>* sample_manager c \<and> PC_calls c = [] \<and>
     StopAnswer \<in> set (PC_answers c) \<and> running (PC_s c) pid) \<and>
   (\<exists>c pid. (pm_step 2 (\<lambda>b. Inl (plain_err ''not found'')) no_temp)\<^sup>*\<^sup>* sample_manager c \<and> PC_calls c = [] \<and>
     StopAnswer \<in> set (PC_answers c) \<and> running (PC_s c) pid \<and> PM_cmd (PS_m (PC_s c)) \<noteq> Some pid) \<and>
   (\<exists>c. (pm_step 2 (\<lambda>b. Inl (plain_err ''not found'')) no_temp)\<^sup>*\<^sup>* sample_manager c \<and> PS_panic (PC_s c))"
proof (intro conjI)
  show "\<exists>c pid. (pm_step 2 (\<lambda>b. Inl (plain_err ''not found'')) no_temp)\<^sup>*\<^sup>* sample_manager c \<and> PC_calls c = [] \<and>
     StopAnswer \<in> set (PC_answers c) \<and> running (PC_s c) pid"
    using sample_reaches [OF overtaken_runs] by blast
  show "\<exists>c pid. (pm_step 2 (\<lambda>b. Inl (plain_err ''not found'')) no_temp)\<^sup>*\<^sup>* sample_manager c \<and> PC_calls c = [] \<and>
     StopAnswer \<in> set (PC_answers c) \<and> running (PC_s c) pid \<and> PM_cmd (PS_m (PC_s c)) \<noteq> Some pid"
    using sample_reaches [OF two_starts_run] by fastforce
  show "\<exists>c. (pm_step 2 (\<lambda>b. Inl (plain_err ''not found'')) no_temp)\<^sup>*\<^sup>* sample_manager c \<and> PS_panic (PC_s c)"
    by (rule sample_reaches [OF two_starts_panic])
qed

end
