(* ===== verification/K8netd.thy ===== *)
theory K8netd
  imports Json Provider
begin

text \<open>
  The client of the network daemon k8netd (\<open>internal/k8netd\<close>) and the fake daemon of the test suites
  (\<open>internal/k8netd/fake\<close>). Both exchange one JSON document per connection, here a value of type
  \<open>json\<close>; the connection is a parameter of the client.
\<close>

section \<open>Errors (errors.go)\<close>

definition code_sentinel :: "string \<Rightarrow> sentinel" where
  "code_sentinel code =
     (if code = ''not_found'' then NetNotFound else if code = ''already_exists'' then NetAlreadyExists
      else if code = ''invalid_params'' then NetInvalidParams else if code = ''conflict'' then NetConflict else NetInternal)"

definition mapRPCError :: "string \<Rightarrow> string \<Rightarrow> goerr" where
  "mapRPCError code message =
     detail_err (code_sentinel code) (code @ '': '' @ (if message = [] then code else message))"

section \<open>Decoding\<close>

text \<open>
  \<open>encoding/json\<close> assigns the members of an object one after another; names match without regard to case,
  and \<open>null\<close> assigns nothing.
\<close>

definition members :: "(string \<times> json) list \<Rightarrow> string \<Rightarrow> json list" where
  "members fs k = map snd (filter (\<lambda>(k', v). ToLower k' = ToLower k) fs)"

definition into_string_from :: "string \<Rightarrow> json list \<Rightarrow> string option" where
  "into_string_from s0 vs = foldl (\<lambda>acc v. case acc of None \<Rightarrow> None | Some s \<Rightarrow>
     (case v of JString t \<Rightarrow> Some t | JNull \<Rightarrow> Some s | _ \<Rightarrow> None)) (Some s0) vs"

abbreviation into_string :: "json list \<Rightarrow> string option" where
  "into_string \<equiv> into_string_from []"

definition int32_range :: "int \<Rightarrow> bool" where
  "int32_range i \<longleftrightarrow> - (2 ^ 31) \<le> i \<and> i < 2 ^ 31"

text \<open>Into a pointer to a number: \<open>null\<close> makes it nil again.\<close>

definition into_int32_pointer :: "json list \<Rightarrow> int32 option option" where
  "into_int32_pointer vs = foldl (\<lambda>acc v. case acc of None \<Rightarrow> None | Some p \<Rightarrow>
     (case v of JInt i \<Rightarrow> if int32_range i then Some (Some (word_of_int i)) else None | JNull \<Rightarrow> Some None | _ \<Rightarrow> None)) (Some None) vs"

definition into_int32 :: "json list \<Rightarrow> int32 option" where
  "into_int32 vs = foldl (\<lambda>acc v. case acc of None \<Rightarrow> None | Some n \<Rightarrow>
     (case v of JInt i \<Rightarrow> if int32_range i then Some (word_of_int i) else None | JNull \<Rightarrow> Some n | _ \<Rightarrow> None)) (Some 0) vs"

record rpc_error =
  RE_Code :: string
  RE_Message :: string

text \<open>A second \<open>error\<close> member is decoded into the object the first one left.\<close>

definition error_value :: "rpc_error option \<Rightarrow> json \<Rightarrow> rpc_error option" where
  "error_value p v = (case v of
     JObject fs \<Rightarrow> (case (into_string_from (case p of None \<Rightarrow> [] | Some e \<Rightarrow> RE_Code e) (members fs ''code''),
                            into_string_from (case p of None \<Rightarrow> [] | Some e \<Rightarrow> RE_Message e) (members fs ''message'')) of
       (Some c, Some m) \<Rightarrow> Some \<lparr>RE_Code = c, RE_Message = m\<rparr> | _ \<Rightarrow> None)
   | _ \<Rightarrow> None)"

definition into_error :: "json list \<Rightarrow> rpc_error option option" where
  "into_error vs = foldl (\<lambda>acc v. case acc of None \<Rightarrow> None | Some p \<Rightarrow>
     (if v = JNull then Some None else case error_value p v of None \<Rightarrow> None | Some e \<Rightarrow> Some (Some e))) (Some None) vs"

record rpc_response =
  Resp_Result :: "json option"
  Resp_Error :: "rpc_error option"

definition rpcResponse :: "json \<Rightarrow> rpc_response option" where
  "rpcResponse v = (case v of
     JObject fs \<Rightarrow>
       (case (into_string (members fs ''jsonrpc''), into_string (members fs ''version''), into_error (members fs ''error'')) of
          (Some _, Some _, Some e) \<Rightarrow> Some \<lparr>Resp_Result = (case members fs ''result'' of [] \<Rightarrow> None | vs \<Rightarrow> Some (last vs)), Resp_Error = e\<rparr>
        | _ \<Rightarrow> None)
   | JNull \<Rightarrow> Some \<lparr>Resp_Result = None, Resp_Error = None\<rparr>
   | _ \<Rightarrow> None)"

section \<open>The client (client.go)\<close>

definition k8netdVersion :: string where
  "k8netdVersion = ''1.0''"

text \<open>
  The outside of a client: connecting to the socket, sending and receiving one document, sleeping (which
  fails with the error of the context when that is done), whether the context is done already, and how much time
  its deadline leaves, if it has one; and the counter of the requests.
\<close>

record 's wire =
  Wire_Dial :: "string \<Rightarrow> ('s, unit) go"
  Wire_Send :: "json \<Rightarrow> ('s, unit) go"
  Wire_Receive :: "('s, json) go"
  Wire_Sleep :: "nat \<Rightarrow> ('s, unit) go"
  Wire_CtxErr :: "'s \<Rightarrow> goerr option"
  Wire_Deadline :: "nat option"
  Wire_NextID :: "'s \<Rightarrow> int64 \<times> 's"

record 's k8netd_client =
  KC_SocketPath :: string
  KC_Version :: string
  KC_Wire :: "'s wire"

definition NewClient :: "string \<Rightarrow> 's wire \<Rightarrow> 's k8netd_client" where
  "NewClient socketPath w = \<lparr>KC_SocketPath = socketPath, KC_Version = k8netdVersion, KC_Wire = w\<rparr>"

text \<open>
  Dialling retries with growing delays, here in nanoseconds; the time that passes is the time slept. Without a
  deadline in the context it gives up after two seconds; a deadline ends it with the error of the context.
\<close>

definition maxDelay :: nat where "maxDelay = 100000000"
definition defaultTimeout :: nat where "defaultTimeout = 2000000000"

fun dial_delay :: "nat \<Rightarrow> nat" where
  "dial_delay 0 = 10000000"
| "dial_delay (Suc k) = min (dial_delay k * 3 div 2) maxDelay"

lemma dial_delay_positive [simp]: "0 < dial_delay k"
  by (induction k) (auto simp: maxDelay_def)

definition context_check :: "'s wire \<Rightarrow> nat \<Rightarrow> ('s, unit) go" where
  "context_check w elapsed = (\<lambda>s. case Wire_CtxErr w s of
     Some e \<Rightarrow> (Inl e, s)
   | None \<Rightarrow> (case Wire_Deadline w of
       Some d \<Rightarrow> if elapsed \<ge> d then (Inl (sentinel_err ContextDeadlineExceeded), s) else (Inr (), s)
     | None \<Rightarrow> (Inr (), s)))"

definition time_limit :: "'s wire \<Rightarrow> nat" where
  "time_limit w = (case Wire_Deadline w of None \<Rightarrow> defaultTimeout | Some d \<Rightarrow> d)"

function dial_loop :: "'s k8netd_client \<Rightarrow> nat \<Rightarrow> nat \<Rightarrow> ('s, unit) go" where
  "dial_loop c elapsed k =
     catchG (Wire_Dial (KC_Wire c) (KC_SocketPath c)) (\<lambda>res. case res of
       Inr _ \<Rightarrow> returnG ()
     | Inl lastErr \<Rightarrow>
         bindG (context_check (KC_Wire c) elapsed) (\<lambda>_.
         if elapsed \<ge> time_limit (KC_Wire c)
         then failG (detail_err NetInternal (''dial '' @ Quote (KC_SocketPath c) @ '': '' @ err_text lastErr))
         else bindG (Wire_Sleep (KC_Wire c) (dial_delay k)) (\<lambda>_. dial_loop c (elapsed + dial_delay k) (Suc k))))"
  by pat_completeness auto
termination
  by (relation "measure (\<lambda>(c, elapsed, k). time_limit (KC_Wire c) - elapsed)") (auto intro: diff_less_mono2)

declare dial_loop.simps [simp del]

definition dial :: "'s k8netd_client \<Rightarrow> ('s, unit) go" where
  "dial c = dial_loop c 0 0"

definition rpcRequest :: "int64 \<Rightarrow> string \<Rightarrow> string \<Rightarrow> json \<Rightarrow> json" where
  "rpcRequest i version meth params =
     JObject [(''jsonrpc'', JString ''2.0''), (''id'', JInt (sint i)), (''version'', JString version), (''method'', JString meth), (''params'', params)]"

text \<open>A failed step of the exchange is an internal error that only quotes the underlying one.\<close>

definition internalG :: "string \<Rightarrow> ('s, 'a) go \<Rightarrow> ('s, 'a) go" where
  "internalG what m = catchG m (\<lambda>res. case res of Inl e \<Rightarrow> failG (detail_err NetInternal (what @ '': '' @ err_text e)) | Inr x \<Rightarrow> returnG x)"

text \<open>The result of a call: none for a missing or null result.\<close>

definition Client_call :: "'s k8netd_client \<Rightarrow> string \<Rightarrow> json \<Rightarrow> ('s, json option) go" where
  "Client_call c meth params =
     bindG (\<lambda>s. case Wire_NextID (KC_Wire c) s of (i, t) \<Rightarrow> (Inr i, t)) (\<lambda>i.
     bindG (dial c) (\<lambda>_.
     bindG (internalG (''encode request '' @ Quote meth) (Wire_Send (KC_Wire c) (rpcRequest i (KC_Version c) meth params))) (\<lambda>_.
     bindG (internalG (''decode response '' @ Quote meth)
       (bindG (Wire_Receive (KC_Wire c)) (\<lambda>v. case rpcResponse v of
          None \<Rightarrow> failG (plain_err ''json: cannot unmarshal into rpcResponse'') | Some resp \<Rightarrow> returnG resp))) (\<lambda>resp.
     case Resp_Error resp of
       Some e \<Rightarrow> failG (mapRPCError (RE_Code e) (RE_Message e))
     | None \<Rightarrow> returnG (case Resp_Result resp of Some JNull \<Rightarrow> None | r \<Rightarrow> r)))))"

definition void_call :: "'s k8netd_client \<Rightarrow> string \<Rightarrow> json \<Rightarrow> ('s, unit) go" where
  "void_call c meth params = bindG (Client_call c meth params) (\<lambda>_. returnG ())"

text \<open>A Go map is written with its keys in order.\<close>

definition strings :: "(string \<times> string) list \<Rightarrow> json" where
  "strings kvs = JObject (map (\<lambda>(k, v). (k, JString v)) kvs)"

definition Net_CreateNetwork :: "'s k8netd_client \<Rightarrow> string \<Rightarrow> string \<Rightarrow> string \<Rightarrow> string \<Rightarrow> string \<Rightarrow> ('s, unit) go" where
  "Net_CreateNetwork c name cidr gateway poolStart poolEnd = void_call c ''CreateNetwork''
     (strings [(''cidr'', cidr), (''gateway'', gateway), (''name'', name), (''poolEnd'', poolEnd), (''poolStart'', poolStart)])"

definition Net_DeleteNetwork :: "'s k8netd_client \<Rightarrow> string \<Rightarrow> ('s, unit) go" where
  "Net_DeleteNetwork c name = void_call c ''DeleteNetwork'' (strings [(''name'', name)])"

record network =
  Network_Name :: string
  Network_CIDR :: string
  Network_Gateway :: string
  Network_PoolStart :: string
  Network_PoolEnd :: string

record net_port =
  NPort_Name :: string
  NPort_Network :: string
  NPort_MAC :: string
  NPort_IP :: string
  NPort_SocketPath :: string

text \<open>Five string members of an object, or of nothing.\<close>

definition five_strings :: "string list \<Rightarrow> json option \<Rightarrow> string list option" where
  "five_strings ks r = (case r of
     None \<Rightarrow> Some (replicate (length ks) [])
   | Some (JObject fs) \<Rightarrow> those (map (\<lambda>k. into_string (members fs k)) ks)
   | Some _ \<Rightarrow> None)"

definition decode_result :: "string \<Rightarrow> string list \<Rightarrow> json option \<Rightarrow> ('s, string list) go" where
  "decode_result meth ks r = (case five_strings ks r of
     None \<Rightarrow> failG (detail_err NetInternal (''decode result '' @ Quote meth @ '': json: cannot unmarshal''))
   | Some vs \<Rightarrow> returnG vs)"

definition Net_GetNetwork :: "'s k8netd_client \<Rightarrow> string \<Rightarrow> ('s, network) go" where
  "Net_GetNetwork c name =
     bindG (Client_call c ''GetNetwork'' (strings [(''name'', name)])) (\<lambda>r.
     bindG (decode_result ''GetNetwork'' [''name'', ''cidr'', ''gateway'', ''poolStart'', ''poolEnd''] r) (\<lambda>vs.
     returnG \<lparr>Network_Name = vs ! 0, Network_CIDR = vs ! 1, Network_Gateway = vs ! 2, Network_PoolStart = vs ! 3, Network_PoolEnd = vs ! 4\<rparr>))"

definition Net_CreatePort :: "'s k8netd_client \<Rightarrow> string \<Rightarrow> ('s, unit) go" where
  "Net_CreatePort c name = void_call c ''CreatePort'' (strings [(''name'', name)])"

definition Net_DeletePort :: "'s k8netd_client \<Rightarrow> string \<Rightarrow> ('s, unit) go" where
  "Net_DeletePort c name = void_call c ''DeletePort'' (strings [(''name'', name)])"

definition Net_GetPort :: "'s k8netd_client \<Rightarrow> string \<Rightarrow> ('s, net_port) go" where
  "Net_GetPort c name =
     bindG (Client_call c ''GetPort'' (strings [(''name'', name)])) (\<lambda>r.
     bindG (decode_result ''GetPort'' [''name'', ''network'', ''mac'', ''ip'', ''socketPath''] r) (\<lambda>vs.
     returnG \<lparr>NPort_Name = vs ! 0, NPort_Network = vs ! 1, NPort_MAC = vs ! 2, NPort_IP = vs ! 3, NPort_SocketPath = vs ! 4\<rparr>))"

definition Net_AttachPort :: "'s k8netd_client \<Rightarrow> string \<Rightarrow> string \<Rightarrow> string \<Rightarrow> ('s, unit) go" where
  "Net_AttachPort c port network mac = void_call c ''AttachPort'' (strings [(''mac'', mac), (''network'', network), (''port'', port)])"

definition Net_DetachPort :: "'s k8netd_client \<Rightarrow> string \<Rightarrow> ('s, unit) go" where
  "Net_DetachPort c port = void_call c ''DetachPort'' (strings [(''name'', port)])"

definition raw_text :: "json option \<Rightarrow> string" where
  "raw_text r = (case r of None \<Rightarrow> [] | Some v \<Rightarrow> Marshal v)"

definition Net_AllocateIP :: "'s k8netd_client \<Rightarrow> string \<Rightarrow> string \<Rightarrow> ('s, string) go" where
  "Net_AllocateIP c network mac =
     bindG (Client_call c ''AllocateIP'' (strings [(''mac'', mac), (''network'', network)])) (\<lambda>raw. case raw of
       Some (JString ip) \<Rightarrow> if ip = [] then failG (detail_err NetInternal ''AllocateIP returned an empty address'') else returnG ip
     | _ \<Rightarrow> failG (detail_err NetInternal (''AllocateIP result shape: want a JSON string, got '' @ raw_text raw)))"

definition Net_ReleaseIP :: "'s k8netd_client \<Rightarrow> string \<Rightarrow> string \<Rightarrow> ('s, unit) go" where
  "Net_ReleaseIP c network mac = void_call c ''ReleaseIP'' (strings [(''mac'', mac), (''network'', network)])"

definition port_params :: "string \<Rightarrow> int32 \<Rightarrow> json" where
  "port_params port vmPort = JObject [(''port'', JString port), (''vm_port'', JInt (sint vmPort))]"

definition host_port_of :: "json option \<Rightarrow> int32 option option" where
  "host_port_of r = (case r of Some (JObject fs) \<Rightarrow> into_int32_pointer (members fs ''host_port'') | _ \<Rightarrow> None)"

definition Net_PublishPort :: "'s k8netd_client \<Rightarrow> string \<Rightarrow> int32 \<Rightarrow> ('s, int32) go" where
  "Net_PublishPort c port vmPort =
     bindG (Client_call c ''PublishPort'' (port_params port vmPort)) (\<lambda>raw. case host_port_of raw of
       None \<Rightarrow> failG (detail_err NetInternal (''PublishPort result shape: want {'' @ json_string ''host_port'' @ '': N}, got '' @ raw_text raw))
     | Some p \<Rightarrow> (case p of
         Some n \<Rightarrow> if sint n \<le> 0
           then failG (detail_err NetInternal (''PublishPort result shape: want a positive host_port, got '' @ raw_text raw)) else returnG n
       | None \<Rightarrow> failG (detail_err NetInternal (''PublishPort result shape: want a positive host_port, got '' @ raw_text raw))))"

definition Net_UnpublishPort :: "'s k8netd_client \<Rightarrow> string \<Rightarrow> int32 \<Rightarrow> ('s, unit) go" where
  "Net_UnpublishPort c port vmPort =
     (if sint vmPort \<le> 0 \<or> sint vmPort > 65535 then failG (detail_err NetInvalidParams ''invalid VM port'')
      else void_call c ''UnpublishPort'' (port_params port vmPort))"

end
