(* ===== verification/K8netdFake.thy ===== *)
theory K8netdFake
  imports K8netd "HOL-Library.Log_Nat"
begin

text \<open>
  The fake network daemon of the test suites (\<open>internal/k8netd/fake/server.go\<close>), and the client
  of \<open>K8netd\<close> connected to it: what the client returns is what the allocator of the daemon recorded.
\<close>

section \<open>Documents\<close>

text \<open>
  The identifier of a request is decoded into an \<open>any\<close>: a number becomes a float64, an object a map that
  is written with its keys in order. Integers of more than 53 bits are rounded to the nearest float64, ties to even;
  one that is too large for any float64 is a decoding error.
\<close>

definition float64_nat :: "nat \<Rightarrow> nat" where
  "float64_nat n = (if n < 2 ^ 53 then n else
     let e = floorlog 2 n - 53; q = n div 2 ^ e; r = n mod 2 ^ e in
     (if 2 * r < 2 ^ e \<or> (2 * r = 2 ^ e \<and> even q) then q else q + 1) * 2 ^ e)"

definition float64_int :: "int \<Rightarrow> int" where
  "float64_int i = (if i < 0 then - int (float64_nat (nat (- i))) else int (float64_nat (nat i)))"

definition written_map :: "(string \<times> json) list \<Rightarrow> (string \<times> json) list" where
  "written_map fs = map (\<lambda>k. (k, the (map_of (rev fs) k))) (sort (remdups (map fst fs)))"

fun any_value :: "json \<Rightarrow> json option" where
  "any_value (JInt i) = (if \<bar>float64_int i\<bar> < 2 ^ 1024 then Some (JInt (float64_int i)) else None)"
| "any_value (JArray vs) = map_option JArray (those (map any_value vs))"
| "any_value (JObject fs) = map_option (\<lambda>vs. JObject (written_map (zip (map fst fs) vs))) (those (map (\<lambda>(k, v). any_value v) fs))"
| "any_value v = Some v"

definition into_any :: "json list \<Rightarrow> json option" where
  "into_any vs = foldl (\<lambda>acc v. case acc of None \<Rightarrow> None | Some _ \<Rightarrow> any_value v) (Some JNull) vs"

definition into_raw :: "json list \<Rightarrow> json option" where
  "into_raw vs = (case vs of [] \<Rightarrow> None | _ \<Rightarrow> Some (last vs))"

record rpc_request =
  Req_JSONRPC :: string
  Req_ID :: json
  Req_Version :: string
  Req_Method :: string
  Req_Params :: "json option"

definition read_request :: "json \<Rightarrow> rpc_request option" where
  "read_request v = (case v of
     JObject fs \<Rightarrow>
       (case (into_string (members fs ''jsonrpc''), into_any (members fs ''id''), into_string (members fs ''version''),
              into_string (members fs ''method'')) of
          (Some j, Some i, Some ver, Some m) \<Rightarrow>
            Some \<lparr>Req_JSONRPC = j, Req_ID = i, Req_Version = ver, Req_Method = m, Req_Params = into_raw (members fs ''params'')\<rparr>
        | _ \<Rightarrow> None)
   | JNull \<Rightarrow> Some \<lparr>Req_JSONRPC = [], Req_ID = JNull, Req_Version = [], Req_Method = [], Req_Params = None\<rparr>
   | _ \<Rightarrow> None)"

text \<open>An answer leaves out an empty version, a nil result and a nil error.\<close>

definition write_error :: "rpc_error \<Rightarrow> json" where
  "write_error e = JObject [(''code'', JString (RE_Code e)), (''message'', JString (RE_Message e))]"

definition write_response :: "json \<Rightarrow> string \<Rightarrow> rpc_error + json \<Rightarrow> json" where
  "write_response i version r =
     JObject ([(''jsonrpc'', JString ''2.0''), (''id'', i)] @
       (if version = [] then [] else [(''version'', JString version)]) @
       (case r of Inl e \<Rightarrow> [(''error'', write_error e)] | Inr v \<Rightarrow> if v = JNull then [] else [(''result'', v)]))"

section \<open>The server\<close>

text \<open>
  A handler is a function of the parameters and of the state \<open>'h\<close> of the test that registered it; a nil
  handler can be registered too. Results are documents, with \<open>JNull\<close> for nil.
\<close>

type_synonym 'h handler = "json option \<Rightarrow> 'h \<Rightarrow> (rpc_error + json) \<times> 'h"

type_synonym publishKey = "string \<times> int32"

definition fakePublishBasePort :: int32 where
  "fakePublishBasePort = 20000"

record captured_request = rpc_request +
  Captured_Raw :: json

record 'h fake_server =
  FS_Path :: string
  FS_Requests :: "captured_request list"
  FS_Handlers :: "string \<rightharpoonup> 'h handler option"
  FS_Results :: "string \<rightharpoonup> json"
  FS_Errors :: "string \<rightharpoonup> rpc_error"
  FS_ExpectedVersion :: string
  FS_Published :: "publishKey \<rightharpoonup> int32"
  FS_NextHostPort :: int32
  FS_Closed :: bool

definition fresh_server :: "string \<Rightarrow> 'h fake_server" where
  "fresh_server socketPath = \<lparr>FS_Path = socketPath, FS_Requests = [], FS_Handlers = Map.empty, FS_Results = Map.empty, FS_Errors = Map.empty,
     FS_ExpectedVersion = [], FS_Published = Map.empty, FS_NextHostPort = fakePublishBasePort, FS_Closed = False\<rparr>"

text \<open>The system calls of the server: removing the socket file and listening on it.\<close>

definition New :: "(string \<Rightarrow> ('w, unit) go) \<Rightarrow> (string \<Rightarrow> ('w, unit) go) \<Rightarrow> string \<Rightarrow> ('w, 'h fake_server) go" where
  "New remove listen socketPath =
     catchG (remove socketPath) (\<lambda>_.
     bindG (wrapG (''fake k8netd listen '' @ Quote socketPath) (listen socketPath)) (\<lambda>_.
     returnG (fresh_server socketPath)))"

definition NewWithVersion :: "(string \<Rightarrow> ('w, unit) go) \<Rightarrow> (string \<Rightarrow> ('w, unit) go) \<Rightarrow> string \<Rightarrow> string \<Rightarrow> ('w, 'h fake_server) go" where
  "NewWithVersion remove listen socketPath expectedVersion =
     bindG (New remove listen socketPath) (\<lambda>s. returnG (s\<lparr>FS_ExpectedVersion := expectedVersion\<rparr>))"

definition Handle :: "string \<Rightarrow> 'h handler option \<Rightarrow> 'h fake_server \<Rightarrow> 'h fake_server" where
  "Handle m fn s = s\<lparr>FS_Handlers := (FS_Handlers s)(m \<mapsto> fn), FS_Results := (FS_Results s)(m := None), FS_Errors := (FS_Errors s)(m := None)\<rparr>"

definition SetResult :: "string \<Rightarrow> json \<Rightarrow> 'h fake_server \<Rightarrow> 'h fake_server" where
  "SetResult m result s = s\<lparr>FS_Results := (FS_Results s)(m \<mapsto> result), FS_Handlers := (FS_Handlers s)(m := None), FS_Errors := (FS_Errors s)(m := None)\<rparr>"

definition SetError :: "string \<Rightarrow> string \<Rightarrow> string \<Rightarrow> 'h fake_server \<Rightarrow> 'h fake_server" where
  "SetError m code message s = s\<lparr>FS_Errors := (FS_Errors s)(m \<mapsto> \<lparr>RE_Code = code, RE_Message = message\<rparr>),
     FS_Handlers := (FS_Handlers s)(m := None), FS_Results := (FS_Results s)(m := None)\<rparr>"

definition SetErrorCode :: "string \<Rightarrow> string \<Rightarrow> 'h fake_server \<Rightarrow> 'h fake_server" where
  "SetErrorCode m code s = SetError m code code s"

definition SetExpectedVersion :: "string \<Rightarrow> 'h fake_server \<Rightarrow> 'h fake_server" where
  "SetExpectedVersion v s = s\<lparr>FS_ExpectedVersion := v\<rparr>"

definition Requests :: "'h fake_server \<Rightarrow> captured_request list" where
  "Requests s = FS_Requests s"

definition RequestCount :: "'h fake_server \<Rightarrow> nat" where
  "RequestCount s = length (FS_Requests s)"

definition IsSet :: "string \<Rightarrow> 'h fake_server \<Rightarrow> bool" where
  "IsSet m s \<longleftrightarrow> FS_Results s m \<noteq> None \<or> FS_Errors s m \<noteq> None \<or> FS_Handlers s m \<noteq> None"

definition Reset :: "'h fake_server \<Rightarrow> 'h fake_server" where
  "Reset s = s\<lparr>FS_Requests := [], FS_Handlers := Map.empty, FS_Results := Map.empty, FS_Errors := Map.empty\<rparr>"

definition Server_Close :: "('w, unit) go \<Rightarrow> (string \<Rightarrow> ('w, unit) go) \<Rightarrow> 'h fake_server \<Rightarrow> ('w, 'h fake_server) go" where
  "Server_Close stop_listening remove s =
     (if FS_Closed s then returnG s
      else catchG stop_listening (\<lambda>_. catchG (remove (FS_Path s)) (\<lambda>_. returnG (s\<lparr>FS_Closed := True\<rparr>))))"

text \<open>The allocator: a published pair keeps its port, and the counter never goes back.\<close>

definition decode_key :: "json option \<Rightarrow> publishKey option" where
  "decode_key params = (case params of
     Some (JObject fs) \<Rightarrow> (case (into_string (members fs ''port''), into_int32 (members fs ''vm_port'')) of
        (Some p, Some v) \<Rightarrow> Some (p, v) | _ \<Rightarrow> None)
   | Some JNull \<Rightarrow> Some ([], 0)
   | _ \<Rightarrow> None)"

definition legal_key :: "publishKey \<Rightarrow> bool" where
  "legal_key key \<longleftrightarrow> fst key \<noteq> [] \<and> 0 < sint (snd key) \<and> sint (snd key) \<le> 65535"

definition invalid_params :: "string \<Rightarrow> rpc_error" where
  "invalid_params message = \<lparr>RE_Code = ''invalid_params'', RE_Message = message\<rparr>"

definition host_port_result :: "int32 \<Rightarrow> json" where
  "host_port_result host = JObject [(''host_port'', JInt (sint host))]"

definition builtinPublishPort :: "json option \<Rightarrow> 'h fake_server \<Rightarrow> (rpc_error + json) \<times> 'h fake_server" where
  "builtinPublishPort params s = (case decode_key params of
     None \<Rightarrow> (Inl (invalid_params ''decode PublishPort params: json: cannot unmarshal''), s)
   | Some key \<Rightarrow>
       if \<not> legal_key key then (Inl (invalid_params ''PublishPort params must carry port and vm_port''), s)
       else (case FS_Published s key of
           Some host \<Rightarrow> (Inr (host_port_result host), s)
         | None \<Rightarrow> let host = FS_NextHostPort s in
             (Inr (host_port_result host), s\<lparr>FS_NextHostPort := host + 1, FS_Published := (FS_Published s)(key \<mapsto> host)\<rparr>)))"

definition builtinUnpublishPort :: "json option \<Rightarrow> 'h fake_server \<Rightarrow> rpc_error option \<times> 'h fake_server" where
  "builtinUnpublishPort params s = (case decode_key params of
     None \<Rightarrow> (Some (invalid_params ''decode UnpublishPort params: json: cannot unmarshal''), s)
   | Some key \<Rightarrow>
       if \<not> legal_key key then (Some (invalid_params ''UnpublishPort params must carry port and vm_port''), s)
       else (case FS_Published s key of
           None \<Rightarrow> (Some \<lparr>RE_Code = ''not_found'', RE_Message = ''published port mapping not found''\<rparr>, s)
         | Some _ \<Rightarrow> (None, s\<lparr>FS_Published := (FS_Published s)(key := None)\<rparr>)))"

text \<open>
  One connection. The first lock covers recording the request and looking up the stubs (\<open>capture\<close>);
  what follows uses the stubs found then (\<open>respond\<close>), and the allocator takes the lock again. Other
  connections can run in between.
\<close>

record 'h stubs =
  Stub_Version :: string
  Stub_Handler :: "'h handler option"
  Stub_Result :: "json option"
  Stub_Error :: "rpc_error option"

definition capture :: "rpc_request \<Rightarrow> json \<Rightarrow> 'h fake_server \<Rightarrow> 'h stubs \<times> 'h fake_server" where
  "capture req raw s =
     (\<lparr>Stub_Version = FS_ExpectedVersion s, Stub_Handler = (case FS_Handlers s (Req_Method req) of Some h \<Rightarrow> h | None \<Rightarrow> None),
       Stub_Result = FS_Results s (Req_Method req), Stub_Error = FS_Errors s (Req_Method req)\<rparr>,
      s\<lparr>FS_Requests := FS_Requests s @ [rpc_request.extend req (captured_request.fields raw)]\<rparr>)"

definition rewritten :: "rpc_request \<Rightarrow> json" where
  "rewritten req = JObject [(''jsonrpc'', JString (Req_JSONRPC req)), (''id'', Req_ID req), (''version'', JString (Req_Version req)),
     (''method'', JString (Req_Method req)), (''params'', case Req_Params req of None \<Rightarrow> JNull | Some v \<Rightarrow> v)]"

definition respond :: "rpc_request \<Rightarrow> 'h stubs \<Rightarrow> 'h fake_server \<times> 'h \<Rightarrow> json \<times> 'h fake_server \<times> 'h" where
  "respond req st = (\<lambda>(s, h).
     let send = write_response (Req_ID req) (Req_Version req) in
     if Req_JSONRPC req \<noteq> ''2.0'' then (write_response (Req_ID req) [] (Inl (invalid_params ''jsonrpc must be 2.0'')), s, h)
     else if Req_Method req = [] then (write_response (Req_ID req) [] (Inl (invalid_params ''method required'')), s, h)
     else if Stub_Version st \<noteq> [] \<and> Req_Version req \<noteq> Stub_Version st
     then (send (Inl (invalid_params (''version mismatch: got '' @ Quote (Req_Version req) @ '' want '' @ Quote (Stub_Version st)))), s, h)
     else case Stub_Error st of Some e \<Rightarrow> (send (Inl e), s, h)
     | None \<Rightarrow> (case Stub_Handler st of Some fn \<Rightarrow> (case fn (Req_Params req) h of (r, h') \<Rightarrow> (send r, s, h'))
       | None \<Rightarrow> (case Stub_Result st of Some v \<Rightarrow> (send (Inr v), s, h)
         | None \<Rightarrow>
             if Req_Method req = ''PublishPort'' then (case builtinPublishPort (Req_Params req) s of (r, s') \<Rightarrow> (send r, s', h))
             else if Req_Method req = ''UnpublishPort''
             then (case builtinUnpublishPort (Req_Params req) s of
                 (Some e, s') \<Rightarrow> (send (Inl e), s', h) | (None, s') \<Rightarrow> (send (Inr JNull), s', h))
             else (send (Inr JNull), s, h))))"

text \<open>What arrives is a document or the error of reading one.\<close>

definition handleConn :: "string + json \<Rightarrow> 'h fake_server \<times> 'h \<Rightarrow> json \<times> 'h fake_server \<times> 'h" where
  "handleConn incoming = (\<lambda>(s, h).
     case incoming of
       Inl e \<Rightarrow> (write_response JNull [] (Inl (invalid_params (''decode error: '' @ e))), s, h)
     | Inr v \<Rightarrow> (case read_request v of
         None \<Rightarrow> (write_response JNull [] (Inl (invalid_params ''decode error: json: cannot unmarshal'')), s, h)
       | Some req \<Rightarrow> (case capture req (rewritten req) s of (st, s') \<Rightarrow> respond req st (s', h))))"


section \<open>The client connected to the fake\<close>

text \<open>
  A connection hands the document to \<open>handleConn\<close> and keeps its answer for the client; dialling fails when the
  server is closed or listens elsewhere. The context has no deadline.
\<close>

record 'h link =
  Link_Server :: "'h fake_server"
  Link_Test :: 'h
  Link_Answer :: "json option"
  Link_LastID :: int64

definition fake_wire :: "'h link wire" where
  "fake_wire = \<lparr>
     Wire_Dial = (\<lambda>path l. if FS_Closed (Link_Server l) \<or> path \<noteq> FS_Path (Link_Server l)
        then (Inl (plain_err (''dial unix '' @ path @ '': connect: connection refused'')), l) else (Inr (), l)),
     Wire_Send = (\<lambda>v l. case handleConn (Inr v) (Link_Server l, Link_Test l) of
        (answer, s, h) \<Rightarrow> (Inr (), l\<lparr>Link_Server := s, Link_Test := h, Link_Answer := Some answer\<rparr>)),
     Wire_Receive = (\<lambda>l. case Link_Answer l of Some v \<Rightarrow> (Inr v, l) | None \<Rightarrow> (Inl (plain_err ''EOF''), l)),
     Wire_Sleep = (\<lambda>_ l. (Inr (), l)), Wire_CtxErr = (\<lambda>_. None), Wire_Deadline = None,
     Wire_NextID = (\<lambda>l. (Link_LastID l + 1, l\<lparr>Link_LastID := Link_LastID l + 1\<rparr>))\<rparr>"

abbreviation connected_client :: "string \<Rightarrow> 'h link k8netd_client" where
  "connected_client sock \<equiv> NewClient sock fake_wire"

definition fresh_link :: "string \<Rightarrow> 'h \<Rightarrow> 'h link" where
  "fresh_link sock h = \<lparr>Link_Server = fresh_server sock, Link_Test = h, Link_Answer = None, Link_LastID = 0\<rparr>"

subsection \<open>Documents survive the exchange\<close>

lemma float64_nat_le: "float64_nat n \<le> 2 * n"
proof (cases "n < 2 ^ 53")
  case True
  then show ?thesis by (simp add: float64_nat_def)
next
  case False
  define e where "e = floorlog 2 n - 53"
  have "(2::nat) ^ e \<le> 2 ^ (floorlog 2 n - 1)" unfolding e_def by (intro power_increasing) auto
  also have "\<dots> \<le> n" using floorlog_bounds [of n 2] False by (simp add: not_less)
  finally have e: "2 ^ e \<le> n" .
  have q: "n div 2 ^ e * 2 ^ e \<le> n" by simp
  then have "(n div 2 ^ e + 1) * 2 ^ e \<le> 2 * n" using e by (simp only: distrib_right)
  moreover have "n div 2 ^ e * 2 ^ e \<le> 2 * n" using q by linarith
  ultimately show ?thesis using False by (simp add: float64_nat_def e_def Let_def)
qed

lemma float64_id: "\<bar>float64_int (sint (i :: int64))\<bar> < 2 ^ 1024"
proof -
  have "\<bar>sint i\<bar> \<le> 2 ^ 63" using sint_ge [of i] sint_lt [of i] by simp
  moreover have "\<bar>float64_int x\<bar> \<le> 2 * \<bar>x\<bar>" for x
    using float64_nat_le [of "nat x"] float64_nat_le [of "nat (- x)"] by (auto simp: float64_int_def)
  ultimately have "\<bar>float64_int (sint i)\<bar> \<le> 2 * 2 ^ 63" by (meson dual_order.trans mult_le_mono2 zero_le_numeral mult_left_mono)
  then show ?thesis by (simp add: power2_eq_square)
qed


lemma members_Nil [simp]: "members [] k = []"
  by (simp add: members_def)

lemma members_Cons [simp]: "members ((k', v) # fs) k = (if ToLower k' = ToLower k then v # members fs k else members fs k)"
  by (simp add: members_def)

lemma into_string_simps [simp]:
  "into_string_from s [] = Some s" "into_string_from s (JString t # vs) = into_string_from t vs"
  by (simp_all add: into_string_from_def)

lemmas name_simps = ToLower_def lower_char_def

lemma read_rpcRequest:
  "read_request (rpcRequest i ver m params) =
     Some \<lparr>Req_JSONRPC = ''2.0'', Req_ID = JInt (float64_int (sint i)), Req_Version = ver, Req_Method = m, Req_Params = Some params\<rparr>"
  using float64_id [of i] by (simp add: read_request_def rpcRequest_def name_simps into_any_def into_raw_def del: power_numeral)

lemma read_write_response:
  "rpcResponse (write_response i ver r) = Some (case r of
     Inl e \<Rightarrow> \<lparr>Resp_Result = None, Resp_Error = Some e\<rparr> | Inr v \<Rightarrow> \<lparr>Resp_Result = (if v = JNull then None else Some v), Resp_Error = None\<rparr>)"
  by (simp add: rpcResponse_def write_response_def write_error_def name_simps into_error_def error_value_def split: sum.splits)

lemma decode_port_params: "decode_key (Some (port_params p v)) = Some (p, v)"
proof -
  have "int32_range (sint v)" using sint_ge [of v] sint_lt [of v] by (simp add: int32_range_def)
  then show ?thesis by (simp add: decode_key_def port_params_def name_simps into_int32_def)
qed

lemma decode_host_port: "host_port_of (Some (host_port_result n)) = Some (Some n)"
proof -
  have "int32_range (sint n)" using sint_ge [of n] sint_lt [of n] by (simp add: int32_range_def)
  then show ?thesis by (simp add: host_port_of_def host_port_result_def name_simps into_int32_pointer_def)
qed

subsection \<open>One call\<close>

definition open_at :: "string \<Rightarrow> 'h link \<Rightarrow> bool" where
  "open_at sock l \<longleftrightarrow> \<not> FS_Closed (Link_Server l) \<and> FS_Path (Link_Server l) = sock"

lemma dial_open: "open_at sock l \<Longrightarrow> dial (connected_client sock) l = (Inr (), l)"
  by (simp add: dial_def dial_loop.simps catchG_def NewClient_def fake_wire_def open_at_def)

lemma open_at_LastID [simp]: "open_at sock (l\<lparr>Link_LastID := i\<rparr>) = open_at sock l"
  by (simp add: open_at_def)

definition client_request :: "'h link \<Rightarrow> string \<Rightarrow> json \<Rightarrow> rpc_request" where
  "client_request l m params = \<lparr>Req_JSONRPC = ''2.0'', Req_ID = JInt (float64_int (sint (Link_LastID l + 1))), Req_Version = k8netdVersion,
     Req_Method = m, Req_Params = Some params\<rparr>"

text \<open>The whole exchange, from what the server makes of the request.\<close>

lemma Client_call_fake:
  assumes "open_at sock l"
    and "capture (client_request l m params) (rewritten (client_request l m params)) (Link_Server l) = (st, s)"
    and "respond (client_request l m params) st (s, Link_Test l) = (write_response i ver r, s', h')"
  shows "Client_call (connected_client sock) m params l =
    ((case r of Inl e \<Rightarrow> Inl (mapRPCError (RE_Code e) (RE_Message e)) | Inr v \<Rightarrow> Inr (if v = JNull then None else Some v)),
     \<lparr>Link_Server = s', Link_Test = h', Link_Answer = Some (write_response i ver r), Link_LastID = Link_LastID l + 1\<rparr>)"
proof -
  have "handleConn (Inr (rpcRequest (Link_LastID l + 1) k8netdVersion m params)) (Link_Server l, Link_Test l) = (write_response i ver r, s', h')"
    using assms(2,3) by (simp add: handleConn_def read_rpcRequest client_request_def)
  then show ?thesis
    using dial_open [of sock "l\<lparr>Link_LastID := Link_LastID l + 1\<rparr>"] assms(1)
    by (simp add: Client_call_def run_bind internalG_def catchG_def read_write_response NewClient_def fake_wire_def split: sum.splits json.splits)
qed

text \<open>A canned error reaches the caller of any void method as the sentinel of its code.\<close>

lemma canned_error_call:
  assumes "open_at sock l" "m \<noteq> []" "FS_ExpectedVersion (Link_Server l) \<in> {[], k8netdVersion}"
    and "FS_Errors (Link_Server l) m = Some e"
  shows "fst (Client_call (connected_client sock) m params l) = Inl (mapRPCError (RE_Code e) (RE_Message e))"
proof -
  let ?req = "client_request l m params"
  obtain st s where c: "capture ?req (rewritten ?req) (Link_Server l) = (st, s)" by (rule prod.exhaust)
  then have "Stub_Error st = Some e" "Stub_Version st \<in> {[], k8netdVersion}"
    using assms(3,4) by (auto simp: capture_def client_request_def)
  then have "respond ?req st (s, Link_Test l) = (write_response (Req_ID ?req) (Req_Version ?req) (Inl e), s, Link_Test l)"
    using assms(2) by (auto simp: respond_def client_request_def)
  from Client_call_fake [OF assms(1) c this] show ?thesis by simp
qed


subsection \<open>The allocator seen through the client\<close>

text \<open>No stub shadows the two methods of the allocator, and the version of the client is accepted.\<close>

definition unshadowed :: "'h link \<Rightarrow> bool" where
  "unshadowed l \<longleftrightarrow> \<not> IsSet ''PublishPort'' (Link_Server l) \<and> \<not> IsSet ''UnpublishPort'' (Link_Server l) \<and>
     FS_ExpectedVersion (Link_Server l) \<in> {[], k8netdVersion}"

text \<open>
  The allocator after at most \<open>k\<close> allocations: live ports are pairwise distinct and lie between the base port
  and the next one to hand out.
\<close>

definition alloc_inv :: "nat \<Rightarrow> 'h fake_server \<Rightarrow> bool" where
  "alloc_inv k s \<longleftrightarrow> 20000 \<le> sint (FS_NextHostPort s) \<and> sint (FS_NextHostPort s) \<le> 20000 + int k \<and>
     (\<forall>key n. FS_Published s key = Some n \<longrightarrow> 20000 \<le> sint n \<and> sint n < sint (FS_NextHostPort s)) \<and>
     (\<forall>key key' n. FS_Published s key = Some n \<and> FS_Published s key' = Some n \<longrightarrow> key = key')"

text \<open>The part of the link the allocator works on.\<close>

definition good_link :: "string \<Rightarrow> nat \<Rightarrow> 'h link \<Rightarrow> bool" where
  "good_link sock k l \<longleftrightarrow> open_at sock l \<and> unshadowed l \<and> alloc_inv k (Link_Server l)"

lemma good_fresh: "good_link sock 0 (fresh_link sock h)"
  by (simp add: good_link_def open_at_def unshadowed_def alloc_inv_def IsSet_def fresh_link_def fresh_server_def fakePublishBasePort_def)

lemma sint_Suc: "sint (n :: int32) < 2 ^ 31 - 1 \<Longrightarrow> sint (n + 1) = sint n + 1"
  using sint_ge [of n] by (simp add: sint_word_ariths(1) signed_take_bit_int_eq_self)

lemma alloc_inv_add:
  assumes inv: "alloc_inv k s" and k: "k < 2 ^ 31 - 20001"
  shows "alloc_inv (Suc k) (s\<lparr>FS_NextHostPort := FS_NextHostPort s + 1, FS_Published := (FS_Published s)(key \<mapsto> FS_NextHostPort s)\<rparr>)"
proof -
  have "sint (FS_NextHostPort s + 1) = sint (FS_NextHostPort s) + 1" using inv k by (intro sint_Suc) (simp add: alloc_inv_def)
  then show ?thesis using inv unfolding alloc_inv_def by (auto, fastforce+)
qed

lemma alloc_inv_mono: "alloc_inv k s \<Longrightarrow> k \<le> k' \<Longrightarrow> alloc_inv k' s"
  by (auto simp: alloc_inv_def)

lemma alloc_inv_remove: "alloc_inv k s \<Longrightarrow> alloc_inv k (s\<lparr>FS_Published := (FS_Published s)(key := None)\<rparr>)"
  by (auto simp: alloc_inv_def split: if_splits)

lemma alloc_inv_requests [simp]: "alloc_inv k (s\<lparr>FS_Requests := rs\<rparr>) = alloc_inv k s"
  by (simp add: alloc_inv_def)

definition allocate :: "publishKey \<Rightarrow> 'h fake_server \<Rightarrow> int32" where
  "allocate key s = (case FS_Published s key of Some n \<Rightarrow> n | None \<Rightarrow> FS_NextHostPort s)"

lemma publish_call:
  assumes good: "good_link sock k l" and k: "k < 2 ^ 31 - 20001" and key: "legal_key (p, v)"
  shows "\<exists>l'. Net_PublishPort (connected_client sock) p v l = (Inr (allocate (p, v) (Link_Server l)), l') \<and> good_link sock (Suc k) l' \<and>
    FS_Published (Link_Server l') = (FS_Published (Link_Server l))((p, v) \<mapsto> allocate (p, v) (Link_Server l))"
proof -
  let ?S = "Link_Server l" and ?req = "client_request l ''PublishPort'' (port_params p v)"
  let ?n = "allocate (p, v) ?S"
  have inv: "alloc_inv k ?S" "open_at sock l" "unshadowed l" using good by (simp_all add: good_link_def)
  obtain st s where c: "capture ?req (rewritten ?req) ?S = (st, s)" by (rule prod.exhaust)
  then obtain rs where s: "s = ?S\<lparr>FS_Requests := rs\<rparr>" and st: "Stub_Error st = None" "Stub_Handler st = None" "Stub_Result st = None"
    "Stub_Version st \<in> {[], k8netdVersion}"
    using inv(3) by (auto simp: capture_def client_request_def unshadowed_def IsSet_def)
  obtain s' where b: "builtinPublishPort (Some (port_params p v)) s = (Inr (host_port_result ?n), s')"
    and s': "FS_Published s' = (FS_Published ?S)((p, v) \<mapsto> ?n)" "alloc_inv (Suc k) s'" "open_at sock (l\<lparr>Link_Server := s'\<rparr>)" "unshadowed (l\<lparr>Link_Server := s'\<rparr>)"
  proof (cases "FS_Published ?S (p, v)")
    case None
    let ?s' = "s\<lparr>FS_NextHostPort := FS_NextHostPort ?S + 1, FS_Published := (FS_Published ?S)((p, v) \<mapsto> FS_NextHostPort ?S)\<rparr>"
    have "alloc_inv (Suc k) ?s'" using alloc_inv_add [of k s "(p, v)"] inv(1) k by (simp add: s)
    with None that [of ?s'] key inv show ?thesis
      by (simp add: builtinPublishPort_def decode_port_params allocate_def s Let_def open_at_def unshadowed_def IsSet_def)
  next
    case (Some n)
    have "alloc_inv (Suc k) s" using alloc_inv_mono [of k s "Suc k"] inv(1) by (simp add: s)
    with Some that [of s] key inv show ?thesis
      by (simp add: builtinPublishPort_def decode_port_params allocate_def s open_at_def unshadowed_def IsSet_def fun_upd_idem)
  qed
  have "respond ?req st (s, Link_Test l) = (write_response (Req_ID ?req) (Req_Version ?req) (Inr (host_port_result ?n)), s', Link_Test l)"
    using st b by (auto simp: respond_def client_request_def)
  from Client_call_fake [OF inv(2) c this] obtain l' where call: "Client_call (connected_client sock) ''PublishPort'' (port_params p v) l = (Inr (Some (host_port_result ?n)), l')"
    and l': "Link_Server l' = s'" by (simp add: host_port_result_def)
  have "FS_Published s' (p, v) = Some ?n" using s'(1) by simp
  then have "20000 \<le> sint ?n" using s'(2) unfolding alloc_inv_def by blast
  then have "Net_PublishPort (connected_client sock) p v l = (Inr ?n, l')"
    by (simp add: Net_PublishPort_def run_bind call decode_host_port del: fun_upd_apply)
  then show ?thesis using s' l' by (auto simp: good_link_def open_at_def unshadowed_def)
qed


text \<open>Other calls of the allocator keep what they must: an unpublish removes its own pair only.\<close>

lemma unpublish_call:
  assumes good: "good_link sock k l"
  shows "\<exists>r l'. Net_UnpublishPort (connected_client sock) p v l = (r, l') \<and> good_link sock k l' \<and>
    (\<forall>key. key \<noteq> (p, v) \<longrightarrow> FS_Published (Link_Server l') key = FS_Published (Link_Server l) key) \<and>
    (legal_key (p, v) \<longrightarrow> FS_Published (Link_Server l') (p, v) = None \<and>
       r = (if FS_Published (Link_Server l) (p, v) = None then Inl (mapRPCError ''not_found'' ''published port mapping not found'') else Inr ()))"
proof (cases "sint v \<le> 0 \<or> sint v > 65535")
  case True
  then show ?thesis using good by (auto simp: Net_UnpublishPort_def legal_key_def)
next
  case False
  let ?S = "Link_Server l" and ?req = "client_request l ''UnpublishPort'' (port_params p v)"
  have inv: "alloc_inv k ?S" "open_at sock l" "unshadowed l" using good by (simp_all add: good_link_def)
  obtain st s where c: "capture ?req (rewritten ?req) ?S = (st, s)" by (rule prod.exhaust)
  then obtain rs where s: "s = ?S\<lparr>FS_Requests := rs\<rparr>" and st: "Stub_Error st = None" "Stub_Handler st = None" "Stub_Result st = None"
    "Stub_Version st \<in> {[], k8netdVersion}"
    using inv(3) by (auto simp: capture_def client_request_def unshadowed_def IsSet_def)
  obtain e s' where b: "builtinUnpublishPort (Some (port_params p v)) s = (e, s')" by (rule prod.exhaust)
  then have s': "alloc_inv k s'" "s' = s \<or> s' = s\<lparr>FS_Published := (FS_Published s)((p, v) := None)\<rparr>"
    using inv(1) alloc_inv_remove [of k s "(p, v)"] by (auto simp: builtinUnpublishPort_def decode_port_params s split: if_splits option.splits)
  have e: "legal_key (p, v) \<Longrightarrow> FS_Published s' (p, v) = None \<and>
      e = (if FS_Published ?S (p, v) = None then Some \<lparr>RE_Code = ''not_found'', RE_Message = ''published port mapping not found''\<rparr> else None)"
    using b by (auto simp: builtinUnpublishPort_def decode_port_params s split: option.splits)
  let ?r = "case e of None \<Rightarrow> Inr JNull | Some x \<Rightarrow> Inl x"
  have "respond ?req st (s, Link_Test l) = (write_response (Req_ID ?req) (Req_Version ?req) ?r, s', Link_Test l)"
    using st b by (auto simp: respond_def client_request_def split: option.splits)
  from Client_call_fake [OF inv(2) c this]
  have "\<exists>l'. Link_Server l' = s' \<and> Client_call (connected_client sock) ''UnpublishPort'' (port_params p v) l =
      (case e of None \<Rightarrow> Inr None | Some x \<Rightarrow> Inl (mapRPCError (RE_Code x) (RE_Message x)), l')" by (cases e) simp_all
  then obtain l' where l': "Link_Server l' = s'"
    and call: "Client_call (connected_client sock) ''UnpublishPort'' (port_params p v) l = (case e of None \<Rightarrow> Inr None | Some x \<Rightarrow> Inl (mapRPCError (RE_Code x) (RE_Message x)), l')"
    by blast
  have "good_link sock k l'" using s' inv l' by (auto simp: good_link_def open_at_def unshadowed_def IsSet_def s)
  moreover have "key \<noteq> (p, v) \<Longrightarrow> FS_Published s' key = FS_Published ?S key" for key using s'(2) by (auto simp: s)
  moreover have "Net_UnpublishPort (connected_client sock) p v l = (case e of None \<Rightarrow> Inr () | Some x \<Rightarrow> Inl (mapRPCError (RE_Code x) (RE_Message x)), l')"
    using False by (cases e) (simp_all add: Net_UnpublishPort_def void_call_def run_bind call)
  ultimately show ?thesis using e l' by auto
qed

text \<open>Any other method leaves the allocator alone, whatever is stubbed for it.\<close>

lemma other_call:
  assumes good: "good_link sock k l" and m: "m \<noteq> ''PublishPort''" "m \<noteq> ''UnpublishPort''"
  shows "\<exists>r l'. void_call (connected_client sock) m params l = (r, l') \<and> good_link sock k l' \<and> FS_Published (Link_Server l') = FS_Published (Link_Server l)"
proof -
  let ?S = "Link_Server l" and ?req = "client_request l m params"
  have inv: "alloc_inv k ?S" "open_at sock l" "unshadowed l" using good by (simp_all add: good_link_def)
  obtain st s where c: "capture ?req (rewritten ?req) ?S = (st, s)" by (rule prod.exhaust)
  then obtain rs where s: "s = ?S\<lparr>FS_Requests := rs\<rparr>" by (auto simp: capture_def)
  have "\<exists>i ver r h'. respond ?req st (s, Link_Test l) = (write_response i ver r, s, h')"
    using m by (auto simp: respond_def client_request_def Let_def split: option.splits prod.splits)
  then obtain i ver r h' where r: "respond ?req st (s, Link_Test l) = (write_response i ver r, s, h')" by blast
  from Client_call_fake [OF inv(2) c r] obtain q l' where "Client_call (connected_client sock) m params l = (q, l')" and l': "Link_Server l' = s" by auto
  then have "\<exists>q'. void_call (connected_client sock) m params l = (q', l')" by (cases q) (auto simp: void_call_def run_bind)
  moreover have "good_link sock k l'" using inv by (auto simp: good_link_def open_at_def unshadowed_def IsSet_def s l')
  ultimately show ?thesis by (auto simp: l' s)
qed

subsection \<open>Sequences of calls\<close>

datatype net_op = Publish string int32 | Unpublish string int32 | Other string json

fun net_step :: "string \<Rightarrow> net_op \<Rightarrow> 'h link \<Rightarrow> 'h link" where
  "net_step sock (Publish p v) l = snd (Net_PublishPort (connected_client sock) p v l)"
| "net_step sock (Unpublish p v) l = snd (Net_UnpublishPort (connected_client sock) p v l)"
| "net_step sock (Other m params) l = snd (void_call (connected_client sock) m params l)"

definition net_run :: "string \<Rightarrow> net_op list \<Rightarrow> 'h link \<Rightarrow> 'h link" where
  "net_run sock ops l = foldl (\<lambda>l op. net_step sock op l) l ops"

text \<open>The pairs published are legal, and the allocator is only reached through its two methods.\<close>

fun legal_op :: "net_op \<Rightarrow> bool" where
  "legal_op (Publish p v) = legal_key (p, v)"
| "legal_op (Unpublish p v) = legal_key (p, v)"
| "legal_op (Other m params) \<longleftrightarrow> m \<noteq> ''PublishPort'' \<and> m \<noteq> ''UnpublishPort''"

lemma net_step_good:
  assumes "good_link sock k l" "k < 2 ^ 31 - 20001" "legal_op op"
  shows "good_link sock (Suc k) (net_step sock op l) \<and>
    (op \<noteq> Unpublish p v \<and> FS_Published (Link_Server l) (p, v) = Some n \<longrightarrow> FS_Published (Link_Server (net_step sock op l)) (p, v) = Some n)"
proof (cases op)
  case (Publish q w)
  with publish_call [OF assms(1,2), of q w] assms(3) show ?thesis by (auto simp: allocate_def)
next
  case (Unpublish q w)
  with unpublish_call [OF assms(1), of q w] show ?thesis by (auto simp: good_link_def intro: alloc_inv_mono)
next
  case (Other m params)
  with other_call [OF assms(1), of m params] assms(3) show ?thesis by (auto simp: good_link_def intro: alloc_inv_mono)
qed

lemma net_run_good:
  assumes "good_link sock k l" "k + length ops < 2 ^ 31 - 20000" "list_all legal_op ops"
  shows "good_link sock (k + length ops) (net_run sock ops l) \<and>
    (Unpublish p v \<notin> set ops \<and> FS_Published (Link_Server l) (p, v) = Some n \<longrightarrow> FS_Published (Link_Server (net_run sock ops l)) (p, v) = Some n)"
  using assms
proof (induction ops arbitrary: k l)
  case (Cons op ops)
  note step = net_step_good [of sock k l op p v n]
  have "good_link sock (Suc k) (net_step sock op l)" using step Cons.prems by simp
  from Cons.IH [OF this] show ?case using step Cons.prems by (auto simp: net_run_def)
qed (simp add: net_run_def)

text \<open>
  C32: Published ports are stable and distinct. Against a fake daemon with no stub for the two methods, after any calls of
  the client, \<open>PublishPort\<close> returns a port of at least 20000; after any further calls that do not unpublish that pair,
  publishing a legal pair again returns the same port exactly if it is the same pair, as long as fewer than
  2147463647 calls were made in all, after which the 32-bit counter of the allocator wraps around.
\<close>

theorem published_ports_stable_distinct:
  fixes h :: 'h
  assumes "l1 = net_run sock ops1 (fresh_link sock h)" "Net_PublishPort (connected_client sock) p v l1 = (r1, l2)"
    and "l3 = net_run sock ops2 l2" "Net_PublishPort (connected_client sock) q w l3 = (r2, l4)"
    and "list_all legal_op (ops1 @ ops2)" "legal_key (p, v)" "legal_key (q, w)" "Unpublish p v \<notin> set ops2"
    and "length ops1 + length ops2 + 2 < 2 ^ 31 - 20000"
  shows "\<exists>a b. r1 = Inr a \<and> r2 = Inr b \<and> 20000 \<le> sint a \<and> 20000 \<le> sint b \<and> (a = b \<longleftrightarrow> (p, v) = (q, w))"
proof -
  have g1: "good_link sock (length ops1) l1" using net_run_good [OF good_fresh [of sock h], of ops1] assms(1,5,9) by simp
  obtain a where a: "r1 = Inr a" "FS_Published (Link_Server l2) (p, v) = Some a" and g2: "good_link sock (Suc (length ops1)) l2"
    using publish_call [OF g1 _ assms(6)] assms(2,9) by auto
  have g3: "good_link sock (Suc (length ops1) + length ops2) l3" and p3: "FS_Published (Link_Server l3) (p, v) = Some a"
    using net_run_good [OF g2, of ops2 p v a] assms(3,5,8,9) a(2) by simp_all
  have "\<exists>l'. Net_PublishPort (connected_client sock) q w l3 = (Inr (allocate (q, w) (Link_Server l3)), l') \<and>
    good_link sock (Suc (Suc (length ops1) + length ops2)) l' \<and>
    FS_Published (Link_Server l') = (FS_Published (Link_Server l3))((q, w) \<mapsto> allocate (q, w) (Link_Server l3))"
    by (rule publish_call [OF g3 _ assms(7)]) (use assms(9) in simp)
  then obtain b where b: "r2 = Inr b" "b = allocate (q, w) (Link_Server l3)" "FS_Published (Link_Server l4) = (FS_Published (Link_Server l3))((q, w) \<mapsto> b)"
    and g4: "alloc_inv (Suc (Suc (length ops1) + length ops2)) (Link_Server l4)" using assms(4) by (auto simp: good_link_def)
  have live: "FS_Published (Link_Server l4) (q, w) = Some b" "(p, v) \<noteq> (q, w) \<Longrightarrow> FS_Published (Link_Server l4) (p, v) = Some a"
    using b(3) p3 by auto
  have "(p, v) = (q, w) \<Longrightarrow> a = b" using p3 b(2) by (simp add: allocate_def)
  moreover have "(p, v) \<noteq> (q, w) \<Longrightarrow> a \<noteq> b" using live g4 unfolding alloc_inv_def by metis
  moreover have "20000 \<le> sint a" using p3 g3 unfolding good_link_def alloc_inv_def by blast
  moreover have "20000 \<le> sint b" using live(1) g4 unfolding alloc_inv_def by blast
  ultimately show ?thesis using a(1) b(1) by blast
qed


text \<open>A run: two machines publish their API server port, and the first one does so again.\<close>

theorem published_ports_stable_distinct_witness:
  "\<exists>a b l. Net_PublishPort (connected_client ''/run/k8netd.sock'') ''vm-a'' 6443 (fresh_link ''/run/k8netd.sock'' ()) = (Inr a, l) \<and>
     fst (Net_PublishPort (connected_client ''/run/k8netd.sock'') ''vm-a'' 6443 (net_run ''/run/k8netd.sock'' [Publish ''vm-b'' 6443] l)) = Inr b \<and> a = b"
proof -
  let ?sock = "''/run/k8netd.sock''" and ?l = "fresh_link ''/run/k8netd.sock'' ()"
  obtain r1 l2 where r1: "Net_PublishPort (connected_client ?sock) ''vm-a'' 6443 (net_run ?sock [] ?l) = (r1, l2)" by (rule prod.exhaust)
  obtain r2 l4 where r2: "Net_PublishPort (connected_client ?sock) ''vm-a'' 6443 (net_run ?sock [Publish ''vm-b'' 6443] l2) = (r2, l4)" by (rule prod.exhaust)
  have keys: "list_all legal_op ([] @ [Publish ''vm-b'' 6443])" "legal_key (''vm-a'', 6443)" by (simp_all add: legal_key_def)
  show ?thesis using published_ports_stable_distinct [OF refl r1 refl r2 keys keys(2)] r1 r2 by (auto simp: net_run_def)
qed

end
