(* ===== verification/Certificates.thy ===== *)
theory Certificates
  imports ClusterPki NetIP "HOL-Library.Countable"
begin

unbundle bit_operations_syntax

text \<open>
  The generation of keys and certificates (\<open>internal/pki/pki.go\<close>). RSA, the DER and PEM
  encodings, the random source and the clock are the record \<open>x509_lib\<close>; what their documentation promises
  is \<open>x509_laws\<close>. The theorem at the end: the certificates of a cluster form two chains, each leaf is signed
  with the key of the authority stored beside it, and a kubelet certificate minted later from the stored PEM
  belongs to the same chain.
\<close>

section \<open>The libraries\<close>

text \<open>
  \<open>net.ParseIP\<close>: the sixteen bytes of an address without a zone; \<open>To4\<close> the four bytes of an IPv4 one.
\<close>

definition net_ParseIP :: "string \<Rightarrow> nat list option" where
  "net_ParseIP s = (case ParseAddr s of
     None \<Rightarrow> None
   | Some (IPv4 bs) \<Rightarrow> Some (replicate 10 0 @ [255, 255] @ bs)
   | Some (IPv6 bs zone) \<Rightarrow> if zone \<noteq> [] then None else Some bs)"

definition To4 :: "nat list \<Rightarrow> nat list" where
  "To4 ip = (if length ip = 16 \<and> take 12 ip = replicate 10 0 @ [255, 255] then drop 12 ip else ip)"

datatype ext_key_usage = ExtKeyUsageServerAuth | ExtKeyUsageClientAuth

type_synonym key_usage = int

definition KeyUsageDigitalSignature :: key_usage where "KeyUsageDigitalSignature = 1"
definition KeyUsageKeyEncipherment :: key_usage where "KeyUsageKeyEncipherment = 4"
definition KeyUsageCertSign :: key_usage where "KeyUsageCertSign = 32"
definition KeyUsageCRLSign :: key_usage where "KeyUsageCRLSign = 64"

text \<open>
  A certificate, as a template and as the parser returns it. A template has no issuer and no keys; a parsed
  certificate has the subject of its issuer, its public key and the public key its signature verifies under.
  Times are in nanoseconds.
\<close>

record 'p certificate =
  Cert_SerialNumber :: nat
  Cert_CommonName :: string
  Cert_Organization :: "string list"
  Cert_NotBefore :: int
  Cert_NotAfter :: int
  Cert_KeyUsage :: key_usage
  Cert_ExtKeyUsage :: "ext_key_usage list"
  Cert_BasicConstraintsValid :: bool
  Cert_IsCA :: bool
  Cert_DNSNames :: "string list"
  Cert_IPAddresses :: "nat list list"
  Cert_Issuer :: "string \<times> string list"
  Cert_PublicKey :: "'p option"
  Cert_SignedWith :: "'p option"

definition Cert_Subject :: "'p certificate \<Rightarrow> string \<times> string list" where
  "Cert_Subject c = (Cert_CommonName c, Cert_Organization c)"

record ('w, 'k, 'p) x509_lib =
  X_GenerateKey :: "nat \<Rightarrow> ('w, 'k) go"
  X_RandInt :: "nat \<Rightarrow> ('w, nat) go"
  X_Now :: "'w \<Rightarrow> int \<times> 'w"
  X_Public :: "'k \<Rightarrow> 'p"
  X_CreateCertificate :: "'p certificate \<Rightarrow> 'p certificate \<Rightarrow> 'p \<Rightarrow> 'k \<Rightarrow> ('w, byte list) go"
  X_ParseCertificate :: "byte list \<Rightarrow> goerr + 'p certificate"
  X_MarshalPKCS1PrivateKey :: "'k \<Rightarrow> byte list"
  X_ParsePKCS1PrivateKey :: "byte list \<Rightarrow> goerr + 'k"
  X_EncodePEM :: "string \<Rightarrow> byte list \<Rightarrow> byte list"
  X_DecodePEM :: "byte list \<Rightarrow> (string \<times> byte list) option"

text \<open>
  What \<open>x509.CreateCertificate\<close> makes of a template: the encoding keeps whole seconds, and
  addresses in their short form.
\<close>

definition issued :: "('w, 'k, 'p) x509_lib \<Rightarrow> 'p certificate \<Rightarrow> 'p certificate \<Rightarrow> 'p \<Rightarrow> 'k \<Rightarrow> 'p certificate" where
  "issued X template parent pub key = template\<lparr>
     Cert_NotBefore := Cert_NotBefore template div 1000000000 * 1000000000,
     Cert_NotAfter := Cert_NotAfter template div 1000000000 * 1000000000,
     Cert_IPAddresses := map To4 (Cert_IPAddresses template),
     Cert_Issuer := Cert_Subject parent, Cert_PublicKey := Some pub, Cert_SignedWith := Some (X_Public X key)\<rparr>"

text \<open>
  The documented behaviour the package relies on: a created certificate parses to what it was created from, the
  signing key has to be that of the parent when the parent has a key, encodings read back, PEM text is not empty,
  and a random number is below its bound.
\<close>

definition x509_laws :: "('w, 'k, 'p) x509_lib \<Rightarrow> bool" where
  "x509_laws X \<longleftrightarrow>
     (\<forall>t parent pub k w der w'. X_CreateCertificate X t parent pub k w = (Inr der, w') \<longrightarrow>
        X_ParseCertificate X der = Inr (issued X t parent pub k) \<and> Cert_PublicKey parent \<in> {None, Some (X_Public X k)}) \<and>
     (\<forall>k. X_ParsePKCS1PrivateKey X (X_MarshalPKCS1PrivateKey X k) = Inr k) \<and>
     (\<forall>ty b. X_DecodePEM X (X_EncodePEM X ty b) = Some (ty, b) \<and> X_EncodePEM X ty b \<noteq> []) \<and>
     (\<forall>n w m w'. X_RandInt X n w = (Inr m, w') \<longrightarrow> m < n)"

text \<open>
  A library that does not fail: the random source delivers, and a certificate with a positive serial number, ASCII
  names and the key of its parent is created.
\<close>

definition ascii :: "string \<Rightarrow> bool" where
  "ascii s \<longleftrightarrow> (\<forall>c\<in>set s. (of_char c :: nat) < 128)"

definition x509_delivers :: "('w, 'k, 'p) x509_lib \<Rightarrow> bool" where
  "x509_delivers X \<longleftrightarrow> (\<forall>n w. \<exists>k w'. X_GenerateKey X n w = (Inr k, w')) \<and> (\<forall>n>0. \<forall>w. \<exists>m w'. X_RandInt X n w = (Inr m, w')) \<and>
     (\<forall>t parent pub k w. 0 < Cert_SerialNumber t \<and>
        list_all ascii (Cert_CommonName t # Cert_Organization t @ Cert_DNSNames t) \<and> Cert_PublicKey parent \<in> {None, Some (X_Public X k)} \<longrightarrow>
        (\<exists>der w'. X_CreateCertificate X t parent pub k w = (Inr der, w')))"

section \<open>Keys, serial numbers and encodings\<close>

definition caValidity :: int where "caValidity = 10 * 365 * 24 * 3600000000000"
definition leafValidity :: int where "leafValidity = 365 * 24 * 3600000000000"
definition rsaKeyBits :: nat where "rsaKeyBits = 2048"

definition newKey :: "('w, 'k, 'p) x509_lib \<Rightarrow> ('w, 'k) go" where
  "newKey X = wrapG ''generating RSA key'' (X_GenerateKey X rsaKeyBits)"

definition newSerial :: "('w, 'k, 'p) x509_lib \<Rightarrow> ('w, nat) go" where
  "newSerial X = bindG (wrapG ''generating certificate serial number'' (X_RandInt X (2 ^ 128))) (\<lambda>serial.
     returnG (if serial = 0 then 1 else serial))"

definition validityWindow :: "('w, 'k, 'p) x509_lib \<Rightarrow> int \<Rightarrow> ('w, int \<times> int) go" where
  "validityWindow X duration = (\<lambda>w. case X_Now X w of (now, w') \<Rightarrow> (Inr (now - 3600000000000, now + duration), w'))"

definition pemCert :: "('w, 'k, 'p) x509_lib \<Rightarrow> byte list \<Rightarrow> byte list" where
  "pemCert X der = X_EncodePEM X ''CERTIFICATE'' der"

definition pemKey :: "('w, 'k, 'p) x509_lib \<Rightarrow> 'k \<Rightarrow> byte list" where
  "pemKey X key = X_EncodePEM X ''RSA PRIVATE KEY'' (X_MarshalPKCS1PrivateKey X key)"

definition parseCACertificate :: "('w, 'k, 'p) x509_lib \<Rightarrow> byte list \<Rightarrow> goerr + 'p certificate" where
  "parseCACertificate X caPEM = (case X_DecodePEM X caPEM of
     None \<Rightarrow> Inl (plain_err ''CA bytes are not a PEM certificate'')
   | Some (ty, b) \<Rightarrow>
       if ty \<noteq> ''CERTIFICATE'' then Inl (plain_err ''CA bytes are not a PEM certificate'')
       else (case X_ParseCertificate X b of Inl e \<Rightarrow> Inl (wrap_err ''parsing CA certificate'' e) | Inr c \<Rightarrow> Inr c))"

definition parseCAKey :: "('w, 'k, 'p) x509_lib \<Rightarrow> byte list \<Rightarrow> goerr + 'k" where
  "parseCAKey X caKeyPEM = (case X_DecodePEM X caKeyPEM of
     None \<Rightarrow> Inl (plain_err ''CA key bytes are not a PEM private key'')
   | Some (ty, b) \<Rightarrow>
       (case X_ParsePKCS1PrivateKey X b of Inl e \<Rightarrow> Inl (wrap_err ''parsing CA private key'' e) | Inr k \<Rightarrow> Inr k))"

section \<open>Certificates\<close>

definition ca_template :: "nat \<Rightarrow> string \<Rightarrow> int \<times> int \<Rightarrow> 'p certificate" where
  "ca_template serial cn window = \<lparr>Cert_SerialNumber = serial, Cert_CommonName = cn, Cert_Organization = [],
     Cert_NotBefore = fst window, Cert_NotAfter = snd window,
     Cert_KeyUsage = KeyUsageCertSign OR KeyUsageDigitalSignature OR KeyUsageCRLSign, Cert_ExtKeyUsage = [],
     Cert_BasicConstraintsValid = True, Cert_IsCA = True, Cert_DNSNames = [], Cert_IPAddresses = [],
     Cert_Issuer = ([], []), Cert_PublicKey = None, Cert_SignedWith = None\<rparr>"

definition newCACertificate :: "('w, 'k, 'p) x509_lib \<Rightarrow> string \<Rightarrow> 'k \<Rightarrow> ('w, 'p certificate \<times> byte list) go" where
  "newCACertificate X cn key =
     bindG (newSerial X) (\<lambda>serial.
     bindG (validityWindow X caValidity) (\<lambda>window.
     let template = ca_template serial cn window in
     bindG (wrapG ''creating CA certificate'' (X_CreateCertificate X template template (X_Public X key) key)) (\<lambda>der.
     bindG (wrapG ''parsing generated CA certificate'' (liftG (X_ParseCertificate X der))) (\<lambda>cert.
     returnG (cert, pemCert X der)))))"

definition newLeafTemplate ::
  "('w, 'k, 'p) x509_lib \<Rightarrow> string \<Rightarrow> key_usage \<Rightarrow> ext_key_usage list \<Rightarrow> string list \<Rightarrow> nat list list \<Rightarrow> string list \<Rightarrow> ('w, 'p certificate) go" where
  "newLeafTemplate X cn keyUsage extKeyUsage dnsNames ipAddresses organization =
     bindG (newSerial X) (\<lambda>serial.
     bindG (validityWindow X leafValidity) (\<lambda>(notBefore, notAfter).
     returnG \<lparr>Cert_SerialNumber = serial, Cert_CommonName = cn, Cert_Organization = organization,
       Cert_NotBefore = notBefore, Cert_NotAfter = notAfter, Cert_KeyUsage = keyUsage, Cert_ExtKeyUsage = extKeyUsage,
       Cert_BasicConstraintsValid = True, Cert_IsCA = False, Cert_DNSNames = dnsNames, Cert_IPAddresses = ipAddresses,
       Cert_Issuer = ([], []), Cert_PublicKey = None, Cert_SignedWith = None\<rparr>))"

definition signCert :: "('w, 'k, 'p) x509_lib \<Rightarrow> 'p certificate \<Rightarrow> 'p certificate \<Rightarrow> 'p \<Rightarrow> 'k \<Rightarrow> ('w, byte list) go" where
  "signCert X template parent pub signer =
     bindG (wrapG ''signing certificate'' (X_CreateCertificate X template parent pub signer)) (\<lambda>der. returnG (pemCert X der))"

definition newLeafKeyAndCert ::
  "('w, 'k, 'p) x509_lib \<Rightarrow> string \<Rightarrow> key_usage \<Rightarrow> ext_key_usage list \<Rightarrow> string list \<Rightarrow> nat list list \<Rightarrow> string list \<Rightarrow>
   'p certificate \<Rightarrow> 'k \<Rightarrow> ('w, byte list \<times> byte list) go" where
  "newLeafKeyAndCert X cn keyUsage extKeyUsage dnsNames ipAddresses organization caCert caKey =
     bindG (newKey X) (\<lambda>key.
     bindG (newLeafTemplate X cn keyUsage extKeyUsage dnsNames ipAddresses organization) (\<lambda>template.
     bindG (wrapG (''signing '' @ cn @ '' certificate'') (signCert X template caCert (X_Public X key) caKey)) (\<lambda>cert.
     returnG (cert, pemKey X key))))"

abbreviation client_server :: "ext_key_usage list" where
  "client_server \<equiv> [ExtKeyUsageClientAuth, ExtKeyUsageServerAuth]"

abbreviation sign_encipher :: key_usage where
  "sign_encipher \<equiv> KeyUsageDigitalSignature OR KeyUsageKeyEncipherment"

definition serviceIP :: "nat list" where
  "serviceIP = (case net_ParseIP ''10.96.0.1'' of Some ip \<Rightarrow> ip | None \<Rightarrow> [])"

definition GenerateClusterPKI :: "('w, 'k, 'p) x509_lib \<Rightarrow> string \<Rightarrow> string \<Rightarrow> ('w, cluster_pki) go" where
  "GenerateClusterPKI X cpIP cpName = (case net_ParseIP cpIP of
     None \<Rightarrow> failG (plain_err (''control-plane IP '' @ Quote cpIP @ '' is not a valid IP literal''))
   | Some ip \<Rightarrow> (case net_ParseIP ''127.0.0.1'' of
       None \<Rightarrow> failG (plain_err ''loopback IP is not a valid IP literal'')
     | Some loopback \<Rightarrow>
         if cpName = [] then failG (plain_err ''control-plane name must not be empty'')
         else
           bindG (newKey X) (\<lambda>caKey.
           bindG (newCACertificate X ''cluster-ca'' caKey) (\<lambda>(caCert, caPEM).
           bindG (newKey X) (\<lambda>frontProxyCAKey.
           bindG (newCACertificate X ''front-proxy-ca'' frontProxyCAKey) (\<lambda>(frontProxyCACert, frontProxyCAPEM).
           bindG (newLeafKeyAndCert X ''kube-apiserver'' sign_encipher client_server
             [cpName, ''host.containers.internal''] [ip, loopback, serviceIP] [] caCert caKey) (\<lambda>(apiserverCert, apiserverKey).
           bindG (newLeafKeyAndCert X ''front-proxy-client'' sign_encipher [ExtKeyUsageClientAuth] [] [] []
             frontProxyCACert frontProxyCAKey) (\<lambda>(frontProxyCert, frontProxyKey).
           bindG (newLeafKeyAndCert X ''service-account'' KeyUsageDigitalSignature client_server [] [] []
             caCert caKey) (\<lambda>(serviceAccountCert, serviceAccountKey).
           returnG \<lparr>PK_CA = caPEM, PK_CAKey = pemKey X caKey, PK_FrontProxyCA = frontProxyCAPEM, PK_FrontProxyCAKey = pemKey X frontProxyCAKey,
             PK_APIServer = apiserverCert, PK_APIServerKey = apiserverKey, PK_FrontProxy = frontProxyCert, PK_FrontProxyKey = frontProxyKey,
             PK_ServiceAccount = serviceAccountCert, PK_ServiceAccountKey = serviceAccountKey\<rparr>)))))))))"

definition GenerateKubeletCert :: "('w, 'k, 'p) x509_lib \<Rightarrow> cluster_pki \<Rightarrow> string \<Rightarrow> ('w, byte list \<times> byte list) go" where
  "GenerateKubeletCert X clusterPKI nodeName =
     (if nodeName = [] then failG (plain_err ''node name must not be empty'')
      else if PK_CA clusterPKI = [] \<or> PK_CAKey clusterPKI = [] then failG (plain_err ''cluster PKI has no CA material'')
      else
        bindG (liftG (parseCACertificate X (PK_CA clusterPKI))) (\<lambda>caCert.
        bindG (liftG (parseCAKey X (PK_CAKey clusterPKI))) (\<lambda>caKey.
        newLeafKeyAndCert X (''system:node:'' @ nodeName) sign_encipher client_server [] [] [''system:nodes''] caCert caKey)))"

definition MintClientCert :: "('w, 'k, 'p) x509_lib \<Rightarrow> cluster_pki \<Rightarrow> string \<Rightarrow> string list \<Rightarrow> ('w, byte list \<times> byte list) go" where
  "MintClientCert X clusterPKI cn org =
     (if cn = [] then failG (plain_err ''client cert CN must not be empty'')
      else if PK_CA clusterPKI = [] \<or> PK_CAKey clusterPKI = [] then failG (plain_err ''cluster PKI has no CA material'')
      else
        bindG (liftG (parseCACertificate X (PK_CA clusterPKI))) (\<lambda>caCert.
        bindG (liftG (parseCAKey X (PK_CAKey clusterPKI))) (\<lambda>caKey.
        newLeafKeyAndCert X cn sign_encipher [ExtKeyUsageClientAuth] [] [] org caCert caKey)))"

text \<open>The library of \<open>RenderKubeconfig\<close> with this reader of certificates.\<close>

definition pki_lib_of :: "('w, 'k, 'p) x509_lib \<Rightarrow> (kubeconfig \<Rightarrow> goerr + byte list) \<Rightarrow> pki_lib" where
  "pki_lib_of X yaml = \<lparr>Pki_ParseCA = (\<lambda>ca. case parseCACertificate X ca of Inl e \<Rightarrow> Some e | Inr _ \<Rightarrow> None), Pki_MarshalYAML = yaml\<rparr>"


section \<open>Chains\<close>

text \<open>An authority with its key: self-signed, allowed to sign, and valid for the key.\<close>

definition authority :: "('w, 'k, 'p) x509_lib \<Rightarrow> string \<Rightarrow> 'k \<Rightarrow> 'p certificate \<Rightarrow> bool" where
  "authority X cn key c \<longleftrightarrow> Cert_Subject c = (cn, []) \<and> Cert_Issuer c = (cn, []) \<and> Cert_PublicKey c = Some (X_Public X key) \<and>
     Cert_SignedWith c = Some (X_Public X key) \<and> Cert_IsCA c \<and> Cert_KeyUsage c AND KeyUsageCertSign \<noteq> 0"

text \<open>
  A leaf as PEM, with its private key: issued by the authority and signed with the authority's key, for the public
  half of the private key, not an authority itself, and with the subject, usages and alternative names asked for.
\<close>

definition leaf_of ::
  "('w, 'k, 'p) x509_lib \<Rightarrow> 'p certificate \<Rightarrow> string \<Rightarrow> string list \<Rightarrow> ext_key_usage list \<Rightarrow> string list \<Rightarrow> nat list list \<Rightarrow> byte list \<times> byte list \<Rightarrow> bool" where
  "leaf_of X ca cn org eku dns ips = (\<lambda>(certPEM, keyPEM). \<exists>c k. parseCACertificate X certPEM = Inr c \<and> parseCAKey X keyPEM = Inr k \<and>
     Cert_PublicKey c = Some (X_Public X k) \<and> Cert_Issuer c = Cert_Subject ca \<and> Cert_SignedWith c = Cert_PublicKey ca \<and> \<not> Cert_IsCA c \<and>
     Cert_Subject c = (cn, org) \<and> Cert_ExtKeyUsage c = eku \<and> Cert_DNSNames c = dns \<and> Cert_IPAddresses c = map To4 ips \<and>
     0 < Cert_SerialNumber c \<and> Cert_SerialNumber c < 2 ^ 128 \<and> Cert_NotBefore c < Cert_NotAfter c)"

lemma x509_lawsD:
  assumes "x509_laws X"
  shows "X_CreateCertificate X t parent pub k w = (Inr der, w') \<Longrightarrow> X_ParseCertificate X der = Inr (issued X t parent pub k)"
    and "X_ParsePKCS1PrivateKey X (X_MarshalPKCS1PrivateKey X k) = Inr k"
    and "X_DecodePEM X (X_EncodePEM X ty b) = Some (ty, b)" and "X_EncodePEM X ty b \<noteq> []"
    and "X_RandInt X n w = (Inr m, w') \<Longrightarrow> m < n"
  using assms unfolding x509_laws_def by blast+

lemma parse_pemKey: "x509_laws X \<Longrightarrow> parseCAKey X (pemKey X k) = Inr k"
  by (simp add: parseCAKey_def pemKey_def x509_lawsD)

lemma parse_pemCert: "x509_laws X \<Longrightarrow> X_ParseCertificate X der = Inr c \<Longrightarrow> parseCACertificate X (pemCert X der) = Inr c"
  by (simp add: parseCACertificate_def pemCert_def x509_lawsD)

lemma newSerial_range: "x509_laws X \<Longrightarrow> newSerial X w = (Inr n, w') \<Longrightarrow> 0 < n \<and> n < 2 ^ 128"
  by (auto simp: newSerial_def bindG_eq_Inr dest: x509_lawsD(5))

lemma whole_seconds_less: "a + 1000000000 \<le> (b :: int) \<Longrightarrow> a div 1000000000 * 1000000000 < b div 1000000000 * 1000000000"
  by linarith

lemma validityWindow_eq:
  "validityWindow X d w = (Inr v, w') \<longleftrightarrow> (\<exists>now. X_Now X w = (now, w') \<and> v = (now - 3600000000000, now + d))"
  by (auto simp: validityWindow_def split: prod.splits)

lemma leaf_issued:
  assumes "x509_laws X" and "Cert_PublicKey ca = Some (X_Public X caKey)"
    and "newLeafKeyAndCert X cn ku eku dns ips org ca caKey w = (Inr r, w')"
  shows "leaf_of X ca cn org eku dns ips r"
proof -
  from assms(3) obtain key w1 template w2 der where t: "newLeafTemplate X cn ku eku dns ips org w1 = (Inr template, w2)"
    and der: "X_CreateCertificate X template ca (X_Public X key) caKey w2 = (Inr der, w')" and r: "r = (pemCert X der, pemKey X key)"
    by (auto simp: newLeafKeyAndCert_def signCert_def bindG_eq_Inr)
  have cert: "parseCACertificate X (pemCert X der) = Inr (issued X template ca (X_Public X key) caKey)"
    by (rule parse_pemCert [OF assms(1) x509_lawsD(1) [OF assms(1) der]])
  from t obtain serial w0 now where "newSerial X w1 = (Inr serial, w0)"
    and template: "template = \<lparr>Cert_SerialNumber = serial, Cert_CommonName = cn, Cert_Organization = org,
       Cert_NotBefore = now - 3600000000000, Cert_NotAfter = now + leafValidity, Cert_KeyUsage = ku, Cert_ExtKeyUsage = eku,
       Cert_BasicConstraintsValid = True, Cert_IsCA = False, Cert_DNSNames = dns, Cert_IPAddresses = ips,
       Cert_Issuer = ([], []), Cert_PublicKey = None, Cert_SignedWith = None\<rparr>"
    by (auto simp: newLeafTemplate_def bindG_eq_Inr validityWindow_eq)
  moreover have "(now - 3600000000000) div 1000000000 * 1000000000 < (now + leafValidity) div 1000000000 * 1000000000"
    by (rule whole_seconds_less) (simp add: leafValidity_def)
  ultimately show ?thesis using cert newSerial_range [OF assms(1)] assms(2)
    by (simp add: leaf_of_def r parse_pemKey [OF assms(1)] issued_def Cert_Subject_def)
qed

lemma ca_issued:
  assumes "x509_laws X" and "newCACertificate X cn key w = (Inr (c, pem), w')"
  shows "parseCACertificate X pem = Inr c" "authority X cn key c" "pem \<noteq> []"
proof -
  from assms(2) obtain serial window der w1 where der: "X_CreateCertificate X (ca_template serial cn window) (ca_template serial cn window) (X_Public X key) key w1 = (Inr der, w')"
    and c: "X_ParseCertificate X der = Inr c" and pem: "pem = pemCert X der"
    by (auto simp: newCACertificate_def bindG_eq_Inr Let_def liftG_def)
  show "parseCACertificate X pem = Inr c" unfolding pem by (rule parse_pemCert [OF assms(1) c])
  show "authority X cn key c" using x509_lawsD(1) [OF assms(1) der] c
    by (simp add: authority_def issued_def ca_template_def Cert_Subject_def KeyUsageCertSign_def KeyUsageDigitalSignature_def KeyUsageCRLSign_def)
  show "pem \<noteq> []" by (simp add: pem pemCert_def x509_lawsD(4) [OF assms(1)])
qed

subsection \<open>Generation succeeds\<close>

lemma newKey_delivers: "x509_delivers X \<Longrightarrow> \<exists>k w'. newKey X w = (Inr k, w')"
  unfolding x509_delivers_def newKey_def by simp

lemma newSerial_delivers: "x509_delivers X \<Longrightarrow> \<exists>n w'. newSerial X w = (Inr n, w')"
  unfolding x509_delivers_def newSerial_def bindG_eq_Inr wrapG_Inr run_return by (metis zero_less_numeral zero_less_power)

lemma create_delivers:
  "x509_delivers X \<Longrightarrow> 0 < Cert_SerialNumber t \<Longrightarrow> list_all ascii (Cert_CommonName t # Cert_Organization t @ Cert_DNSNames t) \<Longrightarrow>
   Cert_PublicKey parent \<in> {None, Some (X_Public X k)} \<Longrightarrow> \<exists>der w'. X_CreateCertificate X t parent pub k w = (Inr der, w')"
  unfolding x509_delivers_def by blast

lemma leaf_delivers:
  assumes X: "x509_laws X" "x509_delivers X" and key: "Cert_PublicKey ca = Some (X_Public X caKey)" and names: "list_all ascii (cn # org @ dns)"
  shows "\<exists>c d w'. newLeafKeyAndCert X cn ku eku dns ips org ca caKey w = (Inr (c, d), w')"
proof -
  obtain k w1 where k: "newKey X w = (Inr k, w1)" using newKey_delivers [OF X(2)] by blast
  obtain n w2 where n: "newSerial X w1 = (Inr n, w2)" using newSerial_delivers [OF X(2)] by blast
  obtain template w3 where t: "newLeafTemplate X cn ku eku dns ips org w1 = (Inr template, w3)" and f: "0 < Cert_SerialNumber template"
    "Cert_CommonName template # Cert_Organization template @ Cert_DNSNames template = cn # org @ dns"
    using n newSerial_range [OF X(1) n] by (cases "X_Now X w2") (simp add: newLeafTemplate_def run_bind validityWindow_def)
  from create_delivers [OF X(2) f(1), of ca caKey "X_Public X k" w3] names key
  show ?thesis unfolding f(2) by (auto simp: newLeafKeyAndCert_def signCert_def bindG_eq_Inr k t)
qed

lemma ca_delivers:
  assumes X: "x509_laws X" "x509_delivers X" and cn: "ascii cn"
  shows "\<exists>c pem w'. newCACertificate X cn key w = (Inr (c, pem), w')"
proof -
  obtain n w1 where n: "newSerial X w = (Inr n, w1)" using newSerial_delivers [OF X(2)] by blast
  obtain window w2 where v: "validityWindow X caValidity w1 = (Inr window, w2)" by (cases "X_Now X w1") (simp add: validityWindow_def)
  let ?t = "ca_template n cn window"
  have "0 < n" using newSerial_range [OF X(1) n] by simp
  then obtain der w3 where der: "X_CreateCertificate X ?t ?t (X_Public X key) key w2 = (Inr der, w3)"
    using create_delivers [OF X(2), of ?t ?t key "X_Public X key" w2] cn by (auto simp: ca_template_def)
  have "newCACertificate X cn key w = (Inr (issued X ?t ?t (X_Public X key) key, pemCert X der), w3)"
    using wrapG_Inr [of "''creating CA certificate''" "X_CreateCertificate X ?t ?t (X_Public X key) key" w2 der w3]
      wrapG_Inr [of "''parsing generated CA certificate''" "liftG (X_ParseCertificate X der)" w3 "issued X ?t ?t (X_Public X key) key" w3]
    by (simp add: newCACertificate_def run_bind Let_def n v der liftG_def x509_lawsD(1) [OF X(1) der] del: wrapG_Inr)
  then show ?thesis by blast
qed


section \<open>The certificates of a cluster\<close>

text \<open>The two authorities and the six certificates with their keys.\<close>

definition pki_chains :: "('w, 'k, 'p) x509_lib \<Rightarrow> nat list \<Rightarrow> string \<Rightarrow> cluster_pki \<Rightarrow> 'p certificate \<Rightarrow> 'k \<Rightarrow> bool" where
  "pki_chains X ip cpName pk ca caKey \<longleftrightarrow>
     parseCACertificate X (PK_CA pk) = Inr ca \<and> parseCAKey X (PK_CAKey pk) = Inr caKey \<and> authority X ''cluster-ca'' caKey ca \<and>
     (\<exists>fca fcaKey. parseCACertificate X (PK_FrontProxyCA pk) = Inr fca \<and> parseCAKey X (PK_FrontProxyCAKey pk) = Inr fcaKey \<and>
        authority X ''front-proxy-ca'' fcaKey fca \<and>
        leaf_of X fca ''front-proxy-client'' [] [ExtKeyUsageClientAuth] [] [] (PK_FrontProxy pk, PK_FrontProxyKey pk)) \<and>
     leaf_of X ca ''kube-apiserver'' [] client_server [cpName, ''host.containers.internal''] [ip, [127, 0, 0, 1], [10, 96, 0, 1]] (PK_APIServer pk, PK_APIServerKey pk) \<and>
     leaf_of X ca ''service-account'' [] client_server [] [] (PK_ServiceAccount pk, PK_ServiceAccountKey pk)"

lemma loopback: "net_ParseIP ''127.0.0.1'' = Some (replicate 10 0 @ [255, 255, 127, 0, 0, 1])"
  by code_simp

lemma serviceIP_bytes: "serviceIP = replicate 10 0 @ [255, 255, 10, 96, 0, 1]"
  by code_simp

lemma leaf_of_To4: "leaf_of X ca cn org eku dns [ip, replicate 10 0 @ [255, 255, 127, 0, 0, 1], replicate 10 0 @ [255, 255, 10, 96, 0, 1]] r =
   leaf_of X ca cn org eku dns [ip, [127, 0, 0, 1], [10, 96, 0, 1]] r"
proof -
  have "To4 (replicate 10 0 @ [255, 255, 127, 0, 0, 1]) = To4 [127, 0, 0, 1]" "To4 (replicate 10 0 @ [255, 255, 10, 96, 0, 1]) = To4 [10, 96, 0, 1]"
    by (simp_all add: To4_def)
  then show ?thesis by (simp only: leaf_of_def list.map)
qed

lemma authority_key: "authority X cn k c \<Longrightarrow> Cert_PublicKey c = Some (X_Public X k)"
  by (simp add: authority_def)

lemma pki_generated:
  assumes X: "x509_laws X" and gen: "GenerateClusterPKI X cpIP cpName w = (Inr pk, w')" and ip: "net_ParseIP cpIP = Some ip"
  shows "PK_CA pk \<noteq> [] \<and> PK_CAKey pk \<noteq> [] \<and> (\<exists>ca caKey. pki_chains X ip cpName pk ca caKey)"
proof -
  from gen obtain caKey w1 ca caPEM w2 fcaKey w3 fca fcaPEM w4 api w5 fp w6 sa where
    ca: "newCACertificate X ''cluster-ca'' caKey w1 = (Inr (ca, caPEM), w2)" and
    fca: "newCACertificate X ''front-proxy-ca'' fcaKey w3 = (Inr (fca, fcaPEM), w4)" and
    api: "newLeafKeyAndCert X ''kube-apiserver'' sign_encipher client_server [cpName, ''host.containers.internal'']
       [ip, replicate 10 0 @ [255, 255, 127, 0, 0, 1], serviceIP] [] ca caKey w4 = (Inr api, w5)" and
    fp: "newLeafKeyAndCert X ''front-proxy-client'' sign_encipher [ExtKeyUsageClientAuth] [] [] [] fca fcaKey w5 = (Inr fp, w6)" and
    sa: "newLeafKeyAndCert X ''service-account'' KeyUsageDigitalSignature client_server [] [] [] ca caKey w6 = (Inr sa, w')" and
    pk: "pk = \<lparr>PK_CA = caPEM, PK_CAKey = pemKey X caKey, PK_FrontProxyCA = fcaPEM, PK_FrontProxyCAKey = pemKey X fcaKey,
             PK_APIServer = fst api, PK_APIServerKey = snd api, PK_FrontProxy = fst fp, PK_FrontProxyKey = snd fp,
             PK_ServiceAccount = fst sa, PK_ServiceAccountKey = snd sa\<rparr>"
    by (auto simp: GenerateClusterPKI_def loopback ip bindG_eq_Inr split: if_splits)
  note key = authority_key [OF ca_issued(2) [OF X ca]] and fkey = authority_key [OF ca_issued(2) [OF X fca]]
  have "leaf_of X ca ''kube-apiserver'' [] client_server [cpName, ''host.containers.internal''] [ip, [127, 0, 0, 1], [10, 96, 0, 1]] api"
    using leaf_issued [OF X key api] by (simp only: serviceIP_bytes leaf_of_To4)
  then have "pki_chains X ip cpName pk ca caKey"
    unfolding pki_chains_def using ca_issued [OF X ca] ca_issued [OF X fca] leaf_issued [OF X fkey fp] leaf_issued [OF X key sa]
    by (auto simp: pk parse_pemKey [OF X])
  then show ?thesis using ca_issued(3) [OF X ca] x509_lawsD(4) [OF X] by (auto simp: pk pemKey_def)
qed

lemma pki_delivered:
  assumes X: "x509_laws X" "x509_delivers X" and ip: "net_ParseIP cpIP = Some ip" and cpName: "cpName \<noteq> []" "ascii cpName"
  shows "\<exists>pk w'. GenerateClusterPKI X cpIP cpName w = (Inr pk, w')"
proof -
  have names: "ascii ''cluster-ca''" "ascii ''front-proxy-ca''" "list_all ascii (''kube-apiserver'' # [] @ [cpName, ''host.containers.internal''])"
    "list_all ascii (''front-proxy-client'' # [] @ [])" "list_all ascii (''service-account'' # [] @ [])"
    using cpName(2) by (simp_all add: ascii_def)
  obtain k w1 where k: "newKey X w = (Inr k, w1)" using newKey_delivers [OF X(2)] by blast
  obtain ca pem w2 where ca: "newCACertificate X ''cluster-ca'' k w1 = (Inr (ca, pem), w2)" using ca_delivers [OF X names(1)] by blast
  obtain fk w3 where fk: "newKey X w2 = (Inr fk, w3)" using newKey_delivers [OF X(2)] by blast
  obtain fca fpem w4 where fca: "newCACertificate X ''front-proxy-ca'' fk w3 = (Inr (fca, fpem), w4)" using ca_delivers [OF X names(2)] by blast
  note key = authority_key [OF ca_issued(2) [OF X(1) ca]] and fkey = authority_key [OF ca_issued(2) [OF X(1) fca]]
  obtain c d w5 where api: "newLeafKeyAndCert X ''kube-apiserver'' sign_encipher client_server [cpName, ''host.containers.internal'']
       [ip, replicate 10 0 @ [255, 255, 127, 0, 0, 1], serviceIP] [] ca k w4 = (Inr (c, d), w5)"
    using leaf_delivers [OF X key names(3)] by blast
  obtain e f w6 where fp: "newLeafKeyAndCert X ''front-proxy-client'' sign_encipher [ExtKeyUsageClientAuth] [] [] [] fca fk w5 = (Inr (e, f), w6)"
    using leaf_delivers [OF X fkey names(4)] by blast
  obtain g h w7 where sa: "newLeafKeyAndCert X ''service-account'' KeyUsageDigitalSignature client_server [] [] [] ca k w6 = (Inr (g, h), w7)"
    using leaf_delivers [OF X key names(5)] by blast
  show ?thesis by (simp add: GenerateClusterPKI_def ip loopback cpName run_bind k ca fk fca api fp sa del: One_nat_def)
qed


text \<open>Minting from stored certificates: the shared end of both functions.\<close>

lemma mint_from_pki:
  assumes X: "x509_laws X" "x509_delivers X" and pk: "pki_chains X ip cpName pk ca caKey" and names: "list_all ascii (cn # org)"
  shows "\<exists>r w'. bindG (liftG (parseCACertificate X (PK_CA pk))) (\<lambda>caCert. bindG (liftG (parseCAKey X (PK_CAKey pk))) (\<lambda>caKey.
      newLeafKeyAndCert X cn ku eku [] [] org caCert caKey)) w = (Inr r, w') \<and> leaf_of X ca cn org eku [] [] r"
proof -
  have ca: "parseCACertificate X (PK_CA pk) = Inr ca" "parseCAKey X (PK_CAKey pk) = Inr caKey" and key: "Cert_PublicKey ca = Some (X_Public X caKey)"
    using pk by (auto simp: pki_chains_def authority_def)
  obtain c d w' where leaf: "newLeafKeyAndCert X cn ku eku [] [] org ca caKey w = (Inr (c, d), w')"
    using leaf_delivers [OF X key, of cn org "[]"] names by fastforce
  then show ?thesis using leaf_issued [OF X(1) key leaf] by (auto simp: run_bind liftG_def ca)
qed

text \<open>
  C19: The certificates of a cluster form two chains. For an address literal and a non-empty name, and as long as the
  random source delivers, \<open>GenerateClusterPKI\<close> returns two self-signed authorities with their keys; the API
  server certificate is signed with the key of the cluster CA, matches its private key, and names the control plane, its
  address, the loopback and the service address; the service account certificate is signed by the same CA and the
  front-proxy client by the other one. The PKI survives being stored in the Secret, and from what is read back
  \<open>GenerateKubeletCert\<close> and \<open>MintClientCert\<close> issue, at any later time, certificates of the
  node and of the client that are signed with the key of that same cluster CA and match the private keys returned with them.
\<close>

theorem cluster_certificates_chain:
  assumes X: "x509_laws X" "x509_delivers X"
    and cp: "net_ParseIP cpIP = Some ip" "cpName \<noteq> []" "ascii cpName"
    and node: "node \<noteq> []" "ascii node" and client: "cn \<noteq> []" "list_all ascii (cn # org)"
  shows "\<exists>pk w' stored ca caKey. GenerateClusterPKI X cpIP cpName w = (Inr pk, w') \<and> pki_chains X ip cpName pk ca caKey \<and>
    decodeClusterPKI (clusterPKISecretData pk) = Inr stored \<and>
    (\<forall>v. \<exists>r v'. GenerateKubeletCert X stored node v = (Inr r, v') \<and>
       leaf_of X ca (''system:node:'' @ node) [''system:nodes''] client_server [] [] r) \<and>
    (\<forall>v. \<exists>r v'. MintClientCert X stored cn org v = (Inr r, v') \<and> leaf_of X ca cn org [ExtKeyUsageClientAuth] [] [] r)"
proof -
  obtain pk w' where gen: "GenerateClusterPKI X cpIP cpName w = (Inr pk, w')" using pki_delivered [OF X cp] by blast
  obtain ca caKey where pk: "PK_CA pk \<noteq> []" "PK_CAKey pk \<noteq> []" and chains: "pki_chains X ip cpName pk ca caKey"
    using pki_generated [OF X(1) gen cp(1)] by blast
  have "list_all ascii ((''system:node:'' @ node) # [''system:nodes''])" using node(2) by (auto simp: ascii_def)
  from mint_from_pki [OF X chains this] mint_from_pki [OF X chains client(2)]
  show ?thesis using gen chains decode_pki_data [of pk] node(1) client(1) pk
    by (auto simp: GenerateKubeletCert_def MintClientCert_def)
qed

subsection \<open>A library\<close>

text \<open>
  Keys are numbers, a certificate is encoded by its number in an enumeration of all certificates, and so is PEM text.
\<close>

instance ext_key_usage :: countable
  by countable_datatype

type_synonym cert_tuple = "nat \<times> string \<times> string list \<times> int \<times> int \<times> int \<times> ext_key_usage list \<times> bool \<times> bool \<times> string list \<times> nat list list \<times> (string \<times> string list) \<times> nat option \<times> nat option"

definition tuple_of :: "nat certificate \<Rightarrow> cert_tuple" where
  "tuple_of c = (Cert_SerialNumber c, Cert_CommonName c, Cert_Organization c, Cert_NotBefore c, Cert_NotAfter c, Cert_KeyUsage c,
     Cert_ExtKeyUsage c, Cert_BasicConstraintsValid c, Cert_IsCA c, Cert_DNSNames c, Cert_IPAddresses c, Cert_Issuer c, Cert_PublicKey c, Cert_SignedWith c)"

fun certificate_of :: "cert_tuple \<Rightarrow> nat certificate" where
  "certificate_of (n, cn, org, nb, na, ku, eku, bc, isca, dns, ips, iss, pub, sig) = \<lparr>Cert_SerialNumber = n, Cert_CommonName = cn,
     Cert_Organization = org, Cert_NotBefore = nb, Cert_NotAfter = na, Cert_KeyUsage = ku, Cert_ExtKeyUsage = eku,
     Cert_BasicConstraintsValid = bc, Cert_IsCA = isca, Cert_DNSNames = dns, Cert_IPAddresses = ips, Cert_Issuer = iss,
     Cert_PublicKey = pub, Cert_SignedWith = sig\<rparr>"

lemma certificate_of_tuple [simp]: "certificate_of (tuple_of c) = c"
  by (simp add: tuple_of_def)

definition unary :: "'a::countable \<Rightarrow> byte list" where
  "unary x = replicate (to_nat x) 0"

definition of_unary :: "byte list \<Rightarrow> 'a::countable" where
  "of_unary bs = from_nat (length bs)"

lemma of_unary [simp]: "of_unary (unary x) = x"
  by (simp add: of_unary_def unary_def)

definition sample_lib :: "(nat, nat, nat) x509_lib" where
  "sample_lib = \<lparr>X_GenerateKey = (\<lambda>_ w. (Inr w, Suc w)), X_RandInt = (\<lambda>n w. (if n = 0 then Inl (plain_err []) else Inr (w mod n), Suc w)),
     X_Now = (\<lambda>w. (int w, w)), X_Public = (\<lambda>k. k),
     X_CreateCertificate = (\<lambda>t parent pub k w. if Cert_PublicKey parent \<in> {None, Some k}
        then (Inr (unary (tuple_of (t\<lparr>Cert_NotBefore := Cert_NotBefore t div 1000000000 * 1000000000,
          Cert_NotAfter := Cert_NotAfter t div 1000000000 * 1000000000, Cert_IPAddresses := map To4 (Cert_IPAddresses t),
          Cert_Issuer := Cert_Subject parent, Cert_PublicKey := Some pub, Cert_SignedWith := Some k\<rparr>))), w)
        else (Inl (plain_err ''x509: provided PrivateKey doesn't match parent's PublicKey''), w)),
     X_ParseCertificate = (\<lambda>der. Inr (certificate_of (of_unary der))),
     X_MarshalPKCS1PrivateKey = unary, X_ParsePKCS1PrivateKey = (\<lambda>b. Inr (of_unary b)),
     X_EncodePEM = (\<lambda>ty b. 1 # unary (ty, map unat b)),
     X_DecodePEM = (\<lambda>bs. case of_unary (tl bs) of (ty, b) \<Rightarrow> Some (ty, map of_nat b))\<rparr>"

lemma sample_laws: "x509_laws sample_lib"
  by (auto simp: x509_laws_def sample_lib_def issued_def comp_def split: if_splits)

lemma sample_delivers: "x509_delivers sample_lib"
  by (auto simp: x509_delivers_def sample_lib_def)

theorem cluster_certificates_chain_witness:
  "\<exists>pk w' ca caKey. GenerateClusterPKI sample_lib ''10.42.0.2'' ''cp-0'' 0 = (Inr pk, w') \<and>
     pki_chains sample_lib (replicate 10 0 @ [255, 255, 10, 42, 0, 2]) ''cp-0'' pk ca caKey"
proof -
  have ip: "net_ParseIP ''10.42.0.2'' = Some (replicate 10 0 @ [255, 255, 10, 42, 0, 2])" by code_simp
  have names: "ascii ''cp-0''" "ascii ''worker-0''" "list_all ascii (''admin'' # [''system:masters''])" by (simp_all add: ascii_def)
  show ?thesis using cluster_certificates_chain [OF sample_laws sample_delivers ip _ names(1) _ names(2) _ names(3), of 0] by auto
qed

end
