(* ===== verification/AgentGrpc.thy ===== *)
theory AgentGrpc
  imports HostAgent
begin

text \<open>
  The transport between the manager and the host agent (\<open>internal/agentgrpc\<close>): the
  server that decodes requests and turns errors into status codes, the client that is itself a host
  agent, and the interceptor that admits only the manager. The messages are those of
  \<open>api/agent/v1/agent.proto\<close>, a pointer to a message being optional. A \<open>service\<close> is both
  the interface the server implements and the stub the client holds: the client of a server is the
  client over a connection that delivers every message and status unchanged.
\<close>

section \<open>Messages\<close>

record w_owner =
  WO_InstallationId :: string
  WO_NodeId :: string
  WO_Uid :: string

record w_mutation =
  WM_ProtocolMajor :: uint32
  WM_Owner :: "w_owner option"
  WM_Generation :: uint64
  WM_IdempotencyKey :: string
  WM_RetainDisk :: bool

record w_capabilities =
  WC_ProtocolMajor :: uint32
  WC_NodeId :: string
  WC_CloudHypervisor :: string
  WC_K8NetdProtocolMajor :: uint32
  WC_CanUseKvm :: bool
  WC_CanUseUserDbus :: bool

record w_vm_desired =
  WD_Uid :: string
  WD_Name :: string
  WD_Image :: string
  WD_Firmware :: string
  WD_ApiSocket :: string
  WD_VhostSocket :: string
  WD_Disk :: string
  WD_Mac :: string
  WD_Ip :: string
  WD_Cpus :: uint32
  WD_MemoryMib :: uint32
  WD_AdditionalDisks :: "string list"
  WD_DiskSha256 :: string
  WD_AdditionalDiskSha256 :: "string list"
  WD_FirmwareSha256 :: string

record w_vm_observed =
  WV_Uid :: string
  WV_Unit :: string
  WV_Pid :: int
  WV_GuestUptime :: uint64
  WV_Running :: bool
  WV_ApiSocket :: string
  WV_VhostSocket :: string
  WV_Ip :: string
  WV_Mac :: string
  WV_Generation :: uint64

record w_network = WN_Name :: string  WN_Cidr :: string

record w_port_request = WP_Name :: string  WP_Network :: string  WP_Mac :: string

record w_port_observed =
  WPO_Name :: string
  WPO_Network :: string
  WPO_Mac :: string
  WPO_Ip :: string
  WPO_Published :: "uint32 \<rightharpoonup> uint32"

record w_diagnostics = WDi_OwnerUid :: string  WDi_Messages :: "string list"

record w_lease =
  WL_Uid :: string
  WL_Network :: string
  WL_Port :: string
  WL_Mac :: string
  WL_Ip :: string
  WL_ExpiresAt :: int

record w_file = WF_Name :: string  WF_Content :: "byte list"

record w_artifacts = WA_Paths :: "string list"  WA_Sha256 :: "string list"

text \<open>The calls of the service; a request is the tuple of its fields.\<close>

record 's service =
  SV_Health :: "uint32 \<Rightarrow> ('s, w_capabilities) go"
  SV_EnsureVM :: "w_mutation option \<times> w_vm_desired option \<Rightarrow> ('s, w_vm_observed option) go"
  SV_GetVM :: "w_owner option \<times> uint32 \<Rightarrow> ('s, w_vm_observed option) go"
  SV_StopVM :: "w_mutation option \<Rightarrow> ('s, unit) go"
  SV_DeleteVM :: "w_mutation option \<Rightarrow> ('s, unit) go"
  SV_EnsureNetwork :: "w_mutation option \<times> w_network option \<Rightarrow> ('s, unit) go"
  SV_DeleteNetwork :: "w_mutation option \<Rightarrow> ('s, unit) go"
  SV_EnsurePort :: "w_mutation option \<times> w_port_request option \<Rightarrow> ('s, w_port_observed option) go"
  SV_DeletePort :: "w_mutation option \<Rightarrow> ('s, unit) go"
  SV_AllocateIP :: "w_mutation option \<Rightarrow> ('s, string) go"
  SV_ReleaseIP :: "w_mutation option \<times> string \<Rightarrow> ('s, unit) go"
  SV_PublishPort :: "w_mutation option \<times> uint32 \<times> uint32 \<Rightarrow> ('s, uint32) go"
  SV_ReleasePort :: "w_mutation option \<times> uint32 \<times> uint32 \<Rightarrow> ('s, unit) go"
  SV_Diagnostics :: "w_owner option \<times> uint32 \<Rightarrow> ('s, w_diagnostics option) go"
  SV_AcquireProbe :: "w_mutation option \<times> string \<Rightarrow> ('s, w_lease option) go"
  SV_ReleaseProbe :: "w_mutation option \<times> string \<Rightarrow> ('s, unit) go"
  SV_PrepareRootDisk :: "w_mutation option \<times> string \<times> string \<Rightarrow> ('s, w_artifacts) go"
  SV_PrepareCIDATA :: "w_mutation option \<times> string \<times> w_file list \<Rightarrow> ('s, w_artifacts) go"
  SV_PrepareConfext :: "w_mutation option \<times> string \<times> w_file list \<Rightarrow> ('s, w_artifacts) go"

section \<open>Status errors\<close>

fun code_name :: "rpc_code \<Rightarrow> string" where
  "code_name RpcInvalidArgument = ''InvalidArgument''"
| "code_name RpcFailedPrecondition = ''FailedPrecondition''"
| "code_name RpcNotFound = ''NotFound''"
| "code_name RpcAborted = ''Aborted''"
| "code_name RpcUnavailable = ''Unavailable''"
| "code_name RpcInternal = ''Internal''"
| "code_name RpcUnauthenticated = ''Unauthenticated''"
| "code_name RpcPermissionDenied = ''PermissionDenied''"
| "code_name RpcUnknown = ''Unknown''"

text \<open>\<open>status.Error\<close> and \<open>status.Code\<close>.\<close>

definition status_err :: "rpc_code \<Rightarrow> string \<Rightarrow> goerr" where
  "status_err code msg = GoErr (RpcStatus code) (''rpc error: code = '' @ code_name code @ '' desc = '' @ msg)"

definition status_code :: "goerr \<Rightarrow> rpc_code" where
  "status_code e = (case err_kind e of RpcStatus c \<Rightarrow> c | _ \<Rightarrow> RpcUnknown)"

definition codeFor :: "goerr \<Rightarrow> rpc_code" where
  "codeFor e =
     (if IsInvalid e then RpcInvalidArgument
      else if IsProtocol e then RpcFailedPrecondition
      else if IsNotFound e then RpcNotFound
      else if IsConflict e then RpcAborted
      else if IsUnavailable e then RpcUnavailable
      else RpcInternal)"

definition rpcError :: "goerr \<Rightarrow> goerr" where
  "rpcError e = status_err (codeFor e) (err_text e)"

definition invalidRequest :: goerr where
  "invalidRequest = status_err RpcInvalidArgument (sentinel_text ErrInvalidRequest)"

text \<open>A handler's call of the host: its error becomes a status.\<close>

definition rpcG :: "('s, 'a) go \<Rightarrow> ('s, 'a) go" where
  "rpcG m = catchG m (\<lambda>r. case r of Inl e \<Rightarrow> failG (rpcError e) | Inr x \<Rightarrow> returnG x)"

section \<open>Decoding (server.go)\<close>

definition mutationFrom :: "w_mutation option \<Rightarrow> goerr + mutation" where
  "mutationFrom value =
     (case value of
        None \<Rightarrow> Inl (sentinel_err ErrInvalidRequest)
      | Some v \<Rightarrow>
          (case WM_Owner v of
             None \<Rightarrow> Inl (sentinel_err ErrInvalidRequest)
           | Some ow \<Rightarrow>
               let m = \<lparr>Mut_ProtocolMajor = WM_ProtocolMajor v,
                     Mut_Owner = \<lparr>Owner_InstallationID = WO_InstallationId ow, Owner_NodeID = WO_NodeId ow, Owner_UID = WO_Uid ow\<rparr>,
                     Mut_Generation = WM_Generation v, Mut_IdempotencyKey = WM_IdempotencyKey v, Mut_RetainDisk = WM_RetainDisk v\<rparr>
               in case Mutation_Validate m of None \<Rightarrow> Inr m | Some e \<Rightarrow> Inl e))"

definition ownerFrom :: "w_owner option \<times> uint32 \<Rightarrow> goerr + owner" where
  "ownerFrom req =
     (case req of (value, protocol) \<Rightarrow>
        if protocol \<noteq> ProtocolMajor
        then Inl (detail_err ErrProtocol (''got '' @ show_word protocol @ '', want '' @ show_word ProtocolMajor))
        else
          let ow = (case value of
                None \<Rightarrow> \<lparr>Owner_InstallationID = [], Owner_NodeID = [], Owner_UID = []\<rparr>
              | Some v \<Rightarrow> \<lparr>Owner_InstallationID = WO_InstallationId v, Owner_NodeID = WO_NodeId v, Owner_UID = WO_Uid v\<rparr>)
          in case Owner_Validate ow of None \<Rightarrow> Inr ow | Some e \<Rightarrow> Inl e)"

definition vmDesiredFrom :: "w_vm_desired \<Rightarrow> vm_desired" where
  "vmDesiredFrom v =
     \<lparr>Des_UID = WD_Uid v, Des_Name = WD_Name v, Des_Image = WD_Image v, Des_Firmware = WD_Firmware v,
      Des_FirmwareSHA256 = WD_FirmwareSha256 v, Des_APISocket = WD_ApiSocket v, Des_VhostSocket = WD_VhostSocket v,
      Des_Disk = WD_Disk v, Des_MAC = WD_Mac v, Des_IP = WD_Ip v, Des_CPUs = WD_Cpus v, Des_MemoryMiB = WD_MemoryMib v,
      Des_AdditionalDisks = WD_AdditionalDisks v, Des_DiskSHA256 = WD_DiskSha256 v,
      Des_AdditionalDiskSHA256s = WD_AdditionalDiskSha256 v\<rparr>"

definition vmObservedTo :: "vm_observed \<Rightarrow> w_vm_observed" where
  "vmObservedTo v =
     \<lparr>WV_Uid = Obs_UID v, WV_Unit = Obs_Unit v, WV_Pid = Obs_PID v, WV_GuestUptime = Obs_GuestUptime v, WV_Running = Obs_Running v,
      WV_ApiSocket = Obs_APISocket v, WV_VhostSocket = Obs_VhostSocket v, WV_Ip = Obs_IP v, WV_Mac = Obs_MAC v,
      WV_Generation = Obs_Generation v\<rparr>"

definition portObservedTo :: "port_observed \<Rightarrow> w_port_observed" where
  "portObservedTo v =
     \<lparr>WPO_Name = PortObs_Name v, WPO_Network = PortObs_Network v, WPO_Mac = PortObs_MAC v, WPO_Ip = PortObs_IP v,
      WPO_Published = PortObs_Published v\<rparr>"

definition probeLeaseTo :: "probe_lease \<Rightarrow> w_lease" where
  "probeLeaseTo v =
     \<lparr>WL_Uid = Lease_UID v, WL_Network = Lease_Network v, WL_Port = Lease_Port v, WL_Mac = Lease_MAC v, WL_Ip = Lease_IP v,
      WL_ExpiresAt = Lease_ExpiresAt v\<rparr>"

definition artifactFiles :: "w_file list \<Rightarrow> artifact_file list" where
  "artifactFiles fs = map (\<lambda>f. \<lparr>File_Name = WF_Name f, File_Content = WF_Content f\<rparr>) fs"

definition artifact_response :: "artifact_result \<Rightarrow> w_artifacts" where
  "artifact_response r = \<lparr>WA_Paths = Art_Paths r, WA_Sha256 = Art_SHA256s r\<rparr>"

section \<open>The server\<close>

definition unavailable :: goerr where
  "unavailable = detail_err ErrUnavailable ''implementation is not configured''"

definition unavailableAgent :: "'s host_agent" where
  "unavailableAgent = \<lparr>
     HA_Health = failG unavailable, HA_EnsureVM = (\<lambda>_ _. failG unavailable), HA_GetVM = (\<lambda>_. failG unavailable),
     HA_StopVM = (\<lambda>_. failG unavailable), HA_DeleteVM = (\<lambda>_. failG unavailable), HA_EnsureNetwork = (\<lambda>_ _. failG unavailable),
     HA_DeleteNetwork = (\<lambda>_. failG unavailable), HA_EnsurePort = (\<lambda>_ _. failG unavailable), HA_DeletePort = (\<lambda>_. failG unavailable),
     HA_AllocateIP = (\<lambda>_. failG unavailable), HA_ReleaseIP = (\<lambda>_ _. failG unavailable), HA_PublishPort = (\<lambda>_ _ _. failG unavailable),
     HA_ReleasePort = (\<lambda>_ _ _. failG unavailable), HA_Diagnostics = (\<lambda>_. failG unavailable), HA_AcquireProbe = (\<lambda>_ _. failG unavailable),
     HA_ReleaseProbe = (\<lambda>_ _. failG unavailable), HA_PrepareRootDisk = (\<lambda>_ _. failG unavailable),
     HA_PrepareCIDATA = (\<lambda>_ _ _. failG unavailable), HA_PrepareConfext = (\<lambda>_ _ _. failG unavailable)\<rparr>"

record 's server =
  Srv_Capabilities :: capabilities
  Srv_Host :: "'s host_agent option"

definition Server_host :: "'s server \<Rightarrow> 's host_agent" where
  "Server_host s = (case Srv_Host s of None \<Rightarrow> unavailableAgent | Some a \<Rightarrow> a)"

definition Server_Health :: "'s server \<Rightarrow> uint32 \<Rightarrow> ('s, w_capabilities) go" where
  "Server_Health s protocol =
     (if protocol \<noteq> ProtocolMajor
      then failG (status_err RpcFailedPrecondition
             (sentinel_text ErrProtocol @ '': got '' @ show_word protocol @ '', want '' @ show_word ProtocolMajor))
      else
        bindG (case Srv_Host s of None \<Rightarrow> returnG (Srv_Capabilities s) | Some a \<Rightarrow> rpcG (HA_Health a)) (\<lambda>c.
        returnG \<lparr>WC_ProtocolMajor = ProtocolMajor, WC_NodeId = Cap_NodeID c, WC_CloudHypervisor = Cap_CloudHypervisor c,
          WC_K8NetdProtocolMajor = Cap_K8netdProtocolMajor c, WC_CanUseKvm = Cap_CanUseKVM c, WC_CanUseUserDbus = Cap_CanUseUserDBus c\<rparr>))"

definition Server_EnsureVM :: "'s server \<Rightarrow> w_mutation option \<times> w_vm_desired option \<Rightarrow> ('s, w_vm_observed option) go" where
  "Server_EnsureVM s req =
     (case snd req of
        None \<Rightarrow> failG invalidRequest
      | Some d \<Rightarrow>
          bindG (rpcG (liftG (mutationFrom (fst req)))) (\<lambda>m.
          bindG (rpcG (HA_EnsureVM (Server_host s) m (vmDesiredFrom d))) (\<lambda>v. returnG (Some (vmObservedTo v)))))"

definition Server_GetVM :: "'s server \<Rightarrow> w_owner option \<times> uint32 \<Rightarrow> ('s, w_vm_observed option) go" where
  "Server_GetVM s req =
     bindG (rpcG (liftG (ownerFrom req))) (\<lambda>ow.
     bindG (rpcG (HA_GetVM (Server_host s) ow)) (\<lambda>v. returnG (Some (vmObservedTo v))))"

definition Server_StopVM :: "'s server \<Rightarrow> w_mutation option \<Rightarrow> ('s, unit) go" where
  "Server_StopVM s req = bindG (rpcG (liftG (mutationFrom req))) (\<lambda>m. rpcG (HA_StopVM (Server_host s) m))"

definition Server_DeleteVM :: "'s server \<Rightarrow> w_mutation option \<Rightarrow> ('s, unit) go" where
  "Server_DeleteVM s req = bindG (rpcG (liftG (mutationFrom req))) (\<lambda>m. rpcG (HA_DeleteVM (Server_host s) m))"

definition Server_EnsureNetwork :: "'s server \<Rightarrow> w_mutation option \<times> w_network option \<Rightarrow> ('s, unit) go" where
  "Server_EnsureNetwork s req =
     (case snd req of
        None \<Rightarrow> failG invalidRequest
      | Some n \<Rightarrow>
          bindG (rpcG (liftG (mutationFrom (fst req)))) (\<lambda>m.
          rpcG (HA_EnsureNetwork (Server_host s) m \<lparr>NetReq_Name = WN_Name n, NetReq_CIDR = WN_Cidr n\<rparr>)))"

definition Server_DeleteNetwork :: "'s server \<Rightarrow> w_mutation option \<Rightarrow> ('s, unit) go" where
  "Server_DeleteNetwork s req = bindG (rpcG (liftG (mutationFrom req))) (\<lambda>m. rpcG (HA_DeleteNetwork (Server_host s) m))"

definition Server_EnsurePort :: "'s server \<Rightarrow> w_mutation option \<times> w_port_request option \<Rightarrow> ('s, w_port_observed option) go" where
  "Server_EnsurePort s req =
     (case snd req of
        None \<Rightarrow> failG invalidRequest
      | Some p \<Rightarrow>
          bindG (rpcG (liftG (mutationFrom (fst req)))) (\<lambda>m.
          bindG (rpcG (HA_EnsurePort (Server_host s) m \<lparr>PortReq_Name = WP_Name p, PortReq_Network = WP_Network p, PortReq_MAC = WP_Mac p\<rparr>))
            (\<lambda>v. returnG (Some (portObservedTo v)))))"

definition Server_DeletePort :: "'s server \<Rightarrow> w_mutation option \<Rightarrow> ('s, unit) go" where
  "Server_DeletePort s req = bindG (rpcG (liftG (mutationFrom req))) (\<lambda>m. rpcG (HA_DeletePort (Server_host s) m))"

definition Server_AllocateIP :: "'s server \<Rightarrow> w_mutation option \<Rightarrow> ('s, string) go" where
  "Server_AllocateIP s req = bindG (rpcG (liftG (mutationFrom req))) (\<lambda>m. rpcG (HA_AllocateIP (Server_host s) m))"

definition Server_ReleaseIP :: "'s server \<Rightarrow> w_mutation option \<times> string \<Rightarrow> ('s, unit) go" where
  "Server_ReleaseIP s req =
     bindG (rpcG (liftG (mutationFrom (fst req)))) (\<lambda>m.
     if snd req = [] then failG invalidRequest else rpcG (HA_ReleaseIP (Server_host s) m (snd req)))"

definition Server_PublishPort :: "'s server \<Rightarrow> w_mutation option \<times> uint32 \<times> uint32 \<Rightarrow> ('s, uint32) go" where
  "Server_PublishPort s req =
     (case req of (mu, guest, hostPort) \<Rightarrow>
        bindG (rpcG (liftG (mutationFrom mu))) (\<lambda>m. rpcG (HA_PublishPort (Server_host s) m guest hostPort)))"

definition Server_ReleasePort :: "'s server \<Rightarrow> w_mutation option \<times> uint32 \<times> uint32 \<Rightarrow> ('s, unit) go" where
  "Server_ReleasePort s req =
     (case req of (mu, guest, hostPort) \<Rightarrow>
        bindG (rpcG (liftG (mutationFrom mu))) (\<lambda>m. rpcG (HA_ReleasePort (Server_host s) m guest hostPort)))"

definition Server_Diagnostics :: "'s server \<Rightarrow> w_owner option \<times> uint32 \<Rightarrow> ('s, w_diagnostics option) go" where
  "Server_Diagnostics s req =
     bindG (rpcG (liftG (ownerFrom req))) (\<lambda>ow.
     bindG (rpcG (HA_Diagnostics (Server_host s) ow)) (\<lambda>d.
     returnG (Some \<lparr>WDi_OwnerUid = Diag_OwnerUID d, WDi_Messages = Diag_Messages d\<rparr>)))"

definition Server_AcquireProbe :: "'s server \<Rightarrow> w_mutation option \<times> string \<Rightarrow> ('s, w_lease option) go" where
  "Server_AcquireProbe s req =
     bindG (rpcG (liftG (mutationFrom (fst req)))) (\<lambda>m.
     if snd req = [] then failG invalidRequest
     else bindG (rpcG (HA_AcquireProbe (Server_host s) m (snd req))) (\<lambda>l. returnG (Some (probeLeaseTo l))))"

definition Server_ReleaseProbe :: "'s server \<Rightarrow> w_mutation option \<times> string \<Rightarrow> ('s, unit) go" where
  "Server_ReleaseProbe s req =
     bindG (rpcG (liftG (mutationFrom (fst req)))) (\<lambda>m.
     if snd req = [] then failG invalidRequest else rpcG (HA_ReleaseProbe (Server_host s) m (snd req)))"

definition Server_PrepareRootDisk :: "'s server \<Rightarrow> w_mutation option \<times> string \<times> string \<Rightarrow> ('s, w_artifacts) go" where
  "Server_PrepareRootDisk s req =
     (case req of (mu, name, source) \<Rightarrow>
        bindG (rpcG (liftG (mutationFrom mu))) (\<lambda>m.
        if name = [] \<or> source = [] then failG invalidRequest
        else bindG (rpcG (HA_PrepareRootDisk (Server_host s) m \<lparr>RootReq_Name = name, RootReq_SourceImage = source\<rparr>))
          (\<lambda>r. returnG (artifact_response r))))"

definition Server_PrepareCIDATA :: "'s server \<Rightarrow> w_mutation option \<times> string \<times> w_file list \<Rightarrow> ('s, w_artifacts) go" where
  "Server_PrepareCIDATA s req =
     (case req of (mu, name, files) \<Rightarrow>
        bindG (rpcG (liftG (mutationFrom mu))) (\<lambda>m.
        if name = [] \<or> artifactFiles files = [] then failG invalidRequest
        else bindG (rpcG (HA_PrepareCIDATA (Server_host s) m name (artifactFiles files))) (\<lambda>r. returnG (artifact_response r))))"

definition Server_PrepareConfext :: "'s server \<Rightarrow> w_mutation option \<times> string \<times> w_file list \<Rightarrow> ('s, w_artifacts) go" where
  "Server_PrepareConfext s req =
     (case req of (mu, name, files) \<Rightarrow>
        bindG (rpcG (liftG (mutationFrom mu))) (\<lambda>m.
        if name = [] \<or> artifactFiles files = [] then failG invalidRequest
        else bindG (rpcG (HA_PrepareConfext (Server_host s) m name (artifactFiles files))) (\<lambda>r. returnG (artifact_response r))))"

definition Server :: "'s server \<Rightarrow> 's service" where
  "Server s = \<lparr>
     SV_Health = Server_Health s, SV_EnsureVM = Server_EnsureVM s, SV_GetVM = Server_GetVM s, SV_StopVM = Server_StopVM s,
     SV_DeleteVM = Server_DeleteVM s, SV_EnsureNetwork = Server_EnsureNetwork s, SV_DeleteNetwork = Server_DeleteNetwork s,
     SV_EnsurePort = Server_EnsurePort s, SV_DeletePort = Server_DeletePort s, SV_AllocateIP = Server_AllocateIP s,
     SV_ReleaseIP = Server_ReleaseIP s, SV_PublishPort = Server_PublishPort s, SV_ReleasePort = Server_ReleasePort s,
     SV_Diagnostics = Server_Diagnostics s, SV_AcquireProbe = Server_AcquireProbe s, SV_ReleaseProbe = Server_ReleaseProbe s,
     SV_PrepareRootDisk = Server_PrepareRootDisk s, SV_PrepareCIDATA = Server_PrepareCIDATA s, SV_PrepareConfext = Server_PrepareConfext s\<rparr>"

section \<open>Encoding (client.go)\<close>

definition ownerTo :: "owner \<Rightarrow> w_owner" where
  "ownerTo ow = \<lparr>WO_InstallationId = Owner_InstallationID ow, WO_NodeId = Owner_NodeID ow, WO_Uid = Owner_UID ow\<rparr>"

definition mutationTo :: "mutation \<Rightarrow> w_mutation" where
  "mutationTo m = \<lparr>WM_ProtocolMajor = Mut_ProtocolMajor m, WM_Owner = Some (ownerTo (Mut_Owner m)), WM_Generation = Mut_Generation m,
     WM_IdempotencyKey = Mut_IdempotencyKey m, WM_RetainDisk = Mut_RetainDisk m\<rparr>"

definition vmDesiredTo :: "vm_desired \<Rightarrow> w_vm_desired" where
  "vmDesiredTo v =
     \<lparr>WD_Uid = Des_UID v, WD_Name = Des_Name v, WD_Image = Des_Image v, WD_Firmware = Des_Firmware v, WD_ApiSocket = Des_APISocket v,
      WD_VhostSocket = Des_VhostSocket v, WD_Disk = Des_Disk v, WD_Mac = Des_MAC v, WD_Ip = Des_IP v, WD_Cpus = Des_CPUs v,
      WD_MemoryMib = Des_MemoryMiB v, WD_AdditionalDisks = Des_AdditionalDisks v, WD_DiskSha256 = Des_DiskSHA256 v,
      WD_AdditionalDiskSha256 = Des_AdditionalDiskSHA256s v, WD_FirmwareSha256 = Des_FirmwareSHA256 v\<rparr>"

text \<open>The getters of a nil message return zero values.\<close>

definition vmObservedFrom :: "w_vm_observed option \<Rightarrow> vm_observed" where
  "vmObservedFrom value =
     (case value of
        None \<Rightarrow> zero_vm_observed
      | Some v \<Rightarrow>
          \<lparr>Obs_UID = WV_Uid v, Obs_Unit = WV_Unit v, Obs_PID = WV_Pid v, Obs_GuestUptime = WV_GuestUptime v, Obs_Running = WV_Running v,
           Obs_APISocket = WV_ApiSocket v, Obs_VhostSocket = WV_VhostSocket v, Obs_IP = WV_Ip v, Obs_MAC = WV_Mac v,
           Obs_Generation = WV_Generation v\<rparr>)"

definition portObservedFrom :: "w_port_observed option \<Rightarrow> port_observed" where
  "portObservedFrom value =
     (case value of
        None \<Rightarrow> zero_port_observed
      | Some v \<Rightarrow> \<lparr>PortObs_Name = WPO_Name v, PortObs_Network = WPO_Network v, PortObs_MAC = WPO_Mac v, PortObs_IP = WPO_Ip v,
           PortObs_Published = WPO_Published v\<rparr>)"

definition probeLeaseFrom :: "w_lease option \<Rightarrow> probe_lease" where
  "probeLeaseFrom value =
     (case value of
        None \<Rightarrow> zero_probe_lease
      | Some v \<Rightarrow> \<lparr>Lease_UID = WL_Uid v, Lease_Network = WL_Network v, Lease_Port = WL_Port v, Lease_MAC = WL_Mac v, Lease_IP = WL_Ip v,
           Lease_ExpiresAt = WL_ExpiresAt v\<rparr>)"

definition artifactFilesTo :: "artifact_file list \<Rightarrow> w_file list" where
  "artifactFilesTo fs = map (\<lambda>f. \<lparr>WF_Name = File_Name f, WF_Content = File_Content f\<rparr>) fs"

definition artifactResult :: "w_artifacts \<Rightarrow> artifact_result" where
  "artifactResult r = \<lparr>Art_Paths = WA_Paths r, Art_SHA256s = WA_Sha256 r\<rparr>"

definition mapError :: "goerr \<Rightarrow> goerr" where
  "mapError e =
     (if \<not> errors_Is e ContextCanceled \<and> \<not> errors_Is e ContextDeadlineExceeded
      then (case status_code e of
          RpcInvalidArgument \<Rightarrow> detail_err ErrInvalidRequest (err_text e)
        | RpcFailedPrecondition \<Rightarrow> detail_err ErrProtocol (err_text e)
        | RpcNotFound \<Rightarrow> detail_err ErrNotFound (err_text e)
        | RpcAborted \<Rightarrow> detail_err ErrConflict (err_text e)
        | RpcUnavailable \<Rightarrow> detail_err ErrUnavailable (err_text e)
        | _ \<Rightarrow> e)
      else e)"

definition callG :: "('s, 'a) go \<Rightarrow> ('s, 'a) go" where
  "callG m = catchG m (\<lambda>r. case r of Inl e \<Rightarrow> failG (mapError e) | Inr x \<Rightarrow> returnG x)"

section \<open>The client\<close>

definition Client_Health :: "'s service \<Rightarrow> ('s, capabilities) go" where
  "Client_Health sv =
     bindG (callG (SV_Health sv ProtocolMajor)) (\<lambda>r.
     returnG \<lparr>Cap_NodeID = WC_NodeId r, Cap_CloudHypervisor = WC_CloudHypervisor r, Cap_K8netdProtocolMajor = WC_K8NetdProtocolMajor r,
       Cap_CanUseKVM = WC_CanUseKvm r, Cap_CanUseUserDBus = WC_CanUseUserDbus r\<rparr>)"

definition Client_EnsureVM :: "'s service \<Rightarrow> mutation \<Rightarrow> vm_desired \<Rightarrow> ('s, vm_observed) go" where
  "Client_EnsureVM sv m d =
     bindG (checkG (Mutation_Validate m)) (\<lambda>_.
     bindG (callG (SV_EnsureVM sv (Some (mutationTo m), Some (vmDesiredTo d)))) (\<lambda>r. returnG (vmObservedFrom r)))"

definition Client_GetVM :: "'s service \<Rightarrow> owner \<Rightarrow> ('s, vm_observed) go" where
  "Client_GetVM sv ow =
     bindG (checkG (Owner_Validate ow)) (\<lambda>_.
     bindG (callG (SV_GetVM sv (Some (ownerTo ow), ProtocolMajor))) (\<lambda>r. returnG (vmObservedFrom r)))"

definition Client_StopVM :: "'s service \<Rightarrow> mutation \<Rightarrow> ('s, unit) go" where
  "Client_StopVM sv m = callG (SV_StopVM sv (Some (mutationTo m)))"

definition Client_DeleteVM :: "'s service \<Rightarrow> mutation \<Rightarrow> ('s, unit) go" where
  "Client_DeleteVM sv m = callG (SV_DeleteVM sv (Some (mutationTo m)))"

definition Client_EnsureNetwork :: "'s service \<Rightarrow> mutation \<Rightarrow> network_request \<Rightarrow> ('s, unit) go" where
  "Client_EnsureNetwork sv m r =
     bindG (checkG (Mutation_Validate m)) (\<lambda>_.
     callG (SV_EnsureNetwork sv (Some (mutationTo m), Some \<lparr>WN_Name = NetReq_Name r, WN_Cidr = NetReq_CIDR r\<rparr>)))"

definition Client_DeleteNetwork :: "'s service \<Rightarrow> mutation \<Rightarrow> ('s, unit) go" where
  "Client_DeleteNetwork sv m = callG (SV_DeleteNetwork sv (Some (mutationTo m)))"

definition Client_EnsurePort :: "'s service \<Rightarrow> mutation \<Rightarrow> port_request \<Rightarrow> ('s, port_observed) go" where
  "Client_EnsurePort sv m r =
     bindG (checkG (Mutation_Validate m)) (\<lambda>_.
     bindG (callG (SV_EnsurePort sv (Some (mutationTo m),
       Some \<lparr>WP_Name = PortReq_Name r, WP_Network = PortReq_Network r, WP_Mac = PortReq_MAC r\<rparr>))) (\<lambda>v. returnG (portObservedFrom v)))"

definition Client_DeletePort :: "'s service \<Rightarrow> mutation \<Rightarrow> ('s, unit) go" where
  "Client_DeletePort sv m = callG (SV_DeletePort sv (Some (mutationTo m)))"

definition Client_AllocateIP :: "'s service \<Rightarrow> mutation \<Rightarrow> ('s, string) go" where
  "Client_AllocateIP sv m = bindG (checkG (Mutation_Validate m)) (\<lambda>_. callG (SV_AllocateIP sv (Some (mutationTo m))))"

definition Client_ReleaseIP :: "'s service \<Rightarrow> mutation \<Rightarrow> string \<Rightarrow> ('s, unit) go" where
  "Client_ReleaseIP sv m ip =
     bindG (checkG (Mutation_Validate m)) (\<lambda>_.
     if ip = [] then failG (sentinel_err ErrInvalidRequest) else callG (SV_ReleaseIP sv (Some (mutationTo m), ip)))"

definition Client_PublishPort :: "'s service \<Rightarrow> mutation \<Rightarrow> uint32 \<Rightarrow> uint32 \<Rightarrow> ('s, uint32) go" where
  "Client_PublishPort sv m guest hostPort =
     bindG (checkG (Mutation_Validate m)) (\<lambda>_. callG (SV_PublishPort sv (Some (mutationTo m), guest, hostPort)))"

definition Client_ReleasePort :: "'s service \<Rightarrow> mutation \<Rightarrow> uint32 \<Rightarrow> uint32 \<Rightarrow> ('s, unit) go" where
  "Client_ReleasePort sv m guest hostPort =
     bindG (checkG (Mutation_Validate m)) (\<lambda>_. callG (SV_ReleasePort sv (Some (mutationTo m), guest, hostPort)))"

definition Client_Diagnostics :: "'s service \<Rightarrow> owner \<Rightarrow> ('s, diagnostics) go" where
  "Client_Diagnostics sv ow =
     bindG (checkG (Owner_Validate ow)) (\<lambda>_.
     bindG (callG (SV_Diagnostics sv (Some (ownerTo ow), ProtocolMajor))) (\<lambda>r.
     returnG (case r of None \<Rightarrow> zero_diagnostics | Some d \<Rightarrow> \<lparr>Diag_OwnerUID = WDi_OwnerUid d, Diag_Messages = WDi_Messages d\<rparr>)))"

definition Client_AcquireProbe :: "'s service \<Rightarrow> mutation \<Rightarrow> string \<Rightarrow> ('s, probe_lease) go" where
  "Client_AcquireProbe sv m network =
     bindG (checkG (Mutation_Validate m)) (\<lambda>_.
     if network = [] then failG (sentinel_err ErrInvalidRequest)
     else bindG (callG (SV_AcquireProbe sv (Some (mutationTo m), network))) (\<lambda>r. returnG (probeLeaseFrom r)))"

definition Client_ReleaseProbe :: "'s service \<Rightarrow> mutation \<Rightarrow> string \<Rightarrow> ('s, unit) go" where
  "Client_ReleaseProbe sv m uid =
     bindG (checkG (Mutation_Validate m)) (\<lambda>_.
     if uid = [] then failG (sentinel_err ErrInvalidRequest) else callG (SV_ReleaseProbe sv (Some (mutationTo m), uid)))"

definition Client_PrepareRootDisk :: "'s service \<Rightarrow> mutation \<Rightarrow> root_disk_request \<Rightarrow> ('s, artifact_result) go" where
  "Client_PrepareRootDisk sv m r =
     bindG (checkG (Mutation_Validate m)) (\<lambda>_.
     bindG (callG (SV_PrepareRootDisk sv (Some (mutationTo m), RootReq_Name r, RootReq_SourceImage r))) (\<lambda>a. returnG (artifactResult a)))"

definition Client_PrepareCIDATA :: "'s service \<Rightarrow> mutation \<Rightarrow> string \<Rightarrow> artifact_file list \<Rightarrow> ('s, artifact_result) go" where
  "Client_PrepareCIDATA sv m name files =
     bindG (checkG (Mutation_Validate m)) (\<lambda>_.
     bindG (callG (SV_PrepareCIDATA sv (Some (mutationTo m), name, artifactFilesTo files))) (\<lambda>a. returnG (artifactResult a)))"

definition Client_PrepareConfext :: "'s service \<Rightarrow> mutation \<Rightarrow> string \<Rightarrow> artifact_file list \<Rightarrow> ('s, artifact_result) go" where
  "Client_PrepareConfext sv m name files =
     bindG (checkG (Mutation_Validate m)) (\<lambda>_.
     bindG (callG (SV_PrepareConfext sv (Some (mutationTo m), name, artifactFilesTo files))) (\<lambda>a. returnG (artifactResult a)))"

definition Client :: "'s service \<Rightarrow> 's host_agent" where
  "Client sv = \<lparr>
     HA_Health = Client_Health sv, HA_EnsureVM = Client_EnsureVM sv, HA_GetVM = Client_GetVM sv, HA_StopVM = Client_StopVM sv,
     HA_DeleteVM = Client_DeleteVM sv, HA_EnsureNetwork = Client_EnsureNetwork sv, HA_DeleteNetwork = Client_DeleteNetwork sv,
     HA_EnsurePort = Client_EnsurePort sv, HA_DeletePort = Client_DeletePort sv, HA_AllocateIP = Client_AllocateIP sv,
     HA_ReleaseIP = Client_ReleaseIP sv, HA_PublishPort = Client_PublishPort sv, HA_ReleasePort = Client_ReleasePort sv,
     HA_Diagnostics = Client_Diagnostics sv, HA_AcquireProbe = Client_AcquireProbe sv, HA_ReleaseProbe = Client_ReleaseProbe sv,
     HA_PrepareRootDisk = Client_PrepareRootDisk sv, HA_PrepareCIDATA = Client_PrepareCIDATA sv, HA_PrepareConfext = Client_PrepareConfext sv\<rparr>"

section \<open>Who may call (tls.go)\<close>

text \<open>
  The peer of a call: none, or its authentication, for TLS the verified certificate chains, each a
  list of certificates given by their URIs.
\<close>

datatype auth_info = TLSInfo "string list list list" | OtherAuth

definition ManagerSPIFFEURI :: string where
  "ManagerSPIFFEURI = ''spiffe://k8labs/provider/manager''"

text \<open>\<open>VerifiedChains[0][0]\<close> panics on an empty chain; crypto/tls never reports one.\<close>

definition RequireManagerIdentity :: "auth_info option \<Rightarrow> goerr option" where
  "RequireManagerIdentity pinfo =
     (case pinfo of
        None \<Rightarrow> Some (status_err RpcUnauthenticated ''missing client peer'')
      | Some OtherAuth \<Rightarrow> Some (status_err RpcUnauthenticated ''verified client certificate is required'')
      | Some (TLSInfo []) \<Rightarrow> Some (status_err RpcUnauthenticated ''verified client certificate is required'')
      | Some (TLSInfo ([] # _)) \<Rightarrow> Some (sentinel_err NilDereference)
      | Some (TLSInfo ((uris # _) # _)) \<Rightarrow>
          if list_ex (\<lambda>uri. uri = ManagerSPIFFEURI) uris then None
          else Some (status_err RpcPermissionDenied ''client certificate does not have the manager SPIFFE URI''))"

definition ManagerAuthInterceptor :: "auth_info option \<Rightarrow> string \<Rightarrow> ('r \<Rightarrow> ('s, 'a) go) \<Rightarrow> 'r \<Rightarrow> ('s, 'a) go" where
  "ManagerAuthInterceptor pinfo fullMethod handler req =
     (if fullMethod = ''/k8labs.agent.v1.HostAgent/Health'' then handler req
      else case RequireManagerIdentity pinfo of Some e \<Rightarrow> failG e | None \<Rightarrow> handler req)"

definition intercepted :: "auth_info option \<Rightarrow> 's service \<Rightarrow> 's service" where
  "intercepted pinfo sv =
     (let via = (\<lambda>name. ''/k8labs.agent.v1.HostAgent/'' @ name) in
      \<lparr>SV_Health = ManagerAuthInterceptor pinfo (via ''Health'') (SV_Health sv),
       SV_EnsureVM = ManagerAuthInterceptor pinfo (via ''EnsureVM'') (SV_EnsureVM sv),
       SV_GetVM = ManagerAuthInterceptor pinfo (via ''GetVM'') (SV_GetVM sv),
       SV_StopVM = ManagerAuthInterceptor pinfo (via ''StopVM'') (SV_StopVM sv),
       SV_DeleteVM = ManagerAuthInterceptor pinfo (via ''DeleteVM'') (SV_DeleteVM sv),
       SV_EnsureNetwork = ManagerAuthInterceptor pinfo (via ''EnsureNetwork'') (SV_EnsureNetwork sv),
       SV_DeleteNetwork = ManagerAuthInterceptor pinfo (via ''DeleteNetwork'') (SV_DeleteNetwork sv),
       SV_EnsurePort = ManagerAuthInterceptor pinfo (via ''EnsurePort'') (SV_EnsurePort sv),
       SV_DeletePort = ManagerAuthInterceptor pinfo (via ''DeletePort'') (SV_DeletePort sv),
       SV_AllocateIP = ManagerAuthInterceptor pinfo (via ''AllocateIP'') (SV_AllocateIP sv),
       SV_ReleaseIP = ManagerAuthInterceptor pinfo (via ''ReleaseIP'') (SV_ReleaseIP sv),
       SV_PublishPort = ManagerAuthInterceptor pinfo (via ''PublishPort'') (SV_PublishPort sv),
       SV_ReleasePort = ManagerAuthInterceptor pinfo (via ''ReleasePort'') (SV_ReleasePort sv),
       SV_Diagnostics = ManagerAuthInterceptor pinfo (via ''Diagnostics'') (SV_Diagnostics sv),
       SV_AcquireProbe = ManagerAuthInterceptor pinfo (via ''AcquireProbe'') (SV_AcquireProbe sv),
       SV_ReleaseProbe = ManagerAuthInterceptor pinfo (via ''ReleaseProbe'') (SV_ReleaseProbe sv),
       SV_PrepareRootDisk = ManagerAuthInterceptor pinfo (via ''PrepareRootDisk'') (SV_PrepareRootDisk sv),
       SV_PrepareCIDATA = ManagerAuthInterceptor pinfo (via ''PrepareCIDATA'') (SV_PrepareCIDATA sv),
       SV_PrepareConfext = ManagerAuthInterceptor pinfo (via ''PrepareConfext'') (SV_PrepareConfext sv)\<rparr>)"


end
