(* ===== verification/AgentRemote.thy ===== *)
theory AgentRemote
  imports AgentGrpc ExecutorArtifacts
begin

text \<open>
  The remote agent: the client connected to the server of a host agent. It refines the agent it
  serves, keeps every relation on states the agent keeps, and does nothing for anyone but the manager.
\<close>

section \<open>Round trips of the messages\<close>

text \<open>A struct built from all the fields of another is that struct.\<close>

lemma rebuilt [simp]:
  "\<lparr>Owner_InstallationID = Owner_InstallationID ow, Owner_NodeID = Owner_NodeID ow, Owner_UID = Owner_UID ow\<rparr> = ow"
  "\<lparr>Mut_ProtocolMajor = Mut_ProtocolMajor m, Mut_Owner = Mut_Owner m, Mut_Generation = Mut_Generation m,
     Mut_IdempotencyKey = Mut_IdempotencyKey m, Mut_RetainDisk = Mut_RetainDisk m\<rparr> = m"
  "\<lparr>NetReq_Name = NetReq_Name n, NetReq_CIDR = NetReq_CIDR n\<rparr> = n"
  "\<lparr>PortReq_Name = PortReq_Name p, PortReq_Network = PortReq_Network p, PortReq_MAC = PortReq_MAC p\<rparr> = p"
  "\<lparr>RootReq_Name = RootReq_Name q, RootReq_SourceImage = RootReq_SourceImage q\<rparr> = q"
  "\<lparr>Diag_OwnerUID = Diag_OwnerUID d, Diag_Messages = Diag_Messages d\<rparr> = d"
  "\<lparr>Cap_NodeID = Cap_NodeID c, Cap_CloudHypervisor = Cap_CloudHypervisor c, Cap_K8netdProtocolMajor = Cap_K8netdProtocolMajor c,
     Cap_CanUseKVM = Cap_CanUseKVM c, Cap_CanUseUserDBus = Cap_CanUseUserDBus c\<rparr> = c"
  by simp_all

lemma mutation_round_trip:
  "mutationFrom (Some (mutationTo m)) = (case Mutation_Validate m of None \<Rightarrow> Inr m | Some e \<Rightarrow> Inl e)"
  by (simp add: mutationFrom_def mutationTo_def ownerTo_def Let_def)

lemma owner_round_trip: "ownerFrom (Some (ownerTo ow), ProtocolMajor) = (case Owner_Validate ow of None \<Rightarrow> Inr ow | Some e \<Rightarrow> Inl e)"
  by (simp add: ownerFrom_def ownerTo_def Let_def)

lemma message_round_trips [simp]:
  "vmDesiredFrom (vmDesiredTo d) = d" "vmObservedFrom (Some (vmObservedTo v)) = v" "portObservedFrom (Some (portObservedTo p)) = p"
  "probeLeaseFrom (Some (probeLeaseTo l)) = l" "artifactFiles (artifactFilesTo fs) = fs" "artifactResult (artifact_response r) = r"
  by (simp_all add: vmDesiredFrom_def vmDesiredTo_def vmObservedFrom_def vmObservedTo_def portObservedFrom_def portObservedTo_def
      probeLeaseFrom_def probeLeaseTo_def artifactFiles_def artifactFilesTo_def artifactResult_def artifact_response_def comp_def map_idI)

section \<open>What a call returns\<close>

definition relay :: "goerr + 'a \<Rightarrow> goerr + 'a" where
  "relay r = (case r of Inl e \<Rightarrow> Inl (mapError (rpcError e)) | Inr x \<Rightarrow> Inr x)"

definition relayed :: "('s, 'a) go \<Rightarrow> ('s, 'a) go" where
  "relayed m s = (case m s of (r, t) \<Rightarrow> (relay r, t))"

lemma relay_simps [simp]:
  "callG (rpcG m) = relayed m"
  "bindG (callG (bindG (rpcG m) (\<lambda>v. returnG (f v)))) (\<lambda>r. returnG (g r)) = bindG (relayed m) (\<lambda>v. returnG (g (f v)))"
  "rpcG (liftG (Inr x)) = returnG x" "rpcG (liftG (Inl e)) = failG (rpcError e)" "callG (failG e) = failG (mapError e)" "bindG (returnG x) k = k x" "bindG m returnG = m"
  by (auto simp: fun_eq_iff callG_def rpcG_def relayed_def relay_def bindG_def catchG_def liftG_def failG_def returnG_def
      split: prod.split sum.split)

section \<open>The remote agent refines the local one\<close>

text \<open>
  Errors keep their class, what \<open>IsInvalid\<close> and its four siblings say of them. An error in none
  of the five classes, \<open>ErrUnauthorized\<close> among them, arrives as an internal status with its text.
\<close>

definition same_class :: "goerr \<Rightarrow> goerr \<Rightarrow> bool" where
  "same_class e e' \<longleftrightarrow> IsInvalid e' = IsInvalid e \<and> IsProtocol e' = IsProtocol e \<and> IsNotFound e' = IsNotFound e \<and>
     IsConflict e' = IsConflict e \<and> IsUnavailable e' = IsUnavailable e"

lemma relay_same_class: "same_class e (mapError (rpcError e))"
  by (auto simp: same_class_def mapError_def rpcError_def codeFor_def status_err_def status_code_def error_classes errors_Is_def)

definition relayed_error :: "goerr \<Rightarrow> goerr \<Rightarrow> bool" where
  "relayed_error e e' \<longleftrightarrow> same_class e e' \<and>
     (IsInvalid e \<or> IsProtocol e \<or> IsNotFound e \<or> IsConflict e \<or> IsUnavailable e \<or> e' = status_err RpcInternal (err_text e))"

lemma relay_error: "relayed_error e (mapError (rpcError e))"
  using relay_same_class [of e]
  by (auto simp: relayed_error_def mapError_def rpcError_def codeFor_def status_err_def status_code_def errors_Is_def)

definition mirrors :: "('s, 'a) go \<Rightarrow> ('s, 'a) go \<Rightarrow> bool" where
  "mirrors remote local \<longleftrightarrow> (\<forall>s.
     case local s of
       (Inr x, t) \<Rightarrow> remote s = (Inr x, t)
     | (Inl e, t) \<Rightarrow> (\<exists>e'. remote s = (Inl e', t) \<and> relayed_error e e'))"

lemma mirrors_relayed [simp, intro!]: "mirrors (relayed m) m"
  by (auto simp: mirrors_def relayed_def relay_def relay_error split: prod.split sum.split)

definition agent_mirrors :: "'s host_agent \<Rightarrow> 's host_agent \<Rightarrow> bool" where
  "agent_mirrors r a \<longleftrightarrow>
     mirrors (HA_Health r) (HA_Health a) \<and>
     (\<forall>ow. Owner_Validate ow = None \<longrightarrow>
        mirrors (HA_GetVM r ow) (HA_GetVM a ow) \<and> mirrors (HA_Diagnostics r ow) (HA_Diagnostics a ow)) \<and>
     (\<forall>m. Mutation_Validate m = None \<longrightarrow>
        (\<forall>d. mirrors (HA_EnsureVM r m d) (HA_EnsureVM a m d)) \<and>
        mirrors (HA_StopVM r m) (HA_StopVM a m) \<and> mirrors (HA_DeleteVM r m) (HA_DeleteVM a m) \<and>
        (\<forall>n. mirrors (HA_EnsureNetwork r m n) (HA_EnsureNetwork a m n)) \<and> mirrors (HA_DeleteNetwork r m) (HA_DeleteNetwork a m) \<and>
        (\<forall>p. mirrors (HA_EnsurePort r m p) (HA_EnsurePort a m p)) \<and> mirrors (HA_DeletePort r m) (HA_DeletePort a m) \<and>
        mirrors (HA_AllocateIP r m) (HA_AllocateIP a m) \<and> (\<forall>ip. ip \<noteq> [] \<longrightarrow> mirrors (HA_ReleaseIP r m ip) (HA_ReleaseIP a m ip)) \<and>
        (\<forall>g h. mirrors (HA_PublishPort r m g h) (HA_PublishPort a m g h)) \<and> (\<forall>g h. mirrors (HA_ReleasePort r m g h) (HA_ReleasePort a m g h)) \<and>
        (\<forall>n. n \<noteq> [] \<longrightarrow> mirrors (HA_AcquireProbe r m n) (HA_AcquireProbe a m n)) \<and>
        (\<forall>l. l \<noteq> [] \<longrightarrow> mirrors (HA_ReleaseProbe r m l) (HA_ReleaseProbe a m l)) \<and>
        (\<forall>q. RootReq_Name q \<noteq> [] \<and> RootReq_SourceImage q \<noteq> [] \<longrightarrow> mirrors (HA_PrepareRootDisk r m q) (HA_PrepareRootDisk a m q)) \<and>
        (\<forall>n fs. n \<noteq> [] \<and> fs \<noteq> [] \<longrightarrow> mirrors (HA_PrepareCIDATA r m n fs) (HA_PrepareCIDATA a m n fs) \<and>
           mirrors (HA_PrepareConfext r m n fs) (HA_PrepareConfext a m n fs)))"

text \<open>The requests left out are refused before the served agent sees them.\<close>

definition rejected :: "('s, 'a) go \<Rightarrow> bool" where
  "rejected m \<longleftrightarrow> (\<forall>s. \<exists>e. m s = (Inl e, s) \<and> (IsInvalid e \<or> IsProtocol e))"

definition rejects_invalid :: "'s host_agent \<Rightarrow> bool" where
  "rejects_invalid r \<longleftrightarrow>
     (\<forall>ow. Owner_Validate ow \<noteq> None \<longrightarrow> rejected (HA_GetVM r ow) \<and> rejected (HA_Diagnostics r ow)) \<and>
     (\<forall>m. Mutation_Validate m \<noteq> None \<longrightarrow>
        (\<forall>d. rejected (HA_EnsureVM r m d)) \<and> rejected (HA_StopVM r m) \<and> rejected (HA_DeleteVM r m) \<and>
        (\<forall>n. rejected (HA_EnsureNetwork r m n)) \<and> rejected (HA_DeleteNetwork r m) \<and>
        (\<forall>p. rejected (HA_EnsurePort r m p)) \<and> rejected (HA_DeletePort r m) \<and> rejected (HA_AllocateIP r m) \<and>
        (\<forall>g h. rejected (HA_PublishPort r m g h)) \<and> (\<forall>g h. rejected (HA_ReleasePort r m g h))) \<and>
     (\<forall>m x. Mutation_Validate m \<noteq> None \<or> x = [] \<longrightarrow>
        rejected (HA_ReleaseIP r m x) \<and> rejected (HA_AcquireProbe r m x) \<and> rejected (HA_ReleaseProbe r m x)) \<and>
     (\<forall>m q. Mutation_Validate m \<noteq> None \<or> RootReq_Name q = [] \<or> RootReq_SourceImage q = [] \<longrightarrow> rejected (HA_PrepareRootDisk r m q)) \<and>
     (\<forall>m n fs. Mutation_Validate m \<noteq> None \<or> n = [] \<or> fs = [] \<longrightarrow>
        rejected (HA_PrepareCIDATA r m n fs) \<and> rejected (HA_PrepareConfext r m n fs))"

lemma owner_error: "Owner_Validate ow = Some e \<Longrightarrow> IsInvalid e"
  by (auto simp: Owner_Validate_def error_classes split: if_splits)

lemma mutation_error: "Mutation_Validate m = Some e \<Longrightarrow> IsInvalid e \<or> IsProtocol e"
  by (auto simp: Mutation_Validate_def error_classes split: if_splits option.splits dest: owner_error)

lemma rejected_fail: "IsInvalid e \<or> IsProtocol e \<Longrightarrow> rejected (failG e)"
  by (simp add: rejected_def)

lemma rejected_relay: "IsInvalid e \<or> IsProtocol e \<Longrightarrow> rejected (failG (mapError (rpcError e)))"
  using relay_same_class [of e] by (simp add: rejected_def same_class_def)

lemma rejected_empty: "rejected (failG (sentinel_err ErrInvalidRequest))" "rejected (failG (mapError invalidRequest))"
  by (simp_all add: rejected_def error_classes invalidRequest_def mapError_def status_err_def status_code_def errors_Is_def)

lemma rejected_invalid_request: "rejected (bindG (callG (Pair (Inl invalidRequest))) k)"
  using rejected_empty(2) by (simp add: rejected_def run_bind callG_def catchG_def)

lemma rejected_checked:
  "(\<And>e. v = Some e \<Longrightarrow> IsInvalid e \<or> IsProtocol e) \<Longrightarrow> (v = None \<Longrightarrow> rejected m) \<Longrightarrow> rejected (bindG (checkG v) (\<lambda>_. m))"
  by (cases v) (simp_all add: rejected_fail)

lemmas server_defs = Server_def Server_Health_def Server_EnsureVM_def Server_GetVM_def Server_StopVM_def Server_DeleteVM_def
  Server_EnsureNetwork_def Server_DeleteNetwork_def Server_EnsurePort_def Server_DeletePort_def Server_AllocateIP_def
  Server_ReleaseIP_def Server_PublishPort_def Server_ReleasePort_def Server_Diagnostics_def Server_AcquireProbe_def
  Server_ReleaseProbe_def Server_PrepareRootDisk_def Server_PrepareCIDATA_def Server_PrepareConfext_def Server_host_def

lemmas client_defs = Client_def Client_Health_def Client_EnsureVM_def Client_GetVM_def Client_StopVM_def Client_DeleteVM_def
  Client_EnsureNetwork_def Client_DeleteNetwork_def Client_EnsurePort_def Client_DeletePort_def Client_AllocateIP_def
  Client_ReleaseIP_def Client_PublishPort_def Client_ReleasePort_def Client_Diagnostics_def Client_AcquireProbe_def
  Client_ReleaseProbe_def Client_PrepareRootDisk_def Client_PrepareCIDATA_def Client_PrepareConfext_def

abbreviation remote :: "auth_info option \<Rightarrow> 's server \<Rightarrow> 's host_agent" where
  "remote pinfo s \<equiv> Client (intercepted pinfo (Server s))"

lemma intercepted_manager: "RequireManagerIdentity pinfo = None \<Longrightarrow> intercepted pinfo sv = sv"
  by (cases sv) (simp add: intercepted_def ManagerAuthInterceptor_def Let_def fun_eq_iff)

text \<open>
  C14: the remote agent refines the agent it serves. Take a caller with the manager's certificate, and
  the nineteen methods of the client connected to the server. For a request whose owner or mutation
  passes validation and whose names, addresses and file lists are not empty, the method leaves the state
  the served agent leaves and returns the same value where the agent succeeds. Where the agent fails, it
  returns an error that \<open>IsInvalid\<close>, \<open>IsProtocol\<close>, \<open>IsNotFound\<close>, \<open>IsConflict\<close> and
  \<open>IsUnavailable\<close> classify alike; an error in none of these five classes, such as
  \<open>ErrUnauthorized\<close>, becomes an internal status that carries its text and no longer its identity.
  Every other request is refused as invalid, or for its protocol, and leaves the state as it was.
\<close>

theorem remote_agent_refines:
  assumes "RequireManagerIdentity pinfo = None" and "Srv_Host s = Some a"
  shows "agent_mirrors (remote pinfo s) a \<and> rejects_invalid (remote pinfo s)"
proof
  show "agent_mirrors (remote pinfo s) a"
    using assms(2)
    by (simp add: intercepted_manager [OF assms(1)] agent_mirrors_def client_defs server_defs mutation_round_trip owner_round_trip)
  show "rejects_invalid (remote pinfo s)"
    unfolding rejects_invalid_def
    by (auto simp: intercepted_manager [OF assms(1)] client_defs server_defs mutation_round_trip owner_round_trip
        intro!: rejected_checked rejected_fail rejected_relay rejected_empty rejected_invalid_request dest: owner_error mutation_error)
qed

definition manager_peer :: "auth_info option" where
  "manager_peer = Some (TLSInfo [[[''spiffe://k8labs/provider/manager'']]])"

lemma manager_peer_ok [simp]: "RequireManagerIdentity manager_peer = None"
  by (simp add: RequireManagerIdentity_def manager_peer_def ManagerSPIFFEURI_def)

theorem remote_agent_refines_witness:
  "agent_mirrors (remote manager_peer \<lparr>Srv_Capabilities = zero_capabilities, Srv_Host = Some Fake\<rparr>) (Fake :: unit host_agent) \<and>
   rejects_invalid (remote manager_peer \<lparr>Srv_Capabilities = zero_capabilities, Srv_Host = Some (Fake :: unit host_agent)\<rparr>)"
  by (rule remote_agent_refines) simp_all

section \<open>Callers that are not the manager\<close>

definition refuses :: "('s, 'a) go \<Rightarrow> bool" where
  "refuses m \<longleftrightarrow> (\<forall>s. \<exists>e. m s = (Inl e, s))"

lemma refusesE: "refuses m \<Longrightarrow> (\<And>e. m s = (Inl e, s) \<Longrightarrow> thesis) \<Longrightarrow> thesis"
  by (auto simp: refuses_def)

lemma refuses_fail [simp]: "refuses (failG e)"
  by (simp add: refuses_def)

lemma refuses_catch:
  assumes "refuses m" and "\<And>e. refuses (h (Inl e))"
  shows "refuses (catchG m h)"
  unfolding refuses_def
proof
  fix s
  obtain e where "m s = (Inl e, s)" using assms(1) by (rule refusesE)
  moreover obtain e' where "h (Inl e) s = (Inl e', s)" using assms(2) by (rule refusesE)
  ultimately show "\<exists>e. catchG m h s = (Inl e, s)" by (simp add: catchG_def)
qed

lemma refuses_bind [simp]: "refuses m \<Longrightarrow> refuses (bindG m k)"
  unfolding bindG_def by (rule refuses_catch) simp_all

lemma refuses_call [simp]: "refuses m \<Longrightarrow> refuses (callG m)"
  unfolding callG_def by (rule refuses_catch) simp_all

lemma refuses_checked [simp]: "refuses m \<Longrightarrow> refuses (bindG (checkG v) (\<lambda>_. m))"
  by (cases v) simp_all

definition refuses_all :: "'s host_agent \<Rightarrow> bool" where
  "refuses_all a \<longleftrightarrow>
     (\<forall>ow. refuses (HA_GetVM a ow) \<and> refuses (HA_Diagnostics a ow)) \<and>
     (\<forall>m. (\<forall>d. refuses (HA_EnsureVM a m d)) \<and> refuses (HA_StopVM a m) \<and> refuses (HA_DeleteVM a m) \<and>
        (\<forall>n. refuses (HA_EnsureNetwork a m n)) \<and> refuses (HA_DeleteNetwork a m) \<and>
        (\<forall>p. refuses (HA_EnsurePort a m p)) \<and> refuses (HA_DeletePort a m) \<and>
        refuses (HA_AllocateIP a m) \<and> (\<forall>ip. refuses (HA_ReleaseIP a m ip)) \<and>
        (\<forall>g h. refuses (HA_PublishPort a m g h)) \<and> (\<forall>g h. refuses (HA_ReleasePort a m g h)) \<and>
        (\<forall>n. refuses (HA_AcquireProbe a m n)) \<and> (\<forall>l. refuses (HA_ReleaseProbe a m l)) \<and>
        (\<forall>q. refuses (HA_PrepareRootDisk a m q)) \<and> (\<forall>n fs. refuses (HA_PrepareCIDATA a m n fs)) \<and>
        (\<forall>n fs. refuses (HA_PrepareConfext a m n fs)))"

lemma refused:
  assumes "RequireManagerIdentity pinfo = Some e"
  shows "refuses_all (Client (intercepted pinfo sv))"
  using assms by (auto simp: refuses_all_def client_defs intercepted_def ManagerAuthInterceptor_def Let_def)

section \<open>What the served agent keeps, the remote agent keeps\<close>

context go_preorder
begin

lemma steps_rpc [intro!]: "steps R m \<Longrightarrow> steps R (rpcG m)"
  unfolding rpcG_def by auto

lemma steps_call [intro!]: "steps R m \<Longrightarrow> steps R (callG m)"
  unfolding callG_def by auto

lemma steps_pair [intro!]: "steps R (Pair r)"
  by (simp add: steps_def R_refl)

lemma refuses_steps: "refuses m \<Longrightarrow> steps R m"
  by (rule stepsI) (metis refusesE R_refl snd_conv)

lemma steps_relayed [intro!]: "steps R m \<Longrightarrow> steps R (relayed m)"
  by (rule stepsI) (auto simp: relayed_def split: prod.splits dest: stepsD)

lemma served_respects:
  assumes "agent_respects R mine a" and "Srv_Host s = Some a"
  shows "agent_respects R mine (Client (Server s))"
proof -
  have "steps R (HA_Health a)" and ow: "\<And>ow. steps R (HA_GetVM a ow)" "\<And>ow. steps R (HA_Diagnostics a ow)"
    using assms(1) by (simp_all add: agent_respects_def)
  then have health: "steps R (HA_Health (Client (Server s)))" using assms(2) by (auto simp: client_defs server_defs)
  have owner: "steps R (HA_GetVM (Client (Server s)) ow) \<and> steps R (HA_Diagnostics (Client (Server s)) ow)" for ow
    using assms(2) ow by (cases "Owner_Validate ow") (auto simp: client_defs server_defs owner_round_trip)
  show ?thesis
    unfolding agent_respects_def
  proof (intro conjI allI impI)
    fix m assume "mine (owner_key m)"
    note local = assms(1) [unfolded agent_respects_def, THEN conjunct2, THEN conjunct2, rule_format, OF this] assms(2)
    note unfold = client_defs server_defs mutation_round_trip
    show "steps R (HA_EnsureVM (Client (Server s)) m d)" for d using local by (cases "Mutation_Validate m") (auto simp: unfold)
    show "steps R (HA_StopVM (Client (Server s)) m)" using local by (cases "Mutation_Validate m") (auto simp: unfold)
    show "steps R (HA_DeleteVM (Client (Server s)) m)" using local by (cases "Mutation_Validate m") (auto simp: unfold)
    show "steps R (HA_EnsureNetwork (Client (Server s)) m n)" for n using local by (cases "Mutation_Validate m") (auto simp: unfold)
    show "steps R (HA_DeleteNetwork (Client (Server s)) m)" using local by (cases "Mutation_Validate m") (auto simp: unfold)
    show "steps R (HA_EnsurePort (Client (Server s)) m p)" for p using local by (cases "Mutation_Validate m") (auto simp: unfold)
    show "steps R (HA_DeletePort (Client (Server s)) m)" using local by (cases "Mutation_Validate m") (auto simp: unfold)
    show "steps R (HA_AllocateIP (Client (Server s)) m)" using local by (cases "Mutation_Validate m") (auto simp: unfold)
    show "steps R (HA_ReleaseIP (Client (Server s)) m ip)" for ip using local by (cases "Mutation_Validate m") (auto simp: unfold)
    show "steps R (HA_PublishPort (Client (Server s)) m g h)" for g h using local by (cases "Mutation_Validate m") (auto simp: unfold)
    show "steps R (HA_ReleasePort (Client (Server s)) m g h)" for g h using local by (cases "Mutation_Validate m") (auto simp: unfold)
    show "steps R (HA_AcquireProbe (Client (Server s)) m n)" for n using local by (cases "Mutation_Validate m") (auto simp: unfold)
    show "steps R (HA_ReleaseProbe (Client (Server s)) m l)" for l using local by (cases "Mutation_Validate m") (auto simp: unfold)
    show "steps R (HA_PrepareRootDisk (Client (Server s)) m q)" for q using local by (cases "Mutation_Validate m") (auto simp: unfold)
    show "steps R (HA_PrepareCIDATA (Client (Server s)) m n fs)" for n fs using local by (cases "Mutation_Validate m") (auto simp: unfold)
    show "steps R (HA_PrepareConfext (Client (Server s)) m n fs)" for n fs using local by (cases "Mutation_Validate m") (auto simp: unfold)
  qed (use health owner in auto)
qed

lemma remote_respects:
  assumes "agent_respects R mine a" and "Srv_Host s = Some a"
  shows "agent_respects R mine (remote pinfo s)"
proof (cases "RequireManagerIdentity pinfo")
  case None
  with served_respects [OF assms] show ?thesis by (simp add: intercepted_manager)
next
  case (Some e)
  have health: "HA_Health (remote pinfo s) = HA_Health (Client (Server s))"
    by (simp add: client_defs intercepted_def ManagerAuthInterceptor_def)
  have "refuses_all (remote pinfo s)" by (rule refused [OF Some])
  with health served_respects [OF assms] R_refl show ?thesis
    unfolding agent_respects_def refuses_all_def by (auto intro: refuses_steps)
qed

end

text \<open>
  The isolation of owners holds over the network. Whoever calls, and whatever the request says,
  a method of the remote executor called for one owner leaves every inventory row of every other
  owner exactly as it was.
\<close>

theorem remote_executor_isolates_owners:
  "agent_respects (on_db (same_others ow)) (\<lambda>p. p = ow)
     (remote pinfo \<lparr>Srv_Capabilities = caps, Srv_Host = Some (executor_agent e)\<rparr>)"
  by (rule ex_others.world.remote_respects [OF ex_others.executor_respects]) simp

text \<open>
  Only the manager reaches the agent. Unless the leaf certificate of the caller's first verified
  chain carries the manager's SPIFFE URI, every method but \<open>Health\<close> fails, for every request,
  and the state of the served agent does not change at all.
\<close>

theorem remote_refuses_strangers:
  assumes "\<nexists>uris certs chains. pinfo = Some (TLSInfo ((uris # certs) # chains)) \<and> ManagerSPIFFEURI \<in> set uris"
  shows "refuses_all (remote pinfo s)"
proof -
  obtain e where "RequireManagerIdentity pinfo = Some e"
    using assms by (cases "RequireManagerIdentity pinfo")
      (auto simp: RequireManagerIdentity_def list_ex_iff split: option.splits auth_info.splits list.splits if_splits)
  then show ?thesis by (rule refused)
qed

theorem remote_refuses_strangers_witness:
  "refuses_all (remote (Some (TLSInfo [[[''spiffe://k8labs/provider/other'']]])) \<lparr>Srv_Capabilities = zero_capabilities, Srv_Host = Some Fake\<rparr>)"
  by (rule remote_refuses_strangers) (simp add: ManagerSPIFFEURI_def)

section \<open>An error class the transport loses\<close>

text \<open>
  A refusal for the wrong node is not recognisable remotely. When the served agent fails with
  \<open>ErrUnauthorized\<close>, the client returns an internal status error that carries the text but that
  \<open>errors.Is\<close> no longer identifies as unauthorized.
\<close>

theorem remote_loses_unauthorized:
  assumes "RequireManagerIdentity pinfo = None" and "Srv_Host s = Some a" and "Owner_Validate ow = None"
    and "HA_GetVM a ow st = (Inl e, t)" and "errors_Is e ErrUnauthorized"
  shows "HA_GetVM (remote pinfo s) ow st = (Inl (status_err RpcInternal (err_text e)), t) \<and>
    \<not> errors_Is (status_err RpcInternal (err_text e)) ErrUnauthorized"
proof -
  have "mapError (rpcError e) = status_err RpcInternal (err_text e)"
    using assms(5) by (simp add: mapError_def rpcError_def codeFor_def status_code_def status_err_def error_classes errors_Is_def)
  moreover have "HA_GetVM (remote pinfo s) ow = relayed (HA_GetVM a ow)"
    using assms(2,3) by (simp add: intercepted_manager [OF assms(1)] client_defs server_defs owner_round_trip)
  ultimately show ?thesis using assms(4) by (simp add: relayed_def relay_def errors_Is_def) (simp add: status_err_def)
qed

theorem remote_loses_unauthorized_witness:
  "HA_GetVM (remote manager_peer \<lparr>Srv_Capabilities = zero_capabilities,
      Srv_Host = Some (Fake\<lparr>HA_GetVM := \<lambda>_. failG (sentinel_err ErrUnauthorized)\<rparr>)\<rparr>)
     \<lparr>Owner_InstallationID = ''i'', Owner_NodeID = ''n'', Owner_UID = ''u''\<rparr> () =
   (Inl (status_err RpcInternal ''host-agent request unauthorized''), ())"
  using remote_loses_unauthorized [of manager_peer
      "\<lparr>Srv_Capabilities = zero_capabilities, Srv_Host = Some (Fake\<lparr>HA_GetVM := \<lambda>_. failG (sentinel_err ErrUnauthorized)\<rparr>)\<rparr>"
      "Fake\<lparr>HA_GetVM := \<lambda>_. failG (sentinel_err ErrUnauthorized)\<rparr>"
      "\<lparr>Owner_InstallationID = ''i'', Owner_NodeID = ''n'', Owner_UID = ''u''\<rparr>" "()" "sentinel_err ErrUnauthorized" "()"]
  by (simp add: Owner_Validate_None) (simp add: sentinel_err_def)


end
