(* ===== verification/AgentProgram.thy ===== *)
theory AgentProgram
  imports AgentRemote ExecutorJournal K8netd
begin

text \<open>
  The programs of the agent (\<open>cmd/agent\<close>, \<open>cmd/agent-health\<close>) with what they open on the way: the
  inventory (\<open>Open\<close>, \<open>migrate\<close>), the user bus (\<open>ConnectUser\<close>), TLS and the gRPC connection.
  \<open>agent_setup\<close> is \<open>main\<close> up to the call of \<open>Serve\<close>, with the TLS configuration and the
  services that call is given. A failed step is a message on standard error and exit status 1; no deferred call runs then.
\<close>

section \<open>TLS (agentgrpc/tls.go, client.go)\<close>

datatype client_auth = NoClientCert | RequireAndVerifyClientCert

text \<open>A key pair and a pool of certificates are kept as the bytes they were read from.\<close>

record tls_config =
  TC_MinVersion :: nat
  TC_ServerName :: string
  TC_Certificates :: "(byte list \<times> byte list) list"
  TC_RootCAs :: "byte list option"
  TC_ClientAuth :: client_auth
  TC_ClientCAs :: "byte list option"

definition VersionTLS13 :: nat where "VersionTLS13 = 0x304"

definition ServerTLSConfig :: "byte list \<times> byte list \<Rightarrow> byte list \<Rightarrow> tls_config" where
  "ServerTLSConfig serverCertificate clientCAs = \<lparr>TC_MinVersion = VersionTLS13, TC_ServerName = [], TC_Certificates = [serverCertificate],
     TC_RootCAs = None, TC_ClientAuth = RequireAndVerifyClientCert, TC_ClientCAs = Some clientCAs\<rparr>"

definition ClientTLSConfig :: "string \<Rightarrow> byte list \<times> byte list \<Rightarrow> byte list \<Rightarrow> tls_config" where
  "ClientTLSConfig serverName certificate roots = \<lparr>TC_MinVersion = VersionTLS13, TC_ServerName = serverName, TC_Certificates = [certificate],
     TC_RootCAs = Some roots, TC_ClientAuth = NoClientCert, TC_ClientCAs = None\<rparr>"

text \<open>\<open>connect\<close> is \<open>grpc.NewClient\<close>.\<close>

definition Dial ::
  "(string \<Rightarrow> tls_config \<Rightarrow> ('s, 's service) go) \<Rightarrow> string \<Rightarrow> string \<Rightarrow> byte list \<times> byte list \<Rightarrow> byte list \<Rightarrow> ('s, 's host_agent) go" where
  "Dial connect address serverName certificate roots =
     bindG (wrapG ''dial host agent'' (connect address (ClientTLSConfig serverName certificate roots))) (\<lambda>sv. returnG (Client sv))"

text \<open>\<open>parse\<close> is \<open>url.Parse\<close>, here with the scheme and the host of the result.\<close>

definition ParseSPIFFEURI :: "(string \<Rightarrow> goerr + (string \<times> string)) \<Rightarrow> string \<Rightarrow> goerr + (string \<times> string)" where
  "ParseSPIFFEURI parse value = (case parse value of
     Inr (scheme, h) \<Rightarrow> if scheme \<noteq> ''spiffe'' \<or> h = [] then Inl (plain_err (''invalid SPIFFE URI '' @ Quote value)) else Inr (scheme, h)
   | Inl _ \<Rightarrow> Inl (plain_err (''invalid SPIFFE URI '' @ Quote value)))"

section \<open>Opening the inventory (inventory.go)\<close>

text \<open>The database file: opening, executing a statement, closing. The schema is the file \<open>migrateQuery\<close> embeds.\<close>

record 'x database =
  DB_Open :: "string \<Rightarrow> ('x world, unit) go"
  DB_Exec :: "string \<Rightarrow> ('x world, unit) go"
  DB_Close :: "('x world, unit) go"

definition inventory_migrate :: "'x database \<Rightarrow> string \<Rightarrow> ('x world, unit) go" where
  "inventory_migrate d migrateQuery =
     bindG (wrapG ''configure inventory SQLite'' (DB_Exec d ''PRAGMA journal_mode=WAL; PRAGMA foreign_keys=ON; PRAGMA busy_timeout=5000;'')) (\<lambda>_.
     wrapG ''migrate inventory'' (DB_Exec d migrateQuery))"

definition Inventory_Open :: "'x database \<Rightarrow> string \<Rightarrow> string \<Rightarrow> ('x world, unit) go" where
  "Inventory_Open d migrateQuery path =
     bindG (wrapG ''create inventory directory'' (hostG (os_MkdirAll (Dir path)))) (\<lambda>_.
     bindG (wrapG ''open inventory'' (DB_Open d path)) (\<lambda>_.
     catchG (inventory_migrate d migrateQuery) (\<lambda>r. case r of
       Inl e \<Rightarrow> catchG (DB_Close d) (\<lambda>_. failG e)
     | Inr _ \<Rightarrow> returnG ())))"

section \<open>The user bus (systemd/client.go)\<close>

record 'x dbus_dialer =
  Bus_Dial :: "string \<Rightarrow> ('x host, 'x dbus_conn) go"
  Bus_Auth :: "'x dbus_conn \<Rightarrow> ('x host, unit) go"
  Bus_Hello :: "'x dbus_conn \<Rightarrow> ('x host, unit) go"
  Bus_Close :: "'x dbus_conn \<Rightarrow> ('x host, unit) go"

definition or_close_bus :: "'x dbus_dialer \<Rightarrow> 'x dbus_conn \<Rightarrow> ('x host, unit) go \<Rightarrow> ('x host, unit) go" where
  "or_close_bus b conn m = catchG m (\<lambda>r. case r of
     Inl e \<Rightarrow> catchG (Bus_Close b conn) (\<lambda>_. failG e) | Inr _ \<Rightarrow> returnG ())"

definition ConnectUser :: "'x dbus_dialer \<Rightarrow> string \<Rightarrow> ('x host, 'x dbus_conn) go" where
  "ConnectUser b address =
     bindG (wrapG ''dial user D-Bus'' (Bus_Dial b address)) (\<lambda>conn.
     bindG (or_close_bus b conn (wrapG ''authenticate user D-Bus'' (Bus_Auth b conn))) (\<lambda>_.
     bindG (or_close_bus b conn (wrapG ''hello user D-Bus'' (Bus_Hello b conn))) (\<lambda>_.
     returnG conn)))"

section \<open>The agent (cmd/agent/main.go)\<close>

record agent_flags =
  AF_Listen :: string
  AF_TLSCertDir :: string
  AF_ClientCA :: string
  AF_NodeID :: string
  AF_Inventory :: string
  AF_UserDBusAddress :: string
  AF_KVM :: string
  AF_K8netdSocket :: string
  AF_ArtifactRoot :: string
  AF_BaseImageRoot :: string
  AF_FirmwareRoot :: string
  AF_ArtifactManifest :: string
  AF_UnitDir :: string
  AF_CloudHypervisor :: string

definition default_agent_flags :: agent_flags where
  "default_agent_flags = \<lparr>AF_Listen = '':9444'', AF_TLSCertDir = ''/tls/server'', AF_ClientCA = ''/tls/ca/ca.crt'', AF_NodeID = [],
     AF_Inventory = ''/state/inventory.db'', AF_UserDBusAddress = ''unix:path=/run/user/1000/bus'', AF_KVM = ''/dev/kvm'',
     AF_K8netdSocket = ''/run/user/1000/k8snet/control.sock'', AF_ArtifactRoot = ''/host-state/vms'',
     AF_BaseImageRoot = ''/host-state/images'', AF_FirmwareRoot = ''/host-state/firmware'',
     AF_ArtifactManifest = ''/host-state/manifest.json'', AF_UnitDir = ''/home/eryoma/.config/systemd/user'',
     AF_CloudHypervisor = ''/usr/bin/cloud-hypervisor''\<rparr>"

text \<open>The surroundings of the program.\<close>

record 'x agent_env =
  AE_DecodeManifest :: "byte list \<Rightarrow> goerr + manifest"
  AE_Database :: "'x database"
  AE_MigrateQuery :: string
  AE_Bus :: "'x dbus_dialer"
  AE_Wire :: "'x host wire"
  AE_Env :: "'x surroundings"
  AE_X509KeyPair :: "byte list \<Rightarrow> byte list \<Rightarrow> goerr option"
  AE_IsCertPEM :: "byte list \<Rightarrow> bool"
  AE_Listen :: "string \<Rightarrow> ('x world, unit) go"
  AE_Serve :: "tls_config \<Rightarrow> (auth_info option \<Rightarrow> 'x world service) \<Rightarrow> ('x world, unit) go"

text \<open>\<open>tls.LoadX509KeyPair\<close> reads two files and checks that they belong together.\<close>

definition LoadX509KeyPair ::
  "(byte list \<Rightarrow> byte list \<Rightarrow> goerr option) \<Rightarrow> (string \<Rightarrow> ('s, byte list) go) \<Rightarrow> string \<Rightarrow> string \<Rightarrow> ('s, byte list \<times> byte list) go" where
  "LoadX509KeyPair pair ReadFile certFile keyFile =
     bindG (ReadFile certFile) (\<lambda>cert.
     bindG (ReadFile keyFile) (\<lambda>key.
     bindG (checkG (pair cert key)) (\<lambda>_. returnG (cert, key))))"

text \<open>The client of k8netd as the executor uses it.\<close>

definition executor_network :: "'x host k8netd_client \<Rightarrow> 'x network_client" where
  "executor_network c = \<lparr>NC_CreateNetwork = Net_CreateNetwork c, NC_DeleteNetwork = Net_DeleteNetwork c, NC_CreatePort = Net_CreatePort c,
     NC_DeletePort = Net_DeletePort c, NC_AttachPort = Net_AttachPort c, NC_DetachPort = Net_DetachPort c, NC_AllocateIP = Net_AllocateIP c,
     NC_ReleaseIP = Net_ReleaseIP c, NC_PublishPort = Net_PublishPort c, NC_UnpublishPort = Net_UnpublishPort c\<rparr>"

definition agent_executor :: "'x agent_env \<Rightarrow> agent_flags \<Rightarrow> manifest \<Rightarrow> 'x dbus_conn \<Rightarrow> 'x executor" where
  "agent_executor env f m bus = \<lparr>Ex_Store = True, Ex_Systemd = Some (DBusClient bus),
     Ex_Artifacts = \<lparr>B_Root = AF_ArtifactRoot f, B_QemuImg = ''qemu-img'', B_Mkdosfs = ''mkdosfs'', B_Mcopy = ''mcopy'',
       B_Run = Some (Env_Exec (AE_Env env))\<rparr>,
     Ex_Network = Some (executor_network (NewClient (AF_K8netdSocket f) (AE_Wire env))), Ex_NodeID = AF_NodeID f,
     Ex_CloudHypervisor = AF_CloudHypervisor f, Ex_K8netdSocket = AF_K8netdSocket f, Ex_KVMPath = AF_KVM f, Ex_UnitDir = AF_UnitDir f,
     Ex_FirmwareRoot = AF_FirmwareRoot f, Ex_BaseImageRoot = AF_BaseImageRoot f, Ex_Manifest = Some m, Ex_Env = AE_Env env\<rparr>"

definition agent_server :: "'x executor \<Rightarrow> string \<Rightarrow> 'x world server" where
  "agent_server e nodeID = \<lparr>Srv_Capabilities = zero_capabilities\<lparr>Cap_NodeID := nodeID\<rparr>, Srv_Host = Some (executor_agent e)\<rparr>"

definition agent_setup ::
  "'x agent_env \<Rightarrow> agent_flags \<Rightarrow> ('x world, 'x dbus_conn \<times> tls_config \<times> (auth_info option \<Rightarrow> 'x world service)) go" where
  "agent_setup env f =
     bindG (wrapG ''load artifact manifest''
       (hostG (LoadManifest (AE_DecodeManifest env) (AF_ArtifactManifest f) (AF_BaseImageRoot f) (AF_FirmwareRoot f)))) (\<lambda>m.
     bindG (wrapG ''open inventory'' (Inventory_Open (AE_Database env) (AE_MigrateQuery env) (AF_Inventory f))) (\<lambda>_.
     bindG (wrapG ''connect user systemd'' (hostG (ConnectUser (AE_Bus env) (AF_UserDBusAddress f)))) (\<lambda>bus.
     bindG (wrapG ''load server certificate'' (hostG (LoadX509KeyPair (AE_X509KeyPair env) os_ReadFile
       (Join (AF_TLSCertDir f) ''tls.crt'') (Join (AF_TLSCertDir f) ''tls.key'')))) (\<lambda>certificate.
     bindG (wrapG ''read client CA'' (hostG (os_ReadFile (AF_ClientCA f)))) (\<lambda>clientCA.
     if \<not> AE_IsCertPEM env clientCA then failG (plain_err ''parse client CA: no certificate found'')
     else
       bindG (wrapG ''listen'' (AE_Listen env (AF_Listen f))) (\<lambda>_.
       returnG (bus, ServerTLSConfig certificate clientCA,
         \<lambda>pinfo. intercepted pinfo (Server (agent_server (agent_executor env f m bus) (AF_NodeID f))))))))))"

text \<open>When \<open>Serve\<close> returns without an error the deferred calls close the bus and the inventory.\<close>

definition agent_main :: "'x agent_env \<Rightarrow> agent_flags \<Rightarrow> ('x world, unit) go" where
  "agent_main env f =
     bindG (agent_setup env f) (\<lambda>(bus, tls, services).
     bindG (wrapG ''serve gRPC'' (AE_Serve env tls services)) (\<lambda>_.
     catchG (hostG (Bus_Close (AE_Bus env) bus)) (\<lambda>_.
     catchG (DB_Close (AE_Database env)) (\<lambda>_. returnG ()))))"

section \<open>The health check (cmd/agent-health/main.go)\<close>

record health_flags =
  HF_Address :: string
  HF_ServerName :: string
  HF_ClientCertDir :: string
  HF_CA :: string

definition default_health_flags :: health_flags where
  "default_health_flags = \<lparr>HF_Address = ''127.0.0.1:9444'', HF_ServerName = ''hypervisor-agent'', HF_ClientCertDir = [], HF_CA = []\<rparr>"

text \<open>The manager and the health check connect to an agent; \<open>Con_Close\<close> closes the connection.\<close>

record 's connector =
  Con_ReadFile :: "string \<Rightarrow> ('s, byte list) go"
  Con_X509KeyPair :: "byte list \<Rightarrow> byte list \<Rightarrow> goerr option"
  Con_IsCertPEM :: "byte list \<Rightarrow> bool"
  Con_NewClient :: "string \<Rightarrow> tls_config \<Rightarrow> ('s, 's service) go"
  Con_Close :: "('s, unit) go"

definition health_main :: "'s connector \<Rightarrow> health_flags \<Rightarrow> ('s, unit) go" where
  "health_main k f =
     bindG (LoadX509KeyPair (Con_X509KeyPair k) (Con_ReadFile k) (Join (HF_ClientCertDir f) ''tls.crt'') (Join (HF_ClientCertDir f) ''tls.key'')) (\<lambda>certificate.
     bindG (Con_ReadFile k (HF_CA f)) (\<lambda>caPEM.
     if \<not> Con_IsCertPEM k caPEM then failG (plain_err ''parse HostAgent CA: no certificate found'')
     else
       bindG (Dial (Con_NewClient k) (HF_Address f) (HF_ServerName f) certificate caPEM) (\<lambda>a.
       bindG (HA_Health a) (\<lambda>_.
       catchG (Con_Close k) (\<lambda>_. returnG ())))))"


section \<open>What the agent serves\<close>

lemma hostG_Inr: "hostG m w = (Inr x, w') \<longleftrightarrow> (\<exists>h. m (host w) = (Inr x, h) \<and> w' = w\<lparr>host := h\<rparr>)"
  by (auto simp: hostG_def onG_def split: prod.splits)

lemma stranger_refused:
  assumes "\<nexists>uris certs chains. pinfo = Some (TLSInfo ((uris # certs) # chains)) \<and> ManagerSPIFFEURI \<in> set uris"
  shows "\<exists>e. RequireManagerIdentity pinfo = Some e"
  using assms by (cases "RequireManagerIdentity pinfo")
    (auto simp: RequireManagerIdentity_def list_ex_iff split: option.splits auth_info.splits list.splits if_splits)

lemma agent_setup_parts:
  assumes "agent_setup env f w = (Inr (bus, tls, services), w')"
  obtains m h cert ca where
    "LoadManifest (AE_DecodeManifest env) (AF_ArtifactManifest f) (AF_BaseImageRoot f) (AF_FirmwareRoot f) (host w) = (Inr m, h)"
    "tls = ServerTLSConfig cert ca" "AE_IsCertPEM env ca"
    "services = (\<lambda>pinfo. intercepted pinfo (Server (agent_server (agent_executor env f m bus) (AF_NodeID f))))"
  using assms unfolding agent_setup_def bindG_eq_Inr wrapG_Inr hostG_Inr by (auto split: if_splits simp: bindG_eq_Inr)

text \<open>
  C15: What the agent serves. If the program of the agent gets as far as serving, it serves over TLS 1.3 with client
  certificates required and verified against the client CA it was given; every caller without the manager's SPIFFE URI
  is refused by every method but Health without any effect; whoever calls, no row of an owner other than the one named
  changes; and every image the served executor can resolve from its manifest is a regular file at or below the
  base image root with the recorded checksum at the time the manifest was loaded.
\<close>

theorem agent_serves_only_manager:
  assumes "agent_setup env f w = (Inr (bus, tls, services), w')"
  shows "TC_ClientAuth tls = RequireAndVerifyClientCert \<and> TC_MinVersion tls = VersionTLS13 \<and>
    (\<exists>ca. TC_ClientCAs tls = Some ca \<and> AE_IsCertPEM env ca) \<and>
    (\<forall>pinfo. (\<nexists>uris certs chains. pinfo = Some (TLSInfo ((uris # certs) # chains)) \<and> ManagerSPIFFEURI \<in> set uris) \<longrightarrow>
       refuses_all (Client (services pinfo))) \<and>
    (\<forall>pinfo ow. agent_respects (on_db (same_others ow)) (\<lambda>p. p = ow) (Client (services pinfo))) \<and>
    (\<exists>m. services = (\<lambda>pinfo. intercepted pinfo (Server (agent_server (agent_executor env f m bus) (AF_NodeID f)))) \<and>
       (\<forall>reference img. Manifest_Image m reference = Inr img \<longrightarrow>
          (\<exists>r p bs. resolve (hs_nodes (host w)) (AF_BaseImageRoot f) = Inr r \<and> resolve (hs_nodes (host w)) (IF_Path img) = Inr p \<and>
             prefix r p \<and> map_of (hs_nodes (host w)) p = Some (RegularFile bs) \<and> hex_string (sha256 bs) = ToLower (IF_SHA256 img))))"
proof -
  from agent_setup_parts [OF assms] obtain m h cert ca where
    m: "LoadManifest (AE_DecodeManifest env) (AF_ArtifactManifest f) (AF_BaseImageRoot f) (AF_FirmwareRoot f) (host w) = (Inr m, h)" and
    tls: "tls = ServerTLSConfig cert ca" "AE_IsCertPEM env ca" and
    services: "services = (\<lambda>pinfo. intercepted pinfo (Server (agent_server (agent_executor env f m bus) (AF_NodeID f))))" by blast
  have "refuses_all (Client (services pinfo))"
    if "\<nexists>uris certs chains. pinfo = Some (TLSInfo ((uris # certs) # chains)) \<and> ManagerSPIFFEURI \<in> set uris" for pinfo
    using stranger_refused [OF that] refused unfolding services by blast
  moreover have "agent_respects (on_db (same_others ow)) (\<lambda>p. p = ow) (Client (services pinfo))" for pinfo ow
    unfolding services by (rule ex_others.world.remote_respects [OF ex_others.executor_respects]) (simp add: agent_server_def)
  moreover have "\<exists>r p bs. resolve (hs_nodes (host w)) (AF_BaseImageRoot f) = Inr r \<and> resolve (hs_nodes (host w)) (IF_Path img) = Inr p \<and>
      prefix r p \<and> map_of (hs_nodes (host w)) p = Some (RegularFile bs) \<and> hex_string (sha256 bs) = ToLower (IF_SHA256 img)"
    if "Manifest_Image m reference = Inr img" for reference img
    using LoadManifest_images_verified [OF m that] by blast
  ultimately show ?thesis using tls services by (auto simp: ServerTLSConfig_def)
qed

text \<open>A host with a manifest, an image and certificates, on which every call succeeds.\<close>

definition sample_flags :: agent_flags where
  "sample_flags = default_agent_flags\<lparr>AF_ArtifactManifest := ''/m'', AF_BaseImageRoot := ''/a'', AF_FirmwareRoot := ''/a'',
     AF_Inventory := ''/a/inventory.db'', AF_TLSCertDir := ''/a'', AF_ClientCA := ''/m'', AF_NodeID := ''node-1''\<rparr>"

definition sample_bus :: "unit dbus_conn" where
  "sample_bus = \<lparr>bus_call = (\<lambda>_ _ _. returnG []), bus_property = (\<lambda>_ _. returnG (DUint32 1))\<rparr>"

definition quiet_wire :: "unit host wire" where
  "quiet_wire = \<lparr>Wire_Dial = (\<lambda>_. returnG ()), Wire_Send = (\<lambda>_. returnG ()), Wire_Receive = returnG (JObject []), Wire_Sleep = (\<lambda>_. returnG ()),
     Wire_CtxErr = (\<lambda>_. None), Wire_Deadline = None, Wire_NextID = (\<lambda>h. (1, h))\<rparr>"

definition sample_agent_env :: "unit agent_env" where
  "sample_agent_env = \<lparr>AE_DecodeManifest = (\<lambda>_. Inr sample_manifest),
     AE_Database = \<lparr>DB_Open = (\<lambda>_. returnG ()), DB_Exec = (\<lambda>_. returnG ()), DB_Close = returnG ()\<rparr>, AE_MigrateQuery = ''CREATE TABLE'',
     AE_Bus = \<lparr>Bus_Dial = (\<lambda>_. returnG sample_bus), Bus_Auth = (\<lambda>_. returnG ()), Bus_Hello = (\<lambda>_. returnG ()), Bus_Close = (\<lambda>_. returnG ())\<rparr>,
     AE_Wire = quiet_wire, AE_Env = sample_env, AE_X509KeyPair = (\<lambda>_ _. None), AE_IsCertPEM = (\<lambda>b. b \<noteq> []),
     AE_Listen = (\<lambda>_. returnG ()), AE_Serve = (\<lambda>_ _. returnG ())\<rparr>"

lemma sample_agent_setup:
  "\<exists>bus tls services w'. agent_setup sample_agent_env sample_flags \<lparr>db = empty_store, host = one_file_host\<rparr> = (Inr (bus, tls, services), w')"
proof -
  let ?ns = "hs_nodes one_file_host"
  obtain h where h: "LoadManifest (\<lambda>_. Inr sample_manifest) ''/m'' ''/a'' ''/a'' one_file_host = (Inr sample_manifest, h)"
    "hs_nodes h = ?ns" "hs_fault h = (\<lambda>_ _ _. None)" using sample_manifest_loads by blast
  have paths: "Dir ''/a/inventory.db'' = ''/a''" "Join ''/a'' ''tls.crt'' = ''/a/tls.crt''" "Join ''/a'' ''tls.key'' = ''/a/tls.key''"
    "mkdirs ''/a'' [] (clean_elems ''/a'') ?ns = (Inr (), ?ns)"
    "resolve ?ns ''/a/tls.crt'' = Inr [''a'', ''tls.crt'']" "node_at ?ns [''a'', ''tls.crt''] = Some (RegularFile [3])"
    "resolve ?ns ''/a/tls.key'' = Inr [''a'', ''tls.key'']" "node_at ?ns [''a'', ''tls.key''] = Some (RegularFile [4])"
    "resolve ?ns ''/m'' = Inr [''m'']" "node_at ?ns [''m''] = Some (RegularFile [2])"
    by code_simp+
  show ?thesis
    using h paths
    by (simp add: agent_setup_def sample_agent_env_def sample_flags_def default_agent_flags_def run_bind run_wrap hostG_def onG_def catchG_def
      Inventory_Open_def inventory_migrate_def ConnectUser_def or_close_bus_def LoadX509KeyPair_def os_MkdirAll_def os_ReadFile_def
      sys_def at_resolved_def node_of_def read_node_def Let_def)
qed

theorem agent_serves_only_manager_witness:
  "\<exists>bus tls services w'. agent_setup sample_agent_env sample_flags \<lparr>db = empty_store, host = one_file_host\<rparr> = (Inr (bus, tls, services), w') \<and>
     TC_ClientAuth tls = RequireAndVerifyClientCert \<and> refuses_all (Client (services None))"
proof -
  obtain bus tls services w' where run: "agent_setup sample_agent_env sample_flags \<lparr>db = empty_store, host = one_file_host\<rparr> = (Inr (bus, tls, services), w')"
    using sample_agent_setup by blast
  from agent_serves_only_manager [OF run] show ?thesis using run by blast
qed

end
