(* ===== verification/ManagerProgram.thy ===== *)
theory ManagerProgram
  imports Manager Certificates MachineController ConfigController ClusterController ControlPlaneReconcile UpgradePlan AgentProgram
begin

text \<open>
  The program of the manager (\<open>main.go\<close>): its flags, the connection to the agent, the composition of the five
  reconcilers from the parts modelled elsewhere, and the registration of webhooks, health checks and controllers. The
  libraries the program hands these to (the manager of controller-runtime among them) are the record \<open>manager_env\<close>.
\<close>

section \<open>Version (version/version.go)\<close>

record version_info =
  V_Major :: string
  V_Minor :: string
  V_GitVersion :: string
  V_GitCommit :: string
  V_GitTreeState :: string
  V_BuildDate :: string
  V_GoVersion :: string
  V_Compiler :: string
  V_Platform :: string

text \<open>The variables the linker sets, and what the runtime reports.\<close>

record build_vars =
  BV_Major :: string
  BV_Minor :: string
  BV_Version :: string
  BV_Commit :: string
  BV_TreeState :: string
  BV_Date :: string
  BV_GoVersion :: string
  BV_Compiler :: string
  BV_GOOS :: string
  BV_GOARCH :: string

definition version_Get :: "build_vars \<Rightarrow> version_info" where
  "version_Get b = \<lparr>V_Major = BV_Major b, V_Minor = BV_Minor b, V_GitVersion = BV_Version b, V_GitCommit = BV_Commit b,
     V_GitTreeState = BV_TreeState b, V_BuildDate = BV_Date b, V_GoVersion = BV_GoVersion b, V_Compiler = BV_Compiler b,
     V_Platform = BV_GOOS b @ ''/'' @ BV_GOARCH b\<rparr>"

definition version_String :: "version_info \<Rightarrow> string" where
  "version_String info = V_GitVersion info"

section \<open>Flags\<close>

record manager_flags =
  MF_Kubeconfig :: string
  MF_WebhookCertDir :: string
  MF_WebhookPort :: int
  MF_HealthAddr :: string
  MF_MetricsBindAddr :: string
  MF_ClusterConcurrency :: int
  MF_MachineConcurrency :: int
  MF_ConfigConcurrency :: int
  MF_ControlPlaneConcurrency :: int
  MF_UpgradePlanConcurrency :: int
  MF_AgentAddress :: string
  MF_AgentServerName :: string
  MF_AgentClientCertDir :: string
  MF_AgentCAFile :: string

definition defaultWebhookPort :: int where "defaultWebhookPort = 9443"
definition defaultHealthAddr :: string where "defaultHealthAddr = '':9440''"
definition defaultEventBurstSize :: int where "defaultEventBurstSize = 100"

definition initFlags :: manager_flags where
  "initFlags = \<lparr>MF_Kubeconfig = [], MF_WebhookCertDir = ''/tmp/k8s-webhook-server/serving-certs'', MF_WebhookPort = defaultWebhookPort,
     MF_HealthAddr = defaultHealthAddr, MF_MetricsBindAddr = '':8080'', MF_ClusterConcurrency = 1, MF_MachineConcurrency = 1,
     MF_ConfigConcurrency = 1, MF_ControlPlaneConcurrency = 1, MF_UpgradePlanConcurrency = 1, MF_AgentAddress = [],
     MF_AgentServerName = ''hypervisor-agent.hypervisor-system.svc'', MF_AgentClientCertDir = [], MF_AgentCAFile = []\<rparr>"

record manager_options =
  MO_WebhookPort :: int
  MO_WebhookCertDir :: string
  MO_HealthProbeBindAddress :: string
  MO_MetricsBindAddress :: string
  MO_LeaderElection :: bool
  MO_EventBurstSize :: int

section \<open>Surroundings\<close>

text \<open>A reconciler as it is registered.\<close>

datatype ('s, 'c, 'x) composed =
    ClusterC "'s reconciler"
  | MachineC "('s, 'c, 'x) machine_reconciler"
  | ConfigC "'s config_reconciler"
  | ControlPlaneC "('s, 'x) cp_reconciler"
  | PlanC "'s controller"

text \<open>
  \<open>ME_GetConfig\<close> is \<open>ctrl.GetConfigOrDie\<close>. The clients of virtual machines (\<open>ME_NewVMClient\<close>,
  \<open>ME_VM\<close>) and k8netd are seams of tests; the program does not set them.
\<close>

record ('s, 'c, 'x, 'k, 'p) manager_env =
  ME_Getenv :: "string \<Rightarrow> string"
  ME_GetConfig :: "('s, unit) go"
  ME_BuildConfig :: "string \<Rightarrow> ('s, unit) go"
  ME_NewManager :: "manager_options \<Rightarrow> ('s, unit) go"
  ME_SetupWebhook :: "string \<Rightarrow> ('s, unit) go"
  ME_AddHealthzCheck :: "string \<Rightarrow> ('s, unit) go"
  ME_AddReadyzCheck :: "string \<Rightarrow> ('s, unit) go"
  ME_SetupController :: "('s, 'c, 'x) composed \<Rightarrow> int \<Rightarrow> ('s, unit) go"
  ME_Start :: "('s, unit) go"
  ME_Connector :: "'s connector"
  ME_Lib :: provider_lib
  ME_Kube :: "'s provider_kube"
  ME_CreateMachine :: "machine \<Rightarrow> ('s, machine) go"
  ME_Host :: "'s \<Rightarrow> 'x host"
  ME_PutHost :: "'x host \<Rightarrow> 's \<Rightarrow> 's"
  ME_NewVMClient :: "string \<Rightarrow> string \<Rightarrow> 's \<Rightarrow> 'c \<times> 's"
  ME_VM :: "('s, 'c) vm_interface"
  ME_Clients :: "'s \<Rightarrow> string \<rightharpoonup> 'c"
  ME_PutClients :: "(string \<rightharpoonup> 'c) \<Rightarrow> 's \<Rightarrow> 's"
  ME_CombinedOutput :: "string \<Rightarrow> string list \<Rightarrow> 's \<Rightarrow> (byte list \<times> goerr option) \<times> 's"
  ME_InfoSize :: "byte list \<Rightarrow> goerr + int"
  ME_Confext :: "'x runner"
  ME_X509 :: "('s, 'k, 'p) x509_lib"
  ME_YAML :: "kubeconfig \<Rightarrow> goerr + byte list"
  ME_Web :: "'s web"
  ME_Seed :: "('s, 's workload_client) seed_lib"

text \<open>A nil client of k8netd: every method dereferences it.\<close>

definition nil_k8netd :: "'s k8netd" where
  "nil_k8netd = (let nil = failG (sentinel_err NilDereference) in
     \<lparr>KN_CreateNetwork = (\<lambda>_ _ _ _ _. nil), KN_DeleteNetwork = (\<lambda>_. nil), KN_CreatePort = (\<lambda>_. nil), KN_AttachPort = (\<lambda>_ _ _. nil),
      KN_AllocateIP = (\<lambda>_ _. failG (sentinel_err NilDereference)), KN_PublishPort = (\<lambda>_ _. failG (sentinel_err NilDereference)),
      KN_DetachPort = (\<lambda>_. nil), KN_DeletePort = (\<lambda>_. nil)\<rparr>)"

section \<open>Composition\<close>

definition cluster_controller :: "('s, 'c, 'x, 'k, 'p) manager_env \<Rightarrow> 's host_agent \<Rightarrow> 's reconciler" where
  "cluster_controller e agent = \<lparr>R_Lib = ME_Lib e, R_Kube = ME_Kube e, R_Agent = Some agent, R_K8Netd = nil_k8netd\<rparr>"

definition machine_controller :: "('s, 'c, 'x, 'k, 'p) manager_env \<Rightarrow> provider_config \<Rightarrow> 's host_agent \<Rightarrow> ('s, 'c, 'x) machine_reconciler" where
  "machine_controller e cfg agent = \<lparr>R_Lib = ME_Lib e, R_Kube = ME_Kube e, R_Agent = Some agent, R_K8Netd = nil_k8netd,
     MR_Config = cfg, MR_Host = ME_Host e, MR_PutHost = ME_PutHost e, MR_NewVMClient = ME_NewVMClient e, MR_VM = ME_VM e,
     MR_Clients = ME_Clients e, MR_PutClients = ME_PutClients e, MR_QemuImg = ME_CombinedOutput e, MR_InfoSize = ME_InfoSize e,
     MR_Confext = ME_Confext e, MR_RenderCloudInit = Render_cloudinit, MR_DeriveMAC = Derive\<rparr>"

definition config_controller :: "('s, 'c, 'x, 'k, 'p) manager_env \<Rightarrow> 's config_reconciler" where
  "config_controller e = \<lparr>R_Lib = ME_Lib e, R_Kube = ME_Kube e, FR_BuildTree = buildConfextTree,
     FR_GenerateClusterPKI = GenerateClusterPKI (ME_X509 e), FR_GenerateKubeletCert = GenerateKubeletCert (ME_X509 e),
     FR_RenderKubeconfig = RenderKubeconfig (pki_lib_of (ME_X509 e) (ME_YAML e))\<rparr>"

definition control_plane_controller ::
  "('s, 'c, 'x, 'k, 'p) manager_env \<Rightarrow> provider_config \<Rightarrow> 's host_agent \<Rightarrow> ('s, 'x) cp_reconciler" where
  "control_plane_controller e cfg agent = \<lparr>R_Lib = ME_Lib e, R_Kube = ME_Kube e, R_Agent = Some agent, R_K8Netd = nil_k8netd,
     CR_NewConfig = manager_NewConfig, CR_CreateMachine = manager_CreateMachine (ME_CreateMachine e),
     CR_GeneratePKI = manager_GeneratePKI (GenerateClusterPKI (ME_X509 e)),
     CR_CheckAPIServerHealth = Some (checkAPIServerHealth (ME_Web e)),
     CR_SeedClusterAdmin = Some (seedClusterAdmin ((ME_Seed e)\<lparr>S_Mint := MintClientCert (ME_X509 e)\<rparr>)),
     CR_CaptureEtcdSnapshot = Some (Capture (ME_Web e)), CR_Config = cfg, CR_Host = ME_Host e, CR_PutHost = ME_PutHost e,
     CR_Pki = pki_lib_of (ME_X509 e) (ME_YAML e)\<rparr>"

definition plan_controller :: "('s, 'c, 'x, 'k, 'p) manager_env \<Rightarrow> 's controller" where
  "plan_controller e = \<lparr>R_Lib = ME_Lib e, R_Kube = ME_Kube e\<rparr>"

text \<open>The controllers in the order of their registration, with the name in the error and the concurrency.\<close>

definition composition ::
  "('s, 'c, 'x, 'k, 'p) manager_env \<Rightarrow> manager_flags \<Rightarrow> provider_config \<Rightarrow> 's host_agent \<Rightarrow> (string \<times> ('s, 'c, 'x) composed \<times> int) list" where
  "composition e f cfg agent =
     [(''HypervisorCluster'', ClusterC (cluster_controller e agent), MF_ClusterConcurrency f),
      (''HypervisorMachine'', MachineC (machine_controller e cfg agent), MF_MachineConcurrency f),
      (''HypervisorConfig'', ConfigC (config_controller e), MF_ConfigConcurrency f),
      (''HypervisorControlPlane'', ControlPlaneC (control_plane_controller e cfg agent), MF_ControlPlaneConcurrency f),
      (''HypervisorUpgradePlan'', PlanC (plan_controller e), MF_UpgradePlanConcurrency f)]"

definition agent_configured :: "manager_flags \<Rightarrow> bool" where
  "agent_configured f \<longleftrightarrow> MF_AgentAddress f \<noteq> [] \<and> MF_AgentClientCertDir f \<noteq> [] \<and> MF_AgentCAFile f \<noteq> []"

definition setup_agent :: "('s, 'c, 'x, 'k, 'p) manager_env \<Rightarrow> manager_flags \<Rightarrow> ('s, 's host_agent) go" where
  "setup_agent e f = (let k = ME_Connector e; dir = MF_AgentClientCertDir f in
     if \<not> agent_configured f then
       if ME_Getenv e ''K8LABS_TEST_MODE'' \<noteq> ''1''
       then failG (plain_err ''HostAgent configuration is required: agent-address, agent-client-cert-dir, and agent-ca must be set'')
       else returnG Fake
     else
       bindG (wrapG ''load agent client certificate'' (LoadX509KeyPair (Con_X509KeyPair k) (Con_ReadFile k) (dir @ ''/tls.crt'') (dir @ ''/tls.key''))) (\<lambda>certificate.
       bindG (wrapG ''read agent CA'' (Con_ReadFile k (MF_AgentCAFile f))) (\<lambda>ca.
       if \<not> Con_IsCertPEM k ca then failG (plain_err ''parse agent CA'')
       else
         bindG (Dial (Con_NewClient k) (MF_AgentAddress f) (MF_AgentServerName f) certificate ca) (\<lambda>agent.
         catchG (HA_Health agent) (\<lambda>r. case r of
           Inl err \<Rightarrow> catchG (Con_Close k) (\<lambda>_. failG (wrap_err ''check HostAgent health'' err))
         | Inr _ \<Rightarrow> returnG agent)))))"

definition setupControllers :: "('s, 'c, 'x, 'k, 'p) manager_env \<Rightarrow> manager_flags \<Rightarrow> provider_config \<Rightarrow> ('s, unit) go" where
  "setupControllers e f cfg =
     bindG (setup_agent e f) (\<lambda>agent.
     eachG (\<lambda>(name, c, n). wrapG (''unable to set up '' @ name @ '' controller'') (ME_SetupController e c n)) (composition e f cfg agent))"

section \<open>The program\<close>

definition managerRestConfig :: "('s, 'c, 'x, 'k, 'p) manager_env \<Rightarrow> manager_flags \<Rightarrow> ('s, unit) go" where
  "managerRestConfig e f =
     (if MF_Kubeconfig f = [] then ME_GetConfig e
      else wrapG (''load kubeconfig '' @ Quote (MF_Kubeconfig f)) (ME_BuildConfig e (MF_Kubeconfig f)))"

definition setupWebhooks :: "('s, 'c, 'x, 'k, 'p) manager_env \<Rightarrow> ('s, unit) go" where
  "setupWebhooks e =
     eachG (\<lambda>kind. wrapG (''unable to set up '' @ kind @ '' webhook'') (ME_SetupWebhook e kind))
       [''HypervisorCluster'', ''HypervisorMachine'', ''HypervisorMachineTemplate'', ''HypervisorConfig'', ''HypervisorControlPlane'',
        ''HypervisorUpgradePlan'']"

definition addHealthChecks :: "('s, 'c, 'x, 'k, 'p) manager_env \<Rightarrow> ('s, unit) go" where
  "addHealthChecks e =
     bindG (wrapG ''unable to add healthz check'' (ME_AddHealthzCheck e ''healthz'')) (\<lambda>_.
     wrapG ''unable to add readyz check'' (ME_AddReadyzCheck e ''readyz''))"

definition manager_options_of :: "manager_flags \<Rightarrow> manager_options" where
  "manager_options_of f = \<lparr>MO_WebhookPort = MF_WebhookPort f, MO_WebhookCertDir = MF_WebhookCertDir f,
     MO_HealthProbeBindAddress = MF_HealthAddr f, MO_MetricsBindAddress = MF_MetricsBindAddr f, MO_LeaderElection = False,
     MO_EventBurstSize = defaultEventBurstSize\<rparr>"

text \<open>An error is logged and ends the program with status 1.\<close>

definition manager_main :: "('s, 'c, 'x, 'k, 'p) manager_env \<Rightarrow> manager_flags \<Rightarrow> ('s, unit) go" where
  "manager_main e f =
     bindG (wrapG ''unable to load the management cluster config'' (managerRestConfig e f)) (\<lambda>_.
     bindG (wrapG ''unable to load the provider configuration'' (liftG (Config_Load (Some (ME_Getenv e)) (ME_Getenv e)))) (\<lambda>cfg.
     bindG (wrapG ''unable to start manager'' (ME_NewManager e (manager_options_of f))) (\<lambda>_.
     bindG (wrapG ''failed to add webhooks'' (setupWebhooks e)) (\<lambda>_.
     bindG (wrapG ''failed to add health checks'' (addHealthChecks e)) (\<lambda>_.
     bindG (wrapG ''failed to add controllers'' (setupControllers e f cfg)) (\<lambda>_.
     wrapG ''problem running manager'' (ME_Start e)))))))"


section \<open>Controllers run only on an agent that answered\<close>

text \<open>
  \<open>registers reg ok\<close>: between two states only permitted controllers were added to the registered ones,
  \<open>reg\<close>.
\<close>

definition registers :: "('s \<Rightarrow> ('s, 'c, 'x) composed set) \<Rightarrow> (('s, 'c, 'x) composed \<Rightarrow> bool) \<Rightarrow> 's \<Rightarrow> 's \<Rightarrow> bool" where
  "registers reg ok s t \<longleftrightarrow> (\<forall>c\<in>reg t. c \<in> reg s \<or> ok c)"

interpretation rg: go_preorder "registers reg ok" for reg :: "'s \<Rightarrow> ('s, 'c, 'x) composed set" and ok
  by unfold_locales (auto simp: registers_def)

text \<open>
  What a manager keeps of its registrations: setting a controller up adds at most that one, and every other call of
  the program adds none, the health check of a connected agent included.
\<close>

definition keeps_registered :: "('s \<Rightarrow> ('s, 'c, 'x) composed set) \<Rightarrow> ('s, 'a) go \<Rightarrow> bool" where
  "keeps_registered reg m \<longleftrightarrow> steps (registers reg (\<lambda>_. False)) m"

definition registering :: "('s \<Rightarrow> ('s, 'c, 'x) composed set) \<Rightarrow> ('s, 'c, 'x, 'k, 'p) manager_env \<Rightarrow> bool" where
  "registering reg e \<longleftrightarrow>
     (\<forall>c n. steps (registers reg (\<lambda>d. d = c)) (ME_SetupController e c n)) \<and>
     keeps_registered reg (ME_GetConfig e) \<and> (\<forall>p. keeps_registered reg (ME_BuildConfig e p)) \<and>
     (\<forall>opts. keeps_registered reg (ME_NewManager e opts)) \<and> (\<forall>kind. keeps_registered reg (ME_SetupWebhook e kind)) \<and>
     (\<forall>name. keeps_registered reg (ME_AddHealthzCheck e name)) \<and> (\<forall>name. keeps_registered reg (ME_AddReadyzCheck e name)) \<and>
     keeps_registered reg (ME_Start e) \<and> (\<forall>p. keeps_registered reg (Con_ReadFile (ME_Connector e) p)) \<and>
     keeps_registered reg (Con_Close (ME_Connector e)) \<and>
     (\<forall>a tls. keeps_registered reg (Con_NewClient (ME_Connector e) a tls)) \<and>
     (\<forall>a tls s sv t. Con_NewClient (ME_Connector e) a tls s = (Inr sv, t) \<longrightarrow> keeps_registered reg (HA_Health (Client sv)))"

lemma keeps_steps: "keeps_registered reg m \<Longrightarrow> steps (registers reg ok) m"
  unfolding keeps_registered_def steps_def registers_def by blast

lemma rg_bind_result:
  assumes "steps (registers reg ok) m" and "\<And>s x t. m s = (Inr x, t) \<Longrightarrow> steps (registers reg ok) (k x)"
  shows "steps (registers reg ok) (bindG m k)"
proof (rule stepsI)
  fix s r t
  assume run: "bindG m k s = (r, t)"
  obtain x u where m: "m s = (x, u)" by fastforce
  show "registers reg ok s t"
  proof (cases x)
    case (Inl e)
    then show ?thesis using stepsD [OF assms(1) m] run m by (simp add: run_bind)
  next
    case (Inr y)
    then have "k y u = (r, t)" using run m by (simp add: run_bind)
    then show ?thesis using stepsD [OF assms(1) m] stepsD [OF assms(2)] m Inr by (metis rg.R_trans)
  qed
qed

lemma setup_agent_keeps:
  assumes "registering reg e"
  shows "steps (registers reg ok) (setup_agent e f)"
proof -
  let ?k = "ME_Connector e"
  have calls: "steps (registers reg ok) (Con_ReadFile ?k p)" "steps (registers reg ok) (Con_Close ?k)" "steps (registers reg ok) (Con_NewClient ?k a tls)"
    and health: "Con_NewClient ?k a tls s = (Inr sv, t) \<Longrightarrow> steps (registers reg ok) (HA_Health (Client sv))" for p a tls s sv t
    using assms unfolding registering_def by (blast intro: keeps_steps)+
  have load: "steps (registers reg ok) (LoadX509KeyPair (Con_X509KeyPair ?k) (Con_ReadFile ?k) a b)" for a b
    unfolding LoadX509KeyPair_def by (auto intro: calls)
  have check: "steps (registers reg ok) (bindG (Dial (Con_NewClient ?k) a n cert ca) (\<lambda>agent.
      catchG (HA_Health agent) (\<lambda>r. case r of Inl err \<Rightarrow> catchG (Con_Close ?k) (\<lambda>_. failG (wrap_err ''check HostAgent health'' err)) | Inr _ \<Rightarrow> returnG agent)))" for a n cert ca
  proof (rule rg_bind_result)
    show "steps (registers reg ok) (Dial (Con_NewClient ?k) a n cert ca)" unfolding Dial_def by (auto intro: calls)
    fix s agent t
    assume "Dial (Con_NewClient ?k) a n cert ca s = (Inr agent, t)"
    then have "steps (registers reg ok) (HA_Health agent)" by (auto simp: Dial_def bindG_eq_Inr dest: health)
    then show "steps (registers reg ok) (catchG (HA_Health agent) (\<lambda>r. case r of
        Inl err \<Rightarrow> catchG (Con_Close ?k) (\<lambda>_. failG (wrap_err ''check HostAgent health'' err)) | Inr _ \<Rightarrow> returnG agent))"
      by (auto intro: calls)
  qed
  show ?thesis unfolding setup_agent_def Let_def by (auto intro!: check load calls)
qed

text \<open>An agent \<open>setup_agent\<close> returns is the fake of a test, or it answered its health check last.\<close>

definition checked_agent :: "('s, 'c, 'x, 'k, 'p) manager_env \<Rightarrow> manager_flags \<Rightarrow> 's host_agent \<Rightarrow> bool" where
  "checked_agent e f agent \<longleftrightarrow>
     (if agent_configured f
      then \<exists>cert ca s sv t caps u. Con_IsCertPEM (ME_Connector e) ca \<and>
        Con_NewClient (ME_Connector e) (MF_AgentAddress f) (ClientTLSConfig (MF_AgentServerName f) cert ca) s = (Inr sv, t) \<and>
        agent = Client sv \<and> HA_Health agent t = (Inr caps, u)
      else ME_Getenv e ''K8LABS_TEST_MODE'' = ''1'' \<and> agent = Fake)"

lemma setup_agent_checked:
  assumes "setup_agent e f s = (Inr agent, t)"
  shows "checked_agent e f agent"
proof (cases "agent_configured f")
  case True
  let ?k = "ME_Connector e"
  from assms True obtain cert ca u agent' v where ca: "Con_IsCertPEM ?k ca" and
    dial: "Dial (Con_NewClient ?k) (MF_AgentAddress f) (MF_AgentServerName f) cert ca u = (Inr agent', v)" and
    health: "catchG (HA_Health agent') (\<lambda>r. case r of Inl err \<Rightarrow> catchG (Con_Close ?k) (\<lambda>_. failG (wrap_err ''check HostAgent health'' err))
      | Inr _ \<Rightarrow> returnG agent') v = (Inr agent, t)"
    by (simp add: setup_agent_def Let_def bindG_eq_Inr split: if_splits) blast
  from health obtain caps where "agent = agent'" "HA_Health agent v = (Inr caps, t)"
    by (cases "HA_Health agent' v"; cases "fst (HA_Health agent' v)") (auto simp: catchG_def split: prod.splits)
  moreover from dial obtain sv where "Con_NewClient ?k (MF_AgentAddress f) (ClientTLSConfig (MF_AgentServerName f) cert ca) u = (Inr sv, v)" "agent' = Client sv"
    by (auto simp: Dial_def bindG_eq_Inr)
  ultimately show ?thesis using ca True unfolding checked_agent_def by (simp only: if_True) blast
next
  case False
  with assms show ?thesis by (auto simp: setup_agent_def checked_agent_def split: if_splits)
qed

text \<open>
  C16: Controllers run only on an agent that answered. Whatever the program does and however it ends, a controller it has
  registered is one of the five of its composition, built from the loaded configuration and from an agent that is
  reached over TLS with a CA of its own and has answered the health check; without the three agent flags it is the
  in-memory fake, and only if the test mode is set. So an incomplete configuration, an unreadable certificate, a failed
  connection or an unhealthy agent ends the program before any controller is registered.
\<close>

theorem controllers_need_healthy_agent:
  assumes "registering reg e" and "manager_main e f s = (r, t)" and "c \<in> reg t" "c \<notin> reg s"
  shows "\<exists>cfg agent. Config_Load (Some (ME_Getenv e)) (ME_Getenv e) = Inr cfg \<and> checked_agent e f agent \<and>
    c \<in> (fst \<circ> snd) ` set (composition e f cfg agent)"
proof -
  define ok where "ok = (\<lambda>c. \<exists>cfg agent. Config_Load (Some (ME_Getenv e)) (ME_Getenv e) = Inr cfg \<and> checked_agent e f agent \<and>
    c \<in> (fst \<circ> snd) ` set (composition e f cfg agent))"
  have calls: "steps (registers reg ok) (ME_GetConfig e)" "steps (registers reg ok) (ME_BuildConfig e p)" "steps (registers reg ok) (ME_NewManager e opts)"
    "steps (registers reg ok) (ME_SetupWebhook e p)" "steps (registers reg ok) (ME_AddHealthzCheck e p)" "steps (registers reg ok) (ME_AddReadyzCheck e p)"
    "steps (registers reg ok) (ME_Start e)" for p opts
    using assms(1) unfolding registering_def by (blast intro: keeps_steps)+
  have sets_up: "steps (registers reg ok) (ME_SetupController e c n)" if "ok c" for c n
  proof -
    have "steps (registers reg (\<lambda>d. d = c)) (ME_SetupController e c n)" using assms(1) by (simp add: registering_def)
    then show ?thesis using that by (auto simp: steps_def registers_def)
  qed
  have controllers: "steps (registers reg ok) (setupControllers e f cfg)" if "Config_Load (Some (ME_Getenv e)) (ME_Getenv e) = Inr cfg" for cfg
    unfolding setupControllers_def
  proof (rule rg_bind_result [OF setup_agent_keeps [OF assms(1)]])
    fix s agent t
    assume "setup_agent e f s = (Inr agent, t)"
    then have ok: "ok c" if "(name, c, n) \<in> set (composition e f cfg agent)" for name c n
      using that \<open>Config_Load _ _ = Inr cfg\<close> setup_agent_checked unfolding ok_def by force
    show "steps (registers reg ok) (eachG (\<lambda>(name, c, n). wrapG (''unable to set up '' @ name @ '' controller'') (ME_SetupController e c n)) (composition e f cfg agent))"
      by (rule rg.steps_each) (auto intro: sets_up ok)
  qed
  have "steps (registers reg ok) (manager_main e f)"
    unfolding manager_main_def managerRestConfig_def setupWebhooks_def addHealthChecks_def
    by (intro rg.steps_bind rg.steps_wrap rg.steps_if rg.steps_each calls rg_bind_result [of reg ok "wrapG _ (liftG _)"] rg.steps_lift controllers)
      (simp add: liftG_def)
  from stepsD [OF this assms(2)] assms(3,4) show ?thesis unfolding registers_def ok_def by blast
qed


text \<open>
  A manager whose calls succeed, on any libraries: the state is the list of the numbers of the registered controllers,
  and the agent behind the connection is the fake.
\<close>

definition sample_manager_flags :: manager_flags where
  "sample_manager_flags = initFlags\<lparr>MF_Kubeconfig := ''/etc/kubeconfig'', MF_AgentAddress := ''agent:9444'', MF_AgentClientCertDir := ''/tls'',
     MF_AgentCAFile := ''/tls/ca.crt''\<rparr>"

definition sample_service :: "'s service" where
  "sample_service = Server \<lparr>Srv_Capabilities = zero_capabilities, Srv_Host = Some Fake\<rparr>"

definition sample_connector :: "'s connector" where
  "sample_connector = \<lparr>Con_ReadFile = (\<lambda>_. returnG [1]), Con_X509KeyPair = (\<lambda>_ _. None), Con_IsCertPEM = (\<lambda>b. b \<noteq> []),
     Con_NewClient = (\<lambda>_ _. returnG sample_service), Con_Close = returnG ()\<rparr>"

definition sample_config :: provider_config where
  "sample_config = (case Config_Load (Some (\<lambda>_. [])) (\<lambda>_. []) of Inr cfg \<Rightarrow> cfg)"

definition sample_composition :: "(nat list, 'c, 'x, 'k, 'p) manager_env \<Rightarrow> (nat list, 'c, 'x) composed list" where
  "sample_composition e = map (fst \<circ> snd) (composition e sample_manager_flags sample_config (Client sample_service))"

definition started :: "(nat list, 'c, 'x, 'k, 'p) manager_env \<Rightarrow> (nat list, 'c, 'x, 'k, 'p) manager_env" where
  "started e = e\<lparr>ME_Getenv := (\<lambda>_. []), ME_BuildConfig := (\<lambda>_. returnG ()), ME_GetConfig := returnG (), ME_NewManager := (\<lambda>_. returnG ()),
     ME_SetupWebhook := (\<lambda>_. returnG ()), ME_AddHealthzCheck := (\<lambda>_. returnG ()), ME_AddReadyzCheck := (\<lambda>_. returnG ()),
     ME_SetupController := (\<lambda>c _ s. (Inr (), filter (\<lambda>i. sample_composition e ! i = c) [0..<5] @ s)),
     ME_Start := returnG (), ME_Connector := sample_connector\<rparr>"

definition sample_registered :: "(nat list, 'c, 'x, 'k, 'p) manager_env \<Rightarrow> nat list \<Rightarrow> (nat list, 'c, 'x) composed set" where
  "sample_registered e s = (!) (sample_composition e) ` set s"

lemma sample_health: "HA_Health (Client sample_service) s = (Inr zero_capabilities, s)"
  by (simp add: Client_def Client_Health_def sample_service_def Server_def Server_Health_def Fake_def rpcG_def callG_def run_bind catchG_def
    zero_capabilities_def)

lemma sample_registering: "registering (sample_registered e) (started e)"
  by (auto simp: sample_health registering_def keeps_registered_def started_def sample_connector_def sample_registered_def registers_def steps_def)

lemma sample_starts: "\<exists>t. manager_main (started e) sample_manager_flags [] = (Inr (), t) \<and> 0 \<in> set t"
proof -
  have cfg: "Config_Load (Some (\<lambda>_. [])) (\<lambda>_. []) = Inr sample_config" unfolding sample_config_def by code_simp
  have comp: "composition (started e) f cfg a = composition e f cfg a" for f cfg a
    by (simp add: composition_def started_def cluster_controller_def machine_controller_def config_controller_def control_plane_controller_def plan_controller_def)
  have agent: "setup_agent (started e) sample_manager_flags s = (Inr (Client sample_service), s)" for s
    by (simp add: setup_agent_def Let_def started_def sample_connector_def sample_manager_flags_def agent_configured_def initFlags_def run_bind run_wrap
      LoadX509KeyPair_def Dial_def catchG_def sample_health)
  have "\<exists>t. setupControllers (started e) sample_manager_flags sample_config [] = (Inr (), t) \<and> 0 \<in> set t"
    by (simp add: setupControllers_def run_bind agent comp) (simp add: composition_def run_bind run_wrap started_def sample_composition_def)
  then obtain t where t: "setupControllers (started e) sample_manager_flags sample_config [] = (Inr (), t)" "0 \<in> set t" by blast
  have "manager_main (started e) sample_manager_flags [] = (Inr (), t)"
    using t(1) cfg unfolding manager_main_def
    by (simp add: run_bind run_wrap managerRestConfig_def setupWebhooks_def addHealthChecks_def liftG_def) (simp add: started_def sample_manager_flags_def run_bind run_wrap)
  with t(2) show ?thesis by blast
qed

theorem controllers_need_healthy_agent_witness:
  "\<forall>e :: (nat list, unit, unit, nat, nat) manager_env. \<exists>t c agent. manager_main (started e) sample_manager_flags [] = (Inr (), t) \<and>
     c \<in> sample_registered e t \<and> checked_agent (started e) sample_manager_flags agent"
proof
  fix e :: "(nat list, unit, unit, nat, nat) manager_env"
  obtain t where t: "manager_main (started e) sample_manager_flags [] = (Inr (), t)" "0 \<in> set t" using sample_starts by blast
  let ?c = "sample_composition e ! 0"
  have c: "?c \<in> sample_registered e t" "?c \<notin> sample_registered e []" using t(2) by (auto simp: sample_registered_def)
  show "\<exists>t c agent. manager_main (started e) sample_manager_flags [] = (Inr (), t) \<and>
     c \<in> sample_registered e t \<and> checked_agent (started e) sample_manager_flags agent"
    using controllers_need_healthy_agent [OF sample_registering t(1) c] t(1) c(1) by blast
qed

end
