(* ===== verification/VmFake.thy ===== *)
theory VmFake
  imports MachineParts
begin

text \<open>
  The programmable VM client of the controller tests (\<open>internal/chclient/fake.go\<close>): it implements the
  interface the machine controller uses, records every call and answers as it was told.
\<close>

record fake_client =
  FC_State :: string
  FC_EnsureRunningErr :: "goerr option"
  FC_ShutdownErr :: "goerr option"
  FC_StopErr :: "goerr option"
  FC_InfoErr :: "goerr option"
  FC_Calls :: "string list"
  FC_NetConfigs :: "string list"
  FC_Firmwares :: "string list"
  FC_DiskPathSets :: "string list list"
  FC_CPUs :: "int32 list"
  FC_RAMs :: "int32 list"

definition FakeClient_SetNetConfig :: "string \<Rightarrow> fake_client \<Rightarrow> fake_client" where
  "FakeClient_SetNetConfig netConfig f = f\<lparr>FC_NetConfigs := FC_NetConfigs f @ [netConfig]\<rparr>"

definition FakeClient_SetFirmware :: "string \<Rightarrow> fake_client \<Rightarrow> fake_client" where
  "FakeClient_SetFirmware firmware f = f\<lparr>FC_Firmwares := FC_Firmwares f @ [firmware]\<rparr>"

definition FakeClient_SetDiskPaths :: "string list \<Rightarrow> fake_client \<Rightarrow> fake_client" where
  "FakeClient_SetDiskPaths paths f = f\<lparr>FC_DiskPathSets := FC_DiskPathSets f @ [paths]\<rparr>"

definition FakeClient_SetCPU :: "int32 \<Rightarrow> fake_client \<Rightarrow> fake_client" where
  "FakeClient_SetCPU cpu f = f\<lparr>FC_CPUs := FC_CPUs f @ [cpu]\<rparr>"

definition FakeClient_SetRAM :: "int32 \<Rightarrow> fake_client \<Rightarrow> fake_client" where
  "FakeClient_SetRAM ramMiB f = f\<lparr>FC_RAMs := FC_RAMs f @ [ramMiB]\<rparr>"

definition FakeClient_EnsureRunning :: "(fake_client, unit) go" where
  "FakeClient_EnsureRunning f = (case FC_EnsureRunningErr f of None \<Rightarrow> Inr () | Some e \<Rightarrow> Inl e, f\<lparr>FC_Calls := FC_Calls f @ [''EnsureRunning'']\<rparr>)"

definition FakeClient_Shutdown :: "(fake_client, unit) go" where
  "FakeClient_Shutdown f = (case FC_ShutdownErr f of None \<Rightarrow> Inr () | Some e \<Rightarrow> Inl e, f\<lparr>FC_Calls := FC_Calls f @ [''Shutdown'']\<rparr>)"

definition FakeClient_Stop :: "(fake_client, unit) go" where
  "FakeClient_Stop f = (case FC_StopErr f of None \<Rightarrow> Inr () | Some e \<Rightarrow> Inl e, f\<lparr>FC_Calls := FC_Calls f @ [''Stop'']\<rparr>)"

definition FakeClient_Info :: "(fake_client, string) go" where
  "FakeClient_Info f = (case FC_InfoErr f of None \<Rightarrow> Inr (FC_State f) | Some e \<Rightarrow> Inl e, f\<lparr>FC_Calls := FC_Calls f @ [''Info'']\<rparr>)"

definition fake_interface :: "(fake_client, unit) vm_interface" where
  "fake_interface = \<lparr>VI_SetNetConfig = (\<lambda>_. FakeClient_SetNetConfig), VI_SetFirmware = (\<lambda>_. FakeClient_SetFirmware),
     VI_SetDiskPaths = (\<lambda>_. FakeClient_SetDiskPaths), VI_SetCPU = (\<lambda>_. FakeClient_SetCPU), VI_SetRAM = (\<lambda>_. FakeClient_SetRAM),
     VI_EnsureRunning = (\<lambda>_. FakeClient_EnsureRunning), VI_Info = (\<lambda>_. FakeClient_Info), VI_Shutdown = (\<lambda>_. FakeClient_Shutdown),
     VI_Stop = (\<lambda>_. FakeClient_Stop)\<rparr>"

section \<open>It answers as programmed\<close>

text \<open>What a test sets, as opposed to what the fake records.\<close>

definition programmed :: "fake_client \<Rightarrow> string \<times> goerr option \<times> goerr option \<times> goerr option \<times> goerr option" where
  "programmed f = (FC_State f, FC_EnsureRunningErr f, FC_ShutdownErr f, FC_StopErr f, FC_InfoErr f)"

text \<open>Every use extends the record of calls and leaves the programme alone.\<close>

definition recorded_on :: "fake_client \<Rightarrow> fake_client \<Rightarrow> bool" where
  "recorded_on f g \<longleftrightarrow> programmed g = programmed f \<and> (\<exists>cs. FC_Calls g = FC_Calls f @ cs)"

interpretation fake_use: go_preorder recorded_on
  by unfold_locales (auto simp: recorded_on_def)

text \<open>
  Whatever a controller does with the fake in between, an operation answers as the test programmed it before.
\<close>

lemma fake_calls: "steps recorded_on FakeClient_EnsureRunning" "steps recorded_on FakeClient_Shutdown" "steps recorded_on FakeClient_Stop"
    "steps recorded_on FakeClient_Info"
  by (auto simp: steps_def recorded_on_def programmed_def FakeClient_EnsureRunning_def FakeClient_Shutdown_def FakeClient_Stop_def FakeClient_Info_def)

lemma fake_answers_as_programmed:
  assumes "steps recorded_on m"
  shows "fst (FakeClient_EnsureRunning (snd (m f))) = fst (FakeClient_EnsureRunning f) \<and> fst (FakeClient_Info (snd (m f))) = fst (FakeClient_Info f) \<and>
    fst (FakeClient_Shutdown (snd (m f))) = fst (FakeClient_Shutdown f) \<and> fst (FakeClient_Stop (snd (m f))) = fst (FakeClient_Stop f)"
proof -
  have "programmed (snd (m f)) = programmed f" using assms by (simp add: steps_def recorded_on_def)
  then show ?thesis by (simp add: programmed_def FakeClient_EnsureRunning_def FakeClient_Info_def FakeClient_Shutdown_def FakeClient_Stop_def split: option.split)
qed

end
