(* ===== verification/Spec2Isabelle.thy ===== *)
theory Spec2Isabelle
  imports LedgerJson ExecutorFiles ControllerLab ProcessSerial K8netdFake ManagerProgram VmFake
begin

text \<open>
  A verification library for a Cluster API provider that runs Kubernetes nodes as
  Cloud Hypervisor virtual machines.

  The program has two halves. On a host, the agent (\<open>cmd/agent\<close>,
  \<open>internal/agent\<close>) executes requests on virtual machines, networks, ports and artifacts: it
  keeps an inventory in a database, journals every mutation, verifies artifacts before it uses
  them, installs systemd units and talks to the Cloud Hypervisor API and to the network daemon
  k8netd. In the management cluster, webhooks (\<open>internal/webhook\<close>) admit the provider's
  objects and controllers (\<open>controllers\<close>) reconcile them; they reach an agent through the
  gRPC client of \<open>internal/agentgrpc\<close>, which implements the same interface as the agent.

  \<^bold>\<open>Ground.\<close>
  \<^item> \<open>Prelude\<close>: errors as sentinel and text, state-and-error computations
    (\<open>bindG\<close>, \<open>catchG\<close>) for Go functions that return early, the locale
    \<open>go_preorder\<close> that carries a reflexive and transitive relation between states through
    every combinator, decimal and string helpers.
  \<^item> \<open>GoPath\<close>, \<open>Json\<close>, \<open>Sha256\<close>, \<open>NetIP\<close>: the parts of Go's
    standard library the sources use (\<open>filepath.Clean/Join/Rel\<close>, JSON marshalling, SHA-256 in
    full, \<open>netip.ParseAddr\<close> and \<open>ParsePrefix\<close>).
  \<^item> \<open>Host\<close>: the file system of a host with symbolic links (at most 255 are followed, as
    Go's \<open>EvalSymlinks\<close> does), in which every system call may fail.

  \<^bold>\<open>The host agent.\<close>
  \<^item> \<open>HostAgent\<close> (\<open>internal/hostagent/hostagent.go\<close>): the interface, its data, the
    validation of requests and the in-memory fake.
  \<^item> \<open>Inventory\<close> (\<open>internal/agent/inventory\<close>): tables, statements and the
    idempotency journal over an engine that may fail at each statement. A recorded outcome is
    replayed for ever. The locales \<open>inventory_relation\<close> and \<open>inventory_table\<close> state what
    a relation on tables and a keyed table need; the executor's invariants are their
    interpretations.
  \<^item> \<open>Ledger\<close> (\<open>internal/agent/ownership/ledger.go\<close>): lookup by binary search,
    registration and the atomic replacement of the file; \<open>LedgerJson\<close> is a JSON codec for it
    with the replacement of invalid UTF-8 that \<open>encoding/json\<close> documents.
  \<^item> \<open>Artifact\<close> (\<open>internal/agent/artifact\<close>): ownership and checksum of files,
    manifests, construction of disks and images. An accepted file is the file below its root with
    the checksum, through every link.
  \<^item> \<open>SystemdUnit\<close> (\<open>internal/agent/systemd\<close>): rendering without injection, quoting
    that reads back, atomic installation.
  \<^item> \<open>ChClient\<close> (\<open>internal/ch\<close>, \<open>internal/chclient\<close>): the Cloud Hypervisor
    API client, net strings and the VM client; \<open>Confext\<close> (\<open>internal/confext\<close>) and
    \<open>Mac\<close> (\<open>internal/mac\<close>).
  \<^item> \<open>Executor\<close>, \<open>ExecutorNet\<close>, \<open>ExecutorVM\<close>,
    \<open>ExecutorArtifacts\<close> (\<open>internal/agent/executor/executor.go\<close>): every method of the
    agent. \<open>ExecutorArtifacts\<close> proves for all of them that rows of other owners do not change
    and that the journal only moves forward (and, as a lemma, that the tables keep the constraints each statement enforces);
    \<open>ExecutorJournal\<close>, \<open>ExecutorPorts\<close>, \<open>ExecutorLifecycle\<close> and
    \<open>ExecutorFiles\<close> hold the behaviour of the methods: idempotence, ports, the life of a
    virtual machine, and the files a deletion removes.
  \<^item> \<open>AgentGrpc\<close>, \<open>AgentRemote\<close> (\<open>internal/agentgrpc\<close>): messages,
    server, client and the identity check; the remote agent refines the agent it serves, up to the error
    classes the transport does not carry.
  \<^item> \<open>Process\<close>, \<open>ProcessSerial\<close> (\<open>internal/ch/process.go\<close>): the manager of
    one hypervisor process as a step relation in which callers, the reaping goroutine and the operating system take turns
    between the sections of the lock. Without overlapping calls it owns its child; with them it does not.
  \<^item> \<open>K8netd\<close>, \<open>K8netdFake\<close> (\<open>internal/k8netd\<close>): the JSON-RPC client of
    the network daemon, its retries and its errors, and the fake daemon of the tests; connected to each other they publish
    ports that are stable and distinct.
  \<^item> \<open>AgentProgram\<close> (\<open>cmd/agent\<close>, \<open>cmd/agent-health\<close>): the programs, with TLS,
    the user bus and the opening of the inventory, and what the agent serves once it is set up.

  \<^bold>\<open>The management cluster.\<close>
  \<^item> \<open>KubeApi\<close> (\<open>api\<close>): the API types, the client of the API server and the
    libraries as parameters.
  \<^item> \<open>Webhooks\<close>, \<open>Admission\<close> (\<open>internal/webhook\<close>): defaulting and
    validation, and specifications without loops of what is admitted.
  \<^item> \<open>UpgradePlan\<close> (\<open>controllers/hypervisorupgradeplan_controller.go\<close>):
    \<open>Reconcile\<close> with all its branches. \<open>UpgradeRun\<close> is the abstract machine of one plan
    with its invariant and its rank, \<open>UpgradeRefines\<close> proves that the
    controller refines it against an API server with stale caches, concurrent writers and failing
    calls, so that the records of a plan are true and its runs change it a bounded number of times,
    \<open>UpgradeLive\<close> that a plan whose cluster converges finishes, \<open>UpgradeTrace\<close> that
    for every client a run pauses the workers it lists before it moves the control plane, and
    \<open>UpgradeLab\<close> is a server with optimistic locking in which all this can be seen.
  \<^item> \<open>Provider\<close>: what the four infrastructure controllers share: the client of the API
    server, the agent and k8netd behind a reconciler, references, addresses and published ports.
    \<open>ProviderConfig\<close> (\<open>internal/config\<close>) is the environment of the manager,
    \<open>Manager\<close> (\<open>main.go\<close>, \<open>internal/etcdsnap\<close>) the functions it
    wires into the controllers and the objects it seeds into a workload cluster.
  \<^item> \<open>ClusterController\<close>, \<open>ConfigController\<close>: \<open>Reconcile\<close> of
    \<open>controllers/hypervisorcluster_controller.go\<close> and of
    \<open>controllers/hypervisorconfig_controller.go\<close>. \<open>Base64\<close> and \<open>TreeBlob\<close>
    encode a tree of files as the text of a Secret and decode it, \<open>BootTrees\<close>
    (\<open>internal/confexttree\<close>, \<open>internal/cloudinit\<close>) builds the trees,
    \<open>ClusterPki\<close> the Secret of the certificates and kubeconfigs. \<open>Certificates\<close>
    (\<open>internal/pki\<close>) generates keys and certificates over a record of the X.509 library, with the laws it
    documents as a hypothesis, and proves the chains of trust.
  \<^item> \<open>MachineParts\<close>, \<open>MachineController\<close>
    (\<open>controllers/hypervisormachine_controller.go\<close>): network identity, image, disks, bootstrap
    data, the life of the VM and deletion, through the agent and through the direct seams. \<open>VmFake\<close>
    (\<open>internal/chclient/fake.go\<close>) is the VM client of the tests.
  \<^item> \<open>ControlPlaneController\<close>, \<open>ControlPlaneReconcile\<close>
    (\<open>controllers/hypervisorcontrolplane_controller.go\<close>): replicas, replacement of machines of
    another version, counters, readiness and the kubeconfig.
  \<^item> \<open>ApiLog\<close>: the writes of a controller as a log of the API server. The relation that
    every write of a run is of a permitted kind interprets \<open>go_preorder\<close>, so each
    controller is followed call by call, whatever the calls answer.
  \<^item> \<open>ControlPlaneSafety\<close>: a machine is deleted only when its replacement is recorded, and
    a replacement is recorded only once the etcd of that machine is saved to the recorded path;
    \<open>SnapshotRestore\<close>: its replacement boots from exactly that snapshot, and when it does not;
    \<open>PortReservation\<close>: the reservation of an address against the executor of the agent;
    \<open>MachineSafety\<close>: readiness, endpoints, deletion and what a successful run has done;
    \<open>Bootstrap\<close>: rendered data reaches the agent, and is announced only when stored;
    \<open>ClusterSafety\<close>: the network of a cluster, and counters that do not wrap.
  \<^item> \<open>ProviderLab\<close>, \<open>ControllerLab\<close>: an API server in memory with a log, on
    which the controllers run; it satisfies what the theorems ask of their parameters.
  \<^item> \<open>ManagerProgram\<close> (\<open>main.go\<close>, \<open>version\<close>): flags, the connection to the
    agent, the composition of the five controllers from the parts above, and the registration of controllers, webhooks and
    health checks; controllers are registered only once an agent has answered.

  \<^bold>\<open>Conventions.\<close> A struct is a record, an error result a sum with the error on the left,
  \<open>nil\<close> is \<open>None\<close>, and a mutated argument is returned. Code outside the repository is a
  parameter: the database engine's failures, the D-Bus connection, the HTTP transport, programs the
  agent runs, the network daemon, the clock, the API server, semantic versions and the helpers of
  the Kubernetes libraries. What a theorem needs of a parameter is a named hypothesis, and its
  witness instantiates the parameter. Integers whose width matters are words; paths, names and
  documents are byte strings. Every function is total: of the loops that poll,
  \<open>waitForSocket\<close> is bounded by its deadline (201 polls of 50 milliseconds reach the 10
  seconds) and the dialling of k8netd by two seconds of growing delays or the deadline of its context, \<open>WaitReady\<close> is a
  relation that may be left at any poll, and a plan's progress is bounded by its steps.

  \<^bold>\<open>Not modelled.\<close> Bytes on connections: a gRPC call delivers its message unchanged, k8netd
  exchanges JSON values, and the database, the bus and TLS are parameters. The text of the SQL statements, the parsing of
  command lines, the watches a controller registers (\<open>SetupWithManager\<close>) and the typed adapters of the
  webhooks that only delegate, the startup window and grace period of the process manager as times, the generated code (deep
  copies of the API types, protocol buffers) and the helpers of the test environment. Events are calls that change no
  object; the time stamps of conditions are left to the library that sets them.
\<close>

end
